(* ===== verification/Prelude.thy ===== *)
theory Prelude
  imports Complex_Main "HOL-Library.Sublist" "HOL-Library.Char_ord" "HOL-Library.List_Lexorder"
begin

text \<open>
  What every component shares. The validators under \<^verbatim>\<open>src/qa\<close> are Python
  functions that either return or raise one of a small family of exceptions, so a call is modelled
  as a value of \<open>exn + 'a\<close>: \<open>Inl\<close> of the exception that escapes, or \<open>Inr\<close> of
  the value returned. This theory holds the exceptions, the sequencing of statements
  (\<open>bindE\<close>, \<open>thenE\<close>), Python's loops over a sequence (\<open>forE\<close>, \<open>mapE\<close>,
  \<open>foldE\<close>), the string operations the sources call, and the collection \<open>ok_iff\<close>
  with which a successful run is read back as the list of checks that it passed.

  Python strings are sequences of code points. The model's strings hold the code points below 256,
  and the character classes and case mappings are Python's on that range; a code point from 256 on
  is not representable. \<open>str.casefold\<close> maps U+00B5 outside the range, so it is left alone
  here; every needle the sources look for is ASCII, and no comparison can tell the difference.
\<close>

named_theorems ok_iff "a call returned if and only if its checks passed"
named_theorems err_iff "a call raised, and which exception"

text \<open>A formatted string literal, piece by piece; opaque to the simplifier.\<close>

definition msg :: "string list \<Rightarrow> string" where
  "msg pieces = concat pieces"

section \<open>Exceptions and results\<close>

text \<open>
  One constructor per exception class that the modelled code raises, catches or lets through.
  The argument of the project's own exceptions is the message; \<open>JSONDecodeError\<close> carries
  \<^verbatim>\<open>exc.pos\<close>, \<^verbatim>\<open>exc.msg\<close> and \<^verbatim>\<open>str(exc)\<close>.
\<close>

datatype (discs_sels) exn =
    FileNotFoundError string
  | OSError string
  | UnicodeError string
  | JSONDecodeError nat string string
  | KeyError string
  | IndexError string
  | TypeError string
  | ValueError string
  | OverflowError string
  | RecursionError string
  | MatrixRunContractError string
  | MatrixBenchmarkProvenanceError string
  | BenchmarkOutputError string
  | RuntimeSampleError string
  | PolicyAbiError string
  | ContractError string
  | ContractPackError string
  | LiveBehaviorError string
  | AuditLedgerError string
  | ObserveSummaryError string
  | PartialAttachError string
  | EvidenceSafetyError string string
  | RunnerProofError string
  | RunnerCleanlinessError string
  | ProtectedReviewError string
  | ProtectedCoreTelemetryError string
  | ProtectedCoreSuiteError string
  | BackendSummaryError string
  | LabSummaryError string
  | BpfArtifactError string
  | VMVerifierError string
  | VerifierRefusalError string
  | VerifierLogError string
  | ManifestError string
  | LiveEvidenceError string
  | FreshnessCheckError string
  | SystemExit string
  | BundleCompareError string
  | GovernanceManifestError string

type_synonym 'a result = "exn + 'a"
type_synonym check = "unit result"

definition bindE :: "'a result \<Rightarrow> ('a \<Rightarrow> 'b result) \<Rightarrow> 'b result" where
  "bindE m f = (case m of Inl e \<Rightarrow> Inl e | Inr x \<Rightarrow> f x)"

definition thenE :: "check \<Rightarrow> 'a result \<Rightarrow> 'a result" where
  "thenE m n = (case m of Inl e \<Rightarrow> Inl e | Inr _ \<Rightarrow> n)"

text \<open>\<^verbatim>\<open>if cond: raise e\<close>.\<close>

definition raise_if :: "bool \<Rightarrow> exn \<Rightarrow> check" where
  "raise_if c e = (if c then Inl e else Inr ())"

text \<open>A \<^verbatim>\<open>for\<close> loop whose body only checks, one that collects a list, one that threads a
  state.\<close>

fun forE :: "('a \<Rightarrow> check) \<Rightarrow> 'a list \<Rightarrow> check" where
  "forE f [] = Inr ()"
| "forE f (x # xs) = thenE (f x) (forE f xs)"

fun mapE :: "('a \<Rightarrow> 'b result) \<Rightarrow> 'a list \<Rightarrow> 'b list result" where
  "mapE f [] = Inr []"
| "mapE f (x # xs) = bindE (f x) (\<lambda>y. bindE (mapE f xs) (\<lambda>ys. Inr (y # ys)))"

fun foldE :: "('s \<Rightarrow> 'a \<Rightarrow> 's result) \<Rightarrow> 's \<Rightarrow> 'a list \<Rightarrow> 's result" where
  "foldE f s [] = Inr s"
| "foldE f s (x # xs) = bindE (f s x) (\<lambda>s'. foldE f s' xs)"

text \<open>\<^verbatim>\<open>enumerate(xs, start)\<close>.\<close>

definition enumerate_from :: "nat \<Rightarrow> 'a list \<Rightarrow> (nat \<times> 'a) list" where
  "enumerate_from n xs = zip [n..<n + length xs] xs"

text \<open>\<^verbatim>\<open>try: m  except C as exc: raise h(exc) from exc\<close>, with the classes caught as a predicate.\<close>

definition reraise :: "(exn \<Rightarrow> bool) \<Rightarrow> (exn \<Rightarrow> exn) \<Rightarrow> 'a result \<Rightarrow> 'a result" where
  "reraise caught h m = (case m of Inl e \<Rightarrow> Inl (if caught e then h e else e) | Inr x \<Rightarrow> Inr x)"

lemma bindE_simps [simp]:
  "bindE (Inr x) f = f x"
  "bindE (Inl e) f = Inl e"
  by (simp_all add: bindE_def)

lemma thenE_simps [simp]:
  "thenE (Inr u) n = n"
  "thenE (Inl e) n = Inl e"
  by (simp_all add: thenE_def)

lemma bindE_ok_iff [ok_iff]: "bindE m f = Inr y \<longleftrightarrow> (\<exists>x. m = Inr x \<and> f x = Inr y)"
  by (cases m) auto

lemma thenE_ok_iff [ok_iff]: "thenE m n = Inr y \<longleftrightarrow> m = Inr () \<and> n = Inr y"
  by (cases m) auto

lemma raise_if_ok_iff [ok_iff]: "raise_if c e = Inr u \<longleftrightarrow> \<not> c"
  by (simp add: raise_if_def)

lemma if_ok_iff [ok_iff]: "(if c then m else n) = Inr x \<longleftrightarrow> (if c then m = Inr x else n = Inr x)"
  by simp

lemma case_prod_ok_iff [ok_iff]: "case_prod f p = Inr x \<longleftrightarrow> case_prod (\<lambda>a b. f a b = Inr x) p"
  by (cases p) simp

lemma guarded_ok_iff: "(if b then m else Inr ()) = Inr u \<longleftrightarrow> (b \<longrightarrow> m = Inr ())"
  by auto

lemma ignore_result_ok_iff: "bindE m (\<lambda>_. Inr ()) = Inr u \<longleftrightarrow> (\<exists>x. m = Inr x)"
  by (simp add: bindE_ok_iff)

lemma case_option_Inl: "(case v of None \<Rightarrow> Inl e | Some x \<Rightarrow> f x) = Inr y \<longleftrightarrow> (\<exists>x. v = Some x \<and> f x = Inr y)"
  by (cases v) simp_all

lemma case_option_ok_iff:
  "(case v of None \<Rightarrow> m | Some x \<Rightarrow> f x) = Inr y \<longleftrightarrow> (case v of None \<Rightarrow> m = Inr y | Some x \<Rightarrow> f x = Inr y)"
  by (cases v) simp_all

lemma bindE_err_iff [err_iff]: "bindE m f = Inl e \<longleftrightarrow> m = Inl e \<or> (\<exists>x. m = Inr x \<and> f x = Inl e)"
  by (cases m) auto

lemma thenE_err_iff [err_iff]: "thenE m n = Inl e \<longleftrightarrow> m = Inl e \<or> m = Inr () \<and> n = Inl e"
  by (cases m) auto

lemma raise_if_err_iff [err_iff]: "raise_if c e = Inl e' \<longleftrightarrow> c \<and> e' = e"
  by (auto simp: raise_if_def)

lemma forE_ok_iff [ok_iff]: "forE f xs = Inr u \<longleftrightarrow> (\<forall>x\<in>set xs. f x = Inr ())"
  by (induction xs) (auto simp: thenE_ok_iff)

lemma forE_cong [fundef_cong]:
  "xs = ys \<Longrightarrow> (\<And>x. x \<in> set ys \<Longrightarrow> f x = g x) \<Longrightarrow> forE f xs = forE g ys"
  by (induction xs arbitrary: ys) auto

lemma forE_err: "forE f xs = Inl e \<Longrightarrow> \<exists>x\<in>set xs. f x = Inl e"
  by (induction xs) (auto simp: thenE_err_iff)

lemma mapE_err: "mapE f xs = Inl e \<Longrightarrow> \<exists>x\<in>set xs. f x = Inl e"
  by (induction xs) (auto simp: bindE_err_iff)

lemma mapE_ok_iff: "mapE f xs = Inr ys \<longleftrightarrow> list_all2 (\<lambda>x y. f x = Inr y) xs ys"
  by (induction xs arbitrary: ys) (auto simp: bindE_ok_iff list_all2_Cons1)

lemma list_all2_right: "list_all2 P xs ys \<Longrightarrow> y \<in> set ys \<Longrightarrow> \<exists>x\<in>set xs. P x y"
  by (induction rule: list_all2_induct) auto

lemma list_all2_left: "list_all2 P xs ys \<Longrightarrow> x \<in> set xs \<Longrightarrow> \<exists>y\<in>set ys. P x y"
  by (induction rule: list_all2_induct) auto

lemma foldE_err: "foldE f s xs = Inl e \<Longrightarrow> \<exists>x\<in>set xs. \<exists>s'. f s' x = Inl e"
  by (induction xs arbitrary: s) (auto simp: bindE_err_iff)

lemma foldE_append:
  "foldE f s (xs @ ys) = bindE (foldE f s xs) (\<lambda>s'. foldE f s' ys)"
  by (induction xs arbitrary: s) (auto simp: bindE_def split: sum.splits)

lemma reraise_ok_iff [ok_iff]: "reraise c h m = Inr x \<longleftrightarrow> m = Inr x"
  by (cases m) (auto simp: reraise_def)

lemma reraise_err_iff [err_iff]:
  "reraise c h m = Inl e \<longleftrightarrow> (\<exists>e'. m = Inl e' \<and> e = (if c e' then h e' else e'))"
  by (cases m) (auto simp: reraise_def)

lemma enumerate_from_simps [simp]:
  "enumerate_from n [] = []"
  "enumerate_from n (x # xs) = (n, x) # enumerate_from (Suc n) xs"
  by (simp_all add: enumerate_from_def upt_rec)

lemma set_enumerate_from: "set (enumerate_from n xs) = {(n + i, xs ! i) | i. i < length xs}"
  by (force simp: enumerate_from_def set_zip)

lemma enumerate_from_mem: "(i, x) \<in> set (enumerate_from n xs) \<Longrightarrow> x \<in> set xs"
  by (auto simp: set_enumerate_from)

lemma enumerate_from_append:
  "enumerate_from n (xs @ ys) = enumerate_from n xs @ enumerate_from (n + length xs) ys"
  by (induction xs arbitrary: n) simp_all

lemma enumerate_from_index: "x \<in> set xs \<Longrightarrow> \<exists>i. (i, x) \<in> set (enumerate_from n xs)"
  by (auto simp: set_enumerate_from in_set_conv_nth)

lemma snd_enumerate_from [simp]: "map snd (enumerate_from n xs) = xs"
  by (simp add: enumerate_from_def)

text \<open>The index of an item occurs in messages only.\<close>

lemma forE_enumerate_ok_iff:
  assumes "\<And>i x. f (i, x) = Inr () \<longleftrightarrow> P x"
  shows "forE f (enumerate_from n xs) = Inr u \<longleftrightarrow> (\<forall>x \<in> set xs. P x)"
proof -
  have "f p = Inr () \<longleftrightarrow> P (snd p)" for p using assms[of "fst p" "snd p"] by simp
  then have "forE f (enumerate_from n xs) = Inr u \<longleftrightarrow> (\<forall>x \<in> set (map snd (enumerate_from n xs)). P x)"
    unfolding forE_ok_iff set_map by simp
  then show ?thesis by simp
qed

lemma mapE_enumerate_ok_iff:
  assumes "\<And>i x y. f (i, x) = Inr y \<longleftrightarrow> P x y"
  shows "mapE f (enumerate_from n xs) = Inr ys \<longleftrightarrow> list_all2 P xs ys"
  by (induction xs arbitrary: n ys) (auto simp: bindE_ok_iff assms list_all2_Cons1)

text \<open>An invariant of a loop that threads a state.\<close>

lemma foldE_invariant:
  assumes "foldE f s xs = Inr s'" and "I s"
    and "\<And>s x s'. x \<in> set xs \<Longrightarrow> I s \<Longrightarrow> f s x = Inr s' \<Longrightarrow> I s'"
  shows "I s'"
  using assms
proof (induction xs arbitrary: s)
  case Nil
  then show ?case by simp
next
  case (Cons x xs)
  then obtain t where "f s x = Inr t" and "foldE f t xs = Inr s'"
    by (auto simp: bindE_ok_iff)
  with Cons.prems(2,3) show ?case
    by (intro Cons.IH[of t]) auto
qed

text \<open>Every round of a loop that returned did return.\<close>

lemma foldE_step:
  assumes "foldE f s xs = Inr s'" and "x \<in> set xs"
  shows "\<exists>t u. f t x = Inr u"
  using assms
proof (induction xs arbitrary: s)
  case Nil
  then show ?case by simp
next
  case (Cons y ys)
  then obtain t where "f s y = Inr t" and "foldE f t ys = Inr s'"
    by (auto simp: bindE_ok_iff)
  with Cons.IH[of t] Cons.prems(2) show ?case by auto
qed

text \<open>
  Which exceptions a call can let through. The rules follow the shape of the code, so that a claim
  about a whole validator is proved by walking through it.
\<close>

named_theorems raises_intro "which exceptions a statement can let through"

definition raises :: "(exn \<Rightarrow> bool) \<Rightarrow> 'a result \<Rightarrow> bool" where
  "raises P m \<longleftrightarrow> (\<forall>e. m = Inl e \<longrightarrow> P e)"

lemma raisesD: "raises P m \<Longrightarrow> m = Inl e \<Longrightarrow> P e"
  by (simp add: raises_def)

lemma raises_Inr [raises_intro]: "raises P (Inr x)"
  by (simp add: raises_def)

lemma raises_Inl [raises_intro]: "P e \<Longrightarrow> raises P (Inl e)"
  by (simp add: raises_def)

lemma raises_bindE [raises_intro]:
  "raises P m \<Longrightarrow> (\<And>x. m = Inr x \<Longrightarrow> raises P (f x)) \<Longrightarrow> raises P (bindE m f)"
  by (auto simp: raises_def bindE_err_iff)

lemma raises_thenE [raises_intro]:
  "raises P m \<Longrightarrow> (m = Inr () \<Longrightarrow> raises P n) \<Longrightarrow> raises P (thenE m n)"
  by (auto simp: raises_def thenE_err_iff)

lemma raises_raise_if [raises_intro]: "P e \<Longrightarrow> raises P (raise_if c e)"
  by (auto simp: raises_def raise_if_def)

lemma raises_forE [raises_intro]: "(\<And>x. x \<in> set xs \<Longrightarrow> raises P (f x)) \<Longrightarrow> raises P (forE f xs)"
  by (auto simp: raises_def dest: forE_err)

lemma raises_mapE [raises_intro]: "(\<And>x. x \<in> set xs \<Longrightarrow> raises P (f x)) \<Longrightarrow> raises P (mapE f xs)"
  by (auto simp: raises_def dest: mapE_err)

lemma raises_foldE [raises_intro]:
  "(\<And>s x. x \<in> set xs \<Longrightarrow> raises P (f s x)) \<Longrightarrow> raises P (foldE f s xs)"
  by (induction xs arbitrary: s) (auto intro!: raises_Inr raises_bindE)

lemma raises_if [raises_intro]:
  "(c \<Longrightarrow> raises P m) \<Longrightarrow> (\<not> c \<Longrightarrow> raises P n) \<Longrightarrow> raises P (if c then m else n)"
  by simp

lemma raises_case_option [raises_intro]:
  "(v = None \<Longrightarrow> raises P m) \<Longrightarrow> (\<And>x. v = Some x \<Longrightarrow> raises P (f x)) \<Longrightarrow>
     raises P (case v of None \<Rightarrow> m | Some x \<Rightarrow> f x)"
  by (cases v) auto

lemma raises_case_sum:
  "(\<And>e. m = Inl e \<Longrightarrow> raises P (f e)) \<Longrightarrow> (\<And>x. m = Inr x \<Longrightarrow> raises P (g x)) \<Longrightarrow>
     raises P (case m of Inl e \<Rightarrow> f e | Inr x \<Rightarrow> g x)"
  by (cases m) auto

lemma raises_case_prod [raises_intro]:
  "(\<And>a b. p = (a, b) \<Longrightarrow> raises P (f a b)) \<Longrightarrow> raises P (case p of (a, b) \<Rightarrow> f a b)"
  by (cases p) auto

lemma raises_reraise [raises_intro]:
  "raises (\<lambda>e. P (if c e then h e else e)) m \<Longrightarrow> raises P (reraise c h m)"
  by (auto simp: raises_def reraise_def split: sum.splits)

lemma raises_weaken: "raises P m \<Longrightarrow> (\<And>e. P e \<Longrightarrow> Q e) \<Longrightarrow> raises Q m"
  by (auto simp: raises_def)

section \<open>Python strings\<close>

abbreviation code :: "char \<Rightarrow> int" where
  "code c \<equiv> of_char c"

definition in_range :: "int \<Rightarrow> int \<Rightarrow> char \<Rightarrow> bool" where
  "in_range lo hi c \<longleftrightarrow> lo \<le> code c \<and> code c \<le> hi"

definition is_digit_char :: "char \<Rightarrow> bool" where
  "is_digit_char c \<longleftrightarrow> in_range 48 57 c"

definition is_hex_char :: "char \<Rightarrow> bool" where
  "is_hex_char c \<longleftrightarrow> in_range 48 57 c \<or> in_range 97 102 c"

definition is_upper_ascii :: "char \<Rightarrow> bool" where
  "is_upper_ascii c \<longleftrightarrow> in_range 65 90 c"

definition is_lower_ascii :: "char \<Rightarrow> bool" where
  "is_lower_ascii c \<longleftrightarrow> in_range 97 122 c"

definition is_alnum_ascii :: "char \<Rightarrow> bool" where
  "is_alnum_ascii c \<longleftrightarrow> is_digit_char c \<or> is_upper_ascii c \<or> is_lower_ascii c"

definition is_space_char :: "char \<Rightarrow> bool" where
  "is_space_char c \<longleftrightarrow> in_range 9 13 c \<or> in_range 28 32 c \<or> code c = 133 \<or> code c = 160"

text \<open>\<^verbatim>\<open>\w\<close> of a Unicode pattern: the alphanumeric characters and the underscore.\<close>

definition is_word_char :: "char \<Rightarrow> bool" where
  "is_word_char c \<longleftrightarrow> is_alnum_ascii c \<or> code c = 95 \<or>
     code c \<in> {170, 178, 179, 181, 185, 186, 188, 189, 190} \<or>
     (192 \<le> code c \<and> code c \<noteq> 215 \<and> code c \<noteq> 247)"

definition has_lower_char :: "char \<Rightarrow> bool" where
  "has_lower_char c \<longleftrightarrow> in_range 65 90 c \<or> in_range 192 222 c \<and> code c \<noteq> 215"

definition lower_char :: "char \<Rightarrow> char" where
  "lower_char c = (if has_lower_char c then char_of (code c + 32) else c)"

definition lower :: "string \<Rightarrow> string" where
  "lower s = map lower_char s"

definition casefold :: "string \<Rightarrow> string" where
  "casefold s = concat (map (\<lambda>c. if c = CHR 0xDF then ''ss'' else [lower_char c]) s)"

text \<open>\<^verbatim>\<open>needle in s\<close>.\<close>

fun contains :: "string \<Rightarrow> string \<Rightarrow> bool" where
  "contains needle [] \<longleftrightarrow> needle = []"
| "contains needle (c # cs) \<longleftrightarrow> prefix needle (c # cs) \<or> contains needle cs"

definition isdecimal :: "string \<Rightarrow> bool" where
  "isdecimal s \<longleftrightarrow> s \<noteq> [] \<and> list_all is_digit_char s"

text \<open>\<^verbatim>\<open>str.isdigit\<close> also accepts the superscript digits U+00B2, U+00B3 and U+00B9.\<close>

definition isdigit :: "string \<Rightarrow> bool" where
  "isdigit s \<longleftrightarrow> s \<noteq> [] \<and> list_all (\<lambda>c. is_digit_char c \<or> c \<in> {CHR 0xB2, CHR 0xB3, CHR 0xB9}) s"

definition digits_value :: "string \<Rightarrow> int" where
  "digits_value s = foldl (\<lambda>v c. 10 * v + (code c - 48)) 0 s"

text \<open>
  \<^verbatim>\<open>int(s)\<close> on a string of characters that \<^verbatim>\<open>str.isdigit\<close> accepts: a decimal
  literal of at most 4300 digits (the interpreter's limit on such conversions) has a value, anything
  else raises.
\<close>

definition py_int :: "string \<Rightarrow> int result" where
  "py_int s =
     (if isdecimal s \<and> length s \<le> 4300 then Inr (digits_value s)
      else Inl (ValueError (msg [''invalid literal for int(): '', s])))"

fun strip_left :: "string \<Rightarrow> string" where
  "strip_left [] = []"
| "strip_left (c # cs) = (if is_space_char c then strip_left cs else c # cs)"

definition strip :: "string \<Rightarrow> string" where
  "strip s = rev (strip_left (rev (strip_left s)))"

text \<open>\<^verbatim>\<open>str.splitlines\<close>: a line ends at any of the line boundaries, and CR LF is one.\<close>

definition is_line_break :: "char \<Rightarrow> bool" where
  "is_line_break c \<longleftrightarrow> in_range 10 13 c \<or> in_range 28 30 c \<or> code c = 133"

fun splitlines_acc :: "string \<Rightarrow> string \<Rightarrow> string list" where
  "splitlines_acc acc [] = (if acc = [] then [] else [rev acc])"
| "splitlines_acc acc [c] = (if is_line_break c then [rev acc] else [rev (c # acc)])"
| "splitlines_acc acc (c # d # cs) =
     (if c = CHR 0x0D \<and> d = CHR 0x0A then rev acc # splitlines_acc [] cs
      else if is_line_break c then rev acc # splitlines_acc [] (d # cs)
      else splitlines_acc (c # acc) (d # cs))"

definition splitlines :: "string \<Rightarrow> string list" where
  "splitlines s = splitlines_acc [] s"

fun join :: "string \<Rightarrow> string list \<Rightarrow> string" where
  "join sep [] = []"
| "join sep [x] = x"
| "join sep (x # y # xs) = x @ sep @ join sep (y # xs)"

text \<open>\<^verbatim>\<open>s.split(c)\<close> for a single character.\<close>

fun split_on :: "char \<Rightarrow> string \<Rightarrow> string list" where
  "split_on sep [] = [[]]"
| "split_on sep (c # cs) =
     (case split_on sep cs of
        [] \<Rightarrow> [[c]]
      | w # ws \<Rightarrow> if c = sep then [] # w # ws else (c # w) # ws)"

definition digit_char :: "nat \<Rightarrow> char" where
  "digit_char n = ''0123456789'' ! n"

fun show_nat :: "nat \<Rightarrow> string" where
  "show_nat n = (if n < 10 then [digit_char n] else show_nat (n div 10) @ [digit_char (n mod 10)])"

declare show_nat.simps [simp del]

definition show_int :: "int \<Rightarrow> string" where
  "show_int i = (if i < 0 then ''-'' @ show_nat (nat (- i)) else show_nat (nat i))"

text \<open>\<^verbatim>\<open>sorted(set(xs) - ys)\<close>.\<close>

definition sorted_diff :: "string list \<Rightarrow> string list \<Rightarrow> string list" where
  "sorted_diff xs ys = sort (remdups (filter (\<lambda>x. x \<notin> set ys) xs))"

definition sorted_set :: "string list \<Rightarrow> string list" where
  "sorted_set xs = sort (remdups xs)"

text \<open>Whether a tuple of tokens occurs as a contiguous run, as the loops over slices decide it.\<close>

definition has_run :: "string list \<Rightarrow> string list \<Rightarrow> bool" where
  "has_run pat toks \<longleftrightarrow>
     length pat \<le> length toks \<and>
     list_ex (\<lambda>i. take (length pat) (drop i toks) = pat) [0..<Suc (length toks - length pat)]"

lemma contains_iff: "contains n s \<longleftrightarrow> (\<exists>a b. s = a @ n @ b)"
proof (induction s)
  case Nil
  then show ?case by simp
next
  case (Cons c cs)
  have "(\<exists>a b. c # cs = a @ n @ b) \<longleftrightarrow>
      (\<exists>b. c # cs = n @ b) \<or> (\<exists>a b. cs = a @ n @ b)"
  proof
    assume "\<exists>a b. c # cs = a @ n @ b"
    then obtain a b where "c # cs = a @ n @ b" by blast
    then show "(\<exists>b. c # cs = n @ b) \<or> (\<exists>a b. cs = a @ n @ b)"
      by (cases a) auto
  next
    assume "(\<exists>b. c # cs = n @ b) \<or> (\<exists>a b. cs = a @ n @ b)"
    then show "\<exists>a b. c # cs = a @ n @ b"
      by (metis append_Cons append_Nil)
  qed
  then show ?case
    by (auto simp: Cons prefix_def)
qed

lemma contains_append: "contains n s \<Longrightarrow> contains n (a @ s @ b)"
  unfolding contains_iff by (metis append.assoc)

lemma has_run_iff: "has_run pat toks \<longleftrightarrow> (\<exists>a b. toks = a @ pat @ b)"
proof
  assume "has_run pat toks"
  then obtain i where "take (length pat) (drop i toks) = pat"
    unfolding has_run_def list_ex_iff by blast
  then have "drop i toks = pat @ drop (length pat) (drop i toks)"
    by (metis append_take_drop_id)
  then have "toks = take i toks @ pat @ drop (length pat) (drop i toks)"
    by (metis append_take_drop_id)
  then show "\<exists>a b. toks = a @ pat @ b" by blast
next
  assume "\<exists>a b. toks = a @ pat @ b"
  then obtain a b where eq: "toks = a @ pat @ b" by blast
  then have "length a \<in> set [0..<Suc (length toks - length pat)]" by simp
  moreover have "take (length pat) (drop (length a) toks) = pat"
    by (simp add: eq)
  moreover have "length pat \<le> length toks"
    by (simp add: eq)
  ultimately show "has_run pat toks"
    unfolding has_run_def list_ex_iff by blast
qed

lemma set_sorted_diff [simp]: "set (sorted_diff xs ys) = set xs - set ys"
  by (auto simp: sorted_diff_def)

lemma sorted_diff_empty_iff [simp]: "sorted_diff xs ys = [] \<longleftrightarrow> set xs \<subseteq> set ys"
  by (metis Diff_eq_empty_iff set_empty set_sorted_diff)

lemma sorted_sorted_diff: "sorted (sorted_diff xs ys)"
  by (simp add: sorted_diff_def)

lemma length_lower [simp]: "length (lower s) = length s"
  by (simp add: lower_def)

lemma lower_append [simp]: "lower (s @ t) = lower s @ lower t"
  by (simp add: lower_def)

lemma split_on_not_Nil [simp]: "split_on sep s \<noteq> []"
  by (induction s) (auto split: list.splits)

lemma join_split_on: "join [sep] (split_on sep s) = s"
proof (induction s)
  case Nil
  then show ?case by simp
next
  case (Cons c cs)
  then show ?case
    by (cases "split_on sep cs"; cases "tl (split_on sep cs)") auto
qed

lemma split_on_no_sep: "w \<in> set (split_on sep s) \<Longrightarrow> sep \<notin> set w"
  by (induction s arbitrary: w) (auto split: list.splits if_splits)

lemma split_on_append: "split_on sep (x @ sep # y) = split_on sep x @ split_on sep y"
proof (induction x)
  case Nil
  then show ?case by (cases "split_on sep y") auto
next
  case (Cons c x)
  then show ?case by (cases "split_on sep x") auto
qed

lemma split_on_single: "sep \<notin> set w \<Longrightarrow> split_on sep w = [w]"
  by (induction w) auto

lemma split_on_hd: "hd (split_on sep s) = takeWhile (\<lambda>c. c \<noteq> sep) s"
  by (induction s) (auto split: list.splits)

lemma split_on_tl: "w \<in> set (tl (split_on sep s)) \<Longrightarrow> \<exists>a b. s = a @ sep # w @ b \<and> (b = [] \<or> hd b = sep)"
proof (induction s)
  case Nil
  then show ?case by simp
next
  case (Cons c s)
  obtain v vs where vs: "split_on sep s = v # vs" by (cases "split_on sep s") auto
  consider "w \<in> set vs" | "c = sep" "w = v" using Cons.prems vs by (auto split: if_splits)
  then show ?case
  proof cases
    case 1
    with Cons.IH vs obtain a b where "s = a @ sep # w @ b" "b = [] \<or> hd b = sep" by auto
    then show ?thesis by (intro exI[of _ "c # a"] exI[of _ b]) simp
  next
    case 2
    have "w = takeWhile (\<lambda>x. x \<noteq> sep) s" using 2 vs split_on_hd[of sep s] by simp
    then have "s = w @ dropWhile (\<lambda>x. x \<noteq> sep) s" by simp
    moreover have "dropWhile (\<lambda>x. x \<noteq> sep) s = [] \<or> hd (dropWhile (\<lambda>x. x \<noteq> sep) s) = sep"
      using hd_dropWhile[of "\<lambda>x. x \<noteq> sep" s] by blast
    ultimately show ?thesis using 2(1) by (intro exI[of _ "[]"] exI[of _ "dropWhile (\<lambda>x. x \<noteq> sep) s"]) simp
  qed
qed

text \<open>A component of a split is a piece without separator between separators or ends.\<close>

lemma in_split_on_iff:
  assumes "sep \<notin> set w"
  shows "w \<in> set (split_on sep s) \<longleftrightarrow> (\<exists>a b. s = a @ w @ b \<and> (a = [] \<or> last a = sep) \<and> (b = [] \<or> hd b = sep))"
proof
  assume mem: "w \<in> set (split_on sep s)"
  show "\<exists>a b. s = a @ w @ b \<and> (a = [] \<or> last a = sep) \<and> (b = [] \<or> hd b = sep)"
  proof (cases "w = hd (split_on sep s)")
    case True
    then have "s = [] @ w @ dropWhile (\<lambda>x. x \<noteq> sep) s" by (simp add: split_on_hd)
    then show ?thesis using hd_dropWhile[of "\<lambda>x. x \<noteq> sep" s] by blast
  next
    case False
    with mem have "w \<in> set (tl (split_on sep s))" by (cases "split_on sep s") auto
    then obtain a b where "s = a @ sep # w @ b" "b = [] \<or> hd b = sep" using split_on_tl by metis
    then show ?thesis by (intro exI[of _ "a @ [sep]"] exI[of _ b]) simp
  qed
next
  assume "\<exists>a b. s = a @ w @ b \<and> (a = [] \<or> last a = sep) \<and> (b = [] \<or> hd b = sep)"
  then obtain a b where s: "s = a @ w @ b" and a: "a = [] \<or> last a = sep" and b: "b = [] \<or> hd b = sep" by blast
  have wb: "w \<in> set (split_on sep (w @ b))"
    using b split_on_append[of sep w "tl b"] split_on_single[OF assms] by (cases b) auto
  show "w \<in> set (split_on sep s)"
  proof (cases "a = []")
    case False
    with a have "a = butlast a @ [sep]" by (metis append_butlast_last_id)
    then have "s = butlast a @ sep # (w @ b)" using s by (metis append_Cons append_Nil append_assoc)
    with wb show ?thesis by (simp add: split_on_append)
  qed (use wb s in simp)
qed

lemma isdecimal_isdigit: "isdecimal s \<Longrightarrow> isdigit s"
  by (auto simp: isdecimal_def isdigit_def list_all_iff)

lemma digits_value_nonneg: "list_all is_digit_char s \<Longrightarrow> 0 \<le> digits_value s"
proof (induction s rule: rev_induct)
  case Nil
  then show ?case by (simp add: digits_value_def)
next
  case (snoc c s)
  then show ?case
    by (auto simp: digits_value_def is_digit_char_def in_range_def)
qed

lemma py_int_ok_iff [ok_iff]:
  "py_int s = Inr n \<longleftrightarrow> isdecimal s \<and> length s \<le> 4300 \<and> n = digits_value s"
  by (auto simp: py_int_def)

lemma py_int_nonneg: "py_int s = Inr n \<Longrightarrow> 0 \<le> n"
  by (auto simp: py_int_ok_iff isdecimal_def intro: digits_value_nonneg)

lemma raises_py_int: "(\<And>m. P (ValueError m)) \<Longrightarrow> raises P (py_int s)"
  by (simp add: raises_def py_int_def)

end
