(* ===== verification/CharBits.thy ===== *)
theory CharBits
  imports Prelude
begin

text \<open>
  The character classes as conditions on the eight bits of a character. These are code equations:
  the kernel evaluates a class without going through arithmetic, which is what makes the witnesses of
  the development cheap. Each is proved by going through the 256 characters.
\<close>

lemma is_digit_char_bits [code]:
  "is_digit_char (Char b0 b1 b2 b3 b4 b5 b6 b7) \<longleftrightarrow>
     (\<not> b7 \<and> (\<not> b6 \<and> (b5 \<and> (b4 \<and> (\<not> b3 \<or> (\<not> b2 \<and> (\<not> b1)))))))"
  by (cases b0; cases b1; cases b2; cases b3; cases b4; cases b5; cases b6; cases b7)
    (simp_all add: is_digit_char_def in_range_def)

lemma is_hex_char_bits [code]:
  "is_hex_char (Char b0 b1 b2 b3 b4 b5 b6 b7) \<longleftrightarrow>
     (\<not> b7 \<and> (if b6 then (b5 \<and> (\<not> b4 \<and> (\<not> b3 \<and> (if b2 then \<not> b1 \<or> (\<not> b0) else b1 \<or> b0)))) else b5 \<and> (b4 \<and> (\<not> b3 \<or> (\<not> b2 \<and> (\<not> b1))))))"
  by (cases b0; cases b1; cases b2; cases b3; cases b4; cases b5; cases b6; cases b7)
    (simp_all add: is_hex_char_def in_range_def)

lemma is_upper_ascii_bits [code]:
  "is_upper_ascii (Char b0 b1 b2 b3 b4 b5 b6 b7) \<longleftrightarrow>
     (\<not> b7 \<and> (b6 \<and> (\<not> b5 \<and> (if b4 then \<not> b3 \<or> (\<not> b2 \<and> (\<not> b1 \<or> (\<not> b0))) else b3 \<or> (b2 \<or> (b1 \<or> b0))))))"
  by (cases b0; cases b1; cases b2; cases b3; cases b4; cases b5; cases b6; cases b7)
    (simp_all add: is_upper_ascii_def in_range_def)

lemma is_lower_ascii_bits [code]:
  "is_lower_ascii (Char b0 b1 b2 b3 b4 b5 b6 b7) \<longleftrightarrow>
     (\<not> b7 \<and> (b6 \<and> (b5 \<and> (if b4 then \<not> b3 \<or> (\<not> b2 \<and> (\<not> b1 \<or> (\<not> b0))) else b3 \<or> (b2 \<or> (b1 \<or> b0))))))"
  by (cases b0; cases b1; cases b2; cases b3; cases b4; cases b5; cases b6; cases b7)
    (simp_all add: is_lower_ascii_def in_range_def)

lemma is_space_char_bits [code]:
  "is_space_char (Char b0 b1 b2 b3 b4 b5 b6 b7) \<longleftrightarrow>
     (if b7 then (\<not> b6 \<and> (if b5 then \<not> b4 \<and> (\<not> b3 \<and> (\<not> b2 \<and> (\<not> b1 \<and> (\<not> b0)))) else \<not> b4 \<and> (\<not> b3 \<and> (b2 \<and> (\<not> b1 \<and> b0))))) else \<not> b6 \<and> (if b5 then \<not> b4 \<and> (\<not> b3 \<and> (\<not> b2 \<and> (\<not> b1 \<and> (\<not> b0)))) else if b4 then b3 \<and> b2 else b3 \<and> (if b2 then \<not> b1 else b1 \<or> b0)))"
  by (cases b0; cases b1; cases b2; cases b3; cases b4; cases b5; cases b6; cases b7)
    (simp_all add: is_space_char_def in_range_def)

lemma is_line_break_bits [code]:
  "is_line_break (Char b0 b1 b2 b3 b4 b5 b6 b7) \<longleftrightarrow>
     (if b7 then \<not> b6 \<and> (\<not> b5 \<and> (\<not> b4 \<and> (\<not> b3 \<and> (b2 \<and> (\<not> b1 \<and> b0))))) else \<not> b6 \<and> (\<not> b5 \<and> (if b4 then b3 \<and> (b2 \<and> (\<not> b1 \<or> (\<not> b0))) else b3 \<and> (if b2 then \<not> b1 else b1))))"
  by (cases b0; cases b1; cases b2; cases b3; cases b4; cases b5; cases b6; cases b7)
    (simp_all add: is_line_break_def in_range_def)

lemma is_word_char_bits [code]:
  "is_word_char (Char b0 b1 b2 b3 b4 b5 b6 b7) \<longleftrightarrow>
     (if b7 then (if b6 then \<not> b4 \<or> (b3 \<or> (\<not> b2 \<or> (\<not> b1 \<or> (\<not> b0)))) else b5 \<and> (if b4 then (if b3 then (if b2 then \<not> b1 \<or> (\<not> b0) else if b1 then \<not> b0 else b0) else if b2 then \<not> b1 \<and> b0 else b1) else b3 \<and> (\<not> b2 \<and> (b1 \<and> (\<not> b0))))) else if b6 then (if b5 then (if b4 then \<not> b3 \<or> (\<not> b2 \<and> (\<not> b1 \<or> (\<not> b0))) else b3 \<or> (b2 \<or> (b1 \<or> b0))) else if b4 then (\<not> b3 \<or> (if b2 then b1 \<and> b0 else \<not> b1 \<or> (\<not> b0))) else b3 \<or> (b2 \<or> (b1 \<or> b0))) else b5 \<and> (b4 \<and> (\<not> b3 \<or> (\<not> b2 \<and> (\<not> b1)))))"
  by (cases b0; cases b1; cases b2; cases b3; cases b4; cases b5; cases b6; cases b7)
    (simp_all add: is_word_char_def is_alnum_ascii_def is_digit_char_def is_upper_ascii_def is_lower_ascii_def in_range_def)

lemma has_lower_char_bits [code]:
  "has_lower_char (Char b0 b1 b2 b3 b4 b5 b6 b7) \<longleftrightarrow>
     (if b7 then b6 \<and> (\<not> b5 \<and> (\<not> b4 \<or> (\<not> b2 \<or> (\<not> b1 \<or> (\<not> b0))))) else b6 \<and> (\<not> b5 \<and> (if b4 then \<not> b3 \<or> (\<not> b2 \<and> (\<not> b1 \<or> (\<not> b0))) else b3 \<or> (b2 \<or> (b1 \<or> b0)))))"
  by (cases b0; cases b1; cases b2; cases b3; cases b4; cases b5; cases b6; cases b7)
    (simp_all add: has_lower_char_def in_range_def)

lemma lower_char_bits [code]:
  "lower_char (Char b0 b1 b2 b3 b4 b5 b6 b7) =
     (if has_lower_char (Char b0 b1 b2 b3 b4 b5 b6 b7) then Char b0 b1 b2 b3 b4 True b6 b7
      else Char b0 b1 b2 b3 b4 b5 b6 b7)"
  unfolding lower_char_def has_lower_char_bits
  by (cases b0; cases b1; cases b2; cases b3; cases b4; cases b5; cases b6; cases b7)
    (simp_all add: char_of_def bit_0)

lemma lower_char_idem [simp]: "lower_char (lower_char c) = lower_char c"
  by (cases c) (simp add: lower_char_bits has_lower_char_bits)

lemma lower_idem [simp]: "lower (lower s) = lower s"
  by (simp add: lower_def)

end
