(* ===== verification/PyRegex.thy ===== *)
theory PyRegex
  imports CharBits
begin

text \<open>
  The part of Python's \<^verbatim>\<open>re\<close> that the validators use: character classes, concatenation,
  alternation, bounded and unbounded greedy repetition, word boundaries and the two anchors, with
  \<^verbatim>\<open>fullmatch\<close>, \<^verbatim>\<open>match\<close> and \<^verbatim>\<open>search\<close>. A cursor is the character before the
  current position and the rest of the subject; \<open>matches r\<close> lists the cursors at which
  \<open>r\<close> can end, in the order in which the backtracking matcher tries them, so its head is the
  match that Python reports. \<open>$\<close> without \<^verbatim>\<open>re.MULTILINE\<close> also holds before a final
  newline, which is why \<^verbatim>\<open>match\<close> and \<^verbatim>\<open>fullmatch\<close> differ on the identifier patterns.
\<close>

type_synonym cursor = "char option \<times> string"

datatype rx =
    Eps
  | Ch "char \<Rightarrow> bool"
  | Seq rx rx
  | Alt rx rx
  | Star rx
  | Rep nat nat rx
  | WordB
  | Bos
  | Eos

fun iter_star :: "nat \<Rightarrow> (cursor \<Rightarrow> cursor list) \<Rightarrow> cursor \<Rightarrow> cursor list" where
  "iter_star 0 f st = [st]"
| "iter_star (Suc n) f st =
     concat (map (iter_star n f) (filter (\<lambda>st'. length (snd st') < length (snd st)) (f st))) @ [st]"

text \<open>\<open>iter_rep m k\<close>: at least \<open>m\<close> and at most \<open>m + k\<close> repetitions, longest first.\<close>

fun iter_rep :: "nat \<Rightarrow> nat \<Rightarrow> (cursor \<Rightarrow> cursor list) \<Rightarrow> cursor \<Rightarrow> cursor list" where
  "iter_rep 0 0 f st = [st]"
| "iter_rep 0 (Suc k) f st = concat (map (iter_rep 0 k f) (f st)) @ [st]"
| "iter_rep (Suc m) k f st = concat (map (iter_rep m k f) (f st))"

definition word_at :: "char option \<Rightarrow> bool" where
  "word_at c = (case c of None \<Rightarrow> False | Some x \<Rightarrow> is_word_char x)"

definition next_char :: "string \<Rightarrow> char option" where
  "next_char s = (case s of [] \<Rightarrow> None | c # _ \<Rightarrow> Some c)"

primrec matches :: "rx \<Rightarrow> cursor \<Rightarrow> cursor list" where
  "matches Eps st = [st]"
| "matches (Ch P) st = (case snd st of [] \<Rightarrow> [] | c # cs \<Rightarrow> if P c then [(Some c, cs)] else [])"
| "matches (Seq r q) st = concat (map (matches q) (matches r st))"
| "matches (Alt r q) st = matches r st @ matches q st"
| "matches (Star r) st = iter_star (length (snd st)) (matches r) st"
| "matches (Rep lo hi r) st = iter_rep lo (hi - lo) (matches r) st"
| "matches WordB st = (if word_at (fst st) \<noteq> word_at (next_char (snd st)) then [st] else [])"
| "matches Bos st = (if fst st = None then [st] else [])"
| "matches Eos st = (if snd st = [] \<or> snd st = [CHR 0x0A] then [st] else [])"

definition re_fullmatch :: "rx \<Rightarrow> string \<Rightarrow> bool" where
  "re_fullmatch r s \<longleftrightarrow> list_ex (\<lambda>st. snd st = []) (matches r (None, s))"

definition re_match :: "rx \<Rightarrow> string \<Rightarrow> bool" where
  "re_match r s \<longleftrightarrow> matches r (None, s) \<noteq> []"

fun search_from :: "rx \<Rightarrow> char option \<Rightarrow> string \<Rightarrow> bool" where
  "search_from r p [] \<longleftrightarrow> matches r (p, []) \<noteq> []"
| "search_from r p (c # cs) \<longleftrightarrow> matches r (p, c # cs) \<noteq> [] \<or> search_from r (Some c) cs"

definition re_search :: "rx \<Rightarrow> string \<Rightarrow> bool" where
  "re_search r s \<longleftrightarrow> search_from r None s"

text \<open>Building blocks: a literal, a literal under \<^verbatim>\<open>re.IGNORECASE\<close>, sequences and choices.\<close>

fun seqs :: "rx list \<Rightarrow> rx" where
  "seqs [] = Eps"
| "seqs [r] = r"
| "seqs (r # q # rs) = Seq r (seqs (q # rs))"

fun alts :: "rx list \<Rightarrow> rx" where
  "alts [] = Ch (\<lambda>_. False)"
| "alts [r] = r"
| "alts (r # q # rs) = Alt r (alts (q # rs))"

definition lit :: "string \<Rightarrow> rx" where
  "lit w = seqs (map (\<lambda>c. Ch (\<lambda>x. x = c)) w)"

definition lit_ic :: "string \<Rightarrow> rx" where
  "lit_ic w = seqs (map (\<lambda>c. Ch (\<lambda>x. lower_char x = lower_char c)) w)"

definition plus :: "rx \<Rightarrow> rx" where
  "plus r = Seq r (Star r)"

definition opt :: "rx \<Rightarrow> rx" where
  "opt r = Rep 0 1 r"

section \<open>Moving a cursor\<close>

definition advance :: "nat \<Rightarrow> cursor \<Rightarrow> cursor" where
  "advance n st = (if n = 0 then st else (Some (snd st ! (n - 1)), drop n (snd st)))"

lemma snd_advance [simp]: "snd (advance n st) = drop n (snd st)"
  by (simp add: advance_def)

lemma advance_0 [simp]: "advance 0 st = st"
  by (simp add: advance_def)

lemma advance_Cons: "advance n (Some c, cs) = advance (Suc n) (p, c # cs)"
  by (cases n) (simp_all add: advance_def)

text \<open>Every match consumes a prefix of the subject, and nothing else.\<close>

definition consumes :: "(cursor \<Rightarrow> cursor list) \<Rightarrow> bool" where
  "consumes f \<longleftrightarrow> (\<forall>st st'. st' \<in> set (f st) \<longrightarrow> (\<exists>n \<le> length (snd st). st' = advance n st))"

lemma consumesI: "(\<And>st st'. st' \<in> set (f st) \<Longrightarrow> \<exists>n \<le> length (snd st). st' = advance n st) \<Longrightarrow> consumes f"
  unfolding consumes_def by blast

lemma consumesD: "consumes f \<Longrightarrow> st' \<in> set (f st) \<Longrightarrow> \<exists>n \<le> length (snd st). st' = advance n st"
  unfolding consumes_def by blast

lemma advance_advance:
  assumes "n \<le> length (snd st)" and "m \<le> length (snd (advance n st))"
  shows "advance m (advance n st) = advance (n + m) st"
  using assms by (cases m) (auto simp: advance_def nth_drop add.commute)

lemma advance_trans:
  assumes "n \<le> length (snd st)" and "m \<le> length (snd (advance n st))"
  shows "\<exists>k \<le> length (snd st). advance m (advance n st) = advance k st"
  using assms by (intro exI[of _ "n + m"]) (auto simp: advance_advance)

lemma consumes_compose:
  assumes "consumes f" and "consumes g" and "st' \<in> set (f st)" and "st'' \<in> set (g st')"
  shows "\<exists>k \<le> length (snd st). st'' = advance k st"
  using assms by (metis advance_trans consumesD)

lemma consumes_iter_star: "consumes f \<Longrightarrow> consumes (iter_star n f)"
proof (induction n)
  case 0
  then show ?case by (auto intro!: consumesI exI[of _ 0])
next
  case (Suc n)
  show ?case
  proof (rule consumesI)
    fix st st' assume "st' \<in> set (iter_star (Suc n) f st)"
    then consider (stop) "st' = st" | (more) t where "t \<in> set (f st)" "st' \<in> set (iter_star n f t)"
      by auto
    then show "\<exists>k \<le> length (snd st). st' = advance k st"
    proof cases
      case stop
      then show ?thesis by (intro exI[of _ 0]) simp
    next
      case (more t)
      with Suc show ?thesis by (blast intro: consumes_compose)
    qed
  qed
qed

lemma consumes_concat:
  assumes "consumes f" and "consumes g"
  shows "consumes (\<lambda>st. concat (map g (f st)))"
proof (rule consumesI)
  fix st st' assume "st' \<in> set (concat (map g (f st)))"
  then obtain t where "t \<in> set (f st)" and "st' \<in> set (g t)" by auto
  with assms show "\<exists>n \<le> length (snd st). st' = advance n st"
    by (rule consumes_compose)
qed

lemma consumes_append: "consumes f \<Longrightarrow> consumes g \<Longrightarrow> consumes (\<lambda>st. f st @ g st)"
  unfolding consumes_def by auto

lemma consumes_stay: "consumes (\<lambda>st. [st])" "consumes (\<lambda>st. if b st then [st] else [])"
  by (auto intro!: consumesI exI[of _ 0] split: if_splits)

lemma iter_rep_unfold:
  "iter_rep 0 0 f = (\<lambda>st. [st])"
  "iter_rep 0 (Suc k) f = (\<lambda>st. concat (map (iter_rep 0 k f) (f st)) @ [st])"
  "iter_rep (Suc m) k f = (\<lambda>st. concat (map (iter_rep m k f) (f st)))"
  by (rule ext, simp)+

lemma consumes_iter_rep: "consumes f \<Longrightarrow> consumes (iter_rep m k f)"
proof (induction m)
  case 0
  then show ?case
  proof (induction k)
    case 0
    then show ?case by (simp only: iter_rep_unfold consumes_stay)
  next
    case (Suc k)
    then show ?case
      by (simp only: iter_rep_unfold consumes_stay consumes_append consumes_concat)
  qed
next
  case (Suc m)
  then show ?case
    by (simp only: iter_rep_unfold consumes_concat)
qed

lemma consumes_Ch: "consumes (matches (Ch P))"
  by (rule consumesI) (auto simp: advance_def split: list.splits if_splits intro!: exI[of _ 1])

lemma matches_unfold:
  "matches Eps = (\<lambda>st. [st])"
  "matches (Seq r q) = (\<lambda>st. concat (map (matches q) (matches r st)))"
  "matches (Alt r q) = (\<lambda>st. matches r st @ matches q st)"
  "matches (Rep lo hi r) = iter_rep lo (hi - lo) (matches r)"
  "matches WordB = (\<lambda>st. if word_at (fst st) \<noteq> word_at (next_char (snd st)) then [st] else [])"
  "matches Bos = (\<lambda>st. if fst st = None then [st] else [])"
  "matches Eos = (\<lambda>st. if snd st = [] \<or> snd st = [CHR 0x0A] then [st] else [])"
  by (rule ext, simp)+

lemma consumes_Star: "consumes (matches r) \<Longrightarrow> consumes (matches (Star r))"
  unfolding consumes_def matches.simps
  using consumes_iter_star[unfolded consumes_def] by (metis (no_types, lifting))

theorem consumes_matches: "consumes (matches r)"
proof (induction r)
  case (Ch P)
  show ?case by (rule consumes_Ch)
next
  case (Star r)
  then show ?case by (rule consumes_Star)
qed (simp_all only: matches_unfold consumes_stay consumes_concat consumes_append consumes_iter_rep)

section \<open>Reading the common patterns back\<close>

text \<open>A run of \<open>n\<close> characters of a class at the cursor.\<close>

definition class_run :: "(char \<Rightarrow> bool) \<Rightarrow> nat \<Rightarrow> cursor \<Rightarrow> bool" where
  "class_run P n st \<longleftrightarrow> n \<le> length (snd st) \<and> list_all P (take n (snd st))"

lemma class_run_0 [simp]: "class_run P 0 st"
  by (simp add: class_run_def)

lemma class_run_Suc:
  "class_run P (Suc n) st \<longleftrightarrow> snd st \<noteq> [] \<and> P (hd (snd st)) \<and> class_run P n (advance 1 st)"
  by (cases "snd st") (auto simp: class_run_def)

lemma advance_Suc: "class_run P (Suc n) st \<Longrightarrow> advance n (advance 1 st) = advance (Suc n) st"
  using advance_advance[of 1 st n] by (auto simp: class_run_def)

lemma concat_Ch:
  "st' \<in> set (concat (map g (matches (Ch P) st))) \<longleftrightarrow>
     snd st \<noteq> [] \<and> P (hd (snd st)) \<and> st' \<in> set (g (advance 1 st))"
  by (cases "snd st") (auto simp: advance_def)

lemma ex_le_Suc_iff: "(\<exists>n \<le> Suc k. R n) \<longleftrightarrow> R 0 \<or> (\<exists>n \<le> k. R (Suc n))"
  by (metis Suc_le_mono le0 not0_implies_Suc)

lemma iter_rep_0_Ch:
  "st' \<in> set (iter_rep 0 k (matches (Ch P)) st) \<longleftrightarrow>
     (\<exists>n \<le> k. class_run P n st \<and> st' = advance n st)"
proof (induction k arbitrary: st)
  case 0
  then show ?case by simp
next
  case (Suc k)
  have "(st' \<in> set (iter_rep 0 (Suc k) (matches (Ch P)) st)) =
      (st' = st \<or> snd st \<noteq> [] \<and> P (hd (snd st)) \<and> st' \<in> set (iter_rep 0 k (matches (Ch P)) (advance 1 st)))"
    unfolding iter_rep_unfold set_append Un_iff concat_Ch by auto
  also have "\<dots> = (st' = st \<or> (\<exists>n \<le> k. class_run P (Suc n) st \<and> st' = advance (Suc n) st))"
    unfolding Suc.IH using advance_Suc class_run_Suc by metis
  also have "\<dots> = (\<exists>n \<le> Suc k. class_run P n st \<and> st' = advance n st)"
    unfolding ex_le_Suc_iff by simp
  finally show ?case .
qed

lemma iter_rep_Ch:
  "st' \<in> set (iter_rep m k (matches (Ch P)) st) \<longleftrightarrow>
     (\<exists>n \<le> k. class_run P (m + n) st \<and> st' = advance (m + n) st)"
proof (induction m arbitrary: st)
  case 0
  then show ?case unfolding iter_rep_0_Ch by simp
next
  case (Suc m)
  have "(st' \<in> set (iter_rep (Suc m) k (matches (Ch P)) st)) =
      (snd st \<noteq> [] \<and> P (hd (snd st)) \<and> st' \<in> set (iter_rep m k (matches (Ch P)) (advance 1 st)))"
    unfolding iter_rep_unfold concat_Ch by simp
  also have "\<dots> = (\<exists>n \<le> k. class_run P (Suc m + n) st \<and> st' = advance (Suc m + n) st)"
    unfolding Suc.IH add_Suc using advance_Suc class_run_Suc by metis
  finally show ?case .
qed

lemma iter_star_Ch:
  "st' \<in> set (iter_star k (matches (Ch P)) st) \<longleftrightarrow> (\<exists>n \<le> k. class_run P n st \<and> st' = advance n st)"
proof -
  have "iter_star k (matches (Ch P)) st = iter_rep 0 k (matches (Ch P)) st"
  proof (induction k arbitrary: st)
    case (Suc k)
    have "filter (\<lambda>st'. length (snd st') < length (snd st)) (matches (Ch P) st) = matches (Ch P) st"
      by (cases "snd st") simp_all
    moreover have "iter_star k (matches (Ch P)) = iter_rep 0 k (matches (Ch P))" using Suc.IH by (rule ext)
    ultimately show ?case by (simp only: iter_star.simps iter_rep.simps)
  qed simp
  then show ?thesis by (simp only: iter_rep_0_Ch)
qed

lemma Star_Ch: "st' \<in> set (matches (Star (Ch P)) st) \<longleftrightarrow> (\<exists>n. class_run P n st \<and> st' = advance n st)"
  unfolding matches.simps(5) iter_star_Ch by (auto simp: class_run_def)

lemma Seq_matches_iff: "matches (Seq r q) st \<noteq> [] \<longleftrightarrow> (\<exists>st' \<in> set (matches r st). matches q st' \<noteq> [])"
  by auto

text \<open>An anchored bounded class: \<^verbatim>\<open>^[...]{lo,hi}$\<close>.\<close>

definition anchored_class :: "(char \<Rightarrow> bool) \<Rightarrow> nat \<Rightarrow> nat \<Rightarrow> rx" where
  "anchored_class P lo hi = seqs [Bos, Rep lo hi (Ch P), Eos]"

lemma matches_anchored_class:
  assumes "lo \<le> hi"
  shows "st' \<in> set (matches (anchored_class P lo hi) (None, s)) \<longleftrightarrow>
     (\<exists>n. lo \<le> n \<and> n \<le> hi \<and> class_run P n (None, s) \<and> st' = advance n (None, s) \<and>
        (drop n s = [] \<or> drop n s = [CHR 0x0A]))"
proof -
  have "st' \<in> set (matches (anchored_class P lo hi) (None, s)) \<longleftrightarrow>
      st' \<in> set (iter_rep lo (hi - lo) (matches (Ch P)) (None, s)) \<and> (snd st' = [] \<or> snd st' = [CHR 0x0A])"
    unfolding anchored_class_def seqs.simps matches_unfold by auto
  also have "\<dots> \<longleftrightarrow> (\<exists>n \<le> hi - lo. class_run P (lo + n) (None, s) \<and> st' = advance (lo + n) (None, s) \<and>
        (drop (lo + n) s = [] \<or> drop (lo + n) s = [CHR 0x0A]))"
    unfolding iter_rep_Ch by auto
  also have "\<dots> \<longleftrightarrow> (\<exists>n. lo \<le> n \<and> n \<le> hi \<and> class_run P n (None, s) \<and> st' = advance n (None, s) \<and>
        (drop n s = [] \<or> drop n s = [CHR 0x0A]))"
    (is "(\<exists>n \<le> hi - lo. ?Q (lo + n)) \<longleftrightarrow> _")
  proof
    assume "\<exists>n \<le> hi - lo. ?Q (lo + n)"
    then obtain n where "n \<le> hi - lo" and "?Q (lo + n)" by blast
    with assms show "\<exists>n. lo \<le> n \<and> n \<le> hi \<and> ?Q n" by (intro exI[of _ "lo + n"]) simp
  next
    assume "\<exists>n. lo \<le> n \<and> n \<le> hi \<and> ?Q n"
    then obtain n where "lo \<le> n" "n \<le> hi" and "?Q n" by blast
    then show "\<exists>n \<le> hi - lo. ?Q (lo + n)" by (intro exI[of _ "n - lo"]) simp
  qed
  finally show ?thesis .
qed

lemma re_fullmatch_anchored_class:
  assumes "lo \<le> hi"
  shows "re_fullmatch (anchored_class P lo hi) s \<longleftrightarrow> lo \<le> length s \<and> length s \<le> hi \<and> list_all P s"
proof -
  have "re_fullmatch (anchored_class P lo hi) s \<longleftrightarrow>
      (\<exists>n. lo \<le> n \<and> n \<le> hi \<and> class_run P n (None, s) \<and> drop n s = [])"
    unfolding re_fullmatch_def list_ex_iff Bex_def matches_anchored_class[OF assms]
    by (metis snd_advance snd_conv)
  also have "\<dots> \<longleftrightarrow> lo \<le> length s \<and> length s \<le> hi \<and> list_all P s"
    by (auto simp: class_run_def)
  finally show ?thesis .
qed

lemma re_match_anchored_class:
  assumes "lo \<le> hi"
  shows "re_match (anchored_class P lo hi) s \<longleftrightarrow>
    (\<exists>w. (s = w \<or> s = w @ [CHR 0x0A]) \<and> lo \<le> length w \<and> length w \<le> hi \<and> list_all P w)"
proof -
  have "re_match (anchored_class P lo hi) s \<longleftrightarrow> (\<exists>st. st \<in> set (matches (anchored_class P lo hi) (None, s)))"
    unfolding re_match_def by (metis last_in_set list.set_cases list.distinct(1))
  also have "\<dots> \<longleftrightarrow> (\<exists>n. lo \<le> n \<and> n \<le> hi \<and> n \<le> length s \<and> list_all P (take n s) \<and>
      (drop n s = [] \<or> drop n s = [CHR 0x0A]))"
    unfolding matches_anchored_class[OF assms] class_run_def snd_conv by blast
  also have "\<dots> \<longleftrightarrow> (\<exists>w. (s = w \<or> s = w @ [CHR 0x0A]) \<and> lo \<le> length w \<and> length w \<le> hi \<and> list_all P w)"
    (is "(\<exists>n. ?L n) \<longleftrightarrow> (\<exists>w. ?R w)")
  proof
    assume "\<exists>n. ?L n"
    then obtain n where "?L n" by blast
    then have "?R (take n s)"
      by (auto simp: min_def) (metis append_take_drop_id)+
    then show "\<exists>w. ?R w" by blast
  next
    assume "\<exists>w. ?R w"
    then obtain w where "?R w" by blast
    then have "?L (length w)" by auto
    then show "\<exists>n. ?L n" by blast
  qed
  finally show ?thesis .
qed

lemma re_search_iff: "re_search r s \<longleftrightarrow> (\<exists>i \<le> length s. matches r (advance i (None, s)) \<noteq> [])"
proof -
  have "search_from r p s \<longleftrightarrow> (\<exists>i \<le> length s. matches r (advance i (p, s)) \<noteq> [])" for p
  proof (induction s arbitrary: p)
    case Nil
    then show ?case by simp
  next
    case (Cons c cs)
    have "(\<exists>i \<le> Suc (length cs). matches r (advance i (p, c # cs)) \<noteq> []) \<longleftrightarrow>
        matches r (p, c # cs) \<noteq> [] \<or> (\<exists>i \<le> length cs. matches r (advance (Suc i) (p, c # cs)) \<noteq> [])"
      by (metis Suc_le_mono advance_0 le0 not0_implies_Suc)
    then show ?case
      by (simp add: Cons advance_Cons[of _ c cs p])
  qed
  then show ?thesis by (simp add: re_search_def)
qed

end
