(* ===== verification/PyJson.thy ===== *)
theory PyJson
  imports PyRegex
begin

text \<open>
  The values the validators inspect and the outside world they inspect them through.
  \<^item> JSON documents as \<^verbatim>\<open>json.loads\<close> returns them (\<^verbatim>\<open>JsonValue\<close> in the sources): a dict
    is an association list in insertion order, and \<open>jget\<close> is \<^verbatim>\<open>dict.get\<close>, which
    answers \<^verbatim>\<open>None\<close>, that is \<open>JNull\<close>, for a missing key. Python's \<^verbatim>\<open>bool\<close> is a
    subclass of \<^verbatim>\<open>int\<close>, so \<open>is_int\<close> accepts \<open>JBool\<close>, and \<open>py_eq\<close>
    identifies \<^verbatim>\<open>True\<close>, \<^verbatim>\<open>1\<close> and \<^verbatim>\<open>1.0\<close>. A float is its value, with the text that
    \<^verbatim>\<open>repr\<close> prints for it.
  \<^item> \<^verbatim>\<open>pathlib.Path\<close> on a POSIX system, as far as it is purely lexical.
  \<^item> The environment: the file system, SHA-256 and the JSON decoder, as a record of functions that
    every operation doing I/O takes as its first argument.
  \<^item> The walk over every node of a document and the locale of scanners that follow it.
\<close>

section \<open>JSON values\<close>

datatype pyfloat = FloatFin rat string | FloatInf | FloatNegInf | FloatNaN

datatype json =
    JNull
  | JBool bool
  | JInt int
  | JFloat pyfloat
  | JStr string
  | JList "json list"
  | JObj "(string \<times> json) list"

type_synonym json_object = "(string \<times> json) list"

definition jget :: "json_object \<Rightarrow> string \<Rightarrow> json" where
  "jget d k = (case map_of d k of None \<Rightarrow> JNull | Some v \<Rightarrow> v)"

abbreviation keys :: "json_object \<Rightarrow> string list" where
  "keys d \<equiv> map fst d"

definition has_key :: "json_object \<Rightarrow> string \<Rightarrow> bool" where
  "has_key d k \<longleftrightarrow> k \<in> set (keys d)"

text \<open>\<^verbatim>\<open>dict.get(k, default)\<close>, for a default other than \<^verbatim>\<open>None\<close>.\<close>

definition jget_default :: "json_object \<Rightarrow> string \<Rightarrow> json \<Rightarrow> json" where
  "jget_default d k dflt = (case map_of d k of None \<Rightarrow> dflt | Some v \<Rightarrow> v)"

text \<open>\<^verbatim>\<open>d[k]\<close>.\<close>

definition jindex :: "json_object \<Rightarrow> string \<Rightarrow> json result" where
  "jindex d k = (case map_of d k of None \<Rightarrow> Inl (KeyError k) | Some v \<Rightarrow> Inr v)"

fun is_str :: "json \<Rightarrow> bool" where
  "is_str (JStr _) = True"
| "is_str _ = False"

fun is_bool :: "json \<Rightarrow> bool" where
  "is_bool (JBool _) = True"
| "is_bool _ = False"

fun is_obj :: "json \<Rightarrow> bool" where
  "is_obj (JObj _) = True"
| "is_obj _ = False"

text \<open>\<^verbatim>\<open>isinstance(v, int)\<close> with the value, \<^verbatim>\<open>True\<close> and \<^verbatim>\<open>False\<close> included.\<close>

fun int_of :: "json \<Rightarrow> int option" where
  "int_of (JBool b) = Some (of_bool b)"
| "int_of (JInt i) = Some i"
| "int_of _ = None"

abbreviation is_int :: "json \<Rightarrow> bool" where
  "is_int v \<equiv> int_of v \<noteq> None"

fun str_of :: "json \<Rightarrow> string option" where
  "str_of (JStr s) = Some s"
| "str_of _ = None"

fun bool_of :: "json \<Rightarrow> bool option" where
  "bool_of (JBool b) = Some b"
| "bool_of _ = None"

fun obj_of :: "json \<Rightarrow> json_object option" where
  "obj_of (JObj d) = Some d"
| "obj_of _ = None"

fun list_of :: "json \<Rightarrow> json list option" where
  "list_of (JList xs) = Some xs"
| "list_of _ = None"

text \<open>A non-empty string, the most common requirement.\<close>

fun text_of :: "json \<Rightarrow> string option" where
  "text_of (JStr s) = (if s = [] then None else Some s)"
| "text_of _ = None"

text \<open>The rational value of a finite number.\<close>

fun num_value :: "json \<Rightarrow> rat option" where
  "num_value (JBool b) = Some (of_bool b)"
| "num_value (JInt i) = Some (of_int i)"
| "num_value (JFloat (FloatFin q _)) = Some q"
| "num_value _ = None"

text \<open>
  \<^verbatim>\<open>math.isfinite\<close> of a number. An int is converted to a binary64 float first, which raises when
  it is out of range, after rounding.
\<close>

definition float_limit :: int where
  "float_limit = 2 ^ 1024 - 2 ^ 970"

fun math_isfinite :: "json \<Rightarrow> bool result" where
  "math_isfinite (JInt i) =
     (if \<bar>i\<bar> < float_limit then Inr True else Inl (OverflowError ''int too large to convert to float''))"
| "math_isfinite (JFloat f) = Inr (case f of FloatFin _ _ \<Rightarrow> True | _ \<Rightarrow> False)"
| "math_isfinite (JBool b) = Inr True"
| "math_isfinite _ = Inl (TypeError ''must be real number'')"

lemma size_json_entry [termination_simp]:
  "(k, v) \<in> set d \<Longrightarrow> size v < Suc (size_list (size_prod (\<lambda>_. 0) size) d)"
  by (induction d) auto

lemma size_json_lookup [termination_simp]:
  "map_of d k = Some v \<Longrightarrow> size v < Suc (size_list (size_prod (\<lambda>_. 0) size) d)"
  by (drule map_of_SomeD) (rule size_json_entry)

lemma size_zip_left: "(x, y) \<in> set (zip xs ys) \<Longrightarrow> size x < Suc (size_list size xs)"
  by (auto dest!: set_zip_leftD simp: size_list_estimation' less_Suc_eq_le)

lemma size_enumerate_entry [termination_simp]:
  "(i, v) \<in> set (enumerate_from n xs) \<Longrightarrow> size v < Suc (size_list size xs)"
  by (drule enumerate_from_mem) (simp add: less_Suc_eq_le size_list_estimation')

text \<open>\<^verbatim>\<open>==\<close>. Two dicts are equal when they have the same keys with equal values.\<close>

function py_eq :: "json \<Rightarrow> json \<Rightarrow> bool" where
  "py_eq v w =
     (case (v, w) of
        (JNull, JNull) \<Rightarrow> True
      | (JStr s, JStr t) \<Rightarrow> s = t
      | (JList xs, JList ys) \<Rightarrow>
          length xs = length ys \<and> (\<forall>(x, y) \<in> set (zip xs ys). py_eq x y)
      | (JObj d, JObj d') \<Rightarrow>
          set (keys d) = set (keys d') \<and>
          (\<forall>(k, x) \<in> set d. case map_of d' k of None \<Rightarrow> False | Some y \<Rightarrow> py_eq x y)
      | (JFloat FloatInf, JFloat FloatInf) \<Rightarrow> True
      | (JFloat FloatNegInf, JFloat FloatNegInf) \<Rightarrow> True
      | _ \<Rightarrow> num_value v \<noteq> None \<and> num_value v = num_value w)"
  by pat_completeness auto
termination
  by (relation "measure (\<lambda>(v, w). size v)") (auto simp: size_zip_left dest: size_json_entry)

declare py_eq.simps [simp del]

text \<open>\<^verbatim>\<open>v in {"a", "b"}\<close>: a list or a dict is not hashable.\<close>

fun in_str_set :: "json \<Rightarrow> string list \<Rightarrow> bool result" where
  "in_str_set (JStr s) S = Inr (s \<in> set S)"
| "in_str_set (JList _) S = Inl (TypeError ''unhashable type: list'')"
| "in_str_set (JObj _) S = Inl (TypeError ''unhashable type: dict'')"
| "in_str_set _ S = Inr False"

section \<open>\<^verbatim>\<open>str\<close>, \<^verbatim>\<open>repr\<close> and \<^verbatim>\<open>json.dumps\<close>\<close>

definition hex2 :: "int \<Rightarrow> string" where
  "hex2 n = [''0123456789abcdef'' ! nat (n div 16), ''0123456789abcdef'' ! nat (n mod 16)]"

fun float_repr :: "pyfloat \<Rightarrow> string" where
  "float_repr (FloatFin _ r) = r"
| "float_repr FloatInf = ''inf''"
| "float_repr FloatNegInf = ''-inf''"
| "float_repr FloatNaN = ''nan''"

definition repr_char :: "char \<Rightarrow> char \<Rightarrow> string" where
  "repr_char quote c =
     (if c = quote \<or> code c = 92 then [CHR 0x5C, c]
      else if code c = 9 then [CHR 0x5C, CHR ''t'']
      else if code c = 10 then [CHR 0x5C, CHR ''n'']
      else if code c = 13 then [CHR 0x5C, CHR ''r'']
      else if code c < 32 \<or> 127 \<le> code c \<and> code c \<le> 160 \<or> code c = 173
        then [CHR 0x5C, CHR ''x''] @ hex2 (code c)
      else [c])"

definition repr_str :: "string \<Rightarrow> string" where
  "repr_str s =
     (let quote = (if CHR 0x27 \<in> set s \<and> CHR 0x22 \<notin> set s then CHR 0x22 else CHR 0x27)
      in [quote] @ concat (map (repr_char quote) s) @ [quote])"

fun py_repr :: "json \<Rightarrow> string" where
  "py_repr JNull = ''None''"
| "py_repr (JBool b) = (if b then ''True'' else ''False'')"
| "py_repr (JInt i) = show_int i"
| "py_repr (JFloat f) = float_repr f"
| "py_repr (JStr s) = repr_str s"
| "py_repr (JList xs) = ''['' @ join '', '' (map py_repr xs) @ '']''"
| "py_repr (JObj d) = ''{'' @ join '', '' (map (\<lambda>(k, v). repr_str k @ '': '' @ py_repr v) d) @ ''}''"

fun py_str :: "json \<Rightarrow> string" where
  "py_str (JStr s) = s"
| "py_str v = py_repr v"

definition dumps_char :: "char \<Rightarrow> string" where
  "dumps_char c =
     (if code c = 34 \<or> code c = 92 then [CHR 0x5C, c]
      else if code c = 8 then [CHR 0x5C, CHR ''b'']
      else if code c = 9 then [CHR 0x5C, CHR ''t'']
      else if code c = 10 then [CHR 0x5C, CHR ''n'']
      else if code c = 12 then [CHR 0x5C, CHR ''f'']
      else if code c = 13 then [CHR 0x5C, CHR ''r'']
      else if code c < 32 \<or> 126 < code c then [CHR 0x5C, CHR ''u'', CHR ''0'', CHR ''0''] @ hex2 (code c)
      else [c])"

definition dumps_str :: "string \<Rightarrow> string" where
  "dumps_str s = [CHR 0x22] @ concat (map dumps_char s) @ [CHR 0x22]"

fun dumps_float :: "pyfloat \<Rightarrow> string" where
  "dumps_float (FloatFin _ r) = r"
| "dumps_float FloatInf = ''Infinity''"
| "dumps_float FloatNegInf = ''-Infinity''"
| "dumps_float FloatNaN = ''NaN''"

fun json_dumps :: "json \<Rightarrow> string" where
  "json_dumps JNull = ''null''"
| "json_dumps (JBool b) = (if b then ''true'' else ''false'')"
| "json_dumps (JInt i) = show_int i"
| "json_dumps (JFloat f) = dumps_float f"
| "json_dumps (JStr s) = dumps_str s"
| "json_dumps (JList xs) = ''['' @ join '', '' (map json_dumps xs) @ '']''"
| "json_dumps (JObj d) = ''{'' @ join '', '' (map (\<lambda>(k, v). dumps_str k @ '': '' @ json_dumps v) d) @ ''}''"

section \<open>\<^verbatim>\<open>pathlib.Path\<close>\<close>

datatype path = Path (path_root: string) (path_comps: "string list")

definition mk_path :: "string \<Rightarrow> path" where
  "mk_path s =
     Path (if \<not> prefix ''/'' s then '''' else if prefix ''//'' s \<and> \<not> prefix ''///'' s then ''//'' else ''/'')
       (filter (\<lambda>c. c \<noteq> [] \<and> c \<noteq> ''.'') (split_on CHR ''/'' s))"

definition is_absolute :: "path \<Rightarrow> bool" where
  "is_absolute p \<longleftrightarrow> path_root p \<noteq> []"

definition path_parts :: "path \<Rightarrow> string list" where
  "path_parts p = (if path_root p = [] then path_comps p else path_root p # path_comps p)"

text \<open>\<^verbatim>\<open>str(p)\<close>, which on POSIX is \<^verbatim>\<open>p.as_posix()\<close>.\<close>

definition path_str :: "path \<Rightarrow> string" where
  "path_str p = (if path_root p = [] \<and> path_comps p = [] then ''.'' else path_root p @ join ''/'' (path_comps p))"

definition path_name :: "path \<Rightarrow> string" where
  "path_name p = (if path_comps p = [] then [] else last (path_comps p))"

definition path_parent :: "path \<Rightarrow> path" where
  "path_parent p = Path (path_root p) (butlast (path_comps p))"

text \<open>\<^verbatim>\<open>p / s\<close>.\<close>

definition path_join :: "path \<Rightarrow> string \<Rightarrow> path" where
  "path_join p s =
     (let q = mk_path s in if is_absolute q then q else Path (path_root p) (path_comps p @ path_comps q))"

text \<open>\<^verbatim>\<open>p.suffix\<close>: from the last dot of the name, unless that is its first or last character.\<close>

definition path_suffix :: "path \<Rightarrow> string" where
  "path_suffix p =
     (let ws = split_on CHR ''.'' (path_name p) in
      if length ws < 2 \<or> last ws = [] \<or> join ''.'' (butlast ws) = [] then [] else ''.'' @ last ws)"

section \<open>The environment\<close>

text \<open>
  What the decoder does with a text: it returns a value, fails with \<^verbatim>\<open>JSONDecodeError\<close>, raises
  \<^verbatim>\<open>ValueError\<close> on an integer literal over the interpreter's limit of digits, or \<^verbatim>\<open>RecursionError\<close> on a
  text that is nested too deeply.
\<close>

datatype decoded = Decoded json | DecodeFailed nat string string | IntegerTooLong string | NestedTooDeeply string

text \<open>
  \<open>json_constant\<close> is the first of \<^verbatim>\<open>NaN\<close>, \<^verbatim>\<open>Infinity\<close> and \<^verbatim>\<open>-Infinity\<close> that the
  decoder meets before it finishes or fails; with \<^verbatim>\<open>parse_constant\<close> set, that is where the
  callback raises. \<open>git_ls_files\<close> is the exit status of \<^verbatim>\<open>git ls-files --error-unmatch\<close>.
\<close>

record env =
  fs_read_text :: "path \<Rightarrow> string result"
  fs_sha256 :: "path \<Rightarrow> string result"
  fs_exists :: "path \<Rightarrow> bool"
  fs_is_file :: "path \<Rightarrow> bool"
  fs_listing :: "path \<Rightarrow> string list"
  fs_resolve :: "path \<Rightarrow> path"
  json_decode :: "string \<Rightarrow> decoded"
  json_constant :: "string \<Rightarrow> string option"
  fs_is_symlink :: "path \<Rightarrow> bool"
  git_ls_files :: "string \<Rightarrow> int"

text \<open>\<^verbatim>\<open>path.resolve()\<close>, which raises \<^verbatim>\<open>ValueError\<close> for a path with a null character.\<close>

definition path_resolve :: "env \<Rightarrow> path \<Rightarrow> path result" where
  "path_resolve env p = (if CHR 0x00 \<in> set (path_str p) then Inl (ValueError ''lstat: embedded null character in path'') else Inr (fs_resolve env p))"

definition json_loads :: "env \<Rightarrow> string \<Rightarrow> json result" where
  "json_loads env s =
     (case json_decode env s of
        Decoded v \<Rightarrow> Inr v
      | DecodeFailed pos m str \<Rightarrow> Inl (JSONDecodeError pos m str)
      | IntegerTooLong m \<Rightarrow> Inl (ValueError m)
      | NestedTooDeeply m \<Rightarrow> Inl (RecursionError m))"

definition json_loads_strict :: "env \<Rightarrow> (string \<Rightarrow> exn) \<Rightarrow> string \<Rightarrow> json result" where
  "json_loads_strict env reject s =
     (case json_constant env s of Some c \<Rightarrow> Inl (reject c) | None \<Rightarrow> json_loads env s)"

text \<open>\<^verbatim>\<open>str(exc)\<close> of the exceptions that the code interpolates into another message.\<close>

fun exn_str :: "exn \<Rightarrow> string" where
  "exn_str (FileNotFoundError m) = m"
| "exn_str (OSError m) = m"
| "exn_str (UnicodeError m) = m"
| "exn_str (JSONDecodeError _ _ str) = str"
| "exn_str (KeyError k) = repr_str k"
| "exn_str (IndexError m) = m"
| "exn_str (TypeError m) = m"
| "exn_str (ValueError m) = m"
| "exn_str (OverflowError m) = m"
| "exn_str (RecursionError m) = m"
| "exn_str (MatrixRunContractError m) = m"
| "exn_str (MatrixBenchmarkProvenanceError m) = m"
| "exn_str (BenchmarkOutputError m) = m"
| "exn_str (RuntimeSampleError m) = m"
| "exn_str (PolicyAbiError m) = m"
| "exn_str (ContractError m) = m"
| "exn_str (ContractPackError m) = m"
| "exn_str (LiveBehaviorError m) = m"
| "exn_str (AuditLedgerError m) = m"
| "exn_str (ObserveSummaryError m) = m"
| "exn_str (PartialAttachError m) = m"
| "exn_str (EvidenceSafetyError c r) = (msg [c, '': '', r])"
| "exn_str (RunnerProofError m) = m"
| "exn_str (RunnerCleanlinessError m) = m"
| "exn_str (ProtectedReviewError m) = m"
| "exn_str (ProtectedCoreTelemetryError m) = m"
| "exn_str (ProtectedCoreSuiteError m) = m"
| "exn_str (BackendSummaryError m) = m"
| "exn_str (LabSummaryError m) = m"
| "exn_str (BpfArtifactError m) = m"
| "exn_str (VMVerifierError m) = m"
| "exn_str (VerifierRefusalError m) = m"
| "exn_str (VerifierLogError m) = m"
| "exn_str (ManifestError m) = m"
| "exn_str (LiveEvidenceError m) = m"
| "exn_str (FreshnessCheckError m) = m"
| "exn_str (SystemExit m) = m"
| "exn_str (BundleCompareError m) = m"
| "exn_str (GovernanceManifestError m) = m"

text \<open>\<^verbatim>\<open>isinstance(exc, OSError)\<close>: the class and its subclass.\<close>

definition is_os_error :: "exn \<Rightarrow> bool" where
  "is_os_error e \<longleftrightarrow> is_OSError e \<or> is_FileNotFoundError e"

section \<open>Basic facts\<close>

lemma text_of_iff: "text_of v = Some s \<longleftrightarrow> v = JStr s \<and> s \<noteq> []"
  by (cases v) auto

lemma str_of_iff: "str_of v = Some s \<longleftrightarrow> v = JStr s"
  by (cases v) auto

lemma bool_of_iff: "bool_of v = Some b \<longleftrightarrow> v = JBool b"
  by (cases v) auto

lemma obj_of_iff: "obj_of v = Some d \<longleftrightarrow> v = JObj d"
  by (cases v) auto

lemma list_of_iff: "list_of v = Some xs \<longleftrightarrow> v = JList xs"
  by (cases v) auto

lemma ex_bool [simp]:
  "(\<exists>b. v = JBool b \<and> b) \<longleftrightarrow> v = JBool True" "(\<exists>b. v = JBool b \<and> \<not> b) \<longleftrightarrow> v = JBool False"
  "(\<exists>b. v = JBool b \<and> b \<and> P) \<longleftrightarrow> v = JBool True \<and> P" "(\<exists>b. v = JBool b \<and> \<not> b \<and> P) \<longleftrightarrow> v = JBool False \<and> P"
  by (cases v; simp; blast)+

lemma is_str_iff: "is_str v \<longleftrightarrow> (\<exists>s. v = JStr s)"
  by (cases v) auto

lemmas proj_iffs = text_of_iff str_of_iff bool_of_iff obj_of_iff list_of_iff

lemma py_eq_str [simp]: "py_eq v (JStr s) \<longleftrightarrow> v = JStr s"
  by (subst py_eq.simps) (auto split: json.splits pyfloat.splits)

lemma py_eq_str' [simp]: "py_eq (JStr s) v \<longleftrightarrow> v = JStr s"
  by (subst py_eq.simps) (auto split: json.splits pyfloat.splits)

lemma py_eq_bool: "py_eq v (JBool b) \<longleftrightarrow> num_value v = Some (of_bool b)"
  by (subst py_eq.simps) (auto split: json.splits pyfloat.splits)

lemma py_eq_int: "py_eq v (JInt i) \<longleftrightarrow> num_value v = Some (of_int i)"
  by (subst py_eq.simps) (auto split: json.splits pyfloat.splits)

lemma jget_has_key: "jget d k \<noteq> JNull \<Longrightarrow> has_key d k"
  by (force simp: jget_def has_key_def split: option.splits dest: map_of_SomeD)

lemma jget_in_set: "jget d k = v \<Longrightarrow> v \<noteq> JNull \<Longrightarrow> (k, v) \<in> set d"
  by (auto simp: jget_def split: option.splits dest: map_of_SomeD)

lemma jindex_ok_iff [ok_iff]: "jindex d k = Inr v \<longleftrightarrow> has_key d k \<and> v = jget d k"
  by (auto simp: jindex_def jget_def has_key_def map_of_eq_None_iff split: option.splits)
    (metis domI domIff image_eqI fst_conv map_of_SomeD)+

lemma json_loads_ok_iff [ok_iff]: "json_loads env s = Inr v \<longleftrightarrow> json_decode env s = Decoded v"
  by (auto simp: json_loads_def split: decoded.splits)

lemma json_loads_strict_ok_iff [ok_iff]:
  "json_loads_strict env r s = Inr v \<longleftrightarrow> json_constant env s = None \<and> json_decode env s = Decoded v"
  by (auto simp: json_loads_strict_def json_loads_ok_iff split: option.splits)

text \<open>A relative path without \<^verbatim>\<open>..\<close> names something below whatever it is joined to.\<close>

definition safe_path :: "path \<Rightarrow> bool" where
  "safe_path p \<longleftrightarrow> \<not> is_absolute p \<and> ''..'' \<notin> set (path_parts p)"

text \<open>Where a path leads when the \<^verbatim>\<open>..\<close> components are followed lexically.\<close>

fun walk_comps :: "string list \<Rightarrow> string list \<Rightarrow> string list" where
  "walk_comps here [] = here"
| "walk_comps here (c # cs) = walk_comps (if c = ''..'' then butlast here else here @ [c]) cs"

lemma walk_comps_safe: "''..'' \<notin> set cs \<Longrightarrow> walk_comps here cs = here @ cs"
  by (induction cs arbitrary: here) auto

lemma safe_path_stays_below:
  assumes "safe_path p"
  shows "prefix here (walk_comps here (path_comps p))"
  using assms by (auto simp: safe_path_def is_absolute_def path_parts_def walk_comps_safe)

lemma mk_path_comps: "c \<in> set (path_comps (mk_path s)) \<Longrightarrow> c \<noteq> [] \<and> c \<noteq> ''.'' \<and> CHR ''/'' \<notin> set c"
  by (auto simp: mk_path_def dest: split_on_no_sep)

section \<open>Walking a document\<close>

definition obj_children :: "string \<Rightarrow> json_object \<Rightarrow> (string \<times> json) list" where
  "obj_children c d = map (\<lambda>(k, v). ((msg [c, ''.'', k]), v)) d"

definition list_children :: "string \<Rightarrow> json list \<Rightarrow> (string \<times> json) list" where
  "list_children c xs = map (\<lambda>(i, v). ((msg [c, ''['', show_nat i, '']'']), v)) (enumerate_from 0 xs)"

fun children :: "string \<Rightarrow> json \<Rightarrow> (string \<times> json) list" where
  "children c (JObj d) = obj_children c d"
| "children c (JList xs) = list_children c xs"
| "children c _ = []"

lemma children_size: "(c', v') \<in> set (children c v) \<Longrightarrow> size v' < size v"
proof (cases v)
  case (JList xs)
  assume "(c', v') \<in> set (children c v)"
  then have "v' \<in> set xs"
    using JList by (auto simp: list_children_def set_enumerate_from)
  then show ?thesis using JList by (simp add: size_list_estimation' less_Suc_eq_le)
next
  case (JObj d)
  assume "(c', v') \<in> set (children c v)"
  then obtain k where "(k, v') \<in> set d"
    using JObj by (auto simp: obj_children_def)
  then show ?thesis using JObj size_json_entry by fastforce
qed simp_all

text \<open>Every node of a document, with the context string under which a scanner reaches it.\<close>

function nodes :: "string \<Rightarrow> json \<Rightarrow> (string \<times> json) list" where
  "nodes c v = (c, v) # concat (map (\<lambda>(c', v'). nodes c' v') (children c v))"
  by pat_completeness auto
termination
  by (relation "measure (\<lambda>(c, v). size v)") (auto dest: children_size)

declare nodes.simps [simp del]

lemma nodes_self [simp]: "(c, v) \<in> set (nodes c v)"
  by (subst nodes.simps) simp

lemma nodes_child:
  "(c', v') \<in> set (children c v) \<Longrightarrow> (c'', v'') \<in> set (nodes c' v') \<Longrightarrow> (c'', v'') \<in> set (nodes c v)"
  by (subst nodes.simps) force

lemma nodes_iff:
  "(c', v') \<in> set (nodes c v) \<longleftrightarrow>
     (c', v') = (c, v) \<or> (\<exists>(c'', w) \<in> set (children c v). (c', v') \<in> set (nodes c'' w))"
  by (subst nodes.simps) auto

text \<open>
  A scanner visits a document node by node and rejects it at the first node that its rule forbids.
  Whatever the messages, such a function accepts exactly the documents all of whose nodes pass.
\<close>

locale json_scanner =
  fixes scan :: "json \<Rightarrow> string \<Rightarrow> check"
    and node_ok :: "string \<Rightarrow> json \<Rightarrow> bool"
  assumes scan_step:
    "scan v c = Inr () \<longleftrightarrow> node_ok c v \<and> (\<forall>(c', v') \<in> set (children c v). scan v' c' = Inr ())"
begin

lemma scan_ok_iff: "scan v c = Inr () \<longleftrightarrow> (\<forall>(c', v') \<in> set (nodes c v). node_ok c' v')"
proof (induction c v rule: nodes.induct)
  case (1 c v)
  have "scan v c = Inr () \<longleftrightarrow> node_ok c v \<and> (\<forall>(c', v') \<in> set (children c v). scan v' c' = Inr ())"
    by (rule scan_step)
  also have "\<dots> \<longleftrightarrow> node_ok c v \<and>
      (\<forall>(c', v') \<in> set (children c v). \<forall>(c'', v'') \<in> set (nodes c' v'). node_ok c'' v'')"
    using 1 by blast
  also have "\<dots> \<longleftrightarrow> (\<forall>(c', v') \<in> set (nodes c v). node_ok c' v')"
    by (subst (2) nodes.simps) auto
  finally show ?case .
qed

lemma scan_node: "scan v c = Inr () \<Longrightarrow> (c', v') \<in> set (nodes c v) \<Longrightarrow> node_ok c' v'"
  unfolding scan_ok_iff by blast

text \<open>What a scanner accepts, it accepts of every part.\<close>

lemma scan_subnode:
  assumes "scan v c = Inr ()" and "(c', v') \<in> set (nodes c v)"
  shows "scan v' c' = Inr ()"
  using assms
proof (induction c v rule: nodes.induct)
  case (1 c v)
  from 1(3) consider "(c', v') = (c, v)"
    | c'' w where "(c'', w) \<in> set (children c v)" "(c', v') \<in> set (nodes c'' w)"
    by (auto simp: nodes_iff[of c' v' c v])
  then show ?case
  proof cases
    case 1
    with \<open>scan v c = Inr ()\<close> show ?thesis by simp
  next
    case 2
    with 1(2) have "scan w c'' = Inr ()"
      by (subst (asm) scan_step) blast
    with 2 show ?thesis using 1(1) by blast
  qed
qed

lemma scan_child:
  assumes "scan v c = Inr ()" and "(c', v') \<in> set (children c v)"
  shows "scan v' c' = Inr ()"
  using assms by (subst (asm) scan_step) blast

end

text \<open>
  Scanners are sums of scanners: the rule of a composite is the conjunction of the rules. A rule that
  looks at the node alone makes acceptance independent of the context string.
\<close>

locale context_free_scanner = json_scanner +
  assumes node_ok_context: "node_ok c v = node_ok c' v"
begin

lemma scan_context: "scan v c = Inr () \<longleftrightarrow> scan v c' = Inr ()"
proof (induction "size v" arbitrary: v c c' rule: less_induct)
  case less
  have kids: "map snd (children c v) = map snd (children c' v)"
    by (cases v) (auto simp: obj_children_def list_children_def comp_def case_prod_beta)
  have all: "(\<forall>(d, w) \<in> set (children e v). scan w d = Inr ()) \<longleftrightarrow>
      (\<forall>w \<in> set (map snd (children e v)). scan w [] = Inr ())" for e
    using less[OF children_size[of _ _ e v]] by fastforce
  show ?case
    unfolding scan_step[of v c] scan_step[of v c'] all kids node_ok_context[of c v c'] ..
qed

end

end
