(* ===== verification/Readers.thy ===== *)
theory Readers
  imports PyJson
begin

text \<open>
  The contracts that several components implement, each as a locale that its providers interpret.
  \<^item> A \<open>value_reader\<close> turns a JSON value into a typed one or raises its component's own
    exception (\<^verbatim>\<open>text\<close>, \<^verbatim>\<open>obj\<close>, \<^verbatim>\<open>bool_field\<close>); a \<open>field_reader\<close> does so for
    a field of an object (\<^verbatim>\<open>require_string\<close>, \<^verbatim>\<open>require_bool\<close>, ...).
  \<^item> A \<open>unique_loop\<close> is a loop whose state holds the keys it has seen and that rejects a
    repetition.
  \<^item> A \<open>monotone_loop\<close> remembers the last number it has seen and rejects one out of order.
  \<^item> A \<open>jsonl_reader\<close> is the loop over the numbered, non-blank lines of a JSON Lines file.
  The laws carry the attribute \<open>ok_iff\<close>, so an interpretation adds them to the collection.
\<close>

section \<open>What the environment may raise\<close>

text \<open>
  Reading a text file fails with an \<^verbatim>\<open>OSError\<close>, a decoding error, or the \<^verbatim>\<open>ValueError\<close> of a path with a
  null character; hashing the bytes of a file with the first or the last. Decoding a text as JSON raises
  \<^verbatim>\<open>ValueError\<close> or \<^verbatim>\<open>RecursionError\<close> beside the error that the callers expect. All of these are input errors.
\<close>

abbreviation io_error :: "exn \<Rightarrow> bool" where
  "io_error e \<equiv> is_os_error e \<or> is_UnicodeError e \<or> is_ValueError e \<or> is_RecursionError e"

definition io_env :: "env \<Rightarrow> bool" where
  "io_env env \<longleftrightarrow> (\<forall>p. raises (\<lambda>e. is_os_error e \<or> is_UnicodeError e \<or> is_ValueError e) (fs_read_text env p)) \<and>
     (\<forall>p. raises (\<lambda>e. is_os_error e \<or> is_ValueError e) (fs_sha256 env p))"

lemma io_env_read: "io_env env \<Longrightarrow> (\<And>e. io_error e \<Longrightarrow> P e) \<Longrightarrow> raises P (fs_read_text env p)"
  by (auto simp: io_env_def raises_def)

lemma io_env_sha256: "io_env env \<Longrightarrow> (\<And>e. is_os_error e \<or> is_ValueError e \<Longrightarrow> P e) \<Longrightarrow> raises P (fs_sha256 env p)"
  by (auto simp: io_env_def raises_def)

lemma raises_json_loads [raises_intro]:
  "(\<And>pos m s. P (JSONDecodeError pos m s)) \<Longrightarrow> (\<And>m. P (ValueError m)) \<Longrightarrow> (\<And>m. P (RecursionError m)) \<Longrightarrow> raises P (json_loads env s)"
  by (auto simp: json_loads_def raises_def split: decoded.splits)

lemma raises_json_loads_strict [raises_intro]:
  "(\<And>pos m s. P (JSONDecodeError pos m s)) \<Longrightarrow> (\<And>m. P (ValueError m)) \<Longrightarrow> (\<And>m. P (RecursionError m)) \<Longrightarrow> (\<And>c. P (reject c)) \<Longrightarrow>
     raises P (json_loads_strict env reject s)"
  by (auto simp: json_loads_strict_def raises_def json_loads_def split: decoded.splits option.splits)

text \<open>An environment holding the given files; everything else is missing. Used to run the model.\<close>

definition files_env :: "(string \<times> string) list \<Rightarrow> (string \<times> string) list \<Rightarrow> (string \<times> json) list \<Rightarrow> env" where
  "files_env texts hashes docs =
     \<lparr> fs_read_text = (\<lambda>p. case map_of texts (path_str p) of Some s \<Rightarrow> Inr s | None \<Rightarrow> Inl (FileNotFoundError (path_str p))),
       fs_sha256 = (\<lambda>p. case map_of hashes (path_str p) of Some s \<Rightarrow> Inr s | None \<Rightarrow> Inl (FileNotFoundError (path_str p))),
       fs_exists = (\<lambda>p. map_of texts (path_str p) \<noteq> None),
       fs_is_file = (\<lambda>p. map_of texts (path_str p) \<noteq> None),
       fs_listing = (\<lambda>p. []),
       fs_resolve = (\<lambda>p. if is_absolute p then p else Path ''/'' (walk_comps [] (path_comps p))),
       json_decode = (\<lambda>s. case map_of docs s of Some v \<Rightarrow> Decoded v | None \<Rightarrow> DecodeFailed 0 ''Expecting value'' ''Expecting value''),
       json_constant = (\<lambda>s. None),
       fs_is_symlink = (\<lambda>p. False),
       git_ls_files = (\<lambda>s. if map_of texts s = None then 1 else 0) \<rparr>"

lemma io_env_files_env: "io_env (files_env texts hashes docs)"
  by (auto simp: io_env_def files_env_def raises_def is_os_error_def split: option.splits)

section \<open>Typed readers\<close>

locale value_reader =
  fixes read :: "json \<Rightarrow> string \<Rightarrow> 'a result"
    and proj :: "json \<Rightarrow> 'a option"
    and exn_of :: "string \<Rightarrow> exn"
  assumes read_ok [ok_iff]: "read v c = Inr x \<longleftrightarrow> proj v = Some x"
    and read_err: "read v c = Inl e \<Longrightarrow> \<exists>m. e = exn_of m"
begin

lemma read_defined: "(\<exists>x. read v c = Inr x) \<longleftrightarrow> proj v \<noteq> None"
  by (auto simp: read_ok)

lemma read_context: "read v c = Inr x \<longleftrightarrow> read v c' = Inr x"
  by (simp add: read_ok)

lemma read_cases:
  obtains (returned) x where "read v c = Inr x" and "proj v = Some x"
  | (raised) m where "read v c = Inl (exn_of m)" and "proj v = None"
proof (cases "read v c")
  case (Inl e)
  then have "proj v = None"
    by (metis Inl_Inr_False not_Some_eq read_ok)
  with Inl show ?thesis
    using raised read_err by metis
next
  case (Inr x)
  with returned show ?thesis by (simp add: read_ok)
qed

end

locale field_reader =
  fixes read :: "json_object \<Rightarrow> string \<Rightarrow> string \<Rightarrow> 'a result"
    and proj :: "json \<Rightarrow> 'a option"
    and exn_of :: "string \<Rightarrow> exn"
  assumes read_ok [ok_iff]: "read d f c = Inr x \<longleftrightarrow> proj (jget d f) = Some x"
    and read_err: "read d f c = Inl e \<Longrightarrow> \<exists>m. e = exn_of m"
    and proj_null: "proj JNull = None"
begin

lemma read_context: "read d f c = Inr x \<longleftrightarrow> read d f c' = Inr x"
  by (simp add: read_ok)

lemma read_present: "read d f c = Inr x \<Longrightarrow> has_key d f"
  by (rule jget_has_key) (auto simp: read_ok proj_null)

lemma read_missing: "\<not> has_key d f \<Longrightarrow> \<exists>m. read d f c = Inl (exn_of m)"
  by (metis read_err read_present sum.exhaust)

end

text \<open>A list whose items are all read as non-empty texts.\<close>

lemma all_texts_iff:
  "(\<forall>v \<in> set vs. \<exists>s. text_of v = Some s \<and> Q s) \<longleftrightarrow> (\<exists>ss. vs = map JStr ss \<and> (\<forall>s \<in> set ss. s \<noteq> [] \<and> Q s))"
proof
  assume all: "\<forall>v \<in> set vs. \<exists>s. text_of v = Some s \<and> Q s"
  then have "map JStr (map (\<lambda>v. the (text_of v)) vs) = vs" by (auto intro!: map_idI simp: text_of_iff)
  moreover have "\<forall>s \<in> set (map (\<lambda>v. the (text_of v)) vs). s \<noteq> [] \<and> Q s" using all by (auto simp: text_of_iff)
  ultimately show "\<exists>ss. vs = map JStr ss \<and> (\<forall>s \<in> set ss. s \<noteq> [] \<and> Q s)" by metis
qed (auto simp: text_of_iff)

section \<open>Loops that reject a repeated key\<close>

locale unique_loop =
  fixes step :: "'s \<Rightarrow> 'a \<Rightarrow> 's result"
    and seen_of :: "'s \<Rightarrow> string list"
    and key :: "'a \<Rightarrow> string"
  assumes step_ok: "step s x = Inr s' \<Longrightarrow> key x \<notin> set (seen_of s) \<and> seen_of s' = key x # seen_of s"
begin

lemma loop_seen: "foldE step s xs = Inr s' \<Longrightarrow> seen_of s' = rev (map key xs) @ seen_of s"
  by (induction xs arbitrary: s) (auto simp: bindE_ok_iff dest: step_ok)

lemma loop_distinct:
  "foldE step s xs = Inr s' \<Longrightarrow> distinct (map key xs) \<and> set (map key xs) \<inter> set (seen_of s) = {}"
proof (induction xs arbitrary: s)
  case Nil
  then show ?case by simp
next
  case (Cons x xs)
  then obtain t where t: "step s x = Inr t" and rest: "foldE step t xs = Inr s'"
    by (auto simp: bindE_ok_iff)
  from step_ok[OF t] have "key x \<notin> set (seen_of s)" and "seen_of t = key x # seen_of s" by auto
  with Cons.IH[OF rest] show ?case by auto
qed

end

section \<open>Loops that track a number\<close>

text \<open>
  A loop that remembers the last number it has seen and rejects one that does not stand in the relation
  \<open>le\<close> to it; rows without a number are passed over.
\<close>

locale monotone_loop =
  fixes step :: "'s \<Rightarrow> 'a \<Rightarrow> 's result"
    and last_of :: "'s \<Rightarrow> int option"
    and key :: "'a \<Rightarrow> int option"
    and le :: "int \<Rightarrow> int \<Rightarrow> bool"
  assumes le_trans: "le a b \<Longrightarrow> le b c \<Longrightarrow> le a c"
    and step_last: "step s x = Inr s' \<Longrightarrow> last_of s' = (case key x of None \<Rightarrow> last_of s | Some k \<Rightarrow> Some k)"
    and step_le: "step s x = Inr s' \<Longrightarrow> key x = Some k \<Longrightarrow> last_of s = Some l \<Longrightarrow> le l k"
begin

lemma loop_sorted:
  assumes "foldE step s xs = Inr s'"
  shows "sorted_wrt le (List.map_filter key xs) \<and> (\<forall>l k. last_of s = Some l \<longrightarrow> k \<in> set (List.map_filter key xs) \<longrightarrow> le l k)"
  using assms
proof (induction xs arbitrary: s)
  case Nil
  then show ?case by (simp add: List.map_filter_simps)
next
  case (Cons x xs)
  then obtain t where t: "step s x = Inr t" and rest: "foldE step t xs = Inr s'"
    by (auto simp: bindE_ok_iff)
  note IH = Cons.IH[OF rest]
  show ?case
  proof (cases "key x")
    case None
    with step_last[OF t] IH show ?thesis by (simp add: List.map_filter_simps)
  next
    case (Some k)
    with step_last[OF t] have "last_of t = Some k" by simp
    with IH have later: "\<forall>j \<in> set (List.map_filter key xs). le k j" by blast
    moreover have "le l j" if "last_of s = Some l" "j \<in> set (List.map_filter key xs)" for l j
      using step_le[OF t Some that(1)] later that(2) le_trans by blast
    ultimately show ?thesis
      using IH Some step_le[OF t Some] by (simp add: List.map_filter_simps)
  qed
qed

end

section \<open>JSON Lines\<close>

text \<open>
  \<^verbatim>\<open>for index, line in enumerate(lines, start=1): if line.strip() == "": continue; rows.append(...)\<close>
\<close>

definition content_lines :: "string list \<Rightarrow> (nat \<times> string) list" where
  "content_lines lines = filter (\<lambda>(i, line). strip line \<noteq> []) (enumerate_from 1 lines)"

definition jsonl_rows :: "(nat \<Rightarrow> string \<Rightarrow> 'a result) \<Rightarrow> string list \<Rightarrow> 'a list result" where
  "jsonl_rows f lines = mapE (\<lambda>(i, line). f i line) (content_lines lines)"

lemma jsonl_rows_ok_iff:
  "jsonl_rows f lines = Inr rows \<longleftrightarrow> list_all2 (\<lambda>(i, line) r. f i line = Inr r) (content_lines lines) rows"
  by (simp add: jsonl_rows_def mapE_ok_iff case_prod_beta')

lemma jsonl_rows_length: "jsonl_rows f lines = Inr rows \<Longrightarrow> length rows = length (content_lines lines)"
  by (auto simp: jsonl_rows_ok_iff dest: list_all2_lengthD)

text \<open>
  A loader of objects: every row it returns is the object decoded from one content line, in order,
  and a file without content lines is an error.
\<close>

locale jsonl_reader =
  fixes load :: "env \<Rightarrow> path \<Rightarrow> json_object list result"
    and line_value :: "env \<Rightarrow> string \<Rightarrow> json option"
  assumes load_ok: "load env p = Inr rows \<Longrightarrow>
      \<exists>s. fs_read_text env p = Inr s \<and> rows \<noteq> [] \<and>
        list_all2 (\<lambda>(i, line) r. line_value env line = Some (JObj r)) (content_lines (splitlines s)) rows"
begin

lemma load_nonempty: "load env p = Inr rows \<Longrightarrow> rows \<noteq> []"
  by (auto dest: load_ok)

lemma load_row:
  assumes "load env p = Inr rows" and "r \<in> set rows"
  shows "\<exists>s line. fs_read_text env p = Inr s \<and> line \<in> set (splitlines s) \<and> strip line \<noteq> [] \<and>
    line_value env line = Some (JObj r)"
proof -
  from assms(1) obtain s where s: "fs_read_text env p = Inr s"
    and all: "list_all2 (\<lambda>(i, line) r. line_value env line = Some (JObj r)) (content_lines (splitlines s)) rows"
    using load_ok by blast
  obtain i line where mem: "(i, line) \<in> set (content_lines (splitlines s))"
    and val: "line_value env line = Some (JObj r)"
    using list_all2_right[OF all assms(2)] by auto
  from mem have "line \<in> set (splitlines s)" and "strip line \<noteq> []"
    by (auto simp: content_lines_def dest: enumerate_from_mem)
  with s val show ?thesis by blast
qed

lemma load_count:
  assumes "load env p = Inr rows" and "fs_read_text env p = Inr s"
  shows "length rows = length (content_lines (splitlines s))"
  using load_ok[OF assms(1)] assms(2) by (auto dest: list_all2_lengthD)

end

end
