(* ===== verification/MatrixRunModel.thy ===== *)
theory MatrixRunModel
  imports Readers
begin

text \<open>
  \<^verbatim>\<open>qa/matrix_run_model.py\<close>: the names, field sets, patterns and workload metadata of the
  \<^verbatim>\<open>matrix-run/v1\<close> contract. A \<^verbatim>\<open>frozenset\<close> of strings is the list of its members.
\<close>

section \<open>Names and field sets\<close>

definition SCHEMA_mr :: string where
  "SCHEMA_mr = ''zig-scheduler/matrix-run/v1''"

definition MATRIX_BPF_ABI_VERSION :: string where
  "MATRIX_BPF_ABI_VERSION = ''zigsched-bpf-abi-v1''"

definition SCHEMA_FILE :: string where
  "SCHEMA_FILE = ''matrix-run.v1.schema.json''"

definition DOC_FILE :: string where
  "DOC_FILE = ''matrix-run-contract.md''"

definition VM_MARKER_mr :: string where
  "VM_MARKER_mr = ''/run/zig-scheduler-vm-lab.marker''"

definition OUTCOMES :: "string list" where
  "OUTCOMES =
     [''PASS'', ''SKIP'', ''REFUSE'', ''INCIDENT'', ''FAIL'']"

definition EVIDENCE_MODES :: "string list" where
  "EVIDENCE_MODES =
     [''vm-live'', ''host-refusal-only'', ''fixture'']"

definition TUPLE_STATUS :: "string list" where
  "TUPLE_STATUS =
     [''supported'', ''unsupported'', ''unknown'']"

definition REQUIRED_FIXTURES :: "string list" where
  "REQUIRED_FIXTURES =
     [''pass.json'', ''live-backend.json'', ''skip-unsupported-tuple.json'', ''host-refusal-only.json'',
      ''incident-verifier-reject.json'', ''rollback-failure.json'', ''cleanup-residue.json'',
      ''workload-cpu-saturation.json'', ''workload-interactive-latency.json'',
      ''workload-scheduler-affinity-churn.json'', ''workload-fork-ipc-pressure.json'',
      ''workload-mixed-io.json'', ''workload-cgroup-weight-quota.json'', ''workload-cpu-hotplug.json'',
      ''sched-ext-state-normal-rollback.json'', ''sched-ext-state-scheduler-exit.json'',
      ''sched-ext-state-watchdog-disable.json'', ''sched-ext-state-forced-disable.json'']"

definition REQUIRED_INVALID_FIXTURES :: "string list" where
  "REQUIRED_INVALID_FIXTURES =
     [''host-mutation-true.json'', ''release-eligible-true.json'', ''invalid-outcome.json'',
      ''stale-git.json'', ''dirty-git.json'', ''missing-vm-marker.json'', ''unsafe-absolute-path.json'',
      ''unsafe-traversal-path.json'', ''missing-rollback-proof.json'', ''missing-cleanup-proof.json'',
      ''missing-cleanup-proof-on-skip.json'', ''missing-cleanup-proof-on-refuse.json'',
      ''missing-host-refusal-proof.json'', ''privacy-failed.json'', ''unsupported-bpf-abi-version.json'',
      ''malformed.json'', ''extra-property.json'', ''missing-sched-ext-state.json'',
      ''stale-enable-seq.json'', ''private-debug-dump.json'']"

definition PATH_FIELDS :: "string list" where
  "PATH_FIELDS =
     [''runtime_sample_path'', ''daemon_event_path'', ''incident_path'', ''rollback_proof_path'',
      ''cleanup_proof_path'', ''host_refusal_proof_path'']"

definition ROW_FIELDS :: "string list" where
  "ROW_FIELDS =
     [''schema'', ''matrix_run_id'', ''scenario_id'', ''outcome'', ''evidence_mode'', ''kernel_tuple'',
      ''supported_tuple_status'', ''vm_marker'', ''bpf_abi_version'', ''policy'', ''workload'',
      ''action_id'', ''audit_id'', ''rollback_id'', ''pre_scheduler_state'', ''post_scheduler_state'',
      ''pre_cgroup_state'', ''post_cgroup_state'', ''runtime_sample_path'', ''daemon_event_path'',
      ''incident_path'', ''rollback_proof_path'', ''cleanup_proof_path'', ''host_refusal_proof_path'',
      ''privacy_scan'', ''git'', ''release_eligible'', ''host_mutation'']"

definition KERNEL_TUPLE_FIELDS :: "string list" where
  "KERNEL_TUPLE_FIELDS =
     [''kernel_release'', ''arch'', ''btf'', ''kvm'', ''sched_ext'']"

definition VM_MARKER_FIELDS :: "string list" where
  "VM_MARKER_FIELDS =
     [''required'', ''present'', ''path'', ''checked_by'']"

definition POLICY_FIELDS :: "string list" where
  "POLICY_FIELDS =
     [''name'', ''object_path'', ''object_sha256'', ''source_path'', ''source_sha256'']"

definition WORKLOAD_FIELDS :: "string list" where
  "WORKLOAD_FIELDS =
     [''name'', ''spec_path'', ''spec_sha256'']"

definition PRIVACY_SCAN_FIELDS :: "string list" where
  "PRIVACY_SCAN_FIELDS =
     [''status'', ''private_fields_found'', ''report_path'']"

definition GIT_FIELDS :: "string list" where
  "GIT_FIELDS =
     [''expected_sha'', ''actual_sha'', ''status'', ''dirty'']"

definition MANIFEST_ROW_FIELDS :: "string list" where
  "MANIFEST_ROW_FIELDS =
     [''scenario_id'', ''outcome'', ''artifact_path'', ''reason'']"

definition MANIFEST_FIELDS :: "string list" where
  "MANIFEST_FIELDS =
     [''schema'', ''matrix_run_id'', ''mode'', ''fixture_mode'', ''started_at'', ''ended_at'',
      ''out_dir'', ''daemon_events_path'', ''row_count'', ''rows'', ''host_mutation'', ''release_eligible'']"

definition MANIFEST_FILE :: string where
  "MANIFEST_FILE = ''manifest.json''"

definition SCHEMA_PATH_FIELDS :: "string list list" where
  "SCHEMA_PATH_FIELDS =
     [[''runtime_sample_path''], [''daemon_event_path''], [''incident_path''], [''rollback_proof_path''],
      [''cleanup_proof_path''], [''host_refusal_proof_path''], [''policy'', ''object_path''],
      [''policy'', ''source_path''], [''workload'', ''spec_path''], [''privacy_scan'', ''report_path'']]"

definition PRIVATE_NEEDLES_mr :: "string list" where
  "PRIVATE_NEEDLES_mr =
     [''cmdline'', ''command_line'', ''argv'', ''environment'', ''secret'', ''api_key'', ''token'',
      ''password'', ''authorization'', ''bearer'']"

definition SCHED_STATES_mr :: "string list" where
  "SCHED_STATES_mr =
     [''disabled'', ''enabled'', ''enabling'', ''disabling'', ''unknown'', ''unavailable'']"

definition SCHED_DISABLE_REASONS :: "string list" where
  "SCHED_DISABLE_REASONS =
     [''normal_unregister'', ''scheduler_exit'', ''watchdog_stall'', ''watchdog_error'',
      ''sysrq_forced_disable'', ''not_applicable'', ''unavailable'']"

definition SCHED_STATE_FIELDS :: "string list" where
  "SCHED_STATE_FIELDS =
     [''sched_ext'', ''ops'', ''enable_seq'', ''root_ops'', ''task_ext_enabled'', ''disable_reason'',
      ''teardown_state'', ''rollback_state'']"

definition WORKLOAD_SPEC_SCHEMA :: string where
  "WORKLOAD_SPEC_SCHEMA = ''zig-scheduler/workload-fixture/v1''"

definition WORKLOAD_CAPABILITY_SCHEMA :: string where
  "WORKLOAD_CAPABILITY_SCHEMA = ''zig-scheduler/workload-capability/v1''"

definition PRIVACY_SCAN_SCHEMA :: string where
  "PRIVACY_SCAN_SCHEMA = ''zig-scheduler/privacy-scan/v1''"

definition PRIVACY_REPORT_FIELDS :: "string list" where
  "PRIVACY_REPORT_FIELDS =
     [''schema'', ''status'', ''private_fields_found'', ''host_mutation'']"

definition INCIDENT_FIELDS :: "string list" where
  "INCIDENT_FIELDS =
     [''schema'', ''scenario_id'', ''outcome'', ''reason'', ''host_mutation'', ''release_eligible'']"

definition ROLLBACK_PROOF_FIELDS :: "string list" where
  "ROLLBACK_PROOF_FIELDS =
     [''schema'', ''scenario_id'', ''status'', ''scheduler_state'', ''ops'', ''host_mutation'']"

definition CLEANUP_PROOF_FIELDS :: "string list" where
  "CLEANUP_PROOF_FIELDS =
     [''schema'', ''scenario_id'', ''status'', ''owned_qemu_leftovers'', ''owned_temp_leftovers'',
      ''qemu_scan_before'', ''qemu_scan_after'', ''temp_scan_before'', ''temp_scan_after'',
      ''host_mutation'']"

definition HOST_REFUSAL_FIELDS :: "string list" where
  "HOST_REFUSAL_FIELDS =
     [''schema'', ''scenario_id'', ''status'', ''reason'', ''no_bpf_load_attach'', ''no_cgroup_write'',
      ''no_sys_write'', ''no_proc_write'', ''host_mutation'']"

definition VM_MARKER_PROOF_FIELDS :: "string list" where
  "VM_MARKER_PROOF_FIELDS =
     [''schema'', ''path'', ''required'', ''present'', ''evidence_mode'', ''host_mutation'']"

definition WORKLOAD_SPEC_FIELDS :: "string list" where
  "WORKLOAD_SPEC_FIELDS =
     [''schema'', ''name'', ''workload_class'', ''scenario_id'', ''required_tools'', ''threshold_source'',
      ''thresholds'', ''benchmark_provenance'', ''capability_artifact_path'', ''runner'',
      ''vm_marker_required_for_live_run'', ''host_safe_fixture_only'', ''missing_prereq'',
      ''cgroup_semantics'', ''cpu_hotplug_semantics'', ''host_mutation'', ''release_eligible'']"

definition WORKLOAD_THRESHOLD_FIELDS :: "string list" where
  "WORKLOAD_THRESHOLD_FIELDS =
     [''source'', ''fixture_status'', ''calibration_status'', ''production_capacity_claim'']"

definition WORKLOAD_CAPABILITY_FIELDS :: "string list" where
  "WORKLOAD_CAPABILITY_FIELDS =
     [''schema'', ''scenario_id'', ''workload_class'', ''required_tools'', ''threshold_source'', ''mode'',
      ''status'', ''typed_outcome'', ''missing_prereq'', ''vm_marker_required_for_live_run'',
      ''fixture_mode'', ''runner'', ''host_mutation'', ''release_eligible'']"

definition WORKLOAD_TOOL_NAMES :: "string list" where
  "WORKLOAD_TOOL_NAMES =
     [''stress-ng'', ''cyclictest'', ''perf'', ''taskset'', ''chrt'', ''hackbench-like'', ''fio'',
      ''cpu-hotplug-online-control'', ''builtin-churn'']"

definition WORKLOAD_THRESHOLD_SOURCES :: "string list" where
  "WORKLOAD_THRESHOLD_SOURCES =
     [''fixture'', ''calibrated'', ''deferred'', ''record-only'', ''uncalibrated'']"

definition WORKLOAD_CAPABILITY_MODES :: "string list" where
  "WORKLOAD_CAPABILITY_MODES =
     [''host-safe'', ''auto'', ''vm-required'']"

definition MATRIX_BASE :: path where
  "MATRIX_BASE = mk_path ''evidence/lab/matrix''"

definition RUN_ID_MAX :: nat where
  "RUN_ID_MAX = 64"

definition WORKLOAD_PRIVATE_NEEDLES :: "string list" where
  "WORKLOAD_PRIVATE_NEEDLES = PRIVATE_NEEDLES_mr @ [''command'', ''env'', ''cwd'', ''pid'', ''ppid'']"

section \<open>Patterns\<close>

definition is_run_id_char :: "char \<Rightarrow> bool" where
  "is_run_id_char c \<longleftrightarrow> is_alnum_ascii c \<or> c = CHR ''_'' \<or> c = CHR ''.'' \<or> c = CHR ''-''"

definition RUN_ID_RE :: rx where
  "RUN_ID_RE = anchored_class is_run_id_char 1 64"

definition ID_RE :: rx where
  "ID_RE = anchored_class is_run_id_char 1 96"

definition AUDIT_RE_mr :: rx where
  "AUDIT_RE_mr = seqs [Bos, lit ''AUD-'', Rep 8 8 (Ch is_digit_char), lit ''T'', Rep 6 6 (Ch is_digit_char), lit ''Z-'',
     plus (Ch is_run_id_char), Eos]"

definition SHA256_RE_mr :: rx where
  "SHA256_RE_mr = anchored_class is_hex_char 64 64"

definition SAFE_RELATIVE_PATH_PATTERN :: string where
  "SAFE_RELATIVE_PATH_PATTERN = (msg [''^(?!/)(?!.*(?:^|/)'', [CHR 0x5C], ''.'', [CHR 0x5C], ''.(?:/|$)).+$''])"

definition PRIVATE_PATH_RE :: rx where
  "PRIVATE_PATH_RE = seqs [Alt Bos (Ch (\<lambda>c. is_space_char c \<or> c = CHR ''='' \<or> c = CHR '':'')), lit ''/'',
     alts (map lit [''home'', ''root'', ''etc'', ''proc'', ''sys'', ''var'', ''tmp'']), lit ''/'']"

definition CLAIM_TEXT_RE :: rx where
  "CLAIM_TEXT_RE = seqs [WordB, alts (map lit_ic [''production'', ''release'', ''performance'']),
     plus (Ch (\<lambda>c. is_space_char c \<or> c = CHR ''_'' \<or> c = CHR ''-'')),
     alts (map lit_ic [''ready'', ''eligible'', ''approved'', ''claim'', ''slo'', ''sla'', ''guarantee'', ''baseline'', ''capacity'']),
     WordB]"

section \<open>Workload scenarios\<close>

definition CGROUP_WORKLOAD_SEMANTICS :: "(string \<times> string) list" where
  "CGROUP_WORKLOAD_SEMANTICS =
     [(''cpu.weight'', ''callback-observed''), (''cpu.max'', ''deferred''), (''cpu.max.burst'', ''deferred''),
      (''cpuset.cpus'', ''observed-constraints''), (''cpuset.cpus.effective'', ''observed-constraints''),
      (''cpu.pressure'', ''observed-or-deferred''), (''uclamp'', ''observed-or-deferred''),
      (''cgroup.type.domain'', ''observed''), (''cgroup.type.threaded'', ''observed''), (''allowed-mask'', ''rejected'')]"

definition CPU_HOTPLUG_SEMANTICS :: "(string \<times> string) list" where
  "CPU_HOTPLUG_SEMANTICS =
     [(''cpu.hotplug.offline'', ''fallback-observed''), (''cpu.hotplug.online'', ''fallback-observed''),
      (''cpuset.cpus'', ''observed-constraints''), (''cpuset.cpus.effective'', ''observed-constraints''),
      (''allowed-mask'', ''rejected'')]"

record workload_scenario_metadata =
  md_scenario_id :: string
  md_workload_class :: string
  md_required_tools :: "string list"
  md_threshold_sources :: "string list"

definition record_only_scenario :: "string \<Rightarrow> string \<Rightarrow> string list \<Rightarrow> workload_scenario_metadata" where
  "record_only_scenario scenario_id workload_class required_tools =
     \<lparr> md_scenario_id = scenario_id, md_workload_class = workload_class, md_required_tools = required_tools,
       md_threshold_sources = [''record-only''] \<rparr>"

definition WORKLOAD_SCENARIO_METADATA :: "(string \<times> workload_scenario_metadata) list" where
  "WORKLOAD_SCENARIO_METADATA = map (\<lambda>m. (md_scenario_id m, m))
     [record_only_scenario ''workload-cpu-saturation'' ''cpu-saturation'' [''stress-ng''],
      record_only_scenario ''workload-interactive-latency'' ''interactive-latency'' [''cyclictest'', ''perf''],
      record_only_scenario ''workload-scheduler-affinity-churn'' ''scheduler-affinity-churn'' [''stress-ng'', ''taskset'', ''chrt''],
      record_only_scenario ''workload-fork-ipc-pressure'' ''bounded-fork-ipc-pressure'' [''hackbench-like''],
      record_only_scenario ''workload-mixed-io'' ''mixed-io'' [''fio''],
      record_only_scenario ''workload-cgroup-weight-quota'' ''cgroup-weight-quota-pressure'' [''stress-ng''],
      record_only_scenario ''workload-cpu-hotplug'' ''cpu-hotplug-offline'' [''cpu-hotplug-online-control'']]"

section \<open>What the patterns say\<close>

lemma RUN_ID_RE_iff: "re_fullmatch RUN_ID_RE s \<longleftrightarrow> s \<noteq> [] \<and> length s \<le> 64 \<and> list_all is_run_id_char s"
  by (cases s) (simp_all add: RUN_ID_RE_def re_fullmatch_anchored_class)

lemma ID_RE_iff: "re_fullmatch ID_RE s \<longleftrightarrow> s \<noteq> [] \<and> length s \<le> 96 \<and> list_all is_run_id_char s"
  by (cases s) (simp_all add: ID_RE_def re_fullmatch_anchored_class)

lemma SHA256_RE_mr_iff: "re_fullmatch SHA256_RE_mr s \<longleftrightarrow> length s = 64 \<and> list_all is_hex_char s"
  by (auto simp: SHA256_RE_mr_def re_fullmatch_anchored_class)

text \<open>A stable identifier holds no slash, so as a path it is one component.\<close>

lemma run_id_no_slash: "list_all is_run_id_char s \<Longrightarrow> CHR ''/'' \<notin> set s"
  by (auto simp: list_all_iff is_run_id_char_def is_alnum_ascii_def is_digit_char_def is_upper_ascii_def
      is_lower_ascii_def in_range_def)

end
