(* ===== verification/MatrixRunJson.thy ===== *)
theory MatrixRunJson
  imports MatrixRunModel
begin

text \<open>
  \<^verbatim>\<open>qa/matrix_run_json.py\<close>: the primitives of the matrix-run checks. Reading and typing JSON,
  the two privacy scanners, the scheduler state with its enable sequence, identifiers, hashes, and the
  paths: relative and non-traversing ones, and those that must stay below the run's directory.
\<close>

section \<open>Reading\<close>

definition reject_constant_mr :: "string \<Rightarrow> exn" where
  "reject_constant_mr value = MatrixRunContractError (msg [''invalid JSON constant: '', value])"

definition require_mr :: "bool \<Rightarrow> string \<Rightarrow> check" where
  "require_mr condition message = (if condition then Inr () else Inl (MatrixRunContractError message))"

definition obj_mr :: "json \<Rightarrow> string \<Rightarrow> json_object result" where
  "obj_mr value context =
     (case obj_of value of
        None \<Rightarrow> Inl (MatrixRunContractError (msg [context, '' must be an object'']))
      | Some d \<Rightarrow> Inr d)"

definition text_mr :: "json \<Rightarrow> string \<Rightarrow> string result" where
  "text_mr value context =
     (case text_of value of
        None \<Rightarrow> Inl (MatrixRunContractError (msg [context, '' must be non-empty text'']))
      | Some s \<Rightarrow> Inr s)"

definition bool_field :: "json \<Rightarrow> string \<Rightarrow> bool result" where
  "bool_field value context =
     (case bool_of value of
        None \<Rightarrow> Inl (MatrixRunContractError (msg [context, '' must be a boolean'']))
      | Some b \<Rightarrow> Inr b)"

definition load_json_mr :: "env \<Rightarrow> path \<Rightarrow> json_object result" where
  "load_json_mr env path =
     (bindE (reraise is_JSONDecodeError
         (\<lambda>exc. case exc of JSONDecodeError pos m s \<Rightarrow>
         MatrixRunContractError (msg [''invalid JSON in '', path_str path, '' at byte '', show_nat pos, '': '', m]))
         (reraise is_FileNotFoundError
         (\<lambda>_. MatrixRunContractError (msg [''missing JSON file: '', path_str path]))
         (bindE (fs_read_text env path) (json_loads_strict env reject_constant_mr)))) (\<lambda>raw.
     obj_mr raw (path_str path)))"

definition require_only_fields_mr :: "json_object \<Rightarrow> string list \<Rightarrow> string \<Rightarrow> check" where
  "require_only_fields_mr row allowed context =
     (let extra = sorted_diff (keys row) allowed in
      require_mr (extra = []) (msg [context, '' has unexpected field(s): '', join '', '' extra]))"

text \<open>\<^verbatim>\<open>{...}.issubset(d)\<close>.\<close>

definition has_keys :: "json_object \<Rightarrow> string list \<Rightarrow> bool" where
  "has_keys d ks \<longleftrightarrow> list_all (has_key d) ks"

definition text_list :: "json \<Rightarrow> string \<Rightarrow> string list result" where
  "text_list value context =
     (case list_of value of
        None \<Rightarrow> Inl (MatrixRunContractError (msg [context, '' must be a list'']))
      | Some items \<Rightarrow> mapE (\<lambda>(index, item). text_mr item (msg [context, ''['', show_nat index, '']''])) (enumerate_from 0 items))"

section \<open>Privacy\<close>

definition has_needle :: "string list \<Rightarrow> string \<Rightarrow> bool" where
  "has_needle needles s \<longleftrightarrow> list_ex (\<lambda>needle. contains needle (lower s)) needles"

fun reject_private_mr :: "json \<Rightarrow> string \<Rightarrow> check" where
  "reject_private_mr (JObj d) context =
     forE (\<lambda>(key, child).
       (thenE (require_mr (\<not> has_needle PRIVATE_NEEDLES_mr key) (msg [''privacy-unsafe key in '', context, ''.'', key])) (
       reject_private_mr child (msg [context, ''.'', key])))) d"
| "reject_private_mr (JList xs) context =
     forE (\<lambda>(index, child). reject_private_mr child (msg [context, ''['', show_nat index, '']''])) (enumerate_from 0 xs)"
| "reject_private_mr (JStr s) context =
     (thenE (require_mr (\<not> has_needle PRIVATE_NEEDLES_mr s) (msg [''privacy-unsafe text in '', context])) (
     thenE (require_mr (\<not> re_search PRIVATE_PATH_RE s) (msg [''privacy-unsafe path in '', context])) (
     require_mr (\<not> re_search CLAIM_TEXT_RE s) (msg [''claim-unsafe text in '', context]))))"
| "reject_private_mr _ context = Inr ()"

fun reject_workload_artifact_private :: "json \<Rightarrow> string \<Rightarrow> check" where
  "reject_workload_artifact_private (JObj d) context =
     forE (\<lambda>(key, child).
       (thenE (require_mr (\<not> has_needle WORKLOAD_PRIVATE_NEEDLES key) (msg [''privacy-unsafe workload key in '', context, ''.'', key])) (
       reject_workload_artifact_private child (msg [context, ''.'', key])))) d"
| "reject_workload_artifact_private (JList xs) context =
     forE (\<lambda>(index, child). reject_workload_artifact_private child (msg [context, ''['', show_nat index, '']''])) (enumerate_from 0 xs)"
| "reject_workload_artifact_private (JStr s) context =
     (thenE (require_mr (\<not> has_needle WORKLOAD_PRIVATE_NEEDLES s) (msg [''privacy-unsafe workload text in '', context])) (
     thenE (require_mr (\<not> re_search CLAIM_TEXT_RE s) (msg [''claim-unsafe workload text in '', context])) (
     require_mr (\<not> re_search PRIVATE_PATH_RE s) (msg [''privacy-unsafe workload path in '', context]))))"
| "reject_workload_artifact_private _ context = Inr ()"

section \<open>Scheduler state\<close>

definition require_sched_enable_seq :: "json \<Rightarrow> string \<Rightarrow> int option result" where
  "require_sched_enable_seq value context =
     (bindE (text_mr value context) (\<lambda>raw.
     if raw = ''unavailable'' then Inr None
         else (thenE (require_mr (isdecimal raw) (msg [context, '' must be a nonnegative integer string or unavailable''])) (
         bindE (py_int raw) (\<lambda>n.
         Inr (Some n))))))"

definition validate_scheduler_state :: "json_object \<Rightarrow> string \<Rightarrow> int option result" where
  "validate_scheduler_state state context =
     (thenE (require_only_fields_mr state SCHED_STATE_FIELDS context) (
     thenE (require_mr (has_keys state [''sched_ext'', ''ops'']) (msg [context, '' missing sched_ext/ops state''])) (
     bindE (text_mr (jget state ''sched_ext'') (msg [context, ''.sched_ext''])) (\<lambda>sched_ext.
     thenE (require_mr (sched_ext \<in> set SCHED_STATES_mr) (msg [context, ''.sched_ext invalid''])) (
     bindE (text_mr (jget state ''ops'') (msg [context, ''.ops''])) (\<lambda>ops.
     thenE (reject_private_mr (JStr ops) (msg [context, ''.ops''])) (
     bindE (require_sched_enable_seq (jget_default state ''enable_seq'' (JStr ''unavailable'')) (msg [context, ''.enable_seq''])) (\<lambda>enable_seq.
     thenE (if has_key state ''task_ext_enabled''
         then (bindE (text_mr (jget state ''task_ext_enabled'') (msg [context, ''.task_ext_enabled''])) (\<lambda>task_ext.
         require_mr (task_ext \<in> set [''true'', ''false'', ''unknown'', ''unavailable'']) (msg [context, ''.task_ext_enabled invalid''])))
         else Inr ()) (
     thenE (if has_key state ''disable_reason''
         then (bindE (text_mr (jget state ''disable_reason'') (msg [context, ''.disable_reason''])) (\<lambda>reason.
         require_mr (reason \<in> set SCHED_DISABLE_REASONS) (msg [context, ''.disable_reason invalid''])))
         else Inr ()) (
     thenE (reject_private_mr (JObj state) context) (
     Inr enable_seq)))))))))))"

section \<open>Paths, identifiers and hashes\<close>

definition require_safe_path_mr :: "json \<Rightarrow> string \<Rightarrow> string result" where
  "require_safe_path_mr value context =
     (bindE (text_mr value context) (\<lambda>raw.
     (let path = mk_path raw in
     thenE (require_mr (\<not> is_absolute path \<and> ''..'' \<notin> set (path_parts path)) (msg [context, '' must be relative and non-traversing: '', raw])) (
     Inr raw))))"

definition require_manifest_root :: "path \<Rightarrow> path result" where
  "require_manifest_root manifest_path =
     (thenE (require_mr (\<not> is_absolute manifest_path \<and> ''..'' \<notin> set (path_parts manifest_path)) ''--manifest must be relative and non-traversing'') (
     (let parts = path_parts manifest_path in
     thenE (require_mr (length parts = 5 \<and> take 3 parts = path_parts MATRIX_BASE \<and> parts ! 4 = MANIFEST_FILE)
         (msg [''--manifest must be '', path_str MATRIX_BASE, ''/<run-id>/'', MANIFEST_FILE, '': '', path_str manifest_path])) (
     thenE (require_mr (re_fullmatch RUN_ID_RE (parts ! 3)) (msg [''--manifest run id must be 1-'', show_nat RUN_ID_MAX, '' safe characters: '', parts ! 3])) (
     Inr (Path [] (take 4 parts)))))))"

definition require_descendant_mr :: "path \<Rightarrow> path \<Rightarrow> string \<Rightarrow> check" where
  "require_descendant_mr path base context =
     require_mr (path = base \<or> take (length (path_parts base)) (path_parts path) = path_parts base)
       (msg [context, '' must stay under '', path_str base, '': '', path_str path])"

definition require_identifier :: "json_object \<Rightarrow> string \<Rightarrow> rx \<Rightarrow> string \<Rightarrow> check" where
  "require_identifier row field pattern context =
     (bindE (text_mr (jget row field) (msg [context, ''.'', field])) (\<lambda>raw.
     require_mr (re_fullmatch pattern raw) (msg [context, ''.'', field, '' is not a stable identifier''])))"

definition require_sha :: "json_object \<Rightarrow> string \<Rightarrow> string \<Rightarrow> check" where
  "require_sha row field context =
     (bindE (text_mr (jget row field) (msg [context, ''.'', field])) (\<lambda>raw.
     require_mr (re_fullmatch SHA256_RE_mr raw) (msg [context, ''.'', field, '' must be sha256 hex''])))"

definition file_sha256_mr :: "env \<Rightarrow> path \<Rightarrow> string result" where
  "file_sha256_mr env path =
     reraise is_FileNotFoundError
       (\<lambda>_. MatrixRunContractError (msg [''missing referenced artifact: '', path_str path])) (fs_sha256 env path)"

section \<open>What acceptance means\<close>

lemma require_mr_ok_iff [ok_iff]: "require_mr c m = Inr u \<longleftrightarrow> c"
  by (simp add: require_mr_def)

interpretation mr_obj: value_reader obj_mr obj_of MatrixRunContractError
  by unfold_locales (auto simp: obj_mr_def split: option.splits)

interpretation mr_text: value_reader text_mr text_of MatrixRunContractError
  by unfold_locales (auto simp: text_mr_def split: option.splits)

interpretation mr_bool: value_reader bool_field bool_of MatrixRunContractError
  by unfold_locales (auto simp: bool_field_def split: option.splits)

lemma require_only_fields_mr_ok_iff [ok_iff]:
  "require_only_fields_mr d allowed c = Inr u \<longleftrightarrow> set (keys d) \<subseteq> set allowed"
  by (simp add: require_only_fields_mr_def ok_iff)

lemma has_keys_iff: "has_keys d ks \<longleftrightarrow> set ks \<subseteq> set (keys d)"
  by (auto simp: has_keys_def list_all_iff has_key_def)

lemma require_safe_path_mr_ok_iff [ok_iff]:
  "require_safe_path_mr v c = Inr s \<longleftrightarrow> text_of v = Some s \<and> safe_path (mk_path s)"
  by (auto simp: require_safe_path_mr_def ok_iff safe_path_def Let_def)

lemma load_json_mr_ok_iff [ok_iff]:
  "load_json_mr env p = Inr d \<longleftrightarrow>
     (\<exists>s. fs_read_text env p = Inr s \<and> json_constant env s = None \<and> json_decode env s = Decoded (JObj d))"
  by (auto simp: load_json_mr_def ok_iff obj_of_iff)

lemma require_identifier_ok_iff [ok_iff]:
  "require_identifier row f r c = Inr u \<longleftrightarrow> (\<exists>s. jget row f = JStr s \<and> s \<noteq> [] \<and> re_fullmatch r s)"
  by (auto simp: require_identifier_def ok_iff text_of_iff)

lemma require_sha_ok_iff [ok_iff]:
  "require_sha row f c = Inr u \<longleftrightarrow> (\<exists>s. jget row f = JStr s \<and> length s = 64 \<and> list_all is_hex_char s)"
  by (auto simp: require_sha_def ok_iff text_of_iff SHA256_RE_mr_iff)

lemma file_sha256_mr_ok_iff [ok_iff]: "file_sha256_mr env p = Inr s \<longleftrightarrow> fs_sha256 env p = Inr s"
  by (simp add: file_sha256_mr_def ok_iff)

lemma text_list_ok: "text_list v c = Inr ts \<Longrightarrow> v = JList (map JStr ts) \<and> [] \<notin> set ts"
proof -
  assume "text_list v c = Inr ts"
  then obtain items where v: "v = JList items"
    and all: "list_all2 (\<lambda>x y. text_of (snd x) = Some y) (enumerate_from 0 items) ts"
    by (auto simp: text_list_def list_of_iff mapE_ok_iff case_prod_beta ok_iff split: option.splits)
  from all have "map snd (enumerate_from 0 items) = map JStr ts \<and> [] \<notin> set ts"
    by (induction rule: list_all2_induct) (auto simp: text_of_iff)
  with v show ?thesis by simp
qed

text \<open>Staying below a relative directory: the path starts with the directory's components.\<close>

lemma require_descendant_mr_ok_iff [ok_iff]:
  "require_descendant_mr p b c = Inr u \<longleftrightarrow> prefix (path_parts b) (path_parts p)"
  by (auto simp: require_descendant_mr_def ok_iff prefix_def) (metis append_take_drop_id)

lemma require_manifest_root_ok:
  assumes "require_manifest_root p = Inr base"
  shows "\<exists>run. p = Path [] [''evidence'', ''lab'', ''matrix'', run, ''manifest.json''] \<and>
    base = Path [] [''evidence'', ''lab'', ''matrix'', run] \<and> run \<noteq> ''..'' \<and> re_fullmatch RUN_ID_RE run"
proof -
  have matrix_base: "path_parts MATRIX_BASE = [''evidence'', ''lab'', ''matrix'']" by code_simp
  from assms have rel: "path_root p = []" and dots: "''..'' \<notin> set (path_parts p)" and len: "length (path_parts p) = 5"
    and pre: "take 3 (path_parts p) = [''evidence'', ''lab'', ''matrix'']" and last: "path_parts p ! 4 = ''manifest.json''"
    and run: "re_fullmatch RUN_ID_RE (path_parts p ! 3)" and base: "base = Path [] (take 4 (path_parts p))"
    unfolding require_manifest_root_def Let_def thenE_ok_iff require_mr_ok_iff matrix_base MANIFEST_FILE_def is_absolute_def by auto
  from rel have parts: "path_parts p = path_comps p" by (simp add: path_parts_def)
  from len obtain a b c d e where five: "path_comps p = [a, b, c, d, e]"
    unfolding parts by (auto simp: length_Suc_conv numeral_eq_Suc)
  with pre last have "path_comps p = [''evidence'', ''lab'', ''matrix'', d, ''manifest.json'']"
    by (simp add: parts)
  with rel dots run base show ?thesis
    unfolding parts by (cases p) auto
qed

text \<open>The two scanners look at every node of a document.\<close>

definition text_ok_mr :: "string list \<Rightarrow> string \<Rightarrow> bool" where
  "text_ok_mr needles s \<longleftrightarrow> \<not> has_needle needles s \<and> \<not> re_search PRIVATE_PATH_RE s \<and> \<not> re_search CLAIM_TEXT_RE s"

fun node_ok_mr :: "string list \<Rightarrow> string \<Rightarrow> json \<Rightarrow> bool" where
  "node_ok_mr needles c (JObj d) \<longleftrightarrow> (\<forall>(k, v) \<in> set d. \<not> has_needle needles k)"
| "node_ok_mr needles c (JStr s) \<longleftrightarrow> text_ok_mr needles s"
| "node_ok_mr needles c _ \<longleftrightarrow> True"

lemma node_ok_mr_context: "node_ok_mr needles c v = node_ok_mr needles c' v"
  by (cases v) auto

interpretation mr_scan: context_free_scanner reject_private_mr "node_ok_mr PRIVATE_NEEDLES_mr"
proof
  fix v c
  show "reject_private_mr v c = Inr () \<longleftrightarrow>
      node_ok_mr PRIVATE_NEEDLES_mr c v \<and> (\<forall>(c', v') \<in> set (children c v). reject_private_mr v' c' = Inr ())"
  proof (cases v)
    case (JList xs)
    then show ?thesis by (auto simp: ok_iff list_children_def reject_private_mr.simps)
  next
    case (JObj d)
    then show ?thesis by (fastforce simp: ok_iff obj_children_def reject_private_mr.simps)
  qed (auto simp: ok_iff reject_private_mr.simps text_ok_mr_def)
qed (rule node_ok_mr_context)

interpretation wl_scan: context_free_scanner reject_workload_artifact_private "node_ok_mr WORKLOAD_PRIVATE_NEEDLES"
proof
  fix v c
  show "reject_workload_artifact_private v c = Inr () \<longleftrightarrow>
      node_ok_mr WORKLOAD_PRIVATE_NEEDLES c v \<and>
      (\<forall>(c', v') \<in> set (children c v). reject_workload_artifact_private v' c' = Inr ())"
  proof (cases v)
    case (JList xs)
    then show ?thesis by (auto simp: ok_iff list_children_def reject_workload_artifact_private.simps)
  next
    case (JObj d)
    then show ?thesis by (fastforce simp: ok_iff obj_children_def reject_workload_artifact_private.simps)
  qed (auto simp: ok_iff reject_workload_artifact_private.simps text_ok_mr_def)
qed (rule node_ok_mr_context)

text \<open>The workload scanner is the stricter one.\<close>

lemma workload_scan_stricter: "reject_workload_artifact_private v c = Inr () \<Longrightarrow> reject_private_mr v c' = Inr ()"
proof -
  have stricter: "node_ok_mr WORKLOAD_PRIVATE_NEEDLES c v \<Longrightarrow> node_ok_mr PRIVATE_NEEDLES_mr c v" for c v
    by (cases v) (auto simp: text_ok_mr_def has_needle_def WORKLOAD_PRIVATE_NEEDLES_def)
  assume "reject_workload_artifact_private v c = Inr ()"
  then have "reject_workload_artifact_private v c' = Inr ()"
    by (subst wl_scan.scan_context)
  then show ?thesis
    unfolding wl_scan.scan_ok_iff mr_scan.scan_ok_iff using stricter by blast
qed

text \<open>A scheduler state that passes, with the sequence number it states.\<close>

definition enable_seq_of :: "json_object \<Rightarrow> int option" where
  "enable_seq_of state =
     (case jget_default state ''enable_seq'' (JStr ''unavailable'') of
        JStr s \<Rightarrow> if isdecimal s then Some (digits_value s) else None
      | _ \<Rightarrow> None)"

lemma require_sched_enable_seq_ok:
  "require_sched_enable_seq v c = Inr n \<Longrightarrow>
     \<exists>s. v = JStr s \<and> (s = ''unavailable'' \<and> n = None \<or> isdecimal s \<and> n = Some (digits_value s))"
  unfolding require_sched_enable_seq_def ok_iff text_of_iff
  by (auto simp: ok_iff split: if_splits)

lemma validate_scheduler_state_ok:
  assumes "validate_scheduler_state state c = Inr n"
  shows "n = enable_seq_of state \<and> (\<exists>s. jget state ''sched_ext'' = JStr s \<and> s \<in> set SCHED_STATES_mr)"
proof -
  have "\<not> isdecimal ''unavailable''" by code_simp
  from assms obtain s where "jget state ''sched_ext'' = JStr s" and "s \<in> set SCHED_STATES_mr"
    and "require_sched_enable_seq (jget_default state ''enable_seq'' (JStr ''unavailable'')) (msg [c, ''.enable_seq'']) = Inr n"
    unfolding validate_scheduler_state_def thenE_ok_iff bindE_ok_iff require_mr_ok_iff mr_text.read_ok text_of_iff by blast
  with \<open>\<not> isdecimal ''unavailable''\<close> show ?thesis
    by (auto simp: enable_seq_of_def dest!: require_sched_enable_seq_ok)
qed

section \<open>Which exceptions escape\<close>

text \<open>
  The rules are stated for any class that contains the module's own exception, so that the callers,
  whose classes differ, share them.
\<close>

lemma raises_require_mr [raises_intro]: "(\<And>m. P (MatrixRunContractError m)) \<Longrightarrow> raises P (require_mr c m)"
  by (simp add: require_mr_def raises_def)

lemma raises_obj_mr [raises_intro]: "(\<And>m. P (MatrixRunContractError m)) \<Longrightarrow> raises P (obj_mr v c)"
  by (auto simp: raises_def dest!: mr_obj.read_err)

lemma raises_text_mr [raises_intro]: "(\<And>m. P (MatrixRunContractError m)) \<Longrightarrow> raises P (text_mr v c)"
  by (auto simp: raises_def dest!: mr_text.read_err)

lemma raises_bool_field [raises_intro]: "(\<And>m. P (MatrixRunContractError m)) \<Longrightarrow> raises P (bool_field v c)"
  by (auto simp: raises_def dest!: mr_bool.read_err)

lemma raises_require_only_fields_mr [raises_intro]:
  "(\<And>m. P (MatrixRunContractError m)) \<Longrightarrow> raises P (require_only_fields_mr d a c)"
  unfolding require_only_fields_mr_def Let_def by (intro raises_intro)

lemma raises_require_safe_path_mr [raises_intro]:
  "(\<And>m. P (MatrixRunContractError m)) \<Longrightarrow> raises P (require_safe_path_mr v c)"
  unfolding require_safe_path_mr_def Let_def by (intro raises_intro)

lemma raises_require_descendant_mr [raises_intro]:
  "(\<And>m. P (MatrixRunContractError m)) \<Longrightarrow> raises P (require_descendant_mr p b c)"
  unfolding require_descendant_mr_def by (intro raises_intro)

lemma raises_require_manifest_root [raises_intro]:
  "(\<And>m. P (MatrixRunContractError m)) \<Longrightarrow> raises P (require_manifest_root p)"
  unfolding require_manifest_root_def Let_def by (intro raises_intro)

lemma raises_require_identifier [raises_intro]:
  "(\<And>m. P (MatrixRunContractError m)) \<Longrightarrow> raises P (require_identifier d f r c)"
  unfolding require_identifier_def by (intro raises_intro)

lemma raises_require_sha [raises_intro]: "(\<And>m. P (MatrixRunContractError m)) \<Longrightarrow> raises P (require_sha d f c)"
  unfolding require_sha_def by (intro raises_intro)

lemma raises_text_list [raises_intro]: "(\<And>m. P (MatrixRunContractError m)) \<Longrightarrow> raises P (text_list v c)"
  unfolding text_list_def by (intro raises_intro)

lemma raises_reject_private_mr [raises_intro]:
  "(\<And>m. P (MatrixRunContractError m)) \<Longrightarrow> raises P (reject_private_mr v c)"
proof (induction v c rule: reject_private_mr.induct)
  case (1 d c)
  show ?case unfolding reject_private_mr.simps by (intro raises_intro) (auto intro: 1)
next
  case (2 xs c)
  show ?case unfolding reject_private_mr.simps by (intro raises_intro) (auto intro: 2)
qed (auto simp: reject_private_mr.simps intro!: raises_intro)

lemma raises_reject_workload_artifact_private [raises_intro]:
  "(\<And>m. P (MatrixRunContractError m)) \<Longrightarrow> raises P (reject_workload_artifact_private v c)"
proof (induction v c rule: reject_workload_artifact_private.induct)
  case (1 d c)
  show ?case unfolding reject_workload_artifact_private.simps by (intro raises_intro) (auto intro: 1)
next
  case (2 xs c)
  show ?case unfolding reject_workload_artifact_private.simps by (intro raises_intro) (auto intro: 2)
qed (auto simp: reject_workload_artifact_private.simps intro!: raises_intro)

abbreviation matrix_or_io :: "exn \<Rightarrow> bool" where
  "matrix_or_io e \<equiv> is_MatrixRunContractError e \<or> io_error e"

lemma load_json_mr_raises: "io_env env \<Longrightarrow> raises matrix_or_io (load_json_mr env p)"
  unfolding load_json_mr_def
  by (intro raises_intro io_env_read) (auto simp: reject_constant_mr_def is_os_error_def)

lemma raises_load_json_mr:
  "io_env env \<Longrightarrow> (\<And>e. matrix_or_io e \<Longrightarrow> P e) \<Longrightarrow> raises P (load_json_mr env p)"
  by (rule raises_weaken[OF load_json_mr_raises])

lemma file_sha256_mr_raises: "io_env env \<Longrightarrow> raises matrix_or_io (file_sha256_mr env p)"
  unfolding file_sha256_mr_def by (intro raises_intro io_env_sha256) (auto simp: is_os_error_def)

lemma raises_file_sha256_mr:
  "io_env env \<Longrightarrow> (\<And>e. matrix_or_io e \<Longrightarrow> P e) \<Longrightarrow> raises P (file_sha256_mr env p)"
  by (rule raises_weaken[OF file_sha256_mr_raises])

lemma raises_require_sched_enable_seq [raises_intro]:
  assumes P: "\<And>m. P (MatrixRunContractError m)" and V: "\<And>m. P (ValueError m)"
  shows "raises P (require_sched_enable_seq v c)"
  unfolding require_sched_enable_seq_def
  by (intro raises_intro P) (auto simp: raises_def py_int_def V)

lemma raises_validate_scheduler_state [raises_intro]:
  assumes P: "\<And>m. P (MatrixRunContractError m)" and V: "\<And>m. P (ValueError m)"
  shows "raises P (validate_scheduler_state s c)"
  unfolding validate_scheduler_state_def by (intro raises_intro P V)

end
