(* ===== verification/BenchmarkOutput.thy ===== *)
theory BenchmarkOutput
  imports Readers
begin

text \<open>
  \<^verbatim>\<open>qa/benchmark_output_model.py\<close>, \<^verbatim>\<open>qa/benchmark_output_privacy.py\<close>,
  \<^verbatim>\<open>qa/benchmark_output_io.py\<close> and the record validator of
  \<^verbatim>\<open>qa/benchmark_output_validate.py\<close>: the contract of a benchmark-output/v1 record, which only
  records what a benchmark printed and claims nothing, with the privacy scanner that every record and
  every raw output passes through.
\<close>

section \<open>The model: constants, families, \<^verbatim>\<open>require\<close>\<close>

definition SCHEMA_bo :: string where
  "SCHEMA_bo = ''zig-scheduler/benchmark-output/v1''"

definition SUPPORTED :: "string list" where
  "SUPPORTED = [''cyclictest'', ''fio'', ''perf_bench_sched_messaging'', ''stress_ng'']"

definition UNSUPPORTED :: "string list" where
  "UNSUPPORTED = [''rtla'', ''perf_sched'']"

definition REQUIRED :: "string list" where
  "REQUIRED =
     [''schema'', ''status'', ''tool'', ''command_family'', ''record_only'', ''output_path'', ''output_sha256'',
      ''vm_evidence'', ''parser_provenance'', ''metrics'', ''units'', ''sample_count'', ''run_count'',
      ''host_mutation'', ''release_eligible'', ''production_capacity_claim'', ''hard_thresholds_enforced'',
      ''threshold_status'', ''privacy_sanitized'']"

definition PARSER_PROVENANCE_FIELDS :: "string list" where
  "PARSER_PROVENANCE_FIELDS = [''parser'', ''parser_version'', ''parser_status'']"

definition PARSER_NAME :: string where
  "PARSER_NAME = ''qa/benchmark_output_parse.py''"

definition PARSER_VERSION :: string where
  "PARSER_VERSION = ''benchmark-output/v1''"

definition FORBIDDEN_KEYS_bo :: "string list" where
  "FORBIDDEN_KEYS_bo =
     [''access_token'', ''command_line'', ''cmdline'', ''argv'', ''args'', ''environment'', ''env'', ''secret'',
      ''token'', ''api_key'', ''password'', ''threshold'', ''thresholds'', ''pass'', ''fail'', ''passed'',
      ''failed'', ''production_claim'', ''production_ready'']"

definition FORBIDDEN_TEXT_bo :: "string list" where
  "FORBIDDEN_TEXT_bo =
     [''--token'', ''api_key='', ''AWS_SECRET'', ''BEGIN PRIVATE KEY'', ''password='', ''Bearer '', ''/proc/'',
      ''/sys/'']"

text \<open>\<^verbatim>\<open>[\s_-]\<close>, between the two words of a claim.\<close>

definition is_claim_sep :: "char \<Rightarrow> bool" where
  "is_claim_sep c \<longleftrightarrow> is_space_char c \<or> c = CHR ''_'' \<or> c = CHR ''-''"

definition claim_rx :: "string \<Rightarrow> string \<Rightarrow> rx" where
  "claim_rx w1 w2 = seqs [WordB, lit_ic w1, plus (Ch is_claim_sep), lit_ic w2, WordB]"

definition FORBIDDEN_CLAIM_TEXT_PATTERNS :: "rx list" where
  "FORBIDDEN_CLAIM_TEXT_PATTERNS =
     [claim_rx ''production'' ''ready'', claim_rx ''production'' ''capacity'', claim_rx ''release'' ''eligible'',
      claim_rx ''threshold'' ''pass'', claim_rx ''threshold'' ''fail'']"

definition SHA256_RE :: rx where
  "SHA256_RE = anchored_class is_hex_char 64 64"

datatype command_family = Cyclictest | Fio | Perf_bench_sched_messaging | Rtla | Perf_sched | Stress_ng

fun family_str :: "command_family \<Rightarrow> string" where
  "family_str Cyclictest = ''cyclictest''"
| "family_str Fio = ''fio''"
| "family_str Perf_bench_sched_messaging = ''perf_bench_sched_messaging''"
| "family_str Rtla = ''rtla''"
| "family_str Perf_sched = ''perf_sched''"
| "family_str Stress_ng = ''stress_ng''"

definition family :: "string \<Rightarrow> command_family result" where
  "family value =
     (if value = ''cyclictest'' then Inr Cyclictest
      else if value = ''fio'' then Inr Fio
      else if value = ''perf_bench_sched_messaging'' then Inr Perf_bench_sched_messaging
      else if value = ''rtla'' then Inr Rtla
      else if value = ''perf_sched'' then Inr Perf_sched
      else if value = ''stress_ng'' then Inr Stress_ng
      else Inl (BenchmarkOutputError (msg [''unsupported command family: '', value])))"

definition require_bo :: "bool \<Rightarrow> string \<Rightarrow> check" where
  "require_bo condition message = (if condition then Inr () else Inl (BenchmarkOutputError message))"

fun tool_for :: "command_family \<Rightarrow> string" where
  "tool_for Cyclictest = ''cyclictest''"
| "tool_for Fio = ''fio''"
| "tool_for Perf_bench_sched_messaging = ''perf''"
| "tool_for Perf_sched = ''perf''"
| "tool_for Rtla = ''rtla''"
| "tool_for Stress_ng = ''stress-ng''"

section \<open>Privacy and claims\<close>

definition FORBIDDEN_KEY_TOKENS :: "string list" where
  "FORBIDDEN_KEY_TOKENS =
     [''argv'', ''cmdline'', ''env'', ''environment'', ''password'', ''secret'', ''threshold'', ''thresholds'', ''token'']"

definition FORBIDDEN_KEY_SEQUENCES :: "string list list" where
  "FORBIDDEN_KEY_SEQUENCES =
     [[''access'', ''token''], [''api'', ''key''], [''command'', ''line''], [''raw'', ''debug''],
      [''production'', ''ready''], [''production'', ''capacity''], [''production'', ''claim''],
      [''release'', ''eligible''], [''release'', ''ready''], [''hard'', ''threshold''],
      [''threshold'', ''pass''], [''threshold'', ''fail'']]"

definition FORBIDDEN_COMPACT_KEY_CONCEPTS :: "string list" where
  "FORBIDDEN_COMPACT_KEY_CONCEPTS =
     [''accesstoken'', ''apikey'', ''commandline'', ''rawdebug'', ''productionready'', ''productioncapacity'',
      ''productionclaim'', ''releaseeligible'', ''releaseready'', ''hardthreshold'', ''thresholdpass'', ''thresholdfail'']"

definition ROOT_RECORD_CONTROL_KEYS :: "string list" where
  "ROOT_RECORD_CONTROL_KEYS =
     [''hard_thresholds_enforced'', ''production_capacity_claim'', ''release_eligible'', ''threshold_status'']"

text \<open>\<^verbatim>\<open>CAMEL_BOUNDARY_RE.sub("_", key)\<close>: an underscore at every lower-to-upper boundary.\<close>

fun camel_sub :: "string \<Rightarrow> string" where
  "camel_sub [] = []"
| "camel_sub [c] = [c]"
| "camel_sub (c # d # cs) =
     (if (is_lower_ascii c \<or> is_digit_char c) \<and> is_upper_ascii d then c # CHR ''_'' # camel_sub (d # cs)
      else c # camel_sub (d # cs))"

text \<open>\<^verbatim>\<open>KEY_PART_RE.findall(key)\<close>: the maximal runs of ASCII letters and digits.\<close>

fun key_parts_acc :: "string \<Rightarrow> string \<Rightarrow> string list" where
  "key_parts_acc acc [] = (if acc = [] then [] else [rev acc])"
| "key_parts_acc acc (c # cs) =
     (if is_alnum_ascii c then key_parts_acc (c # acc) cs
      else if acc = [] then key_parts_acc [] cs
      else rev acc # key_parts_acc [] cs)"

definition key_parts :: "string \<Rightarrow> string list" where
  "key_parts key = key_parts_acc [] key"

definition normalized_key_tokens :: "string \<Rightarrow> string list" where
  "normalized_key_tokens key = map lower (key_parts (camel_sub key))"

definition compact_key :: "string \<Rightarrow> string" where
  "compact_key key = concat (map lower (key_parts key))"

definition contains_sequence :: "string list \<Rightarrow> string list \<Rightarrow> bool" where
  "contains_sequence tokens sequence =
     (let width = length sequence in
      list_ex (\<lambda>index. take width (drop index tokens) = sequence) [0..<Suc (length tokens) - width])"

definition replace_char :: "char \<Rightarrow> char \<Rightarrow> string \<Rightarrow> string" where
  "replace_char a b s = map (\<lambda>c. if c = a then b else c) s"

definition forbidden_key :: "string \<Rightarrow> string \<Rightarrow> bool" where
  "forbidden_key key context =
     (if context = ''record'' \<and> key \<in> set ROOT_RECORD_CONTROL_KEYS then False
      else
        let lowered = replace_char CHR ''-'' CHR ''_'' (lower key) in
        if lowered \<in> set FORBIDDEN_KEYS_bo then True
        else
          let tokens = normalized_key_tokens key; compact = compact_key key in
          if list_ex (\<lambda>token. token \<in> set FORBIDDEN_KEY_TOKENS) tokens then True
          else if list_ex (\<lambda>concept. contains concept compact) FORBIDDEN_COMPACT_KEY_CONCEPTS then True
          else list_ex (contains_sequence tokens) FORBIDDEN_KEY_SEQUENCES)"

fun reject_private_leaks_bo :: "json \<Rightarrow> string \<Rightarrow> check" where
  "reject_private_leaks_bo JNull context = Inr ()"
| "reject_private_leaks_bo (JBool b) context = Inr ()"
| "reject_private_leaks_bo (JInt i) context =
     bindE (math_isfinite (JInt i)) (\<lambda>finite.
     raise_if (\<not> finite) (BenchmarkOutputError (msg [''non-finite numeric value at '', context])))"
| "reject_private_leaks_bo (JFloat f) context =
     bindE (math_isfinite (JFloat f)) (\<lambda>finite.
     raise_if (\<not> finite) (BenchmarkOutputError (msg [''non-finite numeric value at '', context])))"
| "reject_private_leaks_bo (JObj d) context =
     forE (\<lambda>(key, child).
       thenE (raise_if (forbidden_key key context)
                (BenchmarkOutputError (msg [''forbidden private/claim key at '', context, ''.'', key])))
         (reject_private_leaks_bo child (msg [context, ''.'', key]))) d"
| "reject_private_leaks_bo (JList xs) context =
     forE (\<lambda>(index, child). reject_private_leaks_bo child (msg [context, ''['', show_nat index, '']''])) (enumerate_from 0 xs)"
| "reject_private_leaks_bo (JStr s) context =
     thenE (forE (\<lambda>needle. raise_if (contains (lower needle) (lower s))
                (BenchmarkOutputError (msg [''forbidden private/claim text at '', context]))) FORBIDDEN_TEXT_bo)
       (forE (\<lambda>pattern. raise_if (re_search pattern s)
                (BenchmarkOutputError (msg [''forbidden private/claim text at '', context]))) FORBIDDEN_CLAIM_TEXT_PATTERNS)"

definition safe_relative :: "json \<Rightarrow> string \<Rightarrow> string result" where
  "safe_relative value field =
     (case text_of value of
        None \<Rightarrow> Inl (BenchmarkOutputError (msg [field, '' must be non-empty relative path'']))
      | Some raw \<Rightarrow>
          ((let path = mk_path raw in
            thenE (require_bo (\<not> is_absolute path) (msg [field, '' must be relative''])) (
            thenE (require_bo (''..'' \<notin> set (path_parts path)) (msg [field, '' must not traverse''])) (
            thenE (reject_private_leaks_bo value field) (
            Inr raw))))))"

section \<open>File and JSON input\<close>

definition reject_constant_bo :: "string \<Rightarrow> exn" where
  "reject_constant_bo value = BenchmarkOutputError (msg [''invalid JSON constant: '', value])"

definition read_text_bo :: "env \<Rightarrow> path \<Rightarrow> string result" where
  "read_text_bo env path =
     (bindE (reraise is_FileNotFoundError
         (\<lambda>_. BenchmarkOutputError (msg [''missing benchmark output: '', path_str path])) (fs_read_text env path)) (\<lambda>data.
     thenE (reject_private_leaks_bo (JStr data) (path_str path)) (
     Inr data)))"

definition load_json_bo :: "env \<Rightarrow> path \<Rightarrow> json_object result" where
  "load_json_bo env path =
     (bindE (reraise is_JSONDecodeError
         (\<lambda>exc. BenchmarkOutputError (msg [''invalid JSON: '', path_str path, '': '', exn_str exc]))
         (reraise is_FileNotFoundError
         (\<lambda>_. BenchmarkOutputError (msg [''missing benchmark output: '', path_str path]))
         (bindE (fs_read_text env path) (json_loads_strict env reject_constant_bo)))) (\<lambda>raw.
     case obj_of raw of
         None \<Rightarrow> Inl (BenchmarkOutputError (msg [''JSON root must be object: '', path_str path]))
         | Some d \<Rightarrow>
         thenE (reject_private_leaks_bo (JObj d)
         (if jget d ''schema'' = JStr SCHEMA_bo then ''record'' else path_str path))
         (Inr d)))"

definition load_schema :: "env \<Rightarrow> path \<Rightarrow> json_object result" where
  "load_schema env path =
     (bindE (reraise is_JSONDecodeError
         (\<lambda>exc. BenchmarkOutputError (msg [''invalid schema JSON: '', path_str path, '': '', exn_str exc]))
         (reraise is_FileNotFoundError
         (\<lambda>_. BenchmarkOutputError (msg [''missing schema: '', path_str path]))
         (bindE (fs_read_text env path) (json_loads_strict env reject_constant_bo)))) (\<lambda>raw.
     case obj_of raw of
         None \<Rightarrow> Inl (BenchmarkOutputError (msg [''schema root must be object: '', path_str path]))
         | Some d \<Rightarrow> Inr d))"

definition sha256_file_bo :: "env \<Rightarrow> path \<Rightarrow> string result" where
  "sha256_file_bo env path = fs_sha256 env path"

section \<open>Validating a record\<close>

text \<open>
  \<^verbatim>\<open>isinstance(value, int | float) and not isinstance(value, bool) and math.isfinite(value) and value >= 0\<close>
\<close>

definition metric_number :: "json \<Rightarrow> bool result" where
  "metric_number value =
     (case value of
        JInt i \<Rightarrow> bindE (math_isfinite value) (\<lambda>finite. Inr (finite \<and> 0 \<le> i))
      | JFloat f \<Rightarrow> bindE (math_isfinite value)
          (\<lambda>finite. Inr (finite \<and> (case num_value value of None \<Rightarrow> False | Some q \<Rightarrow> 0 \<le> q)))
      | _ \<Rightarrow> Inr False)"

text \<open>
  The fields are all present once \<^verbatim>\<open>missing\<close> is empty, so \<^verbatim>\<open>record["f"]\<close> is \<open>jget record ''f''\<close>.
\<close>

definition validate_record :: "json_object \<Rightarrow> check" where
  "validate_record record =
     (thenE (reject_private_leaks_bo (JObj record) ''record'') (
     (let extra = sorted_diff (keys record) REQUIRED in
     (let missing = sorted_diff REQUIRED (keys record) in
     thenE (require_bo (extra = []) (msg [''unexpected fields: '', join '', '' extra])) (
     thenE (require_bo (missing = []) (msg [''missing fields: '', join '', '' missing])) (
     thenE (require_bo (jget record ''schema'' = JStr SCHEMA_bo) ''schema mismatch'') (
     (let status_value = jget record ''status'' in
     bindE (in_str_set status_value [''RECORDED'', ''UNSUPPORTED_DEFERRED'']) (\<lambda>known.
     thenE (require_bo known ''bad status'') (
     (let status = py_str status_value in
     bindE (family (py_str (jget record ''command_family''))) (\<lambda>command_family.
     thenE (require_bo (jget record ''record_only'' = JBool True) ''record_only must be true'') (
     thenE (require_bo (jget record ''tool'' = JStr (tool_for command_family)) ''tool/family mismatch'') (
     bindE (safe_relative (jget record ''output_path'') ''output_path'') (\<lambda>_.
     bindE (safe_relative (jget record ''vm_evidence'') ''vm_evidence'') (\<lambda>_.
     thenE (require_bo (case str_of (jget record ''output_sha256'') of None \<Rightarrow> False | Some s \<Rightarrow> re_match SHA256_RE s)
         ''output_sha256 must be lowercase sha256'') (
     thenE (require_bo (jget record ''host_mutation'' = JBool False) ''host_mutation must be false'') (
     thenE (require_bo (jget record ''release_eligible'' = JBool False) ''release_eligible must be false'') (
     thenE (require_bo (jget record ''production_capacity_claim'' = JBool False) ''production capacity claims are forbidden'') (
     thenE (require_bo (jget record ''hard_thresholds_enforced'' = JBool False) ''hard thresholds are forbidden'') (
     thenE (require_bo (jget record ''threshold_status'' = JStr ''record_only'') ''threshold status must be record_only'') (
     thenE (require_bo (jget record ''privacy_sanitized'' = JBool True) ''privacy_sanitized must be true'') (
     (let parser_value = jget record ''parser_provenance'' in
     thenE (require_bo (is_obj parser_value) ''parser_provenance must be an object'') (
     (let parser = (case obj_of parser_value of Some d \<Rightarrow> d | None \<Rightarrow> []) in
     (let parser_extra = sorted_diff (keys parser) PARSER_PROVENANCE_FIELDS in
     (let parser_missing = sorted_diff PARSER_PROVENANCE_FIELDS (keys parser) in
     thenE (require_bo (parser_extra = []) (msg [''parser_provenance unexpected fields: '', join '', '' parser_extra])) (
     thenE (require_bo (parser_missing = []) (msg [''parser_provenance missing fields: '', join '', '' parser_missing])) (
     thenE (require_bo (jget parser ''parser'' = JStr PARSER_NAME) ''parser_provenance.parser unsupported'') (
     thenE (require_bo (jget parser ''parser_version'' = JStr PARSER_VERSION) ''parser_provenance.parser_version unsupported'') (
     (let expected_parser_status = (if status = ''RECORDED'' then ''PARSED'' else ''UNSUPPORTED_DEFERRED'') in
     thenE (require_bo (jget parser ''parser_status'' = JStr expected_parser_status)
         ''parser_provenance.parser_status must match record status'') (
     (let metrics_value = jget record ''metrics'' in
     (let units_value = jget record ''units'' in
     thenE (require_bo (is_obj metrics_value \<and> is_obj units_value) ''metrics and units must be objects'') (
     (let metrics = (case obj_of metrics_value of Some d \<Rightarrow> d | None \<Rightarrow> []) in
     (let units = (case obj_of units_value of Some d \<Rightarrow> d | None \<Rightarrow> []) in
     thenE (forE (\<lambda>(name, value).
         bindE (metric_number value) (\<lambda>valid.
         thenE (require_bo valid (msg [''invalid metric: '', name]))
         (require_bo (text_of (jget units name) \<noteq> None) (msg [''missing metric unit: '', name])))) metrics) (
     (let samples_value = jget record ''sample_count'' in
     (let runs_value = jget record ''run_count'' in
     thenE (require_bo (is_int samples_value \<and> is_int runs_value) ''counts must be integers'') (
     (let samples = (case int_of samples_value of Some i \<Rightarrow> i | None \<Rightarrow> 0) in
     (let runs = (case int_of runs_value of Some i \<Rightarrow> i | None \<Rightarrow> 0) in
     if status = ''RECORDED'' then
         (thenE (require_bo (py_str (jget record ''command_family'') \<in> set SUPPORTED) ''recorded family must be supported'') (
         thenE (require_bo (metrics \<noteq> []) ''recorded artifacts require metrics'') (
         require_bo (0 < samples \<and> 0 < runs) ''recorded counts must be positive'')))
         else
         (thenE (require_bo (py_str (jget record ''command_family'') \<in> set UNSUPPORTED) ''deferred family must be unsupported'') (
         thenE (require_bo (metrics = [] \<and> units = []) ''deferred artifacts must not include metrics'') (
         require_bo (samples = 0 \<and> runs = 0) ''deferred counts must be zero''))))))))))))))))))))))))))))))))))))))))))))))))"

section \<open>What acceptance means\<close>

lemma require_bo_ok_iff [ok_iff]: "require_bo c m = Inr u \<longleftrightarrow> c"
  by (simp add: require_bo_def)

lemma family_ok_iff [ok_iff]: "family s = Inr f \<longleftrightarrow> s = family_str f"
  by (cases f) (auto simp: family_def split: if_splits)

lemma math_isfinite_int [ok_iff]: "math_isfinite (JInt i) = Inr b \<longleftrightarrow> \<bar>i\<bar> < float_limit \<and> b"
  by auto

text \<open>The rule of the scanner at one node.\<close>

definition text_ok_bo :: "string \<Rightarrow> bool" where
  "text_ok_bo s \<longleftrightarrow>
     (\<forall>needle \<in> set FORBIDDEN_TEXT_bo. \<not> contains (lower needle) (lower s)) \<and>
     (\<forall>pattern \<in> set FORBIDDEN_CLAIM_TEXT_PATTERNS. \<not> re_search pattern s)"

fun node_ok_bo :: "string \<Rightarrow> json \<Rightarrow> bool" where
  "node_ok_bo c (JObj d) \<longleftrightarrow> (\<forall>k \<in> set (keys d). \<not> forbidden_key k c)"
| "node_ok_bo c (JStr s) \<longleftrightarrow> text_ok_bo s"
| "node_ok_bo c (JInt i) \<longleftrightarrow> \<bar>i\<bar> < float_limit"
| "node_ok_bo c (JFloat f) \<longleftrightarrow> (\<exists>q r. f = FloatFin q r)"
| "node_ok_bo c _ \<longleftrightarrow> True"

interpretation bo_scan: json_scanner reject_private_leaks_bo node_ok_bo
proof
  fix v c
  show "reject_private_leaks_bo v c = Inr () \<longleftrightarrow>
      node_ok_bo c v \<and> (\<forall>(c', v') \<in> set (children c v). reject_private_leaks_bo v' c' = Inr ())"
  proof (cases v)
    case (JFloat f)
    then show ?thesis by (cases f) (auto simp: ok_iff)
  next
    case (JStr s)
    then show ?thesis by (simp add: ok_iff text_ok_bo_def)
  next
    case (JList xs)
    then show ?thesis by (auto simp: ok_iff list_children_def)
  next
    case (JObj d)
    then show ?thesis by (fastforce simp: ok_iff obj_children_def)
  qed (auto simp: ok_iff)
qed

lemma raises_require_bo [raises_intro]: "P (BenchmarkOutputError m) \<Longrightarrow> raises P (require_bo c m)"
  by (simp add: require_bo_def raises_def)

lemma raises_family [raises_intro]: "(\<And>m. P (BenchmarkOutputError m)) \<Longrightarrow> raises P (family s)"
  by (simp add: family_def raises_def)

lemma reject_private_leaks_bo_raises:
  "raises (\<lambda>e. is_BenchmarkOutputError e \<or> is_OverflowError e) (reject_private_leaks_bo v c)"
proof (induction v c rule: reject_private_leaks_bo.induct)
  case (3 i c)
  then show ?case by (auto simp: raises_def bindE_err_iff raise_if_err_iff)
next
  case (4 f c)
  then show ?case by (auto simp: raises_def bindE_err_iff raise_if_err_iff)
next
  case (5 d c)
  show ?case
    unfolding reject_private_leaks_bo.simps by (intro raises_intro) (auto intro: 5)
next
  case (6 xs c)
  show ?case
    unfolding reject_private_leaks_bo.simps by (intro raises_intro) (auto intro: 6)
next
  case (7 s c)
  show ?case
    unfolding reject_private_leaks_bo.simps by (intro raises_intro) simp_all
qed (simp_all add: raises_Inr)

lemma reject_private_leaks_bo_str:
  "reject_private_leaks_bo (JStr s) c = Inr () \<longleftrightarrow> text_ok_bo s"
  by (simp add: ok_iff text_ok_bo_def)

lemma safe_relative_ok_iff [ok_iff]:
  "safe_relative v f = Inr s \<longleftrightarrow> text_of v = Some s \<and> safe_path (mk_path s) \<and> text_ok_bo s"
  by (cases v) (auto simp: safe_relative_def ok_iff safe_path_def text_ok_bo_def Let_def)

lemma metric_number_ok: "metric_number v = Inr True \<Longrightarrow> \<exists>q. num_value v = Some q \<and> 0 \<le> q"
  by (auto simp: metric_number_def ok_iff bindE_ok_iff split: json.splits option.splits)

lemma is_obj_iff: "is_obj v \<longleftrightarrow> (\<exists>d. v = JObj d)"
  by (cases v) auto

lemma in_two_strings: "in_str_set v [a, b] = Inr True \<longleftrightarrow> v = JStr a \<or> v = JStr b"
  by (cases v) auto

lemma family_supported_iff: "family_str f \<in> set SUPPORTED \<longleftrightarrow> family_str f \<notin> set UNSUPPORTED"
  by (cases f) (simp_all add: SUPPORTED_def UNSUPPORTED_def)

text \<open>The checks that an accepted record has passed, in one place.\<close>

lemma validate_record_okE:
  assumes "validate_record r = Inr ()"
  obtains f metrics units samples runs recorded
  where "reject_private_leaks_bo (JObj r) ''record'' = Inr ()"
    and "set (keys r) = set REQUIRED"
    and "jget r ''status'' = JStr (if recorded then ''RECORDED'' else ''UNSUPPORTED_DEFERRED'')"
    and "py_str (jget r ''command_family'') = family_str f" and "jget r ''tool'' = JStr (tool_for f)"
    and "\<exists>s. str_of (jget r ''output_sha256'') = Some s \<and> re_match SHA256_RE s"
    and "\<exists>s. jget r ''output_path'' = JStr s \<and> safe_path (mk_path s)"
    and "\<exists>s. jget r ''vm_evidence'' = JStr s \<and> safe_path (mk_path s)"
    and "jget r ''host_mutation'' = JBool False" and "jget r ''release_eligible'' = JBool False"
    and "jget r ''production_capacity_claim'' = JBool False" and "jget r ''hard_thresholds_enforced'' = JBool False"
    and "jget r ''metrics'' = JObj metrics" and "jget r ''units'' = JObj units"
    and "int_of (jget r ''sample_count'') = Some samples" and "int_of (jget r ''run_count'') = Some runs"
    and "\<forall>(name, v) \<in> set metrics. (\<exists>q. num_value v = Some q \<and> 0 \<le> q) \<and> text_of (jget units name) \<noteq> None"
    and "recorded \<longleftrightarrow> family_str f \<in> set SUPPORTED"
    and "if recorded then metrics \<noteq> [] \<and> 0 < samples \<and> 0 < runs
         else metrics = [] \<and> units = [] \<and> samples = 0 \<and> runs = 0"
proof -
  define recorded where "recorded \<longleftrightarrow> jget r ''status'' = JStr ''RECORDED''"
  from assms show ?thesis
    unfolding validate_record_def Let_def ok_iff
  proof (elim conjE exE, goal_cases)
    case (1 known f out vm)
    from 1(5,6) have st: "jget r ''status'' = JStr (if recorded then ''RECORDED'' else ''UNSUPPORTED_DEFERRED'')"
      by (auto simp: in_two_strings recorded_def)
    from 1 obtain metrics units where mu: "jget r ''metrics'' = JObj metrics" "jget r ''units'' = JObj units"
      by (auto simp only: is_obj_iff)
    from 1 obtain samples runs where "int_of (jget r ''sample_count'') = Some samples" "int_of (jget r ''run_count'') = Some runs"
      by auto
    note counts = this
    have metrics: "\<forall>(name, v) \<in> set metrics. (\<exists>q. num_value v = Some q \<and> 0 \<le> q) \<and> text_of (jget units name) \<noteq> None"
      using 1(31) mu by (auto dest!: metric_number_ok bspec)
    have rec: "recorded \<longleftrightarrow> family_str f \<in> set SUPPORTED"
      using 1(7,31-34) st by (auto simp: family_supported_iff split: if_splits)
    have keys: "set (keys r) = set REQUIRED"
      using 1(2,3) by auto
    have paths: "\<exists>s. jget r ''output_path'' = JStr s \<and> safe_path (mk_path s)"
        "\<exists>s. jget r ''vm_evidence'' = JStr s \<and> safe_path (mk_path s)"
      using 1(10-16) by (auto simp: text_of_iff)
    have sha: "\<exists>s. str_of (jget r ''output_sha256'') = Some s \<and> re_match SHA256_RE s"
      using \<open>case str_of (jget r ''output_sha256'') of None \<Rightarrow> False | Some s \<Rightarrow> re_match SHA256_RE s\<close>
      by (auto split: option.splits)
    have fin: "if recorded then metrics \<noteq> [] \<and> 0 < samples \<and> 0 < runs
         else metrics = [] \<and> units = [] \<and> samples = 0 \<and> runs = 0"
      using 1(31-34) st mu counts by (auto split: if_splits)
    show ?case
      by (rule that[of recorded f metrics units samples runs])
        (use 1 st mu counts metrics rec keys paths sha fin in \<open>simp_all only: simp_thms\<close>)
  qed
qed

text \<open>C33: an accepted benchmark record has exactly the fields of the schema, records
  only (no host mutation, no release eligibility, no capacity claim, no enforced threshold), names the
  tool that belongs to its command family, and is recorded with metrics and positive counts exactly
  when the family is a supported one; otherwise it is deferred, with no metrics and zero counts.\<close>

theorem benchmark_record_claims_nothing:
  assumes "validate_record r = Inr ()"
  shows "set (keys r) = set REQUIRED \<and>
    jget r ''host_mutation'' = JBool False \<and> jget r ''release_eligible'' = JBool False \<and>
    jget r ''production_capacity_claim'' = JBool False \<and> jget r ''hard_thresholds_enforced'' = JBool False \<and>
    (\<exists>f metrics units samples runs.
      py_str (jget r ''command_family'') = family_str f \<and> jget r ''tool'' = JStr (tool_for f) \<and>
      jget r ''metrics'' = JObj metrics \<and> jget r ''units'' = JObj units \<and>
      int_of (jget r ''sample_count'') = Some samples \<and> int_of (jget r ''run_count'') = Some runs \<and>
      (if family_str f \<in> set SUPPORTED
       then jget r ''status'' = JStr ''RECORDED'' \<and> metrics \<noteq> [] \<and> 0 < samples \<and> 0 < runs \<and>
         (\<forall>(name, v) \<in> set metrics. (\<exists>q. num_value v = Some q \<and> 0 \<le> q) \<and> text_of (jget units name) \<noteq> None)
       else jget r ''status'' = JStr ''UNSUPPORTED_DEFERRED'' \<and> metrics = [] \<and> units = [] \<and> samples = 0 \<and> runs = 0))"
  using assms
proof (rule validate_record_okE, goal_cases)
  case (1 f metrics units samples runs recorded)
  then show ?case
    by (intro conjI exI[of _ f] exI[of _ metrics] exI[of _ units] exI[of _ samples] exI[of _ runs])
      (auto split: if_splits)
qed

text \<open>The committed fixture \<^verbatim>\<open>fixtures/benchmark-output/valid/rtla-deferred.benchmark-output.json\<close>
  in shape: a deferred record.\<close>

definition deferred_record :: json_object where
  "deferred_record =
     [(''command_family'', JStr ''rtla''), (''hard_thresholds_enforced'', JBool False), (''host_mutation'', JBool False),
      (''metrics'', JObj []), (''output_path'', JStr ''evidence/lab/run/bench/rtla.txt''),
      (''output_sha256'', JStr (replicate 64 CHR ''a'')),
      (''parser_provenance'', JObj [(''parser'', JStr PARSER_NAME), (''parser_status'', JStr ''UNSUPPORTED_DEFERRED''),
         (''parser_version'', JStr PARSER_VERSION)]),
      (''privacy_sanitized'', JBool True), (''production_capacity_claim'', JBool False), (''record_only'', JBool True),
      (''release_eligible'', JBool False), (''run_count'', JInt 0), (''sample_count'', JInt 0),
      (''schema'', JStr SCHEMA_bo), (''status'', JStr ''UNSUPPORTED_DEFERRED''), (''threshold_status'', JStr ''record_only''),
      (''tool'', JStr ''rtla''), (''units'', JObj []), (''vm_evidence'', JStr ''evidence/lab/run/summary.json'')]"

text \<open>The same record for a supported family, with one metric.\<close>

definition recorded_record :: json_object where
  "recorded_record =
     [(''command_family'', JStr ''stress_ng''), (''hard_thresholds_enforced'', JBool False), (''host_mutation'', JBool False),
      (''metrics'', JObj [(''stressors'', JInt 2)]), (''output_path'', JStr ''evidence/lab/run/bench/s.txt''),
      (''output_sha256'', JStr (replicate 64 CHR ''a'')),
      (''parser_provenance'', JObj [(''parser'', JStr PARSER_NAME), (''parser_status'', JStr ''PARSED''),
         (''parser_version'', JStr PARSER_VERSION)]),
      (''privacy_sanitized'', JBool True), (''production_capacity_claim'', JBool False), (''record_only'', JBool True),
      (''release_eligible'', JBool False), (''run_count'', JInt 1), (''sample_count'', JInt 2),
      (''schema'', JStr SCHEMA_bo), (''status'', JStr ''RECORDED''), (''threshold_status'', JStr ''record_only''),
      (''tool'', JStr ''stress-ng''), (''units'', JObj [(''stressors'', JStr ''count'')]),
      (''vm_evidence'', JStr ''evidence/lab/run/summary.json'')]"

lemma recorded_record_accepted: "validate_record recorded_record = Inr ()"
  by code_simp

lemma deferred_record_accepted: "validate_record deferred_record = Inr ()"
  by code_simp

theorem benchmark_record_claims_nothing_witness:
  "validate_record recorded_record = Inr () \<and> set (keys recorded_record) = set REQUIRED \<and>
   jget recorded_record ''release_eligible'' = JBool False"
  using benchmark_record_claims_nothing[OF recorded_record_accepted] recorded_record_accepted by blast

text \<open>in an accepted benchmark record nothing private and no claim occurs at
  any depth: no object of the document has a forbidden key in its context, and no string of it contains
  a forbidden needle in any case or matches a claim pattern.\<close>

theorem benchmark_record_private_nowhere:
  assumes "validate_record r = Inr ()" and "(c, v) \<in> set (nodes ''record'' (JObj r))"
  shows "(\<forall>d k w. v = JObj d \<and> (k, w) \<in> set d \<longrightarrow> \<not> forbidden_key k c) \<and>
    (\<forall>s. v = JStr s \<longrightarrow>
      (\<forall>needle \<in> set FORBIDDEN_TEXT_bo. \<not> contains (lower needle) (lower s)) \<and>
      (\<forall>pattern \<in> set FORBIDDEN_CLAIM_TEXT_PATTERNS. \<not> re_search pattern s))"
proof -
  have "reject_private_leaks_bo (JObj r) ''record'' = Inr ()"
    using assms(1) by (rule validate_record_okE)
  then have "node_ok_bo c v"
    using assms(2) by (rule bo_scan.scan_node)
  then show ?thesis
    by (cases v) (force simp: text_ok_bo_def)+
qed

theorem benchmark_record_private_nowhere_witness:
  "validate_record deferred_record = Inr () \<and>
   (''record'', JObj deferred_record) \<in> set (nodes ''record'' (JObj deferred_record)) \<and>
   (''host_mutation'', JBool False) \<in> set deferred_record \<and> \<not> forbidden_key ''host_mutation'' ''record''"
proof -
  have "(''host_mutation'', JBool False) \<in> set deferred_record"
    by (simp add: deferred_record_def)
  then show ?thesis
    using benchmark_record_private_nowhere[OF deferred_record_accepted nodes_self] deferred_record_accepted
    by auto
qed

text \<open>Validating a record can only end in the module's own exception, in the
  \<^verbatim>\<open>TypeError\<close> of testing an unhashable status for membership, or in the \<^verbatim>\<open>OverflowError\<close> of
  a number too large for a float; it never fails with a missing key or any other exception.\<close>

lemma raises_in_str_set [raises_intro]: "(\<And>m. P (TypeError m)) \<Longrightarrow> raises P (in_str_set v S)"
  by (cases v) (auto simp: raises_def)

lemma raises_math_isfinite: "is_int v \<or> (\<exists>f. v = JFloat f) \<Longrightarrow> raises is_OverflowError (math_isfinite v)"
  by (cases v) (auto simp: raises_def)

lemma raises_metric_number [raises_intro]: "(\<And>m. P (OverflowError m)) \<Longrightarrow> raises P (metric_number v)"
  by (cases v) (auto simp: raises_def metric_number_def bindE_err_iff split: if_splits)

abbreviation benchmark_error :: "exn \<Rightarrow> bool" where
  "benchmark_error e \<equiv> is_BenchmarkOutputError e \<or> is_TypeError e \<or> is_OverflowError e"

lemma raises_reject_private_leaks_bo [raises_intro]: "raises benchmark_error (reject_private_leaks_bo v c)"
  by (rule raises_weaken[OF reject_private_leaks_bo_raises]) auto

lemma raises_safe_relative [raises_intro]: "raises benchmark_error (safe_relative v f)"
  unfolding safe_relative_def Let_def by (intro raises_intro) simp_all

theorem benchmark_record_errors: "validate_record r = Inl e \<Longrightarrow> benchmark_error e"
proof -
  have "raises benchmark_error (validate_record r)"
    unfolding validate_record_def Let_def by (intro raises_intro) simp_all
  then show "validate_record r = Inl e \<Longrightarrow> benchmark_error e"
    by (rule raisesD)
qed

theorem benchmark_record_errors_witness:
  "validate_record [] = Inl (BenchmarkOutputError (msg [''missing fields: '', join '', '' (sorted_diff REQUIRED [])])) \<and>
   benchmark_error (BenchmarkOutputError (msg [''missing fields: '', join '', '' (sorted_diff REQUIRED [])]))"
proof -
  have "validate_record [] = Inl (BenchmarkOutputError (msg [''missing fields: '', join '', '' (sorted_diff REQUIRED [])]))"
    by (simp add: validate_record_def Let_def require_bo_def REQUIRED_def)
  with benchmark_record_errors[OF this] show ?thesis by simp
qed

end
