(* ===== verification/BenchmarkProvenance.thy ===== *)
theory BenchmarkProvenance
  imports BenchmarkOutput
begin

text \<open>
  \<^verbatim>\<open>qa/matrix_benchmark_provenance.py\<close>: the benchmark records that a workload artifact of a matrix
  run refers to. Each entry names a record file and its SHA-256; the record must be one that
  \<open>validate_record\<close> accepts, its raw output must have the hash the record states and be free of
  private text, and every file must resolve to a place below the run's root.
\<close>

section \<open>Primitives\<close>

definition BENCHMARK_PROVENANCE_FIELDS :: "string list" where
  "BENCHMARK_PROVENANCE_FIELDS = [''record_path'', ''record_sha256'', ''record_only'']"

definition reject_constant_bp :: "string \<Rightarrow> exn" where
  "reject_constant_bp value = MatrixBenchmarkProvenanceError (msg [''invalid JSON constant: '', value])"

definition require_bp :: "bool \<Rightarrow> string \<Rightarrow> check" where
  "require_bp condition message = (if condition then Inr () else Inl (MatrixBenchmarkProvenanceError message))"

definition obj_bp :: "json \<Rightarrow> string \<Rightarrow> json_object result" where
  "obj_bp value context =
     (case obj_of value of
        None \<Rightarrow> Inl (MatrixBenchmarkProvenanceError (msg [context, '' must be an object'']))
      | Some d \<Rightarrow> Inr d)"

definition load_json_bp :: "env \<Rightarrow> path \<Rightarrow> json_object result" where
  "load_json_bp env path =
     (bindE (reraise is_JSONDecodeError
         (\<lambda>exc. case exc of JSONDecodeError pos m s \<Rightarrow>
         MatrixBenchmarkProvenanceError (msg [''invalid JSON in '', path_str path, '' at byte '', show_nat pos, '': '', m]))
         (reraise is_FileNotFoundError
         (\<lambda>_. MatrixBenchmarkProvenanceError (msg [''missing JSON file: '', path_str path]))
         (bindE (fs_read_text env path) (json_loads_strict env reject_constant_bp)))) (\<lambda>raw.
     obj_bp raw (path_str path)))"

definition text_bp :: "json \<Rightarrow> string \<Rightarrow> string result" where
  "text_bp value context =
     (case text_of value of
        None \<Rightarrow> Inl (MatrixBenchmarkProvenanceError (msg [context, '' must be non-empty text'']))
      | Some s \<Rightarrow> Inr s)"

definition require_only_fields_bp :: "json_object \<Rightarrow> string list \<Rightarrow> string \<Rightarrow> check" where
  "require_only_fields_bp data allowed context =
     (let extra = sorted_diff (keys data) allowed in
      require_bp (extra = []) (msg [context, '' has unexpected fields: '', join '', '' extra]))"

definition require_safe_path_bp :: "json \<Rightarrow> string \<Rightarrow> string result" where
  "require_safe_path_bp value context =
     (bindE (text_bp value context) (\<lambda>raw.
     (let path = mk_path raw in
     thenE (require_bp (\<not> is_absolute path) (msg [context, '' must be relative''])) (
     thenE (require_bp (''..'' \<notin> set (path_parts path)) (msg [context, '' must not traverse''])) (
     Inr raw)))))"

text \<open>\<^verbatim>\<open>path.relative_to(root)\<close> returns, rather than raising \<^verbatim>\<open>ValueError\<close>.\<close>

definition is_relative_to :: "path \<Rightarrow> path \<Rightarrow> bool" where
  "is_relative_to p r \<longleftrightarrow> path_root p = path_root r \<and> prefix (path_comps r) (path_comps p)"

definition require_descendant_bp :: "env \<Rightarrow> path \<Rightarrow> path \<Rightarrow> string \<Rightarrow> check" where
  "require_descendant_bp env path base context =
     reraise is_ValueError (\<lambda>_. MatrixBenchmarkProvenanceError (msg [context, '' must stay under matrix run root: '', path_str base]))
       ((bindE (path_resolve env path) (\<lambda>p.
         bindE (path_resolve env base) (\<lambda>r.
         raise_if (\<not> is_relative_to p r) (ValueError (msg [repr_str (path_str p), '' is not in the subpath of '', repr_str (path_str r)]))))))"

definition file_sha256_bp :: "env \<Rightarrow> path \<Rightarrow> string result" where
  "file_sha256_bp env path =
     reraise is_FileNotFoundError
       (\<lambda>_. MatrixBenchmarkProvenanceError (msg [''missing referenced artifact: '', path_str path])) (fs_sha256 env path)"

definition require_sha256_bp :: "string \<Rightarrow> string \<Rightarrow> check" where
  "require_sha256_bp value context =
     require_bp (length value = 64 \<and> list_all is_hex_char value) (msg [context, '' must be sha256 hex''])"

section \<open>A record and what it refers to\<close>

definition validate_raw_output_privacy :: "env \<Rightarrow> path \<Rightarrow> string \<Rightarrow> check" where
  "validate_raw_output_privacy env path context =
     (bindE (reraise is_FileNotFoundError
         (\<lambda>_. MatrixBenchmarkProvenanceError (msg [''missing referenced artifact: '', path_str path])) (fs_read_text env path)) (\<lambda>raw_text.
     reraise is_BenchmarkOutputError
         (\<lambda>exc. MatrixBenchmarkProvenanceError
         (msg [context, '' privacy/claim unsafe raw benchmark output: '', exn_str exc]))
         ((thenE (reject_private_leaks_bo (JStr raw_text) context) (
         case json_loads_strict env reject_constant_bp raw_text of
         Inl e \<Rightarrow> if is_JSONDecodeError e then Inr () else Inl e
         | Inr parsed \<Rightarrow> reject_private_leaks_bo parsed context)))))"

definition validate_record_references :: "env \<Rightarrow> json_object \<Rightarrow> path \<Rightarrow> string \<Rightarrow> check" where
  "validate_record_references env record manifest_root context =
     (bindE (require_safe_path_bp (jget record ''output_path'') (msg [context, ''.output_path''])) (\<lambda>raw_output.
     (let raw_output_path = mk_path raw_output in
     thenE (require_descendant_bp env raw_output_path manifest_root (msg [context, ''.output_path''])) (
     bindE (file_sha256_bp env raw_output_path) (\<lambda>actual.
     bindE (text_bp (jget record ''output_sha256'') (msg [context, ''.output_sha256''])) (\<lambda>expected.
     thenE (require_bp (actual = expected) (msg [context, ''.output_sha256 does not match referenced raw benchmark output''])) (
     thenE (validate_raw_output_privacy env raw_output_path (msg [context, ''.output_path''])) (
     bindE (require_safe_path_bp (jget record ''vm_evidence'') (msg [context, ''.vm_evidence''])) (\<lambda>vm_evidence.
     require_descendant_bp env (mk_path vm_evidence) manifest_root (msg [context, ''.vm_evidence'']))))))))))"

text \<open>One round of the loop in \<^verbatim>\<open>validate_entries\<close>: the keys seen so far, and the entry with its index.\<close>

definition validate_entry ::
    "env \<Rightarrow> path option \<Rightarrow> string \<Rightarrow> string list \<Rightarrow> nat \<times> json \<Rightarrow> string list result" where
  "validate_entry env manifest_root context seen = (\<lambda>(index, item).
     let here = (msg [context, ''['', show_nat index, '']'']) in
     (bindE (obj_bp item here) (\<lambda>entry.
     thenE (require_only_fields_bp entry BENCHMARK_PROVENANCE_FIELDS here) (
     thenE (require_bp (jget entry ''record_only'' = JBool True) (msg [here, ''.record_only must be true''])) (
     bindE (require_safe_path_bp (jget entry ''record_path'') (msg [here, ''.record_path''])) (\<lambda>raw_path.
     (let record_path = mk_path raw_path in
     (let record_key = path_str record_path in
     thenE (require_bp (record_key \<notin> set seen) (msg [here, ''.record_path duplicates an earlier benchmark record''])) (
     thenE (case manifest_root of
         None \<Rightarrow> Inr ()
         | Some base \<Rightarrow> require_descendant_bp env record_path base (msg [here, ''.record_path''])) (
     bindE (text_bp (jget entry ''record_sha256'') (msg [here, ''.record_sha256''])) (\<lambda>record_sha.
     thenE (require_sha256_bp record_sha (msg [here, ''.record_sha256''])) (
     bindE (file_sha256_bp env record_path) (\<lambda>actual.
     thenE (require_bp (actual = record_sha) (msg [here, ''.record_sha256 does not match referenced benchmark record''])) (
     bindE (load_json_bp env record_path) (\<lambda>record.
     thenE (reraise is_BenchmarkOutputError
         (\<lambda>exc. MatrixBenchmarkProvenanceError
         (msg [here, ''.record_path invalid benchmark provenance: '', exn_str exc])) (validate_record record)) (
     thenE (case manifest_root of
         None \<Rightarrow> Inr ()
         | Some base \<Rightarrow> validate_record_references env record base (msg [here, ''.record''])) (
     Inr (record_key # seen))))))))))))))))))"

definition validate_entries :: "env \<Rightarrow> json \<Rightarrow> path option \<Rightarrow> string \<Rightarrow> check" where
  "validate_entries env value manifest_root context =
     (if value = JNull then Inr ()
      else case list_of value of
        None \<Rightarrow> Inl (MatrixBenchmarkProvenanceError (msg [context, '' must be a list'']))
      | Some items \<Rightarrow>
          (thenE (require_bp (items \<noteq> []) (msg [context, '' must not be empty when present''])) (
            bindE (foldE (validate_entry env manifest_root context) [] (enumerate_from 0 items)) (\<lambda>_.
            Inr ()))))"

section \<open>What acceptance means\<close>

lemma require_bp_ok_iff [ok_iff]: "require_bp c m = Inr u \<longleftrightarrow> c"
  by (simp add: require_bp_def)

interpretation bp_obj: value_reader obj_bp obj_of MatrixBenchmarkProvenanceError
  by unfold_locales (auto simp: obj_bp_def split: option.splits)

interpretation bp_text: value_reader text_bp text_of MatrixBenchmarkProvenanceError
  by unfold_locales (auto simp: text_bp_def split: option.splits)

lemma require_only_fields_bp_ok_iff [ok_iff]:
  "require_only_fields_bp d allowed c = Inr u \<longleftrightarrow> set (keys d) \<subseteq> set allowed"
  by (simp add: require_only_fields_bp_def ok_iff)

lemma require_safe_path_bp_ok_iff [ok_iff]:
  "require_safe_path_bp v c = Inr s \<longleftrightarrow> text_of v = Some s \<and> safe_path (mk_path s)"
  by (auto simp: require_safe_path_bp_def ok_iff safe_path_def Let_def)

lemma require_descendant_bp_ok_iff [ok_iff]:
  "require_descendant_bp env p b c = Inr u \<longleftrightarrow>
     CHR 0x00 \<notin> set (path_str p) \<and> CHR 0x00 \<notin> set (path_str b) \<and> is_relative_to (fs_resolve env p) (fs_resolve env b)"
  by (auto simp: require_descendant_bp_def path_resolve_def ok_iff)

lemma file_sha256_bp_ok_iff [ok_iff]: "file_sha256_bp env p = Inr s \<longleftrightarrow> fs_sha256 env p = Inr s"
  by (simp add: file_sha256_bp_def ok_iff)

lemma require_sha256_bp_ok_iff [ok_iff]:
  "require_sha256_bp s c = Inr u \<longleftrightarrow> length s = 64 \<and> list_all is_hex_char s"
  by (simp add: require_sha256_bp_def ok_iff)

lemma load_json_bp_ok_iff [ok_iff]:
  "load_json_bp env p = Inr d \<longleftrightarrow>
     (\<exists>s. fs_read_text env p = Inr s \<and> json_constant env s = None \<and> json_decode env s = Decoded (JObj d))"
  by (auto simp: load_json_bp_def ok_iff obj_of_iff)

lemma validate_raw_output_privacy_ok:
  assumes "validate_raw_output_privacy env p c = Inr ()"
  shows "\<exists>s. fs_read_text env p = Inr s \<and> text_ok_bo s"
  using assms unfolding validate_raw_output_privacy_def ok_iff reject_private_leaks_bo_str by blast

text \<open>What a run's root holds for one record: the output it names, with the hash it states.\<close>

definition output_backed :: "env \<Rightarrow> path \<Rightarrow> json_object \<Rightarrow> bool" where
  "output_backed env base record \<longleftrightarrow>
     (\<exists>out sha s. jget record ''output_path'' = JStr out \<and> safe_path (mk_path out) \<and>
        is_relative_to (fs_resolve env (mk_path out)) (fs_resolve env base) \<and>
        jget record ''output_sha256'' = JStr sha \<and> fs_sha256 env (mk_path out) = Inr sha \<and>
        fs_read_text env (mk_path out) = Inr s \<and> text_ok_bo s)"

lemma validate_record_references_ok:
  "validate_record_references env record base c = Inr () \<Longrightarrow> output_backed env base record"
  unfolding validate_record_references_def output_backed_def Let_def ok_iff text_of_iff
proof (elim exE conjE, goal_cases)
  case (1 out sha expected vm)
  moreover from 1 obtain s where "fs_read_text env (mk_path out) = Inr s" "text_ok_bo s"
    using validate_raw_output_privacy_ok by blast
  ultimately show ?case
    by (intro exI[of _ out] exI[of _ sha] exI[of _ s] conjI) simp_all
qed

text \<open>An entry of the list: a record below the root, hash-matched, accepted, and backed itself.\<close>

definition entry_backed :: "env \<Rightarrow> path \<Rightarrow> json \<Rightarrow> bool" where
  "entry_backed env base item \<longleftrightarrow>
     (\<exists>d p sha s record. item = JObj d \<and> set (keys d) \<subseteq> set BENCHMARK_PROVENANCE_FIELDS \<and>
        jget d ''record_only'' = JBool True \<and> jget d ''record_path'' = JStr p \<and> safe_path (mk_path p) \<and>
        is_relative_to (fs_resolve env (mk_path p)) (fs_resolve env base) \<and>
        jget d ''record_sha256'' = JStr sha \<and> fs_sha256 env (mk_path p) = Inr sha \<and>
        fs_read_text env (mk_path p) = Inr s \<and> json_decode env s = Decoded (JObj record) \<and>
        validate_record record = Inr () \<and> output_backed env base record)"

definition entry_key :: "nat \<times> json \<Rightarrow> string" where
  "entry_key = (\<lambda>(index, item).
     case obj_of item of None \<Rightarrow> [] | Some d \<Rightarrow> path_str (mk_path (case str_of (jget d ''record_path'') of None \<Rightarrow> [] | Some p \<Rightarrow> p)))"

lemma validate_entry_key:
  "validate_entry env r c seen x = Inr seen' \<Longrightarrow> entry_key x \<notin> set seen \<and> seen' = entry_key x # seen"
  by (cases x) (auto simp: validate_entry_def ok_iff Let_def entry_key_def proj_iffs)

lemma validate_entry_ok:
  assumes "validate_entry env (Some base) c seen x = Inr seen'"
  shows "entry_backed env base (snd x)"
  using assms unfolding validate_entry_def Let_def case_prod_beta ok_iff option.case proj_iffs entry_backed_def
proof (elim exE conjE, goal_cases)
  case (1 d p sha actual r s)
  then show ?case
    by (intro exI[of _ d] exI[of _ p] exI[of _ sha] exI[of _ s] exI[of _ r] conjI)
      (simp_all add: validate_record_references_ok)
qed

interpretation bp_entries: unique_loop "validate_entry env r c" "\<lambda>seen. seen" entry_key for env r c
  by unfold_locales (rule validate_entry_key)

text \<open>C25: accepted benchmark provenance is either absent or a non-empty list
  whose record paths are pairwise different, and every entry of it is backed by the run's root: a
  record file below the root, with the stated hash, that decodes to a record the benchmark contract
  accepts and whose own raw output is below the root, hash-matched and free of private text.\<close>

theorem provenance_entries_backed:
  assumes "validate_entries env value (Some base) context = Inr ()"
  shows "value = JNull \<or>
    (\<exists>items. value = JList items \<and> items \<noteq> [] \<and>
      distinct (map entry_key (enumerate_from 0 items)) \<and> (\<forall>item \<in> set items. entry_backed env base item))"
proof (cases "value = JNull")
  case False
  then obtain items seen where v: "value = JList items" "items \<noteq> []"
    and loop: "foldE (validate_entry env (Some base) context) [] (enumerate_from 0 items) = Inr seen"
    using assms by (auto simp: validate_entries_def ok_iff list_of_iff split: option.splits)
  have "entry_backed env base item" if "item \<in> set items" for item
  proof -
    from that obtain i where "(i, item) \<in> set (enumerate_from 0 items)"
      using enumerate_from_index[of item items 0] by blast
    from foldE_step[OF loop this] show ?thesis
      by (auto dest: validate_entry_ok)
  qed
  with v bp_entries.loop_distinct[OF loop] show ?thesis by blast
qed simp

text \<open>A run root with one deferred benchmark record and its raw output.\<close>

definition provenance_env :: env where
  "provenance_env = files_env
     [(''evidence/lab/run/rec.json'', ''REC''), (''evidence/lab/run/bench/rtla.txt'', ''deferred'')]
     [(''evidence/lab/run/rec.json'', replicate 64 CHR ''b''), (''evidence/lab/run/bench/rtla.txt'', replicate 64 CHR ''a'')]
     [(''REC'', JObj deferred_record)]"

definition provenance_value :: json where
  "provenance_value =
     JList [JObj [(''record_path'', JStr ''evidence/lab/run/rec.json''), (''record_sha256'', JStr (replicate 64 CHR ''b'')),
       (''record_only'', JBool True)]]"

lemma provenance_value_accepted:
  "validate_entries provenance_env provenance_value (Some (mk_path ''evidence/lab/run'')) ''w'' = Inr ()"
  by code_simp

theorem provenance_entries_backed_witness:
  "validate_entries provenance_env provenance_value (Some (mk_path ''evidence/lab/run'')) ''w'' = Inr () \<and>
   (\<exists>items. provenance_value = JList items \<and> (\<forall>item \<in> set items. entry_backed provenance_env (mk_path ''evidence/lab/run'') item))"
  using provenance_entries_backed[OF provenance_value_accepted] provenance_value_accepted
  by (auto simp: provenance_value_def)

abbreviation provenance_error :: "exn \<Rightarrow> bool" where
  "provenance_error e \<equiv> is_MatrixBenchmarkProvenanceError e \<or> io_error e \<or> is_TypeError e \<or> is_OverflowError e"

lemma raises_require_bp [raises_intro]: "raises provenance_error (require_bp c m)"
  by (simp add: require_bp_def raises_def)

lemma raises_obj_bp [raises_intro]: "raises provenance_error (obj_bp v c)"
  by (auto simp: raises_def dest!: bp_obj.read_err)

lemma raises_text_bp [raises_intro]: "raises provenance_error (text_bp v c)"
  by (auto simp: raises_def dest!: bp_text.read_err)

lemma raises_require_only_fields_bp [raises_intro]: "raises provenance_error (require_only_fields_bp d a c)"
  unfolding require_only_fields_bp_def Let_def by (intro raises_intro)

lemma raises_require_safe_path_bp [raises_intro]: "raises provenance_error (require_safe_path_bp v c)"
  unfolding require_safe_path_bp_def Let_def by (intro raises_intro)

lemma raises_require_descendant_bp [raises_intro]: "raises provenance_error (require_descendant_bp env p b c)"
  by (auto simp: raises_def require_descendant_bp_def path_resolve_def err_iff split: if_splits)

lemma raises_require_sha256_bp [raises_intro]: "raises provenance_error (require_sha256_bp s c)"
  unfolding require_sha256_bp_def by (intro raises_intro)

lemma raises_file_sha256_bp: "io_env env \<Longrightarrow> raises provenance_error (file_sha256_bp env p)"
  unfolding file_sha256_bp_def by (intro raises_intro) (rule io_env_sha256, auto)

lemma raises_load_json_bp: "io_env env \<Longrightarrow> raises provenance_error (load_json_bp env p)"
  unfolding load_json_bp_def
  by (intro raises_intro io_env_read) (auto simp: reject_constant_bp_def is_os_error_def)

lemma raises_validate_raw_output_privacy: "io_env env \<Longrightarrow> raises provenance_error (validate_raw_output_privacy env p c)"
  unfolding validate_raw_output_privacy_def
  by (intro raises_intro raises_case_sum io_env_read raises_weaken[OF reject_private_leaks_bo_raises])
    (auto simp: reject_constant_bp_def dest!: raisesD[OF raises_json_loads_strict[where P = "\<lambda>e. is_JSONDecodeError e \<or> is_ValueError e \<or> is_RecursionError e \<or> is_MatrixBenchmarkProvenanceError e"], rotated 4])

lemma raises_validate_record_references: "io_env env \<Longrightarrow> raises provenance_error (validate_record_references env r b c)"
  unfolding validate_record_references_def Let_def
  by (intro raises_intro raises_file_sha256_bp raises_validate_raw_output_privacy)

lemma raises_validate_record: "raises benchmark_error (validate_record r)"
  unfolding validate_record_def Let_def by (intro raises_intro) simp_all

lemma raises_validate_entry: "io_env env \<Longrightarrow> raises provenance_error (validate_entry env r c seen x)"
  unfolding validate_entry_def Let_def
  by (intro raises_intro raises_file_sha256_bp raises_load_json_bp raises_validate_record_references
      raises_weaken[OF raises_validate_record]) auto

lemma validate_entries_raises: "io_env env \<Longrightarrow> raises provenance_error (validate_entries env value manifest_root context)"
  unfolding validate_entries_def by (intro raises_intro raises_validate_entry) auto

text \<open>Where file access fails only as documented, checking benchmark provenance can
  only end in the module's own exception, an I/O error, or the \<^verbatim>\<open>TypeError\<close> and \<^verbatim>\<open>OverflowError\<close>
  that the record validator lets through; in particular no \<^verbatim>\<open>BenchmarkOutputError\<close> and no JSON error escapes.\<close>

theorem provenance_errors:
  assumes "io_env env" and "validate_entries env value manifest_root context = Inl e"
  shows "provenance_error e"
  by (rule raisesD[OF validate_entries_raises]) fact+

theorem provenance_errors_witness:
  "io_env provenance_env \<and>
   validate_entries provenance_env (JInt 1) None ''w'' = Inl (MatrixBenchmarkProvenanceError ''w must be a list'') \<and>
   provenance_error (MatrixBenchmarkProvenanceError ''w must be a list'')"
proof -
  have env: "io_env provenance_env"
    by (simp add: provenance_env_def io_env_files_env)
  have err: "validate_entries provenance_env (JInt 1) None ''w'' = Inl (MatrixBenchmarkProvenanceError ''w must be a list'')"
    by (simp add: validate_entries_def msg_def)
  show ?thesis
    using env err provenance_errors[OF env err] by blast
qed

end
