(* ===== verification/MatrixRunWorkload.thy ===== *)
theory MatrixRunWorkload
  imports MatrixRunJson BenchmarkProvenance
begin

text \<open>
  \<^verbatim>\<open>qa/matrix_run_workload.py\<close>: the workload a row ran, its spec, its capability artifact and its
  privacy report. A scenario with canonical metadata must name that metadata's class, tools and
  threshold source everywhere; the outcome of the row decides what may be missing.
\<close>

section \<open>Canonical metadata\<close>

definition expected_workload_metadata :: "string \<Rightarrow> workload_scenario_metadata option" where
  "expected_workload_metadata scenario_id = map_of WORKLOAD_SCENARIO_METADATA scenario_id"

definition require_expected_workload_metadata :: "string \<Rightarrow> string \<Rightarrow> workload_scenario_metadata result" where
  "require_expected_workload_metadata scenario_id context =
     (case expected_workload_metadata scenario_id of
        None \<Rightarrow> Inl (MatrixRunContractError (msg [context, ''.scenario_id has no canonical workload metadata: '', scenario_id]))
      | Some expected \<Rightarrow> Inr expected)"

definition require_expected_tools :: "string list \<Rightarrow> workload_scenario_metadata \<Rightarrow> string \<Rightarrow> check" where
  "require_expected_tools tools expected context =
     (thenE (require_mr (length (remdups tools) = length tools) (msg [context, '' must not contain duplicate tools''])) (
     require_mr (set tools = set (md_required_tools expected))
         (msg [context, '' must match scenario '', md_scenario_id expected, '' required tools: '', join '', '' (md_required_tools expected)])))"

definition require_expected_threshold_source :: "string \<Rightarrow> workload_scenario_metadata \<Rightarrow> string \<Rightarrow> check" where
  "require_expected_threshold_source source expected context =
     require_mr (source \<in> set (md_threshold_sources expected))
       (msg [context, '' must match scenario '', md_scenario_id expected, '' threshold_source: '', join '', '' (sorted_set (md_threshold_sources expected))])"

definition require_expected_missing_prereq :: "string \<Rightarrow> workload_scenario_metadata \<Rightarrow> string \<Rightarrow> check" where
  "require_expected_missing_prereq missing expected context =
     require_mr (missing = [] \<or> missing \<in> set (md_required_tools expected))
       (msg [context, '' must be empty or one of scenario '', md_scenario_id expected, '' required tools: '', join '', '' (md_required_tools expected)])"

text \<open>The lookup that both the row and the manifest do: required for a \<^verbatim>\<open>workload-\<close> scenario, optional otherwise.\<close>

definition scenario_metadata :: "string \<Rightarrow> string \<Rightarrow> workload_scenario_metadata option result" where
  "scenario_metadata scenario_id context =
     (if prefix ''workload-'' scenario_id
      then (bindE (require_expected_workload_metadata scenario_id context) (\<lambda>expected.
        Inr (Some expected)))
      else Inr (expected_workload_metadata scenario_id))"

definition validate_workload :: "json_object \<Rightarrow> string \<Rightarrow> string \<Rightarrow> check" where
  "validate_workload workload scenario_id context =
     (thenE (require_only_fields_mr workload WORKLOAD_FIELDS (msg [context, ''.workload''])) (
     bindE (text_mr (jget workload ''name'') (msg [context, ''.workload.name''])) (\<lambda>workload_name.
     bindE (require_safe_path_mr (jget workload ''spec_path'') (msg [context, ''.workload.spec_path''])) (\<lambda>_.
     thenE (require_sha workload ''spec_sha256'' (msg [context, ''.workload''])) (
     bindE (scenario_metadata scenario_id context) (\<lambda>expected.
     case expected of
         None \<Rightarrow> Inr ()
         | Some md \<Rightarrow> require_mr (workload_name = md_workload_class md)
         (msg [context, ''.workload.name must match scenario '', scenario_id, '' workload class '', md_workload_class md])))))))"

section \<open>Specs\<close>

definition require_workload_tools :: "json \<Rightarrow> string \<Rightarrow> string list result" where
  "require_workload_tools value context =
     (bindE (text_list value context) (\<lambda>tools.
     thenE (require_mr (tools \<noteq> []) (msg [context, '' must not be empty''])) (
     thenE (forE (\<lambda>tool. require_mr (tool \<in> set WORKLOAD_TOOL_NAMES) (msg [context, '' has unsafe tool name: '', tool])) tools) (
     Inr tools))))"

definition validate_workload_thresholds :: "json_object \<Rightarrow> string \<Rightarrow> string \<Rightarrow> check" where
  "validate_workload_thresholds thresholds source context =
     (thenE (require_only_fields_mr thresholds WORKLOAD_THRESHOLD_FIELDS context) (
     thenE (require_mr (jget thresholds ''source'' = JStr source) (msg [context, ''.source must match threshold_source''])) (
     bindE (text_mr (jget thresholds ''fixture_status'') (msg [context, ''.fixture_status''])) (\<lambda>_.
     bindE (text_mr (jget thresholds ''calibration_status'') (msg [context, ''.calibration_status''])) (\<lambda>_.
     require_mr (jget thresholds ''production_capacity_claim'' = JBool False)
         (msg [context, ''.production_capacity_claim must be false'']))))))"

definition validate_workload_benchmark_provenance :: "env \<Rightarrow> json \<Rightarrow> path option \<Rightarrow> string \<Rightarrow> check" where
  "validate_workload_benchmark_provenance env value manifest_root context =
     reraise is_MatrixBenchmarkProvenanceError (\<lambda>exc. MatrixRunContractError (exn_str exc))
       (validate_entries env value manifest_root context)"

definition validate_semantics_exact :: "json \<Rightarrow> (string \<times> string) list \<Rightarrow> string \<Rightarrow> check" where
  "validate_semantics_exact value expected context =
     (bindE (obj_mr value context) (\<lambda>semantics.
     thenE (require_mr (set (keys semantics) = set (map fst expected)) (msg [context, '' keys must match Todo 7 VM-only semantics''])) (
     forE (\<lambda>(knob, expected_label).
         require_mr (jget semantics knob = JStr expected_label) (msg [context, ''.'', knob, '' must be '', expected_label])) expected)))"

definition validate_workload_semantics :: "json_object \<Rightarrow> string \<Rightarrow> string \<Rightarrow> check" where
  "validate_workload_semantics spec scenario_id context =
     (if scenario_id = ''workload-cgroup-weight-quota'' then
        (thenE (validate_semantics_exact (jget spec ''cgroup_semantics'') CGROUP_WORKLOAD_SEMANTICS (msg [context, ''.cgroup_semantics''])) (
          require_mr (\<not> has_key spec ''cpu_hotplug_semantics'')
              (msg [context, ''.cpu_hotplug_semantics is only allowed for workload-cpu-hotplug''])))
      else if scenario_id = ''workload-cpu-hotplug'' then
        (thenE (validate_semantics_exact (jget spec ''cpu_hotplug_semantics'') CPU_HOTPLUG_SEMANTICS (msg [context, ''.cpu_hotplug_semantics''])) (
          require_mr (\<not> has_key spec ''cgroup_semantics'')
              (msg [context, ''.cgroup_semantics is only allowed for workload-cgroup-weight-quota''])))
      else
        (thenE (require_mr (\<not> has_key spec ''cgroup_semantics'')
              (msg [context, ''.cgroup_semantics is only allowed for workload-cgroup-weight-quota''])) (
          require_mr (\<not> has_key spec ''cpu_hotplug_semantics'')
              (msg [context, ''.cpu_hotplug_semantics is only allowed for workload-cpu-hotplug'']))))"

definition workload_semantic_fields :: "string \<Rightarrow> json_object" where
  "workload_semantic_fields scenario_id =
     (if scenario_id = ''workload-cgroup-weight-quota''
        then [(''cgroup_semantics'', JObj (map (\<lambda>(k, v). (k, JStr v)) CGROUP_WORKLOAD_SEMANTICS))]
      else if scenario_id = ''workload-cpu-hotplug''
        then [(''cpu_hotplug_semantics'', JObj (map (\<lambda>(k, v). (k, JStr v)) CPU_HOTPLUG_SEMANTICS))]
      else [])"

definition require_for_expected :: "workload_scenario_metadata option \<Rightarrow> (workload_scenario_metadata \<Rightarrow> check) \<Rightarrow> check" where
  "require_for_expected expected f = (case expected of None \<Rightarrow> Inr () | Some md \<Rightarrow> f md)"

definition SPEC_REQUIRED :: "string list" where
  "SPEC_REQUIRED =
     [''schema'', ''workload_class'', ''scenario_id'', ''required_tools'', ''threshold_source'', ''thresholds'',
      ''vm_marker_required_for_live_run'', ''host_mutation'', ''release_eligible'']"

definition validate_workload_spec ::
    "env \<Rightarrow> json_object \<Rightarrow> string \<Rightarrow> string \<Rightarrow> workload_scenario_metadata option \<Rightarrow> string \<Rightarrow> path option \<Rightarrow> string option result" where
  "validate_workload_spec env spec scenario_id workload_class expected context manifest_root =
     (thenE (require_only_fields_mr spec WORKLOAD_SPEC_FIELDS context) (
     thenE (require_mr (has_keys spec SPEC_REQUIRED) (msg [context, '' missing required workload spec fields''])) (
     thenE (require_mr (jget spec ''schema'' = JStr WORKLOAD_SPEC_SCHEMA) (msg [context, ''.schema unsupported''])) (
     thenE (require_mr (jget spec ''scenario_id'' = JStr scenario_id) (msg [context, ''.scenario_id must match row scenario''])) (
     thenE (require_mr (jget spec ''workload_class'' = JStr workload_class) (msg [context, ''.workload_class must match row workload name''])) (
     thenE (if has_key spec ''name''
         then require_mr (jget spec ''name'' = JStr workload_class) (msg [context, ''.name must match workload_class''])
         else Inr ()) (
     bindE (require_workload_tools (jget spec ''required_tools'') (msg [context, ''.required_tools''])) (\<lambda>tools.
     thenE (require_for_expected expected (\<lambda>md. require_expected_tools tools md (msg [context, ''.required_tools'']))) (
     bindE (text_mr (jget spec ''threshold_source'') (msg [context, ''.threshold_source''])) (\<lambda>threshold_source.
     thenE (require_mr (threshold_source \<in> set WORKLOAD_THRESHOLD_SOURCES) (msg [context, ''.threshold_source invalid''])) (
     thenE (require_for_expected expected (\<lambda>md. require_expected_threshold_source threshold_source md (msg [context, ''.threshold_source'']))) (
     bindE (obj_mr (jget spec ''thresholds'') (msg [context, ''.thresholds''])) (\<lambda>thresholds.
     thenE (validate_workload_thresholds thresholds threshold_source (msg [context, ''.thresholds''])) (
     thenE (validate_workload_semantics spec scenario_id context) (
     (let benchmark_provenance = jget spec ''benchmark_provenance'' in
     thenE (if threshold_source = ''calibrated''
         then require_mr (benchmark_provenance \<noteq> JNull) (msg [context, ''.benchmark_provenance required when threshold_source is calibrated''])
         else Inr ()) (
     thenE (validate_workload_benchmark_provenance env benchmark_provenance manifest_root (msg [context, ''.benchmark_provenance''])) (
     thenE (require_mr (jget spec ''vm_marker_required_for_live_run'' = JBool True) (msg [context, ''.vm_marker_required_for_live_run must be true''])) (
     thenE (require_mr (jget spec ''host_mutation'' = JBool False) (msg [context, ''.host_mutation must be false''])) (
     thenE (require_mr (jget spec ''release_eligible'' = JBool False) (msg [context, ''.release_eligible must be false''])) (
     thenE (if has_key spec ''missing_prereq''
         then case str_of (jget spec ''missing_prereq'') of
         None \<Rightarrow> Inl (MatrixRunContractError (msg [context, ''.missing_prereq must be text'']))
         | Some missing \<Rightarrow>
         (thenE (require_mr (missing = [] \<or> missing \<in> set WORKLOAD_TOOL_NAMES) (msg [context, ''.missing_prereq has unsafe tool name''])) (
         require_for_expected expected (\<lambda>md. require_expected_missing_prereq missing md (msg [context, ''.missing_prereq'']))))
         else Inr ()) (
     if has_key spec ''capability_artifact_path''
         then (bindE (require_safe_path_mr (jget spec ''capability_artifact_path'') (msg [context, ''.capability_artifact_path''])) (\<lambda>p.
         Inr (Some p)))
         else Inr None))))))))))))))))))))))"

section \<open>Capability artifacts and privacy reports\<close>

definition CAPABILITY_REQUIRED :: "string list" where
  "CAPABILITY_REQUIRED =
     [''schema'', ''scenario_id'', ''workload_class'', ''required_tools'', ''threshold_source'', ''mode'', ''status'',
      ''typed_outcome'', ''missing_prereq'', ''vm_marker_required_for_live_run'', ''host_mutation'', ''release_eligible'']"

text \<open>What may be missing under which outcome, the last \<^verbatim>\<open>if\<close> chain of the check.\<close>

definition require_missing_for_outcome :: "string \<Rightarrow> string \<Rightarrow> string \<Rightarrow> check" where
  "require_missing_for_outcome missing row_outcome context =
     (if row_outcome = ''PASS'' then require_mr (missing = []) (msg [context, ''.missing_prereq must be empty for PASS''])
      else if row_outcome = ''SKIP'' then require_mr (missing \<noteq> []) (msg [context, ''.missing_prereq must name the missing scenario tool for SKIP''])
      else if row_outcome = ''REFUSE'' then Inr ()
      else require_mr (missing = []) (msg [context, ''.missing_prereq must be empty unless outcome is SKIP or REFUSE'']))"

definition validate_workload_capability ::
    "json_object \<Rightarrow> string \<Rightarrow> string \<Rightarrow> workload_scenario_metadata option \<Rightarrow> string \<Rightarrow> string \<Rightarrow> check" where
  "validate_workload_capability capability scenario_id workload_class expected row_outcome context =
     (thenE (require_only_fields_mr capability WORKLOAD_CAPABILITY_FIELDS context) (
     thenE (require_mr (has_keys capability CAPABILITY_REQUIRED) (msg [context, '' missing required workload capability fields''])) (
     thenE (require_mr (jget capability ''schema'' = JStr WORKLOAD_CAPABILITY_SCHEMA) (msg [context, ''.schema unsupported''])) (
     thenE (require_mr (jget capability ''scenario_id'' = JStr scenario_id) (msg [context, ''.scenario_id must match row scenario''])) (
     thenE (require_mr (jget capability ''workload_class'' = JStr workload_class) (msg [context, ''.workload_class must match row workload name''])) (
     bindE (require_workload_tools (jget capability ''required_tools'') (msg [context, ''.required_tools''])) (\<lambda>tools.
     thenE (require_for_expected expected (\<lambda>md. require_expected_tools tools md (msg [context, ''.required_tools'']))) (
     bindE (text_mr (jget capability ''threshold_source'') (msg [context, ''.threshold_source''])) (\<lambda>threshold_source.
     thenE (require_mr (threshold_source \<in> set WORKLOAD_THRESHOLD_SOURCES) (msg [context, ''.threshold_source invalid''])) (
     thenE (require_for_expected expected (\<lambda>md. require_expected_threshold_source threshold_source md (msg [context, ''.threshold_source'']))) (
     bindE (text_mr (jget capability ''mode'') (msg [context, ''.mode''])) (\<lambda>mode.
     thenE (require_mr (mode \<in> set WORKLOAD_CAPABILITY_MODES) (msg [context, ''.mode invalid''])) (
     bindE (text_mr (jget capability ''status'') (msg [context, ''.status''])) (\<lambda>status.
     thenE (require_mr (status \<in> set OUTCOMES) (msg [context, ''.status invalid''])) (
     thenE (require_mr (status = row_outcome) (msg [context, ''.status must match row outcome''])) (
     bindE (text_mr (jget capability ''typed_outcome'') (msg [context, ''.typed_outcome''])) (\<lambda>typed_outcome.
     thenE (require_mr (typed_outcome \<in> set OUTCOMES) (msg [context, ''.typed_outcome invalid''])) (
     thenE (require_mr (typed_outcome = row_outcome) (msg [context, ''.typed_outcome must match row outcome''])) (
     bindE ((if jget capability ''missing_prereq'' \<noteq> JStr [] then text_mr (jget capability ''missing_prereq'') (msg [context, ''.missing_prereq'']) else Inr [])) (\<lambda>missing.
     thenE (require_mr (missing = [] \<or> missing \<in> set WORKLOAD_TOOL_NAMES) (msg [context, ''.missing_prereq has unsafe tool name''])) (
     thenE (require_for_expected expected (\<lambda>md.
         (thenE (require_expected_missing_prereq missing md (msg [context, ''.missing_prereq''])) (
         require_missing_for_outcome missing row_outcome context)))) (
     thenE (require_mr (jget capability ''vm_marker_required_for_live_run'' = JBool True) (msg [context, ''.vm_marker_required_for_live_run must be true''])) (
     thenE (require_mr (jget capability ''host_mutation'' = JBool False) (msg [context, ''.host_mutation must be false''])) (
     require_mr (jget capability ''release_eligible'' = JBool False) (msg [context, ''.release_eligible must be false''])))))))))))))))))))))))))"

definition validate_privacy_report :: "json_object \<Rightarrow> string \<Rightarrow> check" where
  "validate_privacy_report report context =
     (thenE (require_only_fields_mr report PRIVACY_REPORT_FIELDS context) (
     thenE (require_mr (jget report ''schema'' = JStr PRIVACY_SCAN_SCHEMA) (msg [context, ''.schema unsupported''])) (
     thenE (require_mr (jget report ''status'' = JStr ''PASS'') (msg [context, ''.status must be PASS''])) (
     thenE (require_mr (jget report ''private_fields_found'' = JBool False) (msg [context, ''.private_fields_found must be false''])) (
     require_mr (jget report ''host_mutation'' = JBool False) (msg [context, ''.host_mutation must be false'']))))))"

section \<open>What acceptance means\<close>

lemma require_for_expected_ok_iff [ok_iff]:
  "require_for_expected e f = Inr u \<longleftrightarrow> (\<forall>md. e = Some md \<longrightarrow> f md = Inr ())"
  by (cases e) (auto simp: require_for_expected_def)

lemma require_for_expected_Some: "require_for_expected (Some md) f = f md"
  by (simp add: require_for_expected_def)

lemma require_expected_tools_ok_iff [ok_iff]:
  "require_expected_tools tools md c = Inr u \<longleftrightarrow> distinct tools \<and> set tools = set (md_required_tools md)"
  by (simp add: require_expected_tools_def ok_iff)

lemma require_workload_tools_ok:
  assumes "require_workload_tools v c = Inr tools"
  shows "v = JList (map JStr tools) \<and> tools \<noteq> [] \<and> set tools \<subseteq> set WORKLOAD_TOOL_NAMES"
proof -
  from assms have "text_list v c = Inr tools" and "tools \<noteq> []" and "set tools \<subseteq> set WORKLOAD_TOOL_NAMES"
    by (auto simp: require_workload_tools_def ok_iff)
  then show ?thesis using text_list_ok by blast
qed

text \<open>
  What an artifact of a scenario with canonical metadata says about its tools: the canonical ones, each
  once, and a threshold source that the metadata allows.
\<close>

definition canonical_tools :: "workload_scenario_metadata \<Rightarrow> json_object \<Rightarrow> bool" where
  "canonical_tools md d \<longleftrightarrow>
     (\<exists>tools source. jget d ''required_tools'' = JList (map JStr tools) \<and> distinct tools \<and>
        set tools = set (md_required_tools md) \<and> jget d ''threshold_source'' = JStr source \<and> source \<in> set (md_threshold_sources md))"

lemma canonical_toolsI:
  assumes "require_workload_tools (jget d ''required_tools'') c = Inr tools"
    and "require_expected_tools tools md c1 = Inr ()"
    and "jget d ''threshold_source'' = JStr source" and "require_expected_threshold_source source md c2 = Inr ()"
  shows "canonical_tools md d"
proof -
  from require_workload_tools_ok[OF assms(1)] have "jget d ''required_tools'' = JList (map JStr tools)" by simp
  moreover from assms(2) have "distinct tools" and "set tools = set (md_required_tools md)"
    by (simp_all only: require_expected_tools_ok_iff)
  moreover from assms(4) have "source \<in> set (md_threshold_sources md)"
    by (simp only: require_expected_threshold_source_def require_mr_ok_iff)
  ultimately show ?thesis unfolding canonical_tools_def using assms(3) by blast
qed

definition missing_allowed :: "workload_scenario_metadata \<Rightarrow> string \<Rightarrow> string \<Rightarrow> bool" where
  "missing_allowed md outcome missing \<longleftrightarrow>
     (if outcome = ''SKIP'' then missing \<in> set (md_required_tools md) \<and> missing \<noteq> []
      else if outcome = ''REFUSE'' then missing = [] \<or> missing \<in> set (md_required_tools md)
      else missing = [])"

lemma missing_allowedI:
  assumes "require_expected_missing_prereq missing md c = Inr ()" and "require_missing_for_outcome missing outcome c' = Inr ()"
  shows "missing_allowed md outcome missing"
  using assms unfolding require_expected_missing_prereq_def require_missing_for_outcome_def missing_allowed_def
  by (auto simp: require_mr_ok_iff split: if_splits)

text \<open>A capability artifact that is accepted for a row of the scenario with the given outcome.\<close>

definition capability_consistent :: "workload_scenario_metadata \<Rightarrow> string \<Rightarrow> json_object \<Rightarrow> bool" where
  "capability_consistent md outcome d \<longleftrightarrow>
     canonical_tools md d \<and> jget d ''status'' = JStr outcome \<and> jget d ''typed_outcome'' = JStr outcome \<and>
     outcome \<in> set OUTCOMES \<and> (\<exists>missing. jget d ''missing_prereq'' = JStr missing \<and> missing_allowed md outcome missing) \<and>
     jget d ''vm_marker_required_for_live_run'' = JBool True \<and> jget d ''host_mutation'' = JBool False \<and>
     jget d ''release_eligible'' = JBool False"

lemma missing_prereq_text:
  "(if v \<noteq> JStr [] then text_mr v c else Inr []) = Inr missing \<longleftrightarrow> v = JStr missing"
  by (auto simp: mr_text.read_ok text_of_iff)

lemma validate_workload_capability_ok:
  assumes "validate_workload_capability d scenario_id cls (Some md) outcome c = Inr ()"
  shows "capability_consistent md outcome d"
  using assms
  unfolding validate_workload_capability_def require_for_expected_Some thenE_ok_iff bindE_ok_iff missing_prereq_text
    mr_text.read_ok text_of_iff require_mr_ok_iff
proof (elim exE conjE, hypsubst, goal_cases)
  case (1 tools source mode status typed missing)
  have tools: "canonical_tools md d"
    by (rule canonical_toolsI) (fact 1)+
  have miss: "missing_allowed md outcome missing"
    by (rule missing_allowedI) (fact 1)+
  show ?case
    unfolding capability_consistent_def by (intro conjI exI[of _ missing]) (fact tools | fact miss | fact 1)+
qed

text \<open>C13: an accepted capability artifact of a scenario with canonical metadata
  states the canonical tools, each once, and an allowed threshold source; its status and its typed outcome are
  the row's outcome; a passing row misses nothing, a skipped one names a tool of the scenario that is missing,
  and no outcome but a skip or a refusal names one; and it claims no host mutation and no release.\<close>

theorem workload_capability_outcome:
  assumes "expected_workload_metadata scenario_id = Some md"
    and "validate_workload_capability d scenario_id (md_workload_class md) (expected_workload_metadata scenario_id) outcome context = Inr ()"
  shows "capability_consistent md outcome d"
  using assms(2) unfolding assms(1) by (rule validate_workload_capability_ok)

definition skip_capability :: json_object where
  "skip_capability =
     [(''schema'', JStr WORKLOAD_CAPABILITY_SCHEMA), (''scenario_id'', JStr ''workload-mixed-io''), (''workload_class'', JStr ''mixed-io''),
      (''required_tools'', JList [JStr ''fio'']), (''threshold_source'', JStr ''record-only''), (''mode'', JStr ''auto''),
      (''status'', JStr ''SKIP''), (''typed_outcome'', JStr ''SKIP''), (''missing_prereq'', JStr ''fio''),
      (''vm_marker_required_for_live_run'', JBool True), (''host_mutation'', JBool False), (''release_eligible'', JBool False)]"

definition mixed_io :: workload_scenario_metadata where
  "mixed_io = record_only_scenario ''workload-mixed-io'' ''mixed-io'' [''fio'']"

lemma mixed_io_expected: "expected_workload_metadata ''workload-mixed-io'' = Some mixed_io"
  by (simp add: expected_workload_metadata_def WORKLOAD_SCENARIO_METADATA_def record_only_scenario_def mixed_io_def)

theorem workload_capability_outcome_witness:
  "expected_workload_metadata ''workload-mixed-io'' = Some mixed_io \<and>
   validate_workload_capability skip_capability ''workload-mixed-io'' (md_workload_class mixed_io)
     (expected_workload_metadata ''workload-mixed-io'') ''SKIP'' ''c'' = Inr () \<and>
   capability_consistent mixed_io ''SKIP'' skip_capability"
proof -
  have ok: "validate_workload_capability skip_capability ''workload-mixed-io'' (md_workload_class mixed_io)
     (expected_workload_metadata ''workload-mixed-io'') ''SKIP'' ''c'' = Inr ()"
    by code_simp
  show ?thesis
    by (intro conjI mixed_io_expected ok workload_capability_outcome[OF mixed_io_expected ok])
qed

text \<open>Two dicts with the same keys and the same values.\<close>

definition same_dict :: "json_object \<Rightarrow> json_object \<Rightarrow> bool" where
  "same_dict d d' \<longleftrightarrow> set (keys d) = set (keys d') \<and> (\<forall>k. jget d k = jget d' k)"

lemma validate_semantics_exact_ok_iff:
  assumes "distinct (map fst expected)"
  shows "validate_semantics_exact v expected c = Inr u \<longleftrightarrow>
    (\<exists>d. v = JObj d \<and> same_dict d (map (\<lambda>(k, s). (k, JStr s)) expected))"
proof -
  let ?e = "map (\<lambda>(k, s). (k, JStr s)) expected"
  have keys: "keys ?e = map fst expected" by (induction expected) auto
  have get: "jget ?e k = JStr s" if "(k, s) \<in> set expected" for k s
  proof -
    have "map_of ?e k = Some (JStr s)"
      using that assms unfolding keys[symmetric] by (intro map_of_is_SomeI) force+
    then show ?thesis by (simp add: jget_def)
  qed
  have "(\<forall>(k, s) \<in> set expected. jget d k = JStr s) \<longleftrightarrow> (\<forall>k. jget d k = jget ?e k)"
    if "set (keys d) = set (map fst expected)" for d
  proof
    assume *: "\<forall>(k, s) \<in> set expected. jget d k = JStr s"
    show "\<forall>k. jget d k = jget ?e k"
    proof
      fix k
      show "jget d k = jget ?e k"
      proof (cases "k \<in> set (map fst expected)")
        case True
        then obtain s where "(k, s) \<in> set expected" by auto
        with * get show ?thesis by fastforce
      next
        case False
        with that keys have "k \<notin> set (keys d)" "k \<notin> set (keys ?e)" by auto
        then show ?thesis by (metis has_key_def jget_has_key)
      qed
    qed
  qed (use get in auto)
  then have "set (keys d) = set (map fst expected) \<and> (\<forall>(k, s) \<in> set expected. jget d k = JStr s) \<longleftrightarrow> same_dict d ?e" for d
    unfolding same_dict_def keys by blast
  then show ?thesis
    unfolding validate_semantics_exact_def bindE_ok_iff thenE_ok_iff require_mr_ok_iff mr_obj.read_ok obj_of_iff forE_ok_iff
      case_prod_ok_iff by blast
qed

text \<open>
  The field of one of the two semantics, as the producer writes it for the scenario: there with the same
  entries when the producer writes it, absent when it does not.
\<close>

definition semantics_as_produced :: "json_object \<Rightarrow> string \<Rightarrow> string \<Rightarrow> bool" where
  "semantics_as_produced spec scenario_id k \<longleftrightarrow>
     (case map_of (workload_semantic_fields scenario_id) k of
        None \<Rightarrow> \<not> has_key spec k
      | Some v \<Rightarrow> \<exists>d d'. jget spec k = JObj d \<and> v = JObj d' \<and> same_dict d d')"

text \<open>C14: the check of the semantics in a workload spec accepts exactly what the
  producer of the fixtures writes: both fields are those of \<^verbatim>\<open>workload_semantic_fields\<close>, equal as dicts or
  both absent.\<close>

theorem workload_semantics_as_produced:
  "validate_workload_semantics spec scenario_id context = Inr () \<longleftrightarrow>
     semantics_as_produced spec scenario_id ''cgroup_semantics'' \<and> semantics_as_produced spec scenario_id ''cpu_hotplug_semantics''"
proof -
  have cgroup: "distinct (map fst CGROUP_WORKLOAD_SEMANTICS)" by code_simp
  have hotplug: "distinct (map fst CPU_HOTPLUG_SEMANTICS)" by code_simp
  show ?thesis
    unfolding validate_workload_semantics_def semantics_as_produced_def workload_semantic_fields_def
    by (simp add: ok_iff validate_semantics_exact_ok_iff[OF cgroup] validate_semantics_exact_ok_iff[OF hotplug])
      blast
qed

text \<open>What an accepted workload spec says.\<close>

definition spec_consistent :: "env \<Rightarrow> path option \<Rightarrow> workload_scenario_metadata option \<Rightarrow> string \<Rightarrow> string \<Rightarrow> json_object \<Rightarrow> bool" where
  "spec_consistent env manifest_root expected scenario_id workload_class spec \<longleftrightarrow>
     jget spec ''scenario_id'' = JStr scenario_id \<and> jget spec ''workload_class'' = JStr workload_class \<and>
     (\<forall>md. expected = Some md \<longrightarrow> canonical_tools md spec) \<and>
     (\<exists>c. validate_entries env (jget spec ''benchmark_provenance'') manifest_root c = Inr ()) \<and>
     (jget spec ''threshold_source'' = JStr ''calibrated'' \<longrightarrow> jget spec ''benchmark_provenance'' \<noteq> JNull) \<and>
     jget spec ''vm_marker_required_for_live_run'' = JBool True \<and> jget spec ''host_mutation'' = JBool False \<and>
     jget spec ''release_eligible'' = JBool False"

lemma validate_workload_spec_ok:
  assumes "validate_workload_spec env spec sid cls expected c base = Inr cap"
  shows "spec_consistent env base expected sid cls spec \<and>
    (\<forall>p. cap = Some p \<longrightarrow> jget spec ''capability_artifact_path'' = JStr p \<and> p \<noteq> [] \<and> safe_path (mk_path p))"
  using assms
  unfolding validate_workload_spec_def Let_def thenE_ok_iff bindE_ok_iff mr_text.read_ok mr_obj.read_ok text_of_iff obj_of_iff
    require_mr_ok_iff validate_workload_benchmark_provenance_def reraise_ok_iff require_safe_path_mr_ok_iff
proof (elim exE conjE, goal_cases)
  case (1 tools source thresholds)
  have canonical: "\<forall>md. expected = Some md \<longrightarrow> canonical_tools md spec"
  proof (intro allI impI)
    fix md assume md: "expected = Some md"
    show "canonical_tools md spec"
      by (rule canonical_toolsI) (fact 1 | rule 1[unfolded md require_for_expected_Some])+
  qed
  have calibrated: "jget spec ''threshold_source'' = JStr ''calibrated'' \<longrightarrow> jget spec ''benchmark_provenance'' \<noteq> JNull"
    using \<open>(if source = ''calibrated'' then _ else _) = _\<close> \<open>jget spec ''threshold_source'' = JStr source\<close>
    by (simp add: require_mr_ok_iff split: if_splits)
  have "spec_consistent env base expected sid cls spec"
    unfolding spec_consistent_def by (intro conjI exI canonical calibrated) (fact 1)+
  moreover have "\<forall>p. cap = Some p \<longrightarrow> jget spec ''capability_artifact_path'' = JStr p \<and> p \<noteq> [] \<and> safe_path (mk_path p)"
    using \<open>(if has_key spec ''capability_artifact_path'' then _ else _) = _\<close>
    by (auto simp: bindE_ok_iff require_safe_path_mr_ok_iff text_of_iff split: if_splits)
  ultimately show ?case by blast
qed

section \<open>Which exceptions escape\<close>

lemma raises_require_for_expected [raises_intro]:
  "(\<And>md. e = Some md \<Longrightarrow> raises P (f md)) \<Longrightarrow> raises P (require_for_expected e f)"
  unfolding require_for_expected_def by (intro raises_intro)

lemma raises_require_expected [raises_intro]:
  assumes "\<And>m. P (MatrixRunContractError m)"
  shows "raises P (require_expected_tools tools md c)" "raises P (require_expected_threshold_source s md c)"
    "raises P (require_expected_missing_prereq s md c)" "raises P (scenario_metadata sid c)"
    "raises P (require_missing_for_outcome s s' c)"
  unfolding require_expected_tools_def require_expected_threshold_source_def require_expected_missing_prereq_def
    scenario_metadata_def require_expected_workload_metadata_def require_missing_for_outcome_def
  by (intro raises_intro assms)+

lemma raises_validate_workload [raises_intro]:
  "(\<And>m. P (MatrixRunContractError m)) \<Longrightarrow> raises P (validate_workload w sid c)"
  unfolding validate_workload_def by (intro raises_intro)

lemma raises_require_workload_tools [raises_intro]:
  "(\<And>m. P (MatrixRunContractError m)) \<Longrightarrow> raises P (require_workload_tools v c)"
  unfolding require_workload_tools_def by (intro raises_intro)

lemma raises_validate_workload_thresholds [raises_intro]:
  "(\<And>m. P (MatrixRunContractError m)) \<Longrightarrow> raises P (validate_workload_thresholds d s c)"
  unfolding validate_workload_thresholds_def by (intro raises_intro)

lemma raises_validate_workload_semantics [raises_intro]:
  "(\<And>m. P (MatrixRunContractError m)) \<Longrightarrow> raises P (validate_workload_semantics d s c)"
  unfolding validate_workload_semantics_def validate_semantics_exact_def by (intro raises_intro)

lemma raises_validate_workload_capability [raises_intro]:
  "(\<And>m. P (MatrixRunContractError m)) \<Longrightarrow> raises P (validate_workload_capability d sid cls e out c)"
  unfolding validate_workload_capability_def by (intro raises_intro)

lemma raises_validate_privacy_report [raises_intro]:
  "(\<And>m. P (MatrixRunContractError m)) \<Longrightarrow> raises P (validate_privacy_report d c)"
  unfolding validate_privacy_report_def by (intro raises_intro)

abbreviation workload_error :: "exn \<Rightarrow> bool" where
  "workload_error e \<equiv> matrix_or_io e \<or> is_TypeError e \<or> is_OverflowError e"

lemma raises_validate_workload_benchmark_provenance:
  "io_env env \<Longrightarrow> (\<And>e. workload_error e \<Longrightarrow> P e) \<Longrightarrow> raises P (validate_workload_benchmark_provenance env v r c)"
  unfolding validate_workload_benchmark_provenance_def
  by (intro raises_intro raises_weaken[OF validate_entries_raises]) auto

lemma raises_validate_workload_spec:
  assumes "io_env env" and "\<And>e. workload_error e \<Longrightarrow> P e"
  shows "raises P (validate_workload_spec env spec sid cls e c r)"
  unfolding validate_workload_spec_def Let_def
  by (intro raises_intro raises_validate_workload_benchmark_provenance assms(1)) (auto intro: assms(2))

end
