(* ===== verification/MatrixRunValidate.thy ===== *)
theory MatrixRunValidate
  imports MatrixRunWorkload
begin

text \<open>
  \<^verbatim>\<open>qa/matrix_run_validate.py\<close>: the row of a matrix run, the schema file and the document that
  describe it, and the pack of fixtures, the valid ones with their workload specs and the invalid ones
  that must all be rejected.
\<close>

section \<open>Schema file and document\<close>

definition required_fields :: "string list" where
  "required_fields = sorted_set ROW_FIELDS"

definition strings_in :: "json list \<Rightarrow> string list" where
  "strings_in xs = List.map_filter str_of xs"

text \<open>One round of the inner loop that walks from the properties to the node of a path field.\<close>

definition schema_segment :: "string list \<Rightarrow> json_object \<Rightarrow> string \<Rightarrow> json_object result" where
  "schema_segment path_field schema_node segment =
     (if segment = last path_field
      then obj_mr (jget schema_node segment) (msg [SCHEMA_FILE, ''.properties.'', join ''.'' path_field])
      else (bindE (obj_mr (jget schema_node segment) (msg [SCHEMA_FILE, ''.properties.'', segment])) (\<lambda>inner.
        obj_mr (jget inner ''properties'') (msg [SCHEMA_FILE, ''.properties.'', segment, ''.properties'']))))"

definition validate_schema_file :: "env \<Rightarrow> path \<Rightarrow> check" where
  "validate_schema_file env schemas =
     (bindE (load_json_mr env (path_join schemas SCHEMA_FILE)) (\<lambda>schema.
     thenE (require_mr (jget schema ''$id'' = JStr SCHEMA_mr) (msg [SCHEMA_FILE, '' has wrong $id''])) (
     bindE (obj_mr (jget schema ''properties'') (msg [SCHEMA_FILE, ''.properties''])) (\<lambda>properties0.
     bindE (obj_mr (jget properties0 ''schema'') (msg [SCHEMA_FILE, ''.properties.schema''])) (\<lambda>row_schema.
     thenE (require_mr (jget row_schema ''const'' = JStr SCHEMA_mr) (msg [SCHEMA_FILE, '' row schema const mismatch''])) (
     bindE ((case list_of (jget schema ''required'') of
         None \<Rightarrow> Inl (MatrixRunContractError (msg [SCHEMA_FILE, ''.required must be a list'']))
         | Some xs \<Rightarrow> Inr xs)) (\<lambda>required.
     (let missing = sort (filter (\<lambda>field. field \<notin> set (strings_in required)) required_fields) in
     thenE (require_mr (missing = []) (msg [SCHEMA_FILE, '' missing required fields: '', join '', '' missing])) (
     bindE (obj_mr (jget schema ''properties'') (msg [SCHEMA_FILE, ''.properties''])) (\<lambda>properties.
     bindE (obj_mr (jget properties ''evidence_mode'') (msg [SCHEMA_FILE, ''.properties.evidence_mode''])) (\<lambda>evidence_mode_schema.
     bindE ((case list_of (jget evidence_mode_schema ''enum'') of
         None \<Rightarrow> Inl (MatrixRunContractError (msg [SCHEMA_FILE, ''.properties.evidence_mode.enum must be a list'']))
         | Some xs \<Rightarrow> Inr xs)) (\<lambda>evidence_modes.
     thenE (require_mr (set (strings_in evidence_modes) = set EVIDENCE_MODES)
         (msg [SCHEMA_FILE, ''.properties.evidence_mode.enum must match checker evidence modes''])) (
     bindE (obj_mr (jget properties ''bpf_abi_version'') (msg [SCHEMA_FILE, ''.properties.bpf_abi_version''])) (\<lambda>bpf_abi_schema.
     thenE (require_mr (jget bpf_abi_schema ''const'' = JStr MATRIX_BPF_ABI_VERSION)
         (msg [SCHEMA_FILE, ''.properties.bpf_abi_version.const must match checker''])) (
     forE (\<lambda>path_field.
         (bindE (foldE (schema_segment path_field) properties path_field) (\<lambda>schema_node.
         require_mr (jget schema_node ''pattern'' = JStr SAFE_RELATIVE_PATH_PATTERN)
         (msg [SCHEMA_FILE, ''.'', join ''.'' path_field, '' missing safe relative path pattern''])))) SCHEMA_PATH_FIELDS)))))))))))))))"

definition DOC_NEEDLES :: "string list" where
  "DOC_NEEDLES =
     [SCHEMA_mr, ''standalone'', ''not a daemon-event'', ''live-backend'', ''daemon_event_path'', ''host_mutation'',
      ''release_eligible'', ''relative'', ''rollback_proof_path'', ''cleanup_proof_path'', ''host_refusal_proof_path'',
      ''benchmark_provenance'']"

definition validate_docs :: "env \<Rightarrow> path \<Rightarrow> check" where
  "validate_docs env docs =
     (bindE (reraise is_FileNotFoundError
         (\<lambda>_. MatrixRunContractError (msg [''missing doc: '', path_str (path_join docs DOC_FILE)])) (fs_read_text env (path_join docs DOC_FILE))) (\<lambda>raw.
     (let text_value = lower raw in
     forE (\<lambda>needle. require_mr (contains (lower needle) text_value) (msg [DOC_FILE, '' missing required text: '', needle])) DOC_NEEDLES)))"

section \<open>Rows\<close>

definition validate_vm_marker :: "json_object \<Rightarrow> string \<Rightarrow> string \<Rightarrow> check" where
  "validate_vm_marker marker mode context =
     (thenE (require_only_fields_mr marker VM_MARKER_FIELDS (msg [context, ''.vm_marker''])) (
     bindE (bool_field (jget marker ''required'') (msg [context, ''.vm_marker.required''])) (\<lambda>required.
     bindE (bool_field (jget marker ''present'') (msg [context, ''.vm_marker.present''])) (\<lambda>present.
     bindE (text_mr (jget marker ''path'') (msg [context, ''.vm_marker.path''])) (\<lambda>path.
     thenE (require_mr (path = VM_MARKER_mr) (msg [context, ''.vm_marker.path mismatch''])) (
     bindE (text_mr (jget marker ''checked_by'') (msg [context, ''.vm_marker.checked_by''])) (\<lambda>_.
     if mode = ''vm-live'' then require_mr (required \<and> present) (msg [context, '' VM-live row requires present VM marker''])
         else if mode \<in> set [''host-refusal-only'', ''fixture'']
         then require_mr (\<not> required \<and> \<not> present) (msg [context, '' '', mode, '' row must not claim VM marker''])
         else Inl (MatrixRunContractError (msg [context, ''.evidence_mode invalid''])))))))))"

definition validate_pass_evidence_mode :: "string \<Rightarrow> string \<Rightarrow> string \<Rightarrow> check" where
  "validate_pass_evidence_mode outcome mode context =
     (if outcome = ''PASS''
      then require_mr (mode \<in> set [''vm-live'', ''fixture'']) (msg [context, '' PASS requires vm-live proof or explicit fixture evidence''])
      else Inr ())"

definition validate_policy :: "json_object \<Rightarrow> string \<Rightarrow> check" where
  "validate_policy policy context =
     (thenE (require_only_fields_mr policy POLICY_FIELDS (msg [context, ''.policy''])) (
     thenE (forE (\<lambda>field. (bindE (text_mr (jget policy field) (msg [context, ''.policy.'', field])) (\<lambda>_.
         Inr ())))
         [''name'', ''object_path'', ''source_path'']) (
     bindE (require_safe_path_mr (jget policy ''object_path'') (msg [context, ''.policy.object_path''])) (\<lambda>_.
     bindE (require_safe_path_mr (jget policy ''source_path'') (msg [context, ''.policy.source_path''])) (\<lambda>_.
     thenE (require_sha policy ''object_sha256'' (msg [context, ''.policy''])) (
     require_sha policy ''source_sha256'' (msg [context, ''.policy''])))))))"

definition validate_privacy :: "json_object \<Rightarrow> string \<Rightarrow> check" where
  "validate_privacy scan context =
     (thenE (require_only_fields_mr scan PRIVACY_SCAN_FIELDS (msg [context, ''.privacy_scan''])) (
     thenE (require_mr (jget scan ''status'' = JStr ''PASS'') (msg [context, ''.privacy_scan.status must be PASS''])) (
     thenE (require_mr (jget scan ''private_fields_found'' = JBool False) (msg [context, ''.privacy_scan.private_fields_found must be false''])) (
     bindE (require_safe_path_mr (jget scan ''report_path'') (msg [context, ''.privacy_scan.report_path''])) (\<lambda>_.
     Inr ())))))"

definition validate_git :: "json_object \<Rightarrow> string \<Rightarrow> check" where
  "validate_git git context =
     (thenE (require_only_fields_mr git GIT_FIELDS (msg [context, ''.git''])) (
     bindE (text_mr (jget git ''expected_sha'') (msg [context, ''.git.expected_sha''])) (\<lambda>expected.
     bindE (text_mr (jget git ''actual_sha'') (msg [context, ''.git.actual_sha''])) (\<lambda>actual.
     thenE (require_mr (jget git ''status'' = JStr ''current'') (msg [context, ''.git.status must be current''])) (
     thenE (require_mr (jget git ''dirty'' = JBool False) (msg [context, ''.git.dirty must be false''])) (
     require_mr (expected = actual) (msg [context, ''.git expected_sha must match actual_sha''])))))))"

definition validate_row :: "json_object \<Rightarrow> string \<Rightarrow> check" where
  "validate_row row context =
     (thenE (require_only_fields_mr row ROW_FIELDS context) (
     thenE (require_mr (has_keys row required_fields) (msg [context, '' missing required fields''])) (
     thenE (require_mr (jget row ''schema'' = JStr SCHEMA_mr) (msg [context, '' bad schema''])) (
     bindE (text_mr (jget row ''outcome'') (msg [context, ''.outcome''])) (\<lambda>outcome.
     thenE (require_mr (outcome \<in> set OUTCOMES) (msg [context, ''.outcome invalid''])) (
     bindE (text_mr (jget row ''evidence_mode'') (msg [context, ''.evidence_mode''])) (\<lambda>mode.
     thenE (require_mr (mode \<in> set EVIDENCE_MODES) (msg [context, ''.evidence_mode invalid''])) (
     bindE (text_mr (jget row ''supported_tuple_status'') (msg [context, ''.supported_tuple_status''])) (\<lambda>tuple_status.
     thenE (require_mr (tuple_status \<in> set TUPLE_STATUS) (msg [context, ''.supported_tuple_status invalid''])) (
     thenE (require_mr (jget row ''host_mutation'' = JBool False) (msg [context, ''.host_mutation must be false''])) (
     thenE (require_mr (jget row ''release_eligible'' = JBool False) (msg [context, ''.release_eligible must be false''])) (
     thenE (require_mr (jget row ''bpf_abi_version'' = JStr MATRIX_BPF_ABI_VERSION) (msg [context, ''.bpf_abi_version must be '', MATRIX_BPF_ABI_VERSION])) (
     thenE (require_identifier row ''matrix_run_id'' RUN_ID_RE context) (
     thenE (forE (\<lambda>field. require_identifier row field ID_RE context) [''scenario_id'', ''action_id'', ''rollback_id'']) (
     bindE (text_mr (jget row ''scenario_id'') (msg [context, ''.scenario_id''])) (\<lambda>scenario_id.
     thenE (require_identifier row ''audit_id'' AUDIT_RE_mr context) (
     thenE (forE (\<lambda>field. (bindE (require_safe_path_mr (jget row field) (msg [context, ''.'', field])) (\<lambda>_.
         Inr ()))) PATH_FIELDS) (
     bindE (obj_mr (jget row ''pre_scheduler_state'') (msg [context, ''.pre_scheduler_state''])) (\<lambda>pre_state.
     bindE (validate_scheduler_state pre_state (msg [context, ''.pre_scheduler_state''])) (\<lambda>pre_enable_seq.
     bindE (obj_mr (jget row ''post_scheduler_state'') (msg [context, ''.post_scheduler_state''])) (\<lambda>post_state.
     bindE (validate_scheduler_state post_state (msg [context, ''.post_scheduler_state''])) (\<lambda>post_enable_seq.
     thenE (case (pre_enable_seq, post_enable_seq) of
         (Some pre, Some post) \<Rightarrow> require_mr (post \<ge> pre) (msg [context, ''.post_scheduler_state.enable_seq is stale''])
         | _ \<Rightarrow> Inr ()) (
     thenE (forE (\<lambda>field. (bindE (obj_mr (jget row field) (msg [context, ''.'', field])) (\<lambda>_.
         Inr ()))) [''pre_cgroup_state'', ''post_cgroup_state'']) (
     bindE (obj_mr (jget row ''kernel_tuple'') (msg [context, ''.kernel_tuple''])) (\<lambda>kernel_tuple.
     thenE (require_only_fields_mr kernel_tuple KERNEL_TUPLE_FIELDS (msg [context, ''.kernel_tuple''])) (
     bindE (obj_mr (jget row ''vm_marker'') (msg [context, ''.vm_marker''])) (\<lambda>marker.
     thenE (validate_vm_marker marker mode context) (
     bindE (obj_mr (jget row ''policy'') (msg [context, ''.policy''])) (\<lambda>policy.
     thenE (validate_policy policy context) (
     bindE (obj_mr (jget row ''workload'') (msg [context, ''.workload''])) (\<lambda>workload.
     thenE (validate_workload workload scenario_id context) (
     bindE (obj_mr (jget row ''privacy_scan'') (msg [context, ''.privacy_scan''])) (\<lambda>scan.
     thenE (validate_privacy scan context) (
     bindE (obj_mr (jget row ''git'') (msg [context, ''.git''])) (\<lambda>git.
     thenE (validate_git git context) (
     thenE (validate_pass_evidence_mode outcome mode context) (
     reject_private_mr (JObj row) context)))))))))))))))))))))))))))))))))))))"

section \<open>The fixture pack\<close>

text \<open>\<^verbatim>\<open>{child.name for child in path.glob("*.json") if child.is_file()}\<close>; the listing has no name twice.\<close>

definition fixture_names :: "env \<Rightarrow> path \<Rightarrow> string list" where
  "fixture_names env path =
     filter (\<lambda>name. suffix ''.json'' name \<and> fs_is_file env (path_join path name)) (remdups (fs_listing env path))"

definition validate_workload_fixture_artifacts :: "env \<Rightarrow> json_object \<Rightarrow> path \<Rightarrow> string \<Rightarrow> check" where
  "validate_workload_fixture_artifacts env row fixtures fixture_name =
     (let here = path_str (path_join fixtures fixture_name) in
      (bindE (text_mr (jget row ''scenario_id'') (msg [here, ''.scenario_id''])) (\<lambda>scenario_id.
      case expected_workload_metadata scenario_id of
          None \<Rightarrow> Inr ()
          | Some expected \<Rightarrow>
          (thenE (require_mr (fixture_name = (msg [scenario_id, ''.json''])) (msg [here, '' filename must match workload scenario_id''])) (
          bindE (obj_mr (jget row ''workload'') (msg [here, ''.workload''])) (\<lambda>workload.
          bindE (text_mr (jget workload ''name'') (msg [here, ''.workload.name''])) (\<lambda>workload_class.
          thenE (require_mr (workload_class = md_workload_class expected) (msg [here, ''.workload.name must match scenario workload class''])) (
          bindE (require_safe_path_mr (jget workload ''spec_path'') (msg [here, ''.workload.spec_path''])) (\<lambda>raw_spec.
          (let spec_path = mk_path raw_spec in
          thenE (require_descendant_mr spec_path fixtures (msg [here, ''.workload.spec_path''])) (
          bindE (text_mr (jget workload ''spec_sha256'') (msg [here, ''.workload.spec_sha256''])) (\<lambda>expected_sha.
          bindE (file_sha256_mr env spec_path) (\<lambda>actual_sha.
          thenE (require_mr (actual_sha = expected_sha) (msg [here, ''.workload.spec_sha256 does not match referenced workload spec''])) (
          bindE (load_json_mr env spec_path) (\<lambda>spec.
          thenE (reject_workload_artifact_private (JObj spec) (msg [here, ''.workload.spec''])) (
          bindE (validate_workload_spec env spec scenario_id workload_class (Some expected) (msg [here, ''.workload.spec'']) None) (\<lambda>capability_path_value.
          require_mr (capability_path_value = None)
          (msg [here, ''.workload.spec.capability_artifact_path must not be committed in fixture specs'']))))))))))))))))))"

text \<open>The body of the loop over the fixtures that must be rejected.\<close>

definition expect_rejected :: "env \<Rightarrow> path \<Rightarrow> check" where
  "expect_rejected env path =
     (case (bindE (load_json_mr env path) (\<lambda>row.
       validate_row row (path_str path))) of
        Inl e \<Rightarrow> if is_MatrixRunContractError e then Inr () else Inl e
      | Inr _ \<Rightarrow> Inl (MatrixRunContractError (msg [''invalid fixture was accepted: '', path_str path])))"

definition validate_fixture_pack :: "env \<Rightarrow> path \<Rightarrow> (nat \<times> nat) result" where
  "validate_fixture_pack env fixtures =
     (let valid_names = fixture_names env fixtures;
          missing = sorted_diff REQUIRED_FIXTURES valid_names;
          extra = sorted_diff valid_names REQUIRED_FIXTURES in
      (thenE (require_mr (missing = []) (msg [''missing matrix-run fixture(s): '', join '', '' missing])) (
      thenE (require_mr (extra = []) (msg [''unlisted matrix-run fixture(s): '', join '', '' extra])) (
      thenE (forE (\<lambda>name.
          (bindE (load_json_mr env (path_join fixtures name)) (\<lambda>row.
          thenE (validate_row row (path_str (path_join fixtures name))) (
          validate_workload_fixture_artifacts env row fixtures name)))) (sorted_set REQUIRED_FIXTURES)) (
      (let invalid_dir = path_join fixtures ''invalid'' in
      (let invalid_names = fixture_names env invalid_dir in
      (let missing_invalid = sorted_diff REQUIRED_INVALID_FIXTURES invalid_names in
      (let extra_invalid = sorted_diff invalid_names REQUIRED_INVALID_FIXTURES in
      thenE (require_mr (missing_invalid = []) (msg [''missing invalid fixture(s): '', join '', '' missing_invalid])) (
      thenE (require_mr (extra_invalid = []) (msg [''unlisted invalid fixture(s): '', join '', '' extra_invalid])) (
      thenE (forE (\<lambda>name. expect_rejected env (path_join invalid_dir name)) (sorted_set REQUIRED_INVALID_FIXTURES)) (
      Inr (length valid_names, length invalid_names)))))))))))))"

section \<open>The contract of a row\<close>

text \<open>The contract, stated part by part, without the order of the checks and their messages.\<close>

definition stable_id :: "nat \<Rightarrow> json \<Rightarrow> bool" where
  "stable_id n v \<longleftrightarrow> (\<exists>s. v = JStr s \<and> s \<noteq> [] \<and> length s \<le> n \<and> list_all is_run_id_char s)"

definition safe_text :: "json \<Rightarrow> bool" where
  "safe_text v \<longleftrightarrow> (\<exists>s. v = JStr s \<and> s \<noteq> [] \<and> safe_path (mk_path s))"

definition sha_text :: "json \<Rightarrow> bool" where
  "sha_text v \<longleftrightarrow> (\<exists>s. v = JStr s \<and> length s = 64 \<and> list_all is_hex_char s)"

definition member_text :: "string list \<Rightarrow> json \<Rightarrow> bool" where
  "member_text S v \<longleftrightarrow> (\<exists>s. v = JStr s \<and> s \<noteq> [] \<and> s \<in> set S)"

definition private_free :: "json \<Rightarrow> bool" where
  "private_free v \<longleftrightarrow> (\<forall>(c, w) \<in> set (nodes [] v). node_ok_mr PRIVATE_NEEDLES_mr c w)"

definition sched_state_ok :: "json_object \<Rightarrow> bool" where
  "sched_state_ok state \<longleftrightarrow>
     set (keys state) \<subseteq> set SCHED_STATE_FIELDS \<and> member_text SCHED_STATES_mr (jget state ''sched_ext'') \<and>
     text_of (jget state ''ops'') \<noteq> None \<and>
     (\<exists>s. jget_default state ''enable_seq'' (JStr ''unavailable'') = JStr s \<and> (s = ''unavailable'' \<or> isdecimal s \<and> length s \<le> 4300)) \<and>
     (has_key state ''task_ext_enabled'' \<longrightarrow> member_text [''true'', ''false'', ''unknown'', ''unavailable''] (jget state ''task_ext_enabled'')) \<and>
     (has_key state ''disable_reason'' \<longrightarrow> member_text SCHED_DISABLE_REASONS (jget state ''disable_reason'')) \<and>
     private_free (JObj state)"

definition states_in_order :: "json_object \<Rightarrow> bool" where
  "states_in_order row \<longleftrightarrow>
     (\<exists>pre post. jget row ''pre_scheduler_state'' = JObj pre \<and> jget row ''post_scheduler_state'' = JObj post \<and>
        sched_state_ok pre \<and> sched_state_ok post \<and>
        (\<forall>a b. enable_seq_of pre = Some a \<and> enable_seq_of post = Some b \<longrightarrow> a \<le> b)) \<and>
     is_obj (jget row ''pre_cgroup_state'') \<and> is_obj (jget row ''post_cgroup_state'')"

definition marker_matches :: "string \<Rightarrow> json \<Rightarrow> bool" where
  "marker_matches mode v \<longleftrightarrow>
     (\<exists>m. v = JObj m \<and> set (keys m) \<subseteq> set VM_MARKER_FIELDS \<and> jget m ''required'' = JBool (mode = ''vm-live'') \<and>
        jget m ''present'' = JBool (mode = ''vm-live'') \<and> jget m ''path'' = JStr VM_MARKER_mr \<and> text_of (jget m ''checked_by'') \<noteq> None)"

definition evidence_matches :: "json_object \<Rightarrow> bool" where
  "evidence_matches row \<longleftrightarrow>
     (\<exists>outcome mode. jget row ''outcome'' = JStr outcome \<and> outcome \<in> set OUTCOMES \<and>
        jget row ''evidence_mode'' = JStr mode \<and> mode \<in> set EVIDENCE_MODES \<and> marker_matches mode (jget row ''vm_marker'') \<and>
        (outcome = ''PASS'' \<longrightarrow> mode \<noteq> ''host-refusal-only''))"

definition policy_ok :: "json \<Rightarrow> bool" where
  "policy_ok v \<longleftrightarrow>
     (\<exists>p. v = JObj p \<and> set (keys p) \<subseteq> set POLICY_FIELDS \<and> text_of (jget p ''name'') \<noteq> None \<and>
        safe_text (jget p ''object_path'') \<and> safe_text (jget p ''source_path'') \<and>
        sha_text (jget p ''object_sha256'') \<and> sha_text (jget p ''source_sha256''))"

definition canonical_class :: "string \<Rightarrow> string \<Rightarrow> bool" where
  "canonical_class scenario_id name \<longleftrightarrow>
     (case expected_workload_metadata scenario_id of
        None \<Rightarrow> \<not> prefix ''workload-'' scenario_id
      | Some md \<Rightarrow> name = md_workload_class md)"

definition workload_ok :: "string \<Rightarrow> json \<Rightarrow> bool" where
  "workload_ok scenario_id v \<longleftrightarrow>
     (\<exists>w name. v = JObj w \<and> set (keys w) \<subseteq> set WORKLOAD_FIELDS \<and> jget w ''name'' = JStr name \<and> name \<noteq> [] \<and>
        safe_text (jget w ''spec_path'') \<and> sha_text (jget w ''spec_sha256'') \<and> canonical_class scenario_id name)"

definition privacy_scan_ok :: "json \<Rightarrow> bool" where
  "privacy_scan_ok v \<longleftrightarrow>
     (\<exists>s. v = JObj s \<and> set (keys s) \<subseteq> set PRIVACY_SCAN_FIELDS \<and> jget s ''status'' = JStr ''PASS'' \<and>
        jget s ''private_fields_found'' = JBool False \<and> safe_text (jget s ''report_path''))"

definition git_ok :: "json \<Rightarrow> bool" where
  "git_ok v \<longleftrightarrow>
     (\<exists>g sha. v = JObj g \<and> set (keys g) \<subseteq> set GIT_FIELDS \<and> jget g ''expected_sha'' = JStr sha \<and> jget g ''actual_sha'' = JStr sha \<and>
        sha \<noteq> [] \<and> jget g ''status'' = JStr ''current'' \<and> jget g ''dirty'' = JBool False)"

definition row_contract :: "json_object \<Rightarrow> bool" where
  "row_contract row \<longleftrightarrow>
     set (keys row) = set ROW_FIELDS \<and> jget row ''schema'' = JStr SCHEMA_mr \<and>
     jget row ''host_mutation'' = JBool False \<and> jget row ''release_eligible'' = JBool False \<and>
     jget row ''bpf_abi_version'' = JStr MATRIX_BPF_ABI_VERSION \<and> member_text TUPLE_STATUS (jget row ''supported_tuple_status'') \<and>
     stable_id 64 (jget row ''matrix_run_id'') \<and> stable_id 96 (jget row ''action_id'') \<and> stable_id 96 (jget row ''rollback_id'') \<and>
     (\<exists>s. jget row ''audit_id'' = JStr s \<and> re_fullmatch AUDIT_RE_mr s) \<and>
     (\<forall>f \<in> set PATH_FIELDS. safe_text (jget row f)) \<and>
     evidence_matches row \<and> states_in_order row \<and>
     (\<exists>k. jget row ''kernel_tuple'' = JObj k \<and> set (keys k) \<subseteq> set KERNEL_TUPLE_FIELDS) \<and>
     policy_ok (jget row ''policy'') \<and> privacy_scan_ok (jget row ''privacy_scan'') \<and> git_ok (jget row ''git'') \<and>
     (\<exists>s. jget row ''scenario_id'' = JStr s \<and> stable_id 96 (JStr s) \<and> workload_ok s (jget row ''workload'')) \<and>
     private_free (JObj row)"

text \<open>Each part of the code implements its part of the contract.\<close>

lemma private_free_iff: "reject_private_mr v c = Inr u \<longleftrightarrow> private_free v"
proof -
  have "reject_private_mr v c = Inr () \<longleftrightarrow> reject_private_mr v [] = Inr ()" by (rule mr_scan.scan_context)
  then show ?thesis by (simp add: private_free_def mr_scan.scan_ok_iff)
qed

lemma private_free_field:
  assumes "private_free (JObj d)" and "(k, v) \<in> set d"
  shows "private_free v"
proof -
  from assms(1) have "reject_private_mr (JObj d) [] = Inr ()" by (simp only: private_free_iff)
  moreover from assms(2) have "(msg [[], ''.'', k], v) \<in> set (children [] (JObj d))"
    by (force simp: obj_children_def)
  ultimately show ?thesis
    unfolding private_free_iff[of v "msg [[], ''.'', k]" "()", symmetric] by (rule mr_scan.scan_child)
qed

lemma require_safe_path_mr_text: "(\<exists>s. require_safe_path_mr v c = Inr s) \<longleftrightarrow> safe_text v"
  by (auto simp: require_safe_path_mr_ok_iff safe_text_def text_of_iff)

lemma require_sha_text: "require_sha d f c = Inr u \<longleftrightarrow> sha_text (jget d f)"
  by (simp add: require_sha_ok_iff sha_text_def)

lemma require_id_iffs:
  "require_identifier d f RUN_ID_RE c = Inr u \<longleftrightarrow> stable_id 64 (jget d f)"
  "require_identifier d f ID_RE c = Inr u \<longleftrightarrow> stable_id 96 (jget d f)"
  by (auto simp: require_identifier_ok_iff RUN_ID_RE_iff ID_RE_iff stable_id_def)

lemma member_text_iff: "(\<exists>s. text_mr v c = Inr s \<and> require_mr (s \<in> set S) m = Inr ()) \<longleftrightarrow> member_text S v"
  by (auto simp: mr_text.read_ok text_of_iff member_text_def require_mr_ok_iff)

lemma require_sched_enable_seq_ok_iff:
  "require_sched_enable_seq v c = Inr n \<longleftrightarrow>
     (\<exists>s. v = JStr s \<and> (s = ''unavailable'' \<and> n = None \<or> isdecimal s \<and> length s \<le> 4300 \<and> n = Some (digits_value s)))"
proof -
  have "\<not> isdecimal ''unavailable''" and "\<not> isdecimal []" by code_simp+
  then show ?thesis
    unfolding require_sched_enable_seq_def ok_iff text_of_iff by (auto simp: ok_iff split: if_splits)
qed

lemma validate_scheduler_state_ok_iff:
  "validate_scheduler_state state c = Inr n \<longleftrightarrow> sched_state_ok state \<and> n = enable_seq_of state"
proof -
  have unavailable: "\<not> isdecimal ''unavailable''" by code_simp
  have seq: "require_sched_enable_seq v c' = Inr m \<longleftrightarrow>
      (\<exists>s. v = JStr s \<and> (s = ''unavailable'' \<or> isdecimal s \<and> length s \<le> 4300)) \<and>
      m = (case v of JStr s \<Rightarrow> if isdecimal s then Some (digits_value s) else None | _ \<Rightarrow> None)" for v c' m
    using unavailable by (auto simp: require_sched_enable_seq_ok_iff split: json.splits)
  have ops: "private_free (JObj state) \<Longrightarrow> jget state ''ops'' = JStr s \<Longrightarrow> private_free (JStr s)" for s
    by (rule private_free_field[OF _ jget_in_set]) simp_all
  have present: "text_of (jget state k) \<noteq> None \<Longrightarrow> has_key state k" for k
    by (rule jget_has_key) auto
  show ?thesis
    unfolding validate_scheduler_state_def thenE_ok_iff bindE_ok_iff guarded_ok_iff private_free_iff seq sum.inject
      require_only_fields_mr_ok_iff sched_state_ok_def enable_seq_of_def has_keys_def list.pred_inject
      require_mr_ok_iff mr_text.read_ok text_of_iff member_text_def conj_assoc
  proof (intro iffI, goal_cases)
    case 1
    then show ?case
    proof (elim exE conjE, hypsubst, goal_cases)
      case (1 s ops s')
      then have ops_text: "text_of (jget state ''ops'') \<noteq> None" by simp
      show ?case by (intro conjI exI ops_text) (fact 1 | rule refl)+
    qed
  next
    case 2
    then obtain ops where o: "jget state ''ops'' = JStr ops" "ops \<noteq> []"
      by (auto simp: text_of_iff)
    from 2 show ?case
    proof (elim exE conjE, goal_cases)
      case (1 s s')
      have keys: "has_key state ''sched_ext''" "has_key state ''ops''"
        by (rule present, use 1 o in simp)+
      have free: "private_free (JStr ops)" by (rule ops) (fact 1 o)+
      show ?case by (intro conjI exI keys) (rule list.pred_inject(1) | fact 1 | fact o | fact free | rule refl)+
    qed
  qed
qed

lemma validate_vm_marker_ok_iff:
  assumes "mode \<in> set EVIDENCE_MODES"
  shows "validate_vm_marker m mode c = Inr u \<longleftrightarrow> marker_matches mode (JObj m)"
proof -
  from assms have "mode = ''vm-live'' \<or> mode = ''host-refusal-only'' \<or> mode = ''fixture''"
    by (auto simp: EVIDENCE_MODES_def)
  then have flags: "(if mode = ''vm-live'' then require_mr (r \<and> p) m1
      else if mode \<in> set [''host-refusal-only'', ''fixture''] then require_mr (\<not> r \<and> \<not> p) m2 else Inl e) = Inr u \<longleftrightarrow>
      r = (mode = ''vm-live'') \<and> p = (mode = ''vm-live'')" for r p m1 m2 e
    by (elim disjE) (simp_all add: require_mr_ok_iff)
  have "VM_MARKER_mr \<noteq> []" by (simp add: VM_MARKER_mr_def)
  then show ?thesis
    unfolding validate_vm_marker_def marker_matches_def bindE_ok_iff thenE_ok_iff mr_text.read_ok mr_bool.read_ok bool_of_iff
      require_mr_ok_iff require_only_fields_mr_ok_iff flags text_of_iff
    by (auto simp: text_of_iff)
qed

lemma validate_policy_ok_iff: "validate_policy p c = Inr u \<longleftrightarrow> policy_ok (JObj p)"
  by (auto simp: validate_policy_def policy_ok_def ok_iff text_of_iff safe_text_def sha_text_def)

lemma scenario_metadata_ok_iff:
  "scenario_metadata sid c = Inr e \<longleftrightarrow> e = expected_workload_metadata sid \<and> (prefix ''workload-'' sid \<longrightarrow> e \<noteq> None)"
  by (auto simp: scenario_metadata_def require_expected_workload_metadata_def split: option.splits)

lemma validate_workload_ok_iff: "validate_workload w sid c = Inr u \<longleftrightarrow> workload_ok sid (JObj w)"
  unfolding validate_workload_def workload_ok_def canonical_class_def
  by (cases "expected_workload_metadata sid")
    (auto simp: ok_iff text_of_iff safe_text_def sha_text_def scenario_metadata_ok_iff)

lemma validate_privacy_ok_iff: "validate_privacy s c = Inr u \<longleftrightarrow> privacy_scan_ok (JObj s)"
  by (auto simp: validate_privacy_def privacy_scan_ok_def ok_iff text_of_iff safe_text_def)

lemma validate_git_ok_iff: "validate_git g c = Inr u \<longleftrightarrow> git_ok (JObj g)"
  by (auto simp: validate_git_def git_ok_def ok_iff text_of_iff)

lemma validate_pass_evidence_mode_ok_iff:
  assumes "mode \<in> set EVIDENCE_MODES"
  shows "validate_pass_evidence_mode outcome mode c = Inr u \<longleftrightarrow> (outcome = ''PASS'' \<longrightarrow> mode \<noteq> ''host-refusal-only'')"
proof -
  from assms have "mode = ''vm-live'' \<or> mode = ''host-refusal-only'' \<or> mode = ''fixture''"
    by (auto simp: EVIDENCE_MODES_def)
  then show ?thesis by (auto simp: validate_pass_evidence_mode_def ok_iff)
qed

lemma enable_seq_order_ok_iff:
  "(case (pre, post) of (Some a, Some b) \<Rightarrow> require_mr (b \<ge> a) m | _ \<Rightarrow> Inr ()) = Inr u \<longleftrightarrow>
     (\<forall>a b. pre = Some a \<and> post = Some b \<longrightarrow> a \<le> b)"
  by (cases pre; cases post) (auto simp: ok_iff)

lemma row_keys_iff:
  "set (keys row) \<subseteq> set ROW_FIELDS \<and> has_keys row required_fields \<longleftrightarrow> set (keys row) = set ROW_FIELDS"
  by (auto simp: has_keys_iff required_fields_def sorted_set_def)

lemma read_obj_iff: "(\<exists>x. obj_mr v c = Inr x \<and> Q x) \<longleftrightarrow> (\<exists>x. v = JObj x \<and> Q x)"
  by (simp add: mr_obj.read_ok obj_of_iff)

lemma is_obj_iff_mr: "is_obj v \<longleftrightarrow> (\<exists>x. v = JObj x)"
  by (cases v) auto

lemma ball_set_list: "(\<forall>x \<in> set []. P x) = True" "(\<forall>x \<in> set (y # ys). P x) \<longleftrightarrow> P y \<and> (\<forall>x \<in> set ys. P x)"
  by auto

lemma audit_id_iff: "require_identifier d f AUDIT_RE_mr c = Inr u \<longleftrightarrow> (\<exists>s. jget d f = JStr s \<and> re_fullmatch AUDIT_RE_mr s)"
proof -
  have "\<not> re_fullmatch AUDIT_RE_mr []" by code_simp
  then show ?thesis by (auto simp: require_identifier_ok_iff)
qed

lemmas row_ok_iffs = ignore_result_ok_iff bindE_ok_iff thenE_ok_iff require_mr_ok_iff mr_text.read_ok text_of_iff mr_obj.read_ok obj_of_iff
  require_only_fields_mr_ok_iff require_id_iffs audit_id_iff validate_scheduler_state_ok_iff enable_seq_order_ok_iff validate_policy_ok_iff
  validate_workload_ok_iff validate_privacy_ok_iff validate_git_ok_iff private_free_iff forE_ok_iff require_safe_path_mr_text
  ball_set_list

lemma validate_row_sound:
  assumes "validate_row row context = Inr ()"
  shows "row_contract row"
  using assms unfolding validate_row_def row_ok_iffs
proof (elim exE conjE, goal_cases)
  case (1 outcome mode tuple sid audit pre pn post qn k pc qc m p w s g)
  have ks: "set (keys row) = set ROW_FIELDS" using 1 row_keys_iff by blast
  have marker: "marker_matches mode (jget row ''vm_marker'')"
    unfolding \<open>jget row ''vm_marker'' = JObj m\<close> using 1 validate_vm_marker_ok_iff by blast
  have pass: "outcome = ''PASS'' \<longrightarrow> mode \<noteq> ''host-refusal-only''"
    using validate_pass_evidence_mode_ok_iff[OF \<open>mode \<in> set EVIDENCE_MODES\<close>] 1 by metis
  have evidence: "evidence_matches row"
    unfolding evidence_matches_def by (intro exI conjI) (fact 1 marker pass)+
  have order: "\<forall>a b. enable_seq_of pre = Some a \<and> enable_seq_of post = Some b \<longrightarrow> a \<le> b"
    unfolding \<open>pn = enable_seq_of pre\<close>[symmetric] \<open>qn = enable_seq_of post\<close>[symmetric] by (fact 1)
  have states: "states_in_order row"
    unfolding states_in_order_def is_obj_iff_mr by (intro conjI exI) (fact 1 order)+
  have tuple: "member_text TUPLE_STATUS (jget row ''supported_tuple_status'')"
    unfolding member_text_def by (intro exI conjI) (fact 1)+
  have sid: "stable_id 96 (JStr sid)"
    using \<open>stable_id 96 (jget row ''scenario_id'')\<close> unfolding \<open>jget row ''scenario_id'' = JStr sid\<close> .
  show ?case
    unfolding row_contract_def \<open>jget row ''policy'' = JObj p\<close> \<open>jget row ''workload'' = JObj w\<close>
      \<open>jget row ''privacy_scan'' = JObj s\<close> \<open>jget row ''git'' = JObj g\<close>
    by (intro conjI exI) (fact 1 ks evidence states tuple sid)+
qed

lemma validate_row_complete:
  assumes "row_contract row"
  shows "validate_row row context = Inr ()"
  using assms
  unfolding row_contract_def evidence_matches_def states_in_order_def is_obj_iff_mr member_text_def
proof (elim exE conjE, goal_cases)
  case (1 tuple audit outcome mode pre post k pc qc sid)
  have row_ks: "set (keys row) \<subseteq> set ROW_FIELDS" "has_keys row required_fields"
    using \<open>set (keys row) = set ROW_FIELDS\<close> row_keys_iff by blast+
  from 1 obtain m where m: "jget row ''vm_marker'' = JObj m" by (auto simp: marker_matches_def)
  then have marker: "validate_vm_marker m mode context = Inr ()"
    using validate_vm_marker_ok_iff[OF \<open>mode \<in> set EVIDENCE_MODES\<close>] \<open>marker_matches mode (jget row ''vm_marker'')\<close> by metis
  have pass: "validate_pass_evidence_mode outcome mode context = Inr ()"
    by (rule iffD2[OF validate_pass_evidence_mode_ok_iff[OF \<open>mode \<in> set EVIDENCE_MODES\<close>]]) (fact 1)
  have ne: "outcome \<noteq> []" "mode \<noteq> []"
    using \<open>outcome \<in> set OUTCOMES\<close> \<open>mode \<in> set EVIDENCE_MODES\<close> by (auto simp: OUTCOMES_def EVIDENCE_MODES_def)
  have sid: "sid \<noteq> []" "stable_id 96 (jget row ''scenario_id'')"
    using \<open>stable_id 96 (JStr sid)\<close> \<open>jget row ''scenario_id'' = JStr sid\<close> by (auto simp: stable_id_def)
  obtain p w s g where parts: "jget row ''policy'' = JObj p" "jget row ''workload'' = JObj w"
      "jget row ''privacy_scan'' = JObj s" "jget row ''git'' = JObj g"
    using \<open>policy_ok _\<close> \<open>workload_ok _ _\<close> \<open>privacy_scan_ok _\<close> \<open>git_ok _\<close>
    unfolding policy_ok_def workload_ok_def privacy_scan_ok_def git_ok_def by blast
  from 1 parts have checked: "policy_ok (JObj p)" "workload_ok sid (JObj w)" "privacy_scan_ok (JObj s)" "git_ok (JObj g)"
    by simp_all
  show ?case
    unfolding validate_row_def row_ok_iffs
    by (intro conjI exI) (fact 1 row_ks m marker pass ne sid parts checked | rule refl TrueI)+
qed

text \<open>
  What the schema file \<^verbatim>\<open>matrix-run.v1.schema.json\<close> demands of a row beyond the contract: the five facts of the kernel
  tuple, revisions of at least seven characters, texts in the optional fields of the scheduler states, and paths of one
  line. The row check does not look at these.
\<close>

definition one_line :: "json \<Rightarrow> bool" where
  "one_line v \<longleftrightarrow> (\<exists>s. v = JStr s \<and> CHR 0x0A \<notin> set s \<and> CHR 0x0D \<notin> set s)"

definition kernel_facts :: "json \<Rightarrow> bool" where
  "kernel_facts v \<longleftrightarrow>
     (\<exists>k. v = JObj k \<and> text_of (jget k ''kernel_release'') \<noteq> None \<and> text_of (jget k ''arch'') \<noteq> None \<and>
        member_text [''present'', ''missing'', ''unknown''] (jget k ''btf'') \<and>
        member_text [''available'', ''unavailable'', ''unknown''] (jget k ''kvm'') \<and>
        member_text [''available'', ''unavailable'', ''unknown''] (jget k ''sched_ext''))"

definition state_texts :: "json \<Rightarrow> bool" where
  "state_texts v \<longleftrightarrow>
     (\<exists>d. v = JObj d \<and> (\<forall>f \<in> set [''root_ops'', ''rollback_state'', ''teardown_state'']. has_key d f \<longrightarrow> text_of (jget d f) \<noteq> None))"

definition schema_demands :: "json_object \<Rightarrow> bool" where
  "schema_demands row \<longleftrightarrow>
     kernel_facts (jget row ''kernel_tuple'') \<and> state_texts (jget row ''pre_scheduler_state'') \<and> state_texts (jget row ''post_scheduler_state'') \<and>
     (\<exists>g sha. jget row ''git'' = JObj g \<and> jget g ''actual_sha'' = JStr sha \<and> 7 \<le> length sha) \<and>
     (\<forall>f \<in> set PATH_FIELDS. one_line (jget row f)) \<and>
     (\<exists>p w s. jget row ''policy'' = JObj p \<and> jget row ''workload'' = JObj w \<and> jget row ''privacy_scan'' = JObj s \<and>
        one_line (jget p ''object_path'') \<and> one_line (jget p ''source_path'') \<and> one_line (jget w ''spec_path'') \<and> one_line (jget s ''report_path''))"

text \<open>C2: what the row check accepts is a row of the contract, and it accepts every row of the
  contract that has the further facts the schema file demands; on rows without these the check is more liberal than the
  schema file, and the property says nothing about their acceptance. The contract has all fields of the schema and no
  other; no host mutation and no release claim; stable identifiers; every path relative and without a step upwards;
  the marker required and present in a live row and in no other; a pass only with live or fixture evidence; scheduler
  states whose enable sequence does not go back; a workload of the scenario's canonical class; a current, clean
  revision; and nothing private and no claim at any depth.\<close>

theorem matrix_row_refines_contract:
  "(validate_row row context = Inr () \<longrightarrow> row_contract row) \<and> (row_contract row \<and> schema_demands row \<longrightarrow> validate_row row context = Inr ())"
  using validate_row_sound validate_row_complete by blast

text \<open>A refusal on the host, with everything that the schema file demands.\<close>

definition refused_row :: json_object where
  "refused_row =
     [(''schema'', JStr SCHEMA_mr), (''matrix_run_id'', JStr ''r''), (''scenario_id'', JStr ''refusal''), (''outcome'', JStr ''REFUSE''),
      (''evidence_mode'', JStr ''host-refusal-only''), (''kernel_tuple'', JObj [(''kernel_release'', JStr ''6.12''), (''arch'', JStr ''x86_64''), (''btf'', JStr ''present''), (''kvm'', JStr ''available''),
         (''sched_ext'', JStr ''available'')]), (''supported_tuple_status'', JStr ''unknown''),
      (''vm_marker'', JObj [(''required'', JBool False), (''present'', JBool False), (''path'', JStr VM_MARKER_mr), (''checked_by'', JStr ''h'')]),
      (''bpf_abi_version'', JStr MATRIX_BPF_ABI_VERSION),
      (''policy'', JObj [(''name'', JStr ''p''), (''object_path'', JStr ''evidence/lab/matrix/r/o''), (''object_sha256'', JStr (replicate 64 CHR ''a'')),
         (''source_path'', JStr ''s''), (''source_sha256'', JStr (replicate 64 CHR ''a''))]),
      (''workload'', JObj [(''name'', JStr ''w''), (''spec_path'', JStr ''evidence/lab/matrix/r/w''), (''spec_sha256'', JStr (replicate 64 CHR ''a''))]),
      (''action_id'', JStr ''a''), (''audit_id'', JStr ''AUD-20240101T000000Z-x''), (''rollback_id'', JStr ''b''),
      (''pre_scheduler_state'', JObj [(''sched_ext'', JStr ''disabled''), (''ops'', JStr ''none''), (''enable_seq'', JStr ''4'')]),
      (''post_scheduler_state'', JObj [(''sched_ext'', JStr ''disabled''), (''ops'', JStr ''none''), (''enable_seq'', JStr ''4'')]),
      (''pre_cgroup_state'', JObj []), (''post_cgroup_state'', JObj []),
      (''runtime_sample_path'', JStr ''evidence/lab/matrix/r/x''), (''daemon_event_path'', JStr ''evidence/lab/matrix/r/d''),
      (''incident_path'', JStr ''evidence/lab/matrix/r/i''), (''rollback_proof_path'', JStr ''evidence/lab/matrix/r/k''),
      (''cleanup_proof_path'', JStr ''evidence/lab/matrix/r/c''), (''host_refusal_proof_path'', JStr ''evidence/lab/matrix/r/h''),
      (''privacy_scan'', JObj [(''status'', JStr ''PASS''), (''private_fields_found'', JBool False), (''report_path'', JStr ''evidence/lab/matrix/r/p'')]),
      (''git'', JObj [(''expected_sha'', JStr ''abcdef0''), (''actual_sha'', JStr ''abcdef0''), (''status'', JStr ''current''), (''dirty'', JBool False)]),
      (''release_eligible'', JBool False), (''host_mutation'', JBool False)]"

lemma refused_row_accepted: "validate_row refused_row c = Inr ()"
proof -
  have "validate_row refused_row ''r'' = Inr ()" by code_simp
  then show ?thesis using validate_row_sound validate_row_complete by blast
qed

lemma refused_row_schema: "schema_demands refused_row"
  unfolding schema_demands_def kernel_facts_def state_texts_def one_line_def PATH_FIELDS_def refused_row_def
  by (simp add: jget_def member_text_def has_key_def)

theorem matrix_row_refines_contract_witness:
  "row_contract refused_row \<and> schema_demands refused_row \<and> validate_row refused_row ''row'' = Inr ()"
proof -
  have "row_contract refused_row" using matrix_row_refines_contract[of refused_row "''r''"] refused_row_accepted by blast
  with matrix_row_refines_contract[of refused_row "''row''"] refused_row_schema show ?thesis by blast
qed

section \<open>Which exceptions escape\<close>

lemma raises_validate_row_parts [raises_intro]:
  assumes P: "\<And>m. P (MatrixRunContractError m)"
  shows "raises P (validate_vm_marker marker mode c)" "raises P (validate_pass_evidence_mode outcome mode c)"
    "raises P (validate_policy policy c)" "raises P (validate_privacy scan c)" "raises P (validate_git git c)"
  unfolding validate_vm_marker_def validate_pass_evidence_mode_def validate_policy_def validate_privacy_def validate_git_def
  by (intro raises_intro P)+

lemma raises_validate_row [raises_intro]:
  assumes P: "\<And>m. P (MatrixRunContractError m)" and V: "\<And>m. P (ValueError m)"
  shows "raises P (validate_row row c)"
proof -
  have order: "raises P (case (pre, post) of (Some a, Some b) \<Rightarrow> require_mr (b \<ge> a) m | _ \<Rightarrow> Inr ())" for pre post :: "int option" and m
    by (cases pre; cases post) (auto intro: raises_intro P)
  show ?thesis unfolding validate_row_def by (intro raises_intro order P V)
qed

text \<open>Checking a row ends in acceptance, in the contract's own exception, or in the \<^verbatim>\<open>ValueError\<close> of
  converting an enable sequence of more than 4300 digits.\<close>

theorem matrix_row_errors:
  assumes "validate_row row context = Inl e"
  shows "is_MatrixRunContractError e \<or> is_ValueError e"
  by (rule raisesD[OF raises_validate_row assms]) simp_all

theorem matrix_row_errors_witness:
  "validate_row [(''x'', JNull)] ''r'' = Inl (MatrixRunContractError (msg [''r'', '' has unexpected field(s): '', ''x''])) \<and>
   (let e = MatrixRunContractError (msg [''r'', '' has unexpected field(s): '', ''x'']) in is_MatrixRunContractError e \<or> is_ValueError e)"
proof -
  have err: "validate_row [(''x'', JNull)] ''r'' = Inl (MatrixRunContractError (msg [''r'', '' has unexpected field(s): '', ''x'']))"
    by code_simp
  from matrix_row_errors[OF this] err show ?thesis by (simp only: Let_def)
qed

end
