(* ===== verification/DaemonEvent.thy ===== *)
theory DaemonEvent
  imports Readers
begin

text \<open>
  \<^verbatim>\<open>qa/daemon_event_contract_check.py\<close> with the JSON entry point of
  \<^verbatim>\<open>qa/frontend_contract_pack_types.py\<close>: the contract of the daemon's event stream. Every stream is
  numbered from one without gaps, never reports a host mutation and leaks no private field; a lifecycle
  stream has every kind of event; a Task 9 stream also ties its rollback and its refusals to one ledger.
\<close>

section \<open>Constants and rows\<close>

definition SCHEMA_de :: string where
  "SCHEMA_de = ''zig-scheduler/daemon-event/v1''"

definition REQUIRED_LIFECYCLE :: "string list" where
  "REQUIRED_LIFECYCLE =
     [''boot'', ''marker'', ''verifier'', ''attach'', ''runtime_sample'', ''rollback'', ''cleanup'', ''validation'', ''incident'']"

definition PRIVATE_NEEDLES_de :: "string list" where
  "PRIVATE_NEEDLES_de =
     [''cmdline'', ''command_line'', ''argv'', ''environment'', [CHR 0x22] @ ''env'' @ [CHR 0x22], ''secret'', ''api_key'',
      ''--token'', ''password='']"

definition is_id_char :: "char \<Rightarrow> bool" where
  "is_id_char c \<longleftrightarrow> is_alnum_ascii c \<or> c = CHR ''_'' \<or> c = CHR ''.'' \<or> c = CHR ''-''"

definition IDENTIFIER :: rx where
  "IDENTIFIER = anchored_class is_id_char 1 96"

definition AUDIT_ID :: rx where
  "AUDIT_ID = seqs [Bos, lit ''AUD-'', Rep 8 8 (Ch is_digit_char), lit ''T'', Rep 6 6 (Ch is_digit_char), lit ''Z-'',
     Rep 7 12 (Ch is_hex_char), lit ''-'', Rep 6 6 (Ch is_hex_char), Eos]"

definition SHA256_RE_de :: rx where
  "SHA256_RE_de = anchored_class is_hex_char 64 64"

definition UNAVAILABLE_DIGESTS :: "string list" where
  "UNAVAILABLE_DIGESTS = ['''', ''missing'', ''none'', ''null'', ''unavailable'', ''unknown'']"

record event_row =
  ev_seq :: int
  ev_event :: string
  ev_host_mutation :: bool
  ev_raw :: json_object

section \<open>Parsing\<close>

text \<open>\<^verbatim>\<open>max(text.find(value), 0)\<close>.\<close>

fun find_sub :: "string \<Rightarrow> string \<Rightarrow> nat option" where
  "find_sub needle [] = (if needle = [] then Some 0 else None)"
| "find_sub needle (c # cs) =
     (if prefix needle (c # cs) then Some 0 else map_option Suc (find_sub needle cs))"

definition parse_json_value :: "env \<Rightarrow> string \<Rightarrow> string \<Rightarrow> json result" where
  "parse_json_value env s context =
     reraise is_JSONDecodeError
       (\<lambda>exc. case exc of JSONDecodeError pos m str \<Rightarrow>
          ContractPackError (msg [''invalid JSON in '', context, '' at byte '', show_nat pos, '': '', m]))
       (json_loads_strict env
          (\<lambda>value. let position = (case find_sub value s of None \<Rightarrow> 0 | Some n \<Rightarrow> n) in
             ContractPackError (msg [''invalid JSON in '', context, '' at byte '', show_nat position, '': invalid constant '', value])) s)"

definition parse_object :: "env \<Rightarrow> string \<Rightarrow> nat \<Rightarrow> json_object result" where
  "parse_object env line line_number =
     (bindE (reraise is_ContractPackError
         (\<lambda>exc. ContractError (msg [''line '', show_nat line_number, '': invalid JSON: '', exn_str exc]))
         (parse_json_value env line (msg [''line '', show_nat line_number]))) (\<lambda>loaded.
     case obj_of loaded of
         None \<Rightarrow> Inl (ContractError (msg [''line '', show_nat line_number, '': JSONL row is not an object'']))
         | Some d \<Rightarrow> Inr d))"

definition require_int_de :: "json_object \<Rightarrow> string \<Rightarrow> string \<Rightarrow> int result" where
  "require_int_de row field context =
     (case int_of (jget row field) of
        Some i \<Rightarrow> Inr i
      | None \<Rightarrow> Inl (ContractError (msg [context, '': missing int field '', field])))"

definition require_string_de :: "json_object \<Rightarrow> string \<Rightarrow> string \<Rightarrow> string result" where
  "require_string_de row field context =
     (case text_of (jget row field) of
        Some s \<Rightarrow> Inr s
      | None \<Rightarrow> Inl (ContractError (msg [context, '': missing string field '', field])))"

definition require_bool_de :: "json_object \<Rightarrow> string \<Rightarrow> string \<Rightarrow> bool result" where
  "require_bool_de row field context =
     (case bool_of (jget row field) of
        Some b \<Rightarrow> Inr b
      | None \<Rightarrow> Inl (ContractError (msg [context, '': missing bool field '', field])))"

definition require_object_de :: "json_object \<Rightarrow> string \<Rightarrow> string \<Rightarrow> json_object result" where
  "require_object_de row field context =
     (case obj_of (jget row field) of
        Some d \<Rightarrow> Inr d
      | None \<Rightarrow> Inl (ContractError (msg [context, '': missing object field '', field])))"

definition require_artifact :: "env \<Rightarrow> event_row \<Rightarrow> string \<Rightarrow> path result" where
  "require_artifact env row label =
     (bindE (require_string_de (ev_raw row) ''artifact'' label) (\<lambda>raw.
     (let artifact = mk_path raw in
     thenE (raise_if (is_absolute artifact \<or> ''..'' \<in> set (path_parts artifact) \<or> \<not> fs_exists env artifact)
         (ContractError (msg [label, '' artifact is unsafe or missing: '', path_str artifact]))) (
     Inr artifact))))"

definition load_event :: "env \<Rightarrow> nat \<Rightarrow> string \<Rightarrow> event_row result" where
  "load_event env line_number line =
     (bindE (parse_object env line line_number) (\<lambda>raw.
     bindE (require_int_de raw ''seq'' (msg [''line '', show_nat line_number])) (\<lambda>seq.
     bindE (require_string_de raw ''event'' (msg [''line '', show_nat line_number])) (\<lambda>event.
     bindE (require_bool_de raw ''host_mutation'' (msg [''line '', show_nat line_number])) (\<lambda>host_mutation.
     Inr \<lparr> ev_seq = seq, ev_event = event, ev_host_mutation = host_mutation, ev_raw = raw \<rparr>)))))"

definition load_rows :: "env \<Rightarrow> path \<Rightarrow> event_row list result" where
  "load_rows env path =
     (bindE (fs_read_text env path) (\<lambda>data.
     bindE (jsonl_rows (load_event env) (splitlines data)) (\<lambda>rows.
     thenE (raise_if (rows = []) (ContractError ''event stream is empty'')) (
     Inr rows))))"

definition load_jsonl_objects :: "env \<Rightarrow> path \<Rightarrow> string \<Rightarrow> json_object list result" where
  "load_jsonl_objects env path context =
     (bindE (reraise is_FileNotFoundError
         (\<lambda>_. ContractError (msg [context, '' artifact missing: '', path_str path])) (fs_read_text env path)) (\<lambda>data.
     bindE (jsonl_rows (\<lambda>line_number line. parse_object env line line_number) (splitlines data)) (\<lambda>rows.
     thenE (raise_if (rows = []) (ContractError (msg [context, '' artifact is empty: '', path_str path]))) (
     Inr rows))))"

section \<open>The stream\<close>

definition validate_identifier :: "event_row \<Rightarrow> string \<Rightarrow> check" where
  "validate_identifier row field =
     (let value = jget (ev_raw row) field in
      if value = JNull \<or> value = JStr [] then Inr ()
      else raise_if (case str_of value of None \<Rightarrow> True | Some s \<Rightarrow> \<not> re_fullmatch IDENTIFIER s)
        (ContractError (msg [''event '', show_int (ev_seq row), '': invalid '', field])))"

fun contains_private_field :: "json \<Rightarrow> bool" where
  "contains_private_field (JStr s) = list_ex (\<lambda>needle. contains needle s) PRIVATE_NEEDLES_de"
| "contains_private_field (JList xs) = list_ex contains_private_field xs"
| "contains_private_field (JObj d) =
     list_ex (\<lambda>(key, item).
       key \<noteq> ''command_argv_hash'' \<and>
       (list_ex (\<lambda>needle. contains needle key) PRIVATE_NEEDLES_de \<or> contains_private_field item)) d"
| "contains_private_field _ = False"

definition validate_row_de :: "event_row \<Rightarrow> nat \<Rightarrow> check" where
  "validate_row_de row expected_seq =
     (thenE (raise_if (jget (ev_raw row) ''schema'' \<noteq> JStr SCHEMA_de)
         (ContractError (msg [''event '', show_nat expected_seq, '': unsupported schema'']))) (
     thenE (raise_if (ev_seq row \<noteq> int expected_seq)
         (ContractError (msg [''event sequence is not incremental: expected '', show_nat expected_seq, '', got '', show_int (ev_seq row)]))) (
     thenE (raise_if (ev_host_mutation row \<noteq> False)
         (ContractError (msg [''event '', show_nat expected_seq, '': host_mutation must be false'']))) (
     thenE (forE (validate_identifier row) [''action_id'', ''run_id'', ''target_id'', ''rollback_id'', ''target_action_id'']) (
     (let audit_id = jget (ev_raw row) ''audit_id'' in
     thenE (raise_if (audit_id \<noteq> JNull \<and> audit_id \<noteq> JStr [] \<and>
         (case str_of audit_id of None \<Rightarrow> True | Some s \<Rightarrow> \<not> re_fullmatch AUDIT_ID s))
         (ContractError (msg [''event '', show_nat expected_seq, '': invalid audit_id'']))) (
     raise_if (contains_private_field (JObj (ev_raw row)))
         (ContractError (msg [''event '', show_nat expected_seq, '': private field leaked''])))))))))"

definition require_events :: "event_row list \<Rightarrow> check" where
  "require_events rows =
     (let events = map ev_event rows;
          missing = sorted_diff REQUIRED_LIFECYCLE events in
      raise_if (missing \<noteq> []) (ContractError (msg [''missing lifecycle events: '', join '', '' missing])))"

definition validate_de :: "env \<Rightarrow> path \<Rightarrow> bool \<Rightarrow> check" where
  "validate_de env path require_lifecycle =
     (bindE (load_rows env path) (\<lambda>rows.
     thenE (forE (\<lambda>(expected_seq, row). validate_row_de row expected_seq) (enumerate_from 1 rows)) (
     if require_lifecycle then require_events rows else Inr ())))"

section \<open>The Task 9 lifecycle\<close>

fun find_event :: "event_row list \<Rightarrow> string \<Rightarrow> event_row result" where
  "find_event [] event = Inl (ContractError (msg [''missing event: '', event]))"
| "find_event (row # rows) event = (if ev_event row = event then Inr row else find_event rows event)"

definition task9_sample_step :: "bool \<Rightarrow> nat \<times> json_object \<Rightarrow> bool result" where
  "task9_sample_step saw_live_ops = (\<lambda>(index, row).
     let here = (msg [''runtime sample '', show_nat index]) in
     (thenE (raise_if (jget row ''observation_source'' \<noteq> JStr ''vm_serial_sched_ext'')
         (ContractError (msg [here, '': missing VM observation source'']))) (
     bindE (in_str_set (jget row ''sample_source_event'') [''before'', ''register'', ''unregister'']) (\<lambda>known.
     thenE (raise_if (\<not> known) (ContractError (msg [here, '': unsupported sample source event'']))) (
     bindE (require_object_de row ''ops'' here) (\<lambda>ops.
     (let saw = (saw_live_ops \<or> jget ops ''value'' = JStr ''zigsched_minimal'') in
     thenE (raise_if (case str_of (jget row ''cgroup_membership_digest'') of
         None \<Rightarrow> True
         | Some digest \<Rightarrow>
         \<not> re_match SHA256_RE_de digest \<or> digest = replicate 64 CHR ''0'' \<or> lower digest \<in> set UNAVAILABLE_DIGESTS)
         (ContractError (msg [here, '': missing observed sha256 cgroup digest'']))) (
     bindE (require_object_de row ''cgroup_membership_status'' here) (\<lambda>cgroup_status.
     thenE (raise_if (jget cgroup_status ''status'' \<noteq> JStr ''present'' \<or> jget cgroup_status ''value'' \<noteq> JStr ''present'')
         (ContractError (msg [here, '': cgroup membership was not observed present'']))) (
     thenE (raise_if (\<not> is_bool (jget row ''workload_alive''))
         (ContractError (msg [here, '': missing observed workload state'']))) (
     Inr saw)))))))))))"

definition validate_task9_runtime_samples :: "env \<Rightarrow> path \<Rightarrow> check" where
  "validate_task9_runtime_samples env path =
     (bindE (load_jsonl_objects env path ''runtime_sample'') (\<lambda>rows.
     bindE (foldE task9_sample_step False (enumerate_from 0 rows)) (\<lambda>saw_live_ops.
     raise_if (\<not> saw_live_ops) (ContractError ''runtime samples never observed zigsched_minimal''))))"

definition validate_task9_rollback_link :: "env \<Rightarrow> event_row \<Rightarrow> path \<Rightarrow> (string \<times> string) result" where
  "validate_task9_rollback_link env rollback ledger_path =
     (bindE (load_jsonl_objects env ledger_path ''rollback'') (\<lambda>rows.
     (let ledger = hd rows in
     bindE (require_string_de ledger ''rollback_id'' ''rollback ledger'') (\<lambda>ledger_rollback_id.
     bindE (require_string_de ledger ''audit_id'' ''rollback ledger'') (\<lambda>ledger_audit_id.
     bindE (require_string_de (ev_raw rollback) ''rollback_id'' (msg [''event '', show_int (ev_seq rollback)])) (\<lambda>daemon_rollback_id.
     bindE (require_string_de (ev_raw rollback) ''audit_id'' (msg [''event '', show_int (ev_seq rollback)])) (\<lambda>daemon_audit_id.
     thenE (raise_if (daemon_rollback_id \<noteq> ledger_rollback_id \<or> daemon_audit_id \<noteq> ledger_audit_id)
         (ContractError ''daemon rollback event IDs do not match audit ledger'')) (
     Inr (ledger_rollback_id, ledger_audit_id)))))))))"

definition validate_task9_refusal_link :: "env \<Rightarrow> event_row \<Rightarrow> string \<times> string \<Rightarrow> check" where
  "validate_task9_refusal_link env row = (\<lambda>(rollback_id, audit_id).
     let here = (msg [''event '', show_int (ev_seq row)]); state = jget (ev_raw row) ''state'' in
     (bindE (require_string_de (ev_raw row) ''rollback_id'' here) (\<lambda>row_rollback.
     thenE (raise_if (row_rollback \<noteq> rollback_id) (ContractError (msg [here, '': refusal rollback_id does not match ledger'']))) (
     bindE (require_string_de (ev_raw row) ''audit_id'' here) (\<lambda>row_audit.
     thenE (raise_if (row_audit \<noteq> audit_id) (ContractError (msg [here, '': refusal audit_id does not match ledger'']))) (
     bindE (require_artifact env row here) (\<lambda>artifact.
     bindE (load_jsonl_objects env artifact (msg [here, '' refusal''])) (\<lambda>refusals.
     (let matching = filter (\<lambda>item. py_eq (jget item ''state'') state) refusals in
     thenE (raise_if (matching = []) (ContractError (msg [here, '': refusal artifact missing state'']))) (
     (let refusal = hd matching in
     thenE (raise_if (jget refusal ''rollback_id'' \<noteq> JStr rollback_id \<or> jget refusal ''audit_id'' \<noteq> JStr audit_id)
         (ContractError (msg [here, '': refusal artifact IDs do not match ledger'']))) (
     thenE (raise_if (state = JStr ''stale_target_refused'' \<and> jget refusal ''refusal_path'' \<noteq> JStr ''refuse_stale_rollback_target'')
         (ContractError (msg [here, '': stale refusal was not produced by VM refusal path'']))) (
     if state = JStr ''duplicate_rollback_refused'' then
         raise_if (case int_of (jget refusal ''bpftool_rc'') of None \<Rightarrow> True | Some rc \<Rightarrow> rc = 0)
         (ContractError (msg [here, '': duplicate refusal lacks failing bpftool rc'']))
         else Inr ())))))))))))))"

definition require_task9_lifecycle :: "env \<Rightarrow> path \<Rightarrow> check" where
  "require_task9_lifecycle env path =
     (bindE (load_rows env path) (\<lambda>rows.
     thenE (require_events rows) (
     bindE (mapE (\<lambda>row. require_string_de (ev_raw row) ''state'' (msg [''event '', show_int (ev_seq row)])) rows) (\<lambda>states.
     thenE (forE (\<lambda>state. raise_if (state \<notin> set states) (ContractError (msg [''missing Task 9 state: '', state])))
         [''vm_live_validated'', ''stale_target_refused'', ''duplicate_rollback_refused'']) (
     bindE (find_event rows ''verifier'') (\<lambda>verifier.
     bindE (find_event rows ''attach'') (\<lambda>attach.
     bindE (find_event rows ''runtime_sample'') (\<lambda>runtime.
     bindE (find_event rows ''rollback'') (\<lambda>rollback.
     bindE (require_artifact env runtime ''runtime_sample'') (\<lambda>runtime_artifact.
     bindE (require_artifact env rollback ''rollback'') (\<lambda>rollback_artifact.
     thenE (forE (\<lambda>(row, label). bindE (require_artifact env row label) (\<lambda>_. Inr ()))
         [(verifier, ''verifier''), (attach, ''attach'')]) (
     thenE (raise_if (jget (ev_raw runtime) ''ops'' \<noteq> JStr ''zigsched_minimal'')
         (ContractError ''runtime_sample does not show zigsched_minimal'')) (
     thenE (validate_task9_runtime_samples env runtime_artifact) (
     bindE (validate_task9_rollback_link env rollback rollback_artifact) (\<lambda>rollback_ids.
     forE (\<lambda>row.
         bindE (in_str_set (jget (ev_raw row) ''state'') [''stale_target_refused'', ''duplicate_rollback_refused'']) (\<lambda>refusal.
         if refusal then
         (bindE (in_str_set (jget (ev_raw row) ''status'') [''REFUSE'', ''refused'']) (\<lambda>refused.
         thenE (raise_if (\<not> refused) (ContractError (msg [''event '', show_int (ev_seq row), '': refusal state must use refused status'']))) (
         thenE (raise_if (ev_host_mutation row \<noteq> False)
         (ContractError (msg [''event '', show_int (ev_seq row), '': refusal must be host_mutation=false'']))) (
         validate_task9_refusal_link env row rollback_ids))))
         else Inr ())) rows)))))))))))))))"

section \<open>What the readers and loaders return\<close>

interpretation de_int: field_reader require_int_de int_of ContractError
  by unfold_locales (auto simp: require_int_de_def split: option.splits)

interpretation de_string: field_reader require_string_de text_of ContractError
  by unfold_locales (auto simp: require_string_de_def split: option.splits)

interpretation de_bool: field_reader require_bool_de bool_of ContractError
  by unfold_locales (auto simp: require_bool_de_def split: option.splits)

interpretation de_object: field_reader require_object_de obj_of ContractError
  by unfold_locales (auto simp: require_object_de_def split: option.splits)

text \<open>The value of a line under the decoder that refuses the non-finite constants.\<close>

definition strict_value :: "env \<Rightarrow> string \<Rightarrow> json option" where
  "strict_value env line =
     (case (json_constant env line, json_decode env line) of (None, Decoded v) \<Rightarrow> Some v | _ \<Rightarrow> None)"

lemma parse_object_ok_iff [ok_iff]: "parse_object env line n = Inr d \<longleftrightarrow> strict_value env line = Some (JObj d)"
  by (auto simp: parse_object_def parse_json_value_def ok_iff obj_of_iff strict_value_def split: option.splits decoded.splits)

interpretation de_objects: jsonl_reader "\<lambda>env p. load_jsonl_objects env p c" strict_value for c
proof
  fix env p rows
  assume "load_jsonl_objects env p c = Inr rows"
  then obtain s where "fs_read_text env p = Inr s" "rows \<noteq> []"
    and "jsonl_rows (\<lambda>n line. parse_object env line n) (splitlines s) = Inr rows"
    by (auto simp: load_jsonl_objects_def ok_iff)
  then show "\<exists>s. fs_read_text env p = Inr s \<and> rows \<noteq> [] \<and>
      list_all2 (\<lambda>(i, line) r. strict_value env line = Some (JObj r)) (content_lines (splitlines s)) rows"
    by (auto simp: jsonl_rows_ok_iff parse_object_ok_iff)
qed

lemma load_event_ok:
  "load_event env n line = Inr row \<Longrightarrow>
     strict_value env line = Some (JObj (ev_raw row)) \<and> int_of (jget (ev_raw row) ''seq'') = Some (ev_seq row) \<and>
     jget (ev_raw row) ''event'' = JStr (ev_event row) \<and> jget (ev_raw row) ''host_mutation'' = JBool (ev_host_mutation row)"
  by (auto simp: load_event_def ok_iff text_of_iff bool_of_iff)

lemma load_rows_ok:
  assumes "load_rows env p = Inr rows"
  shows "rows \<noteq> []" and "\<exists>s. fs_read_text env p = Inr s \<and> length rows = length (content_lines (splitlines s))"
    and "row \<in> set rows \<Longrightarrow> \<exists>n line. load_event env n line = Inr row"
proof -
  from assms obtain s where s: "fs_read_text env p = Inr s" and ne: "rows \<noteq> []"
    and rows: "jsonl_rows (load_event env) (splitlines s) = Inr rows"
    by (auto simp: load_rows_def ok_iff)
  show "rows \<noteq> []" by (rule ne)
  show "\<exists>s. fs_read_text env p = Inr s \<and> length rows = length (content_lines (splitlines s))"
    using s jsonl_rows_length[OF rows] by blast
  show "row \<in> set rows \<Longrightarrow> \<exists>n line. load_event env n line = Inr row"
    using rows unfolding jsonl_rows_ok_iff by (fastforce dest: list_all2_right)
qed

section \<open>Privacy\<close>

text \<open>The texts of a document that the check looks at: every string and every key, except what stands under the
  key \<^verbatim>\<open>command_argv_hash\<close>.\<close>

fun visible_texts :: "json \<Rightarrow> string list" where
  "visible_texts (JStr s) = [s]"
| "visible_texts (JList xs) = concat (map visible_texts xs)"
| "visible_texts (JObj d) =
     concat (map (\<lambda>(k, v). if k = ''command_argv_hash'' then [] else k # visible_texts v) d)"
| "visible_texts _ = []"

lemma contains_private_field_iff:
  "contains_private_field v \<longleftrightarrow> (\<exists>t \<in> set (visible_texts v). \<exists>needle \<in> set PRIVATE_NEEDLES_de. contains needle t)"
proof (induction v rule: contains_private_field.induct)
  case (3 d)
  then show ?case by (fastforce simp: list_ex_iff split: if_splits)
qed (auto simp: list_ex_iff)

section \<open>The numbered stream\<close>

lemma validate_row_de_ok:
  "validate_row_de row n = Inr () \<Longrightarrow>
     jget (ev_raw row) ''schema'' = JStr SCHEMA_de \<and> ev_seq row = int n \<and> \<not> ev_host_mutation row \<and>
     \<not> contains_private_field (JObj (ev_raw row))"
  by (simp add: validate_row_de_def ok_iff Let_def)

text \<open>C28: an accepted event stream is not empty and its events are numbered 1, 2, 3, ... in the
  order of the lines of the file; every event has the schema, states that nothing on the host was
  changed, and shows no private needle in any visible text; and a stream that must be a lifecycle has
  all nine kinds of event.\<close>

theorem daemon_stream_numbered:
  assumes "validate_de env path lifecycle = Inr ()"
  shows "\<exists>rows. load_rows env path = Inr rows \<and> rows \<noteq> [] \<and> map ev_seq rows = map int [1..<Suc (length rows)] \<and>
    (\<forall>row \<in> set rows.
       jget (ev_raw row) ''schema'' = JStr SCHEMA_de \<and> jget (ev_raw row) ''host_mutation'' = JBool False \<and>
       (\<forall>t \<in> set (visible_texts (JObj (ev_raw row))). \<forall>needle \<in> set PRIVATE_NEEDLES_de. \<not> contains needle t)) \<and>
    (lifecycle \<longrightarrow> set REQUIRED_LIFECYCLE \<subseteq> set (map ev_event rows))"
proof -
  from assms obtain rows where rows: "load_rows env path = Inr rows"
    and each: "\<forall>(n, row) \<in> set (enumerate_from 1 rows). validate_row_de row n = Inr ()"
    and life: "lifecycle \<Longrightarrow> require_events rows = Inr ()"
    by (auto simp: validate_de_def ok_iff case_prod_beta split: if_splits)
  have seqs: "map ev_seq rows = map int [1..<Suc (length rows)]"
  proof (rule nth_equalityI)
    fix i
    assume i: "i < length (map ev_seq rows)"
    then have "(1 + i, rows ! i) \<in> set (enumerate_from 1 rows)" by (auto simp: set_enumerate_from)
    then have "validate_row_de (rows ! i) (1 + i) = Inr ()" using each by blast
    then have "ev_seq (rows ! i) = int (1 + i)" using validate_row_de_ok by blast
    with i show "map ev_seq rows ! i = map int [1..<Suc (length rows)] ! i"
      by (simp del: upt_Suc)
  qed (simp del: upt_Suc)
  have row: "jget (ev_raw row) ''schema'' = JStr SCHEMA_de \<and> jget (ev_raw row) ''host_mutation'' = JBool False \<and>
      \<not> contains_private_field (JObj (ev_raw row))" if r: "row \<in> set rows" for row
  proof -
    obtain n where "(n, row) \<in> set (enumerate_from 1 rows)" using enumerate_from_index[OF r] by blast
    then have "validate_row_de row n = Inr ()" using each by blast
    note ok = validate_row_de_ok[OF this]
    obtain k line where "load_event env k line = Inr row" using load_rows_ok(3)[OF rows r] by blast
    with ok show ?thesis using load_event_ok by force
  qed
  have "lifecycle \<longrightarrow> set REQUIRED_LIFECYCLE \<subseteq> set (map ev_event rows)"
    using life by (auto simp: require_events_def ok_iff Let_def)
  then show ?thesis
    using rows load_rows_ok(1)[OF rows] seqs row unfolding contains_private_field_iff by blast
qed

section \<open>The Task 9 links\<close>

lemma require_artifact_ok:
  "require_artifact env row label = Inr p \<Longrightarrow> \<exists>s. jget (ev_raw row) ''artifact'' = JStr s \<and> p = mk_path s \<and> safe_path p \<and> fs_exists env p"
  by (auto simp: require_artifact_def ok_iff text_of_iff Let_def safe_path_def)

lemma find_event_ok: "find_event rows e = Inr row \<Longrightarrow> row \<in> set rows \<and> ev_event row = e"
  by (induction rows) (auto split: if_splits)

text \<open>The ledger row that the rollback event of the stream refers to.\<close>

definition ledger_of :: "env \<Rightarrow> event_row \<Rightarrow> json_object \<Rightarrow> bool" where
  "ledger_of env rollback ledger \<longleftrightarrow>
     (\<exists>s rows. jget (ev_raw rollback) ''artifact'' = JStr s \<and> safe_path (mk_path s) \<and>
        load_jsonl_objects env (mk_path s) ''rollback'' = Inr rows \<and> ledger = hd rows)"

text \<open>A refusal of the stream: it carries the ledger's identifiers, a refusing status, and an artifact in which
  the VM recorded the same refusal with the same identifiers.\<close>

definition refusal_linked :: "env \<Rightarrow> string \<Rightarrow> string \<Rightarrow> event_row \<Rightarrow> bool" where
  "refusal_linked env rollback_id audit_id row \<longleftrightarrow>
     jget (ev_raw row) ''rollback_id'' = JStr rollback_id \<and> jget (ev_raw row) ''audit_id'' = JStr audit_id \<and>
     jget (ev_raw row) ''status'' \<in> {JStr ''REFUSE'', JStr ''refused''} \<and> \<not> ev_host_mutation row \<and>
     (\<exists>p refusals refusal c. safe_path p \<and> fs_exists env p \<and> load_jsonl_objects env p c = Inr refusals \<and> refusal \<in> set refusals \<and>
        py_eq (jget refusal ''state'') (jget (ev_raw row) ''state'') \<and>
        jget refusal ''rollback_id'' = JStr rollback_id \<and> jget refusal ''audit_id'' = JStr audit_id)"

lemma validate_task9_refusal_link_ok:
  assumes "validate_task9_refusal_link env row (r, a) = Inr ()"
  shows "jget (ev_raw row) ''rollback_id'' = JStr r \<and> jget (ev_raw row) ''audit_id'' = JStr a \<and>
    (\<exists>p refusals refusal c. safe_path p \<and> fs_exists env p \<and> load_jsonl_objects env p c = Inr refusals \<and> refusal \<in> set refusals \<and>
        py_eq (jget refusal ''state'') (jget (ev_raw row) ''state'') \<and>
        jget refusal ''rollback_id'' = JStr r \<and> jget refusal ''audit_id'' = JStr a)"
  using assms unfolding validate_task9_refusal_link_def Let_def prod.case thenE_ok_iff bindE_ok_iff raise_if_ok_iff
    de_string.read_ok text_of_iff
proof (elim exE conjE, goal_cases)
  case (1 r' a' p refusals)
  let ?m = "filter (\<lambda>item. py_eq (jget item ''state'') (jget (ev_raw row) ''state'')) refusals"
  have "hd ?m \<in> set ?m" using 1 by (intro hd_in_set) simp
  then have "hd ?m \<in> set refusals" "py_eq (jget (hd ?m) ''state'') (jget (ev_raw row) ''state'')" by auto
  with 1 require_artifact_ok[of env row _ p] show ?case by blast
qed

lemma validate_task9_rollback_link_ok:
  assumes "validate_task9_rollback_link env rollback p = Inr (r, a)"
    and "require_artifact env rollback label = Inr p"
  shows "\<exists>ledger. ledger_of env rollback ledger \<and> jget ledger ''rollback_id'' = JStr r \<and> jget ledger ''audit_id'' = JStr a \<and>
    jget (ev_raw rollback) ''rollback_id'' = JStr r \<and> jget (ev_raw rollback) ''audit_id'' = JStr a"
  using assms(1) require_artifact_ok[OF assms(2)]
  unfolding validate_task9_rollback_link_def ledger_of_def
  by (auto simp: ok_iff text_of_iff Let_def)

lemma refusal_status: "in_str_set v [a, b] = Inr True \<Longrightarrow> v \<in> {JStr a, JStr b}"
  by (cases v) auto

text \<open>C29: in an accepted Task 9 stream the rollback event and the first row of the ledger it
  names agree on the rollback and the audit identifier, and every refusal of the stream, of a stale
  target or of a second rollback, carries these same identifiers, a refusing status and no host mutation,
  and is recorded with them in an existing artifact at a safe path; both kinds of refusal do occur.\<close>

theorem task9_links_one_ledger:
  assumes "require_task9_lifecycle env path = Inr ()"
  shows "\<exists>rows rollback ledger r a. load_rows env path = Inr rows \<and> rollback \<in> set rows \<and> ev_event rollback = ''rollback'' \<and>
    ledger_of env rollback ledger \<and>
    jget ledger ''rollback_id'' = JStr r \<and> jget ledger ''audit_id'' = JStr a \<and>
    jget (ev_raw rollback) ''rollback_id'' = JStr r \<and> jget (ev_raw rollback) ''audit_id'' = JStr a \<and>
    (\<forall>row \<in> set rows. jget (ev_raw row) ''state'' \<in> {JStr ''stale_target_refused'', JStr ''duplicate_rollback_refused''} \<longrightarrow>
       refusal_linked env r a row) \<and>
    (\<forall>state \<in> {''stale_target_refused'', ''duplicate_rollback_refused''}. \<exists>row \<in> set rows. jget (ev_raw row) ''state'' = JStr state)"
  using assms unfolding require_task9_lifecycle_def thenE_ok_iff bindE_ok_iff mapE_ok_iff
proof (elim exE conjE, goal_cases)
  case (1 rows states verifier attach runtime rollback rp bp ids)
  obtain r a where ids: "ids = (r, a)" by (cases ids)
  obtain ledger where ledger: "ledger_of env rollback ledger" "jget ledger ''rollback_id'' = JStr r" "jget ledger ''audit_id'' = JStr a"
      "jget (ev_raw rollback) ''rollback_id'' = JStr r" "jget (ev_raw rollback) ''audit_id'' = JStr a"
    using validate_task9_rollback_link_ok[of env rollback bp r a] 1 ids by blast
  have rb: "rollback \<in> set rows" "ev_event rollback = ''rollback''"
    using 1 find_event_ok by blast+
  have refusals: "refusal_linked env r a row"
    if "row \<in> set rows" "jget (ev_raw row) ''state'' \<in> {JStr ''stale_target_refused'', JStr ''duplicate_rollback_refused''}" for row
  proof -
    have "in_str_set (jget (ev_raw row) ''state'') [''stale_target_refused'', ''duplicate_rollback_refused''] = Inr True"
      using that(2) by auto
    then have "in_str_set (jget (ev_raw row) ''status'') [''REFUSE'', ''refused''] = Inr True \<and> \<not> ev_host_mutation row \<and>
        validate_task9_refusal_link env row (r, a) = Inr ()"
      using bspec[OF 1(15)[unfolded forE_ok_iff] that(1)] by (auto simp: bindE_ok_iff thenE_ok_iff raise_if_ok_iff ids)
    then show ?thesis
      unfolding refusal_linked_def using validate_task9_refusal_link_ok[of env row r a] refusal_status by blast
  qed
  have "\<exists>row \<in> set rows. jget (ev_raw row) ''state'' = JStr state"
    if "state \<in> {''stale_target_refused'', ''duplicate_rollback_refused''}" for state
  proof -
    have "state \<in> set states" using 1(4) that by (auto simp: ok_iff)
    with 1(3) show ?thesis by (auto simp: de_string.read_ok text_of_iff dest!: list_all2_right)
  qed
  with 1(1) rb ledger refusals show ?case by blast
qed

section \<open>Which exceptions escape\<close>

lemma raises_de [raises_intro]:
  "(\<And>m. P (ContractError m)) \<Longrightarrow> raises P (require_string_de d f c)"
  "(\<And>m. P (ContractError m)) \<Longrightarrow> raises P (require_bool_de d f c)"
  "(\<And>m. P (ContractError m)) \<Longrightarrow> raises P (require_int_de d f c)"
  "(\<And>m. P (ContractError m)) \<Longrightarrow> raises P (require_object_de d f c)"
  by (auto simp: raises_def dest!: de_string.read_err de_bool.read_err de_int.read_err de_object.read_err)

lemma raises_parse_object [raises_intro]:
  "(\<And>m. P (ContractError m)) \<Longrightarrow> (\<And>m. P (ValueError m)) \<Longrightarrow> (\<And>m. P (RecursionError m)) \<Longrightarrow> raises P (parse_object env line n)"
  unfolding parse_object_def parse_json_value_def Let_def by (intro raises_intro) simp_all

text \<open>Checking the contract of an event stream can only end in the contract's own exception or
  in an input error, of reading the file or of the decoder; malformed JSON and non-finite constants are always reported as
  contract errors.\<close>

theorem daemon_stream_errors:
  assumes "io_env env" and "validate_de env path lifecycle = Inl e"
  shows "is_ContractError e \<or> io_error e"
proof -
  have "raises (\<lambda>e. is_ContractError e \<or> io_error e) (validate_de env path lifecycle)"
    unfolding validate_de_def load_rows_def jsonl_rows_def load_event_def validate_row_de_def validate_identifier_def
      require_events_def Let_def
    by (intro raises_intro io_env_read[OF assms(1)]) simp_all
  then show ?thesis using assms(2) by (rule raisesD)
qed

definition daemon_env :: env where
  "daemon_env = files_env [(''d.jsonl'', [CHR ''A'', CHR 0x0A, CHR ''B''])] []
     [(''A'', JObj [(''schema'', JStr SCHEMA_de), (''seq'', JInt 1), (''event'', JStr ''boot''), (''host_mutation'', JBool False)]),
      (''B'', JObj [(''schema'', JStr SCHEMA_de), (''seq'', JInt 2), (''event'', JStr ''incident''), (''host_mutation'', JBool False),
         (''audit_id'', JStr ''AUD-20240101T000000Z-abcdef0-123456'')])]"

lemma daemon_env_accepted: "validate_de daemon_env (mk_path ''d.jsonl'') False = Inr ()"
  by code_simp

theorem daemon_stream_numbered_witness:
  "validate_de daemon_env (mk_path ''d.jsonl'') False = Inr () \<and>
   (\<exists>rows. load_rows daemon_env (mk_path ''d.jsonl'') = Inr rows \<and> map ev_seq rows = map int [1..<Suc (length rows)])"
  using daemon_stream_numbered[OF daemon_env_accepted] daemon_env_accepted by blast

theorem daemon_stream_errors_witness:
  "io_env daemon_env \<and>
   validate_de daemon_env (mk_path ''d.jsonl'') True =
     Inl (ContractError ''missing lifecycle events: attach, cleanup, marker, rollback, runtime_sample, validation, verifier'') \<and>
   (let e = projl (validate_de daemon_env (mk_path ''d.jsonl'') True) in is_ContractError e \<or> io_error e)"
proof -
  have env: "io_env daemon_env" by (simp add: daemon_env_def io_env_files_env)
  have err: "validate_de daemon_env (mk_path ''d.jsonl'') True =
      Inl (ContractError ''missing lifecycle events: attach, cleanup, marker, rollback, runtime_sample, validation, verifier'')"
    by code_simp
  show ?thesis unfolding Let_def using env err daemon_stream_errors[OF env err] by simp
qed

text \<open>A Task 9 stream with its artifacts: nine kinds of event, the samples, the ledger and the refusals.\<close>

definition task9_event :: "int \<Rightarrow> string \<Rightarrow> string \<Rightarrow> string \<Rightarrow> json_object" where
  "task9_event n event state status =
     [(''schema'', JStr SCHEMA_de), (''seq'', JInt n), (''event'', JStr event), (''host_mutation'', JBool False),
      (''state'', JStr state), (''status'', JStr status), (''ops'', JStr ''zigsched_minimal''), (''rollback_id'', JStr ''rb''),
      (''audit_id'', JStr ''au''), (''artifact'', JStr (if event = ''runtime_sample'' then ''s'' else ''l''))]"

definition task9_env :: env where
  "task9_env = files_env
     [(''d'', join [CHR 0x0A] [''1'', ''2'', ''3'', ''4'', ''5'', ''6'', ''7'', ''8'', ''9'']), (''s'', ''S''), (''l'', join [CHR 0x0A] [''L'', ''M''])] []
     [(''1'', JObj (task9_event 1 ''boot'' ''x'' ''y'')), (''2'', JObj (task9_event 2 ''marker'' ''x'' ''y'')),
      (''3'', JObj (task9_event 3 ''verifier'' ''x'' ''y'')), (''4'', JObj (task9_event 4 ''attach'' ''x'' ''y'')),
      (''5'', JObj (task9_event 5 ''runtime_sample'' ''x'' ''y'')), (''6'', JObj (task9_event 6 ''rollback'' ''x'' ''y'')),
      (''7'', JObj (task9_event 7 ''cleanup'' ''stale_target_refused'' ''REFUSE'')),
      (''8'', JObj (task9_event 8 ''validation'' ''vm_live_validated'' ''y'')),
      (''9'', JObj (task9_event 9 ''incident'' ''duplicate_rollback_refused'' ''refused'')),
      (''S'', JObj [(''observation_source'', JStr ''vm_serial_sched_ext''), (''sample_source_event'', JStr ''register''),
         (''ops'', JObj [(''value'', JStr ''zigsched_minimal'')]), (''cgroup_membership_digest'', JStr (replicate 64 CHR ''a'')),
         (''cgroup_membership_status'', JObj [(''status'', JStr ''present''), (''value'', JStr ''present'')]),
         (''workload_alive'', JBool True)]),
      (''L'', JObj [(''state'', JStr ''stale_target_refused''), (''rollback_id'', JStr ''rb''), (''audit_id'', JStr ''au''),
         (''refusal_path'', JStr ''refuse_stale_rollback_target'')]),
      (''M'', JObj [(''state'', JStr ''duplicate_rollback_refused''), (''rollback_id'', JStr ''rb''), (''audit_id'', JStr ''au''),
         (''bpftool_rc'', JInt 1)])]"

lemma task9_env_accepted: "require_task9_lifecycle task9_env (mk_path ''d'') = Inr ()"
  by code_simp

theorem task9_links_one_ledger_witness:
  "require_task9_lifecycle task9_env (mk_path ''d'') = Inr () \<and>
   (\<exists>rows r a. load_rows task9_env (mk_path ''d'') = Inr rows \<and>
      (\<exists>row \<in> set rows. jget (ev_raw row) ''state'' = JStr ''stale_target_refused'' \<and> refusal_linked task9_env r a row))"
  using task9_links_one_ledger[OF task9_env_accepted] task9_env_accepted by fast

end
