(* ===== verification/RuntimeCommon.thy ===== *)
theory RuntimeCommon
  imports Readers
begin

text \<open>
  \<^verbatim>\<open>qa/runtime_sample_common.py\<close>, \<^verbatim>\<open>qa/runtime_sample_digest.py\<close> and
  \<^verbatim>\<open>qa/runtime_sample_fields.py\<close>: the JSON Lines loader, the typed field readers, the privacy scanner
  with its tokenizer of keys, and the redacted digest summary of the runtime samples. The field readers
  interpret \<open>field_reader\<close>, the loader \<open>jsonl_reader\<close> and the scanner \<open>context_free_scanner\<close>.
\<close>

section \<open>Constants\<close>

definition FORBIDDEN_KEYS_rs :: "string list" where
  "FORBIDDEN_KEYS_rs =
     [''command_line'', ''cmdline'', ''argv'', ''args'', ''environment'', ''env'', ''secret'', ''token'', ''api_key'']"

definition CLAIM_KEYS :: "string list" where
  "CLAIM_KEYS = [''production_claim'', ''production_capacity_claim'', ''release_eligible'', ''release_eligible_live_proof'']"

definition FORBIDDEN_TEXT_rs :: "string list" where
  "FORBIDDEN_TEXT_rs =
     [''--token'', ''api_key='', ''AWS_SECRET'', ''BEGIN PRIVATE KEY'', ''password='', ''/proc/'', ''/sys/'']"

definition FACT_STATUSES :: "string list" where
  "FACT_STATUSES = [''present'', ''missing'', ''unreadable'', ''unknown'']"

definition ROOT_FIELDS :: "string list" where
  "ROOT_FIELDS =
     [''schema'', ''sequence'', ''git_sha'', ''sample_source_event'', ''observation_source'', ''sched_ext_phase'',
      ''state'', ''ops'', ''enable_seq'', ''events'', ''events_hash'', ''nr_rejected'', ''debug_dump'', ''root_ops'',
      ''scheduler_events'', ''policy_counters'', ''sample_loss'', ''policy_abi'', ''cgroup_semantic_labels'',
      ''cgroup_membership_digest'', ''cgroup_membership_status'', ''task_ext_enabled'', ''teardown_state'',
      ''rollback_state'', ''workload'', ''workload_alive'', ''private_command_lines_sampled'', ''dsq_depth'',
      ''queue_latency'', ''fairness'', ''task_counts'', ''scheduler_counters'', ''sched_ext_observation'',
      ''benchmark_histograms'']"

section \<open>Loading and reading fields\<close>

definition load_jsonl_line :: "env \<Rightarrow> nat \<Rightarrow> string \<Rightarrow> json_object result" where
  "load_jsonl_line env index line =
     (bindE (reraise is_JSONDecodeError
         (\<lambda>exc. RuntimeSampleError (msg [''invalid JSON on line '', show_nat index, '': '', exn_str exc])) (json_loads env line)) (\<lambda>raw.
     case obj_of raw of
         None \<Rightarrow> Inl (RuntimeSampleError (msg [''line '', show_nat index, '' must contain a JSON object'']))
         | Some d \<Rightarrow> Inr d))"

definition load_jsonl_rs :: "env \<Rightarrow> path \<Rightarrow> json_object list result" where
  "load_jsonl_rs env path =
     (bindE (reraise is_FileNotFoundError
         (\<lambda>_. RuntimeSampleError (msg [''missing JSONL file: '', path_str path])) (fs_read_text env path)) (\<lambda>data.
     bindE (jsonl_rows (load_jsonl_line env) (splitlines data)) (\<lambda>rows.
     thenE (raise_if (rows = []) (RuntimeSampleError ''runtime sample JSONL is empty'')) (
     Inr rows))))"

definition require_string_rs :: "json_object \<Rightarrow> string \<Rightarrow> string \<Rightarrow> string result" where
  "require_string_rs data field context =
     (case text_of (jget data field) of
        Some s \<Rightarrow> Inr s
      | None \<Rightarrow> Inl (RuntimeSampleError (msg [context, '' missing non-empty string field: '', field])))"

definition require_bool_rs :: "json_object \<Rightarrow> string \<Rightarrow> string \<Rightarrow> bool result" where
  "require_bool_rs data field context =
     (case bool_of (jget data field) of
        Some b \<Rightarrow> Inr b
      | None \<Rightarrow> Inl (RuntimeSampleError (msg [context, '' missing bool field: '', field])))"

definition require_int_rs :: "json_object \<Rightarrow> string \<Rightarrow> string \<Rightarrow> int result" where
  "require_int_rs data field context =
     (case int_of (jget data field) of
        Some i \<Rightarrow> Inr i
      | None \<Rightarrow> Inl (RuntimeSampleError (msg [context, '' missing int field: '', field])))"

definition require_object_rs :: "json_object \<Rightarrow> string \<Rightarrow> string \<Rightarrow> json_object result" where
  "require_object_rs data field context =
     (case obj_of (jget data field) of
        Some d \<Rightarrow> Inr d
      | None \<Rightarrow> Inl (RuntimeSampleError (msg [context, '' missing object field: '', field])))"

definition optional_object :: "json_object \<Rightarrow> string \<Rightarrow> string \<Rightarrow> json_object option result" where
  "optional_object data field context =
     (case jget data field of
        JNull \<Rightarrow> Inr None
      | JObj d \<Rightarrow> Inr (Some d)
      | _ \<Rightarrow> Inl (RuntimeSampleError (msg [context, '' field must be an object when present: '', field])))"

section \<open>Private keys and text\<close>

text \<open>
  \<^verbatim>\<open>PRIVATE_KEY_TOKEN_RE\<close> at the start of a string: upper-case letters, as many as possible, that
  are followed by a capitalised word, a digit or the end; else a word; else a number.
\<close>

definition ends_acronym :: "string \<Rightarrow> bool" where
  "ends_acronym s =
     (case s of
        [] \<Rightarrow> True
      | c # cs \<Rightarrow> is_digit_char c \<or> is_upper_ascii c \<and> (case cs of [] \<Rightarrow> False | d # _ \<Rightarrow> is_lower_ascii d))"

definition acronym_token :: "string \<Rightarrow> string" where
  "acronym_token s =
     (case find (\<lambda>k. ends_acronym (drop k s)) (rev [1..<Suc (length (takeWhile is_upper_ascii s))]) of
        None \<Rightarrow> []
      | Some k \<Rightarrow> take k s)"

definition word_token :: "string \<Rightarrow> string" where
  "word_token s =
     (case s of
        c # cs \<Rightarrow>
          if is_upper_ascii c \<and> takeWhile is_lower_ascii cs \<noteq> [] then c # takeWhile is_lower_ascii cs
          else takeWhile is_lower_ascii s
      | [] \<Rightarrow> [])"

definition token_at :: "string \<Rightarrow> string" where
  "token_at s =
     (if acronym_token s \<noteq> [] then acronym_token s
      else if word_token s \<noteq> [] then word_token s
      else takeWhile is_digit_char s)"

text \<open>\<^verbatim>\<open>finditer\<close> over one chunk.\<close>

function chunk_tokens :: "string \<Rightarrow> string list" where
  "chunk_tokens s =
     (if s = [] then []
      else if token_at s = [] then chunk_tokens (tl s)
      else token_at s # chunk_tokens (drop (length (token_at s)) s))"
  by pat_completeness auto
termination
  by (relation "measure length") auto

declare chunk_tokens.simps [simp del]

text \<open>\<^verbatim>\<open>re.split(r"[^0-9A-Za-z]+", key)\<close> without its empty chunks.\<close>

fun alnum_chunks :: "string \<Rightarrow> string \<Rightarrow> string list" where
  "alnum_chunks acc [] = (if acc = [] then [] else [rev acc])"
| "alnum_chunks acc (c # cs) =
     (if is_alnum_ascii c then alnum_chunks (c # acc) cs
      else if acc = [] then alnum_chunks [] cs
      else rev acc # alnum_chunks [] cs)"

definition private_key_tokens :: "string \<Rightarrow> string list" where
  "private_key_tokens key = concat (map (\<lambda>chunk. map casefold (chunk_tokens chunk)) (alnum_chunks [] key))"

definition FORBIDDEN_KEY_PATTERNS_rs :: "string list list" where
  "FORBIDDEN_KEY_PATTERNS_rs = map private_key_tokens FORBIDDEN_KEYS_rs"

definition FORBIDDEN_TEXT_NEEDLES :: "string list" where
  "FORBIDDEN_TEXT_NEEDLES = map casefold FORBIDDEN_TEXT_rs"

text \<open>\<^verbatim>\<open>_contains_pattern\<close>.\<close>

definition contains_pattern :: "string list \<Rightarrow> string list \<Rightarrow> bool" where
  "contains_pattern tokens pattern =
     (if length pattern > length tokens then False
      else
        let limit = length tokens - length pattern + 1 in
        list_ex (\<lambda>index. take (length pattern) (drop index tokens) = pattern) [0..<limit])"

definition private_key_has_pattern :: "string \<Rightarrow> string list list \<Rightarrow> bool" where
  "private_key_has_pattern key patterns =
     (let tokens = private_key_tokens key in list_ex (contains_pattern tokens) patterns)"

definition private_text_contains :: "string \<Rightarrow> bool" where
  "private_text_contains value =
     (let lowered = casefold value in list_ex (\<lambda>needle. contains needle lowered) FORBIDDEN_TEXT_NEEDLES)"

fun reject_private_leaks_rs :: "json \<Rightarrow> string \<Rightarrow> check" where
  "reject_private_leaks_rs (JObj d) context =
     forE (\<lambda>(key, child).
       let lowered = casefold key in
       thenE (raise_if (private_key_has_pattern key FORBIDDEN_KEY_PATTERNS_rs)
                (RuntimeSampleError (msg [''privacy-unsafe key in runtime sample: '', context, ''.'', key])))
         (thenE (raise_if (lowered \<in> set CLAIM_KEYS \<and> child = JBool True)
                  (RuntimeSampleError (msg [''claim-unsafe flag in runtime sample: '', context, ''.'', key])))
           (reject_private_leaks_rs child (msg [context, ''.'', key])))) d"
| "reject_private_leaks_rs (JList xs) context =
     forE (\<lambda>(index, child). reject_private_leaks_rs child (msg [context, ''['', show_nat index, '']''])) (enumerate_from 0 xs)"
| "reject_private_leaks_rs (JStr s) context =
     raise_if (private_text_contains s) (RuntimeSampleError (msg [''privacy-unsafe text in runtime sample: '', context]))"
| "reject_private_leaks_rs _ context = Inr ()"

declare reject_private_leaks_rs.simps [simp del]

definition validate_fact :: "json_object \<Rightarrow> string \<Rightarrow> string \<Rightarrow> json_object result" where
  "validate_fact data field context =
     (bindE (require_object_rs data field context) (\<lambda>fact.
     bindE (require_string_rs fact ''status'' (msg [context, ''.'', field])) (\<lambda>status.
     thenE (raise_if (status \<notin> set FACT_STATUSES)
         (RuntimeSampleError (msg [context, ''.'', field, '' has unsupported status: '', status]))) (
     (let value = jget fact ''value'' in
     thenE (raise_if (\<not> is_str value \<or> status = ''present'' \<and> value = JStr [])
         (RuntimeSampleError (msg [context, ''.'', field, '' has invalid value'']))) (
     thenE (reject_private_leaks_rs value (msg [context, ''.'', field, ''.value''])) (
     Inr fact)))))))"

section \<open>Digest summaries\<close>

definition DIGEST_PREFIX :: string where
  "DIGEST_PREFIX = ''sha256:''"

definition BYTES_PREFIX :: string where
  "BYTES_PREFIX = '';bytes:''"

definition SHA256_HEX_LEN :: nat where
  "SHA256_HEX_LEN = 64"

definition is_digest_summary :: "string \<Rightarrow> bool" where
  "is_digest_summary value =
     (let digest_start = length DIGEST_PREFIX;
          digest_end = digest_start + SHA256_HEX_LEN in
      if length value \<le> digest_end + length BYTES_PREFIX then False
      else if \<not> prefix DIGEST_PREFIX value then False
      else if take (length BYTES_PREFIX) (drop digest_end value) \<noteq> BYTES_PREFIX then False
      else
        let digest = take SHA256_HEX_LEN (drop digest_start value);
            byte_count = drop (digest_end + length BYTES_PREFIX) value in
        list_all is_hex_char digest \<and> isdecimal byte_count)"

text \<open>Equations for evaluation that compute each token once and hold the constants evaluated.\<close>

lemma token_at_code [code]:
  "token_at s =
     (case acronym_token s of
        [] \<Rightarrow> (case word_token s of [] \<Rightarrow> takeWhile is_digit_char s | t # ts \<Rightarrow> t # ts)
      | t # ts \<Rightarrow> t # ts)"
  by (auto simp: token_at_def split: list.splits)

lemma chunk_tokens_code [code]:
  "chunk_tokens s =
     (case s of
        [] \<Rightarrow> []
      | c # cs \<Rightarrow>
          (case token_at s of
             [] \<Rightarrow> chunk_tokens cs
           | t # ts \<Rightarrow> (t # ts) # chunk_tokens (drop (length ts) cs)))"
  by (subst chunk_tokens.simps) (auto split: list.splits)

lemma needles_code [code]:
  "FORBIDDEN_TEXT_NEEDLES =
     [''--token'', ''api_key='', ''aws_secret'', ''begin private key'', ''password='', ''/proc/'', ''/sys/'']"
  by code_simp

lemma patterns_code [code]:
  "FORBIDDEN_KEY_PATTERNS_rs =
     [[''command'', ''line''], [''cmdline''], [''argv''], [''args''], [''environment''], [''env''], [''secret''],
      [''token''], [''api'', ''key'']]"
  by code_simp

section \<open>What the readers and the loader return\<close>

interpretation rs_string: field_reader require_string_rs text_of RuntimeSampleError
  by unfold_locales (auto simp: require_string_rs_def split: option.splits)

interpretation rs_bool: field_reader require_bool_rs bool_of RuntimeSampleError
  by unfold_locales (auto simp: require_bool_rs_def split: option.splits)

interpretation rs_int: field_reader require_int_rs int_of RuntimeSampleError
  by unfold_locales (auto simp: require_int_rs_def split: option.splits)

interpretation rs_object: field_reader require_object_rs obj_of RuntimeSampleError
  by unfold_locales (auto simp: require_object_rs_def split: option.splits)

lemma optional_object_ok_iff [ok_iff]:
  "optional_object d f c = Inr x \<longleftrightarrow> (case x of None \<Rightarrow> jget d f = JNull | Some e \<Rightarrow> jget d f = JObj e)"
  by (auto simp: optional_object_def split: json.splits option.splits)

lemma load_jsonl_line_ok_iff [ok_iff]: "load_jsonl_line env i line = Inr d \<longleftrightarrow> json_decode env line = Decoded (JObj d)"
  by (auto simp: load_jsonl_line_def ok_iff obj_of_iff split: option.splits)

definition decoded_value :: "env \<Rightarrow> string \<Rightarrow> json option" where
  "decoded_value env line = (case json_decode env line of Decoded v \<Rightarrow> Some v | _ \<Rightarrow> None)"

interpretation rs_rows: jsonl_reader load_jsonl_rs decoded_value
proof
  fix env p rows
  assume "load_jsonl_rs env p = Inr rows"
  then obtain s where "fs_read_text env p = Inr s" "rows \<noteq> []"
    and rows: "jsonl_rows (load_jsonl_line env) (splitlines s) = Inr rows"
    by (auto simp: load_jsonl_rs_def ok_iff)
  moreover have "list_all2 (\<lambda>(i, line) r. decoded_value env line = Some (JObj r)) (content_lines (splitlines s)) rows"
    using rows unfolding jsonl_rows_ok_iff
    by (rule list_all2_mono) (auto simp: ok_iff decoded_value_def)
  ultimately show "\<exists>s. fs_read_text env p = Inr s \<and> rows \<noteq> [] \<and>
      list_all2 (\<lambda>(i, line) r. decoded_value env line = Some (JObj r)) (content_lines (splitlines s)) rows"
    by blast
qed

section \<open>The scanner\<close>

fun node_ok_rs :: "string \<Rightarrow> json \<Rightarrow> bool" where
  "node_ok_rs c (JObj d) \<longleftrightarrow>
     (\<forall>(k, v) \<in> set d. \<not> private_key_has_pattern k FORBIDDEN_KEY_PATTERNS_rs \<and> \<not> (casefold k \<in> set CLAIM_KEYS \<and> v = JBool True))"
| "node_ok_rs c (JStr s) \<longleftrightarrow> \<not> private_text_contains s"
| "node_ok_rs c _ \<longleftrightarrow> True"

interpretation rs_scan: context_free_scanner reject_private_leaks_rs node_ok_rs
proof
  fix v c
  show "reject_private_leaks_rs v c = Inr () \<longleftrightarrow>
      node_ok_rs c v \<and> (\<forall>(c', v') \<in> set (children c v). reject_private_leaks_rs v' c' = Inr ())"
  proof (cases v)
    case (JList xs)
    then show ?thesis by (auto simp: ok_iff list_children_def reject_private_leaks_rs.simps)
  next
    case (JObj d)
    then show ?thesis
      by (fastforce simp: ok_iff obj_children_def reject_private_leaks_rs.simps Let_def)
  qed (auto simp: ok_iff reject_private_leaks_rs.simps)
next
  show "node_ok_rs c v = node_ok_rs c' v" for c v c'
    by (cases v) auto
qed

lemma reject_private_leaks_rs_str [ok_iff]: "reject_private_leaks_rs (JStr s) c = Inr u \<longleftrightarrow> \<not> private_text_contains s"
  by (simp add: reject_private_leaks_rs.simps ok_iff)

lemma contains_pattern_iff: "contains_pattern toks pat \<longleftrightarrow> (\<exists>a b. toks = a @ pat @ b)"
  unfolding has_run_iff[symmetric] by (auto simp: contains_pattern_def has_run_def Let_def)

text \<open>What a fact that passes is: one of the four statuses with a clean string, not empty when present.\<close>

definition fact_ok :: "json \<Rightarrow> bool" where
  "fact_ok v \<longleftrightarrow>
     (\<exists>d status value. v = JObj d \<and> jget d ''status'' = JStr status \<and> status \<in> set FACT_STATUSES \<and>
        jget d ''value'' = JStr value \<and> (status = ''present'' \<longrightarrow> value \<noteq> []) \<and> \<not> private_text_contains value)"

lemma validate_fact_ok_iff [ok_iff]: "validate_fact d f c = Inr x \<longleftrightarrow> jget d f = JObj x \<and> fact_ok (jget d f)"
proof -
  have nonempty: "s \<in> set FACT_STATUSES \<Longrightarrow> s \<noteq> []" for s
    by (auto simp: FACT_STATUSES_def)
  show ?thesis
    by (cases "jget x ''value''")
      (auto simp: validate_fact_def ok_iff obj_of_iff text_of_iff fact_ok_def Let_def dest: nonempty)
qed

section \<open>The tokenizer\<close>

lemma acronym_token_prefix: "prefix (acronym_token s) s"
  by (auto simp: acronym_token_def take_is_prefix split: option.splits)

lemma word_token_prefix: "prefix (word_token s) s"
  by (auto simp: word_token_def takeWhile_is_prefix split: list.splits)

lemma token_at_prefix: "prefix (token_at s) s"
  by (simp add: token_at_def acronym_token_prefix word_token_prefix takeWhile_is_prefix)

lemma acronym_token_notNil:
  "0 < k \<Longrightarrow> k \<le> length (takeWhile is_upper_ascii s) \<Longrightarrow> ends_acronym (drop k s) \<Longrightarrow> acronym_token s \<noteq> []"
proof -
  let ?ks = "rev [1..<Suc (length (takeWhile is_upper_ascii s))]" and ?p = "\<lambda>k. ends_acronym (drop k s)"
  assume k: "0 < k" "k \<le> length (takeWhile is_upper_ascii s)" "?p k"
  have "k \<in> set ?ks" using k by (simp del: upt_Suc)
  then obtain j where j: "find ?p ?ks = Some j"
    using k(3) find_None_iff[of ?p ?ks] by (cases "find ?p ?ks") (blast, blast)
  then have "j \<in> set ?ks" unfolding find_Some_iff by (metis nth_mem)
  then have "0 < j" by (simp del: upt_Suc)
  moreover have "s \<noteq> []" using k by auto
  ultimately show ?thesis using j by (simp add: acronym_token_def del: upt_Suc)
qed

lemma ascii_classes_disjoint:
  "is_upper_ascii c \<Longrightarrow> \<not> is_lower_ascii c" "is_digit_char c \<Longrightarrow> \<not> is_upper_ascii c"
  "is_digit_char c \<Longrightarrow> \<not> is_lower_ascii c"
  by (auto simp: is_upper_ascii_def is_lower_ascii_def is_digit_char_def in_range_def)

lemma token_at_notNil:
  assumes "s \<noteq> []" and "list_all is_alnum_ascii s"
  shows "token_at s \<noteq> []"
proof -
  define u where "u = takeWhile is_upper_ascii s"
  define rest where "rest = dropWhile is_upper_ascii s"
  have s: "s = u @ rest" by (simp add: u_def rest_def)
  have rest_hd: "rest \<noteq> [] \<Longrightarrow> \<not> is_upper_ascii (hd rest)"
    using hd_dropWhile[of is_upper_ascii s] by (simp add: rest_def)
  show ?thesis
  proof (cases "u = []")
    case True
    then obtain c cs where c: "s = c # cs" "\<not> is_upper_ascii c"
      using assms(1) s rest_hd by (cases s) auto
    with assms(2) have "is_digit_char c \<or> is_lower_ascii c"
      by (auto simp: is_alnum_ascii_def)
    with c show ?thesis by (auto simp: token_at_def word_token_def)
  next
    case u: False
    show ?thesis
    proof (cases "rest = [] \<or> is_digit_char (hd rest)")
      case True
      then have "ends_acronym (drop (length u) s)"
        by (auto simp: s ends_acronym_def split: list.splits)
      then have "acronym_token s \<noteq> []"
        using u by (intro acronym_token_notNil[of "length u"]) (auto simp: u_def)
      then show ?thesis by (simp add: token_at_def)
    next
      case False
      then obtain d ds where d: "rest = d # ds" "is_lower_ascii d"
        using assms(2) rest_hd by (cases rest) (auto simp: s is_alnum_ascii_def)
      obtain us c where us: "u = us @ [c]" using u by (cases u rule: rev_cases) auto
      have c: "is_upper_ascii c" using us by (metis in_set_conv_decomp set_takeWhileD u_def)
      show ?thesis
      proof (cases "us = []")
        case True
        then have "word_token s \<noteq> []" using c d by (simp add: s us word_token_def)
        then show ?thesis by (simp add: token_at_def)
      next
        case False
        have "ends_acronym (drop (length us) s)"
          using c d by (simp add: s us ends_acronym_def)
        then have "acronym_token s \<noteq> []"
          using False us by (intro acronym_token_notNil[of "length us"]) (auto simp: u_def)
        then show ?thesis by (simp add: token_at_def)
      qed
    qed
  qed
qed

lemma concat_chunk_tokens: "list_all is_alnum_ascii s \<Longrightarrow> concat (chunk_tokens s) = s"
proof (induction s rule: chunk_tokens.induct)
  case (1 s)
  show ?case
  proof (cases "s = []")
    case True
    then show ?thesis by (simp add: chunk_tokens.simps)
  next
    case False
    then have tok: "token_at s \<noteq> []" using 1(3) by (rule token_at_notNil)
    obtain r where r: "s = token_at s @ r" using token_at_prefix[of s] by (auto elim: prefixE)
    then have d: "drop (length (token_at s)) s = r" by (metis append_eq_conv_conj)
    have "list_all is_alnum_ascii r" using 1(3) by (subst (asm) r) simp
    with 1(2)[OF False tok] have "concat (chunk_tokens r) = r" unfolding d .
    with r show ?thesis
      using tok False by (subst chunk_tokens.simps) (simp add: d)
  qed
qed

lemma alnum_chunks_alnum:
  "\<forall>c \<in> set acc. is_alnum_ascii c \<Longrightarrow> chunk \<in> set (alnum_chunks acc s) \<Longrightarrow> \<forall>c \<in> set chunk. is_alnum_ascii c"
proof (induction s arbitrary: acc)
  case Nil
  then show ?case by (simp split: if_splits)
next
  case (Cons a s)
  from Cons.prems(2) consider "is_alnum_ascii a" "chunk \<in> set (alnum_chunks (a # acc) s)"
    | "chunk \<in> set (alnum_chunks [] s)" | "chunk = rev acc"
    by (auto split: if_splits)
  then show ?case
  proof cases
    case 1
    then show ?thesis using Cons.prems(1) by (intro Cons.IH[of "a # acc"]) simp_all
  next
    case 2
    then show ?thesis by (intro Cons.IH[of "[]"]) simp_all
  next
    case 3
    then show ?thesis using Cons.prems(1) by simp
  qed
qed

lemma concat_alnum_chunks: "concat (alnum_chunks acc s) = rev acc @ filter is_alnum_ascii s"
  by (induction acc s rule: alnum_chunks.induct) auto

lemma casefold_append: "casefold (s @ t) = casefold s @ casefold t"
  by (simp add: casefold_def)

lemma casefold_concat: "casefold (concat xss) = concat (map casefold xss)"
  by (induction xss) (simp_all add: casefold_append, simp add: casefold_def)

lemma concat_map_concat: "concat (concat (map f xs)) = concat (map (\<lambda>x. concat (f x)) xs)"
  by (induction xs) simp_all

text \<open>The tokenizer of keys loses nothing: whatever the case style of a key, its
  tokens put together are all of its letters and digits, case-folded, in order.\<close>

theorem private_key_tokens_complete:
  "concat (private_key_tokens key) = casefold (filter is_alnum_ascii key)"
proof -
  have "concat (private_key_tokens key) = concat (map (\<lambda>chunk. casefold (concat (chunk_tokens chunk))) (alnum_chunks [] key))"
    by (simp add: private_key_tokens_def casefold_concat comp_def concat_map_concat)
  also have "\<dots> = concat (map casefold (alnum_chunks [] key))"
  proof (rule arg_cong[of _ _ concat], rule map_cong[OF refl])
    fix chunk
    assume "chunk \<in> set (alnum_chunks [] key)"
    then have "list_all is_alnum_ascii chunk"
      using alnum_chunks_alnum[of "[]"] by (simp add: list_all_iff)
    then show "casefold (concat (chunk_tokens chunk)) = casefold chunk"
      by (simp add: concat_chunk_tokens)
  qed
  also have "\<dots> = casefold (concat (alnum_chunks [] key))"
    by (simp add: casefold_concat)
  finally show ?thesis by (simp add: concat_alnum_chunks)
qed

section \<open>The digest summary\<close>

lemma summary_lengths: "length DIGEST_PREFIX = 7" "length BYTES_PREFIX = 7" "SHA256_HEX_LEN = 64"
  by (simp_all add: DIGEST_PREFIX_def BYTES_PREFIX_def SHA256_HEX_LEN_def)

text \<open>A redacted dump is accepted exactly when it reads
  \<^verbatim>\<open>sha256:\<close>, sixty-four lower-case hexadecimal digits, \<^verbatim>\<open>;bytes:\<close> and a decimal number, and
  nothing else.\<close>

theorem is_digest_summary_iff:
  "is_digest_summary value \<longleftrightarrow>
     (\<exists>digest count. value = ''sha256:'' @ digest @ '';bytes:'' @ count \<and>
        length digest = 64 \<and> list_all is_hex_char digest \<and> isdecimal count)"
proof
  assume ok: "is_digest_summary value"
  define digest where "digest = take 64 (drop 7 value)"
  define count where "count = drop 78 value"
  have facts: "78 < length value" "prefix DIGEST_PREFIX value" "take 7 (drop 71 value) = BYTES_PREFIX"
      "list_all is_hex_char digest" "isdecimal count"
    using ok by (auto simp: is_digest_summary_def summary_lengths Let_def digest_def count_def split: if_splits)
  have "take 7 value = DIGEST_PREFIX"
    using facts(2) by (auto elim!: prefixE simp: summary_lengths)
  moreover have "value = take 7 value @ take 64 (drop 7 value) @ take 7 (drop 71 value) @ drop 78 value"
    using take_add[of 7 71 "value"] take_add[of 64 7 "drop 7 value"] append_take_drop_id[of 78 "value"] by simp
  ultimately have "value = ''sha256:'' @ digest @ '';bytes:'' @ count"
    using facts(3) by (simp add: digest_def count_def DIGEST_PREFIX_def BYTES_PREFIX_def)
  moreover have "length digest = 64" using facts(1) by (simp add: digest_def)
  ultimately show "\<exists>digest count. value = ''sha256:'' @ digest @ '';bytes:'' @ count \<and>
      length digest = 64 \<and> list_all is_hex_char digest \<and> isdecimal count"
    using facts(4,5) by blast
next
  assume "\<exists>digest count. value = ''sha256:'' @ digest @ '';bytes:'' @ count \<and>
      length digest = 64 \<and> list_all is_hex_char digest \<and> isdecimal count"
  then show "is_digest_summary value"
    by (auto simp: is_digest_summary_def DIGEST_PREFIX_def BYTES_PREFIX_def SHA256_HEX_LEN_def Let_def isdecimal_def)
qed

end
