(* ===== verification/PolicyAbi.thy ===== *)
theory PolicyAbi
  imports Readers
begin

text \<open>
  \<^verbatim>\<open>qa/runtime_sample_policy_abi.py\<close>: the ABI metadata that a runtime sample carries about the
  scheduling policy. A sample without an \<^verbatim>\<open>abi_version\<close> only needs its identifying fields; with one,
  the whole ABI-v3 contract is checked: labels, flags, the semantics of every cgroup knob, and the three
  groups of cgroup evidence, each of which is present in full or explicitly unavailable.
\<close>

section \<open>Constants\<close>

definition POLICY_VERSION :: string where
  "POLICY_VERSION = ''sched_ext_cgroup_abi_v3''"

definition ABI_LABEL :: string where
  "ABI_LABEL = ''zigsched-bpf-abi-v3''"

definition SEMANTICS :: "(string \<times> string) list" where
  "SEMANTICS =
     [(''cpu.weight'', ''callback-observed''), (''cgroup.lifecycle'', ''observed''), (''cgroup.move'', ''observed''),
      (''cpuset.cpus'', ''observed-only''), (''cpuset.cpus.effective'', ''observed-only''),
      (''cpu.pressure'', ''observed-only''), (''cpu.max'', ''deferred''), (''uclamp'', ''deferred''),
      (''cgroup_set_idle'', ''refused'')]"

definition CGROUP_POLICY_FIELDS :: "string list" where
  "CGROUP_POLICY_FIELDS =
     [''last_weight'', ''weight_generation'', ''move_generation'', ''callback_observed_knobs'', ''observed_knobs'',
      ''deferred_knobs'']"

definition CGROUP_CALLBACK_STATS :: "string list" where
  "CGROUP_CALLBACK_STATS =
     [''cgroup_init_calls'', ''cgroup_exit_calls'', ''cgroup_move_calls'', ''cgroup_set_weight_calls'',
      ''cgroup_weight_observed'']"

definition DSQ_COHERENCE_FIELDS :: "string list" where
  "DSQ_COHERENCE_FIELDS =
     [''fifo_insert_dispatch_coherent'', ''vtime_insert_dispatch_coherent'', ''dispatch_empty_accounted'']"

section \<open>The reference documents\<close>

definition good_cgroup_policy_map :: "string \<Rightarrow> json_object" where
  "good_cgroup_policy_map status =
     (if status = ''unavailable'' then
        [(''status'', JStr ''unavailable''), (''reason'', JStr ''map unavailable before VM attach'')]
      else
        [(''status'', JStr ''present''), (''map_name'', JStr ''zigsched_cgroup_policy''), (''max_entries'', JInt 1),
         (''key'', JStr ''0''), (''fields'', JList (map JStr CGROUP_POLICY_FIELDS)), (''last_weight'', JInt 200),
         (''weight_generation'', JInt 1), (''move_generation'', JInt 1),
         (''callback_observed_knobs'', JList [JStr ''cpu.weight'']),
         (''observed_knobs'', JList [JStr ''cpuset.cpus'', JStr ''cpuset.cpus.effective'', JStr ''cpu.pressure'']),
         (''deferred_knobs'', JList [JStr ''cpu.max'', JStr ''uclamp''])])"

definition good_cgroup_callback_stats :: "string \<Rightarrow> json_object" where
  "good_cgroup_callback_stats status =
     (if status = ''unavailable'' then
        [(''status'', JStr ''unavailable''), (''reason'', JStr ''callback counters unavailable before VM attach'')]
      else
        [(''status'', JStr ''present''), (''cgroup_init_calls'', JInt 1), (''cgroup_exit_calls'', JInt 1),
         (''cgroup_move_calls'', JInt 1), (''cgroup_set_weight_calls'', JInt 1), (''cgroup_weight_observed'', JInt 1),
         (''cpu_weight_callback_observed'', JBool True)])"

definition good_dsq_counter_coherence :: "string \<Rightarrow> json_object" where
  "good_dsq_counter_coherence status =
     (if status = ''unavailable'' then
        [(''status'', JStr ''unavailable''), (''reason'', JStr ''DSQ counters unavailable before VM attach'')]
      else
        [(''status'', JStr ''present''), (''counter_source'', JStr ''zigsched_stats+zigsched_events''),
         (''fifo_insert_dispatch_coherent'', JBool True), (''vtime_insert_dispatch_coherent'', JBool True),
         (''dispatch_empty_accounted'', JBool True)])"

definition good_policy_abi :: "string \<Rightarrow> json_object" where
  "good_policy_abi object_sha256 =
     [(''policy_name'', JStr ''zigsched_minimal''), (''policy_version'', JStr POLICY_VERSION),
      (''struct_ops'', JStr ''zigsched_minimal_ops''), (''object_sha256'', JStr object_sha256),
      (''btf_required'', JBool True), (''abi_version'', JInt 3), (''abi_label'', JStr ABI_LABEL),
      (''cgroup_semantics'', JObj (map (\<lambda>(k, v). (k, JStr v)) SEMANTICS)), (''vm_only'', JBool True),
      (''host_mutation'', JBool False), (''production_claim'', JBool False), (''release_eligible'', JBool False),
      (''cgroup_policy_map'', JObj (good_cgroup_policy_map ''present'')),
      (''cgroup_callback_stats'', JObj (good_cgroup_callback_stats ''present'')),
      (''dsq_counter_coherence'', JObj (good_dsq_counter_coherence ''present''))]"

section \<open>Reading fields\<close>

definition require_string_pa :: "json_object \<Rightarrow> string \<Rightarrow> string \<Rightarrow> string result" where
  "require_string_pa data field context =
     (case text_of (jget data field) of
        Some s \<Rightarrow> Inr s
      | None \<Rightarrow> Inl (PolicyAbiError (msg [context, '' missing non-empty string field: '', field])))"

definition require_bool_pa :: "json_object \<Rightarrow> string \<Rightarrow> string \<Rightarrow> bool result" where
  "require_bool_pa data field context =
     (case bool_of (jget data field) of
        Some b \<Rightarrow> Inr b
      | None \<Rightarrow> Inl (PolicyAbiError (msg [context, '' missing bool field: '', field])))"

definition require_int_pa :: "json_object \<Rightarrow> string \<Rightarrow> string \<Rightarrow> int result" where
  "require_int_pa data field context =
     (case int_of (jget data field) of
        Some i \<Rightarrow> Inr i
      | None \<Rightarrow> Inl (PolicyAbiError (msg [context, '' missing int field: '', field])))"

definition require_object_pa :: "json_object \<Rightarrow> string \<Rightarrow> string \<Rightarrow> json_object result" where
  "require_object_pa data field context =
     (case obj_of (jget data field) of
        Some d \<Rightarrow> Inr d
      | None \<Rightarrow> Inl (PolicyAbiError (msg [context, '' missing object field: '', field])))"

text \<open>A list all of whose items are non-empty strings.\<close>

definition strings_of :: "json \<Rightarrow> string list option" where
  "strings_of v =
     (case list_of v of
        None \<Rightarrow> None
      | Some xs \<Rightarrow> if list_all (\<lambda>x. text_of x \<noteq> None) xs then Some (map (\<lambda>x. the (str_of x)) xs) else None)"

definition require_string_list :: "json_object \<Rightarrow> string \<Rightarrow> string \<Rightarrow> string list result" where
  "require_string_list data field context =
     (case strings_of (jget data field) of
        Some xs \<Rightarrow> Inr xs
      | None \<Rightarrow> Inl (PolicyAbiError (msg [context, '' missing string list field: '', field])))"

definition require_status :: "json_object \<Rightarrow> string \<Rightarrow> string result" where
  "require_status data context =
     (bindE (require_string_pa data ''status'' context) (\<lambda>status.
     thenE (raise_if (status \<notin> {''present'', ''unavailable''})
         (PolicyAbiError (msg [context, ''.status must be present or unavailable'']))) (
     thenE (if status = ''unavailable'' then
         bindE (require_string_pa data ''reason'' context) (\<lambda>_. Inr ())
         else Inr ()) (
     Inr status))))"

section \<open>The contract\<close>

definition validate_cgroup_policy_map :: "json_object \<Rightarrow> string \<Rightarrow> check" where
  "validate_cgroup_policy_map evidence context =
     (bindE (require_status evidence context) (\<lambda>status.
     if status = ''unavailable'' then Inr ()
         else
         (bindE (require_string_pa evidence ''map_name'' context) (\<lambda>map_name.
         thenE (raise_if (map_name \<noteq> ''zigsched_cgroup_policy'')
         (PolicyAbiError (msg [context, ''.map_name must be zigsched_cgroup_policy'']))) (
         bindE (require_int_pa evidence ''max_entries'' context) (\<lambda>max_entries.
         thenE (raise_if (max_entries \<noteq> 1) (PolicyAbiError (msg [context, ''.max_entries must be 1'']))) (
         bindE (require_string_pa evidence ''key'' context) (\<lambda>key.
         thenE (raise_if (key \<noteq> ''0'') (PolicyAbiError (msg [context, ''.key must be 0'']))) (
         bindE (require_string_list evidence ''fields'' context) (\<lambda>fields.
         thenE (raise_if (fields \<noteq> CGROUP_POLICY_FIELDS)
         (PolicyAbiError (msg [context, ''.fields must match ABI-v3 cgroup policy layout'']))) (
         thenE (forE (\<lambda>field.
         bindE (require_int_pa evidence field context) (\<lambda>n.
         raise_if (n < 0) (PolicyAbiError (msg [context, ''.'', field, '' must be nonnegative'']))))
         [''last_weight'', ''weight_generation'', ''move_generation'']) (
         bindE (require_string_list evidence ''callback_observed_knobs'' context) (\<lambda>callback.
         thenE (raise_if (''cpu.weight'' \<notin> set callback)
         (PolicyAbiError (msg [context, ''.callback_observed_knobs must include cpu.weight'']))) (
         bindE (require_string_list evidence ''observed_knobs'' context) (\<lambda>observed.
         thenE (raise_if (\<not> set [''cpuset.cpus'', ''cpuset.cpus.effective'', ''cpu.pressure''] \<subseteq> set observed)
         (PolicyAbiError (msg [context, ''.observed_knobs must include observed-only cgroup knobs'']))) (
         bindE (require_string_list evidence ''deferred_knobs'' context) (\<lambda>deferred.
         raise_if (\<not> set [''cpu.max'', ''uclamp''] \<subseteq> set deferred)
         (PolicyAbiError (msg [context, ''.deferred_knobs must keep cpu.max and uclamp deferred''])))))))))))))))))))"

definition validate_cgroup_callback_stats :: "json_object \<Rightarrow> string \<Rightarrow> check" where
  "validate_cgroup_callback_stats evidence context =
     (bindE (require_status evidence context) (\<lambda>status.
     if status = ''unavailable'' then Inr ()
         else
         (thenE (forE (\<lambda>field.
         bindE (require_int_pa evidence field context) (\<lambda>n.
         raise_if (n < 0) (PolicyAbiError (msg [context, ''.'', field, '' must be nonnegative'']))))
         CGROUP_CALLBACK_STATS) (
         bindE (require_int_pa evidence ''cgroup_set_weight_calls'' context) (\<lambda>set_weight.
         thenE (if 0 < set_weight then
         bindE (require_bool_pa evidence ''cpu_weight_callback_observed'' context) (\<lambda>seen.
         raise_if (\<not> seen)
         (PolicyAbiError (msg [context, ''.cpu_weight_callback_observed must be true when set-weight callbacks fired''])))
         else Inr ()) (
         bindE (require_int_pa evidence ''cgroup_weight_observed'' context) (\<lambda>weight_observed.
         bindE (require_int_pa evidence ''cgroup_set_weight_calls'' context) (\<lambda>set_weight_calls.
         raise_if (weight_observed > set_weight_calls)
         (PolicyAbiError (msg [context, ''.cgroup_weight_observed cannot exceed cgroup_set_weight_calls'']))))))))))"

definition validate_dsq_counter_coherence :: "json_object \<Rightarrow> string \<Rightarrow> check" where
  "validate_dsq_counter_coherence evidence context =
     (bindE (require_status evidence context) (\<lambda>status.
     if status = ''unavailable'' then Inr ()
         else
         (bindE (require_string_pa evidence ''counter_source'' context) (\<lambda>source.
         thenE (raise_if (source \<noteq> ''zigsched_stats+zigsched_events'')
         (PolicyAbiError (msg [context, ''.counter_source must be zigsched_stats+zigsched_events'']))) (
         forE (\<lambda>field.
         bindE (require_bool_pa evidence field context) (\<lambda>b.
         raise_if (\<not> b) (PolicyAbiError (msg [context, ''.'', field, '' must be true''])))) DSQ_COHERENCE_FIELDS)))))"

definition validate_v3_cgroup_evidence :: "json_object \<Rightarrow> string \<Rightarrow> check" where
  "validate_v3_cgroup_evidence abi context =
     (bindE (require_object_pa abi ''cgroup_policy_map'' context) (\<lambda>policy_map.
     thenE (validate_cgroup_policy_map policy_map (msg [context, ''.cgroup_policy_map''])) (
     bindE (require_object_pa abi ''cgroup_callback_stats'' context) (\<lambda>stats.
     thenE (validate_cgroup_callback_stats stats (msg [context, ''.cgroup_callback_stats''])) (
     bindE (require_object_pa abi ''dsq_counter_coherence'' context) (\<lambda>dsq.
     validate_dsq_counter_coherence dsq (msg [context, ''.dsq_counter_coherence''])))))))"

definition validate_v3_policy_abi :: "json_object \<Rightarrow> string \<Rightarrow> check" where
  "validate_v3_policy_abi abi context =
     (bindE (require_string_pa abi ''policy_version'' context) (\<lambda>version.
     thenE (raise_if (version \<noteq> POLICY_VERSION) (PolicyAbiError (msg [context, ''.policy_version must be '', POLICY_VERSION]))) (
     bindE (require_int_pa abi ''abi_version'' context) (\<lambda>abi_version.
     thenE (raise_if (abi_version \<noteq> 3) (PolicyAbiError (msg [context, ''.abi_version must be 3'']))) (
     bindE (require_string_pa abi ''abi_label'' context) (\<lambda>label.
     thenE (raise_if (label \<noteq> ABI_LABEL) (PolicyAbiError (msg [context, ''.abi_label must be '', ABI_LABEL]))) (
     bindE (require_bool_pa abi ''vm_only'' context) (\<lambda>vm_only.
     thenE (raise_if (\<not> vm_only) (PolicyAbiError (msg [context, ''.vm_only must be true'']))) (
     bindE (require_bool_pa abi ''host_mutation'' context) (\<lambda>host_mutation.
     thenE (raise_if host_mutation (PolicyAbiError (msg [context, ''.host_mutation must be false'']))) (
     bindE (require_bool_pa abi ''production_claim'' context) (\<lambda>production_claim.
     thenE (raise_if production_claim (PolicyAbiError (msg [context, ''.production_claim must be false'']))) (
     bindE (require_bool_pa abi ''release_eligible'' context) (\<lambda>release_eligible.
     thenE (raise_if release_eligible (PolicyAbiError (msg [context, ''.release_eligible must be false'']))) (
     bindE (require_object_pa abi ''cgroup_semantics'' context) (\<lambda>semantics.
     thenE (raise_if (set (keys semantics) \<noteq> set (map fst SEMANTICS))
         (PolicyAbiError (msg [context, ''.cgroup_semantics keys do not match ABI-v3 contract'']))) (
     thenE (forE (\<lambda>(knob, expected).
         let actual = jget semantics knob in
         raise_if (actual \<noteq> JStr expected)
         (PolicyAbiError (msg [context, ''.cgroup_semantics.'', knob, '' must be '', expected]))) SEMANTICS) (
     validate_v3_cgroup_evidence abi context))))))))))))))))))"

definition validate_policy_abi_contract :: "json_object \<Rightarrow> string \<Rightarrow> check" where
  "validate_policy_abi_contract abi context =
     (thenE (forE (\<lambda>field. bindE (require_string_pa abi field context) (\<lambda>_. Inr ()))
         [''policy_name'', ''policy_version'', ''struct_ops'', ''object_sha256'']) (
     bindE (require_bool_pa abi ''btf_required'' context) (\<lambda>_.
     (let abi_version = jget abi ''abi_version'' in
     if abi_version = JNull then Inr () else validate_v3_policy_abi abi context))))"

section \<open>What acceptance means\<close>

interpretation pa_string: field_reader require_string_pa text_of PolicyAbiError
  by unfold_locales (auto simp: require_string_pa_def split: option.splits)

interpretation pa_bool: field_reader require_bool_pa bool_of PolicyAbiError
  by unfold_locales (auto simp: require_bool_pa_def split: option.splits)

interpretation pa_int: field_reader require_int_pa int_of PolicyAbiError
  by unfold_locales (auto simp: require_int_pa_def split: option.splits)

interpretation pa_object: field_reader require_object_pa obj_of PolicyAbiError
  by unfold_locales (auto simp: require_object_pa_def split: option.splits)

interpretation pa_strings: field_reader require_string_list strings_of PolicyAbiError
  by unfold_locales (auto simp: require_string_list_def strings_of_def split: option.splits)

lemma require_status_ok_iff [ok_iff]:
  "require_status d c = Inr s \<longleftrightarrow>
     jget d ''status'' = JStr s \<and> (s = ''present'' \<or> s = ''unavailable'' \<and> text_of (jget d ''reason'') \<noteq> None)"
  by (auto simp: require_status_def ok_iff text_of_iff)

text \<open>
  The abstract contract. Each group of evidence is either explicitly unavailable, with a reason, or
  present with the counters that belong to it.
\<close>

definition unavailable_group :: "json_object \<Rightarrow> bool" where
  "unavailable_group d \<longleftrightarrow> jget d ''status'' = JStr ''unavailable'' \<and> text_of (jget d ''reason'') \<noteq> None"

definition nonneg_field :: "json_object \<Rightarrow> string \<Rightarrow> bool" where
  "nonneg_field d f \<longleftrightarrow> (\<exists>n. int_of (jget d f) = Some n \<and> 0 \<le> n)"

definition policy_map_group :: "json_object \<Rightarrow> bool" where
  "policy_map_group d \<longleftrightarrow>
     jget d ''map_name'' = JStr ''zigsched_cgroup_policy'' \<and> int_of (jget d ''max_entries'') = Some 1 \<and>
     jget d ''key'' = JStr ''0'' \<and> strings_of (jget d ''fields'') = Some CGROUP_POLICY_FIELDS \<and>
     (\<forall>f \<in> {''last_weight'', ''weight_generation'', ''move_generation''}. nonneg_field d f) \<and>
     (\<exists>knobs. strings_of (jget d ''callback_observed_knobs'') = Some knobs \<and> ''cpu.weight'' \<in> set knobs) \<and>
     (\<exists>knobs. strings_of (jget d ''observed_knobs'') = Some knobs \<and>
        {''cpuset.cpus'', ''cpuset.cpus.effective'', ''cpu.pressure''} \<subseteq> set knobs) \<and>
     (\<exists>knobs. strings_of (jget d ''deferred_knobs'') = Some knobs \<and> {''cpu.max'', ''uclamp''} \<subseteq> set knobs)"

definition callback_stats_group :: "json_object \<Rightarrow> bool" where
  "callback_stats_group d \<longleftrightarrow>
     (\<forall>f \<in> set CGROUP_CALLBACK_STATS. nonneg_field d f) \<and>
     (\<exists>calls observed. int_of (jget d ''cgroup_set_weight_calls'') = Some calls \<and>
        int_of (jget d ''cgroup_weight_observed'') = Some observed \<and> observed \<le> calls \<and>
        (0 < calls \<longrightarrow> jget d ''cpu_weight_callback_observed'' = JBool True))"

definition dsq_group :: "json_object \<Rightarrow> bool" where
  "dsq_group d \<longleftrightarrow>
     jget d ''counter_source'' = JStr ''zigsched_stats+zigsched_events'' \<and>
     (\<forall>f \<in> set DSQ_COHERENCE_FIELDS. jget d f = JBool True)"

definition group_ok :: "(json_object \<Rightarrow> bool) \<Rightarrow> json \<Rightarrow> bool" where
  "group_ok P v \<longleftrightarrow> (\<exists>d. v = JObj d \<and> (unavailable_group d \<or> jget d ''status'' = JStr ''present'' \<and> P d))"

lemma status_dispatch:
  "bindE (require_status d c) (\<lambda>status. if status = ''unavailable'' then Inr () else body) = Inr () \<longleftrightarrow>
     group_ok (\<lambda>_. body = Inr ()) (JObj d)"
  by (cases "jget d ''status'' = JStr ''unavailable''"; cases "jget d ''status'' = JStr ''present''")
    (simp_all add: bindE_ok_iff require_status_ok_iff group_ok_def unavailable_group_def)

lemma nonneg_loop:
  "forE (\<lambda>f. bindE (require_int_pa d f c) (\<lambda>n. raise_if (n < 0) (e f))) fs = Inr () \<longleftrightarrow> (\<forall>f \<in> set fs. nonneg_field d f)"
  by (auto simp: ok_iff nonneg_field_def not_less)

lemma group_ok_cong: "P d = Q d \<Longrightarrow> group_ok P (JObj d) = group_ok Q (JObj d)"
  by (simp add: group_ok_def)

lemma validate_cgroup_policy_map_ok_iff:
  "validate_cgroup_policy_map d c = Inr () \<longleftrightarrow> group_ok policy_map_group (JObj d)"
  unfolding validate_cgroup_policy_map_def status_dispatch
  by (rule group_ok_cong) (simp add: thenE_ok_iff bindE_ok_iff raise_if_ok_iff pa_string.read_ok pa_int.read_ok
      pa_strings.read_ok policy_map_group_def text_of_iff nonneg_field_def not_less, blast)

lemma validate_cgroup_callback_stats_ok_iff:
  "validate_cgroup_callback_stats d c = Inr () \<longleftrightarrow> group_ok callback_stats_group (JObj d)"
  unfolding validate_cgroup_callback_stats_def status_dispatch
  by (rule group_ok_cong) (auto simp: thenE_ok_iff bindE_ok_iff raise_if_ok_iff if_ok_iff pa_bool.read_ok pa_int.read_ok
      nonneg_loop callback_stats_group_def bool_of_iff)

lemma validate_dsq_counter_coherence_ok_iff:
  "validate_dsq_counter_coherence d c = Inr () \<longleftrightarrow> group_ok dsq_group (JObj d)"
  unfolding validate_dsq_counter_coherence_def status_dispatch
  by (rule group_ok_cong) (simp add: ok_iff dsq_group_def text_of_iff bool_of_iff)

definition v3_contract :: "json_object \<Rightarrow> bool" where
  "v3_contract abi \<longleftrightarrow>
     jget abi ''policy_version'' = JStr POLICY_VERSION \<and> int_of (jget abi ''abi_version'') = Some 3 \<and>
     jget abi ''abi_label'' = JStr ABI_LABEL \<and> jget abi ''vm_only'' = JBool True \<and>
     jget abi ''host_mutation'' = JBool False \<and> jget abi ''production_claim'' = JBool False \<and>
     jget abi ''release_eligible'' = JBool False \<and>
     (\<exists>sem. jget abi ''cgroup_semantics'' = JObj sem \<and> set (keys sem) = set (map fst SEMANTICS) \<and>
        (\<forall>(knob, expected) \<in> set SEMANTICS. jget sem knob = JStr expected)) \<and>
     group_ok policy_map_group (jget abi ''cgroup_policy_map'') \<and>
     group_ok callback_stats_group (jget abi ''cgroup_callback_stats'') \<and>
     group_ok dsq_group (jget abi ''dsq_counter_coherence'')"

lemma validate_v3_policy_abi_ok_iff: "validate_v3_policy_abi abi c = Inr () \<longleftrightarrow> v3_contract abi"
proof -
  have "validate_v3_cgroup_evidence abi c = Inr () \<longleftrightarrow>
      group_ok policy_map_group (jget abi ''cgroup_policy_map'') \<and>
      group_ok callback_stats_group (jget abi ''cgroup_callback_stats'') \<and>
      group_ok dsq_group (jget abi ''dsq_counter_coherence'')"
    unfolding validate_v3_cgroup_evidence_def ok_iff obj_of_iff validate_cgroup_policy_map_ok_iff
      validate_cgroup_callback_stats_ok_iff validate_dsq_counter_coherence_ok_iff
    by (simp only: group_ok_def) blast
  then show ?thesis
    by (simp add: validate_v3_policy_abi_def ok_iff v3_contract_def Let_def text_of_iff bool_of_iff obj_of_iff
        POLICY_VERSION_def ABI_LABEL_def case_prod_beta) blast
qed



lemma raises_pa [raises_intro]:
  "raises is_PolicyAbiError (require_string_pa d f c)" "raises is_PolicyAbiError (require_bool_pa d f c)"
  "raises is_PolicyAbiError (require_int_pa d f c)" "raises is_PolicyAbiError (require_object_pa d f c)"
  "raises is_PolicyAbiError (require_string_list d f c)"
  by (auto simp: raises_def dest!: pa_string.read_err pa_bool.read_err pa_int.read_err pa_object.read_err pa_strings.read_err)

lemma raises_require_status [raises_intro]: "raises is_PolicyAbiError (require_status d c)"
  unfolding require_status_def by (intro raises_intro) simp_all

lemma raises_validate_policy_abi_contract: "raises is_PolicyAbiError (validate_policy_abi_contract abi c)"
  unfolding validate_policy_abi_contract_def validate_v3_policy_abi_def validate_v3_cgroup_evidence_def
    validate_cgroup_policy_map_def validate_cgroup_callback_stats_def validate_dsq_counter_coherence_def Let_def
  by (intro raises_intro) simp_all

end
