(* ===== verification/RuntimeSample.thy ===== *)
theory RuntimeSample
  imports RuntimeCommon PolicyAbi
begin

text \<open>
  \<^verbatim>\<open>qa/runtime_sample_sched_ext.py\<close>, \<^verbatim>\<open>qa/runtime_sample_core.py\<close> and
  \<^verbatim>\<open>qa/runtime_sample_fixtures.py\<close>: validating one runtime sample of a sched_ext scheduler, a file of
  them, and the order of the alerts derived from them. A file is accepted when every sample is and the
  samples form a plausible history: sequence numbers strictly increase, the kernel's enable sequence never
  goes back, and the reported state fits the phase.
\<close>

section \<open>sched_ext facts\<close>

definition SCHED_STATES_rs :: "string list" where
  "SCHED_STATES_rs = [''disabled'', ''enabled'', ''enabling'', ''disabling'', ''unknown'', ''unavailable'']"

definition SCHED_EXT_PHASES :: "string list" where
  "SCHED_EXT_PHASES =
     [''before_attach'', ''during_attach'', ''after_attach'', ''after_rollback'', ''after_scheduler_exit'',
      ''after_watchdog_disable'', ''after_forced_disable'']"

definition TASK_EXT_UNAVAILABLE_VALUES :: "string list" where
  "TASK_EXT_UNAVAILABLE_VALUES = ['''', ''unknown'', ''unavailable'']"

definition validate_nonnegative_fact_value :: "json_object \<Rightarrow> string \<Rightarrow> string \<Rightarrow> check" where
  "validate_nonnegative_fact_value f field context =
     (bindE (jindex f ''value'') (\<lambda>raw.
     (let value = strip (py_str raw) in
     if value = ''unavailable'' then Inr ()
         else raise_if (\<not> isdecimal value)
         (RuntimeSampleError (msg [context, ''.'', field, '' must be a nonnegative integer or unavailable''])))))"

definition numeric_fact_value :: "json_object \<Rightarrow> string \<Rightarrow> int option result" where
  "numeric_fact_value row field =
     (bindE (require_object_rs row field ''runtime sample'') (\<lambda>f.
     bindE (jindex f ''value'') (\<lambda>raw.
     (let value = strip (py_str raw) in
     if isdecimal value then bindE (py_int value) (\<lambda>n. Inr (Some n)) else Inr None))))"

definition validate_sched_ext_facts :: "json_object \<Rightarrow> string \<Rightarrow> check" where
  "validate_sched_ext_facts row context =
     (bindE (validate_fact row ''state'' context) (\<lambda>state.
     bindE (jindex state ''value'') (\<lambda>raw_state.
     (let state_value = strip (py_str raw_state) in
     bindE (jindex state ''status'') (\<lambda>status.
     thenE (raise_if (status = JStr ''present'' \<and> state_value \<notin> set SCHED_STATES_rs)
         (RuntimeSampleError (msg [context, ''.state has unsupported sched_ext state: '', state_value]))) (
     bindE (validate_fact row ''ops'' context) (\<lambda>_.
     bindE (validate_fact row ''enable_seq'' context) (\<lambda>enable_seq.
     thenE (validate_nonnegative_fact_value enable_seq ''enable_seq'' context) (
     bindE (validate_fact row ''events'' context) (\<lambda>_.
     bindE (validate_fact row ''nr_rejected'' context) (\<lambda>nr_rejected.
     thenE (validate_nonnegative_fact_value nr_rejected ''nr_rejected'' context) (
     bindE (validate_fact row ''debug_dump'' context) (\<lambda>debug_dump.
     bindE (jindex debug_dump ''value'') (\<lambda>raw_debug.
     (let debug_value = py_str raw_debug in
     bindE (jindex debug_dump ''status'') (\<lambda>debug_status.
     thenE (raise_if (debug_status = JStr ''present'' \<and> \<not> is_digest_summary debug_value)
         (RuntimeSampleError (msg [context, ''.debug_dump must be a redacted digest summary'']))) (
     forE (\<lambda>field.
         if has_key row field then bindE (validate_fact row field context) (\<lambda>_. Inr ()) else Inr ())
         [''root_ops'', ''scheduler_events''])))))))))))))))))"

definition validate_task_ext_enabled :: "json_object \<Rightarrow> string \<Rightarrow> check" where
  "validate_task_ext_enabled row context =
     (bindE (optional_object row ''task_ext_enabled'' context) (\<lambda>task_ext.
     case task_ext of
         None \<Rightarrow> Inr ()
         | Some _ \<Rightarrow>
         (bindE (validate_fact row ''task_ext_enabled'' context) (\<lambda>f.
         bindE (jindex f ''value'') (\<lambda>raw.
         (let value = py_str raw in
         bindE (jindex f ''status'') (\<lambda>status.
         if status = JStr ''present'' then
         raise_if (value \<notin> {''true'', ''false''})
         (RuntimeSampleError (msg [context, ''.task_ext_enabled present evidence must be true or false'']))
         else
         raise_if (value \<notin> set TASK_EXT_UNAVAILABLE_VALUES)
         (RuntimeSampleError (msg [context, ''.task_ext_enabled unavailable evidence must be explicit''])))))))))"

definition validate_cgroup_semantic_labels :: "json_object \<Rightarrow> string \<Rightarrow> check" where
  "validate_cgroup_semantic_labels row context =
     (bindE (optional_object row ''cgroup_semantic_labels'' context) (\<lambda>labels.
     case labels of
         None \<Rightarrow> Inr ()
         | Some d \<Rightarrow>
         (thenE (raise_if (set (keys d) \<noteq> set (map fst SEMANTICS))
         (RuntimeSampleError (msg [context, ''.cgroup_semantic_labels keys do not match ABI-v3 contract'']))) (
         forE (\<lambda>(knob, expected).
         let actual = jget d knob in
         raise_if (actual \<noteq> JStr expected)
         (RuntimeSampleError (msg [context, ''.cgroup_semantic_labels.'', knob, '' must be '', expected]))) SEMANTICS))))"

definition validate_teardown_rollback :: "json_object \<Rightarrow> string \<Rightarrow> check" where
  "validate_teardown_rollback row context =
     forE (\<lambda>field.
       if has_key row field then bindE (validate_fact row field context) (\<lambda>_. Inr ()) else Inr ())
       [''teardown_state'', ''rollback_state'']"

definition validate_sched_ext_phase :: "json_object \<Rightarrow> string \<Rightarrow> check" where
  "validate_sched_ext_phase row context =
     (if \<not> has_key row ''sched_ext_phase'' then Inr ()
      else
        (bindE (require_string_rs row ''sched_ext_phase'' context) (\<lambda>phase.
          thenE (reject_private_leaks_rs (JStr phase) (msg [context, ''.sched_ext_phase''])) (
          raise_if (phase \<notin> set SCHED_EXT_PHASES)
              (RuntimeSampleError (msg [context, ''.sched_ext_phase has unsupported value'']))))))"

text \<open>
  One round of the loop in \<^verbatim>\<open>validate_sched_ext_sequence\<close>, over \<^verbatim>\<open>last_sequence\<close> and
  \<^verbatim>\<open>last_enable_seq\<close>.
\<close>

definition AFTER_PHASES :: "string list" where
  "AFTER_PHASES = [''after_rollback'', ''after_scheduler_exit'', ''after_watchdog_disable'', ''after_forced_disable'']"

definition fact_text :: "json \<Rightarrow> string" where
  "fact_text v = (case obj_of v of Some d \<Rightarrow> py_str (jget_default d ''value'' (JStr [])) | None \<Rightarrow> [])"

definition sched_ext_step ::
    "int option \<times> int option \<Rightarrow> nat \<times> json_object \<Rightarrow> (int option \<times> int option) result" where
  "sched_ext_step = (\<lambda>(last_sequence, last_enable_seq) (index, row).
     let context = (msg [''sample['', show_nat index, '']'']) in
     (bindE ((case int_of (jget row ''sequence'') of
         Some sequence \<Rightarrow>
         thenE (raise_if (case last_sequence of None \<Rightarrow> False | Some l \<Rightarrow> sequence \<le> l)
         (RuntimeSampleError (msg [context, ''.sequence must increase monotonically''])))
         (Inr (Some sequence))
         | None \<Rightarrow> Inr last_sequence)) (\<lambda>last_sequence'.
     bindE (numeric_fact_value row ''enable_seq'') (\<lambda>enable_seq.
     bindE ((case enable_seq of
         Some n \<Rightarrow>
         thenE (raise_if (case last_enable_seq of None \<Rightarrow> False | Some l \<Rightarrow> n < l)
         (RuntimeSampleError (msg [context, ''.enable_seq is stale relative to earlier sched_ext state''])))
         (Inr (Some n))
         | None \<Rightarrow> Inr last_enable_seq)) (\<lambda>last_enable_seq'.
     (let phase = jget row ''sched_ext_phase'' in
     (let state_value = fact_text (jget row ''state'') in
     (let ops_value = fact_text (jget row ''ops'') in
     thenE (raise_if (phase = JStr ''before_attach'' \<and> state_value = ''enabled'')
         (RuntimeSampleError (msg [context, ''.sched_ext_phase before_attach cannot report enabled state'']))) (
     bindE (in_str_set phase AFTER_PHASES) (\<lambda>after.
     thenE (if after then
         (thenE (raise_if (state_value \<notin> {''disabled'', ''unknown'', ''unavailable''})
         (RuntimeSampleError (msg [context, ''.'', py_str phase, '' must report disabled/unknown/unavailable state'']))) (
         raise_if (state_value = ''disabled'' \<and> ops_value \<notin> {''none'', ''unavailable'', ''unknown''})
         (RuntimeSampleError (msg [context, ''.'', py_str phase, '' disabled state must not report live root ops'']))))
         else Inr ()) (
     Inr (last_sequence', last_enable_seq'))))))))))))"

definition validate_sched_ext_sequence :: "json_object list \<Rightarrow> check" where
  "validate_sched_ext_sequence rows =
     bindE (foldE sched_ext_step (None, None) (enumerate_from 0 rows)) (\<lambda>_. Inr ())"

section \<open>A sample\<close>

definition SAMPLE_SCHEMA :: string where
  "SAMPLE_SCHEMA = ''zig-scheduler/runtime-sample/v1''"

definition COUNTERS :: "string list" where
  "COUNTERS = [''nr_rejected'', ''dispatch_failed'', ''fallback'', ''fatal'']"

definition DSQ_DEPTH_FIELDS :: "string list" where
  "DSQ_DEPTH_FIELDS = [''global'', ''local'', ''shared'']"

definition LATENCY_FIELDS :: "string list" where
  "LATENCY_FIELDS = [''p50_us'', ''p95_us'', ''p99_us'', ''max_us'']"

definition SCHEDULER_COUNTER_FIELDS :: "string list" where
  "SCHEDULER_COUNTER_FIELDS = [''context_switches'', ''wakeups'', ''migrations'']"

definition FAIRNESS_STATES :: "string list" where
  "FAIRNESS_STATES = [''ok'', ''watch'', ''starved'', ''unknown'']"

definition SHA256_ZERO :: string where
  "SHA256_ZERO = replicate 64 CHR ''0''"

definition UNAVAILABLE_STATUSES :: "string list" where
  "UNAVAILABLE_STATUSES = [''missing'', ''unreadable'', ''unknown'']"

definition UNAVAILABLE_VALUES :: "string list" where
  "UNAVAILABLE_VALUES = ['''', ''missing'', ''none'', ''null'', ''unavailable'', ''unknown'']"

definition validate_nonnegative_fields :: "json_object \<Rightarrow> string list \<Rightarrow> string \<Rightarrow> check" where
  "validate_nonnegative_fields data names context =
     forE (\<lambda>field.
       bindE (require_int_rs data field context) (\<lambda>n.
       raise_if (n < 0) (RuntimeSampleError (msg [context, ''.'', field, '' must be nonnegative''])))) names"

definition is_unavailable_object :: "json_object \<Rightarrow> bool" where
  "is_unavailable_object data =
     (case (str_of (jget data ''status''), str_of (jget data ''value'')) of
        (Some status, Some value) \<Rightarrow> status \<in> set UNAVAILABLE_STATUSES \<and> casefold value \<in> set UNAVAILABLE_VALUES
      | _ \<Rightarrow> False)"

definition validate_optional_counter_sets :: "json_object \<Rightarrow> string \<Rightarrow> check" where
  "validate_optional_counter_sets row context =
     (bindE (optional_object row ''policy_counters'' context) (\<lambda>counters.
     thenE (case counters of
         None \<Rightarrow> Inr ()
         | Some d \<Rightarrow>
         if is_unavailable_object d then Inr ()
         else validate_nonnegative_fields d COUNTERS (msg [context, ''.policy_counters''])) (
     bindE (optional_object row ''sample_loss'' context) (\<lambda>loss.
     case loss of
         None \<Rightarrow> Inr ()
         | Some d \<Rightarrow>
         if is_unavailable_object d then Inr ()
         else
         (thenE (validate_nonnegative_fields d [''lost_samples'', ''backpressure_dropped''] (msg [context, ''.sample_loss''])) (
         forE (\<lambda>field.
         if has_key d field then
         bindE (require_int_rs d field (msg [context, ''.sample_loss''])) (\<lambda>n.
         raise_if (n < 0) (RuntimeSampleError (msg [context, ''.sample_loss.'', field, '' must be nonnegative''])))
         else Inr ())
         [''ring_buffer_overruns'', ''reader_lag_events'']))))))"

definition validate_metric_object :: "json_object \<Rightarrow> string list \<Rightarrow> string \<Rightarrow> check" where
  "validate_metric_object data names context =
     (if is_unavailable_object data then Inr () else validate_nonnegative_fields data names context)"

definition validate_counter_map :: "json_object \<Rightarrow> string \<Rightarrow> check" where
  "validate_counter_map data context =
     (thenE (raise_if (data = []) (RuntimeSampleError (msg [context, '' must not be empty'']))) (
     forE (\<lambda>(key, value).
         (thenE (raise_if (prefix ''/'' key \<or> contains ''..'' key \<or> key = [])
         (RuntimeSampleError (msg [context, ''.'', key, '' is not a stable redacted key'']))) (
         thenE (reject_private_leaks_rs (JStr key) (msg [context, ''.'', key])) (
         raise_if (case int_of value of None \<Rightarrow> True | Some n \<Rightarrow> n < 0)
         (RuntimeSampleError (msg [context, ''.'', key, '' must be a nonnegative integer''])))))) data))"

definition validate_digest :: "string \<Rightarrow> string \<Rightarrow> check" where
  "validate_digest value context =
     raise_if (length value \<noteq> 64 \<or> value = SHA256_ZERO \<or> list_ex (\<lambda>c. \<not> is_hex_char c) value)
       (RuntimeSampleError (msg [context, '' must be a lowercase nonzero sha256 digest'']))"

definition validate_benchmark_refs :: "json_object \<Rightarrow> string \<Rightarrow> check" where
  "validate_benchmark_refs row context =
     (let refs = jget row ''benchmark_histograms'' in
      if refs = JNull then Inr ()
      else case list_of refs of
        None \<Rightarrow> Inl (RuntimeSampleError (msg [context, ''.benchmark_histograms must be a list'']))
      | Some items \<Rightarrow>
          forE (\<lambda>(index, item).
            case obj_of item of
              None \<Rightarrow> Inl (RuntimeSampleError (msg [context, ''.benchmark_histograms['', show_nat index, ''] must be an object'']))
            | Some d \<Rightarrow>
                let ref_context = (msg [context, ''.benchmark_histograms['', show_nat index, '']'']) in
                (bindE (require_string_rs d ''record_path'' ref_context) (\<lambda>path.
                  thenE (raise_if (prefix ''/'' path \<or> ''..'' \<in> set (path_parts (mk_path path)))
                      (RuntimeSampleError (msg [ref_context, ''.record_path must be repo-relative'']))) (
                  bindE (require_string_rs d ''record_sha256'' ref_context) (\<lambda>sha.
                  thenE (validate_digest sha (msg [ref_context, ''.record_sha256''])) (
                  bindE (require_string_rs d ''histogram_id'' ref_context) (\<lambda>_.
                  bindE (require_bool_rs d ''record_only'' ref_context) (\<lambda>record_only.
                  raise_if (\<not> record_only) (RuntimeSampleError (msg [ref_context, ''.record_only must be true'']))))))))))
            (enumerate_from 0 items))"

definition validate_root_fields :: "json_object \<Rightarrow> string \<Rightarrow> check" where
  "validate_root_fields row context =
     forE (\<lambda>field. raise_if (field \<notin> set ROOT_FIELDS)
       (RuntimeSampleError (msg [context, '' has unsupported runtime sample field: '', field]))) (keys row)"

definition validate_scheduler_telemetry :: "json_object \<Rightarrow> string \<Rightarrow> check" where
  "validate_scheduler_telemetry row context =
     (thenE (forE (\<lambda>(field, fields).
         bindE (optional_object row field context) (\<lambda>counters.
         case counters of
         None \<Rightarrow> Inr ()
         | Some d \<Rightarrow> validate_metric_object d fields (msg [context, ''.'', field])))
         [(''dsq_depth'', DSQ_DEPTH_FIELDS), (''queue_latency'', LATENCY_FIELDS),
         (''scheduler_counters'', SCHEDULER_COUNTER_FIELDS)]) (
     bindE (optional_object row ''fairness'' context) (\<lambda>fairness.
     thenE (case fairness of
         None \<Rightarrow> Inr ()
         | Some d \<Rightarrow>
         if is_unavailable_object d then Inr ()
         else
         (bindE (require_string_rs d ''state'' (msg [context, ''.fairness''])) (\<lambda>state.
         thenE (raise_if (state \<notin> set FAIRNESS_STATES)
         (RuntimeSampleError (msg [context, ''.fairness.state has unsupported value'']))) (
         validate_nonnegative_fields d [''starved_tasks'', ''max_wait_us''] (msg [context, ''.fairness'']))))) (
     bindE (optional_object row ''task_counts'' context) (\<lambda>task_counts.
     thenE (case task_counts of
         None \<Rightarrow> Inr ()
         | Some d \<Rightarrow>
         (bindE (require_object_rs d ''by_cgroup_digest'' (msg [context, ''.task_counts''])) (\<lambda>by_digest.
         thenE (validate_counter_map by_digest (msg [context, ''.task_counts.by_cgroup_digest''])) (
         bindE (require_object_rs d ''by_class'' (msg [context, ''.task_counts''])) (\<lambda>by_class.
         validate_counter_map by_class (msg [context, ''.task_counts.by_class''])))))) (
     bindE (optional_object row ''sched_ext_observation'' context) (\<lambda>sched_ext.
     thenE (case sched_ext of
         None \<Rightarrow> Inr ()
         | Some d \<Rightarrow>
         (bindE (validate_fact d ''dump'' (msg [context, ''.sched_ext_observation''])) (\<lambda>dump.
         bindE (jindex dump ''status'') (\<lambda>status.
         bindE (jindex dump ''value'') (\<lambda>value.
         thenE (raise_if (status = JStr ''present'' \<and> \<not> is_digest_summary (py_str value))
         (RuntimeSampleError (msg [context, ''.sched_ext_observation.dump must be a redacted digest summary'']))) (
         bindE (require_object_rs d ''tracepoints'' (msg [context, ''.sched_ext_observation''])) (\<lambda>tracepoints.
         validate_counter_map tracepoints (msg [context, ''.sched_ext_observation.tracepoints''])))))))) (
     validate_benchmark_refs row context))))))))"

definition validate_policy_abi :: "json_object \<Rightarrow> string \<Rightarrow> check" where
  "validate_policy_abi row context =
     (bindE (require_object_rs row ''policy_abi'' context) (\<lambda>abi.
     thenE (reraise is_PolicyAbiError (\<lambda>exc. RuntimeSampleError (exn_str exc))
         (validate_policy_abi_contract abi (msg [context, ''.policy_abi'']))) (
     reject_private_leaks_rs (JObj abi) (msg [context, ''.policy_abi'']))))"

definition validate_sample :: "json_object \<Rightarrow> nat \<Rightarrow> check" where
  "validate_sample row index =
     (let context = (msg [''sample['', show_nat index, '']'']) in
      (thenE (reject_private_leaks_rs (JObj row) context) (
      thenE (validate_root_fields row context) (
      bindE (require_string_rs row ''schema'' context) (\<lambda>schema.
      thenE (raise_if (schema \<noteq> SAMPLE_SCHEMA) (RuntimeSampleError (msg [context, '' has unsupported schema'']))) (
      bindE (require_int_rs row ''sequence'' context) (\<lambda>_.
      thenE (validate_sched_ext_facts row context) (
      thenE (validate_sched_ext_phase row context) (
      bindE (require_string_rs row ''events_hash'' context) (\<lambda>_.
      bindE (require_string_rs row ''cgroup_membership_digest'' context) (\<lambda>digest.
      thenE (validate_digest digest (msg [context, ''.cgroup_membership_digest''])) (
      thenE (forE (\<lambda>field.
          if has_key row field then bindE (validate_fact row field context) (\<lambda>_. Inr ()) else Inr ())
          [''cgroup_membership_status'', ''workload'']) (
      bindE (require_bool_rs row ''workload_alive'' context) (\<lambda>_.
      bindE (require_bool_rs row ''private_command_lines_sampled'' context) (\<lambda>private_lines.
      thenE (raise_if private_lines (RuntimeSampleError (msg [context, '' sampled private command lines'']))) (
      thenE (validate_optional_counter_sets row context) (
      thenE (validate_task_ext_enabled row context) (
      thenE (validate_cgroup_semantic_labels row context) (
      thenE (validate_teardown_rollback row context) (
      thenE (validate_scheduler_telemetry row context) (
      validate_policy_abi row context)))))))))))))))))))))"

definition validate_file_rs :: "env \<Rightarrow> path \<Rightarrow> check" where
  "validate_file_rs env path =
     (bindE (load_jsonl_rs env path) (\<lambda>rows.
     thenE (forE (\<lambda>(index, row). validate_sample row index) (enumerate_from 0 rows)) (
     validate_sched_ext_sequence rows)))"

section \<open>The order of alerts\<close>

text \<open>One round of the loop, over \<^verbatim>\<open>rejected_seen\<close> and \<^verbatim>\<open>dead_seen\<close>.\<close>

definition rejected_positive :: "json \<Rightarrow> bool result" where
  "rejected_positive rejected =
     (case (int_of rejected, str_of rejected) of
        (Some n, _) \<Rightarrow> Inr (0 < n)
      | (None, Some s) \<Rightarrow> if isdecimal s then bindE (py_int s) (\<lambda>n. Inr (0 < n)) else Inr False
      | _ \<Rightarrow> Inr False)"

definition alert_step :: "string \<Rightarrow> bool \<times> bool \<Rightarrow> nat \<times> json_object \<Rightarrow> (bool \<times> bool) result" where
  "alert_step label = (\<lambda>(rejected_seen, dead_seen) (index, row).
     let event = jget row ''event''; reason = jget row ''reason'' in
     (bindE ((if event = JStr ''runtime_sample'' then
         bindE (rejected_positive (jget row ''nr_rejected'')) (\<lambda>positive.
         Inr (rejected_seen \<or> positive, dead_seen \<or> jget row ''workload_alive'' = JBool False))
         else Inr (rejected_seen, dead_seen))) (\<lambda>seen.
     thenE (raise_if (reason = JStr ''runtime_nr_rejected_nonzero'' \<and> \<not> fst seen)
         (RuntimeSampleError (msg [label, '' incident precedes nonzero nr_rejected sample at row '', show_nat index]))) (
     thenE (raise_if (reason = JStr ''runtime_workload_dead'' \<and> \<not> snd seen)
         (RuntimeSampleError (msg [label, '' incident precedes workload-dead sample at row '', show_nat index]))) (
     Inr seen)))))"

definition validate_alert_order :: "json_object list \<Rightarrow> string \<Rightarrow> check" where
  "validate_alert_order rows label =
     bindE (foldE (alert_step label) (False, False) (enumerate_from 0 rows)) (\<lambda>_. Inr ())"

section \<open>The reference sample\<close>

definition present :: "string \<Rightarrow> json" where
  "present s = JObj [(''status'', JStr ''present''), (''value'', JStr s)]"

definition good_sample :: json_object where
  "good_sample =
     (let digest = replicate 64 CHR ''a''; policy_abi = good_policy_abi ''unavailable'' in
      [(''schema'', JStr SAMPLE_SCHEMA), (''sequence'', JInt 0),
       (''sample_source_event'', JStr ''runtime-sample-self-test''),
       (''observation_source'', JStr ''vm_fixture_sched_ext''), (''sched_ext_phase'', JStr ''during_attach''),
       (''state'', present ''enabled''), (''ops'', present ''zigsched_minimal''), (''enable_seq'', present ''42''),
       (''events'', present ''nr_rejected: 0''), (''events_hash'', JStr ''ab12''), (''nr_rejected'', present ''0''),
       (''debug_dump'', JObj [(''status'', JStr ''missing''), (''value'', JStr '''')]),
       (''root_ops'', present ''zigsched_minimal''), (''scheduler_events'', present ''nr_rejected: 0''),
       (''policy_counters'',
          JObj [(''nr_rejected'', JInt 0), (''dispatch_failed'', JInt 0), (''fallback'', JInt 0), (''fatal'', JInt 0)]),
       (''sample_loss'',
          JObj [(''lost_samples'', JInt 0), (''backpressure_dropped'', JInt 0), (''ring_buffer_overruns'', JInt 0),
            (''reader_lag_events'', JInt 0)]),
       (''dsq_depth'', JObj [(''global'', JInt 2), (''local'', JInt 1), (''shared'', JInt 0)]),
       (''queue_latency'', JObj [(''p50_us'', JInt 40), (''p95_us'', JInt 120), (''p99_us'', JInt 250), (''max_us'', JInt 300)]),
       (''fairness'', JObj [(''state'', JStr ''ok''), (''starved_tasks'', JInt 0), (''max_wait_us'', JInt 0)]),
       (''task_counts'',
          JObj [(''by_cgroup_digest'', JObj [(digest, JInt 3)]),
            (''by_class'', JObj [(''interactive'', JInt 1), (''batch'', JInt 2)])]),
       (''scheduler_counters'', JObj [(''context_switches'', JInt 123), (''wakeups'', JInt 45), (''migrations'', JInt 6)]),
       (''sched_ext_observation'',
          JObj [(''dump'', present (''sha256:'' @ replicate 64 CHR ''b'' @ '';bytes:128'')),
            (''tracepoints'', JObj [(''sched_switch'', JInt 123), (''sched_wakeup'', JInt 45)])]),
       (''benchmark_histograms'',
          JList [JObj [(''record_path'', JStr ''fixtures/benchmark-output/cyclictest-recorded.json''),
            (''record_sha256'', JStr (replicate 64 CHR ''c'')), (''histogram_id'', JStr ''latency_us''),
            (''record_only'', JBool True)]]),
       (''policy_abi'', JObj policy_abi), (''cgroup_semantic_labels'', JObj (map (\<lambda>(k, v). (k, JStr v)) SEMANTICS)),
       (''cgroup_membership_digest'', JStr digest), (''cgroup_membership_status'', present ''present''),
       (''task_ext_enabled'', present ''true''), (''teardown_state'', present ''attached''),
       (''rollback_state'', present ''not_applicable''), (''workload'', present ''alive''),
       (''workload_alive'', JBool True), (''private_command_lines_sampled'', JBool False)])"

section \<open>What an accepted sample has\<close>

lemma fact_ok_value: "fact_ok (JObj d) \<Longrightarrow> \<exists>s. jget d ''value'' = JStr s"
  by (auto simp: fact_ok_def)

lemma fact_ok_has_key: "fact_ok (JObj d) \<Longrightarrow> has_key d ''value'' \<and> has_key d ''status''"
  by (auto simp: fact_ok_def intro: jget_has_key)

lemma validate_sched_ext_facts_ok:
  "validate_sched_ext_facts row c = Inr () \<Longrightarrow>
     fact_ok (jget row ''state'') \<and> fact_ok (jget row ''ops'') \<and> fact_ok (jget row ''enable_seq'') \<and> fact_ok (jget row ''nr_rejected'')"
  unfolding validate_sched_ext_facts_def thenE_ok_iff bindE_ok_iff validate_fact_ok_iff Let_def by blast

lemma validate_sample_okE:
  assumes "validate_sample row i = Inr ()"
  obtains n where "reject_private_leaks_rs (JObj row) (msg [''sample['', show_nat i, '']'']) = Inr ()"
    and "set (keys row) \<subseteq> set ROOT_FIELDS" and "int_of (jget row ''sequence'') = Some n"
    and "fact_ok (jget row ''state'')" and "fact_ok (jget row ''ops'')" and "fact_ok (jget row ''enable_seq'')"
    and "fact_ok (jget row ''nr_rejected'')" and "jget row ''private_command_lines_sampled'' = JBool False"
    and "validate_sched_ext_phase row (msg [''sample['', show_nat i, '']'']) = Inr ()"
    and "validate_policy_abi row (msg [''sample['', show_nat i, '']'']) = Inr ()"
  using assms unfolding validate_sample_def Let_def thenE_ok_iff bindE_ok_iff rs_int.read_ok rs_bool.read_ok raise_if_ok_iff
    bool_of_iff
proof (elim exE conjE, goal_cases)
  case (1 schema n hash digest alive pl)
  then show ?case
    by (intro 1(1)[of n]) (auto simp: validate_root_fields_def ok_iff dest: validate_sched_ext_facts_ok)
qed

section \<open>The history\<close>

definition row_sequence :: "json_object \<Rightarrow> int option" where
  "row_sequence row = int_of (jget row ''sequence'')"

definition row_enable_seq :: "json_object \<Rightarrow> int option" where
  "row_enable_seq row =
     (case obj_of (jget row ''enable_seq'') of
        None \<Rightarrow> None
      | Some d \<Rightarrow>
          let value = strip (py_str (jget d ''value'')) in if isdecimal value then Some (digits_value value) else None)"

text \<open>The state that a phase allows: never enabled before the attach, and switched off after the end, with no
  operations left when it is reported disabled.\<close>

definition phase_consistent :: "json_object \<Rightarrow> bool" where
  "phase_consistent row \<longleftrightarrow>
     (let state = fact_text (jget row ''state''); ops = fact_text (jget row ''ops'') in
      (jget row ''sched_ext_phase'' = JStr ''before_attach'' \<longrightarrow> state \<noteq> ''enabled'') \<and>
      (\<forall>p \<in> set AFTER_PHASES. jget row ''sched_ext_phase'' = JStr p \<longrightarrow>
         state \<in> {''disabled'', ''unknown'', ''unavailable''} \<and>
         (state = ''disabled'' \<longrightarrow> ops \<in> {''none'', ''unavailable'', ''unknown''})))"

lemma numeric_fact_value_ok:
  "numeric_fact_value row ''enable_seq'' = Inr n \<Longrightarrow> n = row_enable_seq row"
  by (auto simp: numeric_fact_value_def ok_iff row_enable_seq_def Let_def split: if_splits)

lemma in_str_set_ok: "in_str_set v S = Inr b \<Longrightarrow> b = (\<exists>p \<in> set S. v = JStr p)"
  by (cases v) auto

lemma sched_ext_step_ok:
  assumes "sched_ext_step (ls, le) (i, row) = Inr (ls', le')"
  shows "ls' = (case row_sequence row of None \<Rightarrow> ls | Some k \<Rightarrow> Some k) \<and>
    (\<forall>k l. row_sequence row = Some k \<longrightarrow> ls = Some l \<longrightarrow> l < k) \<and>
    le' = (case row_enable_seq row of None \<Rightarrow> le | Some k \<Rightarrow> Some k) \<and>
    (\<forall>k l. row_enable_seq row = Some k \<longrightarrow> le = Some l \<longrightarrow> l \<le> k) \<and> phase_consistent row"
  using assms unfolding sched_ext_step_def Let_def prod.case bindE_ok_iff thenE_ok_iff
proof (elim exE conjE, goal_cases)
  case (1 s n e a)
  have n: "n = row_enable_seq row" using 1(2) by (rule numeric_fact_value_ok)
  have seq: "s = (case row_sequence row of None \<Rightarrow> ls | Some k \<Rightarrow> Some k)"
      "\<forall>k l. row_sequence row = Some k \<longrightarrow> ls = Some l \<longrightarrow> l < k"
    using 1(1) by (cases "int_of (jget row ''sequence'')"; cases ls; auto simp: row_sequence_def ok_iff)+
  have en: "e = (case row_enable_seq row of None \<Rightarrow> le | Some k \<Rightarrow> Some k)"
      "\<forall>k l. row_enable_seq row = Some k \<longrightarrow> le = Some l \<longrightarrow> l \<le> k"
    using 1(3) n by (cases "row_enable_seq row"; cases le; auto simp: ok_iff)+
  have "phase_consistent row"
    unfolding phase_consistent_def Let_def
    using 1(4-) by (auto simp: ok_iff dest!: in_str_set_ok split: if_splits)
  with seq en 1 show ?case by simp
qed

lemma sched_ext_step_last:
  assumes "sched_ext_step s x = Inr s'"
  shows "fst s' = (case row_sequence (snd x) of None \<Rightarrow> fst s | Some k \<Rightarrow> Some k)"
    and "snd s' = (case row_enable_seq (snd x) of None \<Rightarrow> snd s | Some k \<Rightarrow> Some k)"
    and "row_sequence (snd x) = Some k \<Longrightarrow> fst s = Some l \<Longrightarrow> l < k"
    and "row_enable_seq (snd x) = Some k \<Longrightarrow> snd s = Some l \<Longrightarrow> l \<le> k"
    and "phase_consistent (snd x)"
proof -
  obtain ls le i row ls' le' where eq: "s = (ls, le)" "x = (i, row)" "s' = (ls', le')"
    by (metis prod.exhaust)
  note ok = sched_ext_step_ok[OF assms[unfolded eq]]
  show "fst s' = (case row_sequence (snd x) of None \<Rightarrow> fst s | Some k \<Rightarrow> Some k)"
    "snd s' = (case row_enable_seq (snd x) of None \<Rightarrow> snd s | Some k \<Rightarrow> Some k)" "phase_consistent (snd x)"
    using ok by (simp_all only: eq fst_conv snd_conv)
  show "row_sequence (snd x) = Some k \<Longrightarrow> fst s = Some l \<Longrightarrow> l < k"
    "row_enable_seq (snd x) = Some k \<Longrightarrow> snd s = Some l \<Longrightarrow> l \<le> k"
    using ok unfolding eq fst_conv snd_conv by blast+
qed

interpretation rs_sequence: monotone_loop sched_ext_step fst "\<lambda>x. row_sequence (snd x)" "(<)"
  by unfold_locales (auto simp: sched_ext_step_last)

interpretation rs_enable_seq: monotone_loop sched_ext_step snd "\<lambda>x. row_enable_seq (snd x)" "(\<le>)"
  by unfold_locales (auto simp: sched_ext_step_last)

lemma foldE_each:
  assumes "foldE f s xs = Inr s'" and "x \<in> set xs"
  shows "\<exists>t t'. f t x = Inr t'"
  using assms by (induction xs arbitrary: s) (auto simp: bindE_ok_iff)

lemma map_filter_enumerate:
  "List.map_filter (\<lambda>x. f (snd x)) (enumerate_from n xs) = List.map_filter f xs"
  by (induction xs arbitrary: n) (simp_all add: List.map_filter_simps split: option.split)

lemma validate_sched_ext_sequence_ok:
  assumes "validate_sched_ext_sequence rows = Inr ()"
  shows "sorted_wrt (<) (List.map_filter row_sequence rows)" and "sorted_wrt (\<le>) (List.map_filter row_enable_seq rows)"
    and "row \<in> set rows \<Longrightarrow> phase_consistent row"
proof -
  obtain s where loop: "foldE sched_ext_step (None, None) (enumerate_from 0 rows) = Inr s"
    using assms by (auto simp: validate_sched_ext_sequence_def ok_iff)
  show "sorted_wrt (<) (List.map_filter row_sequence rows)" "sorted_wrt (\<le>) (List.map_filter row_enable_seq rows)"
    using rs_sequence.loop_sorted[OF loop] rs_enable_seq.loop_sorted[OF loop] by (simp_all add: map_filter_enumerate)
  show "row \<in> set rows \<Longrightarrow> phase_consistent row"
    using foldE_each[OF loop] enumerate_from_index[of row rows 0] sched_ext_step_last(5) by fastforce
qed

lemma validate_file_rs_okE:
  assumes "validate_file_rs env path = Inr ()"
  obtains rows where "load_jsonl_rs env path = Inr rows"
    and "\<And>row. row \<in> set rows \<Longrightarrow> \<exists>i. validate_sample row i = Inr ()"
    and "validate_sched_ext_sequence rows = Inr ()"
  using assms enumerate_from_index[of _ _ 0] by (fastforce simp: validate_file_rs_def ok_iff)

lemma map_filter_total: "(\<And>x. x \<in> set xs \<Longrightarrow> f x \<noteq> None) \<Longrightarrow> length (List.map_filter f xs) = length xs"
  by (induction xs) (fastforce simp: List.map_filter_simps split: option.split)+

text \<open>C24: the samples of an accepted file are a history: there is at least one, every sample
  has a sequence number and these strictly increase, the enable sequence of the kernel never goes back
  where it is known, and every sample's state fits its phase: not enabled before the attach, and off
  after a rollback, an exit or a disable.\<close>

theorem runtime_file_history:
  assumes "validate_file_rs env path = Inr ()"
  shows "\<exists>rows. load_jsonl_rs env path = Inr rows \<and> rows \<noteq> [] \<and>
    length (List.map_filter row_sequence rows) = length rows \<and> sorted_wrt (<) (List.map_filter row_sequence rows) \<and>
    sorted_wrt (\<le>) (List.map_filter row_enable_seq rows) \<and> (\<forall>row \<in> set rows. phase_consistent row)"
proof -
  from assms obtain rows where rows: "load_jsonl_rs env path = Inr rows"
    and each: "\<And>row. row \<in> set rows \<Longrightarrow> \<exists>i. validate_sample row i = Inr ()"
    and seq: "validate_sched_ext_sequence rows = Inr ()"
    by (rule validate_file_rs_okE) blast
  have "row_sequence row \<noteq> None" if "row \<in> set rows" for row
    using each[OF that] by (auto elim: validate_sample_okE simp: row_sequence_def)
  then have "length (List.map_filter row_sequence rows) = length rows"
    by (rule map_filter_total)
  then show ?thesis
    using rows rs_rows.load_nonempty[OF rows] validate_sched_ext_sequence_ok[OF seq] by blast
qed

text \<open>nothing private and no claim is in an accepted file: at no depth of any
  sample has an object a key whose tokens contain those of a forbidden key, or a claim flag set, and no
  string contains a forbidden needle; no sample recorded private command lines.\<close>

theorem runtime_file_private_nowhere:
  assumes "validate_file_rs env path = Inr ()" and "load_jsonl_rs env path = Inr rows" and "row \<in> set rows"
    and "(c, v) \<in> set (nodes c' (JObj row))"
  shows "jget row ''private_command_lines_sampled'' = JBool False \<and>
    (\<forall>d k w. v = JObj d \<and> (k, w) \<in> set d \<longrightarrow>
       (\<forall>pat \<in> set FORBIDDEN_KEY_PATTERNS_rs. \<nexists>a b. private_key_tokens k = a @ pat @ b) \<and>
       (casefold k \<in> set CLAIM_KEYS \<longrightarrow> w \<noteq> JBool True)) \<and>
    (\<forall>s. v = JStr s \<longrightarrow> (\<forall>needle \<in> set FORBIDDEN_TEXT_NEEDLES. \<not> contains needle (casefold s)))"
proof -
  from assms(1) obtain i where i: "validate_sample row i = Inr ()"
    by (rule validate_file_rs_okE) (use assms(2,3) in auto)
  have scan: "reject_private_leaks_rs (JObj row) c' = Inr ()"
    using i by (rule validate_sample_okE) (subst rs_scan.scan_context)
  then have "node_ok_rs c v" using assms(4) by (rule rs_scan.scan_node)
  moreover have "jget row ''private_command_lines_sampled'' = JBool False"
    using i by (rule validate_sample_okE)
  ultimately show ?thesis
    by (cases v) (force simp: private_key_has_pattern_def private_text_contains_def list_ex_iff contains_pattern_iff)+
qed

section \<open>Alerts\<close>

definition rejecting_row :: "json_object \<Rightarrow> bool" where
  "rejecting_row row \<longleftrightarrow> jget row ''event'' = JStr ''runtime_sample'' \<and> rejected_positive (jget row ''nr_rejected'') = Inr True"

definition dead_row :: "json_object \<Rightarrow> bool" where
  "dead_row row \<longleftrightarrow> jget row ''event'' = JStr ''runtime_sample'' \<and> jget row ''workload_alive'' = JBool False"

lemma alert_step_ok:
  assumes "alert_step label (r, d) (i, row) = Inr (r', d')"
  shows "r' \<longleftrightarrow> r \<or> rejecting_row row" and "d' \<longleftrightarrow> d \<or> dead_row row"
    and "jget row ''reason'' = JStr ''runtime_nr_rejected_nonzero'' \<Longrightarrow> r'"
    and "jget row ''reason'' = JStr ''runtime_workload_dead'' \<Longrightarrow> d'"
  using assms by (auto simp: alert_step_def rejecting_row_def dead_row_def ok_iff Let_def split: if_splits)

lemma list_ex_take_snoc:
  assumes "i < length (xs @ [x])" and "i < length xs \<Longrightarrow> list_ex P (take (Suc i) xs)"
    and "i = length xs \<Longrightarrow> list_ex P xs \<or> P x"
  shows "list_ex P (take (Suc i) (xs @ [x]))"
proof (cases "i < length xs")
  case True
  with assms(2) show ?thesis by simp
next
  case False
  with assms(1) have "i = length xs" by simp
  with assms(3) show ?thesis by auto
qed

lemma alert_loop:
  assumes "foldE (alert_step label) (False, False) (enumerate_from 0 rows) = Inr (r, d)"
  shows "r = list_ex rejecting_row rows \<and> d = list_ex dead_row rows \<and>
    (\<forall>i < length rows.
       (jget (rows ! i) ''reason'' = JStr ''runtime_nr_rejected_nonzero'' \<longrightarrow> list_ex rejecting_row (take (Suc i) rows)) \<and>
       (jget (rows ! i) ''reason'' = JStr ''runtime_workload_dead'' \<longrightarrow> list_ex dead_row (take (Suc i) rows)))"
  using assms
proof (induction rows arbitrary: r d rule: rev_induct)
  case Nil
  then show ?case by simp
next
  case (snoc row rows)
  from snoc.prems obtain r0 d0 where front: "foldE (alert_step label) (False, False) (enumerate_from 0 rows) = Inr (r0, d0)"
    and last: "alert_step label (r0, d0) (length rows, row) = Inr (r, d)"
    by (auto simp: enumerate_from_append foldE_append bindE_ok_iff)
  note IH = snoc.IH[OF front] and step = alert_step_ok[OF last]
  show ?case
  proof (intro conjI allI impI)
    show "r = list_ex rejecting_row (rows @ [row])" "d = list_ex dead_row (rows @ [row])"
      using IH step(1,2) by auto
  next
    fix i
    assume i: "i < length (rows @ [row])" and re: "jget ((rows @ [row]) ! i) ''reason'' = JStr ''runtime_nr_rejected_nonzero''"
    show "list_ex rejecting_row (take (Suc i) (rows @ [row]))"
      by (rule list_ex_take_snoc[OF i]) (use IH step(1,3) re in \<open>simp_all add: nth_append\<close>)
  next
    fix i
    assume i: "i < length (rows @ [row])" and re: "jget ((rows @ [row]) ! i) ''reason'' = JStr ''runtime_workload_dead''"
    show "list_ex dead_row (take (Suc i) (rows @ [row]))"
      by (rule list_ex_take_snoc[OF i]) (use IH step(2,4) re in \<open>simp_all add: nth_append\<close>)
  qed
qed

text \<open>In a transcript whose alert order is accepted, an incident about rejected tasks
  comes only after, or with, a runtime sample that reports a positive rejection count, and an incident
  about a dead workload only after a sample that reports it not alive.\<close>

theorem alerts_follow_their_cause:
  assumes "validate_alert_order rows label = Inr ()" and "i < length rows"
  shows "(jget (rows ! i) ''reason'' = JStr ''runtime_nr_rejected_nonzero'' \<longrightarrow> (\<exists>j \<le> i. rejecting_row (rows ! j))) \<and>
    (jget (rows ! i) ''reason'' = JStr ''runtime_workload_dead'' \<longrightarrow> (\<exists>j \<le> i. dead_row (rows ! j)))"
proof -
  obtain r d where "foldE (alert_step label) (False, False) (enumerate_from 0 rows) = Inr (r, d)"
    using assms(1) by (auto simp: validate_alert_order_def ok_iff)
  note loop = alert_loop[OF this]
  have nth: "list_ex P (take (Suc i) rows) \<Longrightarrow> \<exists>j \<le> i. P (rows ! j)" for P
    using assms(2) by (fastforce simp: list_ex_iff in_set_conv_nth less_Suc_eq_le)
  show ?thesis using loop assms(2) nth by blast
qed

theorem alerts_follow_their_cause_witness:
  "validate_alert_order
     [[(''event'', JStr ''runtime_sample''), (''nr_rejected'', JStr ''3''), (''workload_alive'', JBool True)],
      [(''reason'', JStr ''runtime_nr_rejected_nonzero'')]] ''t'' = Inr () \<and>
   (\<exists>j \<le> 1. rejecting_row
     ([[(''event'', JStr ''runtime_sample''), (''nr_rejected'', JStr ''3''), (''workload_alive'', JBool True)],
       [(''reason'', JStr ''runtime_nr_rejected_nonzero'')]] ! j))"
proof -
  let ?rows = "[[(''event'', JStr ''runtime_sample''), (''nr_rejected'', JStr ''3''), (''workload_alive'', JBool True)],
      [(''reason'', JStr ''runtime_nr_rejected_nonzero'')]]"
  have ok: "validate_alert_order ?rows ''t'' = Inr ()" by code_simp
  have len: "1 < length ?rows" by simp
  have "jget (?rows ! 1) ''reason'' = JStr ''runtime_nr_rejected_nonzero''" by (simp add: jget_def)
  with alerts_follow_their_cause[OF ok len] ok show ?thesis by blast
qed

section \<open>A file of two samples\<close>

definition minimal_sample :: "int \<Rightarrow> string \<Rightarrow> string \<Rightarrow> string \<Rightarrow> string \<Rightarrow> json_object" where
  "minimal_sample n seq phase state ops =
     [(''schema'', JStr SAMPLE_SCHEMA), (''sequence'', JInt n), (''sched_ext_phase'', JStr phase), (''state'', present state),
      (''ops'', present ops), (''enable_seq'', present seq), (''events'', present ''none''), (''events_hash'', JStr ''ab''),
      (''nr_rejected'', present ''0''), (''debug_dump'', JObj [(''status'', JStr ''missing''), (''value'', JStr '''')]),
      (''policy_abi'', JObj [(''policy_name'', JStr ''p''), (''policy_version'', JStr ''v''), (''struct_ops'', JStr ''s''),
         (''object_sha256'', JStr ''unavailable''), (''btf_required'', JBool True)]),
      (''cgroup_membership_digest'', JStr (replicate 64 CHR ''a'')), (''workload_alive'', JBool True),
      (''private_command_lines_sampled'', JBool False)]"

definition sample_env :: env where
  "sample_env = files_env [(''s.jsonl'', [CHR ''A'', CHR 0x0A, CHR ''B''])] []
     [(''A'', JObj (minimal_sample 1 ''41'' ''during_attach'' ''enabled'' ''zigsched'')),
      (''B'', JObj (minimal_sample 2 ''42'' ''after_rollback'' ''disabled'' ''none''))]"

lemma sample_env_accepted: "validate_file_rs sample_env (mk_path ''s.jsonl'') = Inr ()"
  by code_simp

theorem runtime_file_history_witness:
  "validate_file_rs sample_env (mk_path ''s.jsonl'') = Inr () \<and>
   (\<exists>rows. load_jsonl_rs sample_env (mk_path ''s.jsonl'') = Inr rows \<and> sorted_wrt (<) (List.map_filter row_sequence rows))"
  using runtime_file_history[OF sample_env_accepted] sample_env_accepted by blast

lemma sample_env_rows:
  "load_jsonl_rs sample_env (mk_path ''s.jsonl'') =
     Inr [minimal_sample 1 ''41'' ''during_attach'' ''enabled'' ''zigsched'', minimal_sample 2 ''42'' ''after_rollback'' ''disabled'' ''none'']"
  by code_simp

theorem runtime_file_private_nowhere_witness:
  "validate_file_rs sample_env (mk_path ''s.jsonl'') = Inr () \<and>
   jget (minimal_sample 2 ''42'' ''after_rollback'' ''disabled'' ''none'') ''private_command_lines_sampled'' = JBool False"
  using runtime_file_private_nowhere[OF sample_env_accepted sample_env_rows, of
      "minimal_sample 2 ''42'' ''after_rollback'' ''disabled'' ''none''", OF _ nodes_self] sample_env_accepted
  by simp

section \<open>Which exceptions escape\<close>

lemma raises_rs [raises_intro]:
  "(\<And>m. P (RuntimeSampleError m)) \<Longrightarrow> raises P (require_string_rs d f c)"
  "(\<And>m. P (RuntimeSampleError m)) \<Longrightarrow> raises P (require_bool_rs d f c)"
  "(\<And>m. P (RuntimeSampleError m)) \<Longrightarrow> raises P (require_int_rs d f c)"
  "(\<And>m. P (RuntimeSampleError m)) \<Longrightarrow> raises P (require_object_rs d f c)"
  "(\<And>m. P (RuntimeSampleError m)) \<Longrightarrow> raises P (optional_object d f c)"
  by (auto simp: raises_def optional_object_def split: json.splits
      dest!: rs_string.read_err rs_bool.read_err rs_int.read_err rs_object.read_err)

lemma raises_reject_private_leaks_rs [raises_intro]:
  "(\<And>m. P (RuntimeSampleError m)) \<Longrightarrow> raises P (reject_private_leaks_rs v c)"
proof (induction v c rule: reject_private_leaks_rs.induct)
  case (1 d c)
  show ?case
    unfolding reject_private_leaks_rs.simps Let_def by (intro raises_intro) (auto intro: 1)
next
  case (2 xs c)
  show ?case
    unfolding reject_private_leaks_rs.simps by (intro raises_intro) (auto intro: 2)
qed (auto simp: reject_private_leaks_rs.simps intro: raises_intro)

lemma raises_validate_fact [raises_intro]: "(\<And>m. P (RuntimeSampleError m)) \<Longrightarrow> raises P (validate_fact d f c)"
  unfolding validate_fact_def Let_def by (intro raises_intro)

lemma raises_fact_value [raises_intro]: "validate_fact d f c = Inr x \<Longrightarrow> raises P (jindex x ''value'')"
  by (auto simp: validate_fact_ok_iff raises_def jindex_def fact_ok_def jget_def split: option.splits)

lemma raises_fact_status [raises_intro]: "validate_fact d f c = Inr x \<Longrightarrow> raises P (jindex x ''status'')"
  by (auto simp: validate_fact_ok_iff raises_def jindex_def fact_ok_def jget_def split: option.splits)

lemma raises_validate_nonnegative_fact_value [raises_intro]:
  "validate_fact d f c = Inr x \<Longrightarrow> raises is_RuntimeSampleError (validate_nonnegative_fact_value x f' c')"
  unfolding validate_nonnegative_fact_value_def Let_def by (intro raises_intro; simp)

lemma raises_validate_sched_ext_facts [raises_intro]: "raises is_RuntimeSampleError (validate_sched_ext_facts r c)"
  unfolding validate_sched_ext_facts_def Let_def by (intro raises_intro; simp)

lemma raises_validate_sched_ext_phase [raises_intro]: "raises is_RuntimeSampleError (validate_sched_ext_phase r c)"
  unfolding validate_sched_ext_phase_def Let_def by (intro raises_intro; simp)

lemma raises_validate_digest [raises_intro]: "raises is_RuntimeSampleError (validate_digest s c)"
  unfolding validate_digest_def Let_def by (intro raises_intro; simp)

lemma raises_validate_nonnegative_fields [raises_intro]: "raises is_RuntimeSampleError (validate_nonnegative_fields d ns c)"
  unfolding validate_nonnegative_fields_def Let_def by (intro raises_intro; simp)

lemma raises_validate_metric_object [raises_intro]: "raises is_RuntimeSampleError (validate_metric_object d ns c)"
  unfolding validate_metric_object_def Let_def by (intro raises_intro; simp)

lemma raises_validate_optional_counter_sets [raises_intro]: "raises is_RuntimeSampleError (validate_optional_counter_sets r c)"
  unfolding validate_optional_counter_sets_def Let_def by (intro raises_intro; simp)

lemma raises_validate_task_ext_enabled [raises_intro]: "raises is_RuntimeSampleError (validate_task_ext_enabled r c)"
  unfolding validate_task_ext_enabled_def Let_def by (intro raises_intro; simp)

lemma raises_validate_cgroup_semantic_labels [raises_intro]: "raises is_RuntimeSampleError (validate_cgroup_semantic_labels r c)"
  unfolding validate_cgroup_semantic_labels_def Let_def by (intro raises_intro; simp)

lemma raises_validate_teardown_rollback [raises_intro]: "raises is_RuntimeSampleError (validate_teardown_rollback r c)"
  unfolding validate_teardown_rollback_def Let_def by (intro raises_intro; simp)

lemma raises_validate_counter_map [raises_intro]: "raises is_RuntimeSampleError (validate_counter_map d c)"
  unfolding validate_counter_map_def Let_def by (intro raises_intro; simp)

lemma raises_validate_benchmark_refs [raises_intro]: "raises is_RuntimeSampleError (validate_benchmark_refs r c)"
  unfolding validate_benchmark_refs_def Let_def by (intro raises_intro; simp)

lemma raises_validate_scheduler_telemetry [raises_intro]: "raises is_RuntimeSampleError (validate_scheduler_telemetry r c)"
  unfolding validate_scheduler_telemetry_def Let_def by (intro raises_intro; simp)

lemma raises_validate_policy_abi [raises_intro]: "raises is_RuntimeSampleError (validate_policy_abi r c)"
  unfolding validate_policy_abi_def
  by (intro raises_intro raises_weaken[OF raises_validate_policy_abi_contract]) simp_all

lemma raises_validate_sample: "raises is_RuntimeSampleError (validate_sample row i)"
  unfolding validate_sample_def validate_root_fields_def Let_def by (intro raises_intro; simp)

lemma raises_load_jsonl_rs: "io_env env \<Longrightarrow> raises (\<lambda>e. is_RuntimeSampleError e \<or> io_error e) (load_jsonl_rs env p)"
  unfolding load_jsonl_rs_def jsonl_rows_def load_jsonl_line_def
  by (intro raises_intro io_env_read) (auto simp: is_os_error_def)

lemma raises_sched_ext_step:
  assumes "validate_sample row k = Inr ()"
  shows "raises (\<lambda>e. is_RuntimeSampleError e \<or> is_ValueError e) (sched_ext_step s (i, row))"
proof -
  have "fact_ok (jget row ''enable_seq'')" using assms by (rule validate_sample_okE)
  then obtain d where enable: "jget row ''enable_seq'' = JObj d" "has_key d ''value''"
    using fact_ok_has_key by (auto simp: fact_ok_def)
  have phase: "jget row ''sched_ext_phase'' = JNull \<or> (\<exists>p. jget row ''sched_ext_phase'' = JStr p)"
  proof -
    have "validate_sched_ext_phase row (msg [''sample['', show_nat k, '']'']) = Inr ()"
      using assms by (rule validate_sample_okE)
    then show ?thesis
      using jget_has_key[of row "''sched_ext_phase''"]
      by (auto simp: validate_sched_ext_phase_def ok_iff text_of_iff split: if_splits)
  qed
  have number: "raises (\<lambda>e. is_RuntimeSampleError e \<or> is_ValueError e) (numeric_fact_value row ''enable_seq'')"
    using enable by (auto simp: numeric_fact_value_def require_object_rs_def jindex_def raises_def py_int_def has_key_def Let_def
        map_of_eq_None_iff bindE_err_iff split: option.splits if_splits)
  have member: "raises P (in_str_set (jget row ''sched_ext_phase'') S)" for P S
    using phase by (auto simp: raises_def)
  show ?thesis
    unfolding sched_ext_step_def Let_def case_prod_beta fst_conv snd_conv by (intro raises_intro number member) simp_all
qed

lemma validate_file_rs_raises:
  assumes "io_env env"
  shows "raises (\<lambda>e. is_RuntimeSampleError e \<or> io_error e \<or> is_ValueError e) (validate_file_rs env path)"
  unfolding validate_file_rs_def validate_sched_ext_sequence_def
proof (intro raises_intro, goal_cases)
  case 1
  show ?case by (rule raises_weaken[OF raises_load_jsonl_rs[OF assms]]) auto
next
  case (2 rows x index row)
  show ?case by (rule raises_weaken[OF raises_validate_sample]) auto
next
  case (3 rows s x)
  then obtain i row where x: "x = (i, row)" "validate_sample row i = Inr ()"
    by (cases x) (auto simp: ok_iff)
  show ?case unfolding x(1) by (rule raises_weaken[OF raises_sched_ext_step[OF x(2)]]) auto
qed

text \<open>Where file access fails only as documented, checking a file of samples can only end
  in the module's own exception, an I/O error or the \<^verbatim>\<open>ValueError\<close> of converting an over-long
  decimal; the unchecked dictionary lookups and the set membership of the code never fail.\<close>

theorem runtime_file_errors:
  assumes "io_env env" and "validate_file_rs env path = Inl e"
  shows "is_RuntimeSampleError e \<or> io_error e \<or> is_ValueError e"
  using validate_file_rs_raises[OF assms(1)] assms(2) by (rule raisesD)

theorem runtime_file_errors_witness:
  "io_env sample_env \<and> validate_file_rs sample_env (mk_path ''x'') = Inl (RuntimeSampleError ''missing JSONL file: x'') \<and>
   (let e = RuntimeSampleError ''missing JSONL file: x'' in is_RuntimeSampleError e \<or> io_error e \<or> is_ValueError e)"
proof -
  have env: "io_env sample_env" by (simp add: sample_env_def io_env_files_env)
  have err: "validate_file_rs sample_env (mk_path ''x'') = Inl (RuntimeSampleError ''missing JSONL file: x'')"
    by code_simp
  show ?thesis unfolding Let_def using env err runtime_file_errors[OF env err] by blast
qed

end
