(* ===== verification/AuditLedger.thy ===== *)
theory AuditLedger
  imports Readers
begin

text \<open>
  \<^verbatim>\<open>qa/audit_ledger_check.py\<close>: the rollback audit ledger, a JSON Lines file whose rows each name a
  snapshot and a transcript by path and hash. No identifier occurs twice, every artifact is a file with
  the stated hash, and the snapshot repeats the identifiers of its row.
\<close>

section \<open>Model\<close>

definition AUDIT_RE_al :: rx where
  "AUDIT_RE_al = seqs [Bos, lit ''AUD-'', Rep 8 8 (Ch is_digit_char), lit ''T'', Rep 6 6 (Ch is_digit_char), lit ''Z-'',
     Rep 7 12 (Ch is_hex_char), lit ''-'', Rep 6 6 (Ch is_hex_char), Eos]"

definition SECRET_RE :: rx where
  "SECRET_RE = alts [lit_ic ''secret'', lit_ic ''password'', lit_ic ''token'', lit_ic ''authorization'',
     seqs [lit_ic ''api'', opt (Ch (\<lambda>c. c = CHR ''_'' \<or> c = CHR ''-'')), lit_ic ''key'']]"

definition LEDGER_SCHEMA :: string where
  "LEDGER_SCHEMA = ''zig-scheduler/audit-ledger/v1''"

definition SNAPSHOT_SCHEMA :: string where
  "SNAPSHOT_SCHEMA = ''zig-scheduler/rollback-snapshot/v1''"

definition load_object_al :: "env \<Rightarrow> path \<Rightarrow> json_object result" where
  "load_object_al env path =
     (bindE (reraise is_JSONDecodeError
         (\<lambda>exc. AuditLedgerError (msg [''invalid JSON in '', path_str path, '': '', exn_str exc]))
         (reraise is_FileNotFoundError
         (\<lambda>_. AuditLedgerError (msg [''missing JSON file: '', path_str path]))
         (bindE (fs_read_text env path) (json_loads env)))) (\<lambda>raw.
     case obj_of raw of
         None \<Rightarrow> Inl (AuditLedgerError (msg [path_str path, '' must contain a JSON object'']))
         | Some d \<Rightarrow> Inr d))"

definition load_jsonl_line_al :: "env \<Rightarrow> nat \<Rightarrow> string \<Rightarrow> json_object result" where
  "load_jsonl_line_al env index line =
     (bindE (reraise is_JSONDecodeError
         (\<lambda>exc. AuditLedgerError (msg [''invalid JSONL line '', show_nat index, '': '', exn_str exc])) (json_loads env line)) (\<lambda>raw.
     case obj_of raw of
         None \<Rightarrow> Inl (AuditLedgerError (msg [''line '', show_nat index, '' must be a JSON object'']))
         | Some d \<Rightarrow> Inr d))"

definition load_jsonl_al :: "env \<Rightarrow> path \<Rightarrow> json_object list result" where
  "load_jsonl_al env path =
     (bindE (reraise is_FileNotFoundError
         (\<lambda>_. AuditLedgerError (msg [''missing ledger: '', path_str path])) (fs_read_text env path)) (\<lambda>data.
     bindE (jsonl_rows (load_jsonl_line_al env) (splitlines data)) (\<lambda>rows.
     thenE (raise_if (rows = []) (AuditLedgerError ''ledger is empty'')) (
     Inr rows))))"

definition require_string_al :: "json_object \<Rightarrow> string \<Rightarrow> string \<Rightarrow> string result" where
  "require_string_al data field context =
     (case text_of (jget data field) of
        None \<Rightarrow> Inl (AuditLedgerError (msg [context, '' missing non-empty string field: '', field]))
      | Some value \<Rightarrow>
          thenE (raise_if (re_search SECRET_RE value) (AuditLedgerError (msg [context, '' contains secret-like field: '', field])))
            (Inr value))"

definition sha256_file_al :: "env \<Rightarrow> path \<Rightarrow> string result" where
  "sha256_file_al env path = fs_sha256 env path"

text \<open>The set of seen identifiers is threaded through; the rounds of the loop are its updates.\<close>

definition validate_record_al :: "env \<Rightarrow> string list \<Rightarrow> nat \<times> json_object \<Rightarrow> string list result" where
  "validate_record_al env seen = (\<lambda>(index, row).
     let context = (msg [''ledger['', show_nat index, '']'']) in
     (bindE (require_string_al row ''schema'' context) (\<lambda>schema.
     thenE (raise_if (schema \<noteq> LEDGER_SCHEMA) (AuditLedgerError (msg [context, '' unsupported schema'']))) (
     bindE (require_string_al row ''audit_id'' context) (\<lambda>audit_id.
     thenE (raise_if (\<not> re_match AUDIT_RE_al audit_id) (AuditLedgerError (msg [context, '' invalid audit_id'']))) (
     thenE (raise_if (audit_id \<in> set seen) (AuditLedgerError (msg [context, '' duplicate audit_id: '', audit_id]))) (
     bindE (require_string_al row ''rollback_id'' context) (\<lambda>rollback_id.
     bindE (require_string_al row ''rollback_snapshot'' context) (\<lambda>snapshot_name.
     (let snapshot_path = mk_path snapshot_name in
     bindE (require_string_al row ''transcript'' context) (\<lambda>transcript_name.
     (let transcript_path = mk_path transcript_name in
     bindE (require_string_al row ''rollback_snapshot_sha256'' context) (\<lambda>snapshot_sha.
     bindE (require_string_al row ''transcript_sha256'' context) (\<lambda>transcript_sha.
     thenE (raise_if (\<not> fs_is_file env snapshot_path \<or> \<not> fs_is_file env transcript_path)
         (AuditLedgerError (msg [context, '' transcript/snapshot artifact missing'']))) (
     bindE (sha256_file_al env snapshot_path) (\<lambda>actual_snapshot_sha.
     thenE (raise_if (actual_snapshot_sha \<noteq> snapshot_sha) (AuditLedgerError (msg [context, '' rollback snapshot hash mismatch'']))) (
     bindE (sha256_file_al env transcript_path) (\<lambda>actual_transcript_sha.
     thenE (raise_if (actual_transcript_sha \<noteq> transcript_sha) (AuditLedgerError (msg [context, '' transcript hash mismatch'']))) (
     bindE (load_object_al env snapshot_path) (\<lambda>snapshot.
     bindE (require_string_al snapshot ''schema'' ''snapshot'') (\<lambda>snapshot_schema.
     thenE (raise_if (snapshot_schema \<noteq> SNAPSHOT_SCHEMA) (AuditLedgerError ''snapshot unsupported schema'')) (
     bindE (require_string_al snapshot ''audit_id'' ''snapshot'') (\<lambda>snapshot_audit_id.
     thenE (raise_if (snapshot_audit_id \<noteq> audit_id) (AuditLedgerError ''snapshot audit_id mismatch'')) (
     bindE (require_string_al snapshot ''rollback_id'' ''snapshot'') (\<lambda>snapshot_rollback_id.
     thenE (raise_if (snapshot_rollback_id \<noteq> rollback_id) (AuditLedgerError ''snapshot rollback_id mismatch'')) (
     thenE (forE (\<lambda>field. bindE (require_string_al snapshot field ''snapshot'') (\<lambda>_. Inr ()))
         [''state_before'', ''state_after'', ''ops_before'', ''ops_after'', ''enable_seq_before'', ''enable_seq_after'']) (
     Inr (audit_id # seen))))))))))))))))))))))))))))"

definition validate_ledger :: "env \<Rightarrow> path \<Rightarrow> check" where
  "validate_ledger env path =
     (bindE (load_jsonl_al env path) (\<lambda>rows.
     bindE (foldE (validate_record_al env) [] (enumerate_from 0 rows)) (\<lambda>_.
     Inr ())))"

section \<open>What acceptance means\<close>

lemma require_string_al_ok_iff [ok_iff]:
  "require_string_al d f c = Inr s \<longleftrightarrow> jget d f = JStr s \<and> s \<noteq> [] \<and> \<not> re_search SECRET_RE s"
  by (cases "jget d f") (auto simp: require_string_al_def ok_iff)

lemma sha256_file_al_ok_iff [ok_iff]: "sha256_file_al env p = Inr s \<longleftrightarrow> fs_sha256 env p = Inr s"
  by (simp add: sha256_file_al_def)

lemma load_object_al_ok_iff [ok_iff]:
  "load_object_al env p = Inr d \<longleftrightarrow> (\<exists>s. fs_read_text env p = Inr s \<and> json_decode env s = Decoded (JObj d))"
  by (auto simp: load_object_al_def ok_iff obj_of_iff split: option.splits)

definition decoded_object :: "env \<Rightarrow> string \<Rightarrow> json option" where
  "decoded_object env line = (case json_decode env line of Decoded v \<Rightarrow> Some v | _ \<Rightarrow> None)"

lemma load_jsonl_line_al_ok_iff [ok_iff]: "load_jsonl_line_al env n line = Inr d \<longleftrightarrow> decoded_object env line = Some (JObj d)"
  by (auto simp: load_jsonl_line_al_def ok_iff obj_of_iff decoded_object_def split: option.splits decoded.splits)

interpretation al_rows: jsonl_reader load_jsonl_al decoded_object
proof
  fix env p rows
  assume "load_jsonl_al env p = Inr rows"
  then show "\<exists>s. fs_read_text env p = Inr s \<and> rows \<noteq> [] \<and>
      list_all2 (\<lambda>(i, line) r. decoded_object env line = Some (JObj r)) (content_lines (splitlines s)) rows"
    by (auto simp: load_jsonl_al_def ok_iff jsonl_rows_ok_iff)
qed

definition audit_id_of :: "nat \<times> json_object \<Rightarrow> string" where
  "audit_id_of x = (case str_of (jget (snd x) ''audit_id'') of None \<Rightarrow> [] | Some s \<Rightarrow> s)"

text \<open>What one row of the ledger is worth: two files with the stated hashes, the first a snapshot that repeats
  the identifiers of the row.\<close>

definition ledger_row_backed :: "env \<Rightarrow> json_object \<Rightarrow> bool" where
  "ledger_row_backed env row \<longleftrightarrow>
     (\<exists>audit rollback sp tp ssha tsha content snapshot.
        jget row ''schema'' = JStr LEDGER_SCHEMA \<and> jget row ''audit_id'' = JStr audit \<and> re_match AUDIT_RE_al audit \<and>
        jget row ''rollback_id'' = JStr rollback \<and>
        jget row ''rollback_snapshot'' = JStr sp \<and> jget row ''rollback_snapshot_sha256'' = JStr ssha \<and>
        jget row ''transcript'' = JStr tp \<and> jget row ''transcript_sha256'' = JStr tsha \<and>
        fs_is_file env (mk_path sp) \<and> fs_is_file env (mk_path tp) \<and>
        fs_sha256 env (mk_path sp) = Inr ssha \<and> fs_sha256 env (mk_path tp) = Inr tsha \<and>
        fs_read_text env (mk_path sp) = Inr content \<and> json_decode env content = Decoded (JObj snapshot) \<and>
        jget snapshot ''schema'' = JStr SNAPSHOT_SCHEMA \<and> jget snapshot ''audit_id'' = JStr audit \<and>
        jget snapshot ''rollback_id'' = JStr rollback)"

lemma validate_record_al_ok:
  assumes "validate_record_al env seen x = Inr seen'"
  shows "audit_id_of x \<notin> set seen \<and> seen' = audit_id_of x # seen \<and> ledger_row_backed env (snd x)"
  using assms unfolding validate_record_al_def Let_def case_prod_beta thenE_ok_iff bindE_ok_iff raise_if_ok_iff
    require_string_al_ok_iff sha256_file_al_ok_iff load_object_al_ok_iff not_not de_Morgan_disj
proof (elim exE conjE, hypsubst, goal_cases)
  case 1
  have "ledger_row_backed env (snd x)"
    unfolding ledger_row_backed_def
    by (intro exI conjI) (fact 1)+
  with 1 show ?case by (simp only: audit_id_of_def str_of.simps option.case sum.inject)
qed

interpretation al_loop: unique_loop "validate_record_al env" "\<lambda>seen. seen" audit_id_of for env
  by unfold_locales (auto dest: validate_record_al_ok)

lemma validate_ledger_okE:
  assumes "validate_ledger env path = Inr ()"
  obtains rows where "load_jsonl_al env path = Inr rows" and "rows \<noteq> []"
    and "distinct (map (\<lambda>row. jget row ''audit_id'') rows)" and "\<And>row. row \<in> set rows \<Longrightarrow> ledger_row_backed env row"
proof -
  from assms obtain rows seen where rows: "load_jsonl_al env path = Inr rows"
    and loop: "foldE (validate_record_al env) [] (enumerate_from 0 rows) = Inr seen"
    by (auto simp: validate_ledger_def ok_iff)
  have backed: "ledger_row_backed env row" if r: "row \<in> set rows" for row
  proof -
    obtain i where "(i, row) \<in> set (enumerate_from 0 rows)" using enumerate_from_index[OF r] by blast
    from foldE_step[OF loop this] show ?thesis by (auto dest: validate_record_al_ok)
  qed
  have "map audit_id_of (enumerate_from 0 rows) = map (\<lambda>row. case str_of (jget row ''audit_id'') of None \<Rightarrow> [] | Some s \<Rightarrow> s) rows"
    unfolding audit_id_of_def by (subst (2) snd_enumerate_from[of 0 rows, symmetric]) (simp add: comp_def del: snd_enumerate_from)
  moreover have "distinct (map audit_id_of (enumerate_from 0 rows))"
    using al_loop.loop_distinct[OF loop] by blast
  ultimately have "distinct (map (\<lambda>row. case str_of (jget row ''audit_id'') of None \<Rightarrow> [] | Some s \<Rightarrow> s) rows)" by simp
  then have "distinct (map (\<lambda>row. jget row ''audit_id'') rows)"
    by (auto simp: distinct_map inj_on_def)
  with rows al_rows.load_nonempty[OF rows] backed show ?thesis using that by blast
qed

text \<open>C30: the rows of an accepted audit ledger have pairwise different audit identifiers, and each
  of them is backed: its snapshot and its transcript are files with the stated hashes, and the snapshot
  carries the same audit and rollback identifiers as the row.\<close>

theorem audit_ledger_linked:
  assumes "validate_ledger env path = Inr ()"
  shows "\<exists>rows. load_jsonl_al env path = Inr rows \<and> rows \<noteq> [] \<and> distinct (map (\<lambda>row. jget row ''audit_id'') rows) \<and>
    (\<forall>row \<in> set rows. ledger_row_backed env row)"
  using assms by (rule validate_ledger_okE) blast

definition ledger_env :: env where
  "ledger_env = files_env [(''l.jsonl'', ''L''), (''snap'', ''S''), (''tr'', ''transcript'')]
     [(''snap'', ''aa''), (''tr'', ''bb'')]
     [(''L'', JObj [(''schema'', JStr LEDGER_SCHEMA), (''audit_id'', JStr ''AUD-20990101T000000Z-deadbee-abc123''),
         (''rollback_id'', JStr ''RB-demo''), (''rollback_snapshot'', JStr ''snap''), (''rollback_snapshot_sha256'', JStr ''aa''),
         (''transcript'', JStr ''tr''), (''transcript_sha256'', JStr ''bb'')]),
      (''S'', JObj [(''schema'', JStr SNAPSHOT_SCHEMA), (''audit_id'', JStr ''AUD-20990101T000000Z-deadbee-abc123''),
         (''rollback_id'', JStr ''RB-demo''), (''state_before'', JStr ''enabled''), (''state_after'', JStr ''disabled''),
         (''ops_before'', JStr ''zigsched''), (''ops_after'', JStr ''none''), (''enable_seq_before'', JStr ''1''),
         (''enable_seq_after'', JStr ''1'')])]"

lemma ledger_env_accepted: "validate_ledger ledger_env (mk_path ''l.jsonl'') = Inr ()"
  by code_simp

theorem audit_ledger_linked_witness:
  "validate_ledger ledger_env (mk_path ''l.jsonl'') = Inr () \<and>
   (\<exists>rows. load_jsonl_al ledger_env (mk_path ''l.jsonl'') = Inr rows \<and> (\<forall>row \<in> set rows. ledger_row_backed ledger_env row))"
  using audit_ledger_linked[OF ledger_env_accepted] ledger_env_accepted by blast

end
