(* ===== verification/LabObserve.thy ===== *)
theory LabObserve
  imports RuntimeSample AuditLedger
begin

text \<open>
  \<^verbatim>\<open>qa/lab_summary_observe.py\<close>: the summary of an observed partial attach. It ties together a file
  of runtime samples, an audit ledger and a stream of daemon events beside it, and what the summary says
  must agree with what the samples show.
\<close>

section \<open>Model\<close>

definition SUMMARY_SCHEMA :: string where
  "SUMMARY_SCHEMA = ''zig-scheduler/observe-partial-summary/v1''"

definition load_object_ob :: "env \<Rightarrow> path \<Rightarrow> json_object result" where
  "load_object_ob env path =
     (bindE (reraise is_JSONDecodeError
         (\<lambda>exc. ObserveSummaryError (msg [''invalid JSON in '', path_str path, '': '', exn_str exc]))
         (reraise is_FileNotFoundError
         (\<lambda>_. ObserveSummaryError (msg [''missing JSON file: '', path_str path]))
         (bindE (fs_read_text env path) (json_loads env)))) (\<lambda>raw.
     case obj_of raw of
         None \<Rightarrow> Inl (ObserveSummaryError (msg [path_str path, '' must contain a JSON object'']))
         | Some d \<Rightarrow> Inr d))"

definition load_jsonl_ob :: "env \<Rightarrow> path \<Rightarrow> json_object list result" where
  "load_jsonl_ob env path =
     (bindE (fs_read_text env path) (\<lambda>data.
     jsonl_rows (\<lambda>_ line.
         bindE (json_loads env line) (\<lambda>raw.
         case obj_of raw of
         None \<Rightarrow> Inl (ObserveSummaryError (msg [path_str path, '' contains non-object JSONL row'']))
         | Some d \<Rightarrow> Inr d)) (splitlines data)))"

definition require_string_ob :: "json_object \<Rightarrow> string \<Rightarrow> string \<Rightarrow> string result" where
  "require_string_ob data field context =
     (case text_of (jget data field) of
        Some s \<Rightarrow> Inr s
      | None \<Rightarrow> Inl (ObserveSummaryError (msg [context, '' missing non-empty string field: '', field])))"

definition require_bool_ob :: "json_object \<Rightarrow> string \<Rightarrow> string \<Rightarrow> bool result" where
  "require_bool_ob data field context =
     (case bool_of (jget data field) of
        Some b \<Rightarrow> Inr b
      | None \<Rightarrow> Inl (ObserveSummaryError (msg [context, '' missing bool field: '', field])))"

definition require_int_ob :: "json_object \<Rightarrow> string \<Rightarrow> string \<Rightarrow> int result" where
  "require_int_ob data field context =
     (case int_of (jget data field) of
        Some i \<Rightarrow> Inr i
      | None \<Rightarrow> Inl (ObserveSummaryError (msg [context, '' missing int field: '', field])))"

definition safe_path_ob :: "env \<Rightarrow> json_object \<Rightarrow> string \<Rightarrow> path result" where
  "safe_path_ob env summary field =
     (bindE (require_string_ob summary field ''observe'') (\<lambda>raw.
     (let value = mk_path raw in
     thenE (raise_if (is_absolute value \<or> ''..'' \<in> set (path_parts value) \<or> \<not> fs_exists env value)
         (ObserveSummaryError (msg [''observe path is unsafe or missing: '', field]))) (
     Inr value))))"

definition sibling_path :: "env \<Rightarrow> path \<Rightarrow> json_object \<Rightarrow> string \<Rightarrow> path result" where
  "sibling_path env summary_path summary field =
     (bindE (safe_path_ob env summary field) (\<lambda>value.
     thenE (raise_if (path_parent value \<noteq> path_parent summary_path)
         (ObserveSummaryError (msg [''observe path is not colocated with summary: '', field]))) (
     Inr value)))"

definition validate_links :: "env \<Rightarrow> path \<Rightarrow> path \<Rightarrow> check" where
  "validate_links env samples ledger =
     reraise (\<lambda>e. is_RuntimeSampleError e \<or> is_AuditLedgerError e) (\<lambda>exc. ObserveSummaryError (exn_str exc))
       (thenE (validate_file_rs env samples) (validate_ledger env ledger))"

definition workload_execution_passed :: "json_object \<Rightarrow> bool" where
  "workload_execution_passed summary =
     (case obj_of (jget summary ''workload_execution'') of
        None \<Rightarrow> False
      | Some d \<Rightarrow>
          jget d ''status'' = JStr ''PASS'' \<and> jget d ''host_mutation'' = JBool False \<and> jget d ''scenario'' \<noteq> JStr ''live-backend'')"

definition validate_sample_series :: "env \<Rightarrow> json_object \<Rightarrow> path \<Rightarrow> int \<Rightarrow> check" where
  "validate_sample_series env summary samples expected_count =
     (bindE (load_jsonl_ob env samples) (\<lambda>rows.
     thenE (raise_if (length rows < 3 \<or> int (length rows) \<noteq> expected_count)
         (ObserveSummaryError ''observe samples must include before/during/after rows'')) (
     (let during = filter (\<lambda>row. py_eq (jget row ''ops'') (present ''zigsched_minimal'')) rows in
     thenE (raise_if (during = []) (ObserveSummaryError ''observe samples never show zigsched_minimal during attach'')) (
     thenE (raise_if (\<not> list_all (\<lambda>row. jget row ''private_command_lines_sampled'' = JBool False) rows)
         (ObserveSummaryError ''observe samples include private command-line sampling'')) (
     (let workload_alive_all_samples = list_all (\<lambda>row. jget row ''workload_alive'' = JBool True) rows in
     bindE (require_bool_ob summary ''workload_alive_all_samples'' ''observe'') (\<lambda>stated.
     thenE (raise_if (stated \<noteq> workload_alive_all_samples)
         (ObserveSummaryError ''observe workload_alive_all_samples conflicts with sample rows'')) (
     raise_if (\<not> workload_alive_all_samples \<and> \<not> workload_execution_passed summary)
         (ObserveSummaryError ''observe workload was not alive for every sample''))))))))))"

definition validate_daemon_events :: "env \<Rightarrow> path \<Rightarrow> check" where
  "validate_daemon_events env path =
     (bindE (load_jsonl_ob env path) (\<lambda>rows.
     (let runtime_events = filter (\<lambda>row. jget row ''event'' = JStr ''runtime_sample'') rows in
     thenE (raise_if (runtime_events = []) (ObserveSummaryError ''daemon stream emitted no runtime_sample events'')) (
     thenE (raise_if (\<not> list_ex (\<lambda>row. jget row ''ops'' = JStr ''zigsched_minimal'') runtime_events)
         (ObserveSummaryError ''daemon stream never emitted zigsched_minimal'')) (
     raise_if (list_ex (\<lambda>row. contains ''cmdline'' (json_dumps (JObj row)) \<or> contains ''environment'' (json_dumps (JObj row))) rows)
         (ObserveSummaryError ''daemon stream leaked private process fields''))))))"

definition validate_snapshot :: "json_object \<Rightarrow> check" where
  "validate_snapshot summary =
     (case obj_of (jget summary ''scheduler_snapshot'') of
        None \<Rightarrow> Inl (ObserveSummaryError ''observe missing scheduler_snapshot'')
      | Some snapshot \<Rightarrow>
          (bindE (require_string_ob summary ''final_state'' ''observe'') (\<lambda>final_state.
            bindE (require_string_ob summary ''final_ops'' ''observe'') (\<lambda>final_ops.
            bindE (require_bool_ob summary ''final_state_disabled_or_rolled_back'' ''observe'') (\<lambda>off.
            thenE (raise_if (\<not> off) (ObserveSummaryError ''observe final state is not disabled or rolled back'')) (
            thenE (raise_if (\<not> py_eq (jget snapshot ''state'') (present final_state))
                (ObserveSummaryError ''observe scheduler_snapshot state conflicts with final_state'')) (
            raise_if (\<not> py_eq (jget snapshot ''root_ops'') (present final_ops))
                (ObserveSummaryError ''observe scheduler_snapshot root_ops conflicts with final_ops''))))))))"

definition validate_observe :: "env \<Rightarrow> path \<Rightarrow> check" where
  "validate_observe env path =
     (bindE (load_object_ob env path) (\<lambda>summary.
     bindE (require_string_ob summary ''schema'' ''observe'') (\<lambda>schema.
     thenE (raise_if (schema \<noteq> SUMMARY_SCHEMA) (ObserveSummaryError ''observe summary has unsupported schema'')) (
     bindE (require_string_ob summary ''evidence_mode'' ''observe'') (\<lambda>mode.
     thenE (raise_if (mode \<notin> {''fixture'', ''vm-configured-fixture'', ''vm-live'', ''host-refusal''})
         (ObserveSummaryError (msg [''observe evidence_mode is invalid: '', mode]))) (
     bindE (require_bool_ob summary ''release_eligible_live_proof'' ''observe'') (\<lambda>release_proof.
     thenE (raise_if (mode \<noteq> ''vm-live'' \<and> release_proof)
         (ObserveSummaryError ''non-VM-live observe evidence cannot be release eligible'')) (
     thenE (raise_if release_proof
         (ObserveSummaryError ''observe release proof is disabled until signed VM-live transport is implemented'')) (
     bindE (sibling_path env path summary ''runtime_samples'') (\<lambda>samples.
     bindE (safe_path_ob env summary ''audit_ledger'') (\<lambda>ledger.
     bindE (sibling_path env path summary ''transcript'') (\<lambda>_.
     bindE (sibling_path env path summary ''daemon_runtime_events'') (\<lambda>daemon_events.
     thenE (validate_links env samples ledger) (
     bindE (require_int_ob summary ''sample_count'' ''observe'') (\<lambda>count.
     thenE (validate_sample_series env summary samples count) (
     thenE (validate_daemon_events env daemon_events) (
     validate_snapshot summary)))))))))))))))))"

section \<open>What acceptance means\<close>

interpretation ob_string: field_reader require_string_ob text_of ObserveSummaryError
  by unfold_locales (auto simp: require_string_ob_def split: option.splits)

interpretation ob_bool: field_reader require_bool_ob bool_of ObserveSummaryError
  by unfold_locales (auto simp: require_bool_ob_def split: option.splits)

interpretation ob_int: field_reader require_int_ob int_of ObserveSummaryError
  by unfold_locales (auto simp: require_int_ob_def split: option.splits)

lemma load_object_ob_ok_iff [ok_iff]:
  "load_object_ob env p = Inr d \<longleftrightarrow> (\<exists>s. fs_read_text env p = Inr s \<and> json_decode env s = Decoded (JObj d))"
  by (auto simp: load_object_ob_def ok_iff obj_of_iff split: option.splits)

lemma safe_path_ob_ok_iff [ok_iff]:
  "safe_path_ob env d f = Inr p \<longleftrightarrow> (\<exists>s. jget d f = JStr s \<and> s \<noteq> [] \<and> p = mk_path s \<and> safe_path p \<and> fs_exists env p)"
  by (auto simp: safe_path_ob_def ok_iff text_of_iff safe_path_def Let_def)

lemma sibling_path_ok_iff [ok_iff]:
  "sibling_path env sp d f = Inr p \<longleftrightarrow> safe_path_ob env d f = Inr p \<and> path_parent p = path_parent sp"
  by (auto simp: sibling_path_def bindE_ok_iff thenE_ok_iff raise_if_ok_iff)

lemma object_line_ok_iff:
  "bindE (json_loads env line) (\<lambda>raw. case obj_of raw of None \<Rightarrow> Inl e | Some d \<Rightarrow> Inr d) = Inr r \<longleftrightarrow>
     json_decode env line = Decoded (JObj r)"
  by (auto simp: ok_iff obj_of_iff split: option.splits)

lemma object_rows_ok_iff:
  "jsonl_rows (\<lambda>_ line. bindE (json_loads env line) (\<lambda>raw. case obj_of raw of None \<Rightarrow> Inl e | Some d \<Rightarrow> Inr d)) ls = Inr rows \<longleftrightarrow>
     jsonl_rows (load_jsonl_line env) ls = Inr rows"
  by (simp only: jsonl_rows_ok_iff object_line_ok_iff load_jsonl_line_ok_iff)

lemma load_jsonl_ob_rs:
  "load_jsonl_ob env p = Inr rows \<Longrightarrow> rows \<noteq> [] \<Longrightarrow> load_jsonl_rs env p = Inr rows"
  by (auto simp: load_jsonl_ob_def load_jsonl_rs_def object_rows_ok_iff
      bindE_ok_iff thenE_ok_iff raise_if_ok_iff reraise_ok_iff)

text \<open>What the samples of the summary show: enough of them, the scheduler active in one, no private sampling, and
  the summary's word on the workload confirmed.\<close>

definition series_confirmed :: "json_object \<Rightarrow> json_object list \<Rightarrow> bool" where
  "series_confirmed summary rows \<longleftrightarrow>
     3 \<le> length rows \<and> int_of (jget summary ''sample_count'') = Some (int (length rows)) \<and>
     (\<exists>row \<in> set rows. py_eq (jget row ''ops'') (present ''zigsched_minimal'')) \<and>
     (\<forall>row \<in> set rows. jget row ''private_command_lines_sampled'' = JBool False) \<and>
     jget summary ''workload_alive_all_samples'' = JBool (\<forall>row \<in> set rows. jget row ''workload_alive'' = JBool True) \<and>
     ((\<forall>row \<in> set rows. jget row ''workload_alive'' = JBool True) \<or> workload_execution_passed summary)"

lemma validate_sample_series_ok:
  assumes "validate_sample_series env summary p n = Inr ()" and "int_of (jget summary ''sample_count'') = Some n"
  shows "\<exists>rows. load_jsonl_ob env p = Inr rows \<and> series_confirmed summary rows"
  using assms(1) unfolding validate_sample_series_def Let_def thenE_ok_iff bindE_ok_iff raise_if_ok_iff
    ob_bool.read_ok bool_of_iff not_not de_Morgan_disj de_Morgan_conj
proof (elim exE conjE, goal_cases)
  case (1 rows stated)
  then show ?case
    using assms(2) by (intro exI[of _ rows]) (auto simp: series_confirmed_def list_all_iff filter_empty_conv)
qed

text \<open>The final state of the summary is the state of its snapshot.\<close>

definition snapshot_final :: "json_object \<Rightarrow> bool" where
  "snapshot_final summary \<longleftrightarrow>
     (\<exists>snapshot s ops. jget summary ''scheduler_snapshot'' = JObj snapshot \<and> jget summary ''final_state'' = JStr s \<and>
        jget summary ''final_ops'' = JStr ops \<and> jget summary ''final_state_disabled_or_rolled_back'' = JBool True \<and>
        py_eq (jget snapshot ''state'') (present s) \<and> py_eq (jget snapshot ''root_ops'') (present ops))"

lemma validate_snapshot_ok: "validate_snapshot summary = Inr () \<Longrightarrow> snapshot_final summary"
  by (auto simp: validate_snapshot_def snapshot_final_def ok_iff text_of_iff bool_of_iff obj_of_iff split: option.splits)

lemma validate_observe_ok:
  assumes "validate_observe env path = Inr ()"
  shows "\<exists>summary samples ledger rows. load_object_ob env path = Inr summary \<and>
    jget summary ''release_eligible_live_proof'' = JBool False \<and>
    sibling_path env path summary ''runtime_samples'' = Inr samples \<and> safe_path_ob env summary ''audit_ledger'' = Inr ledger \<and>
    validate_file_rs env samples = Inr () \<and> validate_ledger env ledger = Inr () \<and>
    load_jsonl_rs env samples = Inr rows \<and> series_confirmed summary rows \<and> snapshot_final summary"
  using assms unfolding validate_observe_def validate_links_def thenE_ok_iff bindE_ok_iff reraise_ok_iff raise_if_ok_iff
    ob_bool.read_ok ob_int.read_ok bool_of_iff
proof (elim exE conjE, goal_cases)
  case (1 summary schema mode release samples ledger transcript daemon n)
  obtain rows where rows: "load_jsonl_ob env samples = Inr rows" "series_confirmed summary rows"
    using 1 validate_sample_series_ok by blast
  moreover have "rows \<noteq> []" using rows(2) by (auto simp: series_confirmed_def)
  ultimately have "load_jsonl_rs env samples = Inr rows" using load_jsonl_ob_rs by blast
  moreover have "snapshot_final summary" using 1 validate_snapshot_ok by blast
  moreover have "jget summary ''release_eligible_live_proof'' = JBool False" using 1 by simp
  ultimately show ?case using rows(2) 1 by blast
qed

text \<open>C31: an accepted observation summary claims no release proof, and what it says is
  confirmed by its artifacts: the samples beside it are a history that the sample contract accepts, there
  are at least three and as many as stated, one shows the scheduler active and none sampled command lines,
  the statement about the workload is the one the samples support, the ledger is an accepted one, and the
  final state is the state of the snapshot.\<close>

theorem observe_summary_confirmed:
  assumes "validate_observe env path = Inr ()"
  shows "\<exists>summary samples ledger rows. load_object_ob env path = Inr summary \<and>
    jget summary ''release_eligible_live_proof'' = JBool False \<and>
    sibling_path env path summary ''runtime_samples'' = Inr samples \<and> path_parent samples = path_parent path \<and>
    safe_path_ob env summary ''audit_ledger'' = Inr ledger \<and> validate_ledger env ledger = Inr () \<and>
    load_jsonl_rs env samples = Inr rows \<and> series_confirmed summary rows \<and>
    sorted_wrt (<) (List.map_filter row_sequence rows) \<and> snapshot_final summary"
proof -
  obtain summary samples ledger rows where ok: "load_object_ob env path = Inr summary"
      "jget summary ''release_eligible_live_proof'' = JBool False"
      "sibling_path env path summary ''runtime_samples'' = Inr samples" "safe_path_ob env summary ''audit_ledger'' = Inr ledger"
      "validate_file_rs env samples = Inr ()" "validate_ledger env ledger = Inr ()"
      "load_jsonl_rs env samples = Inr rows" "series_confirmed summary rows" "snapshot_final summary"
    using validate_observe_ok[OF assms] by blast
  have "validate_sched_ext_sequence rows = Inr ()"
    using ok(5,7) by (auto elim: validate_file_rs_okE)
  then have "sorted_wrt (<) (List.map_filter row_sequence rows)" by (rule validate_sched_ext_sequence_ok)
  moreover have "path_parent samples = path_parent path" using ok(3) by (simp add: sibling_path_ok_iff)
  ultimately show ?thesis using ok by blast
qed

fun projj :: "decoded \<Rightarrow> json" where
  "projj (Decoded v) = v"
| "projj _ = JNull"

definition observe_env :: env where
  "observe_env = files_env
     [(''r/summary.json'', ''SUM''), (''r/s.jsonl'', join [CHR 0x0A] [''A'', ''B'', ''C'']), (''r/l.jsonl'', ''L''), (''r/t'', ''t''),
      (''r/d.jsonl'', ''D''), (''snap'', ''S''), (''tr'', ''transcript'')]
     [(''snap'', ''aa''), (''tr'', ''bb'')]
     [(''A'', JObj (minimal_sample 0 ''1'' ''before_attach'' ''disabled'' ''none'')),
      (''B'', JObj (minimal_sample 1 ''2'' ''during_attach'' ''enabled'' ''zigsched_minimal'')),
      (''C'', JObj (minimal_sample 2 ''2'' ''after_rollback'' ''disabled'' ''none'')),
      (''D'', JObj [(''event'', JStr ''runtime_sample''), (''ops'', JStr ''zigsched_minimal'')]),
      (''L'', projj (json_decode ledger_env ''L'')), (''S'', projj (json_decode ledger_env ''S'')),
      (''SUM'', JObj [(''schema'', JStr SUMMARY_SCHEMA), (''evidence_mode'', JStr ''vm-configured-fixture''),
         (''release_eligible_live_proof'', JBool False), (''sample_count'', JInt 3), (''runtime_samples'', JStr ''r/s.jsonl''),
         (''audit_ledger'', JStr ''r/l.jsonl''), (''transcript'', JStr ''r/t''), (''daemon_runtime_events'', JStr ''r/d.jsonl''),
         (''scheduler_snapshot'', JObj [(''state'', present ''disabled''), (''root_ops'', present ''none'')]),
         (''final_state'', JStr ''disabled''), (''final_ops'', JStr ''none''),
         (''final_state_disabled_or_rolled_back'', JBool True), (''workload_alive_all_samples'', JBool True)])]"

lemma observe_env_accepted: "validate_observe observe_env (mk_path ''r/summary.json'') = Inr ()"
  by code_simp

theorem observe_summary_confirmed_witness:
  "validate_observe observe_env (mk_path ''r/summary.json'') = Inr () \<and>
   (\<exists>summary rows. load_object_ob observe_env (mk_path ''r/summary.json'') = Inr summary \<and> series_confirmed summary rows)"
  using observe_summary_confirmed[OF observe_env_accepted] observe_env_accepted by blast

end
