(* ===== verification/PartialAttach.thy ===== *)
theory PartialAttach
  imports Readers
begin

text \<open>
  \<^verbatim>\<open>qa/evidence_safety_check.py\<close> and \<^verbatim>\<open>qa/partial_attach_check.py\<close>: the evidence that a partial
  attach of the scheduler was rolled back, with the transcript that shows it.
\<close>

definition reject_contradictions :: "json_object \<Rightarrow> string \<Rightarrow> check" where
  "reject_contradictions data context =
     (thenE (forE (\<lambda>field. raise_if (jget data field = JBool True) (EvidenceSafetyError context (msg [field, '' is true''])))
         [''dirty_worktree'', ''stale_state'', ''misleading_success_output'']) (
     (let cleanup = jget data ''cleanup'' in
     case obj_of cleanup of
         None \<Rightarrow> Inr ()
         | Some d \<Rightarrow>
         forE (\<lambda>field. raise_if (jget d field = JBool True) (EvidenceSafetyError context (msg [''cleanup.'', field, '' is true''])))
         [''qemu_leftovers'', ''tmux_leftovers''])))"

definition SCHEMA_pt :: string where
  "SCHEMA_pt = ''zig-scheduler/partial-attach-evidence/v1''"

definition REFUSAL_SCHEMA :: string where
  "REFUSAL_SCHEMA = ''zig-scheduler/partial-attach-refusal/v1''"

definition TARGET_PREFIX :: string where
  "TARGET_PREFIX = ''/sys/fs/cgroup/zig-scheduler-lab.slice/''"

definition load_object_pt :: "env \<Rightarrow> path \<Rightarrow> json_object result" where
  "load_object_pt env path =
     (bindE (bindE (fs_read_text env path) (json_loads env)) (\<lambda>raw.
     case obj_of raw of
         None \<Rightarrow> Inl (PartialAttachError (msg [path_str path, '' must contain a JSON object'']))
         | Some d \<Rightarrow> Inr d))"

definition require_text_pt :: "json_object \<Rightarrow> string \<Rightarrow> string result" where
  "require_text_pt data field =
     (case text_of (jget data field) of
        None \<Rightarrow> Inl (PartialAttachError (msg [''partial attach evidence missing text field: '', field]))
      | Some s \<Rightarrow> Inr s)"

definition require_bool_pt :: "json_object \<Rightarrow> string \<Rightarrow> bool result" where
  "require_bool_pt data field =
     (case bool_of (jget data field) of
        None \<Rightarrow> Inl (PartialAttachError (msg [''partial attach evidence missing bool field: '', field]))
      | Some b \<Rightarrow> Inr b)"

definition validate_evidence :: "env \<Rightarrow> path \<Rightarrow> check" where
  "validate_evidence env path =
     (bindE (load_object_pt env path) (\<lambda>evidence.
     bindE (require_text_pt evidence ''schema'') (\<lambda>schema.
     thenE (if schema \<noteq> SCHEMA_pt then
         (if jget evidence ''schema'' = JStr REFUSAL_SCHEMA
         then Inl (PartialAttachError ''host refusal is not partial attach evidence'')
         else Inl (PartialAttachError ''unsupported partial attach evidence schema''))
         else Inr ()) (
     thenE (reject_contradictions evidence ''partial attach evidence'') (
     bindE (require_bool_pt evidence ''host_mutation'') (\<lambda>host_mutation.
     thenE (raise_if host_mutation (PartialAttachError ''partial attach evidence host_mutation must be false'')) (
     bindE (require_bool_pt evidence ''release_eligible_live_proof'') (\<lambda>release.
     thenE (raise_if release (PartialAttachError ''fixture partial attach evidence must not be release eligible'')) (
     bindE (require_text_pt evidence ''ops_during_attach'') (\<lambda>ops.
     thenE (raise_if (ops \<noteq> ''zigsched_minimal'') (PartialAttachError ''partial attach evidence missing zigsched_minimal ops'')) (
     bindE (require_text_pt evidence ''switch_mode'') (\<lambda>switch_mode.
     thenE (raise_if (switch_mode \<noteq> ''SCX_OPS_SWITCH_PARTIAL'')
         (PartialAttachError ''partial attach evidence is not partial-switch mode'')) (
     bindE (require_text_pt evidence ''attach_command'') (\<lambda>attach_command.
     thenE (raise_if (attach_command \<noteq> ''bpftool struct_ops register'')
         (PartialAttachError ''partial attach evidence missing bpftool struct_ops register'')) (
     bindE (require_text_pt evidence ''target_cgroup'') (\<lambda>target.
     thenE (raise_if (\<not> prefix TARGET_PREFIX target \<or> target = TARGET_PREFIX)
         (PartialAttachError ''partial attach target is outside allowlisted lab cgroup'')) (
     bindE (require_text_pt evidence ''rollback_id'') (\<lambda>rollback_id.
     thenE (raise_if (rollback_id = []) (PartialAttachError ''partial attach evidence missing rollback id'')) (
     bindE (require_text_pt evidence ''rollback_status'') (\<lambda>rollback_status.
     thenE (raise_if (rollback_status \<noteq> ''PASS'') (PartialAttachError ''partial attach rollback did not pass'')) (
     bindE (require_text_pt evidence ''post_state'') (\<lambda>post_state.
     thenE (raise_if (post_state \<notin> {''disabled'', ''previous''})
         (PartialAttachError (msg [''partial attach post state is unsafe: '', post_state]))) (
     bindE (require_text_pt evidence ''object_sha256'') (\<lambda>object_sha.
     thenE (raise_if (object_sha = replicate 64 CHR ''0'') (PartialAttachError ''partial attach evidence missing real object hash'')) (
     bindE (require_text_pt evidence ''transcript_path'') (\<lambda>transcript_name.
     (let transcript = mk_path transcript_name in
     thenE (raise_if (is_absolute transcript \<or> ''..'' \<in> set (path_parts transcript) \<or> \<not> fs_exists env transcript)
         (PartialAttachError ''partial attach transcript path is missing or unsafe'')) (
     bindE (fs_read_text env transcript) (\<lambda>content.
     forE (\<lambda>needle. raise_if (\<not> contains needle content) (PartialAttachError (msg [''partial attach transcript missing '', needle])))
         [''bpftool struct_ops register'', ''ops=zigsched_minimal'', ''rollback_status=PASS''])))))))))))))))))))))))))))))"

section \<open>What acceptance means\<close>

lemma require_text_pt_ok_iff [ok_iff]: "require_text_pt d f = Inr s \<longleftrightarrow> jget d f = JStr s \<and> s \<noteq> []"
  by (cases "jget d f") (auto simp: require_text_pt_def)

lemma require_bool_pt_ok_iff [ok_iff]: "require_bool_pt d f = Inr b \<longleftrightarrow> jget d f = JBool b"
  by (cases "jget d f") (auto simp: require_bool_pt_def)

lemma load_object_pt_ok_iff [ok_iff]:
  "load_object_pt env p = Inr d \<longleftrightarrow> (\<exists>s. fs_read_text env p = Inr s \<and> json_decode env s = Decoded (JObj d))"
  by (auto simp: load_object_pt_def ok_iff obj_of_iff split: option.splits)

lemma guard_ok_iff [ok_iff]: "(if c then (if d then Inl e else Inl e') else Inr ()) = Inr u \<longleftrightarrow> \<not> c"
  by simp

text \<open>No flag of the document contradicts the success it reports.\<close>

definition uncontradicted :: "json_object \<Rightarrow> bool" where
  "uncontradicted d \<longleftrightarrow>
     (\<forall>f \<in> {''dirty_worktree'', ''stale_state'', ''misleading_success_output''}. jget d f \<noteq> JBool True) \<and>
     (\<forall>c. jget d ''cleanup'' = JObj c \<longrightarrow> (\<forall>f \<in> {''qemu_leftovers'', ''tmux_leftovers''}. jget c f \<noteq> JBool True))"

lemma reject_contradictions_ok_iff [ok_iff]: "reject_contradictions d c = Inr u \<longleftrightarrow> uncontradicted d"
  by (cases "jget d ''cleanup''") (simp_all add: reject_contradictions_def ok_iff uncontradicted_def Let_def)

text \<open>The facts that the evidence of a rolled-back partial attach establishes.\<close>

definition rolled_back_attach :: "env \<Rightarrow> json_object \<Rightarrow> bool" where
  "rolled_back_attach env e \<longleftrightarrow>
     jget e ''schema'' = JStr SCHEMA_pt \<and> uncontradicted e \<and>
     jget e ''host_mutation'' = JBool False \<and> jget e ''release_eligible_live_proof'' = JBool False \<and>
     jget e ''ops_during_attach'' = JStr ''zigsched_minimal'' \<and> jget e ''switch_mode'' = JStr ''SCX_OPS_SWITCH_PARTIAL'' \<and>
     (\<exists>name. name \<noteq> [] \<and> jget e ''target_cgroup'' = JStr (TARGET_PREFIX @ name)) \<and>
     jget e ''rollback_status'' = JStr ''PASS'' \<and> jget e ''post_state'' \<in> {JStr ''disabled'', JStr ''previous''} \<and>
     (\<exists>t content. jget e ''transcript_path'' = JStr t \<and> safe_path (mk_path t) \<and> fs_exists env (mk_path t) \<and>
        fs_read_text env (mk_path t) = Inr content \<and>
        (\<forall>needle \<in> {''bpftool struct_ops register'', ''ops=zigsched_minimal'', ''rollback_status=PASS''}. contains needle content))"

lemma validate_evidence_ok:
  assumes "validate_evidence env path = Inr ()"
  shows "\<exists>e. load_object_pt env path = Inr e \<and> rolled_back_attach env e"
  using assms unfolding validate_evidence_def Let_def thenE_ok_iff bindE_ok_iff raise_if_ok_iff guard_ok_iff
    require_text_pt_ok_iff require_bool_pt_ok_iff reject_contradictions_ok_iff not_not de_Morgan_disj forE_ok_iff
proof (elim exE conjE, hypsubst, goal_cases)
  case (1 e schema host release ops mode command target rollback status post sha t content)
  have "\<exists>name. name \<noteq> [] \<and> jget e ''target_cgroup'' = JStr (TARGET_PREFIX @ name)"
    using 1 by (metis append_Nil2 prefixE)
  moreover have "jget e ''post_state'' \<in> {JStr ''disabled'', JStr ''previous''}"
    using \<open>jget e ''post_state'' = JStr post\<close> \<open>post \<in> {''disabled'', ''previous''}\<close> by auto
  moreover have "safe_path (mk_path t)"
    using \<open>\<not> is_absolute (mk_path t)\<close> \<open>''..'' \<notin> set (path_parts (mk_path t))\<close> by (simp add: safe_path_def)
  moreover have "jget e ''host_mutation'' = JBool False" "jget e ''release_eligible_live_proof'' = JBool False"
    using \<open>jget e ''host_mutation'' = JBool host\<close> \<open>\<not> host\<close>
      \<open>jget e ''release_eligible_live_proof'' = JBool release\<close> \<open>\<not> release\<close> by simp_all
  ultimately show ?case
    unfolding rolled_back_attach_def using 1 by (simp only: list.set) blast
qed

text \<open>C32: accepted partial-attach evidence shows a rolled-back attach and nothing more: the
  document does not contradict itself, nothing on the host was mutated and no release proof is claimed,
  the target is strictly below the lab's cgroup slice, the rollback passed and left the scheduler disabled
  or as before, and the transcript, a relative path that exists, contains the three lines that prove it.\<close>

theorem partial_attach_rolled_back:
  assumes "validate_evidence env path = Inr ()"
  shows "\<exists>e. load_object_pt env path = Inr e \<and> rolled_back_attach env e"
  using assms by (rule validate_evidence_ok)

definition attach_evidence :: json_object where
  "attach_evidence =
     [(''schema'', JStr SCHEMA_pt), (''attach_command'', JStr ''bpftool struct_ops register''), (''host_mutation'', JBool False),
      (''release_eligible_live_proof'', JBool False), (''target_cgroup'', JStr ''/sys/fs/cgroup/zig-scheduler-lab.slice/demo.scope''),
      (''rollback_id'', JStr ''RB-self-test''), (''rollback_status'', JStr ''PASS''), (''ops_during_attach'', JStr ''zigsched_minimal''),
      (''switch_mode'', JStr ''SCX_OPS_SWITCH_PARTIAL''), (''post_state'', JStr ''disabled''),
      (''object_sha256'', JStr (replicate 64 CHR ''a'')), (''transcript_path'', JStr ''tr'')]"

definition attach_env :: env where
  "attach_env = files_env
     [(''e'', ''E''), (''tr'', ''bpftool struct_ops register ops=zigsched_minimal rollback_status=PASS'')] []
     [(''E'', JObj attach_evidence)]"

lemma attach_env_accepted: "validate_evidence attach_env (mk_path ''e'') = Inr ()"
  by code_simp

theorem partial_attach_rolled_back_witness:
  "validate_evidence attach_env (mk_path ''e'') = Inr () \<and>
   (\<exists>e. load_object_pt attach_env (mk_path ''e'') = Inr e \<and> rolled_back_attach attach_env e)"
  using partial_attach_rolled_back[OF attach_env_accepted] attach_env_accepted by blast

end
