(* ===== verification/LiveBehavior.thy ===== *)
theory LiveBehavior
  imports LabObserve PartialAttach
begin

text \<open>
  \<^verbatim>\<open>qa/live_behavior_check.py\<close>: the proof that a scheduler ran live in a VM. The bundle must come from
  a marked QEMU VM; its artifacts must pass the partial-attach, the observation, the runtime-sample and the
  audit-ledger contracts; and the samples must show an episode: inactive before, active in between, gone
  and switched off at the end, with no counter of rejected, failed, fallback or fatal events grown.
\<close>

section \<open>Constants and reading\<close>

definition SUMMARY_SCHEMA_lb :: string where
  "SUMMARY_SCHEMA_lb = ''zig-scheduler/run-all-lab/v1''"

definition VM_MARKER_lb :: string where
  "VM_MARKER_lb = ''/run/zig-scheduler-vm-lab.marker''"

definition TARGET_PREFIX_lb :: string where
  "TARGET_PREFIX_lb = ''/sys/fs/cgroup/zig-scheduler-lab.slice/''"

definition COUNTER_NAMES :: "string list" where
  "COUNTER_NAMES = [''nr_rejected'', ''dispatch_failed'', ''fallback'', ''fatal'']"

definition UNAVAILABLE_VALUES_lb :: "string list" where
  "UNAVAILABLE_VALUES_lb = ['''', ''missing'', ''none'', ''null'', ''unavailable'', ''unknown'']"

definition SHA256_RE_lb :: rx where
  "SHA256_RE_lb = anchored_class is_hex_char 64 64"

definition load_object_lb :: "env \<Rightarrow> path \<Rightarrow> json_object result" where
  "load_object_lb env path =
     (bindE (reraise is_JSONDecodeError
         (\<lambda>exc. LiveBehaviorError (msg [''invalid JSON in '', path_str path, '': '', exn_str exc]))
         (reraise is_FileNotFoundError
         (\<lambda>_. LiveBehaviorError (msg [''missing JSON file: '', path_str path]))
         (bindE (fs_read_text env path) (json_loads env)))) (\<lambda>raw.
     case obj_of raw of
         None \<Rightarrow> Inl (LiveBehaviorError (msg [path_str path, '' must contain a JSON object'']))
         | Some d \<Rightarrow> Inr d))"

definition load_jsonl_lb :: "env \<Rightarrow> path \<Rightarrow> json_object list result" where
  "load_jsonl_lb env path =
     (bindE (fs_read_text env path) (\<lambda>data.
     bindE (jsonl_rows (\<lambda>index line.
         bindE (json_loads env line) (\<lambda>raw.
         case obj_of raw of
         None \<Rightarrow> Inl (LiveBehaviorError (msg [path_str path, '':'', show_nat index, '' must contain a JSON object'']))
         | Some d \<Rightarrow> Inr d)) (splitlines data)) (\<lambda>rows.
     thenE (raise_if (rows = []) (LiveBehaviorError (msg [''JSONL is empty: '', path_str path]))) (
     Inr rows))))"

definition require_text_lb :: "json_object \<Rightarrow> string \<Rightarrow> string \<Rightarrow> string result" where
  "require_text_lb data field context =
     (case text_of (jget data field) of
        Some s \<Rightarrow> Inr s
      | None \<Rightarrow> Inl (LiveBehaviorError (msg [context, '' missing non-empty text field: '', field])))"

definition require_bool_lb :: "json_object \<Rightarrow> string \<Rightarrow> string \<Rightarrow> bool result" where
  "require_bool_lb data field context =
     (case bool_of (jget data field) of
        Some b \<Rightarrow> Inr b
      | None \<Rightarrow> Inl (LiveBehaviorError (msg [context, '' missing bool field: '', field])))"

fun items_of :: "json \<Rightarrow> json list option" where
  "items_of (JList (x # xs)) = Some (x # xs)"
| "items_of _ = None"

definition require_list_lb :: "json_object \<Rightarrow> string \<Rightarrow> string \<Rightarrow> json list result" where
  "require_list_lb data field context =
     (case items_of (jget data field) of
        Some xs \<Rightarrow> Inr xs
      | None \<Rightarrow> Inl (LiveBehaviorError (msg [context, '' missing non-empty list field: '', field])))"

section \<open>The gate and the artifacts\<close>

definition validate_vm_live_gate :: "json_object \<Rightarrow> check" where
  "validate_vm_live_gate summary =
     (bindE (require_text_lb summary ''evidence_mode'' ''bundle'') (\<lambda>mode.
     thenE (raise_if (mode \<noteq> ''vm-live'') (LiveBehaviorError ''bundle is not VM-live evidence'')) (
     bindE (require_text_lb summary ''vm_kind'' ''bundle'') (\<lambda>kind.
     thenE (raise_if (kind \<noteq> ''qemu-vm'') (LiveBehaviorError ''bundle must be from qemu-vm'')) (
     bindE (require_bool_lb summary ''vm_marker_present'' ''bundle'') (\<lambda>marker.
     thenE (raise_if (\<not> marker) (LiveBehaviorError ''bundle missing VM marker'')) (
     bindE (require_text_lb summary ''vm_marker_path'' ''bundle'') (\<lambda>marker_path.
     thenE (raise_if (marker_path \<noteq> VM_MARKER_lb) (LiveBehaviorError ''bundle VM marker path is invalid'')) (
     bindE (require_text_lb summary ''rollback_result'' ''bundle'') (\<lambda>rollback.
     raise_if (rollback \<noteq> ''PASS'') (LiveBehaviorError ''bundle rollback_result must be PASS'')))))))))))"

definition artifact_paths :: "env \<Rightarrow> json_object \<Rightarrow> path list result" where
  "artifact_paths env summary =
     (bindE (require_list_lb summary ''artifact_paths'' ''bundle'') (\<lambda>items.
     mapE (\<lambda>(index, value).
         case text_of value of
         None \<Rightarrow> Inl (LiveBehaviorError (msg [''bundle.artifact_paths['', show_nat index, ''] must be path text'']))
         | Some s \<Rightarrow>
         let path = mk_path s in
         thenE (raise_if (is_absolute path \<or> ''..'' \<in> set (path_parts path) \<or> \<not> fs_exists env path)
         (LiveBehaviorError (msg [''bundle artifact path is unsafe or missing: '', s])))
         (Inr path)) (enumerate_from 0 items)))"

fun require_artifact_lb :: "path list \<Rightarrow> string \<Rightarrow> path result" where
  "require_artifact_lb [] sfx = Inl (LiveBehaviorError (msg [''bundle missing artifact: '', sfx]))"
| "require_artifact_lb (path # paths) sfx = (if suffix sfx (path_str path) then Inr path else require_artifact_lb paths sfx)"

definition validate_partial_behavior :: "json_object \<Rightarrow> check" where
  "validate_partial_behavior partial =
     (bindE (require_text_lb partial ''ops_during_attach'' ''partial'') (\<lambda>ops.
     thenE (raise_if (ops \<noteq> ''zigsched_minimal'') (LiveBehaviorError ''partial attach did not run zigsched_minimal'')) (
     bindE (require_text_lb partial ''switch_mode'' ''partial'') (\<lambda>mode.
     thenE (raise_if (mode \<noteq> ''SCX_OPS_SWITCH_PARTIAL'') (LiveBehaviorError ''partial attach was not partial-switch'')) (
     bindE (require_text_lb partial ''target_cgroup'' ''partial'') (\<lambda>target.
     thenE (raise_if (\<not> prefix TARGET_PREFIX_lb target) (LiveBehaviorError ''partial attach target is not allowlisted'')) (
     bindE (require_text_lb partial ''object_sha256'' ''partial'') (\<lambda>object_sha.
     raise_if (\<not> re_match SHA256_RE_lb object_sha \<or> object_sha = replicate 64 CHR ''0'')
         (LiveBehaviorError ''partial attach object hash is malformed'')))))))))"

definition workload_execution_passed_lb :: "json_object \<Rightarrow> bool" where
  "workload_execution_passed_lb observe =
     (case obj_of (jget observe ''workload_execution'') of
        None \<Rightarrow> False
      | Some d \<Rightarrow>
          jget d ''status'' = JStr ''PASS'' \<and> jget d ''host_mutation'' = JBool False \<and> jget d ''scenario'' \<noteq> JStr ''live-backend'')"

definition validate_observe_behavior :: "json_object \<Rightarrow> check" where
  "validate_observe_behavior observe =
     (bindE (require_text_lb observe ''evidence_mode'' ''observe'') (\<lambda>mode.
     thenE (raise_if (mode \<noteq> ''vm-live'') (LiveBehaviorError ''observe summary is not VM-live'')) (
     bindE (require_bool_lb observe ''workload_alive_all_samples'' ''observe'') (\<lambda>alive.
     thenE (raise_if (\<not> alive \<and> \<not> workload_execution_passed_lb observe)
         (LiveBehaviorError ''workload was not alive across samples'')) (
     bindE (require_bool_lb observe ''final_state_disabled_or_rolled_back'' ''observe'') (\<lambda>off.
     raise_if (\<not> off) (LiveBehaviorError ''rollback did not restore scheduler state'')))))))"

section \<open>Counters\<close>

definition sample_ops :: "json_object \<Rightarrow> string" where
  "sample_ops row =
     (case obj_of (jget row ''ops'') of
        None \<Rightarrow> []
      | Some ops \<Rightarrow> (case str_of (jget ops ''value'') of Some s \<Rightarrow> s | None \<Rightarrow> []))"

definition sample_state :: "json_object \<Rightarrow> string" where
  "sample_state row =
     (case obj_of (jget row ''state'') of
        None \<Rightarrow> []
      | Some state \<Rightarrow> (case str_of (jget state ''value'') of Some s \<Rightarrow> s | None \<Rightarrow> []))"

text \<open>
  \<^verbatim>\<open>COUNTER_RE\<close> at the start of a string: the first of the names for which a separator, white space and
  digits follow, with the digits and the rest of the string. \<^verbatim>\<open>fallbacks?\<close> tries the longer name first.
\<close>

definition COUNTER_RE_NAMES :: "string list" where
  "COUNTER_RE_NAMES = [''nr_rejected'', ''dispatch_failed'', ''fallbacks'', ''fallback'', ''fatal'']"

definition counter_named :: "string \<Rightarrow> string \<Rightarrow> (string \<times> string \<times> string) option" where
  "counter_named name s =
     (if prefix name s then
        (case drop (length name) s of
           [] \<Rightarrow> None
         | c # r \<Rightarrow>
             if c = CHR '':'' \<or> c = CHR ''='' then
               (let t = dropWhile is_space_char r in
                if takeWhile is_digit_char t = [] then None
                else Some (name, takeWhile is_digit_char t, dropWhile is_digit_char t))
             else None)
      else None)"

fun first_some :: "('a \<Rightarrow> 'b option) \<Rightarrow> 'a list \<Rightarrow> 'b option" where
  "first_some f [] = None"
| "first_some f (x # xs) = (case f x of Some y \<Rightarrow> Some y | None \<Rightarrow> first_some f xs)"

definition counter_at :: "string \<Rightarrow> (string \<times> string \<times> string) option" where
  "counter_at s = first_some (\<lambda>name. counter_named name s) COUNTER_RE_NAMES"

lemma counter_named_shorter: "counter_named name s = Some (n, ds, r) \<Longrightarrow> length r < length s"
proof -
  assume "counter_named name s = Some (n, ds, r)"
  then obtain c t where t: "drop (length name) s = c # t" and r: "r = dropWhile is_digit_char (dropWhile is_space_char t)"
    by (auto simp: counter_named_def Let_def split: if_splits list.splits)
  have "length r \<le> length (dropWhile is_space_char t)" unfolding r by (rule length_dropWhile_le)
  also have "\<dots> \<le> length t" by (rule length_dropWhile_le)
  also have "\<dots> < length (drop (length name) s)" by (simp add: t)
  also have "\<dots> \<le> length s" by simp
  finally show ?thesis .
qed

lemma first_some_SomeD: "first_some f xs = Some y \<Longrightarrow> \<exists>x \<in> set xs. f x = Some y"
  by (induction xs) (auto split: option.splits)

lemma counter_at_shorter: "counter_at s = Some (n, ds, r) \<Longrightarrow> length r < length s"
  by (auto simp: counter_at_def dest!: first_some_SomeD counter_named_shorter)

text \<open>\<^verbatim>\<open>COUNTER_RE.finditer(raw)\<close>: the two groups of every match.\<close>

function counter_matches :: "string \<Rightarrow> (string \<times> string) list" where
  "counter_matches [] = []"
| "counter_matches (c # cs) =
     (case counter_at (c # cs) of
        None \<Rightarrow> counter_matches cs
      | Some (name, digits, rest) \<Rightarrow> (name, digits) # counter_matches rest)"
  by pat_completeness auto
termination
  by (relation "measure length") (auto dest: counter_at_shorter)

definition parse_counters :: "json_object \<Rightarrow> (string \<times> int) list result" where
  "parse_counters row =
     (case obj_of (jget row ''events'') of
        None \<Rightarrow> Inr []
      | Some events \<Rightarrow>
          (case str_of (jget events ''value'') of
             None \<Rightarrow> Inr []
           | Some raw \<Rightarrow> mapE (\<lambda>(name, digits). bindE (py_int digits) (\<lambda>n. Inr (name, n))) (counter_matches raw)))"

text \<open>The value under a name in the dict: that of the last match.\<close>

definition counter_value :: "(string \<times> int) list \<Rightarrow> string \<Rightarrow> int option" where
  "counter_value counters name = map_of (rev counters) name"

definition sample_events_known :: "json_object \<Rightarrow> bool" where
  "sample_events_known row =
     (case obj_of (jget row ''events'') of
        None \<Rightarrow> False
      | Some events \<Rightarrow>
          jget events ''status'' = JStr ''present'' \<and>
          (case str_of (jget events ''value'') of None \<Rightarrow> False | Some s \<Rightarrow> lower s \<notin> set UNAVAILABLE_VALUES_lb))"

definition validate_required_counter_fact :: "json_object \<Rightarrow> nat \<Rightarrow> string \<Rightarrow> int option result" where
  "validate_required_counter_fact row index name =
     (case obj_of (jget row name) of
        None \<Rightarrow> Inl (LiveBehaviorError (msg [''sample '', show_nat index, '' must expose counter fact: '', name]))
      | Some counter \<Rightarrow>
          (case (str_of (jget counter ''status''), str_of (jget counter ''value'')) of
             (Some status, Some value) \<Rightarrow>
               let events_known = sample_events_known row in
               if status = ''present'' then
                 (thenE (raise_if (\<not> isdigit value)
                       (LiveBehaviorError (msg [''sample '', show_nat index, '' counter '', name, '' present value must be numeric'']))) (
                   thenE (raise_if (\<not> events_known)
                       (LiveBehaviorError (msg [''sample '', show_nat index, '' counter '', name, '' claims numeric value while events are unavailable'']))) (
                   bindE (py_int value) (\<lambda>n.
                   Inr (Some n)))))
               else
                 (thenE (raise_if (status \<notin> {''unknown'', ''missing'', ''unreadable''})
                       (LiveBehaviorError (msg [''sample '', show_nat index, '' counter '', name, '' has unsupported status: '', status]))) (
                   thenE (raise_if (lower value \<notin> set UNAVAILABLE_VALUES_lb)
                       (LiveBehaviorError (msg [''sample '', show_nat index, '' counter '', name, '' unavailable value is not explicit'']))) (
                   Inr None)))
           | _ \<Rightarrow> Inl (LiveBehaviorError (msg [''sample '', show_nat index, '' counter '', name, '' must have explicit status/value'']))))"

definition validate_counter_growth :: "json_object list \<Rightarrow> check" where
  "validate_counter_growth rows =
     (thenE (forE (\<lambda>(index, row). bindE (validate_required_counter_fact row index ''nr_rejected'') (\<lambda>_. Inr ()))
         (enumerate_from 0 rows)) (
     bindE (validate_required_counter_fact (hd rows) 0 ''nr_rejected'') (\<lambda>first_fact.
     bindE (validate_required_counter_fact (last rows) (length rows - 1) ''nr_rejected'') (\<lambda>last_fact.
     thenE (raise_if (case (first_fact, last_fact) of (Some f, Some l) \<Rightarrow> l > f | _ \<Rightarrow> False)
         (LiveBehaviorError ''fatal/reject/fallback counter grew: nr_rejected'')) (
     bindE (parse_counters (hd rows)) (\<lambda>first_counters.
     bindE (parse_counters (last rows)) (\<lambda>last_counters.
     forE (\<lambda>name.
         raise_if (case (counter_value first_counters name, counter_value last_counters name) of
         (Some f, Some l) \<Rightarrow> l > f | _ \<Rightarrow> False)
         (LiveBehaviorError (msg [''fatal/reject/fallback counter grew: '', name]))) COUNTER_NAMES)))))))"

section \<open>Samples, events, the bundle\<close>

definition validate_cgroup_membership :: "json_object \<Rightarrow> nat \<Rightarrow> check" where
  "validate_cgroup_membership row index =
     (thenE (raise_if (case str_of (jget row ''cgroup_membership_digest'') of
         None \<Rightarrow> True
         | Some digest \<Rightarrow>
         \<not> re_match SHA256_RE_lb digest \<or> digest = replicate 64 CHR ''0'' \<or> lower digest \<in> set UNAVAILABLE_VALUES_lb)
         (LiveBehaviorError (msg [''sample '', show_nat index, '' cgroup membership digest is not an observed sha256'']))) (
     raise_if (case obj_of (jget row ''cgroup_membership_status'') of
         None \<Rightarrow> True
         | Some status \<Rightarrow> jget status ''status'' \<noteq> JStr ''present'' \<or> jget status ''value'' \<noteq> JStr ''present'')
         (LiveBehaviorError (msg [''sample '', show_nat index, '' cgroup membership status is not observed present'']))))"

definition validate_samples_lb :: "json_object list \<Rightarrow> json_object \<Rightarrow> check" where
  "validate_samples_lb rows observe =
     (thenE (raise_if (length rows < 3) (LiveBehaviorError ''behavior proof requires before/during/after samples'')) (
     thenE (raise_if (sample_ops (hd rows) = ''zigsched_minimal'') (LiveBehaviorError ''first sample must be before attach'')) (
     thenE (raise_if (\<not> list_ex (\<lambda>row. sample_ops row = ''zigsched_minimal'') (butlast (tl rows)))
         (LiveBehaviorError ''middle samples never show zigsched_minimal during attach'')) (
     thenE (raise_if (sample_ops (last rows) = ''zigsched_minimal'') (LiveBehaviorError ''last sample must be after rollback'')) (
     thenE (raise_if (sample_state (last rows) \<notin> {''disabled'', ''previous''})
         (LiveBehaviorError ''last sample does not prove rollback-restored state'')) (
     (let workload_alive_all_samples = list_all (\<lambda>row. jget row ''workload_alive'' = JBool True) rows in
     bindE (require_bool_lb observe ''workload_alive_all_samples'' ''observe'') (\<lambda>stated.
     thenE (raise_if (stated \<noteq> workload_alive_all_samples)
         (LiveBehaviorError ''observe workload_alive_all_samples conflicts with samples'')) (
     thenE (raise_if (\<not> workload_alive_all_samples \<and> \<not> workload_execution_passed_lb observe)
         (LiveBehaviorError ''workload is not alive in every sample'')) (
     thenE (forE (\<lambda>(index, row). validate_cgroup_membership row index) (enumerate_from 0 rows)) (
     validate_counter_growth rows)))))))))))"

definition validate_daemon_events_lb :: "json_object list \<Rightarrow> check" where
  "validate_daemon_events_lb rows =
     (thenE (forE (\<lambda>row. raise_if (jget row ''host_mutation'' \<noteq> JBool False)
         (LiveBehaviorError ''daemon events must explicitly report host_mutation=false'')) rows) (
     (let runtime = filter (\<lambda>row. jget row ''event'' = JStr ''runtime_sample'') rows in
     thenE (raise_if (runtime = []) (LiveBehaviorError ''daemon emitted no runtime_sample events'')) (
     raise_if (\<not> list_ex (\<lambda>row. jget row ''ops'' = JStr ''zigsched_minimal'') runtime)
         (LiveBehaviorError ''daemon events never show zigsched_minimal'')))))"

definition validate_bundle :: "env \<Rightarrow> path \<Rightarrow> check" where
  "validate_bundle env path =
     (bindE (load_object_lb env path) (\<lambda>summary.
     bindE (require_text_lb summary ''schema'' ''bundle'') (\<lambda>schema.
     thenE (raise_if (schema \<noteq> SUMMARY_SCHEMA_lb) (LiveBehaviorError ''bundle has unsupported schema'')) (
     bindE (require_text_lb summary ''status'' ''bundle'') (\<lambda>status.
     thenE (raise_if (status \<noteq> ''PASS'') (LiveBehaviorError ''bundle status must be PASS'')) (
     bindE (require_bool_lb summary ''host_mutation'' ''bundle'') (\<lambda>host_mutation.
     thenE (raise_if host_mutation (LiveBehaviorError ''bundle host_mutation must be false'')) (
     thenE (validate_vm_live_gate summary) (
     bindE (artifact_paths env summary) (\<lambda>artifacts.
     bindE (require_artifact_lb artifacts ''partial-attach-evidence.json'') (\<lambda>partial.
     bindE (require_artifact_lb artifacts ''observe-partial/summary.json'') (\<lambda>observe.
     bindE (require_artifact_lb artifacts ''runtime-samples.jsonl'') (\<lambda>samples.
     bindE (require_artifact_lb artifacts ''daemon-runtime-events.jsonl'') (\<lambda>daemon_events.
     bindE (require_artifact_lb artifacts ''audit-ledger.jsonl'') (\<lambda>ledger.
     thenE (validate_evidence env partial) (
     thenE (validate_observe env observe) (
     thenE (validate_file_rs env samples) (
     thenE (validate_ledger env ledger) (
     bindE (load_object_lb env partial) (\<lambda>partial_doc.
     thenE (validate_partial_behavior partial_doc) (
     bindE (load_object_lb env observe) (\<lambda>observe_summary.
     thenE (validate_observe_behavior observe_summary) (
     bindE (load_jsonl_lb env samples) (\<lambda>rows.
     thenE (validate_samples_lb rows observe_summary) (
     bindE (load_jsonl_lb env daemon_events) (\<lambda>events.
     validate_daemon_events_lb events))))))))))))))))))))))))))"

section \<open>What acceptance means\<close>

interpretation lb_text: field_reader require_text_lb text_of LiveBehaviorError
  by unfold_locales (auto simp: require_text_lb_def split: option.splits)

interpretation lb_bool: field_reader require_bool_lb bool_of LiveBehaviorError
  by unfold_locales (auto simp: require_bool_lb_def split: option.splits)

interpretation lb_list: field_reader require_list_lb items_of LiveBehaviorError
  by unfold_locales (auto simp: require_list_lb_def split: option.splits)

lemma load_object_lb_ok_iff [ok_iff]:
  "load_object_lb env p = Inr d \<longleftrightarrow> (\<exists>s. fs_read_text env p = Inr s \<and> json_decode env s = Decoded (JObj d))"
  by (auto simp: load_object_lb_def ok_iff obj_of_iff split: option.splits)

lemma load_jsonl_lb_rs: "load_jsonl_lb env p = Inr rows \<Longrightarrow> load_jsonl_rs env p = Inr rows"
proof -
  have line: "bindE (json_loads env line) (\<lambda>raw. case obj_of raw of None \<Rightarrow> Inl (e i) | Some d \<Rightarrow> Inr d) = Inr r \<longleftrightarrow>
      load_jsonl_line env i line = Inr r" for line i r and e :: "nat \<Rightarrow> exn"
    by (simp only: object_line_ok_iff load_jsonl_line_ok_iff)
  have "jsonl_rows (\<lambda>i line. bindE (json_loads env line) (\<lambda>raw. case obj_of raw of None \<Rightarrow> Inl (e i) | Some d \<Rightarrow> Inr d)) ls = Inr rows \<longleftrightarrow>
      jsonl_rows (load_jsonl_line env) ls = Inr rows" for ls and e :: "nat \<Rightarrow> exn"
    unfolding jsonl_rows_ok_iff line ..
  then show "load_jsonl_lb env p = Inr rows \<Longrightarrow> load_jsonl_rs env p = Inr rows"
    by (auto simp: load_jsonl_lb_def load_jsonl_rs_def bindE_ok_iff thenE_ok_iff raise_if_ok_iff reraise_ok_iff)
qed

text \<open>The artifact of a bundle with a given name: the first path of its list that ends with that name.\<close>

definition listed_artifact :: "json_object \<Rightarrow> string \<Rightarrow> path \<Rightarrow> bool" where
  "listed_artifact summary name p \<longleftrightarrow>
     (\<exists>texts. jget summary ''artifact_paths'' = JList (map JStr texts) \<and> List.find (\<lambda>q. suffix name (path_str q)) (map mk_path texts) = Some p)"

lemma artifact_paths_ok:
  assumes "artifact_paths env d = Inr paths"
  shows "\<exists>texts. jget d ''artifact_paths'' = JList (map JStr texts) \<and> paths = map mk_path texts \<and> (\<forall>p \<in> set paths. safe_path p \<and> fs_exists env p)"
proof -
  obtain items where items: "jget d ''artifact_paths'' = JList items"
    and read: "mapE (\<lambda>(index, value). case text_of value of
            None \<Rightarrow> Inl (LiveBehaviorError (msg [''bundle.artifact_paths['', show_nat index, ''] must be path text'']))
          | Some s \<Rightarrow>
              let path = mk_path s in
              thenE (raise_if (is_absolute path \<or> ''..'' \<in> set (path_parts path) \<or> \<not> fs_exists env path)
                       (LiveBehaviorError (msg [''bundle artifact path is unsafe or missing: '', s])))
                (Inr path)) (enumerate_from 0 items) = Inr paths"
    using assms unfolding artifact_paths_def bindE_ok_iff lb_list.read_ok by (auto elim!: items_of.elims)
  have "list_all2 (\<lambda>v p. \<exists>s. v = JStr s \<and> s \<noteq> [] \<and> p = mk_path s \<and> safe_path p \<and> fs_exists env p) items paths"
    by (rule iffD1[OF mapE_enumerate_ok_iff read])
      (auto simp: case_option_Inl text_of_iff Let_def thenE_ok_iff raise_if_ok_iff safe_path_def)
  then have "\<exists>texts. items = map JStr texts \<and> paths = map mk_path texts \<and> (\<forall>p \<in> set paths. safe_path p \<and> fs_exists env p)"
  proof (induction rule: list_all2_induct)
    case (Cons v vs p ps)
    then obtain s texts where "v = JStr s" "p = mk_path s" "vs = map JStr texts" "ps = map mk_path texts" by blast
    with Cons show ?case by (intro exI[of _ "s # texts"]) auto
  qed simp
  with items show ?thesis by blast
qed

lemma require_artifact_lb_ok_iff: "require_artifact_lb paths sfx = Inr p \<longleftrightarrow> List.find (\<lambda>q. suffix sfx (path_str q)) paths = Some p"
  by (induction paths) auto

lemma bundle_artifact:
  assumes "artifact_paths env d = Inr paths" and "require_artifact_lb paths name = Inr p"
  shows "listed_artifact d name p \<and> safe_path p \<and> fs_exists env p"
proof -
  have "List.find (\<lambda>q. suffix name (path_str q)) paths = Some p" using assms(2) by (simp add: require_artifact_lb_ok_iff)
  moreover from this have "p \<in> set paths" by (auto simp: find_Some_iff)
  ultimately show ?thesis using artifact_paths_ok[OF assms(1)] unfolding listed_artifact_def by blast
qed

text \<open>The number that a counter fact states, when it states one.\<close>

definition counter_fact :: "json_object \<Rightarrow> string \<Rightarrow> int option" where
  "counter_fact row name =
     (case obj_of (jget row name) of
        None \<Rightarrow> None
      | Some d \<Rightarrow>
          if jget d ''status'' = JStr ''present'' then map_option digits_value (str_of (jget d ''value'')) else None)"

lemma validate_required_counter_fact_ok:
  assumes "validate_required_counter_fact row i name = Inr n"
  shows "n = counter_fact row name" and "n \<noteq> None \<Longrightarrow> sample_events_known row"
proof -
  obtain d s v where row: "jget row name = JObj d" "jget d ''status'' = JStr s" "jget d ''value'' = JStr v"
    using assms by (auto simp: validate_required_counter_fact_def obj_of_iff str_of_iff split: option.splits prod.splits)
  have "if s = ''present'' then n = Some (digits_value v) \<and> sample_events_known row else n = None"
    using assms by (auto simp: validate_required_counter_fact_def row ok_iff Let_def split: if_splits)
  then show "n = counter_fact row name" "n \<noteq> None \<Longrightarrow> sample_events_known row"
    by (auto simp: counter_fact_def row split: if_splits)
qed

definition not_grown :: "int option \<Rightarrow> int option \<Rightarrow> bool" where
  "not_grown first later = (case (first, later) of (Some f, Some l) \<Rightarrow> l \<le> f | _ \<Rightarrow> True)"

lemma not_grown_iff: "\<not> (case (a, b) of (Some f, Some l) \<Rightarrow> l > f | _ \<Rightarrow> False) \<longleftrightarrow> not_grown a b"
  by (auto simp: not_grown_def split: option.splits)

lemma validate_counter_growth_ok:
  assumes "validate_counter_growth rows = Inr ()"
  shows "not_grown (counter_fact (hd rows) ''nr_rejected'') (counter_fact (last rows) ''nr_rejected'')"
    and "\<exists>first_counters last_counters. parse_counters (hd rows) = Inr first_counters \<and> parse_counters (last rows) = Inr last_counters \<and>
      (\<forall>name \<in> set COUNTER_NAMES. not_grown (counter_value first_counters name) (counter_value last_counters name))"
  using assms unfolding validate_counter_growth_def thenE_ok_iff bindE_ok_iff raise_if_ok_iff forE_ok_iff not_grown_iff
  by (blast dest: validate_required_counter_fact_ok(1))+

text \<open>An episode: the scheduler is off at the start, on in between and off at the end, and nothing failed.\<close>

definition attach_episode :: "json_object list \<Rightarrow> bool" where
  "attach_episode rows \<longleftrightarrow>
     3 \<le> length rows \<and> sample_ops (hd rows) \<noteq> ''zigsched_minimal'' \<and>
     (\<exists>i. 0 < i \<and> i < length rows - 1 \<and> sample_ops (rows ! i) = ''zigsched_minimal'') \<and>
     sample_ops (last rows) \<noteq> ''zigsched_minimal'' \<and> sample_state (last rows) \<in> {''disabled'', ''previous''} \<and>
     not_grown (counter_fact (hd rows) ''nr_rejected'') (counter_fact (last rows) ''nr_rejected'')"

lemma middle_nth: "x \<in> set (butlast (tl xs)) \<Longrightarrow> \<exists>i. 0 < i \<and> i < length xs - 1 \<and> xs ! i = x"
proof -
  assume "x \<in> set (butlast (tl xs))"
  then obtain i where i: "i < length xs - 1 - 1" "butlast (tl xs) ! i = x"
    by (auto simp: in_set_conv_nth)
  then have "xs ! Suc i = x" by (simp add: nth_butlast nth_tl)
  with i(1) show ?thesis by (intro exI[of _ "Suc i"]) auto
qed

lemma validate_samples_lb_ok:
  assumes "validate_samples_lb rows observe = Inr ()"
  shows "attach_episode rows"
  using assms unfolding validate_samples_lb_def Let_def thenE_ok_iff bindE_ok_iff raise_if_ok_iff list_ex_iff not_not
proof (elim exE conjE bexE, goal_cases)
  case (1 stated row)
  obtain i where "0 < i \<and> i < length rows - 1 \<and> rows ! i = row"
    using middle_nth[OF \<open>row \<in> set (butlast (tl rows))\<close>] by blast
  with \<open>sample_ops row = ''zigsched_minimal''\<close>
  have "\<exists>i. 0 < i \<and> i < length rows - 1 \<and> sample_ops (rows ! i) = ''zigsched_minimal''" by blast
  moreover have "not_grown (counter_fact (hd rows) ''nr_rejected'') (counter_fact (last rows) ''nr_rejected'')"
    using \<open>validate_counter_growth rows = Inr ()\<close> by (rule validate_counter_growth_ok)
  ultimately show ?case unfolding attach_episode_def using 1 by (simp only: not_less simp_thms)
qed

lemma validate_daemon_events_lb_ok:
  "validate_daemon_events_lb rows = Inr () \<Longrightarrow> row \<in> set rows \<Longrightarrow> jget row ''host_mutation'' = JBool False"
  by (simp add: validate_daemon_events_lb_def ok_iff)

text \<open>The bundle comes from a marked VM and says that its rollback passed.\<close>

definition vm_live_gate :: "json_object \<Rightarrow> bool" where
  "vm_live_gate d \<longleftrightarrow>
     jget d ''evidence_mode'' = JStr ''vm-live'' \<and> jget d ''vm_kind'' = JStr ''qemu-vm'' \<and> jget d ''vm_marker_present'' = JBool True \<and>
     jget d ''vm_marker_path'' = JStr VM_MARKER_lb \<and> jget d ''rollback_result'' = JStr ''PASS''"

lemma validate_vm_live_gate_ok_iff [ok_iff]: "validate_vm_live_gate d = Inr u \<longleftrightarrow> vm_live_gate d"
  by (simp add: validate_vm_live_gate_def vm_live_gate_def ok_iff text_of_iff bool_of_iff VM_MARKER_lb_def)

text \<open>What a bundle proves by the artifacts that its own list names.\<close>

definition bundle_episode :: "env \<Rightarrow> path \<Rightarrow> json_object \<Rightarrow> bool" where
  "bundle_episode env path summary \<longleftrightarrow> (\<exists>partial observe samples daemon ledger e rows events.
    load_object_lb env path = Inr summary \<and> jget summary ''host_mutation'' = JBool False \<and> vm_live_gate summary \<and>
    listed_artifact summary ''partial-attach-evidence.json'' partial \<and> listed_artifact summary ''observe-partial/summary.json'' observe \<and>
    listed_artifact summary ''runtime-samples.jsonl'' samples \<and> listed_artifact summary ''daemon-runtime-events.jsonl'' daemon \<and>
    listed_artifact summary ''audit-ledger.jsonl'' ledger \<and>
    (\<forall>p \<in> {partial, observe, samples, daemon, ledger}. safe_path p \<and> fs_exists env p) \<and>
    load_object_pt env partial = Inr e \<and> rolled_back_attach env e \<and> validate_observe env observe = Inr () \<and> validate_ledger env ledger = Inr () \<and>
    load_jsonl_rs env samples = Inr rows \<and> attach_episode rows \<and> sorted_wrt (<) (List.map_filter row_sequence rows) \<and>
    load_jsonl_rs env daemon = Inr events \<and> (\<forall>row \<in> set events. jget row ''host_mutation'' = JBool False))"

lemma validate_bundle_ok:
  assumes "validate_bundle env path = Inr ()"
  shows "\<exists>summary. bundle_episode env path summary"
  using assms unfolding validate_bundle_def thenE_ok_iff bindE_ok_iff raise_if_ok_iff lb_bool.read_ok bool_of_iff
    validate_vm_live_gate_ok_iff
proof (elim exE conjE, goal_cases)
  case (1 summary schema status host artifacts partial observe samples daemon ledger pdoc odoc rows events)
  note named = bundle_artifact[OF \<open>artifact_paths env summary = Inr artifacts\<close>]
  obtain e where e: "load_object_pt env partial = Inr e" "rolled_back_attach env e"
    using validate_evidence_ok[OF \<open>validate_evidence env partial = Inr ()\<close>] by blast
  have rows: "attach_episode rows" "load_jsonl_rs env samples = Inr rows" and events: "load_jsonl_rs env daemon = Inr events"
    using 1 validate_samples_lb_ok load_jsonl_lb_rs by blast+
  then have "validate_sched_ext_sequence rows = Inr ()"
    using \<open>validate_file_rs env samples = Inr ()\<close> by (auto elim: validate_file_rs_okE)
  then have "sorted_wrt (<) (List.map_filter row_sequence rows)" by (rule validate_sched_ext_sequence_ok)
  moreover have "\<forall>row \<in> set events. jget row ''host_mutation'' = JBool False"
    using 1 validate_daemon_events_lb_ok by blast
  moreover have "jget summary ''host_mutation'' = JBool False" using 1 by simp
  moreover have "\<forall>p \<in> {partial, observe, samples, daemon, ledger}. safe_path p \<and> fs_exists env p" using 1 named by blast
  ultimately show ?case unfolding bundle_episode_def using e rows events named 1 by blast
qed

text \<open>C15: an accepted live bundle comes from a marked VM without a host mutation, and the artifacts
  that its own list of paths names prove an episode: the samples are a history in which the scheduler is absent from the first
  sample, active in one in between, absent and switched off in the last, and in which the count of rejected tasks did
  not grow; the partial-attach evidence shows a rolled-back attach, the observation summary and the audit ledger are
  accepted, every daemon event denies a host mutation, and all of these are existing files at relative paths
  without a step upwards. The artifact of a name is the first listed path that ends with it.\<close>

theorem live_bundle_shows_episode:
  assumes "validate_bundle env path = Inr ()"
  shows "\<exists>summary partial observe samples daemon ledger e rows events.
    load_object_lb env path = Inr summary \<and> jget summary ''host_mutation'' = JBool False \<and> vm_live_gate summary \<and>
    listed_artifact summary ''partial-attach-evidence.json'' partial \<and> listed_artifact summary ''observe-partial/summary.json'' observe \<and>
    listed_artifact summary ''runtime-samples.jsonl'' samples \<and> listed_artifact summary ''daemon-runtime-events.jsonl'' daemon \<and>
    listed_artifact summary ''audit-ledger.jsonl'' ledger \<and>
    (\<forall>p \<in> {partial, observe, samples, daemon, ledger}. safe_path p \<and> fs_exists env p) \<and>
    load_object_pt env partial = Inr e \<and> rolled_back_attach env e \<and> validate_observe env observe = Inr () \<and> validate_ledger env ledger = Inr () \<and>
    load_jsonl_rs env samples = Inr rows \<and> attach_episode rows \<and> sorted_wrt (<) (List.map_filter row_sequence rows) \<and>
    load_jsonl_rs env daemon = Inr events \<and> (\<forall>row \<in> set events. jget row ''host_mutation'' = JBool False)"
  using validate_bundle_ok[OF assms] unfolding bundle_episode_def .

definition live_sample :: "int \<Rightarrow> string \<Rightarrow> string \<Rightarrow> string \<Rightarrow> string \<Rightarrow> json_object" where
  "live_sample n seq phase state ops =
     (''events'', present ''nr_rejected: 0'') # filter (\<lambda>(k, v). k \<noteq> ''events'') (minimal_sample n seq phase state ops) @
     [(''cgroup_membership_status'', present ''present'')]"

definition live_env :: env where
  "live_env = files_env
     [(''b/backend/.zig-scheduler-vm-backend-owned'', ''''), (''b/backend/summary.json'', ''BS''), (''b/backend/live/summary.json'', ''RUN''), (''b/backend/live/partial-attach-evidence.json'', ''E''), (''tr'', ''bpftool struct_ops register ops=zigsched_minimal rollback_status=PASS''),
      (''b/backend/live/observe-partial/summary.json'', ''SUM''), (''b/backend/live/observe-partial/runtime-samples.jsonl'', join [CHR 0x0A] [''A'', ''B'', ''C'']),
      (''b/backend/live/observe-partial/daemon-runtime-events.jsonl'', ''D''), (''b/backend/live/observe-partial/t'', ''t''), (''b/backend/live/audit-ledger.jsonl'', ''L''), (''snap'', ''S'')]
     [(''snap'', ''aa''), (''tr'', ''bb'')]
     [(''A'', JObj (live_sample 0 ''1'' ''before_attach'' ''disabled'' ''none'')),
      (''B'', JObj (live_sample 1 ''2'' ''during_attach'' ''enabled'' ''zigsched_minimal'')),
      (''C'', JObj (live_sample 2 ''2'' ''after_rollback'' ''disabled'' ''none'')),
      (''D'', JObj [(''event'', JStr ''runtime_sample''), (''ops'', JStr ''zigsched_minimal''), (''host_mutation'', JBool False)]),
      (''E'', JObj attach_evidence), (''L'', projj (json_decode ledger_env ''L'')), (''S'', projj (json_decode ledger_env ''S'')),
      (''SUM'', JObj [(''schema'', JStr SUMMARY_SCHEMA), (''evidence_mode'', JStr ''vm-live''),
         (''release_eligible_live_proof'', JBool False), (''sample_count'', JInt 3),
         (''runtime_samples'', JStr ''b/backend/live/observe-partial/runtime-samples.jsonl''),
         (''audit_ledger'', JStr ''b/backend/live/audit-ledger.jsonl''), (''transcript'', JStr ''b/backend/live/observe-partial/t''),
         (''daemon_runtime_events'', JStr ''b/backend/live/observe-partial/daemon-runtime-events.jsonl''),
         (''scheduler_snapshot'', JObj [(''state'', present ''disabled''), (''root_ops'', present ''none'')]),
         (''final_state'', JStr ''disabled''), (''final_ops'', JStr ''none''),
         (''final_state_disabled_or_rolled_back'', JBool True), (''workload_alive_all_samples'', JBool True)]),
      (''BS'', JObj [(''schema'', JStr ''zig-scheduler/vm-backend-run/v1''), (''status'', JStr ''PASS''), (''host_mutation'', JBool False),
         (''mode'', JStr ''vm-required''), (''vm_kind'', JStr ''qemu-vm''), (''vm_marker_required'', JStr VM_MARKER_lb),
         (''release_eligible_live_proof'', JBool False), (''output_dir'', JStr ''b/backend''),
         (''artifact_paths'', JList [JStr ''b/backend/live/summary.json'']),
         (''live_summary'', JStr ''b/backend/live/summary.json'')]),
      (''RUN'', JObj [(''schema'', JStr SUMMARY_SCHEMA_lb), (''status'', JStr ''PASS''), (''host_mutation'', JBool False),
         (''evidence_mode'', JStr ''vm-live''), (''vm_kind'', JStr ''qemu-vm''), (''vm_marker_present'', JBool True),
         (''vm_marker_path'', JStr VM_MARKER_lb), (''rollback_result'', JStr ''PASS''),
         (''release_use'', JBool False), (''release_eligible_live_proof'', JBool True), (''output_dir'', JStr ''b/backend/live''),
         (''kernel_tuple'', JObj [(''release'', JStr ''6.12''), (''arch'', JStr ''x86_64''), (''config_sha256'', JStr ''ab'')]),
         (''stages'', JList [JObj [(''status'', JStr ''PASS''), (''stage'', JStr ''observe''), (''reason'', JStr ''ok''),
            (''artifact'', JStr ''b/backend/live/audit-ledger.jsonl'')]]),
         (''artifact_paths'', JList [JStr ''b/backend/live/partial-attach-evidence.json'', JStr ''b/backend/live/observe-partial/summary.json'',
            JStr ''b/backend/live/observe-partial/runtime-samples.jsonl'', JStr ''b/backend/live/observe-partial/daemon-runtime-events.jsonl'',
            JStr ''b/backend/live/audit-ledger.jsonl''])])]"

definition live_doc :: "string \<Rightarrow> json_object" where
  "live_doc s = (case json_decode live_env s of Decoded (JObj d) \<Rightarrow> d | _ \<Rightarrow> [])"

abbreviation live_path :: path where
  "live_path \<equiv> mk_path ''b/backend/live/summary.json''"

abbreviation live_artifacts :: "path list" where
  "live_artifacts \<equiv> map mk_path [''b/backend/live/partial-attach-evidence.json'', ''b/backend/live/observe-partial/summary.json'',
     ''b/backend/live/observe-partial/runtime-samples.jsonl'', ''b/backend/live/observe-partial/daemon-runtime-events.jsonl'', ''b/backend/live/audit-ledger.jsonl'']"

lemma live_env_summary: "load_object_lb live_env live_path = Inr (live_doc ''RUN'')"
    "require_text_lb (live_doc ''RUN'') ''schema'' ''bundle'' = Inr SUMMARY_SCHEMA_lb"
    "require_text_lb (live_doc ''RUN'') ''status'' ''bundle'' = Inr ''PASS''"
    "require_bool_lb (live_doc ''RUN'') ''host_mutation'' ''bundle'' = Inr False"
    "validate_vm_live_gate (live_doc ''RUN'') = Inr ()"
    "artifact_paths live_env (live_doc ''RUN'') = Inr live_artifacts"
  by code_simp+

lemma live_env_artifacts: "require_artifact_lb live_artifacts ''partial-attach-evidence.json'' = Inr (mk_path ''b/backend/live/partial-attach-evidence.json'')"
    "require_artifact_lb live_artifacts ''observe-partial/summary.json'' = Inr (mk_path ''b/backend/live/observe-partial/summary.json'')"
    "require_artifact_lb live_artifacts ''runtime-samples.jsonl'' = Inr (mk_path ''b/backend/live/observe-partial/runtime-samples.jsonl'')"
    "require_artifact_lb live_artifacts ''daemon-runtime-events.jsonl'' = Inr (mk_path ''b/backend/live/observe-partial/daemon-runtime-events.jsonl'')"
    "require_artifact_lb live_artifacts ''audit-ledger.jsonl'' = Inr (mk_path ''b/backend/live/audit-ledger.jsonl'')"
  by code_simp+

lemma live_env_evidence: "validate_evidence live_env (mk_path ''b/backend/live/partial-attach-evidence.json'') = Inr ()"
  by code_simp

lemma live_env_observe: "validate_observe live_env (mk_path ''b/backend/live/observe-partial/summary.json'') = Inr ()"
  by code_simp

lemma live_env_samples: "validate_file_rs live_env (mk_path ''b/backend/live/observe-partial/runtime-samples.jsonl'') = Inr ()"
  by code_simp

lemma live_env_ledger: "validate_ledger live_env (mk_path ''b/backend/live/audit-ledger.jsonl'') = Inr ()"
  by code_simp

lemma live_env_behavior: "load_object_lb live_env (mk_path ''b/backend/live/partial-attach-evidence.json'') = Inr (live_doc ''E'')"
    "validate_partial_behavior (live_doc ''E'') = Inr ()"
    "load_object_lb live_env (mk_path ''b/backend/live/observe-partial/summary.json'') = Inr (live_doc ''SUM'')"
    "validate_observe_behavior (live_doc ''SUM'') = Inr ()"
    "load_jsonl_lb live_env (mk_path ''b/backend/live/observe-partial/runtime-samples.jsonl'') = Inr [live_doc ''A'', live_doc ''B'', live_doc ''C'']"
    "validate_samples_lb [live_doc ''A'', live_doc ''B'', live_doc ''C''] (live_doc ''SUM'') = Inr ()"
    "load_jsonl_lb live_env (mk_path ''b/backend/live/observe-partial/daemon-runtime-events.jsonl'') = Inr [live_doc ''D'']"
    "validate_daemon_events_lb [live_doc ''D''] = Inr ()"
  by code_simp+

lemmas live_env_checks = live_env_summary live_env_artifacts live_env_evidence live_env_observe live_env_samples live_env_ledger live_env_behavior

lemma live_env_accepted: "validate_bundle live_env live_path = Inr ()"
  unfolding validate_bundle_def bindE_ok_iff thenE_ok_iff raise_if_ok_iff
  by (intro exI conjI) (rule live_env_checks | simp only: not_not not_False_eq_True)+

theorem live_bundle_shows_episode_witness:
  "validate_bundle live_env live_path = Inr () \<and>
   (\<exists>summary samples rows. load_object_lb live_env live_path = Inr summary \<and> listed_artifact summary ''runtime-samples.jsonl'' samples \<and>
      load_jsonl_rs live_env samples = Inr rows \<and> attach_episode rows)"
  using live_bundle_shows_episode[OF live_env_accepted] live_env_accepted by blast

section \<open>What the counters miss\<close>

definition counter_row :: "string \<Rightarrow> json_object" where
  "counter_row events = [(''nr_rejected'', present ''0''), (''events'', present events)]"

text \<open>Growth is looked for under the four names of \<^verbatim>\<open>COUNTER_NAMES\<close> only. The pattern that
  reads the counters also accepts \<^verbatim>\<open>fallbacks\<close>, but stores it under that name: a history in which
  \<^verbatim>\<open>fallbacks\<close> grows passes, while the same growth of \<^verbatim>\<open>fallback\<close> is rejected.\<close>

theorem counter_growth_by_name:
  "validate_counter_growth [counter_row ''fallbacks: 0'', counter_row ''fallbacks: 7''] = Inr () \<and>
   validate_counter_growth [counter_row ''fallback: 0'', counter_row ''fallback: 7''] =
     Inl (LiveBehaviorError ''fatal/reject/fallback counter grew: fallback'') \<and>
   parse_counters (counter_row ''fallbacks: 7'') = Inr [(''fallbacks'', 7)]"
  by code_simp

end
