(* ===== verification/MatrixRunManifest.thy ===== *)
theory MatrixRunManifest
  imports MatrixRunValidate DaemonEvent RuntimeSample LiveBehavior
begin

text \<open>
  \<^verbatim>\<open>qa/matrix_run_manifest_validate.py\<close>, \<^verbatim>\<open>qa/matrix_run_live_backend.py\<close> and the dispatch of
  \<^verbatim>\<open>qa/matrix_run_contract_check.py\<close>: the index of a run. Every row it lists is loaded and checked, and
  these artifacts of a row are read, below the run's directory: the daemon events, the runtime
  samples, the workload spec with its capability artifact and benchmark provenance, the privacy report, the
  proofs of incident, rollback, cleanup and refusal, the marker of the virtual machine and, for the live
  backend, the nested live bundle. Of the policy a row names, only the place of the object file is checked.
\<close>

section \<open>The live backend\<close>

definition is_live_pass :: "string \<Rightarrow> string \<Rightarrow> bool" where
  "is_live_pass outcome evidence_mode \<longleftrightarrow> outcome = ''PASS'' \<and> evidence_mode = ''vm-live''"

definition validate_live_backend_summary_consistency :: "env \<Rightarrow> json_object \<Rightarrow> path \<Rightarrow> string \<Rightarrow> check" where
  "validate_live_backend_summary_consistency env row artifact_path context =
     (bindE (text_mr (jget row ''scenario_id'') (msg [context, ''.scenario_id''])) (\<lambda>scenario_id.
     if scenario_id \<noteq> ''live-backend'' then Inr () else
         (bindE (text_mr (jget row ''outcome'') (msg [context, ''.outcome''])) (\<lambda>outcome.
         bindE (text_mr (jget row ''evidence_mode'') (msg [context, ''.evidence_mode''])) (\<lambda>evidence_mode.
         if outcome \<noteq> ''PASS'' \<or> evidence_mode \<noteq> ''vm-live'' then Inr () else
         (let backend_summary_path = path_join (path_join (path_parent artifact_path) ''backend'') ''summary.json'' in
         (thenE (require_mr (fs_is_file env backend_summary_path) (msg [context, '' live-backend PASS row is missing backend summary artifact''])) (
         bindE (load_json_mr env backend_summary_path) (\<lambda>backend_summary.
         bindE (text_mr (jget backend_summary ''schema'') (msg [context, ''.backend_summary.schema''])) (\<lambda>schema.
         thenE (require_mr (schema = ''zig-scheduler/vm-backend-run/v1'') (msg [context, '' backend summary schema must be vm-backend-run/v1''])) (
         bindE (text_mr (jget backend_summary ''status'') (msg [context, ''.backend_summary.status''])) (\<lambda>status.
         thenE (require_mr (status = ''PASS'') (msg [context, '' backend summary must be PASS''])) (
         thenE (require_mr (jget backend_summary ''host_mutation'' = JBool False) (msg [context, '' backend summary host_mutation must be false''])) (
         bindE ((case text_of (jget backend_summary ''live_summary'') of
         None \<Rightarrow> Inl (MatrixRunContractError (msg [context, '' live-backend PASS row requires backend/live/summary.json live summary path'']))
         | Some s \<Rightarrow> Inr s)) (\<lambda>live_summary_value.
         (let live_summary_path = mk_path live_summary_value in
         (let expected_live_summary_path = path_join (path_join (path_parent backend_summary_path) ''live'') ''summary.json'' in
         thenE (require_mr (live_summary_path = expected_live_summary_path)
         (msg [context, '' live summary must point to the canonical backend/live/summary.json bundle''])) (
         thenE (require_mr (fs_is_file env live_summary_path) (msg [context, '' live summary bundle is missing: '', path_str live_summary_path])) (
         bindE (load_json_mr env live_summary_path) (\<lambda>live_summary.
         thenE (if jget live_summary ''git_dirty'' = JBool True
         then require_mr (outcome \<noteq> ''PASS'' \<and> evidence_mode \<noteq> ''vm-live'')
         (msg [context, '' dirty live backend summary cannot back a PASS vm-live matrix row''])
         else Inr ()) (
         bindE (obj_mr (jget row ''git'') (msg [context, ''.git''])) (\<lambda>git.
         bindE (text_mr (jget git ''actual_sha'') (msg [context, ''.git.actual_sha''])) (\<lambda>actual_sha.
         thenE (case text_of (jget live_summary ''git_sha'') of
         None \<Rightarrow> Inr ()
         | Some live_git_sha \<Rightarrow>
         if \<not> prefix actual_sha live_git_sha
         then require_mr (outcome \<noteq> ''PASS'' \<and> evidence_mode \<noteq> ''vm-live'')
         (msg [context, '' stale live backend summary cannot back a PASS vm-live matrix row''])
         else Inr ()) (
         if is_live_pass outcome evidence_mode
         then reraise is_LiveBehaviorError
         (\<lambda>exc. MatrixRunContractError (msg [context, '' live backend summary failed nested live behavior validation: '', exn_str exc]))
         (validate_bundle env live_summary_path)
         else Inr ()))))))))))))))))))))))))"

section \<open>Proof artifacts\<close>

definition validate_manifest_daemon_events :: "env \<Rightarrow> path \<Rightarrow> path \<Rightarrow> string \<Rightarrow> check" where
  "validate_manifest_daemon_events env path manifest_root context =
     (thenE (require_descendant_mr path manifest_root context) (
     reraise is_ContractError (\<lambda>exc. MatrixRunContractError (msg [context, '' invalid daemon event stream: '', exn_str exc]))
         (validate_de env path False)))"

definition validate_vm_marker_proof :: "json_object \<Rightarrow> bool \<Rightarrow> bool \<Rightarrow> string \<Rightarrow> string \<Rightarrow> check" where
  "validate_vm_marker_proof data marker_required marker_present evidence_mode context =
     (thenE (require_only_fields_mr data VM_MARKER_PROOF_FIELDS context) (
     thenE (require_mr (jget data ''schema'' = JStr ''zig-scheduler/vm-marker-proof/v1'') (msg [context, ''.schema unsupported''])) (
     thenE (require_mr (jget data ''path'' = JStr VM_MARKER_mr) (msg [context, ''.path mismatch''])) (
     thenE (require_mr (py_eq (jget data ''required'') (JBool marker_required)) (msg [context, ''.required must match row marker''])) (
     thenE (require_mr (py_eq (jget data ''present'') (JBool marker_present)) (msg [context, ''.present must match row marker''])) (
     thenE (require_mr (jget data ''evidence_mode'' = JStr evidence_mode) (msg [context, ''.evidence_mode must match row evidence_mode''])) (
     thenE (require_mr (marker_required \<and> marker_present \<and> evidence_mode = ''vm-live'') (msg [context, '' must prove a real vm-live marker''])) (
     require_mr (jget data ''host_mutation'' = JBool False) (msg [context, ''.host_mutation must be false''])))))))))"

definition validate_manifest_vm_claim :: "env \<Rightarrow> json_object \<Rightarrow> string \<Rightarrow> bool \<Rightarrow> path \<Rightarrow> string \<Rightarrow> check" where
  "validate_manifest_vm_claim env row mode fixture_mode manifest_root context =
     (bindE (obj_mr (jget row ''vm_marker'') (msg [context, ''.vm_marker''])) (\<lambda>marker.
     bindE (bool_field (jget marker ''required'') (msg [context, ''.vm_marker.required''])) (\<lambda>marker_required.
     bindE (bool_field (jget marker ''present'') (msg [context, ''.vm_marker.present''])) (\<lambda>marker_present.
     bindE (text_mr (jget row ''evidence_mode'') (msg [context, ''.evidence_mode''])) (\<lambda>evidence_mode.
     bindE (text_mr (jget row ''outcome'') (msg [context, ''.outcome''])) (\<lambda>outcome.
     (let fixture_authorized = (fixture_mode \<and> mode \<in> set [''host-safe'', ''auto'']) in
     thenE (if evidence_mode = ''fixture''
         then require_mr fixture_authorized (msg [context, '' fixture evidence requires explicit fixture_mode=true on a host-safe/auto manifest''])
         else Inr ()) (
     thenE (if outcome = ''PASS'' \<and> \<not> fixture_authorized
         then require_mr (evidence_mode = ''vm-live'') (msg [context, '' non-fixture PASS requires vm-live evidence''])
         else Inr ()) (
     thenE (if fixture_authorized
         then (thenE (require_mr (\<not> marker_present) (msg [context, '' fixture manifest must not claim VM marker presence''])) (
         thenE (require_mr (evidence_mode \<noteq> ''vm-live'') (msg [context, '' fixture manifest must not claim vm-live evidence''])) (
         if outcome = ''PASS''
         then require_mr (evidence_mode = ''fixture'') (msg [context, '' fixture PASS must use fixture evidence''])
         else Inr ())))
         else Inr ()) (
     if evidence_mode = ''vm-live'' \<or> marker_present
         then (bindE (require_safe_path_mr (jget marker ''checked_by'') (msg [context, ''.vm_marker.checked_by''])) (\<lambda>raw.
         (let marker_path = mk_path raw in
         thenE (require_descendant_mr marker_path manifest_root (msg [context, ''.vm_marker.checked_by''])) (
         bindE (load_json_mr env marker_path) (\<lambda>data.
         validate_vm_marker_proof data marker_required marker_present evidence_mode (msg [context, ''.vm_marker.proof'']))))))
         else Inr ()))))))))))"

definition validate_manifest_runtime_sample :: "env \<Rightarrow> path \<Rightarrow> string \<Rightarrow> check" where
  "validate_manifest_runtime_sample env path context =
     reraise is_RuntimeSampleError (\<lambda>exc. MatrixRunContractError (msg [context, '' invalid runtime sample artifact: '', exn_str exc]))
       (validate_file_rs env path)"

definition validate_incident_artifact :: "json_object \<Rightarrow> string \<Rightarrow> string \<Rightarrow> string \<Rightarrow> check" where
  "validate_incident_artifact data scenario_id outcome context =
     (thenE (require_only_fields_mr data INCIDENT_FIELDS context) (
     thenE (require_mr (jget data ''schema'' = JStr ''zig-scheduler/matrix-incident/v1'') (msg [context, ''.schema unsupported''])) (
     thenE (require_mr (jget data ''scenario_id'' = JStr scenario_id) (msg [context, ''.scenario_id must match row''])) (
     thenE (require_mr (jget data ''outcome'' = JStr outcome) (msg [context, ''.outcome must match row''])) (
     bindE (text_mr (jget data ''reason'') (msg [context, ''.reason''])) (\<lambda>_.
     thenE (require_mr (jget data ''host_mutation'' = JBool False) (msg [context, ''.host_mutation must be false''])) (
     thenE (require_mr (jget data ''release_eligible'' = JBool False) (msg [context, ''.release_eligible must be false''])) (
     reject_private_mr (JObj data) context))))))))"

definition validate_rollback_artifact :: "json_object \<Rightarrow> string \<Rightarrow> string \<Rightarrow> check" where
  "validate_rollback_artifact data scenario_id context =
     (thenE (require_only_fields_mr data ROLLBACK_PROOF_FIELDS context) (
     thenE (require_mr (jget data ''schema'' = JStr ''zig-scheduler/rollback-proof/v1'') (msg [context, ''.schema unsupported''])) (
     thenE (require_mr (jget data ''scenario_id'' = JStr scenario_id) (msg [context, ''.scenario_id must match row''])) (
     bindE (text_mr (jget data ''status'') (msg [context, ''.status''])) (\<lambda>_.
     bindE (text_mr (jget data ''scheduler_state'') (msg [context, ''.scheduler_state''])) (\<lambda>_.
     bindE (text_mr (jget data ''ops'') (msg [context, ''.ops''])) (\<lambda>_.
     thenE (require_mr (jget data ''host_mutation'' = JBool False) (msg [context, ''.host_mutation must be false''])) (
     reject_private_mr (JObj data) context))))))))"

definition validate_cleanup_artifact :: "json_object \<Rightarrow> string \<Rightarrow> string \<Rightarrow> string \<Rightarrow> check" where
  "validate_cleanup_artifact data scenario_id outcome context =
     (thenE (require_only_fields_mr data CLEANUP_PROOF_FIELDS context) (
     thenE (require_mr (jget data ''schema'' = JStr ''zig-scheduler/cleanup-proof/v1'') (msg [context, ''.schema unsupported''])) (
     thenE (require_mr (jget data ''scenario_id'' = JStr scenario_id) (msg [context, ''.scenario_id must match row''])) (
     bindE (text_mr (jget data ''status'') (msg [context, ''.status''])) (\<lambda>_.
     thenE (forE (\<lambda>field. require_mr (jget data field = JBool False) (msg [context, ''.'', field, '' must be false'']))
         [''owned_qemu_leftovers'', ''owned_temp_leftovers'', ''host_mutation'']) (
     thenE (forE (\<lambda>field. (bindE (require_safe_path_mr (jget data field) (msg [context, ''.'', field])) (\<lambda>_.
         Inr ())))
         [''qemu_scan_before'', ''qemu_scan_after'', ''temp_scan_before'', ''temp_scan_after'']) (
     thenE (if outcome \<noteq> ''FAIL''
         then require_mr (jget data ''status'' = JStr ''PASS'') (msg [context, ''.status must be PASS unless row outcome is FAIL''])
         else Inr ()) (
     reject_private_mr (JObj data) context))))))))"

definition validate_host_refusal_artifact :: "json_object \<Rightarrow> string \<Rightarrow> string \<Rightarrow> check" where
  "validate_host_refusal_artifact data scenario_id context =
     (thenE (require_only_fields_mr data HOST_REFUSAL_FIELDS context) (
     thenE (require_mr (jget data ''schema'' = JStr ''zig-scheduler/host-refusal-proof/v1'') (msg [context, ''.schema unsupported''])) (
     thenE (require_mr (jget data ''scenario_id'' = JStr scenario_id) (msg [context, ''.scenario_id must match row''])) (
     thenE (require_mr (jget data ''status'' = JStr ''REFUSE'') (msg [context, ''.status must be REFUSE''])) (
     bindE (text_mr (jget data ''reason'') (msg [context, ''.reason''])) (\<lambda>_.
     thenE (forE (\<lambda>field. require_mr (jget data field = JBool True) (msg [context, ''.'', field, '' must be true'']))
         [''no_bpf_load_attach'', ''no_cgroup_write'', ''no_sys_write'', ''no_proc_write'']) (
     thenE (require_mr (jget data ''host_mutation'' = JBool False) (msg [context, ''.host_mutation must be false''])) (
     reject_private_mr (JObj data) context))))))))"

text \<open>\<^verbatim>\<open>load_json(Path(text(row.get(field), f"{context}.{field}")))\<close>.\<close>

definition load_row_artifact :: "env \<Rightarrow> json_object \<Rightarrow> string \<Rightarrow> string \<Rightarrow> json_object result" where
  "load_row_artifact env row field context =
     (bindE (text_mr (jget row field) (msg [context, ''.'', field])) (\<lambda>raw.
     load_json_mr env (mk_path raw)))"

definition validate_manifest_proof_artifacts :: "env \<Rightarrow> json_object \<Rightarrow> string \<Rightarrow> check" where
  "validate_manifest_proof_artifacts env row context =
     (bindE (text_mr (jget row ''scenario_id'') (msg [context, ''.scenario_id''])) (\<lambda>scenario_id.
     bindE (text_mr (jget row ''outcome'') (msg [context, ''.outcome''])) (\<lambda>outcome.
     bindE (text_mr (jget row ''runtime_sample_path'') (msg [context, ''.runtime_sample_path''])) (\<lambda>samples.
     thenE (validate_manifest_runtime_sample env (mk_path samples) (msg [context, ''.runtime_sample_path''])) (
     bindE (load_row_artifact env row ''incident_path'' context) (\<lambda>incident.
     thenE (validate_incident_artifact incident scenario_id outcome (msg [context, ''.incident''])) (
     bindE (load_row_artifact env row ''rollback_proof_path'' context) (\<lambda>rollback.
     thenE (validate_rollback_artifact rollback scenario_id (msg [context, ''.rollback_proof''])) (
     bindE (load_row_artifact env row ''cleanup_proof_path'' context) (\<lambda>cleanup.
     thenE (validate_cleanup_artifact cleanup scenario_id outcome (msg [context, ''.cleanup_proof''])) (
     bindE (load_row_artifact env row ''host_refusal_proof_path'' context) (\<lambda>refusal.
     validate_host_refusal_artifact refusal scenario_id (msg [context, ''.host_refusal_proof''])))))))))))))"

definition validate_manifest_workload_artifacts :: "env \<Rightarrow> json_object \<Rightarrow> path \<Rightarrow> path \<Rightarrow> path \<Rightarrow> string \<Rightarrow> check" where
  "validate_manifest_workload_artifacts env row manifest_root spec_path privacy_path context =
     (bindE (obj_mr (jget row ''workload'') (msg [context, ''.workload''])) (\<lambda>workload.
     bindE (text_mr (jget row ''scenario_id'') (msg [context, ''.scenario_id''])) (\<lambda>scenario_id.
     bindE (scenario_metadata scenario_id context) (\<lambda>expected.
     bindE (text_mr (jget workload ''name'') (msg [context, ''.workload.name''])) (\<lambda>workload_class.
     thenE (require_for_expected expected (\<lambda>md. require_mr (workload_class = md_workload_class md)
         (msg [context, ''.workload.name must match scenario '', scenario_id, '' workload class '', md_workload_class md]))) (
     bindE (text_mr (jget workload ''spec_sha256'') (msg [context, ''.workload.spec_sha256''])) (\<lambda>expected_sha.
     bindE (file_sha256_mr env spec_path) (\<lambda>actual_sha.
     thenE (require_mr (actual_sha = expected_sha) (msg [context, ''.workload.spec_sha256 does not match referenced workload spec''])) (
     bindE (load_json_mr env spec_path) (\<lambda>spec.
     thenE (reject_workload_artifact_private (JObj spec) (msg [context, ''.workload.spec''])) (
     bindE (validate_workload_spec env spec scenario_id workload_class expected (msg [context, ''.workload.spec'']) (Some manifest_root)) (\<lambda>capability_path_value.
     bindE ((case capability_path_value of
         None \<Rightarrow> Inl (MatrixRunContractError (msg [context, ''.workload.spec.capability_artifact_path is required in manifest mode'']))
         | Some s \<Rightarrow> Inr s)) (\<lambda>raw_capability.
     (let capability_path = mk_path raw_capability in
     thenE (require_descendant_mr capability_path manifest_root (msg [context, ''.workload.spec.capability_artifact_path''])) (
     bindE (load_json_mr env capability_path) (\<lambda>capability.
     thenE (reject_workload_artifact_private (JObj capability) (msg [context, ''.workload.capability''])) (
     bindE (text_mr (jget row ''outcome'') (msg [context, ''.outcome''])) (\<lambda>outcome.
     thenE (validate_workload_capability capability scenario_id workload_class expected outcome (msg [context, ''.workload.capability''])) (
     bindE (load_json_mr env privacy_path) (\<lambda>privacy_report.
     thenE (reject_workload_artifact_private (JObj privacy_report) (msg [context, ''.privacy_scan.report''])) (
     validate_privacy_report privacy_report (msg [context, ''.privacy_scan.report'']))))))))))))))))))))))"

text \<open>\<^verbatim>\<open>p = Path(require_safe_path(value, context)); require_descendant(p, manifest_root, context)\<close>.\<close>

definition below_root :: "json \<Rightarrow> path \<Rightarrow> string \<Rightarrow> path result" where
  "below_root value manifest_root context =
     (bindE (require_safe_path_mr value context) (\<lambda>raw.
     thenE (require_descendant_mr (mk_path raw) manifest_root context) (
     Inr (mk_path raw))))"

definition validate_manifest_row_paths :: "env \<Rightarrow> json_object \<Rightarrow> path \<Rightarrow> string \<Rightarrow> check" where
  "validate_manifest_row_paths env row manifest_root context =
     (bindE (below_root (jget row ''daemon_event_path'') manifest_root (msg [context, ''.daemon_event_path''])) (\<lambda>daemon_event_path.
     thenE (validate_manifest_daemon_events env daemon_event_path manifest_root (msg [context, ''.daemon_event_path''])) (
     thenE (forE (\<lambda>field. (bindE (below_root (jget row field) manifest_root (msg [context, ''.'', field])) (\<lambda>_.
         Inr ()))) PATH_FIELDS) (
     bindE (obj_mr (jget row ''policy'') (msg [context, ''.policy''])) (\<lambda>policy.
     bindE (below_root (jget policy ''object_path'') manifest_root (msg [context, ''.policy.object_path''])) (\<lambda>_.
     bindE (obj_mr (jget row ''workload'') (msg [context, ''.workload''])) (\<lambda>workload.
     bindE (below_root (jget workload ''spec_path'') manifest_root (msg [context, ''.workload.spec_path''])) (\<lambda>spec_path.
     bindE (obj_mr (jget row ''privacy_scan'') (msg [context, ''.privacy_scan''])) (\<lambda>privacy.
     bindE (below_root (jget privacy ''report_path'') manifest_root (msg [context, ''.privacy_scan.report_path''])) (\<lambda>privacy_path.
     thenE (validate_manifest_workload_artifacts env row manifest_root spec_path privacy_path context) (
     validate_manifest_proof_artifacts env row context)))))))))))"

section \<open>The manifest\<close>

record manifest_scan =
  seen_scenarios :: "string list"
  seen_artifacts :: "string list"

text \<open>One round of the loop over the rows of the manifest.\<close>

definition manifest_row_step ::
    "env \<Rightarrow> path \<Rightarrow> path \<Rightarrow> string \<Rightarrow> string \<Rightarrow> bool \<Rightarrow> manifest_scan \<Rightarrow> nat \<times> json \<Rightarrow> manifest_scan result" where
  "manifest_row_step env manifest_path manifest_root manifest_run_id mode fixture_mode seen = (\<lambda>(index, raw_row).
     let here = (msg [path_str manifest_path, ''.rows['', show_nat index, '']'']) in
     (bindE (obj_mr raw_row here) (\<lambda>manifest_row.
     thenE (require_only_fields_mr manifest_row MANIFEST_ROW_FIELDS here) (
     bindE (text_mr (jget manifest_row ''scenario_id'') (msg [here, ''.scenario_id''])) (\<lambda>scenario_id.
     thenE (require_mr (re_fullmatch ID_RE scenario_id) (msg [here, ''.scenario_id is not a stable identifier''])) (
     thenE (require_mr (scenario_id \<notin> set (seen_scenarios seen)) (msg [here, ''.scenario_id duplicates an earlier row''])) (
     bindE (require_safe_path_mr (jget manifest_row ''artifact_path'') (msg [here, ''.artifact_path''])) (\<lambda>raw_artifact.
     (let artifact_path = mk_path raw_artifact in
     (let artifact_key = path_str artifact_path in
     thenE (require_mr (artifact_key \<notin> set (seen_artifacts seen)) (msg [here, ''.artifact_path duplicates an earlier row''])) (
     thenE (require_descendant_mr artifact_path manifest_root (msg [here, ''.artifact_path''])) (
     thenE (require_mr (path_name artifact_path = ''matrix-run.json'') (msg [here, ''.artifact_path must point to matrix-run.json''])) (
     bindE (load_json_mr env artifact_path) (\<lambda>row.
     thenE (validate_row row (path_str artifact_path)) (
     thenE (validate_manifest_row_paths env row manifest_root (path_str artifact_path)) (
     thenE (validate_manifest_vm_claim env row mode fixture_mode manifest_root (path_str artifact_path)) (
     thenE (validate_live_backend_summary_consistency env row artifact_path (path_str artifact_path)) (
     thenE (require_mr (jget row ''matrix_run_id'' = JStr manifest_run_id) (msg [path_str artifact_path, ''.matrix_run_id must match manifest''])) (
     thenE (require_mr (py_eq (jget manifest_row ''scenario_id'') (jget row ''scenario_id'')) (msg [here, ''.scenario_id mismatch''])) (
     thenE (require_mr (py_eq (jget manifest_row ''outcome'') (jget row ''outcome'')) (msg [here, ''.outcome mismatch''])) (
     Inr \<lparr> seen_scenarios = scenario_id # seen_scenarios seen, seen_artifacts = artifact_key # seen_artifacts seen \<rparr>)))))))))))))))))))))"

definition validate_manifest :: "env \<Rightarrow> path \<Rightarrow> (nat \<times> nat) result" where
  "validate_manifest env manifest_path =
     (let here = path_str manifest_path in
      (bindE (require_manifest_root manifest_path) (\<lambda>manifest_root.
      bindE (load_json_mr env manifest_path) (\<lambda>manifest.
      thenE (require_only_fields_mr manifest MANIFEST_FIELDS here) (
      thenE (require_mr (jget manifest ''schema'' = JStr ''zig-scheduler/vm-harness-matrix-index/v1'') (msg [here, ''.schema unsupported''])) (
      thenE (require_mr (jget manifest ''host_mutation'' = JBool False) (msg [here, ''.host_mutation must be false''])) (
      thenE (require_mr (jget manifest ''release_eligible'' = JBool False) (msg [here, ''.release_eligible must be false''])) (
      bindE (text_mr (jget manifest ''matrix_run_id'') (msg [here, ''.matrix_run_id''])) (\<lambda>manifest_run_id.
      thenE (require_mr (re_fullmatch RUN_ID_RE manifest_run_id) (msg [here, ''.matrix_run_id must be 1-'', show_nat RUN_ID_MAX, '' safe characters''])) (
      thenE (require_mr (manifest_run_id = path_name manifest_root)
          (msg [here, ''.matrix_run_id must equal out_dir basename '', path_name manifest_root])) (
      bindE (require_safe_path_mr (jget manifest ''out_dir'') (msg [here, ''.out_dir''])) (\<lambda>out_dir.
      thenE (require_mr (mk_path out_dir = manifest_root) (msg [here, ''.out_dir must match manifest directory''])) (
      bindE (require_safe_path_mr (jget manifest ''daemon_events_path'') (msg [here, ''.daemon_events_path''])) (\<lambda>raw_events.
      (let daemon_events_path = mk_path raw_events in
      thenE (require_descendant_mr daemon_events_path manifest_root (msg [here, ''.daemon_events_path''])) (
      bindE (text_mr (jget manifest ''mode'') (msg [here, ''.mode''])) (\<lambda>mode.
      bindE (bool_field (jget manifest ''fixture_mode'') (msg [here, ''.fixture_mode''])) (\<lambda>fixture_mode.
      bindE (text_mr (jget manifest ''started_at'') (msg [here, ''.started_at''])) (\<lambda>_.
      bindE (text_mr (jget manifest ''ended_at'') (msg [here, ''.ended_at''])) (\<lambda>_.
      bindE ((case list_of (jget manifest ''rows'') of
          None \<Rightarrow> Inl (MatrixRunContractError (msg [here, ''.rows must be a list'']))
          | Some rows \<Rightarrow> Inr rows)) (\<lambda>rows.
      thenE (require_mr (py_eq (jget manifest ''row_count'') (JInt (int (length rows)))) (msg [here, ''.row_count must match rows length''])) (
      thenE (validate_manifest_daemon_events env daemon_events_path manifest_root (msg [here, ''.daemon_events_path''])) (
      bindE (foldE (manifest_row_step env manifest_path manifest_root manifest_run_id mode fixture_mode)
          \<lparr> seen_scenarios = [], seen_artifacts = [] \<rparr> (enumerate_from 0 rows)) (\<lambda>_.
      Inr (length rows, 0)))))))))))))))))))))))))"

record matrix_args =
  args_fixtures :: "path option"
  args_schemas :: path
  args_docs :: path
  args_manifest :: "path option"

definition validate_mr :: "env \<Rightarrow> matrix_args \<Rightarrow> (nat \<times> nat) result" where
  "validate_mr env args =
     (thenE (validate_schema_file env (args_schemas args)) (
     thenE (validate_docs env (args_docs args)) (
     case args_manifest args of
         Some manifest \<Rightarrow> validate_manifest env manifest
         | None \<Rightarrow>
         (case args_fixtures args of
         None \<Rightarrow> Inl (MatrixRunContractError ''internal argument parser error'')
         | Some fixtures \<Rightarrow> validate_fixture_pack env fixtures))))"

text \<open>\<^verbatim>\<open>run\<close> and \<^verbatim>\<open>main\<close> after argument parsing: the line printed and the exit status.\<close>

definition run_mr :: "env \<Rightarrow> matrix_args \<Rightarrow> string result" where
  "run_mr env args =
     (bindE (validate_mr env args) (\<lambda>counts.
     Inr (case args_manifest args of
         Some manifest \<Rightarrow>
         (msg [''PASS matrix-run contract: manifest='', path_str manifest, '' valid='', show_nat (fst counts), '' docs='', path_str (args_docs args)])
         | None \<Rightarrow>
         (msg [''PASS matrix-run contract: fixtures='', case args_fixtures args of None \<Rightarrow> ''None'' | Some p \<Rightarrow> path_str p, '' valid='', show_nat (fst counts), '' invalid='', show_nat (snd counts), '' docs='', path_str (args_docs args)]))))"

definition main_mr :: "env \<Rightarrow> matrix_args \<Rightarrow> (string \<times> int) result" where
  "main_mr env args =
     (case run_mr env args of
        Inr line \<Rightarrow> Inr (line, 0)
      | Inl e \<Rightarrow> if is_os_error e \<or> is_UnicodeError e \<or> is_MatrixRunContractError e
                  then Inr ((msg [''FAIL matrix-run contract: '', exn_str e]), 1) else Inl e)"

section \<open>What the artifacts of an accepted row are\<close>

definition below :: "path \<Rightarrow> json \<Rightarrow> path \<Rightarrow> bool" where
  "below base v p \<longleftrightarrow> (\<exists>s. v = JStr s \<and> s \<noteq> [] \<and> p = mk_path s \<and> safe_path p \<and> prefix (path_parts base) (path_parts p))"

lemma below_root_ok_iff: "below_root v base c = Inr p \<longleftrightarrow> below base v p"
  by (auto simp: below_root_def below_def ok_iff text_of_iff)

definition row_doc :: "env \<Rightarrow> json_object \<Rightarrow> string \<Rightarrow> json_object \<Rightarrow> bool" where
  "row_doc env row f d \<longleftrightarrow> (\<exists>s. jget row f = JStr s \<and> load_json_mr env (mk_path s) = Inr d)"

lemma load_row_artifact_ok: "load_row_artifact env row f c = Inr d \<Longrightarrow> row_doc env row f d"
  unfolding load_row_artifact_def row_doc_def bindE_ok_iff mr_text.read_ok text_of_iff by blast

definition harmless :: "string \<Rightarrow> json_object \<Rightarrow> bool" where
  "harmless sid d \<longleftrightarrow> jget d ''scenario_id'' = JStr sid \<and> jget d ''host_mutation'' = JBool False \<and> private_free (JObj d)"

definition proofs_match :: "env \<Rightarrow> json_object \<Rightarrow> bool" where
  "proofs_match env row \<longleftrightarrow>
     (\<exists>sid outcome incident rollback cleanup refusal.
        jget row ''scenario_id'' = JStr sid \<and> jget row ''outcome'' = JStr outcome \<and>
        row_doc env row ''incident_path'' incident \<and> harmless sid incident \<and> jget incident ''outcome'' = JStr outcome \<and>
        row_doc env row ''rollback_proof_path'' rollback \<and> harmless sid rollback \<and>
        row_doc env row ''cleanup_proof_path'' cleanup \<and> harmless sid cleanup \<and>
        jget cleanup ''owned_qemu_leftovers'' = JBool False \<and> jget cleanup ''owned_temp_leftovers'' = JBool False \<and>
        (outcome \<noteq> ''FAIL'' \<longrightarrow> jget cleanup ''status'' = JStr ''PASS'') \<and>
        row_doc env row ''host_refusal_proof_path'' refusal \<and> harmless sid refusal \<and> jget refusal ''status'' = JStr ''REFUSE'' \<and>
        jget refusal ''no_bpf_load_attach'' = JBool True \<and> jget refusal ''no_cgroup_write'' = JBool True \<and>
        jget refusal ''no_sys_write'' = JBool True \<and> jget refusal ''no_proc_write'' = JBool True)"

lemma validate_incident_artifact_ok:
  assumes "validate_incident_artifact d sid outcome c = Inr ()"
  shows "harmless sid d" "jget d ''outcome'' = JStr outcome"
  using assms
  unfolding validate_incident_artifact_def thenE_ok_iff bindE_ok_iff require_mr_ok_iff private_free_iff harmless_def by blast+

lemma validate_rollback_artifact_ok: "validate_rollback_artifact d sid c = Inr () \<Longrightarrow> harmless sid d"
  unfolding validate_rollback_artifact_def thenE_ok_iff bindE_ok_iff require_mr_ok_iff private_free_iff harmless_def by blast

lemma validate_cleanup_artifact_ok:
  assumes "validate_cleanup_artifact d sid outcome c = Inr ()"
  shows "harmless sid d" "jget d ''owned_qemu_leftovers'' = JBool False" "jget d ''owned_temp_leftovers'' = JBool False"
    "outcome \<noteq> ''FAIL'' \<longrightarrow> jget d ''status'' = JStr ''PASS''"
  using assms
  unfolding validate_cleanup_artifact_def thenE_ok_iff bindE_ok_iff require_mr_ok_iff private_free_iff harmless_def forE_ok_iff
    ball_set_list guarded_ok_iff by blast+

lemma validate_host_refusal_artifact_ok:
  assumes "validate_host_refusal_artifact d sid c = Inr ()"
  shows "harmless sid d" "jget d ''status'' = JStr ''REFUSE''" "jget d ''no_bpf_load_attach'' = JBool True"
    "jget d ''no_cgroup_write'' = JBool True" "jget d ''no_sys_write'' = JBool True" "jget d ''no_proc_write'' = JBool True"
  using assms
  unfolding validate_host_refusal_artifact_def thenE_ok_iff bindE_ok_iff require_mr_ok_iff private_free_iff harmless_def forE_ok_iff
    ball_set_list by blast+

lemma validate_manifest_proof_artifacts_ok:
  assumes "validate_manifest_proof_artifacts env row c = Inr ()"
  shows "proofs_match env row" "\<exists>s. jget row ''runtime_sample_path'' = JStr s \<and> validate_file_rs env (mk_path s) = Inr ()"
proof -
  obtain sid outcome samples incident rollback cleanup refusal where
    facts: "jget row ''scenario_id'' = JStr sid" "jget row ''outcome'' = JStr outcome" "jget row ''runtime_sample_path'' = JStr samples"
      "validate_file_rs env (mk_path samples) = Inr ()"
    and docs: "row_doc env row ''incident_path'' incident" "row_doc env row ''rollback_proof_path'' rollback"
      "row_doc env row ''cleanup_proof_path'' cleanup" "row_doc env row ''host_refusal_proof_path'' refusal"
    and "validate_incident_artifact incident sid outcome (msg [c, ''.incident'']) = Inr ()"
      "validate_rollback_artifact rollback sid (msg [c, ''.rollback_proof'']) = Inr ()"
      "validate_cleanup_artifact cleanup sid outcome (msg [c, ''.cleanup_proof'']) = Inr ()"
      "validate_host_refusal_artifact refusal sid (msg [c, ''.host_refusal_proof'']) = Inr ()"
    using assms
    unfolding validate_manifest_proof_artifacts_def thenE_ok_iff bindE_ok_iff mr_text.read_ok text_of_iff
      validate_manifest_runtime_sample_def reraise_ok_iff
    using load_row_artifact_ok by blast
  note checks = this(9-12)
  note ok = validate_incident_artifact_ok[OF checks(1)] validate_rollback_artifact_ok[OF checks(2)]
    validate_cleanup_artifact_ok[OF checks(3)] validate_host_refusal_artifact_ok[OF checks(4)]
  show "proofs_match env row"
    unfolding proofs_match_def by (intro exI conjI) (fact facts docs ok)+
  show "\<exists>s. jget row ''runtime_sample_path'' = JStr s \<and> validate_file_rs env (mk_path s) = Inr ()"
    using facts by blast
qed

text \<open>
  The workload of a row: its spec, below the run's directory and with the stated hash, the capability
  artifact the spec names, and the privacy report, none of them holding anything private.
\<close>

definition workload_backed :: "env \<Rightarrow> path \<Rightarrow> json_object \<Rightarrow> bool" where
  "workload_backed env base row \<longleftrightarrow>
     (\<exists>w sid cls outcome spec_path sha spec cap_path cap scan report_path report.
        jget row ''workload'' = JObj w \<and> jget row ''scenario_id'' = JStr sid \<and> jget w ''name'' = JStr cls \<and>
        jget row ''outcome'' = JStr outcome \<and>
        below base (jget w ''spec_path'') spec_path \<and> jget w ''spec_sha256'' = JStr sha \<and> fs_sha256 env spec_path = Inr sha \<and>
        load_json_mr env spec_path = Inr spec \<and> spec_consistent env (Some base) (expected_workload_metadata sid) sid cls spec \<and>
        below base (jget spec ''capability_artifact_path'') cap_path \<and> load_json_mr env cap_path = Inr cap \<and>
        (\<forall>md. expected_workload_metadata sid = Some md \<longrightarrow> capability_consistent md outcome cap) \<and>
        jget row ''privacy_scan'' = JObj scan \<and> below base (jget scan ''report_path'') report_path \<and>
        load_json_mr env report_path = Inr report \<and> jget report ''status'' = JStr ''PASS'' \<and>
        private_free (JObj spec) \<and> private_free (JObj cap) \<and> private_free (JObj report))"

lemma workload_private_free: "reject_workload_artifact_private v c = Inr () \<Longrightarrow> private_free v"
  using workload_scan_stricter private_free_iff by blast

lemma required_option_ok_iff: "(case x of None \<Rightarrow> Inl e | Some s \<Rightarrow> Inr s) = Inr y \<longleftrightarrow> x = Some y"
  by (cases x) auto

lemma validate_manifest_workload_artifacts_ok:
  assumes "validate_manifest_workload_artifacts env row base spec_path report_path c = Inr ()"
    and "jget row ''workload'' = JObj w" and "below base (jget w ''spec_path'') spec_path"
    and "jget row ''privacy_scan'' = JObj scan" and "below base (jget scan ''report_path'') report_path"
  shows "workload_backed env base row"
  using assms(1)
  unfolding validate_manifest_workload_artifacts_def Let_def thenE_ok_iff bindE_ok_iff mr_text.read_ok text_of_iff mr_obj.read_ok obj_of_iff
    require_mr_ok_iff scenario_metadata_ok_iff file_sha256_mr_ok_iff required_option_ok_iff require_descendant_mr_ok_iff
proof (elim exE conjE, goal_cases)
  case (1 w' sid e cls sha sha' spec cap_value cap_raw cap outcome report)
  have w: "w' = w" using \<open>jget row ''workload'' = JObj w'\<close> assms(2) by simp
  have spec: "validate_workload_spec env spec sid cls (expected_workload_metadata sid) (msg [c, ''.workload.spec'']) (Some base) = Inr (Some cap_raw)"
    using \<open>validate_workload_spec _ _ _ _ _ _ _ = _\<close>
    unfolding \<open>cap_value = Some cap_raw\<close> \<open>e = expected_workload_metadata sid\<close> .
  note spec_ok = validate_workload_spec_ok[OF spec]
  have cap: "below base (jget spec ''capability_artifact_path'') (mk_path cap_raw)"
    using spec_ok \<open>prefix (path_parts base) (path_parts (mk_path cap_raw))\<close> unfolding below_def by blast
  have consistent: "\<forall>md. expected_workload_metadata sid = Some md \<longrightarrow> capability_consistent md outcome cap"
    using \<open>validate_workload_capability _ _ _ _ _ _ = _\<close> validate_workload_capability_ok unfolding \<open>e = expected_workload_metadata sid\<close> by metis
  have free: "private_free (JObj spec)" "private_free (JObj cap)" "private_free (JObj report)"
    by (rule workload_private_free, fact 1)+
  have pass: "jget report ''status'' = JStr ''PASS''"
    using \<open>validate_privacy_report _ _ = _\<close> unfolding validate_privacy_report_def thenE_ok_iff require_mr_ok_iff by blast
  have hash: "fs_sha256 env spec_path = Inr sha" using 1 by simp
  show ?case
    unfolding workload_backed_def
    by (intro exI conjI) (fact assms 1[unfolded w] spec_ok[THEN conjunct1] cap consistent free pass hash)+
qed

text \<open>
  The artifacts of a row. Every path lies below the run's directory, and the artifacts are read and accepted; the policy's
  object file is not read, and neither the place nor the content of its source file is looked at.
\<close>

definition row_artifacts :: "env \<Rightarrow> path \<Rightarrow> json_object \<Rightarrow> bool" where
  "row_artifacts env base row \<longleftrightarrow>
     (\<forall>f \<in> set PATH_FIELDS. \<exists>p. below base (jget row f) p) \<and>
     (\<exists>policy p. jget row ''policy'' = JObj policy \<and> below base (jget policy ''object_path'') p) \<and>
     (\<exists>p. below base (jget row ''daemon_event_path'') p \<and> validate_de env p False = Inr ()) \<and>
     (\<exists>s. jget row ''runtime_sample_path'' = JStr s \<and> validate_file_rs env (mk_path s) = Inr ()) \<and>
     workload_backed env base row \<and> proofs_match env row"

lemma validate_manifest_daemon_events_ok_iff:
  "validate_manifest_daemon_events env p base c = Inr () \<longleftrightarrow> prefix (path_parts base) (path_parts p) \<and> validate_de env p False = Inr ()"
  by (simp add: validate_manifest_daemon_events_def ok_iff)

lemma validate_manifest_row_paths_ok:
  assumes "validate_manifest_row_paths env row base c = Inr ()"
  shows "row_artifacts env base row"
  using assms
  unfolding validate_manifest_row_paths_def ignore_result_ok_iff thenE_ok_iff bindE_ok_iff below_root_ok_iff mr_obj.read_ok obj_of_iff
    forE_ok_iff validate_manifest_daemon_events_ok_iff
proof (elim exE conjE, goal_cases)
  case (1 ev policy pol_path w spec_path scan report_path)
  have "workload_backed env base row"
    by (rule validate_manifest_workload_artifacts_ok) (fact 1)+
  with 1 show ?case
    unfolding row_artifacts_def using validate_manifest_proof_artifacts_ok[of env row c] by blast
qed

text \<open>
  The evidence a row claims under the mode of its manifest. Fixture evidence needs a manifest that says so,
  and such a manifest holds no live evidence; live evidence is proved by a marker document below the run's
  directory; and a pass outside such a manifest is live.
\<close>

definition fixture_manifest :: "string \<Rightarrow> bool \<Rightarrow> bool" where
  "fixture_manifest mode fixture_mode \<longleftrightarrow> fixture_mode \<and> (mode = ''host-safe'' \<or> mode = ''auto'')"

definition marker_proved :: "env \<Rightarrow> path \<Rightarrow> json_object \<Rightarrow> bool" where
  "marker_proved env base row \<longleftrightarrow>
     (\<exists>m p d. jget row ''vm_marker'' = JObj m \<and> below base (jget m ''checked_by'') p \<and> load_json_mr env p = Inr d \<and>
        jget d ''path'' = JStr VM_MARKER_mr \<and> jget d ''evidence_mode'' = JStr ''vm-live'' \<and> jget d ''host_mutation'' = JBool False \<and>
        py_eq (jget d ''present'') (JBool True))"

definition claim_justified :: "env \<Rightarrow> path \<Rightarrow> bool \<Rightarrow> json_object \<Rightarrow> bool" where
  "claim_justified env base authorized row \<longleftrightarrow>
     (\<exists>evidence outcome. jget row ''evidence_mode'' = JStr evidence \<and> jget row ''outcome'' = JStr outcome \<and>
        (if authorized then evidence \<noteq> ''vm-live'' \<and> (outcome = ''PASS'' \<longrightarrow> evidence = ''fixture'')
         else evidence \<noteq> ''fixture'' \<and> (outcome = ''PASS'' \<longrightarrow> evidence = ''vm-live'')) \<and>
        (evidence = ''vm-live'' \<longrightarrow> marker_proved env base row))"

lemma validate_manifest_vm_claim_ok:
  assumes "validate_manifest_vm_claim env row mode fixture_mode base c = Inr ()"
  shows "claim_justified env base (fixture_manifest mode fixture_mode) row"
proof -
  have auth: "(fixture_mode \<and> mode \<in> set [''host-safe'', ''auto'']) = fixture_manifest mode fixture_mode"
    by (simp add: fixture_manifest_def)
  show ?thesis
    using assms
    unfolding validate_manifest_vm_claim_def Let_def auth thenE_ok_iff bindE_ok_iff mr_text.read_ok text_of_iff mr_obj.read_ok obj_of_iff
      mr_bool.read_ok bool_of_iff guarded_ok_iff require_mr_ok_iff require_safe_path_mr_ok_iff require_descendant_mr_ok_iff
      validate_vm_marker_proof_def
  proof (elim exE conjE, goal_cases)
    case (1 m required present evidence outcome)
    have "marker_proved env base row" if live: "evidence = ''vm-live''"
      using \<open>evidence = ''vm-live'' \<or> present \<longrightarrow> _\<close>[rule_format, OF disjI1, OF live] \<open>jget row ''vm_marker'' = JObj m\<close> live
      unfolding marker_proved_def below_def
    proof (elim exE conjE, goal_cases)
      case (1 raw d)
      have present: "present = True" using 1 by simp
      show ?case
        by (intro exI conjI) (fact 1[unfolded live] | rule refl | fact 1[unfolded present])+
    qed
    moreover have "if fixture_manifest mode fixture_mode then evidence \<noteq> ''vm-live'' \<and> (outcome = ''PASS'' \<longrightarrow> evidence = ''fixture'')
         else evidence \<noteq> ''fixture'' \<and> (outcome = ''PASS'' \<longrightarrow> evidence = ''vm-live'')"
      using \<open>evidence = ''fixture'' \<longrightarrow> _\<close> \<open>outcome = ''PASS'' \<and> \<not> _ \<longrightarrow> _\<close> \<open>fixture_manifest mode fixture_mode \<longrightarrow> _\<close>
      by (cases "fixture_manifest mode fixture_mode") (simp_all only: if_True if_False, blast+)
    ultimately show ?case
      unfolding claim_justified_def using \<open>jget row ''evidence_mode'' = JStr evidence\<close> \<open>jget row ''outcome'' = JStr outcome\<close> by blast
  qed
qed

text \<open>A passing live row of the backend scenario rests on the live bundle beside it, whose own artifacts show an episode.\<close>

definition live_backed :: "env \<Rightarrow> path \<Rightarrow> json_object \<Rightarrow> bool" where
  "live_backed env artifact_path row \<longleftrightarrow>
     (\<exists>summary p live g sha.
        load_json_mr env (path_join (path_join (path_parent artifact_path) ''backend'') ''summary.json'') = Inr summary \<and>
        jget summary ''status'' = JStr ''PASS'' \<and> jget summary ''host_mutation'' = JBool False \<and>
        p = path_join (path_join (path_parent (path_join (path_join (path_parent artifact_path) ''backend'') ''summary.json'')) ''live'') ''summary.json'' \<and>
        load_json_mr env p = Inr live \<and> jget live ''git_dirty'' \<noteq> JBool True \<and>
        jget row ''git'' = JObj g \<and> jget g ''actual_sha'' = JStr sha \<and>
        (\<forall>s. jget live ''git_sha'' = JStr s \<and> s \<noteq> [] \<longrightarrow> prefix sha s) \<and> bundle_episode env p live)"

lemma bundle_of_document:
  assumes "validate_bundle env p = Inr ()" and "load_json_mr env p = Inr live"
  shows "bundle_episode env p live"
proof -
  obtain summary where episode: "bundle_episode env p summary" using validate_bundle_ok[OF assms(1)] by blast
  then have "load_object_lb env p = Inr summary" unfolding bundle_episode_def by blast
  with assms(2) have "summary = live" by (auto simp: load_json_mr_ok_iff load_object_lb_ok_iff)
  with episode show ?thesis by simp
qed

lemma validate_live_backend_ok:
  assumes "validate_live_backend_summary_consistency env row artifact_path c = Inr ()"
    and "jget row ''scenario_id'' = JStr ''live-backend''" and "jget row ''outcome'' = JStr ''PASS''"
    and "jget row ''evidence_mode'' = JStr ''vm-live''"
  shows "live_backed env artifact_path row"
proof -
  have sha: "(case text_of v of None \<Rightarrow> Inr () | Some s \<Rightarrow> if \<not> prefix sha s then require_mr False m else Inr ()) = Inr () \<longleftrightarrow>
      (\<forall>s. v = JStr s \<and> s \<noteq> [] \<longrightarrow> prefix sha s)" for v sha m
    by (cases v) (auto simp: require_mr_def)
  have guard: "(if b then require_mr False m else Inr ()) = Inr () \<longleftrightarrow> \<not> b" for b m by (simp add: require_mr_def)
  have literals: "text_mr (JStr ''live-backend'') m = Inr ''live-backend''" "text_mr (JStr ''PASS'') m = Inr ''PASS''"
    "text_mr (JStr ''vm-live'') m = Inr ''vm-live''" for m by (simp_all add: text_mr_def)
  have conds: "(''live-backend'' \<noteq> ''live-backend'') = False" "(''PASS'' \<noteq> ''PASS'' \<or> ''vm-live'' \<noteq> ''vm-live'') = False"
    "(''PASS'' \<noteq> ''PASS'' \<and> ''vm-live'' \<noteq> ''vm-live'') = False" "is_live_pass ''PASS'' ''vm-live'' = True"
    by (simp_all add: is_live_pass_def)
  show ?thesis
    using assms(1)
    unfolding validate_live_backend_summary_consistency_def Let_def assms(2-4) literals bindE_simps(1) conds if_False if_True
      thenE_ok_iff bindE_ok_iff mr_text.read_ok text_of_iff mr_obj.read_ok obj_of_iff guard sha reraise_ok_iff
      required_option_ok_iff require_mr_ok_iff
  proof (elim exE conjE, goal_cases)
    case (1 summary schema status live_value live g git_sha)
    have status: "jget summary ''status'' = JStr ''PASS''" using 1 by simp
    have place: "mk_path live_value = path_join (path_join (path_parent (path_join (path_join (path_parent artifact_path) ''backend'') ''summary.json'')) ''live'') ''summary.json''"
      by (fact 1)
    note live = \<open>load_json_mr env (mk_path live_value) = Inr live\<close>
    show ?case
      unfolding live_backed_def
      by (intro exI conjI) (fact 1[unfolded place] status bundle_of_document[OF \<open>validate_bundle env (mk_path live_value) = Inr ()\<close> live, unfolded place] place | rule refl)+
  qed
qed

section \<open>The rows of the manifest\<close>

text \<open>An entry of the manifest, its row, and everything behind it.\<close>

definition entry_row :: "env \<Rightarrow> json \<Rightarrow> path \<Rightarrow> json_object \<Rightarrow> bool" where
  "entry_row env entry artifact_path row \<longleftrightarrow>
     (\<exists>d a. entry = JObj d \<and> jget d ''artifact_path'' = JStr a \<and> artifact_path = mk_path a \<and> load_json_mr env (mk_path a) = Inr row \<and>
        jget d ''scenario_id'' = jget row ''scenario_id'' \<and> jget d ''outcome'' = jget row ''outcome'')"

definition entry_backed_mr :: "env \<Rightarrow> path \<Rightarrow> string \<Rightarrow> bool \<Rightarrow> json \<Rightarrow> bool" where
  "entry_backed_mr env base run authorized entry \<longleftrightarrow>
     (\<exists>p row. entry_row env entry p row \<and> safe_path p \<and> prefix (path_parts base) (path_parts p) \<and> path_name p = ''matrix-run.json'' \<and>
        row_contract row \<and> jget row ''matrix_run_id'' = JStr run \<and> row_artifacts env base row \<and>
        claim_justified env base authorized row \<and>
        (jget row ''scenario_id'' = JStr ''live-backend'' \<and> jget row ''outcome'' = JStr ''PASS'' \<and> jget row ''evidence_mode'' = JStr ''vm-live'' \<longrightarrow>
           live_backed env p row))"

definition entry_field :: "string \<Rightarrow> nat \<times> json \<Rightarrow> string" where
  "entry_field f = (\<lambda>(i, entry). case obj_of entry of None \<Rightarrow> [] | Some d \<Rightarrow> (case str_of (jget d f) of None \<Rightarrow> [] | Some s \<Rightarrow> s))"

definition entry_artifact :: "nat \<times> json \<Rightarrow> string" where
  "entry_artifact x = path_str (mk_path (entry_field ''artifact_path'' x))"

lemma manifest_row_step_ok:
  assumes "manifest_row_step env mp base run mode fixture_mode seen (i, entry) = Inr seen'"
  shows "entry_backed_mr env base run (fixture_manifest mode fixture_mode) entry"
    "entry_field ''scenario_id'' (i, entry) \<notin> set (seen_scenarios seen)"
    "seen_scenarios seen' = entry_field ''scenario_id'' (i, entry) # seen_scenarios seen"
    "entry_artifact (i, entry) \<notin> set (seen_artifacts seen)"
    "seen_artifacts seen' = entry_artifact (i, entry) # seen_artifacts seen"
proof -
  obtain d sid a row where
    facts: "entry = JObj d" "jget d ''scenario_id'' = JStr sid" "sid \<notin> set (seen_scenarios seen)"
      "jget d ''artifact_path'' = JStr a" "safe_path (mk_path a)" "path_str (mk_path a) \<notin> set (seen_artifacts seen)"
      "prefix (path_parts base) (path_parts (mk_path a))" "path_name (mk_path a) = ''matrix-run.json''"
      "load_json_mr env (mk_path a) = Inr row"
    and checks: "validate_row row (path_str (mk_path a)) = Inr ()"
      "validate_manifest_row_paths env row base (path_str (mk_path a)) = Inr ()"
      "validate_manifest_vm_claim env row mode fixture_mode base (path_str (mk_path a)) = Inr ()"
      "validate_live_backend_summary_consistency env row (mk_path a) (path_str (mk_path a)) = Inr ()"
    and ids: "jget row ''matrix_run_id'' = JStr run" "py_eq (jget d ''scenario_id'') (jget row ''scenario_id'')"
      "py_eq (jget d ''outcome'') (jget row ''outcome'')"
    and state: "seen' = \<lparr> seen_scenarios = sid # seen_scenarios seen, seen_artifacts = path_str (mk_path a) # seen_artifacts seen \<rparr>"
    using assms
    unfolding manifest_row_step_def Let_def prod.case thenE_ok_iff bindE_ok_iff mr_text.read_ok text_of_iff mr_obj.read_ok obj_of_iff
      require_mr_ok_iff require_safe_path_mr_ok_iff require_descendant_mr_ok_iff sum.inject
    by (elim exE conjE) (rule that; (assumption | erule sym))
  have contract: "row_contract row" using checks(1) by (rule validate_row_sound)
  obtain outcome sid' where row: "jget row ''outcome'' = JStr outcome" "jget row ''scenario_id'' = JStr sid'"
    using contract unfolding row_contract_def evidence_matches_def by blast
  have same: "jget d ''scenario_id'' = jget row ''scenario_id''" "jget d ''outcome'' = jget row ''outcome''"
    using ids(2,3) unfolding row py_eq_str by simp_all
  have entry: "entry_row env entry (mk_path a) row"
    unfolding entry_row_def by (intro exI conjI) (fact facts same | rule refl)+
  show "entry_backed_mr env base run (fixture_manifest mode fixture_mode) entry"
    unfolding entry_backed_mr_def
    using entry facts contract ids(1) validate_manifest_row_paths_ok[OF checks(2)] validate_manifest_vm_claim_ok[OF checks(3)]
      validate_live_backend_ok[OF checks(4)] by blast
  have fields: "entry_field ''scenario_id'' (i, entry) = sid" "entry_artifact (i, entry) = path_str (mk_path a)"
    by (simp_all add: entry_field_def entry_artifact_def facts)
  show "entry_field ''scenario_id'' (i, entry) \<notin> set (seen_scenarios seen)"
    "seen_scenarios seen' = entry_field ''scenario_id'' (i, entry) # seen_scenarios seen"
    "entry_artifact (i, entry) \<notin> set (seen_artifacts seen)"
    "seen_artifacts seen' = entry_artifact (i, entry) # seen_artifacts seen"
    unfolding fields state using facts by simp_all
qed

interpretation mr_scenarios: unique_loop "manifest_row_step env mp base run mode fixture_mode" seen_scenarios "entry_field ''scenario_id''"
  for env mp base run mode fixture_mode
proof
  show "manifest_row_step env mp base run mode fixture_mode s x = Inr s' \<Longrightarrow>
      entry_field ''scenario_id'' x \<notin> set (seen_scenarios s) \<and> seen_scenarios s' = entry_field ''scenario_id'' x # seen_scenarios s" for s x s'
    using manifest_row_step_ok[of env mp base run mode fixture_mode s "fst x" "snd x" s'] by simp
qed

interpretation mr_artifacts: unique_loop "manifest_row_step env mp base run mode fixture_mode" seen_artifacts entry_artifact
  for env mp base run mode fixture_mode
proof
  show "manifest_row_step env mp base run mode fixture_mode s x = Inr s' \<Longrightarrow>
      entry_artifact x \<notin> set (seen_artifacts s) \<and> seen_artifacts s' = entry_artifact x # seen_artifacts s" for s x s'
    using manifest_row_step_ok[of env mp base run mode fixture_mode s "fst x" "snd x" s'] by simp
qed

lemma validate_manifest_ok:
  assumes "validate_manifest env mp = Inr counts"
  shows "\<exists>run base manifest mode fixture_mode rows seen.
    mp = Path [] [''evidence'', ''lab'', ''matrix'', run, ''manifest.json''] \<and> base = Path [] [''evidence'', ''lab'', ''matrix'', run] \<and>
    load_json_mr env mp = Inr manifest \<and> jget manifest ''matrix_run_id'' = JStr run \<and> jget manifest ''host_mutation'' = JBool False \<and>
    jget manifest ''release_eligible'' = JBool False \<and> jget manifest ''mode'' = JStr mode \<and> jget manifest ''fixture_mode'' = JBool fixture_mode \<and>
    jget manifest ''rows'' = JList rows \<and> counts = (length rows, 0) \<and>
    (\<exists>p. below base (jget manifest ''daemon_events_path'') p \<and> validate_de env p False = Inr ()) \<and>
    foldE (manifest_row_step env mp base run mode fixture_mode) \<lparr> seen_scenarios = [], seen_artifacts = [] \<rparr> (enumerate_from 0 rows) = Inr seen"
proof -
  obtain base manifest run events mode fixture_mode rows seen where
    base: "require_manifest_root mp = Inr base"
    and facts: "load_json_mr env mp = Inr manifest" "jget manifest ''matrix_run_id'' = JStr run" "jget manifest ''host_mutation'' = JBool False"
      "jget manifest ''release_eligible'' = JBool False" "jget manifest ''mode'' = JStr mode" "jget manifest ''fixture_mode'' = JBool fixture_mode"
      "jget manifest ''rows'' = JList rows" "(length rows, 0) = counts"
      "foldE (manifest_row_step env mp base run mode fixture_mode) \<lparr> seen_scenarios = [], seen_artifacts = [] \<rparr> (enumerate_from 0 rows) = Inr seen"
    and name: "run = path_name base"
    and ev: "jget manifest ''daemon_events_path'' = JStr events" "events \<noteq> []" "safe_path (mk_path events)"
      "prefix (path_parts base) (path_parts (mk_path events))" "validate_de env (mk_path events) False = Inr ()"
    using assms
    unfolding validate_manifest_def Let_def thenE_ok_iff bindE_ok_iff mr_text.read_ok text_of_iff mr_bool.read_ok bool_of_iff
      require_mr_ok_iff require_safe_path_mr_ok_iff require_descendant_mr_ok_iff sum.inject required_option_ok_iff list_of_iff
      validate_manifest_daemon_events_ok_iff
    by (elim exE conjE) (rule that; assumption)
  from require_manifest_root_ok[OF base] obtain r where
    r: "mp = Path [] [''evidence'', ''lab'', ''matrix'', r, ''manifest.json'']" "base = Path [] [''evidence'', ''lab'', ''matrix'', r]"
    by blast
  from name r have "run = r" by (simp add: path_name_def)
  moreover have "\<exists>p. below base (jget manifest ''daemon_events_path'') p \<and> validate_de env p False = Inr ()"
    using ev unfolding below_def by blast
  ultimately show ?thesis using r facts by blast
qed

text \<open>C1: an accepted manifest is the index of the run whose directory holds it. It claims no host
  mutation and no release, its daemon events are an accepted stream below the directory, its rows name pairwise
  different scenarios and artifacts, and every one of them is backed: the artifact, below the directory, is a row of the
  contract for this run with the stated scenario and outcome; the row's daemon events, runtime samples, workload spec with its
  capability artifact, privacy report, incident record and proofs of rollback, cleanup and host refusal are files below the
  directory that were read and accepted; the policy's object path lies below the directory too, but neither that object
  nor the policy's source is read; the row's claim of evidence is justified under the mode of the manifest; and a
  passing live row of the backend rests on the live bundle beside it.\<close>

theorem matrix_manifest_backed:
  assumes "validate_manifest env mp = Inr counts"
  shows "\<exists>run base manifest mode fixture_mode rows.
    mp = Path [] [''evidence'', ''lab'', ''matrix'', run, ''manifest.json''] \<and> base = Path [] [''evidence'', ''lab'', ''matrix'', run] \<and>
    load_json_mr env mp = Inr manifest \<and> jget manifest ''matrix_run_id'' = JStr run \<and> jget manifest ''host_mutation'' = JBool False \<and>
    jget manifest ''release_eligible'' = JBool False \<and> jget manifest ''mode'' = JStr mode \<and> jget manifest ''fixture_mode'' = JBool fixture_mode \<and>
    jget manifest ''rows'' = JList rows \<and> counts = (length rows, 0) \<and>
    (\<exists>p. below base (jget manifest ''daemon_events_path'') p \<and> validate_de env p False = Inr ()) \<and>
    distinct (map (entry_field ''scenario_id'') (enumerate_from 0 rows)) \<and> distinct (map entry_artifact (enumerate_from 0 rows)) \<and>
    (\<forall>entry \<in> set rows. entry_backed_mr env base run (fixture_manifest mode fixture_mode) entry)"
  using validate_manifest_ok[OF assms]
proof (elim exE conjE, goal_cases)
  case (1 run base manifest mode fixture_mode rows seen p)
  note loop = \<open>foldE _ _ _ = _\<close>
  have backed: "\<forall>entry \<in> set rows. entry_backed_mr env base run (fixture_manifest mode fixture_mode) entry"
  proof
    fix entry assume "entry \<in> set rows"
    then obtain i where "(i, entry) \<in> set (enumerate_from 0 rows)" using enumerate_from_index[of entry rows 0] by blast
    from foldE_step[OF loop this] show "entry_backed_mr env base run (fixture_manifest mode fixture_mode) entry"
      using manifest_row_step_ok(1) by blast
  qed
  have uniq: "distinct (map (entry_field ''scenario_id'') (enumerate_from 0 rows))" "distinct (map entry_artifact (enumerate_from 0 rows))"
    using mr_scenarios.loop_distinct[OF loop] mr_artifacts.loop_distinct[OF loop] by blast+
  show ?case
    by (intro exI conjI) (fact 1 uniq backed)+
qed

text \<open>A run with one row, a refusal on the host, and all of its artifacts.\<close>

definition matrix_env :: env where
  "matrix_env = files_env
     [(''evidence/lab/matrix/r/manifest.json'', ''M''), (''evidence/lab/matrix/r/matrix-run.json'', ''R''), (''evidence/lab/matrix/r/d'', ''D''),
      (''evidence/lab/matrix/r/x'', ''X''), (''evidence/lab/matrix/r/w'', ''W''), (''evidence/lab/matrix/r/b'', ''B''),
      (''evidence/lab/matrix/r/p'', ''P''), (''evidence/lab/matrix/r/i'', ''I''), (''evidence/lab/matrix/r/k'', ''K''),
      (''evidence/lab/matrix/r/c'', ''C''), (''evidence/lab/matrix/r/h'', ''H'')]
     [(''evidence/lab/matrix/r/w'', replicate 64 CHR ''a'')]
     [(''M'', JObj [(''schema'', JStr ''zig-scheduler/vm-harness-matrix-index/v1''), (''matrix_run_id'', JStr ''r''), (''mode'', JStr ''host-safe''),
         (''fixture_mode'', JBool False), (''started_at'', JStr ''t''), (''ended_at'', JStr ''t''), (''out_dir'', JStr ''evidence/lab/matrix/r''),
         (''daemon_events_path'', JStr ''evidence/lab/matrix/r/d''), (''row_count'', JInt 1),
         (''rows'', JList [JObj [(''scenario_id'', JStr ''refusal''), (''outcome'', JStr ''REFUSE''),
            (''artifact_path'', JStr ''evidence/lab/matrix/r/matrix-run.json''), (''reason'', JStr ''x'')]]),
         (''host_mutation'', JBool False), (''release_eligible'', JBool False)]),
      (''R'', JObj refused_row),
      (''D'', JObj [(''schema'', JStr SCHEMA_de), (''seq'', JInt 1), (''event'', JStr ''boot''), (''host_mutation'', JBool False)]),
      (''X'', JObj (minimal_sample 1 ''41'' ''before_attach'' ''disabled'' ''none'')),
      (''W'', JObj [(''schema'', JStr WORKLOAD_SPEC_SCHEMA), (''workload_class'', JStr ''w''), (''scenario_id'', JStr ''refusal''),
         (''required_tools'', JList [JStr ''fio'']), (''threshold_source'', JStr ''fixture''),
         (''thresholds'', JObj [(''source'', JStr ''fixture''), (''fixture_status'', JStr ''x''), (''calibration_status'', JStr ''x''),
            (''production_capacity_claim'', JBool False)]),
         (''capability_artifact_path'', JStr ''evidence/lab/matrix/r/b''),
         (''vm_marker_required_for_live_run'', JBool True), (''host_mutation'', JBool False), (''release_eligible'', JBool False)]),
      (''B'', JObj [(''schema'', JStr WORKLOAD_CAPABILITY_SCHEMA), (''scenario_id'', JStr ''refusal''), (''workload_class'', JStr ''w''),
         (''required_tools'', JList [JStr ''fio'']), (''threshold_source'', JStr ''fixture''), (''mode'', JStr ''host-safe''), (''status'', JStr ''REFUSE''),
         (''typed_outcome'', JStr ''REFUSE''), (''missing_prereq'', JStr ''''), (''vm_marker_required_for_live_run'', JBool True),
         (''host_mutation'', JBool False), (''release_eligible'', JBool False)]),
      (''P'', JObj [(''schema'', JStr PRIVACY_SCAN_SCHEMA), (''status'', JStr ''PASS''), (''private_fields_found'', JBool False), (''host_mutation'', JBool False)]),
      (''I'', JObj [(''schema'', JStr ''zig-scheduler/matrix-incident/v1''), (''scenario_id'', JStr ''refusal''), (''outcome'', JStr ''REFUSE''),
         (''reason'', JStr ''x''), (''host_mutation'', JBool False), (''release_eligible'', JBool False)]),
      (''K'', JObj [(''schema'', JStr ''zig-scheduler/rollback-proof/v1''), (''scenario_id'', JStr ''refusal''), (''status'', JStr ''PASS''),
         (''scheduler_state'', JStr ''disabled''), (''ops'', JStr ''none''), (''host_mutation'', JBool False)]),
      (''C'', JObj [(''schema'', JStr ''zig-scheduler/cleanup-proof/v1''), (''scenario_id'', JStr ''refusal''), (''status'', JStr ''PASS''),
         (''owned_qemu_leftovers'', JBool False), (''owned_temp_leftovers'', JBool False), (''host_mutation'', JBool False),
         (''qemu_scan_before'', JStr ''q''), (''qemu_scan_after'', JStr ''q''), (''temp_scan_before'', JStr ''q''), (''temp_scan_after'', JStr ''q'')]),
      (''H'', JObj [(''schema'', JStr ''zig-scheduler/host-refusal-proof/v1''), (''scenario_id'', JStr ''refusal''), (''status'', JStr ''REFUSE''),
         (''reason'', JStr ''x''), (''no_bpf_load_attach'', JBool True), (''no_cgroup_write'', JBool True), (''no_sys_write'', JBool True),
         (''no_proc_write'', JBool True), (''host_mutation'', JBool False)])]"

definition matrix_manifest :: json_object where
  "matrix_manifest = (case json_decode matrix_env ''M'' of Decoded (JObj d) \<Rightarrow> d | _ \<Rightarrow> [])"

definition matrix_entry :: json_object where
  "matrix_entry = (case jget matrix_manifest ''rows'' of JList [JObj d] \<Rightarrow> d | _ \<Rightarrow> [])"

definition matrix_path :: path where
  "matrix_path = mk_path ''evidence/lab/matrix/r/manifest.json''"

definition matrix_base :: path where
  "matrix_base = Path [] [''evidence'', ''lab'', ''matrix'', ''r'']"

abbreviation refused_path :: path where
  "refused_path \<equiv> mk_path ''evidence/lab/matrix/r/matrix-run.json''"

lemma refused_row_paths: "validate_manifest_row_paths matrix_env refused_row matrix_base (path_str refused_path) = Inr ()"
  by code_simp

lemma matrix_entry_fields: "set (keys matrix_entry) \<subseteq> set MANIFEST_ROW_FIELDS" "jget matrix_entry ''scenario_id'' = JStr ''refusal''"
    "re_fullmatch ID_RE ''refusal''" "jget matrix_entry ''artifact_path'' = JStr ''evidence/lab/matrix/r/matrix-run.json''"
    "''evidence/lab/matrix/r/matrix-run.json'' \<noteq> []" "''refusal'' \<noteq> []"
    "safe_path refused_path" "prefix (path_parts matrix_base) (path_parts refused_path)" "path_name refused_path = ''matrix-run.json''"
  by code_simp+

lemma matrix_entry_checks: "load_json_mr matrix_env refused_path = Inr refused_row"
    "validate_manifest_vm_claim matrix_env refused_row ''host-safe'' False matrix_base (path_str refused_path) = Inr ()"
    "validate_live_backend_summary_consistency matrix_env refused_row refused_path (path_str refused_path) = Inr ()"
    "jget refused_row ''matrix_run_id'' = JStr ''r''" "py_eq (jget matrix_entry ''scenario_id'') (jget refused_row ''scenario_id'')"
    "py_eq (jget matrix_entry ''outcome'') (jget refused_row ''outcome'')"
    "''refusal'' \<notin> set (seen_scenarios \<lparr> seen_scenarios = [], seen_artifacts = [] \<rparr>)"
    "path_str refused_path \<notin> set (seen_artifacts \<lparr> seen_scenarios = [], seen_artifacts = [] \<rparr>)"
  by code_simp+

lemma matrix_step_accepted:
  "manifest_row_step matrix_env matrix_path matrix_base ''r'' ''host-safe'' False \<lparr> seen_scenarios = [], seen_artifacts = [] \<rparr> (0, JObj matrix_entry)
     = Inr \<lparr> seen_scenarios = [''refusal''], seen_artifacts = [path_str refused_path] \<rparr>"
  unfolding manifest_row_step_def Let_def prod.case thenE_ok_iff bindE_ok_iff mr_text.read_ok text_of_iff mr_obj.read_ok obj_of_iff
    require_mr_ok_iff require_safe_path_mr_ok_iff require_descendant_mr_ok_iff require_only_fields_mr_ok_iff sum.inject
  by (intro exI conjI) (rule refl matrix_entry_fields matrix_entry_checks refused_row_accepted refused_row_paths | simp)+

lemma matrix_manifest_fields: "require_manifest_root matrix_path = Inr matrix_base" "load_json_mr matrix_env matrix_path = Inr matrix_manifest"
    "set (keys matrix_manifest) \<subseteq> set MANIFEST_FIELDS" "jget matrix_manifest ''schema'' = JStr ''zig-scheduler/vm-harness-matrix-index/v1''"
    "jget matrix_manifest ''host_mutation'' = JBool False" "jget matrix_manifest ''release_eligible'' = JBool False"
    "jget matrix_manifest ''matrix_run_id'' = JStr ''r''" "''r'' \<noteq> []" "re_fullmatch RUN_ID_RE ''r''" "''r'' = path_name matrix_base"
    "jget matrix_manifest ''out_dir'' = JStr ''evidence/lab/matrix/r''" "''evidence/lab/matrix/r'' \<noteq> []"
    "safe_path (mk_path ''evidence/lab/matrix/r'')" "mk_path ''evidence/lab/matrix/r'' = matrix_base"
  by code_simp+

lemma matrix_manifest_checks: "jget matrix_manifest ''daemon_events_path'' = JStr ''evidence/lab/matrix/r/d''" "''evidence/lab/matrix/r/d'' \<noteq> []"
    "safe_path (mk_path ''evidence/lab/matrix/r/d'')" "prefix (path_parts matrix_base) (path_parts (mk_path ''evidence/lab/matrix/r/d''))"
    "jget matrix_manifest ''mode'' = JStr ''host-safe''" "''host-safe'' \<noteq> []" "jget matrix_manifest ''fixture_mode'' = JBool False"
    "jget matrix_manifest ''started_at'' = JStr ''t''" "jget matrix_manifest ''ended_at'' = JStr ''t''" "''t'' \<noteq> []"
    "jget matrix_manifest ''rows'' = JList [JObj matrix_entry]" "py_eq (jget matrix_manifest ''row_count'') (JInt (int (length [JObj matrix_entry])))"
    "validate_de matrix_env (mk_path ''evidence/lab/matrix/r/d'') False = Inr ()"
  by code_simp+

lemma matrix_manifest_accepted: "validate_manifest matrix_env matrix_path = Inr (1, 0)"
proof -
  have loop: "foldE (manifest_row_step matrix_env matrix_path matrix_base ''r'' ''host-safe'' False) \<lparr> seen_scenarios = [], seen_artifacts = [] \<rparr>
      (enumerate_from 0 [JObj matrix_entry]) = Inr \<lparr> seen_scenarios = [''refusal''], seen_artifacts = [path_str refused_path] \<rparr>"
    by (simp add: matrix_step_accepted)
  show ?thesis
    unfolding validate_manifest_def Let_def thenE_ok_iff bindE_ok_iff mr_text.read_ok text_of_iff mr_bool.read_ok bool_of_iff
      require_mr_ok_iff require_safe_path_mr_ok_iff require_descendant_mr_ok_iff sum.inject required_option_ok_iff list_of_iff
      validate_manifest_daemon_events_ok_iff require_only_fields_mr_ok_iff
    by (intro exI conjI) (rule refl matrix_manifest_fields matrix_manifest_checks loop | simp)+
qed

theorem matrix_manifest_backed_witness:
  "validate_manifest matrix_env matrix_path = Inr (1, 0) \<and>
   (\<exists>run base manifest rows. load_json_mr matrix_env matrix_path = Inr manifest \<and> jget manifest ''rows'' = JList rows \<and> rows \<noteq> [] \<and>
      (\<forall>entry \<in> set rows. entry_backed_mr matrix_env base run False entry))"
  using matrix_manifest_backed[OF matrix_manifest_accepted]
proof (elim exE conjE, goal_cases)
  case (1 run base manifest mode fixture_mode rows p)
  have "manifest = matrix_manifest" using matrix_manifest_fields(2) \<open>load_json_mr _ _ = Inr manifest\<close> by simp
  with 1(7,8,9) matrix_manifest_checks(7,11) have "\<not> fixture_mode" and "rows \<noteq> []" by auto
  then have mode: "fixture_manifest mode fixture_mode = False" by (simp add: fixture_manifest_def)
  have backed: "\<forall>entry \<in> set rows. entry_backed_mr matrix_env base run False entry"
    unfolding mode[symmetric] by (fact 1)
  show ?case
    by (intro conjI exI matrix_manifest_accepted) (fact 1 \<open>rows \<noteq> []\<close> backed)+
qed

section \<open>The live backend and its bundle\<close>

text \<open>C4: a passing live row of the backend scenario is accepted only with a passing backend summary and
  a live bundle at their fixed places beside the row's artifact. The bundle found there does not say that its tree was
  dirty, a revision that it states starts with the one the row states (it need not state either), it comes from a marked
  VM, and the artifacts that its own list names show an episode: among them its samples, in which the scheduler is
  attached and detached again, and the rolled-back attach.\<close>

theorem live_pass_rests_on_episode:
  assumes "validate_live_backend_summary_consistency env row artifact_path context = Inr ()"
    and "jget row ''scenario_id'' = JStr ''live-backend''" and "jget row ''outcome'' = JStr ''PASS''"
    and "jget row ''evidence_mode'' = JStr ''vm-live''"
  shows "\<exists>summary p live g sha samples rows.
    load_json_mr env (path_join (path_join (path_parent artifact_path) ''backend'') ''summary.json'') = Inr summary \<and>
    jget summary ''status'' = JStr ''PASS'' \<and> jget summary ''host_mutation'' = JBool False \<and>
    p = path_join (path_join (path_parent (path_join (path_join (path_parent artifact_path) ''backend'') ''summary.json'')) ''live'') ''summary.json'' \<and>
    load_json_mr env p = Inr live \<and> jget live ''git_dirty'' \<noteq> JBool True \<and>
    jget row ''git'' = JObj g \<and> jget g ''actual_sha'' = JStr sha \<and> (\<forall>s. jget live ''git_sha'' = JStr s \<and> s \<noteq> [] \<longrightarrow> prefix sha s) \<and>
    vm_live_gate live \<and> listed_artifact live ''runtime-samples.jsonl'' samples \<and> load_jsonl_rs env samples = Inr rows \<and> attach_episode rows \<and>
    bundle_episode env p live"
proof -
  have "live_backed env artifact_path row" by (rule validate_live_backend_ok[OF assms])
  moreover have "\<exists>samples rows. vm_live_gate live \<and> listed_artifact live ''runtime-samples.jsonl'' samples \<and> load_jsonl_rs env samples = Inr rows \<and> attach_episode rows"
    if "bundle_episode env p live" for p live using that unfolding bundle_episode_def by blast
  ultimately show ?thesis unfolding live_backed_def by fastforce
qed

definition live_row :: json_object where
  "live_row = [(''scenario_id'', JStr ''live-backend''), (''outcome'', JStr ''PASS''), (''evidence_mode'', JStr ''vm-live''),
     (''git'', JObj [(''actual_sha'', JStr ''abc'')])]"

lemma live_row_fields: "text_mr (jget live_row ''scenario_id'') c = Inr ''live-backend''" "text_mr (jget live_row ''outcome'') c = Inr ''PASS''"
    "text_mr (jget live_row ''evidence_mode'') c = Inr ''vm-live''" "obj_mr (jget live_row ''git'') c = Inr [(''actual_sha'', JStr ''abc'')]"
    "text_mr (jget [(''actual_sha'', JStr ''abc'')] ''actual_sha'') c = Inr ''abc''"
  by (simp_all add: live_row_def jget_def text_mr_def obj_mr_def)

lemma live_backend_fields: "path_join (path_join (path_parent (mk_path ''b/matrix-run.json'')) ''backend'') ''summary.json'' = mk_path ''b/backend/summary.json''"
    "path_join (path_join (path_parent (mk_path ''b/backend/summary.json'')) ''live'') ''summary.json'' = live_path"
    "fs_is_file live_env (mk_path ''b/backend/summary.json'') = True" "fs_is_file live_env live_path = True"
    "load_json_mr live_env (mk_path ''b/backend/summary.json'') = Inr (live_doc ''BS'')" "load_json_mr live_env live_path = Inr (live_doc ''RUN'')"
    "(jget (live_doc ''BS'') ''host_mutation'' = JBool False) = True" "text_of (jget (live_doc ''BS'') ''live_summary'') = Some ''b/backend/live/summary.json''"
    "(jget (live_doc ''RUN'') ''git_dirty'' = JBool True) = False" "text_of (jget (live_doc ''RUN'') ''git_sha'') = None"
    "text_of (jget (live_doc ''BS'') ''schema'') = Some ''zig-scheduler/vm-backend-run/v1''" "text_of (jget (live_doc ''BS'') ''status'') = Some ''PASS''"
  by code_simp+

lemma live_backend_texts: "text_mr (jget (live_doc ''BS'') ''schema'') c = Inr ''zig-scheduler/vm-backend-run/v1''"
    "text_mr (jget (live_doc ''BS'') ''status'') c = Inr ''PASS''"
  by (simp_all add: mr_text.read_ok live_backend_fields)

lemma live_row_accepted: "validate_live_backend_summary_consistency live_env live_row (mk_path ''b/matrix-run.json'') ''c'' = Inr ()"
  unfolding validate_live_backend_summary_consistency_def Let_def
  by (simp add: live_row_fields live_backend_fields live_backend_texts require_mr_def is_live_pass_def live_env_accepted reraise_def)

theorem live_pass_rests_on_episode_witness:
  "validate_live_backend_summary_consistency live_env live_row (mk_path ''b/matrix-run.json'') ''c'' = Inr () \<and>
   (\<exists>live samples rows. load_json_mr live_env live_path = Inr live \<and> bundle_episode live_env live_path live \<and>
      listed_artifact live ''runtime-samples.jsonl'' samples \<and> load_jsonl_rs live_env samples = Inr rows \<and> attach_episode rows)"
proof -
  have "jget live_row ''scenario_id'' = JStr ''live-backend''" "jget live_row ''outcome'' = JStr ''PASS''"
    "jget live_row ''evidence_mode'' = JStr ''vm-live''" by (simp_all add: live_row_def jget_def)
  from live_pass_rests_on_episode[OF live_row_accepted this] live_row_accepted show ?thesis
    unfolding live_backend_fields(1,2) by blast
qed

section \<open>What escapes the command line\<close>

text \<open>A bundle whose partial-attach evidence is not an object.\<close>

definition broken_env :: env where
  "broken_env = live_env \<lparr> json_decode := (\<lambda>s. if s = ''E'' then Decoded JNull else json_decode live_env s) \<rparr>"

text \<open>Only the exception of the live-behaviour check is turned into the contract's own. When the
  nested partial-attach evidence of a live bundle is malformed, the exception of that module goes through unchanged, and it is
  none of the classes that the command line reports as a failure.\<close>

theorem nested_errors_escape:
  "validate_live_backend_summary_consistency broken_env live_row (mk_path ''b/matrix-run.json'') ''c'' =
     Inl (PartialAttachError ''b/backend/live/partial-attach-evidence.json must contain a JSON object'')"
  by code_simp

end
