(* ===== verification/ProtectedCoreTelemetry.thy ===== *)
theory ProtectedCoreTelemetry
  imports RuntimeSample
begin

text \<open>
  \<^verbatim>\<open>qa/protected_core_telemetry_check.py\<close>: the samples behind a protected-core claim. Beyond the sample
  contract it asks that every normalised fact is there, that the rejection counter is the one printed in the
  kernel's event text, and, for a row that passes live, that the samples were captured in the VM and not
  produced by the harness.
\<close>

section \<open>Model\<close>

definition UNAVAILABLE_VALUES_ct :: "string list" where
  "UNAVAILABLE_VALUES_ct = ['''', ''missing'', ''none'', ''null'', ''unavailable'', ''unknown'']"

definition UNAVAILABLE_STATUSES_ct :: "string list" where
  "UNAVAILABLE_STATUSES_ct = [''missing'', ''unreadable'', ''unknown'']"

definition REQUIRED_FACTS :: "string list" where
  "REQUIRED_FACTS =
     [''state'', ''ops'', ''root_ops'', ''enable_seq'', ''events'', ''scheduler_events'', ''nr_rejected'', ''task_ext_enabled'',
      ''cgroup_membership_status'', ''workload'']"

definition REQUIRED_FIELDS :: "string list" where
  "REQUIRED_FIELDS =
     [''sample_source_event'', ''observation_source'', ''sched_ext_phase'', ''policy_abi'', ''cgroup_semantic_labels'',
      ''cgroup_membership_digest'', ''private_command_lines_sampled'']"

definition REQUIRED_TELEMETRY :: "string list" where
  "REQUIRED_TELEMETRY =
     [''policy_counters'', ''sample_loss'', ''dsq_depth'', ''queue_latency'', ''fairness'', ''scheduler_counters'', ''sched_ext_observation'']"

definition CGROUP_SCENARIO :: string where
  "CGROUP_SCENARIO = ''workload-cgroup-weight-quota''"

definition VM_CAPTURED_OBSERVATION_SOURCES :: "string list" where
  "VM_CAPTURED_OBSERVATION_SOURCES = [''vm_guest_sched_ext'', ''vm_serial_sched_ext'']"

definition HARNESS_GENERATED_OBSERVATION_SOURCES :: "string list" where
  "HARNESS_GENERATED_OBSERVATION_SOURCES = [''vm_harness_matrix_row'', ''vm_fixture_sched_ext'']"

text \<open>
  \<^verbatim>\<open>EVENT_COUNTER_RE.search\<close>, as the digits of the first match. A match begins at the start of the
  text or at a white space character; \<open>nr_rejected_here\<close> is the part of the pattern after that. The
  greedy runs of white space and digits never have to be given back, since what follows them is of another
  class.
\<close>

definition nr_rejected_here :: "string \<Rightarrow> string option" where
  "nr_rejected_here s =
     (if prefix ''nr_rejected'' s then
        (case dropWhile is_space_char (drop 11 s) of
           [] \<Rightarrow> None
         | c # r \<Rightarrow>
             if c = CHR '':'' \<or> c = CHR ''='' then
               (let t = dropWhile is_space_char r; digits = takeWhile is_digit_char t; rest = dropWhile is_digit_char t in
                if digits \<noteq> [] \<and> (rest = [] \<or> is_space_char (hd rest)) then Some digits else None)
             else None)
      else None)"

fun nr_rejected_later :: "string \<Rightarrow> string option" where
  "nr_rejected_later [] = None"
| "nr_rejected_later (c # cs) =
     (case (if is_space_char c then nr_rejected_here cs else None) of
        Some digits \<Rightarrow> Some digits
      | None \<Rightarrow> nr_rejected_later cs)"

definition EVENT_COUNTER_RE :: "string \<Rightarrow> string option" where
  "EVENT_COUNTER_RE s = (case nr_rejected_here s of Some digits \<Rightarrow> Some digits | None \<Rightarrow> nr_rejected_later s)"

record telemetry_args =
  input_path :: "path option"
  manifest_ct :: "path option"
  scenario_ct :: "string option"
  self_test_ct :: bool

definition USAGE_ct :: exn where
  "USAGE_ct = ProtectedCoreTelemetryError
     ''usage: protected_core_telemetry_check.py --input <jsonl> [--scenario <id>] | --manifest <manifest> | --self-test''"

definition parse_args_ct :: "string list \<Rightarrow> telemetry_args result" where
  "parse_args_ct argv =
     (if argv = [''--self-test''] then
        Inr \<lparr> input_path = None, manifest_ct = None, scenario_ct = None, self_test_ct = True \<rparr>
      else if length argv \<in> {2, 4} \<and> argv ! 0 = ''--input'' then
        (if length argv = 4 then
           (if argv ! 2 \<noteq> ''--scenario'' then Inl USAGE_ct
            else Inr \<lparr> input_path = Some (mk_path (argv ! 1)), manifest_ct = None, scenario_ct = Some (argv ! 3), self_test_ct = False \<rparr>)
         else Inr \<lparr> input_path = Some (mk_path (argv ! 1)), manifest_ct = None, scenario_ct = None, self_test_ct = False \<rparr>)
      else if length argv = 2 \<and> argv ! 0 = ''--manifest'' then
        Inr \<lparr> input_path = None, manifest_ct = Some (mk_path (argv ! 1)), scenario_ct = None, self_test_ct = False \<rparr>
      else Inl USAGE_ct)"

definition load_json_ct :: "env \<Rightarrow> path \<Rightarrow> json_object result" where
  "load_json_ct env path =
     (bindE (reraise is_JSONDecodeError
         (\<lambda>exc. ProtectedCoreTelemetryError (msg [''invalid JSON in '', path_str path, '': '', exn_str exc]))
         (reraise is_FileNotFoundError
         (\<lambda>_. ProtectedCoreTelemetryError (msg [''missing JSON file: '', path_str path]))
         (bindE (fs_read_text env path) (json_loads env)))) (\<lambda>raw.
     case obj_of raw of
         None \<Rightarrow> Inl (ProtectedCoreTelemetryError (msg [path_str path, '' must contain a JSON object'']))
         | Some d \<Rightarrow> Inr d))"

definition require_ct :: "bool \<Rightarrow> string \<Rightarrow> check" where
  "require_ct condition message = raise_if (\<not> condition) (ProtectedCoreTelemetryError message)"

definition is_unavailable_fact :: "json \<Rightarrow> bool" where
  "is_unavailable_fact v =
     (case obj_of v of
        None \<Rightarrow> False
      | Some d \<Rightarrow>
          (case (str_of (jget d ''status''), str_of (jget d ''value'')) of
             (Some status, Some x) \<Rightarrow> status \<in> set UNAVAILABLE_STATUSES_ct \<and> casefold x \<in> set UNAVAILABLE_VALUES_ct
           | _ \<Rightarrow> False))"

definition fact_status :: "json_object \<Rightarrow> string \<Rightarrow> string \<Rightarrow> string result" where
  "fact_status row field context =
     (case obj_of (jget row field) of
        None \<Rightarrow> Inl (ProtectedCoreTelemetryError (msg [context, ''.'', field, '' must be an explicit fact'']))
      | Some d \<Rightarrow>
          (case (str_of (jget d ''status''), str_of (jget d ''value'')) of
             (Some status, Some _) \<Rightarrow> Inr status
           | _ \<Rightarrow> Inl (ProtectedCoreTelemetryError (msg [context, ''.'', field, '' must include status/value'']))))"

definition fact_value :: "json_object \<Rightarrow> string \<Rightarrow> string result" where
  "fact_value row field =
     (bindE (jindex row field) (\<lambda>v.
     case obj_of v of
         Some d \<Rightarrow> bindE (jindex d ''value'') (\<lambda>x. Inr (py_str x))
         | None \<Rightarrow> Inr []))"

definition events_nr_rejected :: "json_object \<Rightarrow> int option result" where
  "events_nr_rejected row =
     (case obj_of (jget row ''events'') of
        None \<Rightarrow> Inr None
      | Some events \<Rightarrow>
          if jget events ''status'' \<noteq> JStr ''present'' then Inr None
          else (case str_of (jget events ''value'') of
                  None \<Rightarrow> Inr None
                | Some x \<Rightarrow>
                    if casefold x \<in> set UNAVAILABLE_VALUES_ct then Inr None
                    else (case EVENT_COUNTER_RE x of
                            None \<Rightarrow> Inr None
                          | Some digits \<Rightarrow> bindE (py_int digits) (\<lambda>n. Inr (Some n)))))"

definition require_metric_or_unavailable :: "json_object \<Rightarrow> string \<Rightarrow> string \<Rightarrow> json_object result" where
  "require_metric_or_unavailable row field context =
     (case obj_of (jget row field) of
        None \<Rightarrow> Inl (ProtectedCoreTelemetryError (msg [context, ''.'', field, '' must be present as metrics or explicit unavailable fact'']))
      | Some d \<Rightarrow>
          if is_unavailable_fact (JObj d) then Inr d
          else thenE (reject_private_leaks_rs (JObj d) (msg [context, ''.'', field])) (Inr d))"

definition validate_row_ct :: "json_object \<Rightarrow> nat \<Rightarrow> string option \<Rightarrow> check" where
  "validate_row_ct row index scenario =
     (let context = (msg [''sample['', show_nat index, '']'']) in
      (thenE (forE (\<lambda>field. require_ct (has_key row field) (msg [context, '' missing protected telemetry field: '', field])) REQUIRED_FIELDS) (
      thenE (forE (\<lambda>field. bindE (fact_status row field context) (\<lambda>_. Inr ())) REQUIRED_FACTS) (
      thenE (forE (\<lambda>field. bindE (require_metric_or_unavailable row field context) (\<lambda>_. Inr ())) REQUIRED_TELEMETRY) (
      bindE (events_nr_rejected row) (\<lambda>events_counter.
      bindE (fact_status row ''nr_rejected'' context) (\<lambda>nr_status.
      bindE (fact_value row ''nr_rejected'') (\<lambda>nr_value.
      thenE (case events_counter of
          None \<Rightarrow>
          (thenE (require_ct (nr_status \<in> set UNAVAILABLE_STATUSES_ct \<and> casefold nr_value \<in> set UNAVAILABLE_VALUES_ct)
          (msg [context, ''.nr_rejected must be unavailable when events are unavailable''])) (
          require_ct (is_unavailable_fact (jget row ''policy_counters''))
          (msg [context, ''.policy_counters must be unavailable when events are unavailable''])))
          | Some counter \<Rightarrow>
          (thenE (require_ct (nr_status = ''present'' \<and> isdecimal nr_value) (msg [context, ''.nr_rejected must be numeric when events are present''])) (
          bindE (py_int nr_value) (\<lambda>n.
          require_ct (n = counter) (msg [context, ''.nr_rejected must match events nr_rejected'']))))) (
      if scenario = Some CGROUP_SCENARIO then
          (bindE (require_object_rs row ''policy_abi'' context) (\<lambda>policy_abi.
          require_ct (py_eq (jget policy_abi ''abi_version'') (JInt 3) \<and> jget policy_abi ''abi_label'' = JStr ABI_LABEL)
          (msg [context, ''.policy_abi missing ABI-v3 metadata for cgroup-policy row''])))
          else Inr ())))))))))"

definition validate_rows_ct :: "json_object list \<Rightarrow> string option \<Rightarrow> string \<Rightarrow> check" where
  "validate_rows_ct rows scenario label =
     (thenE (raise_if (rows = []) (ProtectedCoreTelemetryError (msg [label, '' has no runtime samples'']))) (
     forE (\<lambda>(index, row). validate_row_ct row index scenario) (enumerate_from 0 rows)))"

definition require_vm_captured_row :: "string \<Rightarrow> nat \<times> json_object \<Rightarrow> check" where
  "require_vm_captured_row label = (\<lambda>(index, row).
     let context = (msg [label, ''.sample['', show_nat index, '']'']); source = jget row ''observation_source'' in
     (bindE (in_str_set source HARNESS_GENERATED_OBSERVATION_SOURCES) (\<lambda>harness.
     thenE (raise_if harness
         (ProtectedCoreTelemetryError (msg [context, ''.observation_source is harness-generated synthetic telemetry: '', py_str source]))) (
     thenE (require_ct (case str_of source of None \<Rightarrow> False | Some s \<Rightarrow> s \<in> set VM_CAPTURED_OBSERVATION_SOURCES)
         (msg [context, ''.observation_source must be VM-captured telemetry''])) (
     (let sample_event = jget row ''sample_source_event'' in
     thenE (require_ct (is_str sample_event) (msg [context, ''.sample_source_event must be present''])) (
     case str_of sample_event of
         None \<Rightarrow> Inl (ProtectedCoreTelemetryError (msg [context, ''.sample_source_event must be text'']))
         | Some event \<Rightarrow>
         (thenE (require_ct (event \<noteq> []) (msg [context, ''.sample_source_event must be present''])) (
         require_ct (\<not> prefix ''matrix-'' event)
         (msg [context, ''.sample_source_event must not be harness matrix fallback telemetry'']))))))))))"

definition require_vm_captured_rows :: "json_object list \<Rightarrow> string \<Rightarrow> check" where
  "require_vm_captured_rows rows label = forE (require_vm_captured_row label) (enumerate_from 0 rows)"

definition validate_input :: "env \<Rightarrow> path \<Rightarrow> string option \<Rightarrow> check" where
  "validate_input env path scenario =
     (thenE (validate_file_rs env path) (
     bindE (load_jsonl_rs env path) (\<lambda>rows.
     validate_rows_ct rows scenario (path_str path))))"

definition validate_vm_captured_input :: "env \<Rightarrow> path \<Rightarrow> string option \<Rightarrow> check" where
  "validate_vm_captured_input env path scenario =
     (thenE (validate_file_rs env path) (
     bindE (load_jsonl_rs env path) (\<lambda>rows.
     thenE (validate_rows_ct rows scenario (path_str path)) (
     require_vm_captured_rows rows (path_str path)))))"

definition safe_path_ct :: "json \<Rightarrow> string \<Rightarrow> path result" where
  "safe_path_ct v context =
     (case text_of v of
        None \<Rightarrow> Inl (ProtectedCoreTelemetryError (msg [context, '' must be a non-empty path'']))
      | Some s \<Rightarrow>
          (let path = mk_path s in
           thenE (require_ct (\<not> is_absolute path \<and> ''..'' \<notin> set (path_parts path)) (msg [context, '' must be repo-relative and non-traversing'']))
             (Inr path)))"

text \<open>The body of the loop of \<^verbatim>\<open>validate_manifest\<close>; \<^verbatim>\<open>continue\<close> returns from it.\<close>

definition telemetry_entry :: "env \<Rightarrow> path \<Rightarrow> nat \<times> json \<Rightarrow> check" where
  "telemetry_entry env path = (\<lambda>(index, ref).
     let context = (msg [path_str path, ''.rows['', show_nat index, '']'']) in
     case obj_of ref of
       None \<Rightarrow> Inl (ProtectedCoreTelemetryError (msg [context, '' must be an object'']))
     | Some d \<Rightarrow>
         if jget d ''outcome'' \<noteq> JStr ''PASS'' then Inr ()
         else (case text_of (jget d ''scenario_id'') of
                 None \<Rightarrow> Inl (ProtectedCoreTelemetryError (msg [context, ''.scenario_id must be text'']))
               | Some scenario \<Rightarrow>
                   (bindE (safe_path_ct (jget d ''artifact_path'') (msg [context, ''.artifact_path''])) (\<lambda>artifact.
                     bindE (load_json_ct env artifact) (\<lambda>row.
                     if jget row ''evidence_mode'' \<noteq> JStr ''vm-live'' then Inr ()
                         else (bindE (safe_path_ct (jget row ''runtime_sample_path'') (msg [context, ''.runtime_sample_path''])) (\<lambda>sample_path.
                         validate_vm_captured_input env sample_path (Some scenario))))))))"

definition validate_manifest_ct :: "env \<Rightarrow> path \<Rightarrow> check" where
  "validate_manifest_ct env path =
     (bindE (load_json_ct env path) (\<lambda>manifest.
     case list_of (jget manifest ''rows'') of
         None \<Rightarrow> Inl (ProtectedCoreTelemetryError (msg [path_str path, ''.rows must be a list'']))
         | Some rows \<Rightarrow> forE (telemetry_entry env path) (enumerate_from 0 rows)))"

text \<open>
  \<^verbatim>\<open>run\<close> returns the line it prints; the self-test is a parameter. The script's last lines turn the
  exceptions they name into a line and the exit status 1.
\<close>

definition run_ct :: "check \<Rightarrow> env \<Rightarrow> string list \<Rightarrow> string result" where
  "run_ct self_test env argv =
     (bindE (parse_args_ct argv) (\<lambda>args.
     if self_test_ct args then thenE self_test (Inr [])
         else (case input_path args of
         Some path \<Rightarrow>
         thenE (validate_input env path (scenario_ct args)) (Inr (msg [''PASS protected-core telemetry: '', path_str path]))
         | None \<Rightarrow>
         (case manifest_ct args of
         Some path \<Rightarrow>
         thenE (validate_manifest_ct env path) (Inr (msg [''PASS protected-core telemetry manifest: '', path_str path]))
         | None \<Rightarrow> Inl (ProtectedCoreTelemetryError ''internal argument parser error'')))))"

definition script_ct :: "check \<Rightarrow> env \<Rightarrow> string list \<Rightarrow> (string \<times> int) result" where
  "script_ct self_test env argv =
     (case run_ct self_test env argv of
        Inr line \<Rightarrow> Inr (line, 0)
      | Inl e \<Rightarrow>
          if is_ProtectedCoreTelemetryError e \<or> is_RuntimeSampleError e \<or> is_os_error e \<or> is_JSONDecodeError e
          then Inr ((msg [''FAIL protected-core telemetry: '', exn_str e]), 1) else Inl e)"

section \<open>The event counter\<close>

text \<open>
  What the pattern describes: after \<open>a\<close>, which is empty or ends in white space, the name, a separator
  and the digits, each after optional white space, and then white space or the end of the text.
\<close>

definition counter_spec :: "string \<Rightarrow> string \<Rightarrow> bool" where
  "counter_spec digits s \<longleftrightarrow>
     (\<exists>b sep d r. s = ''nr_rejected'' @ b @ sep # d @ digits @ r \<and> list_all is_space_char b \<and> sep \<in> {CHR '':'', CHR ''=''} \<and>
        list_all is_space_char d \<and> digits \<noteq> [] \<and> list_all is_digit_char digits \<and> (r = [] \<or> is_space_char (hd r)))"

definition counter_match :: "string \<Rightarrow> string \<Rightarrow> string \<Rightarrow> bool" where
  "counter_match a digits s \<longleftrightarrow> (\<exists>t. s = a @ t \<and> (a = [] \<or> is_space_char (last a)) \<and> counter_spec digits t)"

lemma char_classes:
  "\<not> is_space_char CHR '':''" "\<not> is_space_char CHR ''=''" "\<not> is_space_char CHR ''n''"
  "is_digit_char c \<Longrightarrow> \<not> is_space_char c" "is_space_char c \<Longrightarrow> \<not> is_digit_char c"
  by (auto simp: is_space_char_def is_digit_char_def in_range_def)

lemma nr_rejected_here_iff: "nr_rejected_here s = Some digits \<longleftrightarrow> counter_spec digits s"
proof
  assume here: "nr_rejected_here s = Some digits"
  then obtain u where s: "s = ''nr_rejected'' @ u"
    by (auto simp: nr_rejected_here_def prefix_def split: if_splits)
  let ?v = "dropWhile is_space_char u"
  from here obtain sep t where v: "?v = sep # t" and sep: "sep \<in> {CHR '':'', CHR ''=''}"
    and digits: "digits = takeWhile is_digit_char (dropWhile is_space_char t)" "digits \<noteq> []"
    and rest: "dropWhile is_digit_char (dropWhile is_space_char t) = [] \<or> is_space_char (hd (dropWhile is_digit_char (dropWhile is_space_char t)))"
    unfolding s by (auto simp: nr_rejected_here_def Let_def split: if_splits list.splits)
  have "u = takeWhile is_space_char u @ sep # takeWhile is_space_char t @ digits @ dropWhile is_digit_char (dropWhile is_space_char t)"
    unfolding digits by (metis takeWhile_dropWhile_id v)
  with s sep digits rest show "counter_spec digits s"
    unfolding counter_spec_def list_all_iff
    by (intro exI[of _ "takeWhile is_space_char u"] exI[of _ sep] exI[of _ "takeWhile is_space_char t"]
        exI[of _ "dropWhile is_digit_char (dropWhile is_space_char t)"] conjI) (auto dest: set_takeWhileD)
next
  assume "counter_spec digits s"
  then obtain b sep d r where s: "s = ''nr_rejected'' @ b @ sep # d @ digits @ r" and b: "\<forall>c \<in> set b. is_space_char c"
    and sep: "sep \<in> {CHR '':'', CHR ''=''}" and d: "\<forall>c \<in> set d. is_space_char c" and "digits \<noteq> []"
    and digits: "\<forall>c \<in> set digits. is_digit_char c" and r: "r = [] \<or> is_space_char (hd r)"
    unfolding counter_spec_def list_all_iff by blast
  have "\<not> is_space_char sep" using sep char_classes(1,2) by auto
  then have 1: "dropWhile is_space_char (b @ sep # d @ digits @ r) = sep # d @ digits @ r"
    using b by (subst dropWhile_append2) auto
  obtain e es where es: "digits = e # es" using \<open>digits \<noteq> []\<close> by (cases digits) auto
  have 2: "dropWhile is_space_char (d @ digits @ r) = digits @ r"
    using d digits char_classes(4) by (subst dropWhile_append2) (auto simp: es)
  have 3: "takeWhile is_digit_char (digits @ r) = digits" "dropWhile is_digit_char (digits @ r) = r"
    using digits r char_classes(5) by (cases r; auto simp: takeWhile_append2 dropWhile_append2)+
  show "nr_rejected_here s = Some digits"
    unfolding nr_rejected_here_def s using 1 2 3 sep r \<open>digits \<noteq> []\<close> by auto
qed

lemma counter_match_step:
  "counter_match (b # a) digits (c # s) \<longleftrightarrow> b = c \<and> (if a = [] then is_space_char c \<and> counter_spec digits s else counter_match a digits s)"
  by (auto simp: counter_match_def)

lemma counter_match_Nil: "counter_match [] digits s \<longleftrightarrow> counter_spec digits s"
  by (auto simp: counter_match_def)

lemma counter_match_ConsE:
  assumes "counter_match a digits (c # s)"
  obtains "a = []" "counter_spec digits (c # s)" | a' where "a = c # a'"
  using assms unfolding counter_match_def by (cases a) auto

lemma counter_spec_n: "counter_spec digits (c # s) \<Longrightarrow> c = CHR ''n''"
  by (auto simp: counter_spec_def)

lemma least_cons:
  "(\<exists>a. (\<exists>b. a = c # b \<and> b \<noteq> [] \<and> Q b x) \<and> (\<forall>a' y. (\<exists>b. a' = c # b \<and> b \<noteq> [] \<and> Q b y) \<longrightarrow> length a \<le> length a')) \<longleftrightarrow>
     (\<exists>a. (a \<noteq> [] \<and> Q a x) \<and> (\<forall>a' y. a' \<noteq> [] \<and> Q a' y \<longrightarrow> length a \<le> length a'))" (is "?L \<longleftrightarrow> ?R")
proof
  assume ?L
  then obtain b where "b \<noteq> []" "Q b x" and least: "\<And>b' y. b' \<noteq> [] \<Longrightarrow> Q b' y \<Longrightarrow> length (c # b) \<le> length (c # b')" by blast
  then show ?R by (intro exI[of _ b]) auto
next
  assume ?R
  then obtain a where "a \<noteq> []" "Q a x" "\<And>a' y. a' \<noteq> [] \<Longrightarrow> Q a' y \<Longrightarrow> length a \<le> length a'" by blast
  then show ?L by (intro exI[of _ "c # a"]) auto
qed

lemma nr_rejected_later_iff:
  "nr_rejected_later s = Some digits \<longleftrightarrow>
     (\<exists>a. (a \<noteq> [] \<and> counter_match a digits s) \<and> (\<forall>a' digits'. a' \<noteq> [] \<and> counter_match a' digits' s \<longrightarrow> length a \<le> length a'))"
proof (induction s)
  case Nil
  then show ?case by (auto simp: counter_match_def counter_spec_def)
next
  case (Cons c s)
  show ?case
  proof (cases "is_space_char c \<and> (\<exists>ds. counter_spec ds s)")
    case True
    then obtain ds where ds: "nr_rejected_here s = Some ds" by (auto simp: nr_rejected_here_iff)
    have first: "counter_match [c] x (c # s) \<longleftrightarrow> x = ds" for x
      using True ds by (simp add: counter_match_step flip: nr_rejected_here_iff) auto
    have "nr_rejected_later (c # s) = Some digits \<longleftrightarrow> digits = ds" using True ds by auto
    also have "\<dots> \<longleftrightarrow> (\<exists>a. (a \<noteq> [] \<and> counter_match a digits (c # s)) \<and>
        (\<forall>a' digits'. a' \<noteq> [] \<and> counter_match a' digits' (c # s) \<longrightarrow> length a \<le> length a'))" (is "_ \<longleftrightarrow> (\<exists>a. ?M a)")
    proof
      assume "digits = ds"
      then have "?M [c]" using first by (auto simp: Suc_le_eq)
      then show "\<exists>a. ?M a" by blast
    next
      assume "\<exists>a. ?M a"
      then obtain a where a: "a \<noteq> []" "counter_match a digits (c # s)" "length a \<le> length [c]"
        using first[of ds] by blast
      then have "a = [c]" by (cases a) (auto elim: counter_match_ConsE)
      with a first show "digits = ds" by blast
    qed
    finally show ?thesis .
  next
    case False
    then have "(if is_space_char c then nr_rejected_here s else None) = None"
      by (metis nr_rejected_here_iff not_Some_eq)
    then have "nr_rejected_later (c # s) = Some digits \<longleftrightarrow> nr_rejected_later s = Some digits" by simp
    moreover have step: "a \<noteq> [] \<and> counter_match a x (c # s) \<longleftrightarrow> (\<exists>a'. a = c # a' \<and> a' \<noteq> [] \<and> counter_match a' x s)" for a x
      using False by (cases a) (auto simp: counter_match_step)
    have "(\<exists>a. (a \<noteq> [] \<and> counter_match a digits (c # s)) \<and>
        (\<forall>a' digits'. a' \<noteq> [] \<and> counter_match a' digits' (c # s) \<longrightarrow> length a \<le> length a')) \<longleftrightarrow>
        (\<exists>a. (a \<noteq> [] \<and> counter_match a digits s) \<and> (\<forall>a' digits'. a' \<noteq> [] \<and> counter_match a' digits' s \<longrightarrow> length a \<le> length a'))"
      unfolding step by (rule least_cons)
    ultimately show ?thesis using Cons.IH by simp
  qed
qed

text \<open>the counter read from the event text is the one of the leftmost occurrence that the
  pattern describes: the digits are returned exactly when they belong to a match before which there is no
  other, so an unrelated name that merely ends in \<^verbatim>\<open>nr_rejected\<close>, or digits followed by another
  character, are never taken for the counter.\<close>

theorem event_counter_leftmost:
  "EVENT_COUNTER_RE s = Some digits \<longleftrightarrow>
     (\<exists>a. counter_match a digits s \<and> (\<forall>a' digits'. counter_match a' digits' s \<longrightarrow> length a \<le> length a'))"
proof (cases "nr_rejected_here s")
  case None
  then have none: "\<not> counter_match [] x s" for x by (metis counter_match_Nil nr_rejected_here_iff option.distinct(1))
  have "EVENT_COUNTER_RE s = Some digits \<longleftrightarrow> nr_rejected_later s = Some digits"
    using None by (simp add: EVENT_COUNTER_RE_def)
  then show ?thesis unfolding nr_rejected_later_iff using none by metis
next
  case (Some ds)
  then have here: "counter_match [] x s \<longleftrightarrow> x = ds" for x by (auto simp: counter_match_Nil simp flip: nr_rejected_here_iff)
  have "EVENT_COUNTER_RE s = Some digits \<longleftrightarrow> digits = ds" using Some by (auto simp: EVENT_COUNTER_RE_def)
  then show ?thesis using here by (metis le_zero_eq length_0_conv le0)
qed

theorem event_counter_leftmost_witness:
  "EVENT_COUNTER_RE ''x_nr_rejected=9 nr_rejected : 12 nr_rejected=3'' = Some ''12'' \<and>
   (\<exists>a. counter_match a ''12'' ''x_nr_rejected=9 nr_rejected : 12 nr_rejected=3'')"
proof -
  have "EVENT_COUNTER_RE ''x_nr_rejected=9 nr_rejected : 12 nr_rejected=3'' = Some ''12''" by code_simp
  with event_counter_leftmost[of "''x_nr_rejected=9 nr_rejected : 12 nr_rejected=3''" "''12''"] show ?thesis by blast
qed

section \<open>What acceptance means\<close>

lemma require_ct_ok_iff [ok_iff]: "require_ct c m = Inr u \<longleftrightarrow> c"
  by (simp add: require_ct_def ok_iff)

lemma load_json_ct_ok_iff [ok_iff]:
  "load_json_ct env p = Inr d \<longleftrightarrow> (\<exists>s. fs_read_text env p = Inr s \<and> json_decode env s = Decoded (JObj d))"
  by (auto simp: load_json_ct_def ok_iff obj_of_iff split: option.splits)

lemma safe_path_ct_ok_iff [ok_iff]:
  "safe_path_ct v c = Inr p \<longleftrightarrow> (\<exists>s. v = JStr s \<and> s \<noteq> [] \<and> p = mk_path s \<and> safe_path p)"
  by (auto simp: safe_path_ct_def ok_iff text_of_iff safe_path_def Let_def split: option.splits)

definition explicit_fact :: "json \<Rightarrow> bool" where
  "explicit_fact v \<longleftrightarrow> (\<exists>d s x. v = JObj d \<and> jget d ''status'' = JStr s \<and> jget d ''value'' = JStr x)"

lemma fact_status_ok_iff:
  "fact_status row f c = Inr s \<longleftrightarrow> (\<exists>d x. jget row f = JObj d \<and> jget d ''status'' = JStr s \<and> jget d ''value'' = JStr x)"
  by (auto simp: fact_status_def obj_of_iff str_of_iff split: option.splits)

lemma fact_status_explicit: "(\<exists>s. fact_status row f c = Inr s) \<longleftrightarrow> explicit_fact (jget row f)"
  unfolding fact_status_ok_iff explicit_fact_def by blast

lemma is_unavailable_fact_iff:
  "is_unavailable_fact v \<longleftrightarrow>
     (\<exists>d s x. v = JObj d \<and> jget d ''status'' = JStr s \<and> jget d ''value'' = JStr x \<and>
        s \<in> set UNAVAILABLE_STATUSES_ct \<and> casefold x \<in> set UNAVAILABLE_VALUES_ct)"
  by (auto simp: is_unavailable_fact_def obj_of_iff str_of_iff split: option.splits)

lemma fact_value_ok:
  assumes "jget row f = JObj d" "jget d ''value'' = JStr x"
  shows "fact_value row f = Inr x"
proof -
  have "has_key row f" "has_key d ''value''" using assms by (auto intro: jget_has_key)
  then have "jindex row f = Inr (JObj d)" "jindex d ''value'' = Inr (JStr x)" using assms by (simp_all add: jindex_ok_iff)
  then show ?thesis by (simp add: fact_value_def)
qed

definition metrics_or_unavailable :: "json \<Rightarrow> bool" where
  "metrics_or_unavailable v \<longleftrightarrow> is_obj v \<and> (is_unavailable_fact v \<or> reject_private_leaks_rs v [] = Inr ())"

lemma require_metric_ok_iff:
  "(\<exists>d. require_metric_or_unavailable row f c = Inr d) \<longleftrightarrow> metrics_or_unavailable (jget row f)"
proof (cases "obj_of (jget row f)")
  case None
  then show ?thesis by (cases "jget row f") (simp_all add: require_metric_or_unavailable_def metrics_or_unavailable_def)
next
  case (Some d)
  then have "jget row f = JObj d" by (simp add: obj_of_iff)
  moreover have "reject_private_leaks_rs (JObj d) (msg [c, ''.'', f]) = Inr () \<longleftrightarrow> reject_private_leaks_rs (JObj d) [] = Inr ()"
    by (rule rs_scan.scan_context)
  ultimately show ?thesis
    by (simp add: require_metric_or_unavailable_def metrics_or_unavailable_def if_ok_iff thenE_ok_iff) blast
qed

text \<open>The rejection counter of a row is the one its events print, or both are unavailable.\<close>

definition rejections_agree :: "json_object \<Rightarrow> bool" where
  "rejections_agree row \<longleftrightarrow>
     (\<exists>d s x counter. jget row ''nr_rejected'' = JObj d \<and> jget d ''status'' = JStr s \<and> jget d ''value'' = JStr x \<and>
        events_nr_rejected row = Inr counter \<and>
        (case counter of
           None \<Rightarrow> s \<in> set UNAVAILABLE_STATUSES_ct \<and> casefold x \<in> set UNAVAILABLE_VALUES_ct \<and>
             is_unavailable_fact (jget row ''policy_counters'')
         | Some n \<Rightarrow> s = ''present'' \<and> py_int x = Inr n))"

definition telemetry_row :: "string option \<Rightarrow> json_object \<Rightarrow> bool" where
  "telemetry_row scenario row \<longleftrightarrow>
     (\<forall>f \<in> set REQUIRED_FIELDS. has_key row f) \<and> (\<forall>f \<in> set REQUIRED_FACTS. explicit_fact (jget row f)) \<and>
     (\<forall>f \<in> set REQUIRED_TELEMETRY. metrics_or_unavailable (jget row f)) \<and> rejections_agree row \<and>
     (scenario = Some CGROUP_SCENARIO \<longrightarrow>
        (\<exists>abi. jget row ''policy_abi'' = JObj abi \<and> py_eq (jget abi ''abi_version'') (JInt 3) \<and> jget abi ''abi_label'' = JStr ABI_LABEL))"

lemma rejections_agree_iff:
  "(\<exists>counter s x. events_nr_rejected row = Inr counter \<and> fact_status row ''nr_rejected'' c = Inr s \<and>
      fact_value row ''nr_rejected'' = Inr x \<and>
      (case counter of
         None \<Rightarrow> (s \<in> set UNAVAILABLE_STATUSES_ct \<and> casefold x \<in> set UNAVAILABLE_VALUES_ct) \<and> is_unavailable_fact (jget row ''policy_counters'')
       | Some n \<Rightarrow> (s = ''present'' \<and> isdecimal x) \<and> (\<exists>m. py_int x = Inr m \<and> m = n))) \<longleftrightarrow> rejections_agree row"
  (is "?L \<longleftrightarrow> _")
proof
  assume ?L
  then obtain counter s x d y where "events_nr_rejected row = Inr counter" "jget row ''nr_rejected'' = JObj d"
      "jget d ''status'' = JStr s" "jget d ''value'' = JStr y" "fact_value row ''nr_rejected'' = Inr x"
    and cases: "case counter of
         None \<Rightarrow> (s \<in> set UNAVAILABLE_STATUSES_ct \<and> casefold x \<in> set UNAVAILABLE_VALUES_ct) \<and> is_unavailable_fact (jget row ''policy_counters'')
       | Some n \<Rightarrow> (s = ''present'' \<and> isdecimal x) \<and> (\<exists>m. py_int x = Inr m \<and> m = n)"
    unfolding fact_status_ok_iff by blast
  moreover from this have "x = y" using fact_value_ok by fastforce
  ultimately show "rejections_agree row"
    unfolding rejections_agree_def by (intro exI[of _ d] exI[of _ s] exI[of _ x] exI[of _ counter]) (auto split: option.splits)
next
  assume "rejections_agree row"
  then obtain d s x counter where ok: "jget row ''nr_rejected'' = JObj d" "jget d ''status'' = JStr s" "jget d ''value'' = JStr x"
      "events_nr_rejected row = Inr counter"
    and cases: "case counter of
           None \<Rightarrow> s \<in> set UNAVAILABLE_STATUSES_ct \<and> casefold x \<in> set UNAVAILABLE_VALUES_ct \<and> is_unavailable_fact (jget row ''policy_counters'')
         | Some n \<Rightarrow> s = ''present'' \<and> py_int x = Inr n"
    unfolding rejections_agree_def by blast
  have "fact_value row ''nr_rejected'' = Inr x" using ok by (intro fact_value_ok)
  moreover have "fact_status row ''nr_rejected'' c = Inr s" using ok by (auto simp: fact_status_ok_iff)
  ultimately show ?L using ok cases by (intro exI[of _ counter] exI[of _ s] exI[of _ x]) (auto simp: py_int_ok_iff split: option.splits)
qed

lemma validate_row_ct_ok_iff [ok_iff]: "validate_row_ct row i scenario = Inr u \<longleftrightarrow> telemetry_row scenario row"
proof -
  let ?c = "msg [''sample['', show_nat i, '']'']"
  have "validate_row_ct row i scenario = Inr u \<longleftrightarrow>
      (\<forall>f \<in> set REQUIRED_FIELDS. has_key row f) \<and> (\<forall>f \<in> set REQUIRED_FACTS. explicit_fact (jget row f)) \<and>
      (\<forall>f \<in> set REQUIRED_TELEMETRY. metrics_or_unavailable (jget row f)) \<and>
      (\<exists>counter s x. events_nr_rejected row = Inr counter \<and> fact_status row ''nr_rejected'' ?c = Inr s \<and>
        fact_value row ''nr_rejected'' = Inr x \<and>
        (case counter of
           None \<Rightarrow> (s \<in> set UNAVAILABLE_STATUSES_ct \<and> casefold x \<in> set UNAVAILABLE_VALUES_ct) \<and> is_unavailable_fact (jget row ''policy_counters'')
         | Some n \<Rightarrow> (s = ''present'' \<and> isdecimal x) \<and> (\<exists>m. py_int x = Inr m \<and> m = n)) \<and>
        (scenario = Some CGROUP_SCENARIO \<longrightarrow>
          (\<exists>abi. jget row ''policy_abi'' = JObj abi \<and> py_eq (jget abi ''abi_version'') (JInt 3) \<and> jget abi ''abi_label'' = JStr ABI_LABEL)))"
    unfolding validate_row_ct_def Let_def thenE_ok_iff bindE_ok_iff[of "events_nr_rejected row"] bindE_ok_iff[of "fact_status row x y" for x y]
      bindE_ok_iff[of "fact_value row x" for x] bindE_ok_iff[of "py_int x" for x] bindE_ok_iff[of "require_object_rs x y z" for x y z]
      case_option_ok_iff if_ok_iff forE_ok_iff ignore_result_ok_iff require_ct_ok_iff fact_status_explicit require_metric_ok_iff rs_object.read_ok obj_of_iff
    by simp
  then show ?thesis unfolding telemetry_row_def rejections_agree_iff[of row ?c, symmetric] by blast
qed

definition vm_captured :: "json_object \<Rightarrow> bool" where
  "vm_captured row \<longleftrightarrow>
     (\<exists>s e. jget row ''observation_source'' = JStr s \<and> s \<in> set VM_CAPTURED_OBSERVATION_SOURCES \<and>
        jget row ''sample_source_event'' = JStr e \<and> e \<noteq> [] \<and> \<not> prefix ''matrix-'' e)"

lemma captured_not_harness: "s \<in> set VM_CAPTURED_OBSERVATION_SOURCES \<Longrightarrow> s \<notin> set HARNESS_GENERATED_OBSERVATION_SOURCES"
  by (auto simp: VM_CAPTURED_OBSERVATION_SOURCES_def HARNESS_GENERATED_OBSERVATION_SOURCES_def)

lemma require_vm_captured_row_ok_iff [ok_iff]: "require_vm_captured_row label (i, row) = Inr u \<longleftrightarrow> vm_captured row"
  by (cases "jget row ''observation_source''"; cases "jget row ''sample_source_event''")
    (auto simp: require_vm_captured_row_def vm_captured_def Let_def ok_iff dest: captured_not_harness)

text \<open>C27: the row check accepts exactly the rows of the declarative contract: every required field,
  fact and metric is there, metrics are free of private data unless declared unavailable, the rejection
  counter equals the number printed in the event text when there is one and is unavailable, with the policy
  counters, when there is none, and a cgroup row carries the ABI-v3 metadata.\<close>

theorem telemetry_row_refines: "validate_row_ct row i scenario = Inr () \<longleftrightarrow> telemetry_row scenario row"
  by (rule validate_row_ct_ok_iff)

definition captured_samples :: "env \<Rightarrow> path \<Rightarrow> string option \<Rightarrow> bool" where
  "captured_samples env p scenario \<longleftrightarrow>
     (\<exists>rows. validate_file_rs env p = Inr () \<and> load_jsonl_rs env p = Inr rows \<and> rows \<noteq> [] \<and>
        (\<forall>row \<in> set rows. telemetry_row scenario row \<and> vm_captured row))"

lemma ball_enumerate: "(\<forall>x \<in> set (enumerate_from n xs). P (snd x)) \<longleftrightarrow> (\<forall>x \<in> set xs. P x)"
  by (metis (no_types, lifting) imageE image_eqI list.set_map snd_enumerate_from)

lemma validate_vm_captured_input_ok_iff: "validate_vm_captured_input env p scenario = Inr () \<longleftrightarrow> captured_samples env p scenario"
proof -
  have rows: "(\<forall>x \<in> set (enumerate_from 0 rows). (case x of (i, row) \<Rightarrow> validate_row_ct row i scenario) = Inr ()) \<longleftrightarrow>
      (\<forall>row \<in> set rows. telemetry_row scenario row)" for rows
    unfolding case_prod_beta validate_row_ct_ok_iff by (rule ball_enumerate)
  have captured: "(\<forall>x \<in> set (enumerate_from 0 rows). require_vm_captured_row label x = Inr ()) \<longleftrightarrow>
      (\<forall>row \<in> set rows. vm_captured row)" for rows label
    using ball_enumerate[of 0 rows vm_captured] require_vm_captured_row_ok_iff by fastforce
  show ?thesis
    unfolding validate_vm_captured_input_def captured_samples_def thenE_ok_iff bindE_ok_iff validate_rows_ct_def raise_if_ok_iff
      require_vm_captured_rows_def forE_ok_iff rows captured by blast
qed

text \<open>in a manifest that the telemetry check accepts, every entry that claims to pass and
  whose artifact says it ran live in the VM leads to a file of samples, named by a safe relative path, that
  satisfies the sample contract, has at least one row, and whose rows all satisfy the telemetry contract of
  that scenario and come from the VM, none from the harness.\<close>

theorem telemetry_manifest_captured:
  assumes "validate_manifest_ct env path = Inr ()"
    and "load_json_ct env path = Inr manifest" and "jget manifest ''rows'' = JList entries" and "JObj d \<in> set entries"
    and "jget d ''outcome'' = JStr ''PASS''" and "jget d ''artifact_path'' = JStr a"
    and "load_json_ct env (mk_path a) = Inr row" and "jget row ''evidence_mode'' = JStr ''vm-live''"
  shows "\<exists>sid s. jget d ''scenario_id'' = JStr sid \<and> jget row ''runtime_sample_path'' = JStr s \<and> safe_path (mk_path s) \<and>
    captured_samples env (mk_path s) (Some sid)"
proof -
  have "forE (telemetry_entry env path) (enumerate_from 0 entries) = Inr ()"
    using assms(1-3) by (simp add: validate_manifest_ct_def)
  then have all: "telemetry_entry env path x = Inr ()" if "x \<in> set (enumerate_from 0 entries)" for x
    using that by (simp add: forE_ok_iff)
  obtain i where "(i, JObj d) \<in> set (enumerate_from 0 entries)" using enumerate_from_index[OF assms(4), of 0] by blast
  from all[OF this] assms(5) obtain sid where sid: "jget d ''scenario_id'' = JStr sid"
    and rest: "\<exists>p row. safe_path_ct (jget d ''artifact_path'') (msg [msg [path_str path, ''.rows['', show_nat i, '']''], ''.artifact_path'']) = Inr p \<and>
      load_json_ct env p = Inr row \<and>
      (jget row ''evidence_mode'' \<noteq> JStr ''vm-live'' \<or>
        (\<exists>q. safe_path_ct (jget row ''runtime_sample_path'') (msg [msg [path_str path, ''.rows['', show_nat i, '']''], ''.runtime_sample_path'']) = Inr q \<and>
           validate_vm_captured_input env q (Some sid) = Inr ()))"
    by (auto simp: telemetry_entry_def Let_def bindE_ok_iff if_ok_iff text_of_iff split: option.splits if_splits)
  from rest obtain p row' where p: "p = mk_path a" "load_json_ct env p = Inr row'"
    and live: "jget row' ''evidence_mode'' \<noteq> JStr ''vm-live'' \<or>
        (\<exists>q s. jget row' ''runtime_sample_path'' = JStr s \<and> q = mk_path s \<and> safe_path q \<and> validate_vm_captured_input env q (Some sid) = Inr ())"
    unfolding safe_path_ct_ok_iff using assms(6) by auto
  from p assms(7) have "row' = row" by simp
  with live assms(8) sid show ?thesis by (auto simp: validate_vm_captured_input_ok_iff)
qed

section \<open>An accepted manifest\<close>

definition captured_sample :: json_object where
  "captured_sample = map (\<lambda>(k, v). (k, if k = ''observation_source'' then JStr ''vm_guest_sched_ext'' else v)) good_sample"

abbreviation telemetry_ref :: json_object where
  "telemetry_ref \<equiv> [(''scenario_id'', JStr CGROUP_SCENARIO), (''outcome'', JStr ''PASS''), (''artifact_path'', JStr ''run/row/matrix-run.json'')]"

definition telemetry_env :: env where
  "telemetry_env = files_env [(''run/manifest.json'', ''M''), (''run/row/matrix-run.json'', ''R''), (''run/row/samples.jsonl'', ''S'')] []
     [(''M'', JObj [(''rows'', JList [JObj telemetry_ref])]),
      (''R'', JObj [(''evidence_mode'', JStr ''vm-live''), (''runtime_sample_path'', JStr ''run/row/samples.jsonl'')]),
      (''S'', JObj captured_sample)]"

lemma captured_sample_valid: "validate_sample captured_sample 0 = Inr ()"
  by code_simp

lemma captured_sample_sequence: "validate_sched_ext_sequence [captured_sample] = Inr ()"
  by code_simp

lemma captured_sample_telemetry: "validate_row_ct captured_sample 0 (Some CGROUP_SCENARIO) = Inr ()"
  by code_simp

lemma captured_sample_captured: "vm_captured captured_sample"
proof -
  have "require_vm_captured_row [] (0, captured_sample) = Inr ()" by code_simp
  then show ?thesis by (simp only: require_vm_captured_row_ok_iff)
qed

lemma one_sample_captured:
  assumes "load_jsonl_rs env p = Inr [captured_sample]"
  shows "validate_vm_captured_input env p (Some CGROUP_SCENARIO) = Inr ()"
  unfolding validate_vm_captured_input_ok_iff captured_samples_def validate_file_rs_def
  using assms captured_sample_valid captured_sample_sequence captured_sample_telemetry captured_sample_captured
  by (simp add: validate_row_ct_ok_iff)

lemma telemetry_env_docs:
  "load_json_ct telemetry_env (mk_path ''run/manifest.json'') = Inr [(''rows'', JList [JObj telemetry_ref])]"
  "load_json_ct telemetry_env (mk_path ''run/row/matrix-run.json'') =
     Inr [(''evidence_mode'', JStr ''vm-live''), (''runtime_sample_path'', JStr ''run/row/samples.jsonl'')]"
  "load_jsonl_rs telemetry_env (mk_path ''run/row/samples.jsonl'') = Inr [captured_sample]"
  "safe_path (mk_path ''run/row/matrix-run.json'')" "safe_path (mk_path ''run/row/samples.jsonl'')"
  by code_simp+

lemma telemetry_env_accepted: "validate_manifest_ct telemetry_env (mk_path ''run/manifest.json'') = Inr ()"
  using one_sample_captured[OF telemetry_env_docs(3)] telemetry_env_docs(4,5)
  by (simp add: validate_manifest_ct_def telemetry_env_docs jget_def telemetry_entry_def Let_def safe_path_ct_def safe_path_def
      require_ct_def raise_if_def CGROUP_SCENARIO_def)

theorem telemetry_manifest_captured_witness:
  "validate_manifest_ct telemetry_env (mk_path ''run/manifest.json'') = Inr () \<and>
   captured_samples telemetry_env (mk_path ''run/row/samples.jsonl'') (Some CGROUP_SCENARIO)"
  using telemetry_manifest_captured[OF telemetry_env_accepted telemetry_env_docs(1),
      of "[JObj telemetry_ref]" telemetry_ref "''run/row/matrix-run.json''", OF _ _ _ _ telemetry_env_docs(2)]
    telemetry_env_accepted
  by (simp add: jget_def)

section \<open>Which exceptions escape\<close>

lemma raises_ct [raises_intro]:
  "(\<And>m. P (ProtectedCoreTelemetryError m)) \<Longrightarrow> raises P (require_ct b t)"
  "(\<And>m. P (ProtectedCoreTelemetryError m)) \<Longrightarrow> raises P (fact_status row f c)"
  "(\<And>m. P (ProtectedCoreTelemetryError m)) \<Longrightarrow> raises P (safe_path_ct v c)"
  by (auto simp: raises_def require_ct_def raise_if_def fact_status_def safe_path_ct_def Let_def err_iff split: option.splits if_splits)

lemma raises_fact_value_ct: "fact_status row f c = Inr s \<Longrightarrow> raises P (fact_value row f)"
  by (auto simp: fact_status_ok_iff fact_value_ok raises_Inr)

lemma raises_events_nr_rejected [raises_intro]: "(\<And>m. P (ValueError m)) \<Longrightarrow> raises P (events_nr_rejected row)"
  unfolding events_nr_rejected_def by (intro raises_intro raises_py_int)

lemma raises_validate_row_ct:
  assumes "\<And>m. P (ProtectedCoreTelemetryError m)" "\<And>m. P (RuntimeSampleError m)" "\<And>m. P (ValueError m)"
  shows "raises P (validate_row_ct row i scenario)"
  unfolding validate_row_ct_def Let_def require_metric_or_unavailable_def
  by (intro raises_intro assms raises_py_int) (erule raises_fact_value_ct)

lemma raises_in_str_set_ct: "(\<And>m. P (TypeError m)) \<Longrightarrow> raises P (in_str_set v S)"
  by (cases v) (auto intro: raises_intro)

lemma raises_require_vm_captured_rows:
  assumes "\<And>m. P (ProtectedCoreTelemetryError m)" "\<And>m. P (TypeError m)"
  shows "raises P (require_vm_captured_rows rows label)"
  unfolding require_vm_captured_rows_def require_vm_captured_row_def Let_def
  by (intro raises_intro assms raises_in_str_set_ct)

abbreviation telemetry_error :: "exn \<Rightarrow> bool" where
  "telemetry_error e \<equiv> is_ProtectedCoreTelemetryError e \<or> is_RuntimeSampleError e \<or> io_error e \<or> is_ValueError e \<or> is_TypeError e"

lemma validate_vm_captured_input_raises: "io_env env \<Longrightarrow> raises telemetry_error (validate_vm_captured_input env p scenario)"
  unfolding validate_vm_captured_input_def validate_rows_ct_def
  by (intro raises_intro raises_validate_row_ct raises_require_vm_captured_rows raises_weaken[OF validate_file_rs_raises]
      raises_weaken[OF raises_load_jsonl_rs]) auto

lemma load_json_ct_raises: "io_env env \<Longrightarrow> raises telemetry_error (load_json_ct env p)"
  unfolding load_json_ct_def by (intro raises_intro io_env_read) (auto simp: is_os_error_def)

lemma validate_manifest_ct_raises: "io_env env \<Longrightarrow> raises telemetry_error (validate_manifest_ct env p)"
  unfolding validate_manifest_ct_def telemetry_entry_def Let_def
  by (intro raises_intro load_json_ct_raises validate_vm_captured_input_raises) auto

text \<open>The sample contract does not look at the observation source, and the telemetry check
  tests it for membership in a set before it knows that it is text. Samples that are otherwise fine but whose
  first source is a list end the check in a \<^verbatim>\<open>TypeError\<close>, which the script does not turn into its
  failure line.\<close>

theorem unhashable_source_escapes:
  assumes "validate_file_rs env p = Inr ()" and "load_jsonl_rs env p = Inr (row # rows)"
    and "validate_rows_ct (row # rows) scenario (path_str p) = Inr ()" and "jget row ''observation_source'' = JList xs"
  shows "validate_vm_captured_input env p scenario = Inl (TypeError ''unhashable type: list'')"
  using assms by (simp add: validate_vm_captured_input_def require_vm_captured_rows_def require_vm_captured_row_def Let_def)

definition listed_sample :: json_object where
  "listed_sample = map (\<lambda>(k, v). (k, if k = ''observation_source'' then JList [] else v)) good_sample"

definition listed_env :: env where
  "listed_env = files_env [(''s.jsonl'', ''S'')] [] [(''S'', JObj listed_sample)]"

lemma listed_env_rows: "load_jsonl_rs listed_env (mk_path ''s.jsonl'') = Inr [listed_sample]"
  by code_simp

lemma listed_env_valid: "validate_file_rs listed_env (mk_path ''s.jsonl'') = Inr ()"
  by code_simp

lemma listed_env_telemetry: "validate_rows_ct [listed_sample] None (path_str (mk_path ''s.jsonl'')) = Inr ()"
  by code_simp

theorem unhashable_source_escapes_witness:
  "validate_vm_captured_input listed_env (mk_path ''s.jsonl'') None = Inl (TypeError ''unhashable type: list'')"
  using unhashable_source_escapes[OF listed_env_valid listed_env_rows listed_env_telemetry, of "[]"]
  by (simp add: listed_sample_def good_sample_def Let_def jget_def)

text \<open>Where file access fails only as documented, checking a manifest can only end in the
  module's own exception, the sample contract's, an I/O error, the \<^verbatim>\<open>ValueError\<close> of an over-long
  decimal or the \<^verbatim>\<open>TypeError\<close> of an unhashable source; looking up the value of a fact never fails.\<close>

lemma telemetry_manifest_errors:
  assumes "io_env env" and "validate_manifest_ct env path = Inl e"
  shows "is_ProtectedCoreTelemetryError e \<or> is_RuntimeSampleError e \<or> io_error e \<or> is_ValueError e \<or> is_TypeError e"
  using validate_manifest_ct_raises[OF assms(1)] assms(2) by (rule raisesD)

end
