(* ===== verification/ProtectedCoreSuite.thy ===== *)
theory ProtectedCoreSuite
  imports ProtectedCoreTelemetry MatrixRunJson
begin

text \<open>
  \<^verbatim>\<open>qa/protected_core_suite_check.py\<close>: the suite of matrix rows behind a protected-core claim. The
  manifest has exactly the three protected scenarios and one latency scenario, each passes, each row keeps its
  artifacts in its own directory and rests on samples captured in the VM, and the cgroup row shows callback
  evidence. The manifest and the rows are read with the loader of \<^verbatim>\<open>matrix_run_json.py\<close>.
\<close>

section \<open>Model\<close>

definition PROTECTED_REQUIRED_ROWS :: "string list" where
  "PROTECTED_REQUIRED_ROWS = [''live-backend'', ''workload-cpu-saturation'', ''workload-cgroup-weight-quota'']"

definition LATENCY_ROWS :: "string list" where
  "LATENCY_ROWS = [''workload-interactive-latency'', ''workload-scheduler-affinity-churn'']"

definition ROW_LOCAL_FIELDS :: "string list" where
  "ROW_LOCAL_FIELDS = [''runtime_sample_path'', ''incident_path'', ''rollback_proof_path'', ''cleanup_proof_path'', ''host_refusal_proof_path'']"

definition ABI_V3_LABEL :: string where
  "ABI_V3_LABEL = ''zigsched-bpf-abi-v3''"

definition REQUIRED_CALLBACK_STATS :: "string list" where
  "REQUIRED_CALLBACK_STATS =
     [''cgroup_init_calls'', ''cgroup_exit_calls'', ''cgroup_move_calls'', ''cgroup_set_weight_calls'', ''cgroup_weight_observed'']"

definition require_cs :: "bool \<Rightarrow> string \<Rightarrow> check" where
  "require_cs condition message = raise_if (\<not> condition) (ProtectedCoreSuiteError message)"

definition text_cs :: "json \<Rightarrow> string \<Rightarrow> string result" where
  "text_cs v context =
     (case text_of v of
        None \<Rightarrow> Inl (ProtectedCoreSuiteError (msg [context, '' must be non-empty text'']))
      | Some s \<Rightarrow> Inr s)"

definition obj_cs :: "json \<Rightarrow> string \<Rightarrow> json_object result" where
  "obj_cs v context =
     (case obj_of v of
        None \<Rightarrow> Inl (ProtectedCoreSuiteError (msg [context, '' must be an object'']))
      | Some d \<Rightarrow> Inr d)"

definition safe_path_cs :: "json \<Rightarrow> string \<Rightarrow> path result" where
  "safe_path_cs v context =
     (bindE (text_cs v context) (\<lambda>raw.
     (let path = mk_path raw in
     thenE (require_cs (\<not> is_absolute path \<and> ''..'' \<notin> set (path_parts path)) (msg [context, '' must be relative and non-traversing: '', raw])) (
     Inr path))))"

definition require_descendant_cs :: "path \<Rightarrow> path \<Rightarrow> string \<Rightarrow> check" where
  "require_descendant_cs path base context =
     require_cs (path = base \<or> take (length (path_parts base)) (path_parts path) = path_parts base)
       (msg [context, '' must stay under '', path_str base, '': '', path_str path])"

definition manifest_rows :: "json_object \<Rightarrow> string \<Rightarrow> json_object list result" where
  "manifest_rows manifest context =
     (case list_of (jget manifest ''rows'') of
        None \<Rightarrow> Inl (ProtectedCoreSuiteError (msg [context, ''.rows must be a list'']))
      | Some rows \<Rightarrow> mapE (\<lambda>(index, row). obj_cs row (msg [context, ''.rows['', show_nat index, '']''])) (enumerate_from 0 rows))"

text \<open>One round of the first loop of \<^verbatim>\<open>validate_suite_shape\<close>; the dict is in insertion order.\<close>

definition suite_step :: "string \<Rightarrow> (string \<times> json_object) list \<Rightarrow> nat \<times> json_object \<Rightarrow> (string \<times> json_object) list result" where
  "suite_step context by_scenario = (\<lambda>(index, row_ref).
     (bindE (text_cs (jget row_ref ''scenario_id'') (msg [context, ''.rows['', show_nat index, ''].scenario_id''])) (\<lambda>scenario.
     thenE (require_cs (scenario \<notin> set (map fst by_scenario)) (msg [context, '' duplicate scenario: '', scenario])) (
     Inr (by_scenario @ [(scenario, row_ref)])))))"

definition lookup_scenario :: "(string \<times> json_object) list \<Rightarrow> string \<Rightarrow> json_object result" where
  "lookup_scenario by_scenario scenario =
     (case map_of by_scenario scenario of None \<Rightarrow> Inl (KeyError scenario) | Some d \<Rightarrow> Inr d)"

definition validate_suite_shape :: "json_object list \<Rightarrow> string \<Rightarrow> (string \<times> json_object) list result" where
  "validate_suite_shape rows context =
     (bindE (foldE (suite_step context) [] (enumerate_from 0 rows)) (\<lambda>by_scenario.
     (let scenarios = map fst by_scenario in
     (let missing = sorted_diff PROTECTED_REQUIRED_ROWS scenarios in
     thenE (require_cs (missing = []) (msg [context, '' missing protected-core row(s): '', join '', '' missing])) (
     (let selected_latency = sorted_set (filter (\<lambda>s. s \<in> set LATENCY_ROWS) scenarios) in
     thenE (require_cs (length selected_latency = 1)
         (msg [context, '' requires exactly one latency/churn row, found '', show_nat (length selected_latency)])) (
     (let expected = PROTECTED_REQUIRED_ROWS @ [hd selected_latency] in
     (let extra = sorted_diff scenarios expected in
     thenE (require_cs (extra = []) (msg [context, '' has non-protected-core row(s): '', join '', '' extra])) (
     thenE (forE (\<lambda>scenario.
         (bindE (lookup_scenario by_scenario scenario) (\<lambda>d.
         bindE (text_cs (jget d ''outcome'') (msg [context, ''.'', scenario, ''.outcome''])) (\<lambda>outcome.
         require_cs (outcome = ''PASS'') (msg [context, ''.'', scenario, '' must PASS for protected-core PASS proof''])))))
         (sorted_set expected)) (
     Inr by_scenario)))))))))))"

definition validate_row_local_artifacts :: "json_object \<Rightarrow> path \<Rightarrow> path \<Rightarrow> string \<Rightarrow> check" where
  "validate_row_local_artifacts row row_path run_root context =
     (let row_dir = path_parent row_path in
      (thenE (forE (\<lambda>field.
          (bindE (safe_path_cs (jget row field) (msg [context, ''.'', field])) (\<lambda>artifact.
          require_descendant_cs artifact row_dir (msg [context, ''.'', field])))) ROW_LOCAL_FIELDS) (
      bindE (obj_cs (jget row ''workload'') (msg [context, ''.workload''])) (\<lambda>workload.
      bindE (obj_cs (jget row ''policy'') (msg [context, ''.policy''])) (\<lambda>policy.
      bindE (obj_cs (jget row ''privacy_scan'') (msg [context, ''.privacy_scan''])) (\<lambda>privacy.
      bindE (safe_path_cs (jget workload ''spec_path'') (msg [context, ''.workload.spec_path''])) (\<lambda>spec_path.
      bindE (safe_path_cs (jget policy ''object_path'') (msg [context, ''.policy.object_path''])) (\<lambda>object_path.
      bindE (safe_path_cs (jget privacy ''report_path'') (msg [context, ''.privacy_scan.report_path''])) (\<lambda>report_path.
      thenE (forE (\<lambda>(path, label). require_descendant_cs path row_dir (msg [context, ''.'', label]))
          [(spec_path, ''workload.spec_path''), (object_path, ''policy.object_path''), (report_path, ''privacy_scan.report_path'')]) (
      bindE (safe_path_cs (jget row ''daemon_event_path'') (msg [context, ''.daemon_event_path''])) (\<lambda>daemon.
      require_descendant_cs daemon run_root (msg [context, ''.daemon_event_path'']))))))))))))"

definition nonnegative_int :: "json \<Rightarrow> string \<Rightarrow> int result" where
  "nonnegative_int v context =
     (case int_of v of
        None \<Rightarrow> Inl (ProtectedCoreSuiteError (msg [context, '' must be a nonnegative integer'']))
      | Some n \<Rightarrow> if n < 0 then Inl (ProtectedCoreSuiteError (msg [context, '' must be a nonnegative integer''])) else Inr n)"

definition string_list :: "json \<Rightarrow> string \<Rightarrow> string list result" where
  "string_list v context =
     (case list_of v of
        None \<Rightarrow> Inl (ProtectedCoreSuiteError (msg [context, '' must be a string list'']))
      | Some items \<Rightarrow>
          mapE (\<lambda>item. case text_of item of
              None \<Rightarrow> Inl (ProtectedCoreSuiteError (msg [context, '' must be a string list'']))
            | Some s \<Rightarrow> Inr s) items)"

definition require_positive :: "json_object \<Rightarrow> string \<Rightarrow> string \<Rightarrow> string \<Rightarrow> check" where
  "require_positive d field context message =
     (bindE (nonnegative_int (jget d field) (msg [context, ''.'', field])) (\<lambda>n.
     require_cs (n > 0) message))"

definition validate_present_cgroup_evidence :: "json_object \<Rightarrow> string \<Rightarrow> bool result" where
  "validate_present_cgroup_evidence policy_abi context =
     (bindE (obj_cs (jget policy_abi ''cgroup_policy_map'') (msg [context, ''.cgroup_policy_map''])) (\<lambda>policy_map.
     bindE (obj_cs (jget policy_abi ''cgroup_callback_stats'') (msg [context, ''.cgroup_callback_stats''])) (\<lambda>stats.
     bindE (obj_cs (jget policy_abi ''dsq_counter_coherence'') (msg [context, ''.dsq_counter_coherence''])) (\<lambda>coherence.
     if jget policy_map ''status'' \<noteq> JStr ''present'' \<or> jget stats ''status'' \<noteq> JStr ''present'' \<or> jget coherence ''status'' \<noteq> JStr ''present''
         then Inr False
         else
         (let map_context = (msg [context, ''.cgroup_policy_map'']); stats_context = (msg [context, ''.cgroup_callback_stats'']) in
         (thenE (require_cs (jget policy_map ''map_name'' = JStr ''zigsched_cgroup_policy'')
         (msg [context, ''.cgroup_policy_map.map_name must be zigsched_cgroup_policy''])) (
         bindE (string_list (jget policy_map ''callback_observed_knobs'') (msg [map_context, ''.callback_observed_knobs''])) (\<lambda>observed.
         thenE (require_cs (''cpu.weight'' \<in> set observed) (msg [context, '' missing cpu.weight callback-observed map evidence''])) (
         bindE (string_list (jget policy_map ''deferred_knobs'') (msg [map_context, ''.deferred_knobs''])) (\<lambda>deferred.
         thenE (require_cs (''cpu.max'' \<in> set deferred) (msg [context, '' must keep cpu.max deferred in policy map''])) (
         bindE (string_list (jget policy_map ''deferred_knobs'') (msg [map_context, ''.deferred_knobs''])) (\<lambda>deferred'.
         thenE (require_cs (''uclamp'' \<in> set deferred') (msg [context, '' must keep uclamp deferred in policy map''])) (
         thenE (require_positive policy_map ''last_weight'' map_context (msg [context, '' requires observed cpu.weight value''])) (
         thenE (require_positive policy_map ''weight_generation'' map_context (msg [context, '' requires cpu.weight generation evidence''])) (
         bindE (nonnegative_int (jget policy_map ''move_generation'') (msg [map_context, ''.move_generation''])) (\<lambda>move_generation.
         thenE (forE (\<lambda>field. bindE (nonnegative_int (jget stats field) (msg [stats_context, ''.'', field])) (\<lambda>_. Inr ())) REQUIRED_CALLBACK_STATS) (
         thenE (require_positive stats ''cgroup_init_calls'' stats_context (msg [context, '' requires cgroup init callback evidence''])) (
         bindE (nonnegative_int (jget stats ''cgroup_move_calls'') (msg [stats_context, ''.cgroup_move_calls''])) (\<lambda>move_calls.
         thenE (if move_calls > 0 then
         require_cs (move_generation > 0) (msg [context, '' requires cgroup move generation evidence when move callbacks fire''])
         else Inr ()) (
         thenE (require_positive stats ''cgroup_set_weight_calls'' stats_context (msg [context, '' requires cgroup set-weight callback evidence''])) (
         thenE (require_positive stats ''cgroup_weight_observed'' stats_context (msg [context, '' requires observed cpu.weight callback counter''])) (
         thenE (require_cs (jget stats ''cpu_weight_callback_observed'' = JBool True)
         (msg [context, ''.cgroup_callback_stats.cpu_weight_callback_observed must be true''])) (
         thenE (forE (\<lambda>field. require_cs (jget coherence field = JBool True) (msg [context, ''.dsq_counter_coherence.'', field, '' must be true'']))
         [''fifo_insert_dispatch_coherent'', ''vtime_insert_dispatch_coherent'', ''dispatch_empty_accounted'']) (
         Inr True))))))))))))))))))))))))"

definition validate_vm_live_runtime_linkage :: "env \<Rightarrow> json_object \<Rightarrow> path \<Rightarrow> string \<Rightarrow> string \<Rightarrow> check" where
  "validate_vm_live_runtime_linkage env row row_path scenario context =
     (bindE (text_cs (jget row ''evidence_mode'') (msg [context, ''.evidence_mode''])) (\<lambda>mode.
     thenE (require_cs (mode = ''vm-live'') (msg [context, '' protected-core PASS requires vm-live evidence mode''])) (
     bindE (obj_cs (jget row ''vm_marker'') (msg [context, ''.vm_marker''])) (\<lambda>marker.
     thenE (require_cs (jget marker ''required'' = JBool True \<and> jget marker ''present'' = JBool True)
         (msg [context, ''.vm_marker must prove a present required VM marker for PASS''])) (
     bindE (safe_path_cs (jget row ''runtime_sample_path'') (msg [context, ''.runtime_sample_path''])) (\<lambda>sample_path.
     thenE (require_descendant_cs sample_path (path_parent row_path) (msg [context, ''.runtime_sample_path''])) (
     validate_vm_captured_input env sample_path (Some scenario))))))))"

text \<open>The body of the loop of \<^verbatim>\<open>validate_cgroup_abi_linkage\<close>, over the two flags.\<close>

definition cgroup_abi_step :: "string \<Rightarrow> bool \<times> bool \<Rightarrow> nat \<times> json_object \<Rightarrow> (bool \<times> bool) result" where
  "cgroup_abi_step context = (\<lambda>(has_v3, has_present) (index, sample).
     case obj_of (jget sample ''policy_abi'') of
       None \<Rightarrow> Inr (has_v3, has_present)
     | Some policy_abi \<Rightarrow>
         if py_eq (jget policy_abi ''abi_version'') (JInt 3) then
           let sample_context = (msg [context, ''.runtime_sample['', show_nat index, ''].policy_abi'']) in
           (thenE (require_cs (jget policy_abi ''abi_label'' = JStr ABI_V3_LABEL) (msg [sample_context, ''.abi_label must be '', ABI_V3_LABEL])) (
             bindE (obj_cs (jget policy_abi ''cgroup_semantics'') (msg [sample_context, ''.cgroup_semantics''])) (\<lambda>semantics.
             thenE (require_cs (jget semantics ''cpu.weight'' = JStr ''callback-observed'') (msg [context, '' missing cpu.weight callback observation''])) (
             thenE (require_cs (jget semantics ''cpu.max'' = JStr ''deferred'') (msg [context, '' must keep cpu.max deferred/observe-only''])) (
             thenE (require_cs (jget semantics ''uclamp'' = JStr ''deferred'') (msg [context, '' must keep uclamp deferred/observe-only''])) (
             bindE (validate_present_cgroup_evidence policy_abi sample_context) (\<lambda>present_now.
             Inr (True, present_now \<or> has_present))))))))
         else Inr (has_v3, has_present))"

definition validate_cgroup_abi_linkage :: "env \<Rightarrow> json_object \<Rightarrow> string \<Rightarrow> check" where
  "validate_cgroup_abi_linkage env row context =
     (bindE (safe_path_cs (jget row ''runtime_sample_path'') (msg [context, ''.runtime_sample_path''])) (\<lambda>sample_path.
     bindE (load_jsonl_rs env sample_path) (\<lambda>samples.
     bindE (foldE (cgroup_abi_step context) (False, False) (enumerate_from 0 samples)) (\<lambda>flags.
     thenE (require_cs (fst flags) (msg [context, '' requires ABI-v3 cgroup runtime sample evidence''])) (
     require_cs (snd flags) (msg [context, '' requires present cgroup policy map/callback/DSQ evidence'']))))))"

definition validate_suite_row :: "env \<Rightarrow> path \<Rightarrow> path \<Rightarrow> string \<times> json_object \<Rightarrow> check" where
  "validate_suite_row env path run_root = (\<lambda>(scenario, row_ref).
     (bindE (safe_path_cs (jget row_ref ''artifact_path'') (msg [path_str path, ''.'', scenario, ''.artifact_path''])) (\<lambda>artifact_path.
     thenE (require_descendant_cs artifact_path run_root (msg [path_str path, ''.'', scenario, ''.artifact_path''])) (
     bindE (load_json_mr env artifact_path) (\<lambda>row.
     thenE (validate_row_local_artifacts row artifact_path run_root (path_str artifact_path)) (
     thenE (validate_vm_live_runtime_linkage env row artifact_path scenario (path_str artifact_path)) (
     if scenario = ''workload-cgroup-weight-quota'' then validate_cgroup_abi_linkage env row (path_str artifact_path)
         else Inr ())))))))"

definition validate_manifest_cs :: "env \<Rightarrow> path \<Rightarrow> check" where
  "validate_manifest_cs env path =
     (bindE (load_json_mr env path) (\<lambda>manifest.
     (let run_root = path_parent path in
     bindE (manifest_rows manifest (path_str path)) (\<lambda>rows.
     bindE (validate_suite_shape rows (path_str path)) (\<lambda>by_scenario.
     forE (validate_suite_row env path run_root) by_scenario)))))"

definition main_cs :: "check \<Rightarrow> env \<Rightarrow> string list \<Rightarrow> (string \<times> int) result" where
  "main_cs self_test env argv =
     (case (if argv = [''--self-test''] then thenE self_test (Inr [])
            else if length argv = 2 \<and> argv ! 0 = ''--manifest'' then
              thenE (validate_manifest_cs env (mk_path (argv ! 1))) (Inr (msg [''PASS protected-core suite: '', argv ! 1]))
            else Inl (ProtectedCoreSuiteError ''usage: protected_core_suite_check.py --self-test | --manifest <path>'')) of
        Inr line \<Rightarrow> Inr (line, 0)
      | Inl e \<Rightarrow>
          if is_os_error e \<or> is_RuntimeSampleError e \<or> is_ProtectedCoreSuiteError e \<or> is_ProtectedCoreTelemetryError e
          then Inr ((msg [''FAIL protected-core suite: '', exn_str e]), 1) else Inl e)"

section \<open>What acceptance means\<close>

lemma require_cs_ok_iff [ok_iff]: "require_cs c m = Inr u \<longleftrightarrow> c"
  by (simp add: require_cs_def ok_iff)

interpretation cs_text: value_reader text_cs text_of ProtectedCoreSuiteError
  by unfold_locales (auto simp: text_cs_def split: option.splits)

interpretation cs_obj: value_reader obj_cs obj_of ProtectedCoreSuiteError
  by unfold_locales (auto simp: obj_cs_def split: option.splits)

lemma safe_path_cs_ok_iff [ok_iff]:
  "safe_path_cs v c = Inr p \<longleftrightarrow> (\<exists>s. v = JStr s \<and> s \<noteq> [] \<and> p = mk_path s \<and> safe_path p)"
  by (auto simp: safe_path_cs_def ok_iff text_of_iff safe_path_def Let_def)

lemma require_descendant_cs_ok_iff [ok_iff]:
  "require_descendant_cs p base c = Inr u \<longleftrightarrow> prefix (path_parts base) (path_parts p)"
  by (auto simp: require_descendant_cs_def require_cs_ok_iff) (metis take_is_prefix, auto simp: prefix_def)

text \<open>The field names, by a safe path, something below a directory.\<close>

definition names_below :: "path \<Rightarrow> json \<Rightarrow> bool" where
  "names_below base v \<longleftrightarrow>
     (\<exists>s. v = JStr s \<and> s \<noteq> [] \<and> safe_path (mk_path s) \<and> prefix (path_parts base) (path_parts (mk_path s)))"

lemma names_below_iff: "(\<exists>p. safe_path_cs v c = Inr p \<and> require_descendant_cs p base c' = Inr u) \<longleftrightarrow> names_below base v"
  unfolding safe_path_cs_ok_iff require_descendant_cs_ok_iff names_below_def by blast

lemma nonnegative_int_ok_iff [ok_iff]: "nonnegative_int v c = Inr n \<longleftrightarrow> int_of v = Some n \<and> 0 \<le> n"
  by (auto simp: nonnegative_int_def split: option.splits)

definition positive :: "json \<Rightarrow> bool" where
  "positive v \<longleftrightarrow> (\<exists>n. int_of v = Some n \<and> 0 < n)"

lemma require_positive_ok_iff [ok_iff]: "require_positive d f c m = Inr u \<longleftrightarrow> positive (jget d f)"
  by (auto simp: require_positive_def ok_iff positive_def)

lemma string_list_ok: "string_list v c = Inr ts \<Longrightarrow> v = JList (map JStr ts)"
proof -
  have "list_all2 (\<lambda>x y. (case text_of x of None \<Rightarrow> Inl e | Some s \<Rightarrow> Inr s) = (Inr y :: string result)) xs ts \<Longrightarrow> xs = map JStr ts" for xs e
    by (induction rule: list_all2_induct) (auto simp: text_of_iff split: option.splits)
  then show "string_list v c = Inr ts \<Longrightarrow> v = JList (map JStr ts)"
    by (auto simp: string_list_def list_of_iff mapE_ok_iff split: option.splits)
qed

definition lists_text :: "string \<Rightarrow> json \<Rightarrow> bool" where
  "lists_text s v \<longleftrightarrow> (\<exists>ts. v = JList (map JStr ts) \<and> s \<in> set ts)"

text \<open>Callback evidence of a sample: the policy map, the callback statistics and the queue counters are present, the
  weight was observed and the deferred knobs stay deferred.\<close>

definition callback_evidence :: "json_object \<Rightarrow> bool" where
  "callback_evidence abi \<longleftrightarrow>
     (\<exists>pmap stats coherence. jget abi ''cgroup_policy_map'' = JObj pmap \<and> jget abi ''cgroup_callback_stats'' = JObj stats \<and>
        jget abi ''dsq_counter_coherence'' = JObj coherence \<and>
        jget pmap ''status'' = JStr ''present'' \<and> jget stats ''status'' = JStr ''present'' \<and> jget coherence ''status'' = JStr ''present'' \<and>
        lists_text ''cpu.weight'' (jget pmap ''callback_observed_knobs'') \<and>
        lists_text ''cpu.max'' (jget pmap ''deferred_knobs'') \<and> lists_text ''uclamp'' (jget pmap ''deferred_knobs'') \<and>
        positive (jget pmap ''last_weight'') \<and> positive (jget pmap ''weight_generation'') \<and>
        (positive (jget stats ''cgroup_move_calls'') \<longrightarrow> positive (jget pmap ''move_generation'')) \<and>
        (\<forall>f \<in> {''cgroup_init_calls'', ''cgroup_set_weight_calls'', ''cgroup_weight_observed''}. positive (jget stats f)) \<and>
        jget stats ''cpu_weight_callback_observed'' = JBool True \<and>
        (\<forall>f \<in> {''fifo_insert_dispatch_coherent'', ''vtime_insert_dispatch_coherent'', ''dispatch_empty_accounted''}. jget coherence f = JBool True))"

lemma unless_ok_iff: "(if c then Inr False else m) = Inr True \<longleftrightarrow> \<not> c \<and> m = Inr True"
  by simp

lemma validate_present_cgroup_evidence_ok:
  assumes "validate_present_cgroup_evidence abi c = Inr True"
  shows "callback_evidence abi"
proof -
  obtain pmap stats coherence observed deferred deferred' move_generation move_calls where
    docs: "jget abi ''cgroup_policy_map'' = JObj pmap" "jget abi ''cgroup_callback_stats'' = JObj stats"
      "jget abi ''dsq_counter_coherence'' = JObj coherence"
    and status: "\<not> (jget pmap ''status'' \<noteq> JStr ''present'' \<or> jget stats ''status'' \<noteq> JStr ''present'' \<or> jget coherence ''status'' \<noteq> JStr ''present'')"
    and observed: "string_list (jget pmap ''callback_observed_knobs'') (msg [msg [c, ''.cgroup_policy_map''], ''.callback_observed_knobs'']) = Inr observed"
      "''cpu.weight'' \<in> set observed"
    and deferred: "string_list (jget pmap ''deferred_knobs'') (msg [msg [c, ''.cgroup_policy_map''], ''.deferred_knobs'']) = Inr deferred"
      "''cpu.max'' \<in> set deferred"
      "string_list (jget pmap ''deferred_knobs'') (msg [msg [c, ''.cgroup_policy_map''], ''.deferred_knobs'']) = Inr deferred'" "''uclamp'' \<in> set deferred'"
    and weights: "positive (jget pmap ''last_weight'')" "positive (jget pmap ''weight_generation'')"
      "positive (jget stats ''cgroup_init_calls'')" "positive (jget stats ''cgroup_set_weight_calls'')" "positive (jget stats ''cgroup_weight_observed'')"
    and moves: "int_of (jget pmap ''move_generation'') = Some move_generation" "int_of (jget stats ''cgroup_move_calls'') = Some move_calls"
      "0 < move_calls \<longrightarrow> 0 < move_generation"
    and flags: "jget stats ''cpu_weight_callback_observed'' = JBool True"
      "\<forall>f \<in> set [''fifo_insert_dispatch_coherent'', ''vtime_insert_dispatch_coherent'', ''dispatch_empty_accounted'']. jget coherence f = JBool True"
    using assms
    unfolding validate_present_cgroup_evidence_def Let_def thenE_ok_iff bindE_ok_iff unless_ok_iff guarded_ok_iff cs_obj.read_ok obj_of_iff
      require_cs_ok_iff require_positive_ok_iff nonnegative_int_ok_iff forE_ok_iff sum.inject
    by (elim exE conjE) (rule that; assumption)
  have lists: "lists_text ''cpu.weight'' (jget pmap ''callback_observed_knobs'')" "lists_text ''cpu.max'' (jget pmap ''deferred_knobs'')"
      "lists_text ''uclamp'' (jget pmap ''deferred_knobs'')"
    unfolding lists_text_def using string_list_ok observed deferred by blast+
  have move: "positive (jget stats ''cgroup_move_calls'') \<longrightarrow> positive (jget pmap ''move_generation'')"
    using moves by (simp add: positive_def)
  have present: "jget pmap ''status'' = JStr ''present''" "jget stats ''status'' = JStr ''present''" "jget coherence ''status'' = JStr ''present''"
    using status by blast+
  have stats: "\<forall>f \<in> {''cgroup_init_calls'', ''cgroup_set_weight_calls'', ''cgroup_weight_observed''}. positive (jget stats f)"
    using weights(3-5) by blast
  show ?thesis
    unfolding callback_evidence_def
    by (intro exI conjI) (fact docs present lists weights move stats flags flags(2)[unfolded list.set])+
qed

definition cgroup_evidence :: "json_object \<Rightarrow> bool" where
  "cgroup_evidence sample \<longleftrightarrow>
     (\<exists>abi semantics. jget sample ''policy_abi'' = JObj abi \<and> py_eq (jget abi ''abi_version'') (JInt 3) \<and>
        jget abi ''abi_label'' = JStr ABI_V3_LABEL \<and> jget abi ''cgroup_semantics'' = JObj semantics \<and>
        jget semantics ''cpu.weight'' = JStr ''callback-observed'' \<and> jget semantics ''cpu.max'' = JStr ''deferred'' \<and>
        jget semantics ''uclamp'' = JStr ''deferred'' \<and> callback_evidence abi)"

lemma cgroup_abi_step_ok:
  assumes "cgroup_abi_step c (v, p) (i, sample) = Inr (v', True)"
  shows "p \<or> cgroup_evidence sample"
proof (cases "obj_of (jget sample ''policy_abi'')")
  case None
  with assms show ?thesis by (simp add: cgroup_abi_step_def)
next
  case (Some abi)
  then have abi: "jget sample ''policy_abi'' = JObj abi" by (simp add: obj_of_iff)
  show ?thesis
  proof (cases "py_eq (jget abi ''abi_version'') (JInt 3)")
    case False
    with assms Some show ?thesis by (simp add: cgroup_abi_step_def)
  next
    case True
    with assms Some obtain semantics b where ok: "jget abi ''abi_label'' = JStr ABI_V3_LABEL" "jget abi ''cgroup_semantics'' = JObj semantics"
        "jget semantics ''cpu.weight'' = JStr ''callback-observed''" "jget semantics ''cpu.max'' = JStr ''deferred''"
        "jget semantics ''uclamp'' = JStr ''deferred''"
        "validate_present_cgroup_evidence abi (msg [c, ''.runtime_sample['', show_nat i, ''].policy_abi'']) = Inr b" "b \<or> p"
      by (auto simp: cgroup_abi_step_def Let_def ok_iff obj_of_iff)
    show ?thesis
    proof (cases b)
      case True
      with ok(6) have "callback_evidence abi" by (simp add: validate_present_cgroup_evidence_ok)
      with ok abi \<open>py_eq _ _\<close> show ?thesis unfolding cgroup_evidence_def by blast
    qed (use ok in simp)
  qed
qed

lemma cgroup_abi_loop:
  "foldE (cgroup_abi_step c) (v, p) xs = Inr (v', True) \<Longrightarrow> p \<or> (\<exists>(i, sample) \<in> set xs. cgroup_evidence sample)"
proof (induction xs arbitrary: v p)
  case Nil
  then show ?case by simp
next
  case (Cons x xs)
  obtain i sample where x: "x = (i, sample)" by (cases x)
  from Cons.prems obtain v1 p1 where step: "cgroup_abi_step c (v, p) (i, sample) = Inr (v1, p1)"
    and rest: "foldE (cgroup_abi_step c) (v1, p1) xs = Inr (v', True)"
    by (auto simp: bindE_ok_iff x)
  from Cons.IH[OF rest] show ?case
    using cgroup_abi_step_ok[of c v p i sample v1] step by (cases p1) (auto simp: x)
qed

lemma validate_cgroup_abi_linkage_ok:
  assumes "validate_cgroup_abi_linkage env row c = Inr ()"
  shows "\<exists>s rows. jget row ''runtime_sample_path'' = JStr s \<and> load_jsonl_rs env (mk_path s) = Inr rows \<and> (\<exists>sample \<in> set rows. cgroup_evidence sample)"
proof -
  obtain s rows flags where ok: "jget row ''runtime_sample_path'' = JStr s" "load_jsonl_rs env (mk_path s) = Inr rows"
      "foldE (cgroup_abi_step c) (False, False) (enumerate_from 0 rows) = Inr flags" "snd flags"
    using assms unfolding validate_cgroup_abi_linkage_def bindE_ok_iff thenE_ok_iff safe_path_cs_ok_iff require_cs_ok_iff by blast
  have "flags = (fst flags, True)" using ok(4) by (simp add: prod_eq_iff)
  with ok(3) have "foldE (cgroup_abi_step c) (False, False) (enumerate_from 0 rows) = Inr (fst flags, True)" by simp
  from cgroup_abi_loop[OF this] obtain i sample where "(i, sample) \<in> set (enumerate_from 0 rows)" "cgroup_evidence sample" by auto
  then have "\<exists>sample \<in> set rows. cgroup_evidence sample" using enumerate_from_mem by metis
  with ok(1,2) show ?thesis by blast
qed

text \<open>What an artifact row must be for its scenario to count.\<close>

definition protected_row :: "env \<Rightarrow> path \<Rightarrow> string \<Rightarrow> path \<Rightarrow> json_object \<Rightarrow> bool" where
  "protected_row env run_root sid p row \<longleftrightarrow>
     (\<forall>f \<in> set ROW_LOCAL_FIELDS. names_below (path_parent p) (jget row f)) \<and> names_below run_root (jget row ''daemon_event_path'') \<and>
     jget row ''evidence_mode'' = JStr ''vm-live'' \<and>
     (\<exists>marker. jget row ''vm_marker'' = JObj marker \<and> jget marker ''required'' = JBool True \<and> jget marker ''present'' = JBool True) \<and>
     (\<exists>s. jget row ''runtime_sample_path'' = JStr s \<and> captured_samples env (mk_path s) (Some sid) \<and>
        (sid = CGROUP_SCENARIO \<longrightarrow>
           (\<exists>rows. load_jsonl_rs env (mk_path s) = Inr rows \<and> (\<exists>sample \<in> set rows. cgroup_evidence sample))))"

lemma validate_row_local_artifacts_ok:
  assumes "validate_row_local_artifacts row p base c = Inr ()"
  shows "\<forall>f \<in> set ROW_LOCAL_FIELDS. names_below (path_parent p) (jget row f)" "names_below base (jget row ''daemon_event_path'')"
  using assms unfolding validate_row_local_artifacts_def Let_def thenE_ok_iff bindE_ok_iff forE_ok_iff names_below_iff by blast+

lemma validate_suite_row_ok:
  assumes "validate_suite_row env path run_root (sid, ref) = Inr ()"
  shows "\<exists>a row. jget ref ''artifact_path'' = JStr a \<and> names_below run_root (JStr a) \<and> load_json_mr env (mk_path a) = Inr row \<and>
    protected_row env run_root sid (mk_path a) row"
proof -
  obtain p row where p: "jget ref ''artifact_path'' = JStr p" "p \<noteq> []" "safe_path (mk_path p)"
      "prefix (path_parts run_root) (path_parts (mk_path p))" "load_json_mr env (mk_path p) = Inr row"
    and checks: "validate_row_local_artifacts row (mk_path p) run_root (path_str (mk_path p)) = Inr ()"
      "validate_vm_live_runtime_linkage env row (mk_path p) sid (path_str (mk_path p)) = Inr ()"
      "sid = ''workload-cgroup-weight-quota'' \<longrightarrow> validate_cgroup_abi_linkage env row (path_str (mk_path p)) = Inr ()"
    using assms unfolding validate_suite_row_def prod.case bindE_ok_iff thenE_ok_iff safe_path_cs_ok_iff require_descendant_cs_ok_iff
      guarded_ok_iff by (elim exE conjE, hypsubst) (rule that; assumption)
  obtain marker s where live: "jget row ''evidence_mode'' = JStr ''vm-live''" "jget row ''vm_marker'' = JObj marker"
      "jget marker ''required'' = JBool True" "jget marker ''present'' = JBool True" "jget row ''runtime_sample_path'' = JStr s"
      "captured_samples env (mk_path s) (Some sid)"
    using checks(2) unfolding validate_vm_live_runtime_linkage_def bindE_ok_iff thenE_ok_iff safe_path_cs_ok_iff require_cs_ok_iff
      cs_text.read_ok cs_obj.read_ok text_of_iff obj_of_iff validate_vm_captured_input_ok_iff by (elim exE conjE) (rule that; blast)
  have "sid = CGROUP_SCENARIO \<longrightarrow> (\<exists>rows. load_jsonl_rs env (mk_path s) = Inr rows \<and> (\<exists>sample \<in> set rows. cgroup_evidence sample))"
    using checks(3) validate_cgroup_abi_linkage_ok live(5) by (fastforce simp: CGROUP_SCENARIO_def)
  with live validate_row_local_artifacts_ok[OF checks(1)] have "protected_row env run_root sid (mk_path p) row"
    unfolding protected_row_def by blast
  moreover have "names_below run_root (JStr p)" using p(2-4) by (auto simp: names_below_def)
  ultimately show ?thesis using p(1,5) by blast
qed

section \<open>The shape of the suite\<close>

definition ref_scenario :: "json_object \<Rightarrow> string" where
  "ref_scenario ref = (case str_of (jget ref ''scenario_id'') of None \<Rightarrow> [] | Some s \<Rightarrow> s)"

lemma suite_step_ok:
  "suite_step c acc (i, ref) = Inr acc' \<Longrightarrow>
     jget ref ''scenario_id'' = JStr (ref_scenario ref) \<and> ref_scenario ref \<notin> set (map fst acc) \<and> acc' = acc @ [(ref_scenario ref, ref)]"
  by (auto simp: suite_step_def ok_iff text_of_iff ref_scenario_def simp del: set_map)

interpretation suite_loop: unique_loop "suite_step c" "\<lambda>acc. rev (map fst acc)" "\<lambda>x. ref_scenario (snd x)"
  by unfold_locales (auto dest!: suite_step_ok simp del: set_map)

lemma suite_loop_result:
  "foldE (suite_step c) acc (enumerate_from n refs) = Inr acc' \<Longrightarrow> acc' = acc @ map (\<lambda>ref. (ref_scenario ref, ref)) refs"
  by (induction refs arbitrary: acc n) (fastforce simp: bindE_ok_iff dest!: suite_step_ok)+

lemma suite_loop_distinct:
  assumes "foldE (suite_step c) [] (enumerate_from 0 refs) = Inr acc"
  shows "distinct (map ref_scenario refs)"
proof -
  have "map (\<lambda>x. ref_scenario (snd x)) (enumerate_from n refs) = map ref_scenario refs" for n
    by (induction refs arbitrary: n) simp_all
  with suite_loop.loop_distinct[OF assms] show ?thesis by simp
qed

lemma set_sorted_set [simp]: "set (sorted_set xs) = set xs"
  by (simp add: sorted_set_def)

lemma validate_suite_shape_ok:
  assumes "validate_suite_shape refs c = Inr by_scenario"
  shows "by_scenario = map (\<lambda>ref. (ref_scenario ref, ref)) refs" "distinct (map ref_scenario refs)"
    "\<exists>latency \<in> set LATENCY_ROWS. set (map ref_scenario refs) = insert latency (set PROTECTED_REQUIRED_ROWS)"
    "\<forall>ref \<in> set refs. jget ref ''outcome'' = JStr ''PASS''"
proof -
  define sel where "sel = sorted_set (filter (\<lambda>s. s \<in> set LATENCY_ROWS) (map fst by_scenario))"
  have loop: "foldE (suite_step c) [] (enumerate_from 0 refs) = Inr by_scenario"
    and missing: "sorted_diff PROTECTED_REQUIRED_ROWS (map fst by_scenario) = []" and one: "length sel = 1"
    and extra: "sorted_diff (map fst by_scenario) (PROTECTED_REQUIRED_ROWS @ [hd sel]) = []"
    and outcomes: "\<forall>s \<in> set (sorted_set (PROTECTED_REQUIRED_ROWS @ [hd sel])).
        \<exists>d. lookup_scenario by_scenario s = Inr d \<and> (\<exists>o'. text_of (jget d ''outcome'') = Some o' \<and> o' = ''PASS'')"
    using assms unfolding validate_suite_shape_def Let_def bindE_ok_iff thenE_ok_iff require_cs_ok_iff forE_ok_iff cs_text.read_ok sel_def
    by (elim exE conjE, simp only: sum.inject)+
  show rows: "by_scenario = map (\<lambda>ref. (ref_scenario ref, ref)) refs" using suite_loop_result[OF loop] by simp
  then have fsts: "map fst by_scenario = map ref_scenario refs" by simp
  show dist: "distinct (map ref_scenario refs)" using loop by (rule suite_loop_distinct)
  from one obtain latency where sel: "sel = [latency]" by (auto simp: length_Suc_conv)
  then have lat: "latency \<in> set LATENCY_ROWS" "latency \<in> set (map fst by_scenario)"
    using set_sorted_set[of "filter (\<lambda>s. s \<in> set LATENCY_ROWS) (map fst by_scenario)"] unfolding sel_def[symmetric] by auto
  have ids: "set (map ref_scenario refs) = insert latency (set PROTECTED_REQUIRED_ROWS)"
    using missing extra lat(2) unfolding sorted_diff_empty_iff fsts sel by auto
  with lat(1) show "\<exists>latency \<in> set LATENCY_ROWS. set (map ref_scenario refs) = insert latency (set PROTECTED_REQUIRED_ROWS)" by blast
  show "\<forall>ref \<in> set refs. jget ref ''outcome'' = JStr ''PASS''"
  proof
    fix ref assume ref: "ref \<in> set refs"
    then have "map_of by_scenario (ref_scenario ref) = Some ref"
      using dist unfolding rows by (intro map_of_is_SomeI) (auto simp: comp_def)
    moreover have "ref_scenario ref \<in> set (sorted_set (PROTECTED_REQUIRED_ROWS @ [hd sel]))"
      using ref ids sel by auto
    ultimately show "jget ref ''outcome'' = JStr ''PASS''"
      using outcomes by (auto simp: lookup_scenario_def text_of_iff)
  qed
qed

lemma manifest_rows_ok: "manifest_rows m c = Inr refs \<Longrightarrow> jget m ''rows'' = JList (map JObj refs)"
proof -
  have "list_all2 (\<lambda>x ref. (case x of (i, row) \<Rightarrow> obj_cs row (f i)) = Inr ref) (enumerate_from n xs) refs \<Longrightarrow> xs = map JObj refs" for n xs f
    by (induction xs arbitrary: n refs) (auto simp: list_all2_Cons1 cs_obj.read_ok obj_of_iff)
  then show "manifest_rows m c = Inr refs \<Longrightarrow> jget m ''rows'' = JList (map JObj refs)"
    by (auto simp: manifest_rows_def list_of_iff mapE_ok_iff split: option.splits)
qed

text \<open>C3: a manifest accepted as the protected-core suite has exactly the three protected
  scenarios and one of the two latency scenarios, each once and each passing, and every entry leads, by a
  safe path below the run's directory, to a row that ran live in the VM with its marker present, keeps its
  artifacts in its own directory and rests on samples captured in the VM that satisfy the telemetry contract;
  the cgroup row has a sample with ABI-v3 callback evidence.\<close>

theorem protected_suite_complete:
  assumes "validate_manifest_cs env path = Inr ()"
  shows "\<exists>manifest refs. load_json_mr env path = Inr manifest \<and> jget manifest ''rows'' = JList (map JObj refs) \<and>
    distinct (map ref_scenario refs) \<and>
    (\<exists>latency \<in> set LATENCY_ROWS. set (map ref_scenario refs) = insert latency (set PROTECTED_REQUIRED_ROWS)) \<and>
    (\<forall>ref \<in> set refs. jget ref ''outcome'' = JStr ''PASS'' \<and>
       (\<exists>a row. jget ref ''artifact_path'' = JStr a \<and> names_below (path_parent path) (JStr a) \<and> load_json_mr env (mk_path a) = Inr row \<and>
          protected_row env (path_parent path) (ref_scenario ref) (mk_path a) row))"
proof -
  obtain manifest refs by_scenario where ok: "load_json_mr env path = Inr manifest" "manifest_rows manifest (path_str path) = Inr refs"
      "validate_suite_shape refs (path_str path) = Inr by_scenario"
      "\<forall>x \<in> set by_scenario. validate_suite_row env path (path_parent path) x = Inr ()"
    using assms unfolding validate_manifest_cs_def Let_def bindE_ok_iff forE_ok_iff by blast
  note shape = validate_suite_shape_ok[OF ok(3)]
  have "\<forall>ref \<in> set refs. validate_suite_row env path (path_parent path) (ref_scenario ref, ref) = Inr ()"
    using ok(4) unfolding shape(1) by simp
  with ok(1) manifest_rows_ok[OF ok(2)] shape(2-4) validate_suite_row_ok show ?thesis by blast
qed

section \<open>An accepted suite\<close>

definition suite_file :: "string \<Rightarrow> string \<Rightarrow> string" where
  "suite_file sid name = ''run/'' @ sid @ ''/'' @ name"

definition suite_doc :: "string \<Rightarrow> json_object" where
  "suite_doc sid =
     [(''evidence_mode'', JStr ''vm-live''), (''vm_marker'', JObj [(''required'', JBool True), (''present'', JBool True)]),
      (''runtime_sample_path'', JStr (suite_file sid ''s.jsonl'')), (''incident_path'', JStr (suite_file sid ''i'')),
      (''rollback_proof_path'', JStr (suite_file sid ''r'')), (''cleanup_proof_path'', JStr (suite_file sid ''c'')),
      (''host_refusal_proof_path'', JStr (suite_file sid ''h'')), (''daemon_event_path'', JStr ''run/d''),
      (''workload'', JObj [(''spec_path'', JStr (suite_file sid ''w''))]), (''policy'', JObj [(''object_path'', JStr (suite_file sid ''o''))]),
      (''privacy_scan'', JObj [(''report_path'', JStr (suite_file sid ''p''))])]"

definition suite_ref :: "string \<Rightarrow> json_object" where
  "suite_ref sid = [(''scenario_id'', JStr sid), (''outcome'', JStr ''PASS''), (''artifact_path'', JStr (suite_file sid ''row.json''))]"

abbreviation suite_ids :: "string list" where
  "suite_ids \<equiv> [''live-backend'', ''workload-cpu-saturation'', ''workload-cgroup-weight-quota'', ''workload-interactive-latency'']"

definition suite_env :: env where
  "suite_env = files_env
     ((''run/m.json'', ''M'') # map (\<lambda>sid. (suite_file sid ''row.json'', sid)) suite_ids @ map (\<lambda>sid. (suite_file sid ''s.jsonl'', ''S'')) suite_ids) []
     ((''M'', JObj [(''rows'', JList (map (\<lambda>sid. JObj (suite_ref sid)) suite_ids))]) # (''S'', JObj captured_sample) #
      map (\<lambda>sid. (sid, JObj (suite_doc sid))) suite_ids)"

lemma suite_env_manifest:
  "load_json_mr suite_env (mk_path ''run/m.json'') = Inr [(''rows'', JList (map (\<lambda>sid. JObj (suite_ref sid)) suite_ids))]"
  "manifest_rows [(''rows'', JList (map (\<lambda>sid. JObj (suite_ref sid)) suite_ids))] (path_str (mk_path ''run/m.json'')) = Inr (map suite_ref suite_ids)"
  "validate_suite_shape (map suite_ref suite_ids) (path_str (mk_path ''run/m.json'')) = Inr (map (\<lambda>sid. (sid, suite_ref sid)) suite_ids)"
  by code_simp+

lemma suite_env_rows:
  "list_all (\<lambda>sid. safe_path_cs (jget (suite_ref sid) ''artifact_path'') c = Inr (mk_path (suite_file sid ''row.json''))) suite_ids"
  "list_all (\<lambda>sid. load_json_mr suite_env (mk_path (suite_file sid ''row.json'')) = Inr (suite_doc sid)) suite_ids"
  "list_all (\<lambda>sid. prefix (path_parts (path_parent (mk_path ''run/m.json''))) (path_parts (mk_path (suite_file sid ''row.json'')))) suite_ids"
  "list_all (\<lambda>sid. validate_row_local_artifacts (suite_doc sid) (mk_path (suite_file sid ''row.json'')) (path_parent (mk_path ''run/m.json''))
     (path_str (mk_path (suite_file sid ''row.json''))) = Inr ()) suite_ids"
  "list_all (\<lambda>sid. load_jsonl_rs suite_env (mk_path (suite_file sid ''s.jsonl'')) = Inr [captured_sample]) suite_ids"
  "list_all (\<lambda>sid. safe_path (mk_path (suite_file sid ''s.jsonl'')) \<and>
     prefix (path_parts (path_parent (mk_path (suite_file sid ''row.json'')))) (path_parts (mk_path (suite_file sid ''s.jsonl'')))) suite_ids"
  by code_simp+

lemma captured_sample_cgroup: "cgroup_abi_step c (False, False) (0, captured_sample) = Inr (True, True)"
  by code_simp

lemma telemetry_row_any: "telemetry_row (Some CGROUP_SCENARIO) row \<Longrightarrow> telemetry_row scenario row"
  by (simp add: telemetry_row_def)

lemma one_sample_any:
  assumes "load_jsonl_rs env p = Inr [captured_sample]"
  shows "validate_vm_captured_input env p scenario = Inr ()"
  using one_sample_captured[OF assms] telemetry_row_any unfolding validate_vm_captured_input_ok_iff captured_samples_def by blast

lemma suite_doc_fields:
  "jget (suite_doc sid) ''evidence_mode'' = JStr ''vm-live''"
  "jget (suite_doc sid) ''vm_marker'' = JObj [(''required'', JBool True), (''present'', JBool True)]"
  "jget (suite_doc sid) ''runtime_sample_path'' = JStr (suite_file sid ''s.jsonl'')"
  by (simp_all add: suite_doc_def jget_def)

lemma suite_env_row:
  assumes "sid \<in> set suite_ids"
  shows "validate_suite_row suite_env (mk_path ''run/m.json'') (path_parent (mk_path ''run/m.json'')) (sid, suite_ref sid) = Inr ()"
proof -
  let ?p = "mk_path (suite_file sid ''row.json'')" and ?s = "mk_path (suite_file sid ''s.jsonl'')"
  note rows = suite_env_rows[unfolded list_all_iff, rule_format, OF assms]
  have spath: "text_of (JStr (suite_file sid ''s.jsonl'')) = Some (suite_file sid ''s.jsonl'')"
    by (simp add: suite_file_def)
  have sample: "safe_path_cs (jget (suite_doc sid) ''runtime_sample_path'') c = Inr ?s" for c
    unfolding safe_path_cs_ok_iff suite_doc_fields using rows(6) spath by (auto simp: text_of_iff)
  have under: "require_descendant_cs ?s (path_parent ?p) c = Inr ()" for c
    using rows(6) by (simp add: require_descendant_cs_ok_iff)
  have live: "validate_vm_live_runtime_linkage suite_env (suite_doc sid) ?p sid (path_str ?p) = Inr ()"
    unfolding validate_vm_live_runtime_linkage_def
    by (simp add: sample[unfolded suite_doc_fields] under suite_doc_fields text_cs_def obj_cs_def require_cs_def raise_if_def
        jget_def[of "[_, _]"] one_sample_any[OF rows(5)])
  have cgroup: "validate_cgroup_abi_linkage suite_env (suite_doc sid) (path_str ?p) = Inr ()"
    by (simp add: validate_cgroup_abi_linkage_def sample rows(5) captured_sample_cgroup require_cs_def raise_if_def)
  show ?thesis
    unfolding validate_suite_row_def prod.case bindE_ok_iff thenE_ok_iff require_descendant_cs_ok_iff
    using rows(1-4) live cgroup by auto
qed

lemma suite_env_accepted: "validate_manifest_cs suite_env (mk_path ''run/m.json'') = Inr ()"
  unfolding validate_manifest_cs_def Let_def suite_env_manifest bindE_simps forE_ok_iff using suite_env_row by auto

theorem protected_suite_complete_witness:
  "validate_manifest_cs suite_env (mk_path ''run/m.json'') = Inr () \<and>
   (\<exists>manifest refs. load_json_mr suite_env (mk_path ''run/m.json'') = Inr manifest \<and> jget manifest ''rows'' = JList (map JObj refs) \<and>
      distinct (map ref_scenario refs))"
  using protected_suite_complete[OF suite_env_accepted] suite_env_accepted by blast

section \<open>Which exceptions escape\<close>

text \<open>The manifest is read with the matrix-run loader, whose exception the script does
  not catch: where the manifest is missing, the command ends in \<^verbatim>\<open>MatrixRunContractError\<close> and not in
  its failure line.\<close>

theorem suite_loader_error_escapes:
  assumes "fs_read_text env (mk_path m) = Inl (FileNotFoundError f)"
  shows "\<exists>msg. main_cs self_test env [''--manifest'', m] = Inl (MatrixRunContractError msg)"
  using assms by (simp add: main_cs_def validate_manifest_cs_def load_json_mr_def reraise_def is_os_error_def)

theorem suite_loader_error_escapes_witness:
  "\<exists>msg. main_cs (Inr ()) suite_env [''--manifest'', ''x''] = Inl (MatrixRunContractError msg)"
proof -
  have "fs_read_text suite_env (mk_path ''x'') = Inl (FileNotFoundError (path_str (mk_path ''x'')))" by code_simp
  then show ?thesis by (rule suite_loader_error_escapes)
qed

end
