(* ===== verification/LabSummary.thy ===== *)
theory LabSummary
  imports LiveBehavior
begin

text \<open>
  \<^verbatim>\<open>qa/lab_summary_backend.py\<close> and \<^verbatim>\<open>qa/lab_summary_check.py\<close>: the summaries of a whole lab run. A
  summary is one of three: the wrapper of a VM backend run, which must lead to its live bundle; the live
  summary of such a run; or a controlled run-all summary with its stages, whose artifacts must be tracked by
  git when it is meant for release use. Summary paths are compared lexically, as \<^verbatim>\<open>pathlib\<close> does.
\<close>

section \<open>Summaries of a VM backend run\<close>

definition VM_BACKEND_SCHEMA :: string where
  "VM_BACKEND_SCHEMA = ''zig-scheduler/vm-backend-run/v1''"

definition VM_BACKEND_MARKER :: string where
  "VM_BACKEND_MARKER = ''.zig-scheduler-vm-backend-owned''"

definition VM_MARKER_sb :: string where
  "VM_MARKER_sb = ''/run/zig-scheduler-vm-lab.marker''"

text \<open>\<^verbatim>\<open>base in (path, *path.parents)\<close>.\<close>

definition path_within :: "path \<Rightarrow> path \<Rightarrow> bool" where
  "path_within base path \<longleftrightarrow> path_root base = path_root path \<and> prefix (path_comps base) (path_comps path)"

definition is_backend_live_summary :: "env \<Rightarrow> path \<Rightarrow> json_object \<Rightarrow> bool" where
  "is_backend_live_summary env path summary \<longleftrightarrow>
     jget summary ''evidence_mode'' = JStr ''vm-live'' \<and> path_name path = ''summary.json'' \<and>
     path_name (path_parent path) = ''live'' \<and>
     fs_is_file env (path_join (path_parent (path_parent path)) VM_BACKEND_MARKER)"

definition load_object_sb :: "env \<Rightarrow> path \<Rightarrow> json_object result" where
  "load_object_sb env path =
     (bindE (reraise is_JSONDecodeError
         (\<lambda>exc. BackendSummaryError (msg [''invalid JSON in '', path_str path, '': '', exn_str exc]))
         (reraise is_FileNotFoundError
         (\<lambda>_. BackendSummaryError (msg [''missing JSON file: '', path_str path]))
         (bindE (fs_read_text env path) (json_loads env)))) (\<lambda>raw.
     case obj_of raw of
         None \<Rightarrow> Inl (BackendSummaryError (msg [path_str path, '' must contain a JSON object'']))
         | Some d \<Rightarrow> Inr d))"

definition require_string_sb :: "json_object \<Rightarrow> string \<Rightarrow> string \<Rightarrow> string result" where
  "require_string_sb data field context =
     (case text_of (jget data field) of
        Some s \<Rightarrow> Inr s
      | None \<Rightarrow> Inl (BackendSummaryError (msg [context, '' missing non-empty string field: '', field])))"

definition require_bool_sb :: "json_object \<Rightarrow> string \<Rightarrow> string \<Rightarrow> bool result" where
  "require_bool_sb data field context =
     (case bool_of (jget data field) of
        Some b \<Rightarrow> Inr b
      | None \<Rightarrow> Inl (BackendSummaryError (msg [context, '' missing bool field: '', field])))"

definition require_list_sb :: "json_object \<Rightarrow> string \<Rightarrow> string \<Rightarrow> json list result" where
  "require_list_sb data field context =
     (case list_of (jget data field) of
        Some xs \<Rightarrow> Inr xs
      | None \<Rightarrow> Inl (BackendSummaryError (msg [context, '' missing list field: '', field])))"

definition require_object_sb :: "json_object \<Rightarrow> string \<Rightarrow> string \<Rightarrow> json_object result" where
  "require_object_sb data field context =
     (case obj_of (jget data field) of
        Some d \<Rightarrow> Inr d
      | None \<Rightarrow> Inl (BackendSummaryError (msg [context, '' missing object field: '', field])))"

definition assert_kernel_tuple_sb :: "json_object \<Rightarrow> string \<Rightarrow> check" where
  "assert_kernel_tuple_sb data context =
     (bindE (require_object_sb data ''kernel_tuple'' context) (\<lambda>kernel.
     forE (\<lambda>field. bindE (require_string_sb kernel field (msg [context, ''.kernel_tuple''])) (\<lambda>_. Inr ())) [''release'', ''arch'', ''config_sha256'']))"

definition backend_artifact :: "env \<Rightarrow> string \<Rightarrow> path \<Rightarrow> nat \<times> json \<Rightarrow> path result" where
  "backend_artifact env context base = (\<lambda>(index, value).
     let here = (msg [context, ''.artifact_paths['', show_nat index, '']'']) in
     case text_of value of
       None \<Rightarrow> Inl (BackendSummaryError (msg [here, '' must be non-empty relative path text'']))
     | Some s \<Rightarrow>
         let path = mk_path s in
         (thenE (raise_if (is_absolute path \<or> ''..'' \<in> set (path_parts path)) (BackendSummaryError (msg [here, '' escapes repository: '', s]))) (
           thenE (raise_if (\<not> path_within base path) (BackendSummaryError (msg [here, '' must stay under '', path_str base, '': '', s]))) (
           thenE (raise_if (fs_is_symlink env path \<or> \<not> fs_exists env path) (BackendSummaryError (msg [here, '' is missing or symlinked: '', s]))) (
           Inr path)))))"

definition assert_backend_artifact_paths :: "env \<Rightarrow> json_object \<Rightarrow> string \<Rightarrow> path \<Rightarrow> path list result" where
  "assert_backend_artifact_paths env data context base =
     (bindE (require_list_sb data ''artifact_paths'' context) (\<lambda>values.
     bindE (mapE (backend_artifact env context base) (enumerate_from 0 values)) (\<lambda>paths.
     thenE (raise_if (paths = []) (BackendSummaryError (msg [context, '' must include at least one artifact path'']))) (
     Inr paths))))"

definition backend_stage :: "env \<Rightarrow> path \<Rightarrow> nat \<times> json \<Rightarrow> check" where
  "backend_stage env base = (\<lambda>(index, item).
     let context = (msg [''backend live stage['', show_nat index, '']'']) in
     case obj_of item of
       None \<Rightarrow> Inl (BackendSummaryError (msg [context, '' must be an object'']))
     | Some d \<Rightarrow>
         (bindE (require_string_sb d ''status'' context) (\<lambda>status.
           thenE (raise_if (status \<noteq> ''PASS'') (BackendSummaryError (msg [context, '' must pass'']))) (
           bindE (require_string_sb d ''stage'' context) (\<lambda>_.
           bindE (require_string_sb d ''reason'' context) (\<lambda>_.
           bindE (require_string_sb d ''artifact'' context) (\<lambda>name.
           (let artifact = mk_path name in
           raise_if (is_absolute artifact \<or> ''..'' \<in> set (path_parts artifact) \<or> \<not> path_within base artifact \<or> \<not> fs_exists env artifact)
               (BackendSummaryError (msg [context, '' artifact is unsafe or missing'']))))))))))"

definition validate_backend_stages :: "env \<Rightarrow> json_object \<Rightarrow> path \<Rightarrow> check" where
  "validate_backend_stages env summary base =
     (bindE (require_list_sb summary ''stages'' ''backend live summary'') (\<lambda>stages.
     thenE (raise_if (stages = []) (BackendSummaryError ''backend live summary must include stages'')) (
     forE (backend_stage env base) (enumerate_from 0 stages))))"

definition validate_backend_live_summary :: "env \<Rightarrow> path \<Rightarrow> json_object \<Rightarrow> check" where
  "validate_backend_live_summary env path summary =
     (let base = path_parent path; context = ''backend live summary'' in
      (thenE (reraise is_LiveBehaviorError (\<lambda>exc. BackendSummaryError (exn_str exc)) (validate_bundle env path)) (
      bindE (require_string_sb summary ''status'' context) (\<lambda>status.
      thenE (raise_if (status \<noteq> ''PASS'') (BackendSummaryError ''backend live summary must be PASS'')) (
      bindE (require_string_sb summary ''evidence_mode'' context) (\<lambda>mode.
      thenE (raise_if (mode \<noteq> ''vm-live'') (BackendSummaryError ''backend live summary must be VM-live'')) (
      bindE (require_string_sb summary ''vm_kind'' context) (\<lambda>vm_kind.
      thenE (raise_if (vm_kind \<noteq> ''qemu-vm'') (BackendSummaryError ''backend live summary must come from qemu-vm'')) (
      bindE (require_bool_sb summary ''vm_marker_present'' context) (\<lambda>marker.
      thenE (raise_if (\<not> marker) (BackendSummaryError ''backend live summary missing VM marker'')) (
      bindE (require_string_sb summary ''vm_marker_path'' context) (\<lambda>marker_path.
      thenE (raise_if (marker_path \<noteq> VM_MARKER_sb) (BackendSummaryError ''backend live summary VM marker path is invalid'')) (
      bindE (require_string_sb summary ''rollback_result'' context) (\<lambda>rollback.
      thenE (raise_if (rollback \<noteq> ''PASS'') (BackendSummaryError ''backend live summary rollback must pass'')) (
      bindE (require_bool_sb summary ''host_mutation'' context) (\<lambda>host_mutation.
      thenE (raise_if host_mutation (BackendSummaryError ''backend live summary host_mutation must be false'')) (
      bindE (require_bool_sb summary ''release_use'' context) (\<lambda>release_use.
      thenE (raise_if release_use (BackendSummaryError ''backend live summary must remain controlled-lab-only release_use=false'')) (
      bindE (require_bool_sb summary ''release_eligible_live_proof'' context) (\<lambda>release_proof.
      thenE (raise_if (\<not> release_proof) (BackendSummaryError ''backend live summary must be release-eligible VM-live proof'')) (
      bindE (require_string_sb summary ''output_dir'' context) (\<lambda>output_dir.
      thenE (raise_if (mk_path output_dir \<noteq> base) (BackendSummaryError ''backend live summary output_dir must match summary parent'')) (
      thenE (assert_kernel_tuple_sb summary context) (
      bindE (assert_backend_artifact_paths env summary context base) (\<lambda>_.
      validate_backend_stages env summary base)))))))))))))))))))))))))"

definition validate_backend_run_summary :: "env \<Rightarrow> path \<Rightarrow> json_object \<Rightarrow> check" where
  "validate_backend_run_summary env path summary =
     (let base = path_parent path; context = ''backend summary'' in
      (thenE (raise_if (\<not> fs_is_file env (path_join base VM_BACKEND_MARKER)) (BackendSummaryError ''backend summary missing VM backend ownership marker'')) (
      bindE (require_string_sb summary ''status'' context) (\<lambda>status.
      thenE (raise_if (status \<noteq> ''PASS'') (BackendSummaryError ''backend summary must be PASS VM-live evidence'')) (
      bindE (require_string_sb summary ''mode'' context) (\<lambda>mode.
      thenE (raise_if (mode \<noteq> ''vm-required'') (BackendSummaryError ''backend summary must come from vm-required mode'')) (
      bindE (require_string_sb summary ''vm_kind'' context) (\<lambda>vm_kind.
      thenE (raise_if (vm_kind \<noteq> ''qemu-vm'') (BackendSummaryError ''backend summary must come from qemu-vm'')) (
      bindE (require_string_sb summary ''vm_marker_required'' context) (\<lambda>marker.
      thenE (raise_if (marker \<noteq> VM_MARKER_sb) (BackendSummaryError ''backend summary VM marker requirement is invalid'')) (
      bindE (require_bool_sb summary ''host_mutation'' context) (\<lambda>host_mutation.
      thenE (raise_if host_mutation (BackendSummaryError ''backend summary host_mutation must be false'')) (
      bindE (require_bool_sb summary ''release_eligible_live_proof'' context) (\<lambda>release_proof.
      thenE (raise_if release_proof (BackendSummaryError ''backend wrapper must not be the release-eligible proof'')) (
      bindE (require_string_sb summary ''output_dir'' context) (\<lambda>output_dir.
      thenE (raise_if (mk_path output_dir \<noteq> base) (BackendSummaryError ''backend summary output_dir must match summary parent'')) (
      bindE (assert_backend_artifact_paths env summary context base) (\<lambda>_.
      bindE (require_string_sb summary ''live_summary'' context) (\<lambda>live_name.
      (let live_summary = mk_path live_name in
      thenE (raise_if (live_summary \<noteq> path_join (path_join base ''live'') ''summary.json'')
          (BackendSummaryError ''backend summary live_summary must point at the generated live bundle'')) (
      thenE (raise_if (fs_is_symlink env live_summary \<or> \<not> fs_is_file env live_summary)
          (BackendSummaryError ''backend summary live bundle is missing or symlinked'')) (
      bindE (load_object_sb env live_summary) (\<lambda>live.
      validate_backend_live_summary env live_summary live)))))))))))))))))))))))"

section \<open>Summaries of a lab run\<close>

definition SUMMARY_SCHEMA_sm :: string where
  "SUMMARY_SCHEMA_sm = ''zig-scheduler/run-all-lab/v1''"

definition STAGE_SCHEMA :: string where
  "STAGE_SCHEMA = ''zig-scheduler/run-all-stage/v1''"

definition STATUSES :: "string list" where
  "STATUSES = [''PASS'', ''SKIP'', ''REFUSE'']"

definition ROLLBACK_RESULTS :: "string list" where
  "ROLLBACK_RESULTS = [''PASS'', ''SKIP'', ''REFUSE'', ''N/A'']"

definition PARTIAL_REASON_CODES :: "string list" where
  "PARTIAL_REASON_CODES =
     [''HOST_REFUSED'', ''VM_MARKER_MISSING'', ''TARGET_NOT_ALLOWLISTED'', ''TARGET_SYMLINK_REJECTED'', ''VERIFIER_FAILED'',
      ''ROLLBACK_MISSING'', ''ATTACH_SKIPPED'', ''ATTACH_ATTEMPTED'', ''ROLLBACK_RESTORED'', ''REFUSED_STALE_SCOPE'']"

definition RUN_ALL_PREFIX :: path where
  "RUN_ALL_PREFIX = mk_path ''evidence/lab/run-all''"

record summary_args =
  args_summary :: "path option"
  args_partial :: "path option"
  args_observe :: "path option"
  args_self_test :: bool

definition parse_args_sm :: "string list \<Rightarrow> summary_args result" where
  "parse_args_sm argv =
     (if argv = [''--self-test''] then
        Inr \<lparr> args_summary = None, args_partial = None, args_observe = None, args_self_test = True \<rparr>
      else if length argv = 2 \<and> argv ! 0 = ''--summary'' then
        Inr \<lparr> args_summary = Some (mk_path (argv ! 1)), args_partial = None, args_observe = None, args_self_test = False \<rparr>
      else if length argv = 2 \<and> argv ! 0 = ''--partial'' then
        Inr \<lparr> args_summary = None, args_partial = Some (mk_path (argv ! 1)), args_observe = None, args_self_test = False \<rparr>
      else if length argv = 2 \<and> argv ! 0 = ''--observe'' then
        Inr \<lparr> args_summary = None, args_partial = None, args_observe = Some (mk_path (argv ! 1)), args_self_test = False \<rparr>
      else Inl (LabSummaryError ''usage: lab_summary_check.py --summary <summary.json> | --partial <partial-refusal.json> | --observe <summary.json> | --self-test''))"

definition load_object_sm :: "env \<Rightarrow> path \<Rightarrow> json_object result" where
  "load_object_sm env path =
     (bindE (reraise is_JSONDecodeError
         (\<lambda>exc. LabSummaryError (msg [''invalid JSON in '', path_str path, '': '', exn_str exc]))
         (reraise is_FileNotFoundError
         (\<lambda>_. LabSummaryError (msg [''missing JSON file: '', path_str path]))
         (bindE (fs_read_text env path) (json_loads env)))) (\<lambda>raw.
     case obj_of raw of
         None \<Rightarrow> Inl (LabSummaryError (msg [path_str path, '' must contain a JSON object'']))
         | Some d \<Rightarrow> Inr d))"

definition require_string_sm :: "json_object \<Rightarrow> string \<Rightarrow> string \<Rightarrow> string result" where
  "require_string_sm data field context =
     (case text_of (jget data field) of
        Some s \<Rightarrow> Inr s
      | None \<Rightarrow> Inl (LabSummaryError (msg [context, '' missing non-empty string field: '', field])))"

definition require_bool_sm :: "json_object \<Rightarrow> string \<Rightarrow> string \<Rightarrow> bool result" where
  "require_bool_sm data field context =
     (case bool_of (jget data field) of
        Some b \<Rightarrow> Inr b
      | None \<Rightarrow> Inl (LabSummaryError (msg [context, '' missing bool field: '', field])))"

definition require_list_sm :: "json_object \<Rightarrow> string \<Rightarrow> string \<Rightarrow> json list result" where
  "require_list_sm data field context =
     (case list_of (jget data field) of
        Some xs \<Rightarrow> Inr xs
      | None \<Rightarrow> Inl (LabSummaryError (msg [context, '' missing list field: '', field])))"

definition require_object_sm :: "json_object \<Rightarrow> string \<Rightarrow> string \<Rightarrow> json_object result" where
  "require_object_sm data field context =
     (case obj_of (jget data field) of
        Some d \<Rightarrow> Inr d
      | None \<Rightarrow> Inl (LabSummaryError (msg [context, '' missing object field: '', field])))"

definition assert_timestamp :: "string \<Rightarrow> string \<Rightarrow> string \<Rightarrow> check" where
  "assert_timestamp value context field =
     raise_if (\<not> contains ''T'' value \<or> \<not> suffix ''Z'' value)
       (LabSummaryError (msg [context, '' field '', field, '' must be UTC ISO-8601 text ending in Z'']))"

definition assert_kernel_tuple_sm :: "json_object \<Rightarrow> string \<Rightarrow> check" where
  "assert_kernel_tuple_sm data context =
     (bindE (require_object_sm data ''kernel_tuple'' context) (\<lambda>kernel.
     forE (\<lambda>field. bindE (require_string_sm kernel field (msg [context, ''.kernel_tuple''])) (\<lambda>_. Inr ())) [''release'', ''arch'', ''config_sha256'']))"

definition lab_artifact :: "env \<Rightarrow> string \<Rightarrow> nat \<times> json \<Rightarrow> path result" where
  "lab_artifact env context = (\<lambda>(index, value).
     let here = (msg [context, ''.artifact_paths['', show_nat index, '']'']) in
     case text_of value of
       None \<Rightarrow> Inl (LabSummaryError (msg [here, '' must be non-empty relative path text'']))
     | Some s \<Rightarrow>
         let path = mk_path s in
         (thenE (raise_if (is_absolute path \<or> ''..'' \<in> set (path_parts path)) (LabSummaryError (msg [here, '' escapes repository: '', s]))) (
           thenE (raise_if (\<not> path_within RUN_ALL_PREFIX path) (LabSummaryError (msg [here, '' must stay under '', path_str RUN_ALL_PREFIX, '': '', s]))) (
           thenE (raise_if (\<not> fs_exists env path) (LabSummaryError (msg [here, '' does not exist: '', s]))) (
           Inr path)))))"

definition assert_artifact_paths :: "env \<Rightarrow> json_object \<Rightarrow> string \<Rightarrow> path list result" where
  "assert_artifact_paths env data context =
     (bindE (require_list_sm data ''artifact_paths'' context) (\<lambda>values.
     bindE (mapE (lab_artifact env context) (enumerate_from 0 values)) (\<lambda>paths.
     thenE (raise_if (paths = []) (LabSummaryError (msg [context, '' must include at least one artifact path'']))) (
     Inr paths))))"

definition assert_common :: "env \<Rightarrow> json_object \<Rightarrow> string \<Rightarrow> path list result" where
  "assert_common env data context =
     (bindE (require_bool_sm data ''host_mutation'' context) (\<lambda>host_mutation.
     thenE (raise_if host_mutation (LabSummaryError (msg [context, '' host_mutation must be false'']))) (
     bindE (require_string_sm data ''git_sha'' context) (\<lambda>_.
     thenE (assert_kernel_tuple_sm data context) (
     bindE (require_string_sm data ''vm_kind'' context) (\<lambda>_.
     bindE (require_string_sm data ''rollback_result'' context) (\<lambda>rollback_result.
     thenE (raise_if (rollback_result \<notin> set ROLLBACK_RESULTS)
         (LabSummaryError (msg [context, '' rollback_result has invalid status: '', rollback_result]))) (
     thenE (forE (\<lambda>field. bindE (require_string_sm data field context) (\<lambda>value. assert_timestamp value context field)) [''started_at'', ''ended_at'']) (
     assert_artifact_paths env data context)))))))))"

definition validate_stage :: "env \<Rightarrow> json_object \<Rightarrow> nat \<Rightarrow> path list result" where
  "validate_stage env stage index =
     (let context = (msg [''stage['', show_nat index, '']'']) in
      (bindE (require_string_sm stage ''schema'' context) (\<lambda>schema.
      thenE (raise_if (schema \<noteq> STAGE_SCHEMA) (LabSummaryError (msg [context, '' has unsupported schema'']))) (
      bindE (require_string_sm stage ''status'' context) (\<lambda>status.
      thenE (raise_if (status \<notin> set STATUSES) (LabSummaryError (msg [context, '' has invalid status: '', status]))) (
      thenE (forE (\<lambda>field. bindE (require_string_sm stage field context) (\<lambda>_. Inr ())) [''stage'', ''reason'', ''command'']) (
      assert_common env stage context)))))))"

definition git_tracked :: "env \<Rightarrow> path \<Rightarrow> bool" where
  "git_tracked env path \<longleftrightarrow> git_ls_files env (path_str path) = 0"

definition stage_paths_of :: "env \<Rightarrow> nat \<times> json \<Rightarrow> path list result" where
  "stage_paths_of env = (\<lambda>(index, item).
     case obj_of item of
       None \<Rightarrow> Inl (LabSummaryError (msg [''stage['', show_nat index, ''] must be an object'']))
     | Some d \<Rightarrow> validate_stage env d index)"

definition validate_summary :: "env \<Rightarrow> path \<Rightarrow> check" where
  "validate_summary env path =
     (bindE (load_object_sm env path) (\<lambda>summary.
     bindE (require_string_sm summary ''schema'' ''summary'') (\<lambda>schema.
     if schema = VM_BACKEND_SCHEMA then validate_backend_run_summary env path summary
         else if schema \<noteq> SUMMARY_SCHEMA_sm then Inl (LabSummaryError ''summary has unsupported schema'')
         else if is_backend_live_summary env path summary then validate_backend_live_summary env path summary
         else
         (bindE (require_string_sm summary ''status'' ''summary'') (\<lambda>status.
         thenE (raise_if (status \<notin> set STATUSES) (LabSummaryError (msg [''summary has invalid status: '', status]))) (
         bindE (require_string_sm summary ''mode'' ''summary'') (\<lambda>_.
         bindE (require_string_sm summary ''release_status'' ''summary'') (\<lambda>_.
         thenE (reject_contradictions summary ''summary'') (
         bindE (assert_common env summary ''summary'') (\<lambda>summary_paths.
         bindE (require_bool_sm summary ''release_use'' ''summary'') (\<lambda>release_use.
         bindE (require_list_sm summary ''stages'' ''summary'') (\<lambda>stages.
         thenE (raise_if (stages = [] \<and> status \<noteq> ''REFUSE'') (LabSummaryError ''summary must include stage records unless it is a refusal'')) (
         bindE (mapE (stage_paths_of env) (enumerate_from 0 stages)) (\<lambda>stage_paths.
         if release_use then
         forE (\<lambda>artifact_path. raise_if (\<not> git_tracked env artifact_path)
         (LabSummaryError (msg [''release_use evidence path is not tracked: '', path_str artifact_path]))) (summary_paths @ concat stage_paths)
         else Inr ()))))))))))))))"

definition validate_partial :: "env \<Rightarrow> path \<Rightarrow> check" where
  "validate_partial env path =
     (bindE (load_object_sm env path) (\<lambda>refusal.
     bindE (require_string_sm refusal ''schema'' ''partial'') (\<lambda>schema.
     thenE (raise_if (schema \<noteq> ''zig-scheduler/partial-attach-refusal/v1'') (LabSummaryError ''partial refusal has unsupported schema'')) (
     bindE (require_string_sm refusal ''status'' ''partial'') (\<lambda>status.
     thenE (raise_if (status \<noteq> ''refused-host'') (LabSummaryError ''partial refusal status must be refused-host'')) (
     bindE (require_bool_sm refusal ''host_mutation'' ''partial'') (\<lambda>host_mutation.
     thenE (raise_if host_mutation (LabSummaryError ''partial refusal host_mutation must be false'')) (
     bindE (require_string_sm refusal ''reason_code'' ''partial'') (\<lambda>reason_code.
     thenE (raise_if (reason_code \<notin> set PARTIAL_REASON_CODES) (LabSummaryError (msg [''partial refusal reason_code is unknown: '', reason_code]))) (
     forE (\<lambda>field. bindE (require_string_sm refusal field ''partial'') (\<lambda>_. Inr ())) [''reason'', ''target_cgroup'', ''audit_id'', ''rollback_id'']))))))))))"

text \<open>\<^verbatim>\<open>run\<close> returns the line it prints, \<^verbatim>\<open>main\<close> the line and the exit status; the self-test is a
  parameter.\<close>

definition run_sm :: "check \<Rightarrow> env \<Rightarrow> string list \<Rightarrow> string result" where
  "run_sm self_test env argv =
     (bindE (parse_args_sm argv) (\<lambda>args.
     if args_self_test args then thenE self_test (Inr [])
         else (case args_summary args of
         Some path \<Rightarrow> thenE (validate_summary env path) (Inr (msg [''PASS lab summary schema: '', path_str path]))
         | None \<Rightarrow>
         (case args_partial args of
         Some path \<Rightarrow> thenE (validate_partial env path) (Inr (msg [''PASS partial attach refusal schema: '', path_str path]))
         | None \<Rightarrow>
         (case args_observe args of
         None \<Rightarrow> Inl (LabSummaryError ''internal argument parser error'')
         | Some path \<Rightarrow>
         thenE (reraise is_ObserveSummaryError (\<lambda>exc. LabSummaryError (exn_str exc)) (validate_observe env path))
         (Inr (msg [''PASS observe partial summary: '', path_str path])))))))"

definition main_sm :: "check \<Rightarrow> env \<Rightarrow> string list \<Rightarrow> (string \<times> int) result" where
  "main_sm self_test env argv =
     (case run_sm self_test env argv of
        Inr line \<Rightarrow> Inr (line, 0)
      | Inl e \<Rightarrow>
          if is_BackendSummaryError e \<or> is_EvidenceSafetyError e \<or> is_LabSummaryError e
          then Inr ((msg [''FAIL lab summary schema: '', exn_str e]), 1) else Inl e)"

section \<open>What acceptance means\<close>

interpretation sb_string: field_reader require_string_sb text_of BackendSummaryError
  by unfold_locales (auto simp: require_string_sb_def split: option.splits)

interpretation sb_bool: field_reader require_bool_sb bool_of BackendSummaryError
  by unfold_locales (auto simp: require_bool_sb_def split: option.splits)

interpretation sb_list: field_reader require_list_sb list_of BackendSummaryError
  by unfold_locales (auto simp: require_list_sb_def split: option.splits)

interpretation sb_object: field_reader require_object_sb obj_of BackendSummaryError
  by unfold_locales (auto simp: require_object_sb_def split: option.splits)

interpretation sm_string: field_reader require_string_sm text_of LabSummaryError
  by unfold_locales (auto simp: require_string_sm_def split: option.splits)

interpretation sm_bool: field_reader require_bool_sm bool_of LabSummaryError
  by unfold_locales (auto simp: require_bool_sm_def split: option.splits)

interpretation sm_list: field_reader require_list_sm list_of LabSummaryError
  by unfold_locales (auto simp: require_list_sm_def split: option.splits)

interpretation sm_object: field_reader require_object_sm obj_of LabSummaryError
  by unfold_locales (auto simp: require_object_sm_def split: option.splits)

text \<open>
  The artifact paths of a document, as a loop over its list reads them: each entry is the text of a path
  with a property that its component asks for.
\<close>

definition paths_listed :: "(path \<Rightarrow> bool) \<Rightarrow> json_object \<Rightarrow> path list \<Rightarrow> bool" where
  "paths_listed ok d paths \<longleftrightarrow>
     (\<exists>names. jget d ''artifact_paths'' = JList (map JStr names) \<and> names \<noteq> [] \<and> paths = map mk_path names \<and>
        (\<forall>p \<in> set paths. safe_path p \<and> ok p))"

locale path_entry =
  fixes read :: "nat \<times> json \<Rightarrow> path result"
    and ok :: "path \<Rightarrow> bool"
  assumes entry_ok: "read (i, v) = Inr p \<Longrightarrow> \<exists>s. v = JStr s \<and> p = mk_path s \<and> safe_path p \<and> ok p"
begin

lemma entries_ok:
  "mapE read (enumerate_from n vs) = Inr paths \<Longrightarrow>
     \<exists>names. vs = map JStr names \<and> paths = map mk_path names \<and> (\<forall>p \<in> set paths. safe_path p \<and> ok p)"
proof (induction vs arbitrary: n paths)
  case Nil
  then show ?case by simp
next
  case (Cons v vs)
  then obtain p ps where p: "read (n, v) = Inr p" "mapE read (enumerate_from (Suc n) vs) = Inr ps" "paths = p # ps"
    by (auto simp: bindE_ok_iff)
  obtain names where names: "vs = map JStr names" "ps = map mk_path names" "\<forall>p \<in> set ps. safe_path p \<and> ok p"
    using Cons.IH[OF p(2)] by blast
  obtain s where "v = JStr s" "p = mk_path s" "safe_path p" "ok p" using entry_ok[OF p(1)] by blast
  with names p(3) show ?case by (intro exI[of _ "s # names"]) auto
qed

end

interpretation backend_entry: path_entry "backend_artifact env c base" "\<lambda>p. path_within base p \<and> \<not> fs_is_symlink env p \<and> fs_exists env p"
  by unfold_locales (auto simp: backend_artifact_def Let_def thenE_ok_iff raise_if_ok_iff text_of_iff safe_path_def split: option.splits)

interpretation lab_entry: path_entry "lab_artifact env c" "\<lambda>p. path_within RUN_ALL_PREFIX p \<and> fs_exists env p"
  by unfold_locales (auto simp: lab_artifact_def Let_def thenE_ok_iff raise_if_ok_iff text_of_iff safe_path_def split: option.splits)

lemma assert_backend_artifact_paths_ok:
  assumes "assert_backend_artifact_paths env d c base = Inr paths"
  shows "paths_listed (\<lambda>p. path_within base p \<and> \<not> fs_is_symlink env p \<and> fs_exists env p) d paths"
proof -
  obtain vs where "jget d ''artifact_paths'' = JList vs" "mapE (backend_artifact env c base) (enumerate_from 0 vs) = Inr paths" "paths \<noteq> []"
    using assms unfolding assert_backend_artifact_paths_def bindE_ok_iff thenE_ok_iff raise_if_ok_iff sb_list.read_ok list_of_iff by auto
  then show ?thesis using backend_entry.entries_ok unfolding paths_listed_def by fastforce
qed

lemma assert_artifact_paths_ok:
  assumes "assert_artifact_paths env d c = Inr paths"
  shows "paths_listed (\<lambda>p. path_within RUN_ALL_PREFIX p \<and> fs_exists env p) d paths"
proof -
  obtain vs where "jget d ''artifact_paths'' = JList vs" "mapE (lab_artifact env c) (enumerate_from 0 vs) = Inr paths" "paths \<noteq> []"
    using assms unfolding assert_artifact_paths_def bindE_ok_iff thenE_ok_iff raise_if_ok_iff sm_list.read_ok list_of_iff by auto
  then show ?thesis using lab_entry.entries_ok unfolding paths_listed_def by fastforce
qed

text \<open>An accepted wrapper leads to an accepted live bundle in its own directory.\<close>

definition live_run :: "env \<Rightarrow> path \<Rightarrow> json_object \<Rightarrow> bool" where
  "live_run env path summary \<longleftrightarrow>
     validate_bundle env path = Inr () \<and> jget summary ''status'' = JStr ''PASS'' \<and> jget summary ''evidence_mode'' = JStr ''vm-live'' \<and>
     jget summary ''vm_kind'' = JStr ''qemu-vm'' \<and> jget summary ''vm_marker_present'' = JBool True \<and>
     jget summary ''rollback_result'' = JStr ''PASS'' \<and> jget summary ''host_mutation'' = JBool False \<and>
     jget summary ''release_use'' = JBool False \<and>
     (\<exists>paths. paths_listed (\<lambda>p. path_within (path_parent path) p \<and> \<not> fs_is_symlink env p \<and> fs_exists env p) summary paths)"

lemma validate_backend_live_summary_ok:
  assumes "validate_backend_live_summary env path summary = Inr ()"
  shows "live_run env path summary"
proof -
  let ?c = "''backend live summary''"
  obtain marker host release paths where "validate_bundle env path = Inr ()" "jget summary ''status'' = JStr ''PASS''"
      "jget summary ''evidence_mode'' = JStr ''vm-live''" "jget summary ''vm_kind'' = JStr ''qemu-vm''"
      "jget summary ''rollback_result'' = JStr ''PASS''"
    and flags: "jget summary ''vm_marker_present'' = JBool marker" "marker" "jget summary ''host_mutation'' = JBool host" "\<not> host"
      "jget summary ''release_use'' = JBool release" "\<not> release"
    and paths: "assert_backend_artifact_paths env summary ?c (path_parent path) = Inr paths"
    using assms unfolding validate_backend_live_summary_def Let_def bindE_ok_iff thenE_ok_iff raise_if_ok_iff reraise_ok_iff
      sb_string.read_ok sb_bool.read_ok text_of_iff bool_of_iff not_not
    by (elim exE conjE, hypsubst) (rule that; assumption)
  then show ?thesis unfolding live_run_def using assert_backend_artifact_paths_ok[OF paths] by auto
qed

lemma load_object_sb_lb: "load_object_sb env p = Inr d \<Longrightarrow> load_object_lb env p = Inr d"
  by (auto simp: load_object_sb_def load_object_lb_ok_iff ok_iff obj_of_iff split: option.splits)

text \<open>C22: the accepted wrapper of a VM backend run owns its directory, claims neither a host
  mutation nor to be the release proof itself, lists only existing artifacts below its directory that are not
  symbolic links, and leads to the live summary at its fixed place, a regular file. That summary is a passing run in a
  marked VM with only such artifacts below its own directory, and the artifacts its list names show an episode: the samples
  file it lists is a history in which the scheduler is attached and detached again, with the rolled-back attach, the
  observation summary, the ledger and the daemon events of that bundle accepted.\<close>

theorem backend_wrapper_leads_to_bundle:
  assumes "validate_backend_run_summary env path summary = Inr ()"
  shows "fs_is_file env (path_join (path_parent path) VM_BACKEND_MARKER) \<and>
    jget summary ''host_mutation'' = JBool False \<and> jget summary ''release_eligible_live_proof'' = JBool False \<and>
    (\<exists>paths. paths_listed (\<lambda>p. path_within (path_parent path) p \<and> \<not> fs_is_symlink env p \<and> fs_exists env p) summary paths) \<and>
    (\<exists>live doc samples rows. live = path_join (path_join (path_parent path) ''live'') ''summary.json'' \<and>
       \<not> fs_is_symlink env live \<and> fs_is_file env live \<and> load_object_sb env live = Inr doc \<and> live_run env live doc \<and>
       listed_artifact doc ''runtime-samples.jsonl'' samples \<and> load_jsonl_rs env samples = Inr rows \<and> attach_episode rows \<and>
       bundle_episode env live doc)"
proof -
  let ?live = "path_join (path_join (path_parent path) ''live'') ''summary.json''"
  obtain host release paths name doc where marker: "fs_is_file env (path_join (path_parent path) VM_BACKEND_MARKER)"
    and flags: "jget summary ''host_mutation'' = JBool host" "\<not> host" "jget summary ''release_eligible_live_proof'' = JBool release" "\<not> release"
    and paths: "assert_backend_artifact_paths env summary ''backend summary'' (path_parent path) = Inr paths"
    and live: "mk_path name = ?live" "\<not> fs_is_symlink env (mk_path name)" "fs_is_file env (mk_path name)"
      "load_object_sb env (mk_path name) = Inr doc" "validate_backend_live_summary env (mk_path name) doc = Inr ()"
    using assms unfolding validate_backend_run_summary_def Let_def bindE_ok_iff thenE_ok_iff raise_if_ok_iff reraise_ok_iff
      sb_string.read_ok sb_bool.read_ok text_of_iff bool_of_iff not_not de_Morgan_disj
    by (elim exE conjE) (rule that; assumption)
  have run: "live_run env ?live doc" using validate_backend_live_summary_ok[OF live(5)] unfolding live(1) .
  then obtain doc' where nested: "bundle_episode env ?live doc'" using validate_bundle_ok[of env ?live] unfolding live_run_def by blast
  then obtain samples rows where "load_object_lb env ?live = Inr doc'" and episode: "listed_artifact doc' ''runtime-samples.jsonl'' samples"
      "load_jsonl_rs env samples = Inr rows" "attach_episode rows" unfolding bundle_episode_def by blast
  then have "doc' = doc" using load_object_sb_lb[OF live(4)[unfolded live(1)]] by simp
  then show ?thesis
    using marker flags assert_backend_artifact_paths_ok[OF paths] live(2-4)[unfolded live(1)] run nested episode by auto
qed

text \<open>What a run-all document, the summary or one of its stages, says.\<close>

definition lab_doc :: "env \<Rightarrow> bool \<Rightarrow> json_object \<Rightarrow> bool" where
  "lab_doc env tracked d \<longleftrightarrow>
     jget d ''host_mutation'' = JBool False \<and> (\<exists>r \<in> set ROLLBACK_RESULTS. jget d ''rollback_result'' = JStr r) \<and>
     (\<exists>paths. paths_listed (\<lambda>p. path_within RUN_ALL_PREFIX p \<and> fs_exists env p \<and> (tracked \<longrightarrow> git_tracked env p)) d paths)"

lemma assert_common_ok:
  assumes "assert_common env d c = Inr paths" and "\<And>p. p \<in> set paths \<Longrightarrow> tracked \<Longrightarrow> git_tracked env p"
  shows "lab_doc env tracked d"
proof -
  obtain host r where "jget d ''host_mutation'' = JBool host" "\<not> host" "jget d ''rollback_result'' = JStr r" "r \<in> set ROLLBACK_RESULTS"
    and paths: "assert_artifact_paths env d c = Inr paths"
    using assms(1) unfolding assert_common_def bindE_ok_iff thenE_ok_iff raise_if_ok_iff
      sm_string.read_ok sm_bool.read_ok text_of_iff bool_of_iff not_not
    by (elim exE conjE) (rule that; assumption)
  moreover have "paths_listed (\<lambda>p. path_within RUN_ALL_PREFIX p \<and> fs_exists env p \<and> (tracked \<longrightarrow> git_tracked env p)) d paths"
    using assert_artifact_paths_ok[OF paths] assms(2) unfolding paths_listed_def by blast
  ultimately show ?thesis unfolding lab_doc_def by auto
qed

lemma validate_stage_ok:
  assumes "stage_paths_of env (i, v) = Inr paths" and "\<And>p. p \<in> set paths \<Longrightarrow> tracked \<Longrightarrow> git_tracked env p"
  shows "\<exists>d. v = JObj d \<and> jget d ''schema'' = JStr STAGE_SCHEMA \<and> lab_doc env tracked d"
proof -
  obtain d where d: "v = JObj d" "validate_stage env d i = Inr paths"
    using assms(1) by (auto simp: stage_paths_of_def obj_of_iff split: option.splits)
  then obtain schema where "jget d ''schema'' = JStr schema" "schema = STAGE_SCHEMA" "assert_common env d (msg [''stage['', show_nat i, '']'']) = Inr paths"
    unfolding validate_stage_def Let_def bindE_ok_iff thenE_ok_iff raise_if_ok_iff sm_string.read_ok text_of_iff not_not
    by (elim exE conjE) (rule that; assumption)
  with d assms(2) assert_common_ok show ?thesis by blast
qed

text \<open>C23: an accepted run-all summary does not contradict itself, it and each of its stages deny a
  host mutation and state a known rollback result, and list at least one artifact, each at a safe path below
  the run-all directory that exists; if the summary is meant for release use, every one of them is tracked by
  git. Only a refusal has no stages.\<close>

theorem lab_release_paths_tracked:
  assumes "validate_summary env path = Inr ()" and "load_object_sm env path = Inr summary"
    and "jget summary ''schema'' = JStr SUMMARY_SCHEMA_sm" and "\<not> is_backend_live_summary env path summary"
  shows "\<exists>release stages. jget summary ''release_use'' = JBool release \<and> jget summary ''stages'' = JList stages \<and>
    uncontradicted summary \<and> lab_doc env release summary \<and> (stages = [] \<longrightarrow> jget summary ''status'' = JStr ''REFUSE'') \<and>
    (\<forall>v \<in> set stages. \<exists>d. v = JObj d \<and> jget d ''schema'' = JStr STAGE_SCHEMA \<and> lab_doc env release d)"
proof -
  have schema: "require_string_sm summary ''schema'' ''summary'' = Inr SUMMARY_SCHEMA_sm"
    using assms(3) by (simp add: require_string_sm_def SUMMARY_SCHEMA_sm_def)
  have kind: "(SUMMARY_SCHEMA_sm = VM_BACKEND_SCHEMA) = False" "(SUMMARY_SCHEMA_sm \<noteq> SUMMARY_SCHEMA_sm) = False"
      "is_backend_live_summary env path summary = False"
    using assms(4) by (simp_all add: SUMMARY_SCHEMA_sm_def VM_BACKEND_SCHEMA_def)
  obtain status paths release stages stage_paths where
    status: "jget summary ''status'' = JStr status" and "uncontradicted summary"
    and common: "assert_common env summary ''summary'' = Inr paths" and release: "jget summary ''release_use'' = JBool release"
    and stages: "jget summary ''stages'' = JList stages" "\<not> (stages = [] \<and> status \<noteq> ''REFUSE'')"
    and loop: "mapE (stage_paths_of env) (enumerate_from 0 stages) = Inr stage_paths"
    and tracked: "release \<longrightarrow> (\<forall>p \<in> set (paths @ concat stage_paths). \<not> \<not> git_tracked env p)"
    using assms(1) unfolding validate_summary_def assms(2) bindE_simps schema kind if_False bindE_ok_iff thenE_ok_iff raise_if_ok_iff guarded_ok_iff
      forE_ok_iff reject_contradictions_ok_iff sm_string.read_ok sm_bool.read_ok sm_list.read_ok text_of_iff bool_of_iff list_of_iff
    by (elim exE conjE) (rule that; assumption)
  have "lab_doc env release summary" by (rule assert_common_ok[OF common]) (use tracked in auto)
  moreover have "\<exists>d. v = JObj d \<and> jget d ''schema'' = JStr STAGE_SCHEMA \<and> lab_doc env release d" if v: "v \<in> set stages" for v
  proof -
    obtain i where "(i, v) \<in> set (enumerate_from 0 stages)" using enumerate_from_index[OF v, of 0] by blast
    then obtain ps where ps: "ps \<in> set stage_paths" "stage_paths_of env (i, v) = Inr ps"
      using loop unfolding mapE_ok_iff by (auto dest: list_all2_left)
    show ?thesis by (rule validate_stage_ok[OF ps(2)]) (use tracked ps(1) in auto)
  qed
  ultimately show ?thesis using \<open>uncontradicted summary\<close> release stages status by blast
qed

section \<open>Accepted summaries\<close>

abbreviation lab_fields :: json_object where
  "lab_fields \<equiv>
     [(''status'', JStr ''PASS''), (''host_mutation'', JBool False), (''git_sha'', JStr ''abc''),
      (''kernel_tuple'', JObj [(''release'', JStr ''6.12''), (''arch'', JStr ''x86_64''), (''config_sha256'', JStr ''ab'')]),
      (''vm_kind'', JStr ''none''), (''rollback_result'', JStr ''N/A''), (''started_at'', JStr ''2026-07-02T00:00:00Z''),
      (''ended_at'', JStr ''2026-07-02T00:00:01Z''), (''artifact_paths'', JList [JStr ''evidence/lab/run-all/x/log''])]"

definition lab_summary :: json_object where
  "lab_summary = (''schema'', JStr SUMMARY_SCHEMA_sm) # (''mode'', JStr ''lab'') # (''release_status'', JStr ''none'') # (''release_use'', JBool True) #
     (''stages'', JList [JObj ((''schema'', JStr STAGE_SCHEMA) # (''stage'', JStr ''s'') # (''reason'', JStr ''r'') # (''command'', JStr ''c'') # lab_fields)]) #
     lab_fields"

definition lab_env :: env where
  "lab_env = files_env [(''s.json'', ''S''), (''evidence/lab/run-all/x/log'', ''log'')] [] [(''S'', JObj lab_summary)]"

lemma lab_env_accepted: "validate_summary lab_env (mk_path ''s.json'') = Inr ()"
  by code_simp

lemma lab_env_summary: "load_object_sm lab_env (mk_path ''s.json'') = Inr lab_summary"
  by code_simp

theorem lab_release_paths_tracked_witness:
  "validate_summary lab_env (mk_path ''s.json'') = Inr () \<and> lab_doc lab_env True lab_summary"
proof -
  have "jget lab_summary ''schema'' = JStr SUMMARY_SCHEMA_sm" "\<not> is_backend_live_summary lab_env (mk_path ''s.json'') lab_summary"
    "jget lab_summary ''release_use'' = JBool True" by code_simp+
  with lab_release_paths_tracked[OF lab_env_accepted lab_env_summary] lab_env_accepted show ?thesis by auto
qed

lemma live_env_wrapper:
  "fs_is_file live_env (path_join (path_parent (mk_path ''b/backend/summary.json'')) VM_BACKEND_MARKER)"
  "load_object_sb live_env live_path = Inr (live_doc ''RUN'')"
  "path_join (path_join (path_parent (mk_path ''b/backend/summary.json'')) ''live'') ''summary.json'' = live_path"
  "\<not> fs_is_symlink live_env live_path" "fs_is_file live_env live_path"
  "assert_kernel_tuple_sb (live_doc ''RUN'') ''backend live summary'' = Inr ()"
  "validate_backend_stages live_env (live_doc ''RUN'') (path_parent live_path) = Inr ()"
  by code_simp+

lemma live_env_paths:
  "\<exists>ps. assert_backend_artifact_paths live_env (live_doc ''RUN'') ''backend live summary'' (path_parent live_path) = Inr ps"
  "\<exists>ps. assert_backend_artifact_paths live_env (live_doc ''BS'') ''backend summary'' (path_parent (mk_path ''b/backend/summary.json'')) = Inr ps"
proof -
  have "assert_backend_artifact_paths live_env (live_doc ''RUN'') ''backend live summary'' (path_parent live_path) = Inr live_artifacts"
    by code_simp
  then show "\<exists>ps. assert_backend_artifact_paths live_env (live_doc ''RUN'') ''backend live summary'' (path_parent live_path) = Inr ps" by blast
  have "assert_backend_artifact_paths live_env (live_doc ''BS'') ''backend summary'' (path_parent (mk_path ''b/backend/summary.json'')) = Inr [live_path]"
    by code_simp
  then show "\<exists>ps. assert_backend_artifact_paths live_env (live_doc ''BS'') ''backend summary'' (path_parent (mk_path ''b/backend/summary.json'')) = Inr ps" by blast
qed

lemma live_env_live: "validate_backend_live_summary live_env live_path (live_doc ''RUN'') = Inr ()"
proof -
  let ?c = "''backend live summary''"
  have texts: "require_string_sb (live_doc ''RUN'') ''status'' ?c = Inr ''PASS''" "require_string_sb (live_doc ''RUN'') ''evidence_mode'' ?c = Inr ''vm-live''"
    "require_string_sb (live_doc ''RUN'') ''vm_kind'' ?c = Inr ''qemu-vm''" "require_string_sb (live_doc ''RUN'') ''vm_marker_path'' ?c = Inr VM_MARKER_sb"
    "require_string_sb (live_doc ''RUN'') ''rollback_result'' ?c = Inr ''PASS''" "require_string_sb (live_doc ''RUN'') ''output_dir'' ?c = Inr ''b/backend/live''"
    "require_bool_sb (live_doc ''RUN'') ''vm_marker_present'' ?c = Inr True" "require_bool_sb (live_doc ''RUN'') ''host_mutation'' ?c = Inr False"
    "require_bool_sb (live_doc ''RUN'') ''release_use'' ?c = Inr False" "require_bool_sb (live_doc ''RUN'') ''release_eligible_live_proof'' ?c = Inr True"
    "mk_path ''b/backend/live'' = path_parent live_path"
    by code_simp+
  obtain ps where ps: "assert_backend_artifact_paths live_env (live_doc ''RUN'') ?c (path_parent live_path) = Inr ps"
    using live_env_paths(1) by blast
  show ?thesis
    unfolding validate_backend_live_summary_def Let_def live_env_accepted texts ps live_env_wrapper
    using texts(11) by (simp add: reraise_def raise_if_def)
qed

lemma live_env_run: "validate_backend_run_summary live_env (mk_path ''b/backend/summary.json'') (live_doc ''BS'') = Inr ()"
proof -
  let ?c = "''backend summary''"
  have texts: "require_string_sb (live_doc ''BS'') ''status'' ?c = Inr ''PASS''" "require_string_sb (live_doc ''BS'') ''mode'' ?c = Inr ''vm-required''"
    "require_string_sb (live_doc ''BS'') ''vm_kind'' ?c = Inr ''qemu-vm''" "require_string_sb (live_doc ''BS'') ''vm_marker_required'' ?c = Inr VM_MARKER_sb"
    "require_string_sb (live_doc ''BS'') ''output_dir'' ?c = Inr ''b/backend''" "require_string_sb (live_doc ''BS'') ''live_summary'' ?c = Inr ''b/backend/live/summary.json''"
    "require_bool_sb (live_doc ''BS'') ''host_mutation'' ?c = Inr False" "require_bool_sb (live_doc ''BS'') ''release_eligible_live_proof'' ?c = Inr False"
    "mk_path ''b/backend'' = path_parent (mk_path ''b/backend/summary.json'')"
    by code_simp+
  obtain ps where ps: "assert_backend_artifact_paths live_env (live_doc ''BS'') ?c (path_parent (mk_path ''b/backend/summary.json'')) = Inr ps"
    using live_env_paths(2) by blast
  show ?thesis
    unfolding validate_backend_run_summary_def Let_def texts ps live_env_wrapper
    using live_env_wrapper(1,4,5) texts(9) by (simp add: raise_if_def live_env_wrapper(2) live_env_live)
qed

theorem backend_wrapper_leads_to_bundle_witness:
  "validate_backend_run_summary live_env (mk_path ''b/backend/summary.json'') (live_doc ''BS'') = Inr () \<and>
   (\<exists>doc samples rows. load_object_sb live_env live_path = Inr doc \<and> live_run live_env live_path doc \<and>
      listed_artifact doc ''runtime-samples.jsonl'' samples \<and> load_jsonl_rs live_env samples = Inr rows \<and> attach_episode rows \<and>
      bundle_episode live_env live_path doc)"
  using backend_wrapper_leads_to_bundle[OF live_env_run] live_env_run unfolding live_env_wrapper(3) by blast

section \<open>What escapes the command line\<close>

text \<open>C40: what the command makes of a live summary whose nested bundle fails, for every exception. The
  exceptions of the live-behaviour check and of the evidence-safety check end in the failure line with the exception's own message
  and exit status 1. Every other one goes unchanged through the translation, which names the live-behaviour exception only,
  and through the command's handler, except for the two classes the command itself raises: so the exceptions of the partial-attach
  evidence, the observation summary, the samples and the ledger, which the bundle's check calls, end the command with a traceback.\<close>

theorem lab_nested_errors_escape:
  assumes "load_object_sm env (mk_path p) = Inr summary" and "jget summary ''schema'' = JStr SUMMARY_SCHEMA_sm"
    and "is_backend_live_summary env (mk_path p) summary" and "validate_bundle env (mk_path p) = Inl e"
  shows "main_sm self_test env [''--summary'', p] =
      (if is_LiveBehaviorError e \<or> is_EvidenceSafetyError e \<or> is_BackendSummaryError e \<or> is_LabSummaryError e
       then Inr ((msg [''FAIL lab summary schema: '', exn_str e]), 1) else Inl e)"
proof -
  let ?e = "if is_LiveBehaviorError e then BackendSummaryError (exn_str e) else e"
  have "validate_backend_live_summary env (mk_path p) summary = Inl ?e"
    using assms(4) by (simp add: validate_backend_live_summary_def reraise_def)
  moreover have "require_string_sm summary ''schema'' ''summary'' = Inr SUMMARY_SCHEMA_sm"
    using assms(2) by (simp add: require_string_sm_def SUMMARY_SCHEMA_sm_def)
  ultimately have "validate_summary env (mk_path p) = Inl ?e"
    using assms(1,3) by (simp add: validate_summary_def SUMMARY_SCHEMA_sm_def VM_BACKEND_SCHEMA_def)
  then have "run_sm self_test env [''--summary'', p] = Inl ?e"
    by (simp add: run_sm_def parse_args_sm_def)
  then show ?thesis by (simp add: main_sm_def)
qed

definition broken_live_env :: env where
  "broken_live_env = live_env \<lparr> json_decode := (\<lambda>s. if s = ''E'' then Decoded JNull else json_decode live_env s) \<rparr>"

theorem lab_nested_errors_escape_witness:
  "main_sm (Inr ()) broken_live_env [''--summary'', ''b/backend/live/summary.json''] =
     Inl (PartialAttachError ''b/backend/live/partial-attach-evidence.json must contain a JSON object'')"
proof -
  have "load_object_sm broken_live_env live_path = Inr (live_doc ''RUN'')" by code_simp
  moreover have "jget (live_doc ''RUN'') ''schema'' = JStr SUMMARY_SCHEMA_sm" by code_simp
  moreover have "is_backend_live_summary broken_live_env live_path (live_doc ''RUN'')" by code_simp
  moreover have "validate_bundle broken_live_env live_path =
      Inl (PartialAttachError ''b/backend/live/partial-attach-evidence.json must contain a JSON object'')" by code_simp
  ultimately show ?thesis using lab_nested_errors_escape[of broken_live_env "''b/backend/live/summary.json''"] by simp
qed

end
