(* ===== verification/BpfArtifacts.thy ===== *)
theory BpfArtifacts
  imports Readers
begin

text \<open>
  \<^verbatim>\<open>qa/bpf_artifacts.py\<close>: the BPF object and its metadata. When the canonical pair is missing, the build
  script is run, which changes the file system; so the operations that may build take the environment and return
  the one they leave behind.
\<close>

section \<open>Model\<close>

text \<open>
  The programs outside the repository: the build, which ends with a return code, its output and the files it
  leaves, or cannot be started; and reading a text with \<^verbatim>\<open>errors="replace"\<close>.
\<close>

record tools =
  build_script :: "env \<Rightarrow> (int \<times> string \<times> string \<times> env) result"
  read_replace :: "env \<Rightarrow> path \<Rightarrow> string result"

definition CANONICAL_OBJECT :: path where
  "CANONICAL_OBJECT = mk_path ''zig-out/bpf/zigsched_minimal.bpf.o''"

definition CANONICAL_METADATA :: path where
  "CANONICAL_METADATA = mk_path ''zig-out/bpf/zigsched_minimal.bpf.meta.json''"

record bpf_artifacts =
  object_path :: path
  metadata_path :: path
  object_sha256 :: string

definition require_text_ba :: "json_object \<Rightarrow> string \<Rightarrow> string \<Rightarrow> string result" where
  "require_text_ba data field context =
     (case text_of (jget data field) of
        None \<Rightarrow> Inl (BpfArtifactError (msg [context, '' missing text field: '', field]))
      | Some s \<Rightarrow> Inr s)"

definition load_metadata :: "env \<Rightarrow> path \<Rightarrow> json_object result" where
  "load_metadata env path =
     (bindE (reraise is_JSONDecodeError (\<lambda>_. BpfArtifactError (msg [''invalid BPF metadata JSON: '', path_str path]))
         (bindE (fs_read_text env path) (json_loads env))) (\<lambda>raw.
     case obj_of raw of
         None \<Rightarrow> Inl (BpfArtifactError ''BPF metadata must contain a JSON object'')
         | Some d \<Rightarrow> Inr d))"

definition validate_bpf_artifacts :: "env \<Rightarrow> path \<Rightarrow> path \<Rightarrow> bpf_artifacts result" where
  "validate_bpf_artifacts env opath mpath =
     (thenE (raise_if (\<not> fs_is_file env opath) (BpfArtifactError (msg [''missing BPF object: '', path_str opath]))) (
     thenE (raise_if (\<not> fs_is_file env mpath) (BpfArtifactError (msg [''missing BPF metadata: '', path_str mpath]))) (
     bindE (fs_sha256 env opath) (\<lambda>object_sha.
     bindE (load_metadata env mpath) (\<lambda>metadata.
     bindE (require_text_ba metadata ''schema'' ''metadata'') (\<lambda>_.
     thenE (raise_if (jget metadata ''schema'' \<noteq> JStr ''zig-scheduler/bpf-object-metadata/v1'') (BpfArtifactError ''BPF metadata schema mismatch'')) (
     thenE (raise_if (jget metadata ''object_sha256'' \<noteq> JStr object_sha) (BpfArtifactError ''BPF metadata object_sha256 disagrees with object'')) (
     thenE (raise_if (jget metadata ''object_hash'' \<noteq> JStr (''sha256:'' @ object_sha)) (BpfArtifactError ''BPF metadata object_hash disagrees with object'')) (
     thenE (raise_if (case str_of (jget metadata ''object'') of None \<Rightarrow> False | Some s \<Rightarrow> mk_path s \<noteq> opath)
         (BpfArtifactError ''BPF metadata object path disagrees with object'')) (
     thenE (raise_if (jget metadata ''host_mutation'' \<noteq> JBool False \<or> jget metadata ''host_attach_allowed'' \<noteq> JBool False)
         (BpfArtifactError ''BPF metadata does not preserve host fail-closed policy'')) (
     thenE (raise_if (jget metadata ''vm_only'' \<noteq> JBool True) (BpfArtifactError ''BPF metadata must be VM-only'')) (
     thenE (raise_if (jget metadata ''verification_claimed'' \<noteq> JBool False) (BpfArtifactError ''BPF metadata must not claim verifier success'')) (
     (case obj_of (jget metadata ''tool_versions'') of
         None \<Rightarrow> Inl (BpfArtifactError ''BPF metadata missing tool_versions object'')
         | Some tool_versions \<Rightarrow>
         (bindE (require_text_ba tool_versions ''clang_path'' ''tool_versions'') (\<lambda>clang_path.
         (let clang_path_value = mk_path clang_path in
         bindE (if is_absolute clang_path_value then bindE (path_resolve env clang_path_value) (\<lambda>p. Inr (p = clang_path_value)) else Inr False) (\<lambda>canonical.
         thenE (raise_if (\<not> canonical)
         (BpfArtifactError ''BPF metadata tool_versions.clang_path must be canonical'')) (
         Inr \<lparr> object_path = opath, metadata_path = mpath, object_sha256 = object_sha \<rparr>)))))))))))))))))))"

definition run_build_bpf :: "tools \<Rightarrow> env \<Rightarrow> env result" where
  "run_build_bpf tools env =
     bindE (reraise is_FileNotFoundError (\<lambda>_. BpfArtifactError ''could not run tools/build_bpf.sh'') (build_script tools env))
       (\<lambda>(returncode, stdout, stderr, env').
          thenE (raise_if (returncode \<noteq> 0) (BpfArtifactError (msg [''BPF build failed: '', strip (stdout @ stderr)]))) (Inr env'))"

definition canonical_missing :: "env \<Rightarrow> bool" where
  "canonical_missing env \<longleftrightarrow> \<not> fs_is_file env CANONICAL_OBJECT \<or> \<not> fs_is_file env CANONICAL_METADATA"

definition ensure_canonical_bpf_artifacts :: "tools \<Rightarrow> env \<Rightarrow> (env \<times> bpf_artifacts) result" where
  "ensure_canonical_bpf_artifacts tools env =
     (bindE (if canonical_missing env then run_build_bpf tools env else Inr env) (\<lambda>env'.
     bindE (validate_bpf_artifacts env' CANONICAL_OBJECT CANONICAL_METADATA) (\<lambda>artifacts.
     Inr (env', artifacts))))"

definition ensure_if_canonical :: "tools \<Rightarrow> env \<Rightarrow> path \<Rightarrow> env result" where
  "ensure_if_canonical tools env path =
     (if path \<in> {CANONICAL_OBJECT, CANONICAL_METADATA} \<and> canonical_missing env
      then bindE (ensure_canonical_bpf_artifacts tools env) (\<lambda>(env', _). Inr env')
      else Inr env)"

section \<open>What the metadata of an object states\<close>

definition describes_object :: "env \<Rightarrow> path \<Rightarrow> path \<Rightarrow> string \<Rightarrow> bool" where
  "describes_object env opath mpath sha \<longleftrightarrow>
     fs_is_file env opath \<and> fs_sha256 env opath = Inr sha \<and>
     (\<exists>metadata. load_metadata env mpath = Inr metadata \<and> jget metadata ''object_sha256'' = JStr sha \<and>
        jget metadata ''object_hash'' = JStr (''sha256:'' @ sha) \<and> (\<forall>s. jget metadata ''object'' = JStr s \<longrightarrow> mk_path s = opath) \<and>
        jget metadata ''host_mutation'' = JBool False \<and> jget metadata ''host_attach_allowed'' = JBool False \<and>
        jget metadata ''vm_only'' = JBool True \<and> jget metadata ''verification_claimed'' = JBool False)"

lemma validate_bpf_artifacts_ok:
  assumes "validate_bpf_artifacts env opath mpath = Inr a"
  shows "describes_object env opath mpath (object_sha256 a) \<and> object_path a = opath \<and> metadata_path a = mpath"
proof -
  obtain sha metadata tv where obj: "fs_is_file env opath" "fs_sha256 env opath = Inr sha" "load_metadata env mpath = Inr metadata"
    and fields: "jget metadata ''object_sha256'' = JStr sha" "jget metadata ''object_hash'' = JStr (''sha256:'' @ sha)"
      "\<not> (case str_of (jget metadata ''object'') of None \<Rightarrow> False | Some s \<Rightarrow> mk_path s \<noteq> opath)"
      "\<not> (jget metadata ''host_mutation'' \<noteq> JBool False \<or> jget metadata ''host_attach_allowed'' \<noteq> JBool False)"
      "jget metadata ''vm_only'' = JBool True" "jget metadata ''verification_claimed'' = JBool False"
    and tv: "obj_of (jget metadata ''tool_versions'') = Some tv"
    and a: "a = \<lparr> object_path = opath, metadata_path = mpath, object_sha256 = sha \<rparr>"
    using assms unfolding validate_bpf_artifacts_def Let_def bindE_ok_iff thenE_ok_iff raise_if_ok_iff case_option_ok_iff sum.inject not_not
    by (auto split: option.splits)
  have "mk_path s = opath" if "jget metadata ''object'' = JStr s" for s using fields(3) that by simp
  then show ?thesis using obj fields a unfolding describes_object_def by auto
qed

text \<open>A step leads from an environment to the same one or to the one that a successful build left.\<close>

definition leads_to :: "tools \<Rightarrow> env \<Rightarrow> env \<Rightarrow> bool" where
  "leads_to tools env env' \<longleftrightarrow> env' = env \<or> (\<exists>out err. canonical_missing env \<and> build_script tools env = Inr (0, out, err, env'))"

lemma ensure_if_canonical_ok:
  assumes "ensure_if_canonical tools env path = Inr env'"
  shows "leads_to tools env env'"
  using assms unfolding ensure_if_canonical_def ensure_canonical_bpf_artifacts_def run_build_bpf_def leads_to_def
  by (auto simp: ok_iff split: if_splits)

end
