(* ===== verification/VerifierVm.thy ===== *)
theory VerifierVm
  imports BpfArtifacts PartialAttach
begin

text \<open>
  \<^verbatim>\<open>qa/verifier_vm_check.py\<close>: the evidence that the kernel's verifier accepted the BPF object inside the VM,
  and the log it rests on, a text of \<^verbatim>\<open>key=value\<close> lines. The dict that such a text is read into is an
  association list with the latest assignment first, so that a later line overrides an earlier one.
\<close>

section \<open>Model\<close>

definition SCHEMA_vm :: string where
  "SCHEMA_vm = ''zig-scheduler/verifier-log-parse/v1''"

definition VM_EVIDENCE_SCHEMA :: string where
  "VM_EVIDENCE_SCHEMA = ''zig-scheduler/vm-verifier-evidence/v1''"

definition VM_LOG_SCHEMA :: string where
  "VM_LOG_SCHEMA = ''zig-scheduler/bpf-verifier-log/v1''"

definition VM_MARKER :: string where
  "VM_MARKER = ''/run/zig-scheduler-vm-lab.marker''"

definition LIVE_MODE :: string where
  "LIVE_MODE = ''vm-live''"

definition LIVE_VM_KIND :: string where
  "LIVE_VM_KIND = ''qemu-vm''"

type_synonym log_values = "(string \<times> string) list"

text \<open>\<^verbatim>\<open>values.get(field, default)\<close>, and \<^verbatim>\<open>s.split(sep, 1)\<close> of a text that has the separator.\<close>

definition get_default :: "log_values \<Rightarrow> string \<Rightarrow> string \<Rightarrow> string" where
  "get_default values field dflt = (case map_of values field of None \<Rightarrow> dflt | Some v \<Rightarrow> v)"

definition split_once :: "char \<Rightarrow> string \<Rightarrow> string \<times> string" where
  "split_once sep s = (takeWhile (\<lambda>c. c \<noteq> sep) s, drop 1 (dropWhile (\<lambda>c. c \<noteq> sep) s))"

record artifact_claims =
  claimed_object :: path
  claimed_object_sha :: string
  claimed_metadata :: path
  claimed_metadata_sha :: string

definition key_value_step :: "log_values \<Rightarrow> string \<Rightarrow> log_values" where
  "key_value_step values line =
     (if CHR ''='' \<in> set line \<and> \<not> prefix ''COMMAND:'' line
      then (let (key, v) = split_once CHR ''='' line in (key, v) # values) else values)"

definition parse_key_values :: "string \<Rightarrow> log_values" where
  "parse_key_values text = foldl (\<lambda>values raw. key_value_step values (strip raw)) [] (splitlines text)"

definition require_text_vm :: "json_object \<Rightarrow> string \<Rightarrow> string result" where
  "require_text_vm data field =
     (case text_of (jget data field) of
        None \<Rightarrow> Inl (VMVerifierError (msg [''VM verifier evidence missing text field: '', field]))
      | Some s \<Rightarrow> Inr s)"

definition require_bool_vm :: "json_object \<Rightarrow> string \<Rightarrow> bool result" where
  "require_bool_vm data field =
     (case bool_of (jget data field) of
        None \<Rightarrow> Inl (VMVerifierError (msg [''VM verifier evidence missing bool field: '', field]))
      | Some b \<Rightarrow> Inr b)"

definition require_object_vm :: "json_object \<Rightarrow> string \<Rightarrow> json_object result" where
  "require_object_vm data field =
     (case obj_of (jget data field) of
        None \<Rightarrow> Inl (VMVerifierError (msg [''VM verifier evidence missing object field: '', field]))
      | Some d \<Rightarrow> Inr d)"

definition require_key :: "log_values \<Rightarrow> string \<Rightarrow> string result" where
  "require_key values field =
     (let value = get_default values field [] in
      if value = [] then Inl (VMVerifierError (msg [''VM verifier log missing field: '', field])) else Inr value)"

definition require_sha256_vm :: "string \<Rightarrow> string \<Rightarrow> check" where
  "require_sha256_vm value context =
     raise_if (length value \<noteq> 64 \<or> list_ex (\<lambda>c. c \<notin> set ''0123456789abcdef'') value)
       (VMVerifierError (msg [context, '' must be a lowercase sha256'']))"

definition require_checked_sha :: "json_object \<Rightarrow> string \<Rightarrow> string result" where
  "require_checked_sha data field =
     (bindE (require_text_vm data field) (\<lambda>value.
     thenE (require_sha256_vm value field) (
     Inr value)))"

definition require_checked_value :: "log_values \<Rightarrow> string \<Rightarrow> string result" where
  "require_checked_value values field =
     (bindE (require_key values field) (\<lambda>value.
     thenE (require_sha256_vm value field) (
     Inr value)))"

definition require_relative_file :: "tools \<Rightarrow> env \<Rightarrow> string \<Rightarrow> string \<Rightarrow> (env \<times> path) result" where
  "require_relative_file tools env raw_path context =
     (let path = mk_path raw_path in
      (thenE (raise_if (is_absolute path \<or> ''..'' \<in> set (path_parts path) \<or> fs_is_symlink env path) (VMVerifierError (msg [context, '' path is unsafe'']))) (
      bindE (reraise is_BpfArtifactError (\<lambda>exc. VMVerifierError (exn_str exc)) (ensure_if_canonical tools env path)) (\<lambda>env'.
      thenE (raise_if (\<not> fs_is_file env' path) (VMVerifierError (msg [context, '' path is missing'']))) (
      Inr (env', path))))))"

definition require_vm_live_fields :: "json_object \<Rightarrow> string \<Rightarrow> check" where
  "require_vm_live_fields data context =
     (bindE (require_text_vm data ''evidence_mode'') (\<lambda>mode.
     thenE (raise_if (mode \<noteq> LIVE_MODE) (VMVerifierError (msg [context, '' is not VM-live evidence'']))) (
     bindE (require_text_vm data ''vm_kind'') (\<lambda>kind.
     thenE (raise_if (kind \<noteq> LIVE_VM_KIND) (VMVerifierError (msg [context, '' must come from qemu-vm'']))) (
     bindE (require_bool_vm data ''vm_marker_present'') (\<lambda>marker.
     thenE (raise_if (\<not> marker) (VMVerifierError (msg [context, '' missing VM marker'']))) (
     bindE (require_text_vm data ''vm_marker_path'') (\<lambda>marker_path.
     thenE (raise_if (marker_path \<noteq> VM_MARKER) (VMVerifierError (msg [context, '' has invalid VM marker path'']))) (
     bindE (require_object_vm data ''kernel_tuple'') (\<lambda>kernel.
     forE (\<lambda>field. raise_if (text_of (jget kernel field) = None) (VMVerifierError (msg [context, '' missing kernel tuple field: '', field])))
         [''release'', ''arch'', ''config_sha256'']))))))))))"

definition require_vm_acceptance_fields :: "json_object \<Rightarrow> string \<Rightarrow> check" where
  "require_vm_acceptance_fields data context =
     (bindE (require_text_vm data ''status'') (\<lambda>status.
     thenE (raise_if (status \<noteq> ''PASS'') (VMVerifierError (msg [context, '' status must be PASS'']))) (
     bindE (require_text_vm data ''verifier_result'') (\<lambda>verifier.
     thenE (raise_if (verifier \<noteq> ''accepted'') (VMVerifierError (msg [context, '' must report verifier acceptance'']))) (
     bindE (require_text_vm data ''attach_result'') (\<lambda>attach.
     thenE (raise_if (attach \<noteq> ''registered'') (VMVerifierError (msg [context, '' must report registered attach'']))) (
     bindE (require_text_vm data ''rollback_status'') (\<lambda>rollback.
     raise_if (rollback \<noteq> ''PASS'') (VMVerifierError (msg [context, '' must include rollback PASS'']))))))))))"

definition require_vm_log_values :: "log_values \<Rightarrow> check" where
  "require_vm_log_values values =
     (thenE (raise_if (map_of values ''evidence_mode'' \<noteq> Some LIVE_MODE) (VMVerifierError ''VM verifier log is not VM-live evidence'')) (
     thenE (raise_if (map_of values ''vm_kind'' \<noteq> Some LIVE_VM_KIND) (VMVerifierError ''VM verifier log must come from qemu-vm'')) (
     thenE (raise_if (map_of values ''vm_marker_present'' \<noteq> Some ''true'' \<or> map_of values ''vm_marker_path'' \<noteq> Some VM_MARKER)
         (VMVerifierError ''VM verifier log missing VM marker proof'')) (
     thenE (raise_if (map_of values ''host_mutation'' \<noteq> Some ''false'') (VMVerifierError ''VM verifier log must have host_mutation=false'')) (
     thenE (raise_if (map_of values ''release_eligible_live_proof'' \<noteq> Some ''true'') (VMVerifierError ''VM verifier log must be release-eligible VM-live proof'')) (
     thenE (raise_if (map_of values ''verifier_result'' \<noteq> Some ''accepted'') (VMVerifierError ''VM verifier log must report verifier acceptance'')) (
     thenE (raise_if (map_of values ''attach_result'' \<noteq> Some ''registered'') (VMVerifierError ''VM verifier log must report registered attach'')) (
     raise_if (map_of values ''rollback_status'' \<noteq> Some ''PASS'') (VMVerifierError ''VM verifier log must include rollback PASS'')))))))))"

definition require_vm_log_acceptance :: "string \<Rightarrow> string \<Rightarrow> check" where
  "require_vm_log_acceptance text context =
     (let low = lower text in
      thenE
        (forE (\<lambda>needle. raise_if (contains needle low) (VMVerifierError (msg [context, '' contains verifier rejection: '', needle])))
          [''invalid mem access'', ''unknown func'', ''invalid func'', ''program rejected'', ''permission denied''])
        (forE (\<lambda>needle. raise_if (\<not> contains needle low) (VMVerifierError (msg [context, '' missing VM verifier marker: '', needle])))
          [''verification time'', ''registered sched_ext_ops'', ''unregistered sched_ext_ops'']))"

definition require_log_matches_evidence :: "log_values \<Rightarrow> json_object \<Rightarrow> check" where
  "require_log_matches_evidence values evidence =
     forE (\<lambda>field.
       (bindE (require_key values field) (\<lambda>logged.
       bindE (require_text_vm evidence field) (\<lambda>stated.
       raise_if (logged \<noteq> stated) (VMVerifierError (msg [''VM verifier evidence '', field, '' disagrees with verifier log'']))))))
       [''object'', ''object_sha256'', ''bpf_metadata_path'', ''bpf_metadata_object_sha256'']"

definition require_artifact_hashes :: "env \<Rightarrow> artifact_claims \<Rightarrow> check" where
  "require_artifact_hashes env claims =
     (bindE (reraise is_BpfArtifactError (\<lambda>exc. VMVerifierError (exn_str exc))
         (validate_bpf_artifacts env (claimed_object claims) (claimed_metadata claims))) (\<lambda>artifacts.
     thenE (raise_if (claimed_object_sha claims \<noteq> object_sha256 artifacts)
         (VMVerifierError ''VM verifier evidence object_sha256 disagrees with object file'')) (
     raise_if (claimed_metadata_sha claims \<noteq> object_sha256 artifacts)
         (VMVerifierError ''VM verifier metadata object sha disagrees with object''))))"

definition parse_bpftool_rc :: "log_values \<Rightarrow> int option result" where
  "parse_bpftool_rc values =
     (let value = get_default values ''bpftool_rc'' [] in
      if value = [] then Inr None
      else thenE (raise_if (\<not> isdigit value) (VMVerifierError (msg [''invalid bpftool_rc: '', value])))
             (bindE (py_int value) (\<lambda>n. Inr (Some n))))"

definition json_int :: "int option \<Rightarrow> json" where
  "json_int n = (case n of None \<Rightarrow> JNull | Some i \<Rightarrow> JInt i)"

definition parse_vm_evidence :: "tools \<Rightarrow> env \<Rightarrow> path \<Rightarrow> json_object \<Rightarrow> (env \<times> json_object) result" where
  "parse_vm_evidence tools env path raw =
     (thenE (raise_if (jget raw ''host_mutation'' \<noteq> JBool False) (VMVerifierError ''VM verifier evidence must have host_mutation=false'')) (
     thenE (raise_if (jget raw ''release_eligible_live_proof'' \<noteq> JBool True) (VMVerifierError ''VM verifier evidence must be release-eligible VM-live proof'')) (
     thenE (reject_contradictions raw ''VM verifier evidence'') (
     thenE (require_vm_live_fields raw ''VM verifier evidence'') (
     thenE (require_vm_acceptance_fields raw ''VM verifier evidence'') (
     bindE (require_text_vm raw ''object'') (\<lambda>object_text.
     bindE (require_relative_file tools env object_text ''object'') (\<lambda>(env1, opath).
         (bindE (require_text_vm raw ''bpf_metadata_path'') (\<lambda>metadata_text.
         bindE (require_relative_file tools env1 metadata_text ''bpf_metadata_path'') (\<lambda>(env2, mpath).
         (bindE (require_checked_sha raw ''object_sha256'') (\<lambda>object_sha.
         bindE (require_checked_sha raw ''bpf_metadata_object_sha256'') (\<lambda>metadata_sha.
         thenE (require_artifact_hashes env2
         \<lparr> claimed_object = opath, claimed_object_sha = object_sha, claimed_metadata = mpath, claimed_metadata_sha = metadata_sha \<rparr>) (
         bindE (require_text_vm raw ''verifier_log'') (\<lambda>log_path.
         bindE (require_relative_file tools env2 log_path ''verifier_log'') (\<lambda>(env3, verifier_log).
         (bindE (read_replace tools env3 verifier_log) (\<lambda>log_text.
         (let log_values = parse_key_values log_text in
         thenE (require_vm_log_values log_values) (
         thenE (require_vm_log_acceptance log_text ''VM verifier log'') (
         thenE (require_log_matches_evidence log_values raw) (
         Inr (env3,
         [(''schema'', JStr SCHEMA_vm), (''status'', JStr ''PASS''), (''reason'', JStr ''VM_VERIFIER_ACCEPTED''), (''input'', JStr (path_str path)),
         (''object'', JStr (path_str opath)), (''object_sha256'', JStr object_sha), (''bpf_metadata_path'', JStr (path_str mpath)),
         (''bpf_metadata_object_sha256'', JStr metadata_sha), (''bpftool_rc'', JInt 0), (''verifier_errors'', JList []),
         (''host_mutation'', JBool False)]))))))))))))))))))))))))"

definition parse_vm_live_log :: "tools \<Rightarrow> env \<Rightarrow> path \<Rightarrow> log_values \<Rightarrow> string \<Rightarrow> (env \<times> json_object) option result" where
  "parse_vm_live_log tools env path values text =
     (if map_of values ''schema'' \<noteq> Some VM_LOG_SCHEMA then Inr None
      else if map_of values ''evidence_mode'' = None then Inr None
      else
        (thenE (require_vm_log_values values) (
          bindE (require_checked_value values ''object_sha256'') (\<lambda>object_sha.
          bindE (require_checked_value values ''bpf_metadata_object_sha256'') (\<lambda>metadata_sha.
          bindE (require_key values ''object'') (\<lambda>object_text.
          bindE (require_relative_file tools env object_text ''object'') (\<lambda>(env1, opath).
              (bindE (require_key values ''bpf_metadata_path'') (\<lambda>metadata_text.
              bindE (require_relative_file tools env1 metadata_text ''bpf_metadata_path'') (\<lambda>(env2, mpath).
              (thenE (require_artifact_hashes env2
              \<lparr> claimed_object = opath, claimed_object_sha = object_sha, claimed_metadata = mpath, claimed_metadata_sha = metadata_sha \<rparr>) (
              thenE (require_vm_log_acceptance text ''VM verifier log'') (
              bindE (parse_bpftool_rc values) (\<lambda>rc.
              Inr (Some (env2,
              [(''schema'', JStr SCHEMA_vm), (''status'', JStr ''PASS''), (''reason'', JStr ''VM_VERIFIER_ACCEPTED''), (''input'', JStr (path_str path)),
              (''object'', JStr (path_str opath)), (''object_sha256'', JStr object_sha), (''bpf_metadata_path'', JStr (path_str mpath)),
              (''bpf_metadata_object_sha256'', JStr metadata_sha), (''bpftool_rc'', json_int rc), (''verifier_errors'', JList []),
              (''sched_ext_state_before'', JStr (get_default values ''sched_ext_state_before'' [])),
              (''sched_ext_state_after'', JStr (get_default values ''sched_ext_state_after'' [])),
              (''enable_seq_before'', JStr (get_default values ''sched_ext_enable_seq_before'' [])),
              (''enable_seq_after'', JStr (get_default values ''sched_ext_enable_seq_after'' [])),
              (''cgroup_membership_before'', JStr (get_default values ''cgroup_membership_before'' [])),
              (''cgroup_membership_after'', JStr (get_default values ''cgroup_membership_after'' [])),
              (''host_mutation'', JBool False)]))))))))))))))))"

section \<open>Reading a log\<close>

interpretation vm_text: field_reader "\<lambda>d f (_ :: string). require_text_vm d f" text_of VMVerifierError
  by unfold_locales (auto simp: require_text_vm_def split: option.splits)

interpretation vm_bool: field_reader "\<lambda>d f (_ :: string). require_bool_vm d f" bool_of VMVerifierError
  by unfold_locales (auto simp: require_bool_vm_def split: option.splits)

interpretation vm_obj: field_reader "\<lambda>d f (_ :: string). require_object_vm d f" obj_of VMVerifierError
  by unfold_locales (auto simp: require_object_vm_def split: option.splits)

lemma require_key_ok_iff [ok_iff]: "require_key values f = Inr s \<longleftrightarrow> map_of values f = Some s \<and> s \<noteq> []"
  by (auto simp: require_key_def get_default_def Let_def split: option.splits)

lemma hex_chars: "c \<in> set ''0123456789abcdef'' \<longleftrightarrow> is_hex_char c"
  by (cases c) (auto simp: is_hex_char_bits)

text \<open>A text made of lines: the loop over its lines sees them, and a phrase within a line is found in a line.\<close>

definition text_lines :: "string list \<Rightarrow> string" where
  "text_lines ls = concat (map (\<lambda>l. l @ [CHR 0x0A]) ls)"

lemma text_lines_simps [simp]: "text_lines [] = []" "text_lines (l # ls) = l @ CHR 0x0A # text_lines ls"
  by (simp_all add: text_lines_def)

lemma newline_break: "is_line_break (CHR 0x0A)"
  by code_simp

lemma splitlines_acc_line:
  "list_all (\<lambda>c. \<not> is_line_break c) l \<Longrightarrow> splitlines_acc acc (l @ CHR 0x0A # rest) = (rev acc @ l) # splitlines_acc [] rest"
proof (induction l arbitrary: acc)
  case Nil
  then show ?case using newline_break by (cases rest) auto
next
  case (Cons c l)
  then have "\<not> is_line_break c" by simp
  moreover from this have "c \<noteq> CHR 0x0D" using newline_break by (auto simp: is_line_break_bits)
  ultimately show ?case using Cons by (cases "l @ CHR 0x0A # rest") auto
qed

lemma splitlines_text_lines: "list_all (list_all (\<lambda>c. \<not> is_line_break c)) ls \<Longrightarrow> splitlines (text_lines ls) = ls"
  unfolding splitlines_def by (induction ls) (auto simp: splitlines_acc_line)

lemma contains_line:
  assumes "CHR 0x0A \<notin> set needle" and "needle \<noteq> []"
  shows "contains needle (l @ CHR 0x0A # rest) \<longleftrightarrow> contains needle l \<or> contains needle rest"
proof
  assume "contains needle (l @ CHR 0x0A # rest)"
  then obtain a b where "l @ CHR 0x0A # rest = a @ needle @ b" unfolding contains_iff by blast
  then consider us where "l = a @ us" "us @ CHR 0x0A # rest = needle @ b" | us where "a = l @ us" "CHR 0x0A # rest = us @ needle @ b"
    unfolding append_eq_append_conv2 by metis
  then show "contains needle l \<or> contains needle rest"
  proof cases
    case 1
    then consider vs where "us = needle @ vs" | vs where "needle = us @ vs" "CHR 0x0A # rest = vs @ b" "vs \<noteq> []"
      unfolding append_eq_append_conv2 by (metis append_Nil2)
    then show ?thesis
    proof cases
      case 2
      with assms(1) show ?thesis by (cases vs) auto
    qed (use 1 in \<open>auto simp: contains_iff\<close>)
  next
    case 2
    with assms show ?thesis by (cases us; cases needle) (auto simp: contains_iff)
  qed
next
  assume "contains needle l \<or> contains needle rest"
  then show "contains needle (l @ CHR 0x0A # rest)"
    using contains_append[of needle l "[]" "CHR 0x0A # rest"] contains_append[of needle rest "l @ [CHR 0x0A]" "[]"] by auto
qed

lemma contains_text_lines:
  assumes "CHR 0x0A \<notin> set needle" and "needle \<noteq> []"
  shows "contains needle (text_lines ls) \<longleftrightarrow> list_ex (contains needle) ls"
  using assms by (induction ls) (auto simp: contains_line)

lemma lower_text_lines: "lower (text_lines ls) = text_lines (map lower ls)"
proof -
  have "lower_char (CHR 0x0A) = CHR 0x0A" by code_simp
  then show ?thesis by (induction ls) (simp_all add: lower_def)
qed

text \<open>A line of the form \<^verbatim>\<open>key=value\<close> sets the key, and what follows the first equals sign is the value.\<close>

lemma split_once_append: "CHR ''='' \<notin> set key \<Longrightarrow> split_once CHR ''='' (key @ CHR ''='' # v) = (key, v)"
  by (induction key) (auto simp: split_once_def)

lemma key_value_step_line: "CHR ''='' \<notin> set key \<Longrightarrow> \<not> prefix ''COMMAND:'' (key @ CHR ''='' # v) \<Longrightarrow>
    key_value_step values (key @ CHR ''='' # v) = (key, v) # values"
  by (simp add: key_value_step_def split_once_append)

text \<open>Every entry comes from a line.\<close>

lemma parse_key_values_entry:
  assumes "map_of (parse_key_values t) key = Some v"
  shows "\<exists>raw \<in> set (splitlines t). strip raw = key @ CHR ''='' # v \<and> CHR ''='' \<notin> set key"
proof -
  have "map_of (foldl (\<lambda>m raw. key_value_step m (strip raw)) m lines) key = Some v \<Longrightarrow>
      map_of m key = Some v \<or> (\<exists>raw \<in> set lines. strip raw = key @ CHR ''='' # v \<and> CHR ''='' \<notin> set key)" for m lines
  proof (induction lines arbitrary: m)
    case (Cons raw lines)
    from Cons.IH[OF Cons.prems[unfolded foldl_Cons]] show ?case
    proof
      assume step: "map_of (key_value_step m (strip raw)) key = Some v"
      show ?thesis
      proof (cases "map_of m key = Some v")
        case False
        with step have eq: "CHR ''='' \<in> set (strip raw)" "split_once CHR ''='' (strip raw) = (key, v)"
          by (auto simp: key_value_step_def split: if_splits prod.splits)
        then obtain a b where ab: "strip raw = a @ CHR ''='' # b" "CHR ''='' \<notin> set a" using split_list_first by metis
        with eq(2) split_once_append[of a b] have "a = key" "b = v" by simp_all
        with ab show ?thesis by auto
      qed simp
    qed auto
  qed simp
  from this[of "[]"] assms show ?thesis unfolding parse_key_values_def by auto
qed

definition rejection_needles :: "string list" where
  "rejection_needles = [''invalid mem access'', ''unknown func'', ''invalid func'', ''program rejected'', ''permission denied'']"

text \<open>The log of an accepted program, as the check reads it.\<close>

definition accepted_log :: "string \<Rightarrow> bool" where
  "accepted_log t \<longleftrightarrow> (\<forall>needle \<in> set rejection_needles. \<not> contains needle (lower t)) \<and>
     contains ''verification time'' (lower t) \<and> contains ''unregistered sched_ext_ops'' (lower t)"

lemma registered_marker: "contains ''unregistered sched_ext_ops'' s \<Longrightarrow> contains ''registered sched_ext_ops'' s"
proof -
  assume "contains ''unregistered sched_ext_ops'' s"
  then obtain a b where "s = a @ ''unregistered sched_ext_ops'' @ b" unfolding contains_iff by blast
  then have "s = (a @ ''un'') @ ''registered sched_ext_ops'' @ b" by simp
  then show ?thesis unfolding contains_iff by blast
qed

lemma require_vm_log_acceptance_ok_iff: "require_vm_log_acceptance t c = Inr () \<longleftrightarrow> accepted_log t"
  unfolding require_vm_log_acceptance_def Let_def thenE_ok_iff forE_ok_iff raise_if_ok_iff accepted_log_def rejection_needles_def
  using registered_marker[of "lower t"] by auto

text \<open>a log is accepted as that of a verified program exactly when it holds none of the five rejection
  texts, in any case, and the verification time and the unregistration of the operations. The third marker that
  the code asks for, the registration, is part of the text of the unregistration, so it is never missed: a log
  that shows only the unregistration passes.\<close>

theorem vm_log_markers:
  "require_vm_log_acceptance t c = Inr () \<longleftrightarrow>
     (\<forall>needle \<in> {''invalid mem access'', ''unknown func'', ''invalid func'', ''program rejected'', ''permission denied''}. \<not> contains needle (lower t)) \<and>
     contains ''verification time'' (lower t) \<and> contains ''unregistered sched_ext_ops'' (lower t)"
  unfolding require_vm_log_acceptance_ok_iff accepted_log_def rejection_needles_def by simp

theorem vm_log_markers_witness: "require_vm_log_acceptance ''Verification time 9 usec; unregistered sched_ext_ops'' [] = Inr ()"
proof -
  have "list_all (\<lambda>needle. \<not> contains needle (lower ''Verification time 9 usec; unregistered sched_ext_ops''))
      [''invalid mem access'', ''unknown func'', ''invalid func'', ''program rejected'', ''permission denied'']"
    "contains ''verification time'' (lower ''Verification time 9 usec; unregistered sched_ext_ops'')"
    "contains ''unregistered sched_ext_ops'' (lower ''Verification time 9 usec; unregistered sched_ext_ops'')"
    by code_simp+
  with vm_log_markers[of "''Verification time 9 usec; unregistered sched_ext_ops''" "[]"] show ?thesis by simp
qed

section \<open>What accepted evidence rests on\<close>

lemma require_relative_file_ok:
  assumes "require_relative_file tools env s c = Inr (env', p)"
  shows "p = mk_path s \<and> safe_path p \<and> fs_is_file env' p \<and> leads_to tools env env'"
  using assms ensure_if_canonical_ok[of tools env "mk_path s" env'] unfolding require_relative_file_def Let_def
  by (auto simp: ok_iff safe_path_def)

lemma require_artifact_hashes_ok:
  assumes "require_artifact_hashes env claims = Inr ()"
  shows "claimed_metadata_sha claims = claimed_object_sha claims \<and>
    describes_object env (claimed_object claims) (claimed_metadata claims) (claimed_object_sha claims)"
  using assms validate_bpf_artifacts_ok unfolding require_artifact_hashes_def by (auto simp: ok_iff)

definition matching_log :: "string \<Rightarrow> json_object \<Rightarrow> bool" where
  "matching_log t raw \<longleftrightarrow>
     accepted_log t \<and> map_of (parse_key_values t) ''verifier_result'' = Some ''accepted'' \<and> map_of (parse_key_values t) ''attach_result'' = Some ''registered'' \<and>
     map_of (parse_key_values t) ''rollback_status'' = Some ''PASS'' \<and> map_of (parse_key_values t) ''vm_marker_path'' = Some VM_MARKER \<and>
     (\<forall>f \<in> {''object'', ''object_sha256'', ''bpf_metadata_path'', ''bpf_metadata_object_sha256''}.
        \<exists>v. map_of (parse_key_values t) f = Some v \<and> v \<noteq> [] \<and> jget raw f = JStr v)"

lemma require_log_matches_evidence_ok_iff:
  "require_log_matches_evidence values raw = Inr () \<longleftrightarrow>
     (\<forall>f \<in> {''object'', ''object_sha256'', ''bpf_metadata_path'', ''bpf_metadata_object_sha256''}. \<exists>v. map_of values f = Some v \<and> v \<noteq> [] \<and> jget raw f = JStr v)"
proof -
  have "bindE (require_key values f) (\<lambda>logged. bindE (require_text_vm raw f) (\<lambda>stated. raise_if (logged \<noteq> stated) e)) = Inr () \<longleftrightarrow>
      (\<exists>v. map_of values f = Some v \<and> v \<noteq> [] \<and> jget raw f = JStr v)" for f e
    by (auto simp: ok_iff text_of_iff)
  then show ?thesis unfolding require_log_matches_evidence_def forE_ok_iff by simp
qed

lemma parse_vm_evidence_ok:
  assumes "parse_vm_evidence tools env path raw = Inr (env', result)"
  shows "\<exists>env1 env2 o_text m_text l_text sha t. leads_to tools env env1 \<and> leads_to tools env1 env2 \<and> leads_to tools env2 env' \<and>
    jget raw ''object'' = JStr o_text \<and> jget raw ''bpf_metadata_path'' = JStr m_text \<and> jget raw ''verifier_log'' = JStr l_text \<and>
    safe_path (mk_path o_text) \<and> safe_path (mk_path m_text) \<and> safe_path (mk_path l_text) \<and>
    jget raw ''object_sha256'' = JStr sha \<and> jget raw ''bpf_metadata_object_sha256'' = JStr sha \<and>
    describes_object env2 (mk_path o_text) (mk_path m_text) sha \<and>
    read_replace tools env' (mk_path l_text) = Inr t \<and> matching_log t raw \<and> jget result ''status'' = JStr ''PASS'' \<and> jget result ''object_sha256'' = JStr sha"
proof -
  obtain o_text env1 opath m_text env2 mpath sha msha l_text lp t where
    files: "jget raw ''object'' = JStr o_text" "require_relative_file tools env o_text ''object'' = Inr (env1, opath)"
      "jget raw ''bpf_metadata_path'' = JStr m_text" "require_relative_file tools env1 m_text ''bpf_metadata_path'' = Inr (env2, mpath)"
      "jget raw ''verifier_log'' = JStr l_text" "require_relative_file tools env2 l_text ''verifier_log'' = Inr (env', lp)"
    and sha: "jget raw ''object_sha256'' = JStr sha" "jget raw ''bpf_metadata_object_sha256'' = JStr msha"
      "require_artifact_hashes env2 \<lparr> claimed_object = opath, claimed_object_sha = sha, claimed_metadata = mpath, claimed_metadata_sha = msha \<rparr> = Inr ()"
    and log: "read_replace tools env' lp = Inr t" "require_vm_log_values (parse_key_values t) = Inr ()"
      "require_vm_log_acceptance t ''VM verifier log'' = Inr ()" "require_log_matches_evidence (parse_key_values t) raw = Inr ()"
    and res: "jget result ''status'' = JStr ''PASS''" "jget result ''object_sha256'' = JStr sha"
    using assms unfolding parse_vm_evidence_def require_checked_sha_def Let_def bindE_ok_iff thenE_ok_iff vm_text.read_ok text_of_iff split_paired_Ex prod.case
      sum.inject prod.inject by (elim exE conjE) (hypsubst, rule that; (assumption | (simp add: jget_def; fail)))
  note f1 = require_relative_file_ok[OF files(2)] and f2 = require_relative_file_ok[OF files(4)] and f3 = require_relative_file_ok[OF files(6)]
  have paths: "opath = mk_path o_text" "mpath = mk_path m_text" "lp = mk_path l_text" using f1 f2 f3 by blast+
  have same: "msha = sha" and object: "describes_object env2 opath mpath sha" using require_artifact_hashes_ok[OF sha(3)] by simp_all
  have log_ok: "matching_log t raw"
    using log(2-4) unfolding matching_log_def require_vm_log_acceptance_ok_iff require_log_matches_evidence_ok_iff require_vm_log_values_def thenE_ok_iff
      raise_if_ok_iff not_not by (elim conjE, intro conjI) (assumption | simp)+
  show ?thesis using files(1,3,5) sha(1,2) f1 f2 f3 log(1) res log_ok object unfolding paths same by blast
qed

text \<open>C18: when VM verifier evidence is accepted, the object and its metadata are files at safe relative paths, and at
  the moment of the check, with nothing between it and the start but successful builds of a missing canonical
  object, the hash of the object file was the one that the evidence states twice and that the metadata states,
  and the metadata described a VM-only object that may not be attached on the host. The verifier log, read in
  the environment that is left behind, is the log of an accepted program, reports acceptance, registration and
  rollback, and states the same object, metadata and hashes.\<close>

theorem vm_evidence_backed:
  assumes "parse_vm_evidence tools env path raw = Inr (env', result)"
  shows "\<exists>env1 env2 o_text m_text l_text sha t. leads_to tools env env1 \<and> leads_to tools env1 env2 \<and> leads_to tools env2 env' \<and>
    jget raw ''object'' = JStr o_text \<and> jget raw ''bpf_metadata_path'' = JStr m_text \<and> jget raw ''verifier_log'' = JStr l_text \<and>
    safe_path (mk_path o_text) \<and> safe_path (mk_path m_text) \<and> safe_path (mk_path l_text) \<and>
    jget raw ''object_sha256'' = JStr sha \<and> jget raw ''bpf_metadata_object_sha256'' = JStr sha \<and>
    describes_object env2 (mk_path o_text) (mk_path m_text) sha \<and>
    read_replace tools env' (mk_path l_text) = Inr t \<and> matching_log t raw \<and> jget result ''status'' = JStr ''PASS'' \<and> jget result ''object_sha256'' = JStr sha"
  by (rule parse_vm_evidence_ok[OF assms])

definition no_build :: tools where
  "no_build = \<lparr> build_script = (\<lambda>_. Inl (FileNotFoundError ''bash'')), read_replace = fs_read_text \<rparr>"

definition vm_lines :: "string list" where
  "vm_lines =
     [''schema=zig-scheduler/bpf-verifier-log/v1'', ''evidence_mode=vm-live'', ''vm_kind=qemu-vm'', ''vm_marker_present=true'',
      ''vm_marker_path=/run/zig-scheduler-vm-lab.marker'', ''host_mutation=false'', ''release_eligible_live_proof=true'', ''verifier_result=accepted'',
      ''attach_result=registered'', ''rollback_status=PASS'', ''object=d/o'', ''bpf_metadata_path=d/m'', ''object_sha256='' @ replicate 64 CHR ''a'',
      ''bpf_metadata_object_sha256='' @ replicate 64 CHR ''a'', ''verification time 9 usec'', ''Registered sched_ext_ops'', ''Unregistered sched_ext_ops'']"

definition vm_log :: string where
  "vm_log = text_lines vm_lines"

definition vm_metadata :: json_object where
  "vm_metadata =
     [(''schema'', JStr ''zig-scheduler/bpf-object-metadata/v1''), (''object_sha256'', JStr (replicate 64 CHR ''a'')),
      (''object_hash'', JStr (''sha256:'' @ replicate 64 CHR ''a'')), (''object'', JStr ''d/o''), (''host_mutation'', JBool False),
      (''host_attach_allowed'', JBool False), (''vm_only'', JBool True), (''verification_claimed'', JBool False),
      (''tool_versions'', JObj [(''clang_path'', JStr ''/usr/bin/clang'')])]"

definition vm_evidence :: json_object where
  "vm_evidence =
     [(''schema'', JStr VM_EVIDENCE_SCHEMA), (''host_mutation'', JBool False), (''release_eligible_live_proof'', JBool True),
      (''evidence_mode'', JStr LIVE_MODE), (''vm_kind'', JStr LIVE_VM_KIND), (''vm_marker_present'', JBool True), (''vm_marker_path'', JStr VM_MARKER),
      (''kernel_tuple'', JObj [(''release'', JStr ''6.12''), (''arch'', JStr ''x86_64''), (''config_sha256'', JStr ''c'')]),
      (''status'', JStr ''PASS''), (''verifier_result'', JStr ''accepted''), (''attach_result'', JStr ''registered''), (''rollback_status'', JStr ''PASS''),
      (''object'', JStr ''d/o''), (''bpf_metadata_path'', JStr ''d/m''), (''object_sha256'', JStr (replicate 64 CHR ''a'')),
      (''bpf_metadata_object_sha256'', JStr (replicate 64 CHR ''a'')), (''verifier_log'', JStr ''d/l'')]"

definition vm_env :: env where
  "vm_env = files_env [(''d/o'', ''O''), (''d/m'', ''M''), (''d/l'', vm_log), (''d/e.json'', ''E'')] [(''d/o'', replicate 64 CHR ''a'')]
     [(''M'', JObj vm_metadata), (''E'', JObj vm_evidence)]"

lemma vm_log_accepted: "require_vm_log_acceptance vm_log c = Inr ()"
proof -
  have "list_all (\<lambda>needle. needle \<noteq> [] \<and> CHR 0x0A \<notin> set needle \<and> \<not> list_ex (contains needle) (map lower vm_lines)) rejection_needles"
    "list_all (\<lambda>needle. needle \<noteq> [] \<and> CHR 0x0A \<notin> set needle \<and> list_ex (contains needle) (map lower vm_lines))
       [''verification time'', ''unregistered sched_ext_ops'']"
    by code_simp+
  then show ?thesis
    unfolding require_vm_log_acceptance_ok_iff accepted_log_def vm_log_def lower_text_lines list_all_iff by (auto simp: contains_text_lines)
qed

lemma vm_log_values: "parse_key_values vm_log = foldl (\<lambda>m raw. key_value_step m (strip raw)) [] vm_lines"
proof -
  have "list_all (list_all (\<lambda>c. \<not> is_line_break c)) vm_lines" by code_simp
  then show ?thesis by (simp add: parse_key_values_def vm_log_def splitlines_text_lines)
qed

lemma require_relative_file_plain:
  assumes "safe_path (mk_path s)" and "\<not> fs_is_symlink env (mk_path s)" and "mk_path s \<notin> {CANONICAL_OBJECT, CANONICAL_METADATA}"
    and "fs_is_file env (mk_path s)"
  shows "require_relative_file tools env s c = Inr (env, mk_path s)"
  using assms by (simp add: require_relative_file_def safe_path_def ensure_if_canonical_def reraise_def raise_if_def)

lemma vm_env_files: "s \<in> {''d/o'', ''d/m'', ''d/l''} \<Longrightarrow> require_relative_file no_build vm_env s c = Inr (vm_env, mk_path s)"
proof -
  have "list_all (\<lambda>s. safe_path (mk_path s) \<and> \<not> fs_is_symlink vm_env (mk_path s) \<and> mk_path s \<notin> {CANONICAL_OBJECT, CANONICAL_METADATA} \<and>
      fs_is_file vm_env (mk_path s)) [''d/o'', ''d/m'', ''d/l'']" by code_simp
  moreover assume "s \<in> {''d/o'', ''d/m'', ''d/l''}"
  ultimately show ?thesis by (intro require_relative_file_plain) auto
qed

lemma vm_env_accepted: "\<exists>result. parse_vm_evidence no_build vm_env p vm_evidence = Inr (vm_env, result)"
proof -
  have texts: "require_text_vm vm_evidence ''object'' = Inr ''d/o''" "require_text_vm vm_evidence ''bpf_metadata_path'' = Inr ''d/m''"
    "require_text_vm vm_evidence ''verifier_log'' = Inr ''d/l''" "require_checked_sha vm_evidence ''object_sha256'' = Inr (replicate 64 CHR ''a'')"
    "require_checked_sha vm_evidence ''bpf_metadata_object_sha256'' = Inr (replicate 64 CHR ''a'')"
    by code_simp+
  have checks: "jget vm_evidence ''host_mutation'' = JBool False" "jget vm_evidence ''release_eligible_live_proof'' = JBool True"
    "reject_contradictions vm_evidence ''VM verifier evidence'' = Inr ()" "require_vm_live_fields vm_evidence ''VM verifier evidence'' = Inr ()"
    "require_vm_acceptance_fields vm_evidence ''VM verifier evidence'' = Inr ()"
    "require_artifact_hashes vm_env \<lparr> claimed_object = mk_path ''d/o'', claimed_object_sha = replicate 64 CHR ''a'', claimed_metadata = mk_path ''d/m'',
       claimed_metadata_sha = replicate 64 CHR ''a'' \<rparr> = Inr ()"
    by code_simp+
  have log: "require_vm_log_values (parse_key_values vm_log) = Inr ()" "require_log_matches_evidence (parse_key_values vm_log) vm_evidence = Inr ()"
    unfolding vm_log_values by code_simp+
  have "fs_read_text (files_env ts hs ds) p = (case map_of ts (path_str p) of Some s \<Rightarrow> Inr s | None \<Rightarrow> Inl (FileNotFoundError (path_str p)))" for ts hs ds p
    by (simp add: files_env_def)
  moreover have "path_str (mk_path ''d/l'') = ''d/l''" by code_simp
  ultimately have "read_replace no_build vm_env (mk_path ''d/l'') = Inr vm_log" by (simp add: no_build_def vm_env_def)
  then show ?thesis unfolding parse_vm_evidence_def by (simp add: texts checks log vm_env_files vm_log_accepted raise_if_def)
qed

theorem vm_evidence_backed_witness:
  "\<exists>env2 t. describes_object env2 (mk_path ''d/o'') (mk_path ''d/m'') (replicate 64 CHR ''a'') \<and> matching_log t vm_evidence"
proof -
  obtain result where "parse_vm_evidence no_build vm_env (mk_path ''d/e.json'') vm_evidence = Inr (vm_env, result)"
    using vm_env_accepted by blast
  from vm_evidence_backed[OF this] obtain env2 o_text m_text sha t where
    "jget vm_evidence ''object'' = JStr o_text" "jget vm_evidence ''bpf_metadata_path'' = JStr m_text" "jget vm_evidence ''object_sha256'' = JStr sha"
    and ok: "describes_object env2 (mk_path o_text) (mk_path m_text) sha" "matching_log t vm_evidence" by blast
  then have "o_text = ''d/o''" "m_text = ''d/m''" "sha = replicate 64 CHR ''a''" by (simp_all add: vm_evidence_def jget_def)
  with ok show ?thesis by blast
qed

end
