(* ===== verification/VerifierLog.thy ===== *)
theory VerifierLog
  imports VerifierVm
begin

text \<open>
  \<^verbatim>\<open>qa/verifier_log_check.py\<close> with \<^verbatim>\<open>qa/verifier_refusal_check.py\<close>: the command that reads a verifier log, the
  evidence of a verifier run, or the record of a refusal, and writes one normalized result.
\<close>

section \<open>Model: refusals\<close>

definition SCHEMA_rf :: string where
  "SCHEMA_rf = ''zig-scheduler/verifier-log-parse/v1''"

definition REFUSAL_SCHEMA_rf :: string where
  "REFUSAL_SCHEMA_rf = ''zig-scheduler/verifier-only-refusal/v1''"

definition parse_refusal_evidence :: "env \<Rightarrow> path \<Rightarrow> bool \<Rightarrow> json_object result" where
  "parse_refusal_evidence env path allow_refusal =
     (bindE (bindE (fs_read_text env path) (json_loads env)) (\<lambda>raw.
     (case obj_of raw of
         None \<Rightarrow> Inl (VerifierRefusalError ''JSON input is not a verifier refusal'')
         | Some d \<Rightarrow>
         (thenE (raise_if (jget d ''schema'' \<noteq> JStr REFUSAL_SCHEMA_rf) (VerifierRefusalError ''JSON input is not a verifier refusal'')) (
         thenE (raise_if (\<not> allow_refusal) (VerifierRefusalError ''host refusal evidence requires --allow-refusal'')) (
         thenE (raise_if (jget d ''host_mutation'' \<noteq> JBool False) (VerifierRefusalError ''refusal evidence must have host_mutation=false'')) (
         Inr [(''schema'', JStr SCHEMA_rf), (''status'', JStr ''REFUSE''),
         (''reason'', JStr (py_str (jget_default d ''reason'' (JStr ''UNKNOWN_REFUSAL'')))), (''input'', JStr (path_str path)),
         (''object'', JStr (py_str (jget_default d ''object'' (JStr [])))),
         (''object_sha256'', JStr (py_str (jget_default d ''object_sha256'' (JStr [])))),
         (''bpf_metadata_path'', JStr (py_str (jget_default d ''bpf_metadata_path'' (JStr [])))),
         (''bpf_metadata_object_sha256'', JStr (py_str (jget_default d ''bpf_metadata_object_sha256'' (JStr [])))),
         (''bpftool_rc'', JNull), (''verifier_errors'', JList []), (''host_mutation'', JBool False)])))))))"

section \<open>Model: logs\<close>

definition SCHEMA_vl :: string where
  "SCHEMA_vl = ''zig-scheduler/verifier-log-parse/v1''"

definition EVIDENCE_SCHEMA :: string where
  "EVIDENCE_SCHEMA = ''zig-scheduler/verifier-only-evidence/v1''"

definition STATUSES_vl :: "string list" where
  "STATUSES_vl = [''PASS'', ''SKIP'', ''FAIL'', ''REFUSE'']"

record log_args =
  input_path :: "path option"
  evidence_path :: "path option"
  out_path :: "path option"
  allow_refusal :: bool
  run_self_test :: bool

record parsed_log =
  log_map :: log_values
  errors :: "string list"
  skip_reason :: string
  bpftool_rc :: "int option"

definition usage_vl :: string where
  "usage_vl = ''usage: verifier_log_check.py --input <log-or-json> [--out <json>] [--allow-refusal] | --evidence <verifier-evidence.json> [--out <json>] | --self-test''"

fun parse_args_loop_vl :: "log_args \<Rightarrow> string list \<Rightarrow> log_args result" where
  "parse_args_loop_vl args [] = Inr args"
| "parse_args_loop_vl args (arg # rest) =
     (if arg = ''--allow-refusal'' then parse_args_loop_vl (args \<lparr> allow_refusal := True \<rparr>) rest
      else
        (case rest of
           [] \<Rightarrow> Inl (VerifierLogError usage_vl)
         | x # rest' \<Rightarrow>
             if arg = ''--input'' then parse_args_loop_vl (args \<lparr> input_path := Some (mk_path x) \<rparr>) rest'
             else if arg = ''--evidence'' then parse_args_loop_vl (args \<lparr> evidence_path := Some (mk_path x) \<rparr>) rest'
             else if arg = ''--out'' then parse_args_loop_vl (args \<lparr> out_path := Some (mk_path x) \<rparr>) rest'
             else Inl (VerifierLogError usage_vl)))"

definition parse_args_vl :: "string list \<Rightarrow> log_args result" where
  "parse_args_vl argv =
     (let empty = \<lparr> input_path = None, evidence_path = None, out_path = None, allow_refusal = False, run_self_test = False \<rparr> in
      if argv = [''--self-test''] then Inr (empty \<lparr> run_self_test := True \<rparr>)
      else
        (bindE (parse_args_loop_vl empty argv) (\<lambda>args.
          thenE (raise_if (input_path args = None \<and> evidence_path args = None) (VerifierLogError ''--input or --evidence is required'')) (
          thenE (raise_if (input_path args \<noteq> None \<and> evidence_path args \<noteq> None) (VerifierLogError ''--input and --evidence are mutually exclusive'')) (
          Inr args)))))"

definition is_verifier_error :: "string \<Rightarrow> bool" where
  "is_verifier_error low =
     list_ex (\<lambda>needle. contains needle low)
       [''invalid mem access'', ''unknown func'', ''invalid func'', ''relocation'', ''program rejected'', ''permission denied'']"

text \<open>The body of the loop of \<^verbatim>\<open>parse_lines\<close>; \<^verbatim>\<open>line.split(":", 1)[-1]\<close> of a line that has a colon is what follows the first one.\<close>

definition parse_line_step :: "parsed_log \<Rightarrow> string \<Rightarrow> parsed_log result" where
  "parse_line_step st raw =
     (let line = strip raw; low = lower line;
          st = (if contains ''skip:'' low then st \<lparr> skip_reason := strip (snd (split_once CHR '':'' line)) \<rparr> else st);
          st = (if is_verifier_error low then st \<lparr> errors := errors st @ [line] \<rparr> else st) in
      (bindE (if prefix ''bpftool_rc='' line then
          (let value = snd (split_once CHR ''='' line) in
          thenE (raise_if (\<not> isdigit value) (VerifierLogError (msg [''invalid bpftool_rc: '', value])))
          (bindE (py_int value) (\<lambda>n. Inr (st \<lparr> bpftool_rc := Some n \<rparr>))))
          else Inr st) (\<lambda>st.
      Inr (st \<lparr> log_map := key_value_step (log_map st) line \<rparr>))))"

definition parse_lines :: "string \<Rightarrow> parsed_log result" where
  "parse_lines text = foldE parse_line_step \<lparr> log_map = [], errors = [], skip_reason = [], bpftool_rc = None \<rparr> (splitlines text)"

definition state_changed :: "log_values \<Rightarrow> bool" where
  "state_changed values =
     (let state_before = get_default values ''sched_ext_state_before'' [];
          state_after = get_default values ''sched_ext_state_after'' state_before;
          seq_before = get_default values ''sched_ext_enable_seq_before'' [];
          seq_after = get_default values ''sched_ext_enable_seq_after'' seq_before in
      state_before \<noteq> state_after \<or> seq_before \<noteq> seq_after)"

definition cgroup_changed :: "log_values \<Rightarrow> bool" where
  "cgroup_changed values =
     (let before = get_default values ''cgroup_membership_before'' []; after = get_default values ''cgroup_membership_after'' before in
      before \<noteq> after)"

definition state_fields :: "string list" where
  "state_fields =
     [''sched_ext_state_before'', ''sched_ext_state_after'', ''sched_ext_enable_seq_before'', ''sched_ext_enable_seq_after'',
      ''cgroup_membership_before'', ''cgroup_membership_after'']"

definition missing_state_evidence :: "log_values \<Rightarrow> bool" where
  "missing_state_evidence values = list_ex (\<lambda>field. get_default values field [] = []) state_fields"

definition reason_from :: "parsed_log \<Rightarrow> string" where
  "reason_from parsed =
     (if skip_reason parsed \<noteq> [] then
        (let low = lower (skip_reason parsed) in
         if contains ''bpftool'' low then ''BPFTOOL_UNAVAILABLE''
         else if contains ''/sys/fs/bpf'' low then ''BPF_FS_UNAVAILABLE''
         else ''UNKNOWN_SKIPPED'')
      else
        (let joined = lower (join [CHR 0x0A] (errors parsed)) in
         if contains ''invalid mem access'' joined then ''INVALID_MEM_ACCESS''
         else if contains ''relocation'' joined \<or> contains ''unknown func'' joined \<or> contains ''invalid func'' joined then ''HELPER_OR_RELOCATION_FAILURE''
         else if state_changed (log_map parsed) then ''SCHED_EXT_STATE_CHANGED''
         else if cgroup_changed (log_map parsed) then ''CGROUP_MEMBERSHIP_CHANGED''
         else if bpftool_rc parsed = None then ''UNKNOWN_SKIPPED''
         else if bpftool_rc parsed \<noteq> Some 0 then ''VERIFIER_REJECTED''
         else if missing_state_evidence (log_map parsed) then ''MISSING_STATE_EVIDENCE''
         else ''VERIFIER_ACCEPTED''))"

definition status_from :: "string \<Rightarrow> string" where
  "status_from reason =
     (if reason = ''VERIFIER_ACCEPTED'' then ''PASS''
      else if reason \<in> {''BPFTOOL_UNAVAILABLE'', ''BPF_FS_UNAVAILABLE'', ''UNKNOWN_SKIPPED''} then ''SKIP''
      else ''FAIL'')"

definition log_result :: "path \<Rightarrow> parsed_log \<Rightarrow> json_object" where
  "log_result path parsed =
     (let value = (\<lambda>field. JStr (get_default (log_map parsed) field [])) in
      [(''schema'', JStr SCHEMA_vl), (''status'', JStr (status_from (reason_from parsed))), (''reason'', JStr (reason_from parsed)),
       (''input'', JStr (path_str path)), (''object'', value ''object''), (''object_sha256'', value ''object_sha256''),
       (''bpf_metadata_path'', value ''bpf_metadata_path''), (''bpf_metadata_object_sha256'', value ''bpf_metadata_object_sha256''),
       (''bpftool_rc'', json_int (bpftool_rc parsed)), (''verifier_errors'', JList (map JStr (errors parsed))),
       (''sched_ext_state_before'', value ''sched_ext_state_before''), (''sched_ext_state_after'', value ''sched_ext_state_after''),
       (''enable_seq_before'', value ''sched_ext_enable_seq_before''), (''enable_seq_after'', value ''sched_ext_enable_seq_after''),
       (''cgroup_membership_before'', value ''cgroup_membership_before''), (''cgroup_membership_after'', value ''cgroup_membership_after''),
       (''host_mutation'', JBool False)])"

definition parse_log :: "tools \<Rightarrow> env \<Rightarrow> path \<Rightarrow> (env \<times> json_object) result" where
  "parse_log tools env path =
     (bindE (fs_read_text env path) (\<lambda>text.
     bindE (parse_lines text) (\<lambda>parsed.
     bindE (reraise is_VMVerifierError (\<lambda>exc. VerifierLogError (exn_str exc)) (parse_vm_live_log tools env path (log_map parsed) text)) (\<lambda>vm_live_result.
     (case vm_live_result of
         Some r \<Rightarrow> Inr r
         | None \<Rightarrow>
         (let values = log_map parsed; status = status_from (reason_from parsed) in
         (thenE (raise_if (status = ''PASS'' \<and> (state_changed values \<or> cgroup_changed values))
         (VerifierLogError ''clean verifier logs must preserve sched_ext and cgroup state'')) (
         thenE (raise_if (status = ''PASS'' \<and> (length (get_default values ''object_sha256'' []) \<noteq> 64 \<or>
         length (get_default values ''bpf_metadata_object_sha256'' []) \<noteq> 64))
         (VerifierLogError ''clean verifier logs require object and metadata sha'')) (
         Inr (env, log_result path parsed))))))))))"

section \<open>Model: evidence and the command\<close>

definition require_text_vl :: "json_object \<Rightarrow> string \<Rightarrow> string result" where
  "require_text_vl data field =
     (case text_of (jget data field) of
        None \<Rightarrow> Inl (VerifierLogError (msg [''verifier evidence missing text field: '', field]))
      | Some s \<Rightarrow> Inr s)"

definition require_unchanged :: "json_object \<Rightarrow> string \<Rightarrow> string \<Rightarrow> string \<Rightarrow> check" where
  "require_unchanged raw before after message =
     (bindE (require_text_vl raw before) (\<lambda>x.
     bindE (require_text_vl raw after) (\<lambda>y.
     raise_if (x \<noteq> y) (VerifierLogError message))))"

definition evidence_result :: "path \<Rightarrow> json_object \<Rightarrow> string \<Rightarrow> string \<Rightarrow> json_object result" where
  "evidence_result path raw status reason =
     (let get = (\<lambda>field. bindE (require_text_vl raw field) (\<lambda>s. Inr (field, JStr s))) in
      (bindE (mapE get [''object'', ''object_sha256'', ''bpf_metadata_path'', ''bpf_metadata_object_sha256'']) (\<lambda>files.
      bindE (mapE get [''sched_ext_state_before'', ''sched_ext_state_after'', ''enable_seq_before'', ''enable_seq_after'',
          ''cgroup_membership_before'', ''cgroup_membership_after'']) (\<lambda>states.
      Inr ([(''schema'', JStr SCHEMA_vl), (''status'', JStr status), (''reason'', JStr reason), (''input'', JStr (path_str path))] @ files @
          [(''bpftool_rc'', JNull), (''verifier_errors'', JList [])] @ states @ [(''host_mutation'', JBool False)])))))"

definition parse_evidence :: "tools \<Rightarrow> env \<Rightarrow> path \<Rightarrow> (env \<times> json_object) result" where
  "parse_evidence tools env path =
     (bindE (bindE (fs_read_text env path) (json_loads env)) (\<lambda>doc.
     (case obj_of doc of
         None \<Rightarrow> Inl (VerifierLogError ''JSON input is not verifier-only evidence'')
         | Some raw \<Rightarrow>
         if jget raw ''schema'' = JStr VM_EVIDENCE_SCHEMA then
         reraise is_VMVerifierError (\<lambda>exc. VerifierLogError (exn_str exc)) (parse_vm_evidence tools env path raw)
         else
         (thenE (raise_if (jget raw ''schema'' \<noteq> JStr EVIDENCE_SCHEMA) (VerifierLogError ''JSON input is not verifier-only evidence'')) (
         thenE (raise_if (jget raw ''host_mutation'' \<noteq> JBool False) (VerifierLogError ''verifier evidence must have host_mutation=false'')) (
         thenE (reject_contradictions raw ''verifier evidence'') (
         bindE (require_text_vl raw ''parsed_verifier_status'') (\<lambda>status.
         bindE (require_text_vl raw ''parsed_verifier_reason'') (\<lambda>reason.
         thenE (raise_if (status \<notin> set STATUSES_vl) (VerifierLogError (msg [''verifier evidence has invalid parsed status: '', status]))) (
         bindE (require_text_vl raw ''object_sha256'') (\<lambda>object_sha.
         thenE (raise_if (length object_sha \<noteq> 64) (VerifierLogError ''verifier evidence requires object and metadata sha'')) (
         bindE (require_text_vl raw ''bpf_metadata_object_sha256'') (\<lambda>metadata_sha.
         thenE (raise_if (length metadata_sha \<noteq> 64) (VerifierLogError ''verifier evidence requires object and metadata sha'')) (
         thenE (require_unchanged raw ''sched_ext_state_before'' ''sched_ext_state_after'' ''verifier evidence changed sched_ext state'') (
         thenE (require_unchanged raw ''enable_seq_before'' ''enable_seq_after'' ''verifier evidence changed sched_ext enable_seq'') (
         thenE (require_unchanged raw ''cgroup_membership_before'' ''cgroup_membership_after'' ''verifier evidence changed cgroup membership'') (
         bindE (evidence_result path raw status reason) (\<lambda>result.
         Inr (env, result)))))))))))))))))))"

definition parse_refusal :: "env \<Rightarrow> path \<Rightarrow> bool \<Rightarrow> json_object result" where
  "parse_refusal env path allow =
     reraise is_VerifierRefusalError (\<lambda>exc. VerifierLogError (exn_str exc)) (parse_refusal_evidence env path allow)"

definition parse_input :: "tools \<Rightarrow> env \<Rightarrow> path \<Rightarrow> bool \<Rightarrow> (env \<times> json_object) result" where
  "parse_input tools env path allow =
     (if path_suffix path = ''.json'' then bindE (parse_refusal env path allow) (\<lambda>r. Inr (env, r)) else parse_log tools env path)"

definition parse_selected :: "tools \<Rightarrow> env \<Rightarrow> log_args \<Rightarrow> (env \<times> json_object) result" where
  "parse_selected tools env args =
     (case (evidence_path args, input_path args) of
        (Some p, _) \<Rightarrow> parse_evidence tools env p
      | (None, Some p) \<Rightarrow> parse_input tools env p (allow_refusal args)
      | (None, None) \<Rightarrow> Inl (VerifierLogError ''internal parser error''))"

text \<open>\<^verbatim>\<open>run\<close>: what is written, where to, and the exit status; the self-test and the writing are parameters.\<close>

definition run_vl :: "check \<Rightarrow> (path option \<Rightarrow> json_object \<Rightarrow> check) \<Rightarrow> tools \<Rightarrow> env \<Rightarrow> string list \<Rightarrow> (json_object option \<times> int) result" where
  "run_vl self_test write_result tools env argv =
     (bindE (parse_args_vl argv) (\<lambda>args.
     if run_self_test args then thenE self_test (Inr (None, 0))
         else
         bindE (parse_selected tools env args)
         (\<lambda>(_, result).
         thenE (write_result (out_path args) result)
         (bindE (jindex result ''status'') (\<lambda>status. Inr (Some result, if status = JStr ''FAIL'' then 1 else 0))))))"

definition main_vl :: "check \<Rightarrow> (path option \<Rightarrow> json_object \<Rightarrow> check) \<Rightarrow> tools \<Rightarrow> env \<Rightarrow> string list \<Rightarrow> (json_object option \<times> int) result" where
  "main_vl self_test write_result tools env argv =
     (case run_vl self_test write_result tools env argv of
        Inr r \<Rightarrow> Inr r
      | Inl e \<Rightarrow>
          if is_os_error e \<or> is_JSONDecodeError e \<or> is_EvidenceSafetyError e \<or> is_VerifierLogError e then Inr (None, 1) else Inl e)"

section \<open>Which logs pass\<close>

text \<open>The four phrases that the reason of a log depends on; \<^verbatim>\<open>is_verifier_error\<close> collects two more.\<close>

definition fatal_needles :: "string list" where
  "fatal_needles = [''invalid mem access'', ''relocation'', ''unknown func'', ''invalid func'']"

definition preserved :: "log_values \<Rightarrow> string \<Rightarrow> string \<Rightarrow> bool" where
  "preserved m before after \<longleftrightarrow> (\<exists>v. v \<noteq> [] \<and> map_of m before = Some v \<and> map_of m after = Some v)"

definition clean_log :: "parsed_log \<Rightarrow> bool" where
  "clean_log parsed \<longleftrightarrow>
     skip_reason parsed = [] \<and> bpftool_rc parsed = Some 0 \<and>
     (\<forall>e \<in> set (errors parsed). \<forall>needle \<in> set fatal_needles. \<not> contains needle (lower e)) \<and>
     preserved (log_map parsed) ''sched_ext_state_before'' ''sched_ext_state_after'' \<and>
     preserved (log_map parsed) ''sched_ext_enable_seq_before'' ''sched_ext_enable_seq_after'' \<and>
     preserved (log_map parsed) ''cgroup_membership_before'' ''cgroup_membership_after''"

lemma contains_join_lines:
  assumes "CHR 0x0A \<notin> set needle" and "needle \<noteq> []"
  shows "contains needle (lower (join [CHR 0x0A] es)) \<longleftrightarrow> (\<exists>e \<in> set es. contains needle (lower e))"
proof (induction "[CHR 0x0A]" es rule: join.induct)
  case (3 x y xs)
  have "lower_char (CHR 0x0A) = CHR 0x0A" by code_simp
  then have "lower (join [CHR 0x0A] (x # y # xs)) = lower x @ CHR 0x0A # lower (join [CHR 0x0A] (y # xs))" by (simp add: lower_def)
  with 3 contains_line[OF assms] show ?case by auto
qed (use assms in \<open>auto simp: lower_def\<close>)

lemma fatal_needles_lines: "list_all (\<lambda>needle. CHR 0x0A \<notin> set needle \<and> needle \<noteq> []) fatal_needles"
  by (simp add: fatal_needles_def)

lemma joined_errors:
  "(\<exists>needle \<in> set fatal_needles. contains needle (lower (join [CHR 0x0A] es))) \<longleftrightarrow> (\<exists>e \<in> set es. \<exists>needle \<in> set fatal_needles. contains needle (lower e))"
  using fatal_needles_lines contains_join_lines unfolding list_all_iff by blast

lemma preserved_iff:
  "preserved m b a \<longleftrightarrow> get_default m b [] \<noteq> [] \<and> get_default m a [] \<noteq> [] \<and> get_default m b [] = get_default m a (get_default m b [])"
  by (auto simp: preserved_def get_default_def split: option.splits)

lemma reason_accepted_iff: "reason_from parsed = ''VERIFIER_ACCEPTED'' \<longleftrightarrow> clean_log parsed"
proof -
  have "reason_from parsed = ''VERIFIER_ACCEPTED'' \<longleftrightarrow>
      skip_reason parsed = [] \<and> \<not> (\<exists>needle \<in> set fatal_needles. contains needle (lower (join [CHR 0x0A] (errors parsed)))) \<and>
      \<not> state_changed (log_map parsed) \<and> \<not> cgroup_changed (log_map parsed) \<and> bpftool_rc parsed = Some 0 \<and> \<not> missing_state_evidence (log_map parsed)"
    by (simp add: reason_from_def Let_def fatal_needles_def)
  then show ?thesis unfolding joined_errors clean_log_def preserved_iff state_changed_def cgroup_changed_def missing_state_evidence_def state_fields_def Let_def
    by auto
qed

lemma status_pass_iff: "status_from (reason_from parsed) = ''PASS'' \<longleftrightarrow> clean_log parsed"
  unfolding reason_accepted_iff[symmetric] by (simp add: status_from_def)

definition states_hashes :: "parsed_log \<Rightarrow> bool" where
  "states_hashes parsed \<longleftrightarrow>
     (\<forall>f \<in> {''object_sha256'', ''bpf_metadata_object_sha256''}. \<exists>s. map_of (log_map parsed) f = Some s \<and> length s = 64)"

lemma parse_log_cases:
  assumes "fs_read_text env path = Inr t" and "parse_lines t = Inr parsed" and "parse_vm_live_log tools env path (log_map parsed) t = Inr None"
  shows "parse_log tools env path =
      (if clean_log parsed \<and> \<not> states_hashes parsed then Inl (VerifierLogError ''clean verifier logs require object and metadata sha'')
       else Inr (env, log_result path parsed))"
proof -
  have hash: "length (get_default m f []) = 64 \<longleftrightarrow> (\<exists>s. map_of m f = Some s \<and> length s = 64)" for m f
    by (auto simp: get_default_def split: option.splits)
  have "\<not> (clean_log parsed \<and> (state_changed (log_map parsed) \<or> cgroup_changed (log_map parsed)))"
    unfolding reason_accepted_iff[symmetric] by (auto simp: reason_from_def Let_def split: if_splits)
  then show ?thesis
    unfolding parse_log_def assms bindE_simps reraise_def sum.case option.case Let_def status_pass_iff states_hashes_def
    by (auto simp: raise_if_def hash)
qed

lemma log_result_status: "jget (log_result path parsed) ''status'' = JStr ''PASS'' \<longleftrightarrow> clean_log parsed"
  unfolding status_pass_iff[symmetric] by (simp add: log_result_def Let_def jget_def)

text \<open>C21: a verifier log that can be read and parsed and is not one of the live VM runs passes exactly when it is clean
  and states both hashes with 64 characters. It is clean when it does not say that anything was skipped, the last exit
  status it states is 0, none of the error lines it collects speaks of an invalid memory access, a relocation or an
  unknown or invalid function, and the scheduler state, the enable counter and the cgroup membership are stated before
  and after and did not change. A clean log without such hashes is refused with an exception, and every log that is not
  clean is given a result that does not pass.\<close>

theorem clean_log_pass:
  assumes "fs_read_text env path = Inr t" and "parse_lines t = Inr parsed" and "parse_vm_live_log tools env path (log_map parsed) t = Inr None"
  shows "((\<exists>env' result. parse_log tools env path = Inr (env', result) \<and> jget result ''status'' = JStr ''PASS'') \<longleftrightarrow> clean_log parsed \<and> states_hashes parsed) \<and>
    ((\<exists>message. parse_log tools env path = Inl (VerifierLogError message)) \<longleftrightarrow> clean_log parsed \<and> \<not> states_hashes parsed) \<and>
    ((\<exists>env' result. parse_log tools env path = Inr (env', result) \<and> jget result ''status'' \<noteq> JStr ''PASS'') \<longleftrightarrow> \<not> clean_log parsed)"
  using log_result_status[of path parsed] unfolding parse_log_cases[OF assms] by auto

text \<open>The reason of a log looks at the collected errors only through the four phrases, line by line.\<close>

lemma reason_from_errors:
  assumes "\<And>needle. needle \<in> set fatal_needles \<Longrightarrow> (\<exists>e \<in> set es. contains needle (lower e)) \<longleftrightarrow> (\<exists>e \<in> set (errors parsed). contains needle (lower e))"
  shows "reason_from (parsed \<lparr> errors := es \<rparr>) = reason_from parsed"
proof -
  have "contains needle (lower (join [CHR 0x0A] es)) \<longleftrightarrow> contains needle (lower (join [CHR 0x0A] (errors parsed)))"
    if "needle \<in> set fatal_needles" for needle
  proof -
    from fatal_needles_lines that have line: "CHR 0x0A \<notin> set needle" "needle \<noteq> []" unfolding list_all_iff by blast+
    show ?thesis unfolding contains_join_lines[OF line] by (rule assms[OF that])
  qed
  then have "contains ''invalid mem access'' (lower (join [CHR 0x0A] es)) \<longleftrightarrow> contains ''invalid mem access'' (lower (join [CHR 0x0A] (errors parsed)))"
    and "contains ''relocation'' (lower (join [CHR 0x0A] es)) \<longleftrightarrow> contains ''relocation'' (lower (join [CHR 0x0A] (errors parsed)))"
    and "contains ''unknown func'' (lower (join [CHR 0x0A] es)) \<longleftrightarrow> contains ''unknown func'' (lower (join [CHR 0x0A] (errors parsed)))"
    and "contains ''invalid func'' (lower (join [CHR 0x0A] es)) \<longleftrightarrow> contains ''invalid func'' (lower (join [CHR 0x0A] (errors parsed)))"
    unfolding fatal_needles_def by (simp_all only: list.set insert_iff simp_thms)
  moreover have "errors (parsed \<lparr> errors := es \<rparr>) = es" "skip_reason (parsed \<lparr> errors := es \<rparr>) = skip_reason parsed"
    "log_map (parsed \<lparr> errors := es \<rparr>) = log_map parsed" "bpftool_rc (parsed \<lparr> errors := es \<rparr>) = bpftool_rc parsed" by simp_all
  ultimately show ?thesis unfolding reason_from_def Let_def by (simp only:)
qed

text \<open>A log with exit status 0 and unchanged state, one line of which says that the program was rejected.\<close>

definition rejected_lines :: "string list" where
  "rejected_lines =
     [''object_sha256='' @ replicate 64 CHR ''a'', ''bpf_metadata_object_sha256='' @ replicate 64 CHR ''a'', ''sched_ext_state_before=off'',
      ''sched_ext_state_after=off'', ''sched_ext_enable_seq_before=0'', ''sched_ext_enable_seq_after=0'', ''cgroup_membership_before=/'',
      ''cgroup_membership_after=/'', ''Program rejected'', ''bpftool_rc=0'']"

definition rejected_parsed :: parsed_log where
  "rejected_parsed =
     \<lparr> log_map = [(''bpftool_rc'', ''0''), (''cgroup_membership_after'', ''/''), (''cgroup_membership_before'', ''/''), (''sched_ext_enable_seq_after'', ''0''),
         (''sched_ext_enable_seq_before'', ''0''), (''sched_ext_state_after'', ''off''), (''sched_ext_state_before'', ''off''),
         (''bpf_metadata_object_sha256'', replicate 64 CHR ''a''), (''object_sha256'', replicate 64 CHR ''a'')],
       errors = [''Program rejected''], skip_reason = [], bpftool_rc = Some 0 \<rparr>"

definition rejected_env :: env where
  "rejected_env = files_env [(''l'', text_lines rejected_lines)] [] []"

lemma rejected_parsed: "parse_lines (text_lines rejected_lines) = Inr rejected_parsed"
proof -
  have "list_all (list_all (\<lambda>c. \<not> is_line_break c)) rejected_lines" by code_simp
  then have "splitlines (text_lines rejected_lines) = rejected_lines" by (rule splitlines_text_lines)
  moreover have "foldE parse_line_step \<lparr> log_map = [], errors = [], skip_reason = [], bpftool_rc = None \<rparr> rejected_lines = Inr rejected_parsed"
    by code_simp
  ultimately show ?thesis by (simp add: parse_lines_def)
qed

lemma rejected_read: "fs_read_text rejected_env (mk_path ''l'') = Inr (text_lines rejected_lines)"
proof -
  have "path_str (mk_path ''l'') = ''l''" by code_simp
  then show ?thesis by (simp add: rejected_env_def files_env_def)
qed

lemma rejected_not_live: "parse_vm_live_log tools env p (log_map rejected_parsed) t = Inr None"
  by (simp add: parse_vm_live_log_def rejected_parsed_def VM_LOG_SCHEMA_def)

lemma rejected_status: "status_from (reason_from rejected_parsed) = ''PASS''"
  by code_simp

lemma rejected_log: "parse_log no_build rejected_env (mk_path ''l'') = Inr (rejected_env, log_result (mk_path ''l'') rejected_parsed)"
proof -
  have "\<not> state_changed (log_map rejected_parsed)" "\<not> cgroup_changed (log_map rejected_parsed)"
    "length (get_default (log_map rejected_parsed) ''object_sha256'' []) = 64" "length (get_default (log_map rejected_parsed) ''bpf_metadata_object_sha256'' []) = 64"
    by code_simp+
  then show ?thesis unfolding parse_log_def rejected_read rejected_parsed rejected_not_live bindE_simps reraise_def sum.case option.case Let_def
    by (simp add: raise_if_def)
qed

lemma rejected_run: "main_vl (Inr ()) (\<lambda>_ _. Inr ()) no_build rejected_env [''--input'', ''l''] = Inr (Some (log_result (mk_path ''l'') rejected_parsed), 0)"
proof -
  have "path_suffix (mk_path ''l'') = []" by code_simp
  then have "parse_input no_build rejected_env (mk_path ''l'') False = Inr (rejected_env, log_result (mk_path ''l'') rejected_parsed)"
    by (simp add: parse_input_def rejected_log)
  moreover have "jindex (log_result (mk_path ''l'') rejected_parsed) ''status'' = Inr (JStr ''PASS'')"
    unfolding jindex_ok_iff log_result_def Let_def rejected_status by (simp add: has_key_def jget_def)
  ultimately show ?thesis by (simp add: main_vl_def run_vl_def parse_selected_def parse_args_vl_def raise_if_def)
qed

theorem clean_log_pass_witness:
  "clean_log rejected_parsed \<and> states_hashes rejected_parsed \<and>
   (\<exists>env' result. parse_log no_build rejected_env (mk_path ''l'') = Inr (env', result) \<and> jget result ''status'' = JStr ''PASS'')"
proof -
  have "clean_log rejected_parsed" using rejected_status status_pass_iff by blast
  moreover have "states_hashes rejected_parsed" by (simp add: states_hashes_def rejected_parsed_def)
  ultimately show ?thesis using clean_log_pass[OF rejected_read rejected_parsed rejected_not_live] by blast
qed

text \<open>C39: an error line that speaks neither of memory, relocations nor functions, wherever it stands among the error
  lines that the parser collected and whatever the others say, has no influence on the reason of a log: without it the reason is the same.
  The parser collects lines with \<^verbatim>\<open>program rejected\<close> and \<^verbatim>\<open>permission denied\<close> as verifier errors and then
  reports the log as if they were not there; so there is a log with a line \<^verbatim>\<open>Program rejected\<close>, collected as an error, for
  which the command writes a result with the status PASS and exits with 0.\<close>

theorem unread_errors:
  "(errors parsed = before @ line # after \<longrightarrow>
    (\<forall>needle \<in> {''invalid mem access'', ''relocation'', ''unknown func'', ''invalid func''}. \<not> contains needle (lower line)) \<longrightarrow>
      reason_from (parsed \<lparr> errors := before @ after \<rparr>) = reason_from parsed) \<and>
   (\<exists>env t log result. fs_read_text env (mk_path ''l'') = Inr t \<and> parse_lines t = Inr log \<and> ''Program rejected'' \<in> set (errors log) \<and>
      main_vl (Inr ()) (\<lambda>_ _. Inr ()) no_build env [''--input'', ''l''] = Inr (Some result, 0) \<and> jget result ''status'' = JStr ''PASS'')"
proof (intro conjI impI)
  assume "errors parsed = before @ line # after"
    and "\<forall>needle \<in> {''invalid mem access'', ''relocation'', ''unknown func'', ''invalid func''}. \<not> contains needle (lower line)"
  then show "reason_from (parsed \<lparr> errors := before @ after \<rparr>) = reason_from parsed"
    by (intro reason_from_errors) (auto simp: fatal_needles_def)
next
  have "''Program rejected'' \<in> set (errors rejected_parsed)" by (simp add: rejected_parsed_def)
  moreover have "jget (log_result (mk_path ''l'') rejected_parsed) ''status'' = JStr ''PASS''"
    unfolding log_result_status status_pass_iff[symmetric] by (rule rejected_status)
  ultimately show "\<exists>env t log result. fs_read_text env (mk_path ''l'') = Inr t \<and> parse_lines t = Inr log \<and> ''Program rejected'' \<in> set (errors log) \<and>
      main_vl (Inr ()) (\<lambda>_ _. Inr ()) no_build env [''--input'', ''l''] = Inr (Some result, 0) \<and> jget result ''status'' = JStr ''PASS''"
    using rejected_parsed rejected_read rejected_run by blast
qed

theorem unread_errors_witness:
  "errors rejected_parsed = [] @ ''Program rejected'' # [] \<and> reason_from (rejected_parsed \<lparr> errors := [] \<rparr>) = reason_from rejected_parsed"
proof -
  have "list_all (\<lambda>needle. \<not> contains needle (lower ''Program rejected'')) [''invalid mem access'', ''relocation'', ''unknown func'', ''invalid func'']"
    by code_simp
  moreover have "errors rejected_parsed = [] @ ''Program rejected'' # []" by (simp add: rejected_parsed_def)
  ultimately show ?thesis using unread_errors[of rejected_parsed "[]" "''Program rejected''" "[]"] by simp
qed

section \<open>The type of a result\<close>

definition count_or_null :: "json \<Rightarrow> bool" where
  "count_or_null v \<longleftrightarrow> v = JNull \<or> (\<exists>n. v = JInt n \<and> 0 \<le> n)"

text \<open>A normalized result: the fields that every reader of it may rely on, with their types.\<close>

definition typed_result :: "json_object \<Rightarrow> bool" where
  "typed_result r \<longleftrightarrow>
     jget r ''schema'' = JStr SCHEMA_vl \<and> jget r ''status'' \<in> JStr ` set STATUSES_vl \<and> jget r ''host_mutation'' = JBool False \<and>
     (\<forall>f \<in> set [''reason'', ''input'', ''object'', ''object_sha256'', ''bpf_metadata_path'', ''bpf_metadata_object_sha256'']. is_str (jget r f)) \<and>
     count_or_null (jget r ''bpftool_rc'') \<and> (\<exists>es. jget r ''verifier_errors'' = JList (map JStr es))"

lemma jget_Cons [simp]: "jget ((k, v) # d) f = (if f = k then v else jget d f)"
  by (simp add: jget_def)

lemma schemas_same: "SCHEMA_rf = SCHEMA_vl" "SCHEMA_vm = SCHEMA_vl"
  by (simp_all add: SCHEMA_rf_def SCHEMA_vl_def SCHEMA_vm_def)

lemma isdecimal_nonneg: "isdecimal s \<Longrightarrow> 0 \<le> digits_value s"
  by (simp add: isdecimal_def digits_value_nonneg)

lemma parse_lines_rc: "parse_lines t = Inr parsed \<Longrightarrow> count_or_null (json_int (bpftool_rc parsed))"
proof -
  have step: "parse_line_step st raw = Inr st' \<Longrightarrow> count_or_null (json_int (bpftool_rc st)) \<Longrightarrow> count_or_null (json_int (bpftool_rc st'))" for st raw st'
    unfolding parse_line_step_def Let_def by (auto simp: ok_iff json_int_def count_or_null_def isdecimal_nonneg split: if_splits)
  assume "parse_lines t = Inr parsed"
  then show ?thesis unfolding parse_lines_def by (rule foldE_invariant[where I = "\<lambda>st. count_or_null (json_int (bpftool_rc st))"])
      (simp add: json_int_def count_or_null_def, rule step)
qed

lemma log_result_typed: "parse_lines t = Inr parsed \<Longrightarrow> typed_result (log_result p parsed)"
  using parse_lines_rc unfolding typed_result_def log_result_def Let_def by (auto simp: status_from_def STATUSES_vl_def)

lemma parse_refusal_typed: "parse_refusal env p allow = Inr r \<Longrightarrow> typed_result r"
  unfolding parse_refusal_def parse_refusal_evidence_def typed_result_def
  by (auto simp: ok_iff schemas_same STATUSES_vl_def count_or_null_def split: option.splits)

lemma parse_bpftool_rc_count: "parse_bpftool_rc m = Inr rc \<Longrightarrow> count_or_null (json_int rc)"
  unfolding parse_bpftool_rc_def Let_def
  by (auto simp: ok_iff json_int_def count_or_null_def isdecimal_nonneg split: if_splits)

lemma parse_vm_live_log_typed: "parse_vm_live_log tools env p m t = Inr (Some (env', r)) \<Longrightarrow> typed_result r"
  using parse_bpftool_rc_count unfolding parse_vm_live_log_def typed_result_def
  by (auto simp: ok_iff schemas_same STATUSES_vl_def split: if_splits)

lemma parse_vm_evidence_typed: "parse_vm_evidence tools env p raw = Inr (env', r) \<Longrightarrow> typed_result r"
  unfolding parse_vm_evidence_def typed_result_def Let_def by (auto simp: ok_iff schemas_same STATUSES_vl_def count_or_null_def)

interpretation vl_text: field_reader "\<lambda>d f (_ :: string). require_text_vl d f" text_of VerifierLogError
  by unfold_locales (auto simp: require_text_vl_def split: option.splits)

lemma evidence_result_typed: "evidence_result p raw status reason = Inr r \<Longrightarrow> status \<in> set STATUSES_vl \<Longrightarrow> typed_result r"
  unfolding evidence_result_def Let_def typed_result_def mapE.simps
  by (auto simp: ok_iff count_or_null_def)

lemma parse_evidence_typed: "parse_evidence tools env p = Inr (env', r) \<Longrightarrow> typed_result r"
  unfolding parse_evidence_def using parse_vm_evidence_typed evidence_result_typed
  by (auto simp: ok_iff split: option.splits if_splits)

lemma parse_log_typed: "parse_log tools env p = Inr (env', r) \<Longrightarrow> typed_result r"
  unfolding parse_log_def Let_def using parse_vm_live_log_typed log_result_typed
  by (auto simp: ok_iff split: option.splits)

lemma parse_input_typed: "parse_input tools env p allow = Inr (env', r) \<Longrightarrow> typed_result r"
  unfolding parse_input_def using parse_log_typed parse_refusal_typed by (auto simp: ok_iff split: if_splits)

lemma run_vl_typed:
  assumes "run_vl self_test write_result tools env argv = Inr (Some r, status)"
  shows "typed_result r \<and> (status = 1 \<longleftrightarrow> jget r ''status'' = JStr ''FAIL'') \<and> status \<in> {0, 1}"
proof -
  obtain args env' verdict where
    parsed: "parse_selected tools env args = Inr (env', r)"
    and verdict: "jindex r ''status'' = Inr verdict" "status = 1 \<longleftrightarrow> verdict = JStr ''FAIL''" "status \<in> {0, 1}"
    using assms unfolding run_vl_def by (auto simp: bindE_ok_iff thenE_ok_iff split: if_splits)
  from parsed have "typed_result r" using parse_evidence_typed parse_input_typed unfolding parse_selected_def by (auto split: option.splits)
  with verdict show ?thesis by (auto simp: jindex_ok_iff)
qed

text \<open>C38: whatever the command writes, from a log, from evidence or from a refusal, is a normalized result: the
  schema, one of the four statuses, no host mutation, texts where texts belong, an exit status of bpftool that is
  missing or not negative, and a list of texts for the errors. The command then ends with 1 exactly when the
  status is FAIL, and with 0 otherwise.\<close>

theorem verifier_result_typed:
  assumes "main_vl self_test write_result tools env argv = Inr (Some r, status)"
  shows "typed_result r \<and> (status = 1 \<longleftrightarrow> jget r ''status'' = JStr ''FAIL'') \<and> status \<in> {0, 1}"
proof -
  have "run_vl self_test write_result tools env argv = Inr (Some r, status)"
    using assms unfolding main_vl_def by (auto split: sum.splits if_splits)
  then show ?thesis by (rule run_vl_typed)
qed

theorem verifier_result_typed_witness: "typed_result (log_result (mk_path ''l'') rejected_parsed)"
  using verifier_result_typed[OF rejected_run] by blast

section \<open>An exit status that is a digit but not a number\<close>

definition superscript_env :: env where
  "superscript_env = files_env [(''l'', text_lines [''bpftool_rc='' @ [CHR 0xB2]])] [] []"

text \<open>the log parser guards the conversion of the exit status by \<^verbatim>\<open>str.isdigit\<close>, which holds of the superscript two,
  and the conversion then raises an exception that the command does not catch: the command on a log with the
  line \<^verbatim>\<open>bpftool_rc=\<close> and that character ends with a \<^verbatim>\<open>ValueError\<close> instead of a message and exit status 1.\<close>

theorem superscript_status_escapes:
  "\<exists>m. main_vl (Inr ()) (\<lambda>_ _. Inr ()) no_build superscript_env [''--input'', ''l''] = Inl (ValueError m)" (is "\<exists>m. ?run = _")
proof -
  have "isl ?run \<and> is_ValueError (projl ?run)" by code_simp
  then obtain e where "?run = Inl e" "is_ValueError e" by (metis sum.collapse(1))
  then show ?thesis unfolding is_ValueError_def by blast
qed

end
