(* ===== verification/RunnerCleanliness.thy ===== *)
theory RunnerCleanliness
  imports Readers
begin

text \<open>
  \<^verbatim>\<open>qa/runner_cleanliness_proof_check.py\<close>, with the loader of \<^verbatim>\<open>qa/runner_substrate_proof_common.py\<close>:
  the proof that the runner of a protected run was not reused and was removed afterwards. A passing proof has a
  fresh runner identity and either the receipt of its removal or, for an ephemeral runner, a registration
  receipt bound to this run; every file it refers to is hash-matched.
\<close>

section \<open>Model\<close>

definition SCHEMA_rc :: string where
  "SCHEMA_rc = ''zig-scheduler/runner-cleanliness-proof/v1''"

definition SCHEMA_PATH_rc :: path where
  "SCHEMA_PATH_rc = mk_path ''schemas/control/runner-cleanliness-proof.v1.schema.json''"

definition DEFAULT_FIXTURES_rc :: path where
  "DEFAULT_FIXTURES_rc = mk_path ''fixtures/runner-cleanliness-proof''"

text \<open>\<^verbatim>\<open>SAFE_PATH_RE.fullmatch\<close>: the two negative lookaheads are tried at the start of the subject.\<close>

definition not_newline :: rx where
  "not_newline = Ch (\<lambda>c. c \<noteq> CHR 0x0A)"

definition SAFE_PATH_RE :: "string \<Rightarrow> bool" where
  "SAFE_PATH_RE s \<longleftrightarrow>
     \<not> re_match (lit ''/'') s \<and> \<not> re_match (seqs [Star not_newline, Alt Bos (lit ''/''), lit ''..'', Alt (lit ''/'') Eos]) s \<and>
     re_fullmatch (seqs [Bos, plus not_newline, Eos]) s"

definition SHA_RE :: rx where
  "SHA_RE = anchored_class is_hex_char 64 64"

definition RUN_URL_RE :: rx where
  "RUN_URL_RE = seqs [Bos, lit ''https://github.com/'', plus not_newline, lit ''/actions/runs/'', plus (Ch is_digit_char), Eos]"

definition ROOT_FIELDS_rc :: "string list" where
  "ROOT_FIELDS_rc =
     [''schema'', ''proof_outcome'', ''run_url'', ''runner_identity'', ''cleanliness_mode'', ''no_reuse_evidence'', ''removal_receipt'',
      ''ephemeral_registration'', ''protected_review'', ''runner_substrate'', ''host_mutation'', ''release_eligible'', ''production_capacity_claim'']"

definition IDENTITY_FIELDS :: "string list" where
  "IDENTITY_FIELDS = [''name'', ''group'', ''labels'']"

definition MODE_FIELDS :: "string list" where
  "MODE_FIELDS = [''kind'', ''jit_config_sha256'', ''clean_machine_boot_id'', ''ephemeral_instance_id'']"

definition NO_REUSE_FIELDS :: "string list" where
  "NO_REUSE_FIELDS = [''status'', ''previous_runner_id'', ''current_runner_id'', ''evidence'']"

definition REMOVAL_FIELDS :: "string list" where
  "REMOVAL_FIELDS = [''status'', ''removed_at'', ''receipt_path'', ''sha256'']"

definition REF_FIELDS :: "string list" where
  "REF_FIELDS = [''path'', ''sha256'', ''schema_role'']"

definition EPHEMERAL_REGISTRATION_FIELDS :: "string list" where
  "EPHEMERAL_REGISTRATION_FIELDS =
     [''schema'', ''runner_id'', ''runner_name'', ''runner_labels'', ''ephemeral_instance_id'', ''ephemeral_runner_configured'',
      ''no_reuse_evidence'', ''run_url'', ''source_basename'', ''source_sha256'', ''source_size_bytes'', ''host_mutation'', ''release_eligible'',
      ''production_capacity_claim'']"

datatype mode_rc = ModeProof | ModeFixtures | ModeSelfTest

record cleanliness_args =
  mode_of :: mode_rc
  proof_path :: "path option"
  fixtures_path :: path

text \<open>The \<^verbatim>\<open>while\<close> loop of \<^verbatim>\<open>parse_args\<close> over the remaining arguments.\<close>

fun parse_args_loop :: "cleanliness_args \<Rightarrow> string list \<Rightarrow> cleanliness_args result" where
  "parse_args_loop args [] = Inr args"
| "parse_args_loop args (arg # rest) =
     (if arg = ''--proof'' then
        (case rest of
           [] \<Rightarrow> Inl (RunnerCleanlinessError ''--proof requires a path'')
         | x # rest' \<Rightarrow> parse_args_loop (args \<lparr> proof_path := Some (mk_path x), mode_of := ModeProof \<rparr>) rest')
      else if arg = ''--fixtures'' then
        (case rest of
           [] \<Rightarrow> Inl (RunnerCleanlinessError ''--fixtures requires a path'')
         | x # rest' \<Rightarrow> parse_args_loop (args \<lparr> fixtures_path := mk_path x, mode_of := ModeFixtures \<rparr>) rest')
      else Inl (RunnerCleanlinessError ''usage: runner_cleanliness_proof_check.py --self-test | --proof <path> | --fixtures <dir>''))"

definition parse_args_rc :: "string list \<Rightarrow> cleanliness_args result" where
  "parse_args_rc argv =
     (if argv = [''--self-test''] then Inr \<lparr> mode_of = ModeSelfTest, proof_path = None, fixtures_path = DEFAULT_FIXTURES_rc \<rparr>
      else parse_args_loop \<lparr> mode_of = ModeFixtures, proof_path = None, fixtures_path = DEFAULT_FIXTURES_rc \<rparr> argv)"

definition load_json_object :: "env \<Rightarrow> path \<Rightarrow> json_object result" where
  "load_json_object env path =
     (bindE (reraise is_JSONDecodeError
         (\<lambda>exc. RunnerProofError (msg [''invalid JSON in '', path_str path, '': '', exn_str exc]))
         (reraise is_FileNotFoundError
         (\<lambda>_. RunnerProofError (msg [''missing JSON file: '', path_str path]))
         (bindE (fs_read_text env path) (json_loads env)))) (\<lambda>raw.
     case obj_of raw of
         None \<Rightarrow> Inl (RunnerProofError (msg [path_str path, '' must contain a JSON object'']))
         | Some d \<Rightarrow> Inr d))"

definition require_rc :: "bool \<Rightarrow> string \<Rightarrow> check" where
  "require_rc condition message = raise_if (\<not> condition) (RunnerCleanlinessError message)"

definition only_fields :: "json_object \<Rightarrow> string list \<Rightarrow> string \<Rightarrow> check" where
  "only_fields data allowed context =
     (let extra = sorted_diff (keys data) allowed in
      require_rc (extra = []) (msg [context, '' has unexpected fields: '', join '', '' extra]))"

definition text_rc :: "json \<Rightarrow> string \<Rightarrow> string result" where
  "text_rc v context =
     (case text_of v of
        None \<Rightarrow> Inl (RunnerCleanlinessError (msg [context, '' must be non-empty text'']))
      | Some s \<Rightarrow> Inr s)"

definition obj_rc :: "json \<Rightarrow> string \<Rightarrow> json_object result" where
  "obj_rc v context =
     (case obj_of v of
        None \<Rightarrow> Inl (RunnerCleanlinessError (msg [context, '' must be an object'']))
      | Some d \<Rightarrow> Inr d)"

definition safe_path_rc :: "json \<Rightarrow> string \<Rightarrow> path result" where
  "safe_path_rc v context =
     (bindE (text_rc v context) (\<lambda>raw.
     thenE (require_rc (SAFE_PATH_RE raw) (msg [context, '' must be relative and non-traversing: '', raw])) (
     Inr (mk_path raw))))"

definition sha_file :: "env \<Rightarrow> path \<Rightarrow> string result" where
  "sha_file env path =
     reraise is_FileNotFoundError (\<lambda>_. RunnerCleanlinessError (msg [''missing referenced file: '', path_str path])) (fs_sha256 env path)"

definition validate_schema_file_rc :: "env \<Rightarrow> check" where
  "validate_schema_file_rc env =
     (bindE (load_json_object env SCHEMA_PATH_rc) (\<lambda>schema.
     require_rc (jget schema ''$id'' = JStr SCHEMA_rc) ''runner cleanliness schema $id mismatch''))"

definition validate_ref :: "env \<Rightarrow> json \<Rightarrow> string \<Rightarrow> string \<Rightarrow> path result" where
  "validate_ref env v role context =
     (bindE (obj_rc v context) (\<lambda>ref.
     thenE (only_fields ref REF_FIELDS context) (
     bindE (safe_path_rc (jget ref ''path'') (msg [context, ''.path''])) (\<lambda>path.
     bindE (text_rc (jget ref ''sha256'') (msg [context, ''.sha256''])) (\<lambda>digest.
     thenE (require_rc (re_fullmatch SHA_RE digest) (msg [context, ''.sha256 must be sha256 hex''])) (
     bindE (sha_file env path) (\<lambda>actual.
     thenE (require_rc (actual = digest) (msg [context, ''.sha256 does not match '', path_str path])) (
     thenE (require_rc (jget ref ''schema_role'' = JStr role) (msg [context, ''.schema_role must be '', role])) (
     Inr path)))))))))"

definition validate_mode :: "json \<Rightarrow> string \<Rightarrow> check" where
  "validate_mode v outcome =
     (bindE (obj_rc v ''cleanliness_mode'') (\<lambda>mode.
     thenE (only_fields mode MODE_FIELDS ''cleanliness_mode'') (
     bindE (text_rc (jget mode ''kind'') ''cleanliness_mode.kind'') (\<lambda>kind.
     thenE (require_rc (kind \<in> {''jit'', ''ephemeral'', ''clean_machine''}) ''cleanliness_mode.kind unsupported'') (
     if outcome = ''PASS'' then
         (if kind = ''jit'' then
         (bindE (text_rc (jget mode ''jit_config_sha256'') ''cleanliness_mode.jit_config_sha256'') (\<lambda>digest.
         require_rc (re_fullmatch SHA_RE digest) ''JIT PASS requires config hash''))
         else if kind = ''ephemeral'' then
         bindE (text_rc (jget mode ''ephemeral_instance_id'') ''cleanliness_mode.ephemeral_instance_id'') (\<lambda>_. Inr ())
         else if kind = ''clean_machine'' then
         bindE (text_rc (jget mode ''clean_machine_boot_id'') ''cleanliness_mode.clean_machine_boot_id'') (\<lambda>_. Inr ())
         else Inr ())
         else Inr ())))))"

definition validate_identity :: "json \<Rightarrow> check" where
  "validate_identity v =
     (bindE (obj_rc v ''runner_identity'') (\<lambda>identity.
     thenE (only_fields identity IDENTITY_FIELDS ''runner_identity'') (
     bindE (text_rc (jget identity ''name'') ''runner_identity.name'') (\<lambda>_.
     bindE (text_rc (jget identity ''group'') ''runner_identity.group'') (\<lambda>_.
     (case list_of (jget identity ''labels'') of
         None \<Rightarrow> Inl (RunnerCleanlinessError ''runner_identity.labels must be a non-empty list'')
         | Some labels \<Rightarrow>
         thenE (raise_if (labels = []) (RunnerCleanlinessError ''runner_identity.labels must be a non-empty list''))
         (forE (\<lambda>(index, item). bindE (text_rc item (msg [''runner_identity.labels['', show_nat index, '']''])) (\<lambda>_. Inr ())) (enumerate_from 0 labels))))))))"

definition validate_no_reuse :: "json \<Rightarrow> string \<Rightarrow> check" where
  "validate_no_reuse v outcome =
     (bindE (obj_rc v ''no_reuse_evidence'') (\<lambda>evidence.
     thenE (only_fields evidence NO_REUSE_FIELDS ''no_reuse_evidence'') (
     bindE (text_rc (jget evidence ''status'') ''no_reuse_evidence.status'') (\<lambda>status.
     thenE (require_rc (status \<in> {''PASS'', ''SKIP'', ''REFUSE''}) ''no_reuse_evidence.status unsupported'') (
     thenE (if outcome = ''PASS'' then
         (thenE (require_rc (status = ''PASS'') ''PASS proof requires no-reuse evidence PASS'') (
         bindE (text_rc (jget evidence ''previous_runner_id'') ''no_reuse_evidence.previous_runner_id'') (\<lambda>previous_id.
         bindE (text_rc (jget evidence ''current_runner_id'') ''no_reuse_evidence.current_runner_id'') (\<lambda>current_id.
         require_rc (previous_id \<noteq> current_id) ''PASS proof requires a non-reused runner identity''))))
         else Inr ()) (
     bindE (text_rc (jget evidence ''evidence'') ''no_reuse_evidence.evidence'') (\<lambda>_. Inr ())))))))"

definition validate_removal :: "env \<Rightarrow> json \<Rightarrow> string \<Rightarrow> bool \<Rightarrow> string result" where
  "validate_removal env v outcome ephemeral_mode =
     (bindE (obj_rc v ''removal_receipt'') (\<lambda>receipt.
     thenE (only_fields receipt REMOVAL_FIELDS ''removal_receipt'') (
     bindE (text_rc (jget receipt ''status'') ''removal_receipt.status'') (\<lambda>status.
     thenE (require_rc (status \<in> {''removed'', ''not_applicable'', ''unavailable''}) ''removal_receipt.status unsupported'') (
     thenE (if outcome = ''PASS'' then
         require_rc (status = ''removed'' \<or> ephemeral_mode \<and> status = ''not_applicable'')
         ''PASS proof requires runner removal receipt or validator-enforced ephemeral registration proof''
         else Inr ()) (
     thenE (if status = ''removed'' then
         (bindE (text_rc (jget receipt ''removed_at'') ''removal_receipt.removed_at'') (\<lambda>_.
         bindE (safe_path_rc (jget receipt ''receipt_path'') ''removal_receipt.receipt_path'') (\<lambda>receipt_path.
         bindE (text_rc (jget receipt ''sha256'') ''removal_receipt.sha256'') (\<lambda>digest.
         thenE (require_rc (re_fullmatch SHA_RE digest) ''removal_receipt.sha256 must be sha256 hex'') (
         bindE (sha_file env receipt_path) (\<lambda>actual.
         require_rc (actual = digest) (msg [''removal_receipt.sha256 does not match '', path_str receipt_path])))))))
         else Inr ()) (
     Inr status)))))))"

definition validate_ephemeral_registration :: "env \<Rightarrow> json \<Rightarrow> json_object \<Rightarrow> string \<Rightarrow> check" where
  "validate_ephemeral_registration env v data removal_status =
     (bindE (obj_rc (jget data ''cleanliness_mode'') ''cleanliness_mode'') (\<lambda>mode.
     (let ephemeral_pass = (jget data ''proof_outcome'' = JStr ''PASS'' \<and> jget mode ''kind'' = JStr ''ephemeral'' \<and> removal_status = ''not_applicable'') in
     if \<not> ephemeral_pass then
         require_rc (v = JNull) ''ephemeral_registration is only allowed for PASS ephemeral cleanup without an in-job removal receipt''
         else
         (bindE (validate_ref env v ''ephemeral-runner-registration-receipt'' ''ephemeral_registration'') (\<lambda>receipt_path.
         bindE (load_json_object env receipt_path) (\<lambda>receipt.
         thenE (only_fields receipt EPHEMERAL_REGISTRATION_FIELDS ''ephemeral_registration receipt'') (
         thenE (require_rc (jget receipt ''schema'' = JStr ''zig-scheduler/ephemeral-runner-registration-receipt/v1'')
         ''ephemeral_registration receipt schema mismatch'') (
         bindE (obj_rc (jget data ''runner_identity'') ''runner_identity'') (\<lambda>identity.
         bindE (obj_rc (jget data ''no_reuse_evidence'') ''no_reuse_evidence'') (\<lambda>no_reuse.
         thenE (require_rc (py_eq (jget receipt ''runner_id'') (jget no_reuse ''current_runner_id''))
         ''ephemeral_registration runner_id must match current runner id'') (
         thenE (require_rc (py_eq (jget receipt ''runner_name'') (jget identity ''name''))
         ''ephemeral_registration runner_name must match runner identity'') (
         thenE (require_rc (py_eq (jget receipt ''ephemeral_instance_id'') (jget mode ''ephemeral_instance_id''))
         ''ephemeral_registration instance id must match cleanliness mode'') (
         thenE (require_rc (jget receipt ''ephemeral_runner_configured'' = JBool True)
         ''ephemeral_registration must prove ephemeral runner configuration'') (
         thenE (require_rc (py_eq (jget receipt ''run_url'') (jget data ''run_url'')) ''ephemeral_registration run_url must match proof run_url'') (
         (let labels = jget receipt ''runner_labels'' in
         thenE (require_rc (list_of labels \<noteq> None \<and> py_eq labels (jget identity ''labels''))
         ''ephemeral_registration labels must match runner identity'') (
         thenE (require_rc (py_eq (jget receipt ''no_reuse_evidence'') (jget no_reuse ''evidence''))
         ''ephemeral_registration no-reuse evidence must match proof'') (
         bindE (text_rc (jget receipt ''source_basename'') ''ephemeral_registration.source_basename'') (\<lambda>basename.
         thenE (require_rc (basename = ''zigsched-runner-registration-receipt.txt'') ''ephemeral_registration source basename unsupported'') (
         bindE (text_rc (jget receipt ''source_sha256'') ''ephemeral_registration.source_sha256'') (\<lambda>digest.
         thenE (require_rc (re_fullmatch SHA_RE digest) ''ephemeral_registration.source_sha256 must be sha256 hex'') (
         thenE (require_rc (case int_of (jget receipt ''source_size_bytes'') of None \<Rightarrow> False | Some n \<Rightarrow> 0 < n \<and> n \<le> 8192)
         ''ephemeral_registration source size must be 1..8192 bytes'') (
         thenE (require_rc (jget receipt ''host_mutation'' = JBool False) ''ephemeral_registration host_mutation must be false'') (
         thenE (require_rc (jget receipt ''release_eligible'' = JBool False) ''ephemeral_registration release_eligible must be false'') (
         require_rc (jget receipt ''production_capacity_claim'' = JBool False)
         ''ephemeral_registration production_capacity_claim must be false'')))))))))))))))))))))))))"

definition validate_proof :: "env \<Rightarrow> path \<Rightarrow> check" where
  "validate_proof env path =
     (thenE (validate_schema_file_rc env) (
     bindE (load_json_object env path) (\<lambda>data.
     thenE (only_fields data ROOT_FIELDS_rc (path_str path)) (
     thenE (require_rc (jget data ''schema'' = JStr SCHEMA_rc) ''unsupported runner cleanliness schema'') (
     bindE (text_rc (jget data ''proof_outcome'') ''proof_outcome'') (\<lambda>outcome.
     thenE (require_rc (outcome \<in> {''PASS'', ''SKIP'', ''REFUSE''}) ''proof_outcome unsupported'') (
     thenE (require_rc (jget data ''host_mutation'' = JBool False) ''host_mutation must be false'') (
     thenE (require_rc (jget data ''release_eligible'' = JBool False) ''release_eligible must be false'') (
     thenE (require_rc (jget data ''production_capacity_claim'' = JBool False) ''production_capacity_claim must be false'') (
     bindE (text_rc (jget data ''run_url'') ''run_url'') (\<lambda>run_url.
     thenE (require_rc (outcome \<noteq> ''PASS'' \<or> re_fullmatch RUN_URL_RE run_url) ''PASS proof requires GitHub Actions run URL'') (
     thenE (validate_identity (jget data ''runner_identity'')) (
     bindE (obj_rc (jget data ''cleanliness_mode'') ''cleanliness_mode'') (\<lambda>mode.
     thenE (validate_mode (JObj mode) outcome) (
     thenE (validate_no_reuse (jget data ''no_reuse_evidence'') outcome) (
     bindE (validate_removal env (jget data ''removal_receipt'') outcome (jget mode ''kind'' = JStr ''ephemeral'')) (\<lambda>removal_status.
     thenE (validate_ephemeral_registration env (jget data ''ephemeral_registration'') data removal_status) (
     bindE (validate_ref env (jget data ''protected_review'') ''protected-environment-review'' ''protected_review'') (\<lambda>_.
     bindE (validate_ref env (jget data ''runner_substrate'') ''runner-substrate-proof'' ''runner_substrate'') (\<lambda>_.
     Inr ()))))))))))))))))))))"

text \<open>
  \<^verbatim>\<open>sorted(dir.glob("*.json"))\<close>, and the two loops over the fixtures; an invalid fixture must be
  rejected by one of the two exceptions.
\<close>

definition json_files :: "env \<Rightarrow> path \<Rightarrow> path list" where
  "json_files env dir = map (path_join dir) (sort (filter (\<lambda>name. suffix ''.json'' name) (fs_listing env dir)))"

definition reject_fixture :: "env \<Rightarrow> path \<Rightarrow> check" where
  "reject_fixture env invalid =
     (case validate_proof env invalid of
        Inl e \<Rightarrow> if is_RunnerCleanlinessError e \<or> is_RunnerProofError e then Inr () else Inl e
      | Inr _ \<Rightarrow> Inl (RunnerCleanlinessError (msg [''expected invalid runner cleanliness fixture rejection: '', path_str invalid])))"

definition validate_fixtures :: "env \<Rightarrow> path \<Rightarrow> check" where
  "validate_fixtures env base =
     (let valid_paths = json_files env (path_join base ''valid''); invalid_root = path_join base ''invalid'' in
      (thenE (require_rc (valid_paths \<noteq> []) (msg [''missing valid runner cleanliness fixtures under '', path_str (path_join base ''valid'')])) (
      thenE (forE (validate_proof env) valid_paths) (
      (let invalid_paths = json_files env invalid_root in
      thenE (require_rc (invalid_paths \<noteq> []) (msg [''missing invalid runner cleanliness fixtures under '', path_str invalid_root])) (
      forE (reject_fixture env) invalid_paths))))))"

text \<open>\<^verbatim>\<open>main\<close>: the last line printed and the exit status; the self-test is a parameter.\<close>

definition main_rc :: "check \<Rightarrow> env \<Rightarrow> string list \<Rightarrow> (string \<times> int) result" where
  "main_rc self_test env argv =
     (let outcome =
        (bindE (parse_args_rc argv) (\<lambda>args.
          if mode_of args = ModeSelfTest then thenE self_test (Inr [])
              else (case (mode_of args, proof_path args) of
              (ModeProof, Some p) \<Rightarrow> thenE (validate_proof env p) (Inr (msg [''PASS runner cleanliness proof: '', path_str p]))
              | _ \<Rightarrow> thenE (validate_fixtures env (fixtures_path args)) (Inr []))))
      in case outcome of
           Inr line \<Rightarrow> Inr (line, 0)
         | Inl e \<Rightarrow>
             if is_os_error e \<or> is_RunnerProofError e \<or> is_RunnerCleanlinessError e
             then Inr ((msg [''FAIL runner cleanliness proof: '', exn_str e]), 1) else Inl e)"

section \<open>Which paths the pattern accepts\<close>

lemma dots_at:
  "matches (seqs [lit ''..'', Alt (lit ''/'') Eos]) (p, r) \<noteq> [] \<longleftrightarrow>
     (\<exists>t. r = ''..'' @ t \<and> (t = [] \<or> t = [CHR 0x0A] \<or> hd t = CHR ''/''))"
  by (cases r; cases "tl r"; cases "tl (tl r)") (auto simp: lit_def split: list.splits)

lemma traversal_match:
  "matches (seqs [Star not_newline, Alt Bos (lit ''/''), lit ''..'', Alt (lit ''/'') Eos]) (None, s) \<noteq> [] \<longleftrightarrow>
     (\<exists>a t. s = a @ ''..'' @ t \<and> CHR 0x0A \<notin> set a \<and> (a = [] \<or> last a = CHR ''/'') \<and> (t = [] \<or> t = [CHR 0x0A] \<or> hd t = CHR ''/''))"
  (is "?L \<longleftrightarrow> ?R")
proof -
  let ?D = "seqs [lit ''..'', Alt (lit ''/'') Eos]"
  have sep: "matches (Seq (Alt Bos (lit ''/'')) ?D) st \<noteq> [] \<longleftrightarrow>
      (fst st = None \<and> matches ?D st \<noteq> []) \<or> (\<exists>r. snd st = CHR ''/'' # r \<and> matches ?D (Some CHR ''/'', r) \<noteq> [])" for st
    unfolding Seq_matches_iff by (cases "snd st") (auto simp: lit_def)
  have "?L \<longleftrightarrow> (\<exists>n. class_run (\<lambda>c. c \<noteq> CHR 0x0A) n (None, s) \<and> matches (Seq (Alt Bos (lit ''/'')) ?D) (advance n (None, s)) \<noteq> [])"
    unfolding seqs.simps not_newline_def Seq_matches_iff[of "Star (Ch P)" for P] Bex_def Star_Ch by blast
  also have "\<dots> \<longleftrightarrow> ?R"
  proof
    assume "\<exists>n. class_run (\<lambda>c. c \<noteq> CHR 0x0A) n (None, s) \<and> matches (Seq (Alt Bos (lit ''/'')) ?D) (advance n (None, s)) \<noteq> []"
    then obtain n where n: "n \<le> length s" "CHR 0x0A \<notin> set (take n s)"
      and m: "matches (Seq (Alt Bos (lit ''/'')) ?D) (advance n (None, s)) \<noteq> []"
      by (auto simp: class_run_def list_all_iff)
    from m[unfolded sep snd_advance snd_conv] show ?R
    proof
      assume "fst (advance n (None, s)) = None \<and> matches ?D (advance n (None, s)) \<noteq> []"
      then have "n = 0" "matches ?D (None, s) \<noteq> []" by (auto simp: advance_def split: if_splits)
      then obtain t where "s = [] @ ''..'' @ t" "t = [] \<or> t = [CHR 0x0A] \<or> hd t = CHR ''/''" unfolding dots_at by auto
      then show ?R by (intro exI[of _ "[]"] exI[of _ t]) simp
    next
      assume "\<exists>r. drop n s = CHR ''/'' # r \<and> matches ?D (Some CHR ''/'', r) \<noteq> []"
      then obtain t where "drop n s = CHR ''/'' # ''..'' @ t" "t = [] \<or> t = [CHR 0x0A] \<or> hd t = CHR ''/''"
        unfolding dots_at by blast
      moreover from this have "s = (take n s @ [CHR ''/'']) @ ''..'' @ t"
        by (metis append_Cons append_Nil append_assoc append_take_drop_id)
      ultimately show ?R
        using n(2) by (intro exI[of _ "take n s @ [CHR ''/'']"] exI[of _ t] conjI) simp_all
    qed
  next
    assume ?R
    then obtain a t where a: "s = a @ ''..'' @ t" "CHR 0x0A \<notin> set a" "a = [] \<or> last a = CHR ''/''" "t = [] \<or> t = [CHR 0x0A] \<or> hd t = CHR ''/''" by blast
    show "\<exists>n. class_run (\<lambda>c. c \<noteq> CHR 0x0A) n (None, s) \<and> matches (Seq (Alt Bos (lit ''/'')) ?D) (advance n (None, s)) \<noteq> []"
    proof (cases "a = []")
      case True
      with a have "matches ?D (None, s) \<noteq> []" unfolding dots_at by auto
      then show ?thesis by (intro exI[of _ 0] conjI) (simp_all only: sep advance_0 class_run_0 fst_conv snd_conv simp_thms)
    next
      case False
      with a(3) have "a = butlast a @ [CHR ''/'']" by (metis append_butlast_last_id)
      then have s: "s = butlast a @ CHR ''/'' # ''..'' @ t" using a(1) by (metis append_Cons append_Nil append_assoc)
      have "matches ?D (Some CHR ''/'', ''..'' @ t) \<noteq> []" unfolding dots_at using a(4) by blast
      moreover have "drop (length (butlast a)) s = CHR ''/'' # ''..'' @ t" by (subst s) simp
      moreover have "class_run (\<lambda>c. c \<noteq> CHR 0x0A) (length (butlast a)) (None, s)"
        unfolding class_run_def snd_conv using a(2) by (subst (1 2) s) (auto simp: list_all_iff dest: in_set_butlastD)
      ultimately show ?thesis unfolding sep snd_advance snd_conv by blast
    qed
  qed
  finally show ?thesis .
qed

lemma one_line_match: "re_fullmatch (seqs [Bos, plus not_newline, Eos]) s \<longleftrightarrow> s \<noteq> [] \<and> CHR 0x0A \<notin> set s"
proof -
  let ?P = "\<lambda>c. c \<noteq> CHR 0x0A"
  have ends: "st \<in> set (matches (seqs [Bos, plus not_newline, Eos]) (None, s)) \<longleftrightarrow>
      (\<exists>n. class_run ?P (Suc n) (None, s) \<and> st = advance (Suc n) (None, s) \<and> (snd st = [] \<or> snd st = [CHR 0x0A]))" for st
  proof -
    have "st \<in> set (matches (seqs [Bos, plus not_newline, Eos]) (None, s)) \<longleftrightarrow>
        st \<in> set (concat (map (matches (Star (Ch ?P))) (matches (Ch ?P) (None, s)))) \<and> (snd st = [] \<or> snd st = [CHR 0x0A])"
      unfolding seqs.simps plus_def not_newline_def matches_unfold by auto
    also have "\<dots> \<longleftrightarrow> (\<exists>n. class_run ?P (Suc n) (None, s) \<and> st = advance (Suc n) (None, s)) \<and> (snd st = [] \<or> snd st = [CHR 0x0A])"
      unfolding concat_Ch Star_Ch class_run_Suc[of ?P _ "(None, s)"] using advance_Suc[of ?P _ "(None, s)"] class_run_Suc[of ?P _ "(None, s)"]
      by auto
    finally show ?thesis by blast
  qed
  have "re_fullmatch (seqs [Bos, plus not_newline, Eos]) s \<longleftrightarrow> (\<exists>n. class_run ?P (Suc n) (None, s) \<and> drop (Suc n) s = [])"
    unfolding re_fullmatch_def list_ex_iff Bex_def ends by (metis snd_advance snd_conv)
  also have "\<dots> \<longleftrightarrow> s \<noteq> [] \<and> CHR 0x0A \<notin> set s"
  proof
    assume "\<exists>n. class_run ?P (Suc n) (None, s) \<and> drop (Suc n) s = []"
    then obtain n where n: "Suc n \<le> length s" "list_all ?P (take (Suc n) s)" "drop (Suc n) s = []"
      unfolding class_run_def snd_conv by blast
    then have "take (Suc n) s = s" "s \<noteq> []" by auto
    with n(2) show "s \<noteq> [] \<and> CHR 0x0A \<notin> set s" unfolding list_all_iff by metis
  next
    assume s: "s \<noteq> [] \<and> CHR 0x0A \<notin> set s"
    then have "Suc (length s - 1) = length s" by simp
    with s show "\<exists>n. class_run ?P (Suc n) (None, s) \<and> drop (Suc n) s = []"
      by (intro exI[of _ "length s - 1"]) (auto simp: class_run_def list_all_iff simp del: One_nat_def)
  qed
  finally show ?thesis .
qed

lemma SAFE_PATH_RE_iff:
  "SAFE_PATH_RE s \<longleftrightarrow> s \<noteq> [] \<and> CHR 0x0A \<notin> set s \<and> \<not> prefix ''/'' s \<and> ''..'' \<notin> set (split_on CHR ''/'' s)"
proof -
  have slash: "re_match (lit ''/'') s \<longleftrightarrow> prefix ''/'' s"
    by (cases s) (auto simp: re_match_def lit_def)
  have dots: "re_match (seqs [Star not_newline, Alt Bos (lit ''/''), lit ''..'', Alt (lit ''/'') Eos]) s \<longleftrightarrow>
      ''..'' \<in> set (split_on CHR ''/'' s)" if "CHR 0x0A \<notin> set s"
  proof -
    have "CHR ''/'' \<notin> set ''..''" by simp
    note iff = in_split_on_iff[OF this, of s]
    show ?thesis unfolding re_match_def traversal_match iff
    proof (intro iffI; elim exE conjE)
      fix a t assume "s = a @ ''..'' @ t" "a = [] \<or> last a = CHR ''/''" "t = [] \<or> t = [CHR 0x0A] \<or> hd t = CHR ''/''"
      with that show "\<exists>a b. s = a @ ''..'' @ b \<and> (a = [] \<or> last a = CHR ''/'') \<and> (b = [] \<or> hd b = CHR ''/'')"
        by (intro exI[of _ a] exI[of _ t]) auto
    next
      fix a b assume "s = a @ ''..'' @ b" "a = [] \<or> last a = CHR ''/''" "b = [] \<or> hd b = CHR ''/''"
      with that show "\<exists>a t. s = a @ ''..'' @ t \<and> CHR 0x0A \<notin> set a \<and> (a = [] \<or> last a = CHR ''/'') \<and> (t = [] \<or> t = [CHR 0x0A] \<or> hd t = CHR ''/'')"
        by (intro exI[of _ a] exI[of _ b]) auto
    qed
  qed
  show ?thesis unfolding SAFE_PATH_RE_def slash one_line_match using dots by blast
qed

text \<open>C34: the path pattern of the cleanliness proof, negative lookaheads and all, accepts exactly
  the one-line texts that are not empty, do not begin with a slash and have no \<^verbatim>\<open>..\<close> between slashes;
  every accepted text names a relative path that stays below the directory it is joined to.\<close>

theorem runner_paths_stay_below:
  "(SAFE_PATH_RE s \<longleftrightarrow> s \<noteq> [] \<and> CHR 0x0A \<notin> set s \<and> \<not> prefix ''/'' s \<and> ''..'' \<notin> set (split_on CHR ''/'' s)) \<and>
   (SAFE_PATH_RE s \<longrightarrow> safe_path (mk_path s))"
  by (auto simp: SAFE_PATH_RE_iff safe_path_def is_absolute_def path_parts_def mk_path_def split: if_splits)

theorem runner_paths_stay_below_witness: "SAFE_PATH_RE ''a/..b/c'' \<and> safe_path (mk_path ''a/..b/c'')"
proof -
  have "SAFE_PATH_RE ''a/..b/c''" by code_simp
  with runner_paths_stay_below[of "''a/..b/c''"] show ?thesis by blast
qed

section \<open>What acceptance means\<close>

lemma require_rc_ok_iff [ok_iff]: "require_rc c m = Inr u \<longleftrightarrow> c"
  by (simp add: require_rc_def ok_iff)

interpretation rc_text: value_reader text_rc text_of RunnerCleanlinessError
  by unfold_locales (auto simp: text_rc_def split: option.splits)

interpretation rc_obj: value_reader obj_rc obj_of RunnerCleanlinessError
  by unfold_locales (auto simp: obj_rc_def split: option.splits)

lemma only_fields_ok_iff [ok_iff]: "only_fields d allowed c = Inr u \<longleftrightarrow> set (keys d) \<subseteq> set allowed"
  by (simp add: only_fields_def Let_def ok_iff)

lemma sha_file_ok_iff [ok_iff]: "sha_file env p = Inr s \<longleftrightarrow> fs_sha256 env p = Inr s"
  by (simp add: sha_file_def ok_iff)

lemma safe_path_rc_ok_iff [ok_iff]:
  "safe_path_rc v c = Inr p \<longleftrightarrow> (\<exists>s. v = JStr s \<and> SAFE_PATH_RE s \<and> p = mk_path s)"
  by (auto simp: safe_path_rc_def ok_iff text_of_iff SAFE_PATH_RE_iff)

lemma SAFE_PATH_RE_safe: "SAFE_PATH_RE s \<Longrightarrow> safe_path (mk_path s)"
  by (auto simp: SAFE_PATH_RE_iff safe_path_def is_absolute_def path_parts_def mk_path_def split: if_splits)

text \<open>A field of an object names, by a safe path, a file whose hash the object states.\<close>

definition names_hashed :: "env \<Rightarrow> json_object \<Rightarrow> string \<Rightarrow> path \<Rightarrow> bool" where
  "names_hashed env d f p \<longleftrightarrow>
     (\<exists>s digest. jget d f = JStr s \<and> p = mk_path s \<and> safe_path p \<and> jget d ''sha256'' = JStr digest \<and> fs_sha256 env p = Inr digest)"

definition hashed_ref :: "env \<Rightarrow> json \<Rightarrow> string \<Rightarrow> path \<Rightarrow> bool" where
  "hashed_ref env v role p \<longleftrightarrow> (\<exists>ref. v = JObj ref \<and> names_hashed env ref ''path'' p \<and> jget ref ''schema_role'' = JStr role)"

lemma validate_ref_ok:
  assumes "validate_ref env v role c = Inr p"
  shows "hashed_ref env v role p"
proof -
  obtain ref s digest actual where "v = JObj ref" "jget ref ''path'' = JStr s" "SAFE_PATH_RE s" "p = mk_path s"
      "jget ref ''sha256'' = JStr digest" "fs_sha256 env p = Inr actual" "actual = digest" "jget ref ''schema_role'' = JStr role"
    using assms unfolding validate_ref_def bindE_ok_iff thenE_ok_iff rc_obj.read_ok rc_text.read_ok obj_of_iff text_of_iff
      safe_path_rc_ok_iff sha_file_ok_iff require_rc_ok_iff sum.inject by blast
  then show ?thesis unfolding hashed_ref_def names_hashed_def using SAFE_PATH_RE_safe by blast
qed

text \<open>The runner of a passing proof is a new one.\<close>

definition fresh_runner :: "json_object \<Rightarrow> bool" where
  "fresh_runner data \<longleftrightarrow>
     (\<exists>e previous current. jget data ''no_reuse_evidence'' = JObj e \<and> jget e ''status'' = JStr ''PASS'' \<and>
        jget e ''previous_runner_id'' = JStr previous \<and> jget e ''current_runner_id'' = JStr current \<and> previous \<noteq> current)"

lemma validate_no_reuse_ok:
  assumes "validate_no_reuse (jget data ''no_reuse_evidence'') ''PASS'' = Inr ()"
  shows "fresh_runner data"
  using assms unfolding validate_no_reuse_def if_P[OF refl] bindE_ok_iff thenE_ok_iff rc_obj.read_ok rc_text.read_ok obj_of_iff text_of_iff
    require_rc_ok_iff fresh_runner_def by blast

text \<open>A registration receipt of an ephemeral runner is bound to this proof's run, runner and evidence.\<close>

definition registered :: "env \<Rightarrow> json_object \<Rightarrow> bool" where
  "registered env data \<longleftrightarrow>
     (\<exists>p receipt mode identity e size.
        jget data ''cleanliness_mode'' = JObj mode \<and> jget mode ''kind'' = JStr ''ephemeral'' \<and>
        jget data ''runner_identity'' = JObj identity \<and> jget data ''no_reuse_evidence'' = JObj e \<and>
        hashed_ref env (jget data ''ephemeral_registration'') ''ephemeral-runner-registration-receipt'' p \<and>
        load_json_object env p = Inr receipt \<and> jget receipt ''ephemeral_runner_configured'' = JBool True \<and>
        py_eq (jget receipt ''runner_id'') (jget e ''current_runner_id'') \<and> py_eq (jget receipt ''runner_name'') (jget identity ''name'') \<and>
        py_eq (jget receipt ''ephemeral_instance_id'') (jget mode ''ephemeral_instance_id'') \<and>
        py_eq (jget receipt ''run_url'') (jget data ''run_url'') \<and> py_eq (jget receipt ''runner_labels'') (jget identity ''labels'') \<and>
        int_of (jget receipt ''source_size_bytes'') = Some size \<and> 0 < size \<and> size \<le> 8192 \<and>
        (\<forall>f \<in> {''host_mutation'', ''release_eligible'', ''production_capacity_claim''}. jget receipt f = JBool False))"

lemma size_ok_iff: "(case v of None \<Rightarrow> False | Some n \<Rightarrow> 0 < n \<and> n \<le> (8192 :: int)) \<longleftrightarrow> (\<exists>n. v = Some n \<and> 0 < n \<and> n \<le> 8192)"
  by (cases v) auto

lemma validate_ephemeral_registration_ok:
  assumes "validate_ephemeral_registration env (jget data ''ephemeral_registration'') data ''not_applicable'' = Inr ()"
    and "jget data ''proof_outcome'' = JStr ''PASS''" and "jget data ''cleanliness_mode'' = JObj mode" and "jget mode ''kind'' = JStr ''ephemeral''"
  shows "registered env data"
proof -
  have pass: "(\<not> (jget data ''proof_outcome'' = JStr ''PASS'' \<and> jget mode ''kind'' = JStr ''ephemeral'' \<and> ''not_applicable'' = ''not_applicable'')) = False"
    using assms(2,4) by simp
  have mode: "obj_rc (jget data ''cleanliness_mode'') c = Inr mode" for c using assms(3) by (simp add: obj_rc_def)
  obtain p receipt identity e size where
    "validate_ref env (jget data ''ephemeral_registration'') ''ephemeral-runner-registration-receipt'' ''ephemeral_registration'' = Inr p"
    "load_json_object env p = Inr receipt" "jget data ''runner_identity'' = JObj identity" "jget data ''no_reuse_evidence'' = JObj e"
    "py_eq (jget receipt ''runner_id'') (jget e ''current_runner_id'')" "py_eq (jget receipt ''runner_name'') (jget identity ''name'')"
    "py_eq (jget receipt ''ephemeral_instance_id'') (jget mode ''ephemeral_instance_id'')"
    "jget receipt ''ephemeral_runner_configured'' = JBool True" "py_eq (jget receipt ''run_url'') (jget data ''run_url'')"
    "py_eq (jget receipt ''runner_labels'') (jget identity ''labels'')"
    "int_of (jget receipt ''source_size_bytes'') = Some size" "0 < size" "size \<le> 8192"
    "jget receipt ''host_mutation'' = JBool False" "jget receipt ''release_eligible'' = JBool False" "jget receipt ''production_capacity_claim'' = JBool False"
    using assms(1) unfolding validate_ephemeral_registration_def mode bindE_simps Let_def pass if_False bindE_ok_iff thenE_ok_iff
      rc_obj.read_ok rc_text.read_ok obj_of_iff text_of_iff require_rc_ok_iff size_ok_iff
    by (elim exE conjE) (rule that; assumption)
  then show ?thesis unfolding registered_def using assms(3,4) validate_ref_ok by blast
qed

text \<open>How a passing proof shows that the runner is gone: the receipt of its removal, or its registration as ephemeral.\<close>

definition runner_gone :: "env \<Rightarrow> json_object \<Rightarrow> bool" where
  "runner_gone env data \<longleftrightarrow>
     (\<exists>receipt. jget data ''removal_receipt'' = JObj receipt \<and>
        (jget receipt ''status'' = JStr ''removed'' \<and> (\<exists>p. names_hashed env receipt ''receipt_path'' p) \<or>
         jget receipt ''status'' = JStr ''not_applicable'' \<and> registered env data))"

lemma validate_removal_ok:
  assumes "validate_removal env v ''PASS'' ephemeral = Inr status"
  shows "\<exists>receipt. v = JObj receipt \<and> jget receipt ''status'' = JStr status \<and>
    (status = ''removed'' \<and> (\<exists>p. names_hashed env receipt ''receipt_path'' p) \<or> status = ''not_applicable'' \<and> ephemeral)"
proof -
  obtain receipt where receipt: "v = JObj receipt" "jget receipt ''status'' = JStr status"
    and kind: "status = ''removed'' \<or> ephemeral \<and> status = ''not_applicable''"
    and rest: "status = ''removed'' \<longrightarrow> (\<exists>s digest actual. jget receipt ''receipt_path'' = JStr s \<and> SAFE_PATH_RE s \<and>
      jget receipt ''sha256'' = JStr digest \<and> fs_sha256 env (mk_path s) = Inr actual \<and> actual = digest)"
    using assms unfolding validate_removal_def if_P[OF refl] bindE_ok_iff thenE_ok_iff guarded_ok_iff rc_obj.read_ok rc_text.read_ok obj_of_iff
      text_of_iff safe_path_rc_ok_iff sha_file_ok_iff require_rc_ok_iff sum.inject by blast
  then show ?thesis using SAFE_PATH_RE_safe unfolding names_hashed_def by blast
qed

lemma load_json_object_ok_iff [ok_iff]:
  "load_json_object env p = Inr d \<longleftrightarrow> (\<exists>s. fs_read_text env p = Inr s \<and> json_decode env s = Decoded (JObj d))"
  by (auto simp: load_json_object_def ok_iff obj_of_iff split: option.splits)

lemma validate_proof_ok:
  assumes "validate_proof env path = Inr ()" and "load_json_object env path = Inr data"
  shows "\<forall>f \<in> {''host_mutation'', ''release_eligible'', ''production_capacity_claim''}. jget data f = JBool False"
    "\<exists>p. hashed_ref env (jget data ''protected_review'') ''protected-environment-review'' p"
    "\<exists>p. hashed_ref env (jget data ''runner_substrate'') ''runner-substrate-proof'' p"
    "jget data ''proof_outcome'' = JStr ''PASS'' \<Longrightarrow> fresh_runner data \<and> runner_gone env data"
proof -
  obtain outcome mode status review substrate where
    flags: "jget data ''host_mutation'' = JBool False" "jget data ''release_eligible'' = JBool False"
      "jget data ''production_capacity_claim'' = JBool False"
    and outcome: "jget data ''proof_outcome'' = JStr outcome" and mode: "jget data ''cleanliness_mode'' = JObj mode"
    and reuse: "validate_no_reuse (jget data ''no_reuse_evidence'') outcome = Inr ()"
    and removal: "validate_removal env (jget data ''removal_receipt'') outcome (jget mode ''kind'' = JStr ''ephemeral'') = Inr status"
    and registration: "validate_ephemeral_registration env (jget data ''ephemeral_registration'') data status = Inr ()"
    and refs: "validate_ref env (jget data ''protected_review'') ''protected-environment-review'' ''protected_review'' = Inr review"
      "validate_ref env (jget data ''runner_substrate'') ''runner-substrate-proof'' ''runner_substrate'' = Inr substrate"
    using assms(1) unfolding validate_proof_def assms(2) bindE_simps bindE_ok_iff thenE_ok_iff rc_obj.read_ok rc_text.read_ok obj_of_iff text_of_iff
      require_rc_ok_iff by (elim exE conjE) (rule that; assumption)
  show "\<forall>f \<in> {''host_mutation'', ''release_eligible'', ''production_capacity_claim''}. jget data f = JBool False" using flags by blast
  show "\<exists>p. hashed_ref env (jget data ''protected_review'') ''protected-environment-review'' p"
    "\<exists>p. hashed_ref env (jget data ''runner_substrate'') ''runner-substrate-proof'' p"
    using refs validate_ref_ok by blast+
  assume pass: "jget data ''proof_outcome'' = JStr ''PASS''"
  with outcome have out: "outcome = ''PASS''" by simp
  obtain receipt where receipt: "jget data ''removal_receipt'' = JObj receipt" "jget receipt ''status'' = JStr status"
      "status = ''removed'' \<and> (\<exists>p. names_hashed env receipt ''receipt_path'' p) \<or>
       status = ''not_applicable'' \<and> jget mode ''kind'' = JStr ''ephemeral''"
    using validate_removal_ok[OF removal[unfolded out]] by blast
  have "runner_gone env data"
    unfolding runner_gone_def using receipt validate_ephemeral_registration_ok[OF _ pass mode] registration by blast
  then show "fresh_runner data \<and> runner_gone env data" using validate_no_reuse_ok reuse out by blast
qed

text \<open>C16: an accepted cleanliness proof denies host mutation, release and capacity, and its two
  companions, the environment review and the runner substrate, are hash-matched files at safe paths. If it says
  PASS, the runner is a new one and is gone: either the receipt of its removal is a hash-matched file, or the
  runner was ephemeral and a hash-matched registration receipt of at most 8192 bytes of source is bound to
  this proof's runner, labels, instance and run.\<close>

theorem runner_pass_is_clean:
  assumes "validate_proof env path = Inr ()" and "load_json_object env path = Inr data"
  shows "(\<forall>f \<in> {''host_mutation'', ''release_eligible'', ''production_capacity_claim''}. jget data f = JBool False) \<and>
    (\<exists>p. hashed_ref env (jget data ''protected_review'') ''protected-environment-review'' p) \<and>
    (\<exists>p. hashed_ref env (jget data ''runner_substrate'') ''runner-substrate-proof'' p) \<and>
    (jget data ''proof_outcome'' = JStr ''PASS'' \<longrightarrow> fresh_runner data \<and> runner_gone env data)"
  using validate_proof_ok[OF assms] by blast

definition clean_proof :: json_object where
  "clean_proof =
     [(''schema'', JStr SCHEMA_rc), (''proof_outcome'', JStr ''PASS''), (''run_url'', JStr ''https://github.com/o/r/actions/runs/28''),
      (''runner_identity'', JObj [(''name'', JStr ''zigsched-proof-001''), (''group'', JStr ''vm-proof''), (''labels'', JList [JStr ''self-hosted''])]),
      (''cleanliness_mode'', JObj [(''kind'', JStr ''ephemeral''), (''ephemeral_instance_id'', JStr ''i1'')]),
      (''no_reuse_evidence'', JObj [(''status'', JStr ''PASS''), (''previous_runner_id'', JStr ''none''), (''current_runner_id'', JStr ''runner-28''),
         (''evidence'', JStr ''registered for this run only'')]),
      (''removal_receipt'', JObj [(''status'', JStr ''not_applicable'')]),
      (''ephemeral_registration'', JObj [(''path'', JStr ''d/reg.json''), (''sha256'', JStr (replicate 64 CHR ''a'')),
         (''schema_role'', JStr ''ephemeral-runner-registration-receipt'')]),
      (''protected_review'', JObj [(''path'', JStr ''d/review.json''), (''sha256'', JStr (replicate 64 CHR ''b'')),
         (''schema_role'', JStr ''protected-environment-review'')]),
      (''runner_substrate'', JObj [(''path'', JStr ''d/substrate.json''), (''sha256'', JStr (replicate 64 CHR ''c'')),
         (''schema_role'', JStr ''runner-substrate-proof'')]),
      (''host_mutation'', JBool False), (''release_eligible'', JBool False), (''production_capacity_claim'', JBool False)]"

definition clean_env :: env where
  "clean_env = files_env
     [(''schemas/control/runner-cleanliness-proof.v1.schema.json'', ''SCHEMA''), (''d/proof.json'', ''P''), (''d/reg.json'', ''R'')]
     [(''d/reg.json'', replicate 64 CHR ''a''), (''d/review.json'', replicate 64 CHR ''b''), (''d/substrate.json'', replicate 64 CHR ''c'')]
     [(''SCHEMA'', JObj [(''$id'', JStr SCHEMA_rc)]), (''P'', JObj clean_proof),
      (''R'', JObj [(''schema'', JStr ''zig-scheduler/ephemeral-runner-registration-receipt/v1''), (''runner_id'', JStr ''runner-28''),
         (''runner_name'', JStr ''zigsched-proof-001''), (''runner_labels'', JList [JStr ''self-hosted'']), (''ephemeral_instance_id'', JStr ''i1''),
         (''ephemeral_runner_configured'', JBool True), (''no_reuse_evidence'', JStr ''registered for this run only''),
         (''run_url'', JStr ''https://github.com/o/r/actions/runs/28''), (''source_basename'', JStr ''zigsched-runner-registration-receipt.txt''),
         (''source_sha256'', JStr (replicate 64 CHR ''d'')), (''source_size_bytes'', JInt 128), (''host_mutation'', JBool False),
         (''release_eligible'', JBool False), (''production_capacity_claim'', JBool False)])]"

lemma clean_env_accepted: "validate_proof clean_env (mk_path ''d/proof.json'') = Inr ()"
  by code_simp

lemma clean_env_proof: "load_json_object clean_env (mk_path ''d/proof.json'') = Inr clean_proof"
  by code_simp

theorem runner_pass_is_clean_witness:
  "validate_proof clean_env (mk_path ''d/proof.json'') = Inr () \<and> fresh_runner clean_proof \<and> runner_gone clean_env clean_proof"
proof -
  have "jget clean_proof ''proof_outcome'' = JStr ''PASS''" by code_simp
  with runner_pass_is_clean[OF clean_env_accepted clean_env_proof] clean_env_accepted show ?thesis by blast
qed

section \<open>The fixtures\<close>

text \<open>the fixture check succeeds exactly when there are valid and invalid fixtures, every
  valid one is accepted and every invalid one is rejected by one of the two exceptions of the checker; an
  invalid fixture that cannot be read at all does not count as rejected.\<close>

theorem runner_fixtures_separated:
  "validate_fixtures env base = Inr () \<longleftrightarrow>
     json_files env (path_join base ''valid'') \<noteq> [] \<and> json_files env (path_join base ''invalid'') \<noteq> [] \<and>
     (\<forall>p \<in> set (json_files env (path_join base ''valid'')). validate_proof env p = Inr ()) \<and>
     (\<forall>p \<in> set (json_files env (path_join base ''invalid'')).
        \<exists>e. validate_proof env p = Inl e \<and> (is_RunnerCleanlinessError e \<or> is_RunnerProofError e))"
proof -
  have "reject_fixture env p = Inr () \<longleftrightarrow> (\<exists>e. validate_proof env p = Inl e \<and> (is_RunnerCleanlinessError e \<or> is_RunnerProofError e))" for p
    by (auto simp: reject_fixture_def split: sum.splits)
  then show ?thesis unfolding validate_fixtures_def Let_def thenE_ok_iff forE_ok_iff require_rc_ok_iff by blast
qed

section \<open>Which exceptions escape\<close>

abbreviation runner_error :: "exn \<Rightarrow> bool" where
  "runner_error e \<equiv> is_RunnerCleanlinessError e \<or> is_RunnerProofError e \<or> io_error e"

lemma raises_rc [raises_intro]:
  "(\<And>m. P (RunnerCleanlinessError m)) \<Longrightarrow> raises P (require_rc b t)"
  "(\<And>m. P (RunnerCleanlinessError m)) \<Longrightarrow> raises P (only_fields d fs c)"
  "(\<And>m. P (RunnerCleanlinessError m)) \<Longrightarrow> raises P (text_rc v c)"
  "(\<And>m. P (RunnerCleanlinessError m)) \<Longrightarrow> raises P (obj_rc v c)"
  "(\<And>m. P (RunnerCleanlinessError m)) \<Longrightarrow> raises P (safe_path_rc v c)"
  by (auto simp: raises_def require_rc_def only_fields_def Let_def raise_if_def text_rc_def obj_rc_def safe_path_rc_def err_iff
      split: option.splits if_splits)

lemma raises_load_json_object: "io_env env \<Longrightarrow> raises runner_error (load_json_object env p)"
  unfolding load_json_object_def by (intro raises_intro io_env_read) (auto simp: is_os_error_def)

lemma raises_sha_file: "io_env env \<Longrightarrow> raises runner_error (sha_file env p)"
  unfolding sha_file_def by (intro raises_intro io_env_sha256) (auto simp: is_os_error_def)

lemma raises_validate_ref: "io_env env \<Longrightarrow> raises runner_error (validate_ref env v role c)"
  unfolding validate_ref_def by (intro raises_intro raises_sha_file) auto

lemma raises_validate_proof: "io_env env \<Longrightarrow> raises runner_error (validate_proof env p)"
  unfolding validate_proof_def validate_schema_file_rc_def validate_identity_def validate_mode_def validate_no_reuse_def
    validate_removal_def validate_ephemeral_registration_def Let_def
  by (intro raises_intro raises_validate_ref raises_sha_file raises_load_json_object) simp_all

lemma raises_validate_fixtures: "io_env env \<Longrightarrow> raises runner_error (validate_fixtures env base)"
  unfolding validate_fixtures_def reject_fixture_def Let_def
  by (intro raises_intro raises_case_sum raises_validate_proof) (auto dest: raises_validate_proof[THEN raisesD])

lemma raises_parse_args_loop: "raises is_RunnerCleanlinessError (parse_args_loop args argv)"
  by (induction args argv rule: parse_args_loop.induct) (auto simp: raises_def split: list.splits)

text \<open>The exceptions that the handler of the command does not name.\<close>

definition escapes_command :: "exn \<Rightarrow> bool" where
  "escapes_command e \<longleftrightarrow> is_UnicodeError e \<or> is_ValueError e \<or> is_RecursionError e"

text \<open>C36: where file access fails only as documented and the self-test passes, the command always ends
  with a line and exit status 0 or 1, or in one of three exceptions, which it does not catch: the decoding error of a
  file that is not text, the \<^verbatim>\<open>ValueError\<close> of a path with a null character or of an integer literal over the interpreter's
  limit, and the \<^verbatim>\<open>RecursionError\<close> of a document that is nested too deeply.\<close>

theorem runner_command_ends:
  assumes "io_env env"
  shows "(\<exists>line status. main_rc (Inr ()) env argv = Inr (line, status) \<and> status \<in> {0, 1}) \<or>
    (\<exists>e. main_rc (Inr ()) env argv = Inl e \<and> escapes_command e)"
proof -
  define outcome where "outcome =
    bindE (parse_args_rc argv) (\<lambda>args. if mode_of args = ModeSelfTest then thenE (Inr ()) (Inr [])
      else (case (mode_of args, proof_path args) of
              (ModeProof, Some p) \<Rightarrow> thenE (validate_proof env p) (Inr (msg [''PASS runner cleanliness proof: '', path_str p]))
            | _ \<Rightarrow> thenE (validate_fixtures env (fixtures_path args)) (Inr [])))"
  have parse: "raises runner_error (parse_args_rc argv)"
    unfolding parse_args_rc_def by (intro raises_intro raises_weaken[OF raises_parse_args_loop]) auto
  have run: "raises runner_error (case (m, q) of
      (ModeProof, Some p) \<Rightarrow> thenE (validate_proof env p) (Inr (msg [''PASS runner cleanliness proof: '', path_str p]))
    | _ \<Rightarrow> thenE (validate_fixtures env b) (Inr []))" for m q b
    using assms by (cases m; cases q) (auto intro!: raises_intro raises_validate_proof raises_validate_fixtures)
  have "raises runner_error outcome"
    unfolding outcome_def by (intro raises_bindE parse raises_if raises_thenE raises_Inr run)
  moreover have "main_rc (Inr ()) env argv = (case outcome of Inr line \<Rightarrow> Inr (line, 0)
      | Inl e \<Rightarrow> if is_os_error e \<or> is_RunnerProofError e \<or> is_RunnerCleanlinessError e
          then Inr (msg [''FAIL runner cleanliness proof: '', exn_str e], 1) else Inl e)"
    by (simp add: main_rc_def outcome_def)
  ultimately show ?thesis by (cases outcome) (auto simp: raises_def escapes_command_def)
qed

text \<open>One valid and one invalid fixture: the second repeats the first with the runner of a former run.\<close>

definition reused_proof :: json_object where
  "reused_proof = map (\<lambda>(k, v). (k, if k = ''no_reuse_evidence''
     then JObj [(''status'', JStr ''PASS''), (''previous_runner_id'', JStr ''r''), (''current_runner_id'', JStr ''r''), (''evidence'', JStr ''e'')]
     else v)) clean_proof"

definition fixtures_env :: env where
  "fixtures_env = clean_env \<lparr>
     fs_listing := (\<lambda>d. if path_str d = ''f/valid'' then [''a.json'', ''note.txt''] else if path_str d = ''f/invalid'' then [''b.json''] else []),
     fs_read_text := (\<lambda>p. if path_str p = ''f/valid/a.json'' then Inr ''P'' else if path_str p = ''f/invalid/b.json'' then Inr ''Q''
        else fs_read_text clean_env p),
     json_decode := (\<lambda>s. if s = ''Q'' then Decoded (JObj reused_proof) else json_decode clean_env s) \<rparr>"

lemma fixtures_env_accepted: "validate_fixtures fixtures_env (mk_path ''f'') = Inr ()"
  by code_simp

theorem runner_fixtures_separated_witness:
  "\<exists>e. validate_proof fixtures_env (mk_path ''f/invalid/b.json'') = Inl e \<and> (is_RunnerCleanlinessError e \<or> is_RunnerProofError e)"
proof -
  have "mk_path ''f/invalid/b.json'' \<in> set (json_files fixtures_env (path_join (mk_path ''f'') ''invalid''))" by code_simp
  with runner_fixtures_separated[of fixtures_env "mk_path ''f''"] fixtures_env_accepted show ?thesis by blast
qed

text \<open>Two runs: the fixtures, which pass, and a proof with an integer literal that the decoder refuses.\<close>

definition long_integer_env :: env where
  "long_integer_env = clean_env \<lparr> json_decode := (\<lambda>s. IntegerTooLong ''Exceeds the limit (4300 digits) for integer string conversion'') \<rparr>"

lemma fixtures_env_run: "main_rc (Inr ()) fixtures_env [''--fixtures'', ''f''] = Inr ([], 0)"
  by code_simp

lemma long_integer_run:
  "main_rc (Inr ()) long_integer_env [''--proof'', ''p''] = Inl (ValueError ''Exceeds the limit (4300 digits) for integer string conversion'')"
  by code_simp

theorem runner_command_ends_witness:
  "((\<exists>line status. main_rc (Inr ()) long_integer_env [''--proof'', ''p''] = Inr (line, status) \<and> status \<in> {0, 1}) \<or>
    (\<exists>e. main_rc (Inr ()) long_integer_env [''--proof'', ''p''] = Inl e \<and> escapes_command e)) \<and>
   main_rc (Inr ()) long_integer_env [''--proof'', ''p''] = Inl (ValueError ''Exceeds the limit (4300 digits) for integer string conversion'') \<and>
   main_rc (Inr ()) fixtures_env [''--fixtures'', ''f''] = Inr ([], 0)"
proof -
  have "io_env clean_env" by (simp add: clean_env_def io_env_files_env)
  then have "io_env long_integer_env" by (simp add: io_env_def long_integer_env_def)
  from runner_command_ends[OF this, of "[''--proof'', ''p'']"] long_integer_run fixtures_env_run show ?thesis by blast
qed

end
