(* ===== verification/RegexGroups.thy ===== *)
theory RegexGroups
  imports PyRegex
begin

text \<open>
  Patterns with groups. A piece of a pattern spans a language when the texts it can consume depend on nothing
  but the texts; a concatenation of such pieces between the two anchors matches a text exactly when the text is
  a concatenation of words, one of each language, and the groups are the words of the marked pieces.
\<close>

section \<open>Model\<close>

text \<open>
  Groups. The pieces of a concatenation, some of them marked as groups, with what each marked piece
  consumed; \<open>re_fullgroups\<close> is \<^verbatim>\<open>fullmatch(s).groups()\<close>, the groups of the first way in
  which the matcher reaches the end.
\<close>

fun seq_groups :: "(bool \<times> rx) list \<Rightarrow> cursor \<Rightarrow> (string list \<times> cursor) list" where
  "seq_groups [] st = [([], st)]"
| "seq_groups ((marked, r) # ps) st =
     concat (map (\<lambda>st'. map (\<lambda>(gs, st''). ((if marked then [take (length (snd st) - length (snd st')) (snd st)] else []) @ gs, st''))
       (seq_groups ps st')) (matches r st))"

definition re_fullgroups :: "(bool \<times> rx) list \<Rightarrow> string \<Rightarrow> string list option" where
  "re_fullgroups ps s =
     (case filter (\<lambda>(gs, st). snd st = []) (seq_groups ps (None, s)) of [] \<Rightarrow> None | (gs, _) # _ \<Rightarrow> Some gs)"

section \<open>Pieces that span a language\<close>

definition spans :: "rx \<Rightarrow> (string \<Rightarrow> bool) \<Rightarrow> bool" where
  "spans r L \<longleftrightarrow> (\<forall>st st'. st' \<in> set (matches r st) \<longleftrightarrow> (\<exists>w. L w \<and> prefix w (snd st) \<and> st' = advance (length w) st))"

lemma spansD: "spans r L \<Longrightarrow> st' \<in> set (matches r st) \<longleftrightarrow> (\<exists>w. L w \<and> prefix w (snd st) \<and> st' = advance (length w) st)"
  unfolding spans_def by blast

lemma in_concat_map: "x \<in> set (concat (map f xs)) \<longleftrightarrow> (\<exists>y. y \<in> set xs \<and> x \<in> set (f y))"
  by auto

lemma prefix_split: "prefix (v @ w) s \<longleftrightarrow> prefix v s \<and> prefix w (drop (length v) s)"
  by (auto simp: prefix_def)

lemma prefix_to_end: "prefix w s \<and> snd (advance (length w) (p, s)) = [] \<longleftrightarrow> s = w"
  by (auto simp: prefix_def)

lemma advance_append:
  "prefix v (snd st) \<Longrightarrow> prefix w (snd (advance (length v) st)) \<Longrightarrow> advance (length w) (advance (length v) st) = advance (length (v @ w)) st"
  by (auto simp: prefix_def advance_advance)

lemma spans_Eps: "spans Eps (\<lambda>w. w = [])"
  by (auto simp: spans_def)

lemma spans_Ch: "spans (Ch P) (\<lambda>w. \<exists>c. w = [c] \<and> P c)"
  unfolding spans_def
proof (intro allI)
  fix st st'
  have "st' \<in> set (matches (Ch P) st) \<longleftrightarrow> (\<exists>c. P c \<and> prefix [c] (snd st) \<and> st' = advance 1 st)"
  proof (cases "snd st")
    case (Cons c cs)
    then have "st' \<in> set (matches (Ch P) st) \<longleftrightarrow> P c \<and> st' = advance 1 st" by (auto simp: advance_def)
    then show ?thesis by (auto simp: Cons)
  qed simp
  then show "st' \<in> set (matches (Ch P) st) \<longleftrightarrow> (\<exists>w. (\<exists>c. w = [c] \<and> P c) \<and> prefix w (snd st) \<and> st' = advance (length w) st)"
    by (metis length_Cons list.size(3) One_nat_def)
qed

lemma spans_Seq:
  assumes "spans r L" and "spans q M"
  shows "spans (Seq r q) (\<lambda>w. \<exists>u v. w = u @ v \<and> L u \<and> M v)"
  unfolding spans_def
proof (intro allI)
  fix st st'
  have "st' \<in> set (matches (Seq r q) st) \<longleftrightarrow>
      (\<exists>u v. L u \<and> M v \<and> prefix u (snd st) \<and> prefix v (snd (advance (length u) st)) \<and> st' = advance (length v) (advance (length u) st))"
    unfolding matches.simps(3) in_concat_map spansD[OF assms(1)] spansD[OF assms(2)] by blast
  also have "\<dots> \<longleftrightarrow> (\<exists>u v. L u \<and> M v \<and> prefix (u @ v) (snd st) \<and> st' = advance (length (u @ v)) st)"
    by (intro ex_cong1) (auto simp: prefix_split advance_append)
  finally show "st' \<in> set (matches (Seq r q) st) \<longleftrightarrow>
      (\<exists>w. (\<exists>u v. w = u @ v \<and> L u \<and> M v) \<and> prefix w (snd st) \<and> st' = advance (length w) st)" by blast
qed

lemma spans_cong: "spans r L \<Longrightarrow> (\<And>w. L w = M w) \<Longrightarrow> spans r M"
  by (simp add: spans_def)

lemma spans_lit: "spans (lit w) (\<lambda>v. v = w)"
proof (induction w)
  case Nil
  then show ?case using spans_Eps by (simp add: lit_def)
next
  case (Cons c w)
  note IH = Cons
  show ?case
  proof (cases w)
    case Nil
    show ?thesis unfolding lit_def Nil list.simps seqs.simps by (rule spans_cong[OF spans_Ch]) auto
  next
    case (Cons d w')
    note w = this
    have "lit (c # w) = Seq (Ch (\<lambda>x. x = c)) (lit w)" by (simp add: lit_def w)
    with spans_Seq[OF spans_Ch[of "\<lambda>x. x = c"] IH] show ?thesis by (simp add: spans_def)
  qed
qed

lemma spans_Star_Ch: "spans (Star (Ch P)) (list_all P)"
  unfolding spans_def Star_Ch
proof (intro allI iffI; elim exE conjE)
  fix st st' n assume "class_run P n st" "st' = advance n st"
  then show "\<exists>w. list_all P w \<and> prefix w (snd st) \<and> st' = advance (length w) st"
    by (intro exI[of _ "take n (snd st)"]) (auto simp: class_run_def take_is_prefix min_def)
next
  fix st st' w assume "list_all P w" "prefix w (snd st)" "st' = advance (length w) st"
  then show "\<exists>n. class_run P n st \<and> st' = advance n st"
    by (intro exI[of _ "length w"]) (auto simp: class_run_def prefix_def)
qed

lemma spans_plus_Ch: "spans (plus (Ch P)) (\<lambda>w. w \<noteq> [] \<and> list_all P w)"
  unfolding plus_def
proof (rule spans_cong[OF spans_Seq[OF spans_Ch spans_Star_Ch]])
  fix w show "(\<exists>u v. w = u @ v \<and> (\<exists>c. u = [c] \<and> P c) \<and> list_all P v) = (w \<noteq> [] \<and> list_all P w)"
    by (cases w) (auto intro: exI[of _ "[_]"] exI[of _ "[]"])
qed

lemma spans_Alt:
  assumes "spans r L" and "spans q M"
  shows "spans (Alt r q) (\<lambda>w. L w \<or> M w)"
  using assms unfolding spans_def by auto

lemma spans_opt:
  assumes "spans r L"
  shows "spans (opt r) (\<lambda>w. w = [] \<or> L w)"
  unfolding spans_def
proof (intro allI)
  fix st st'
  have "st' \<in> set (matches (opt r) st) \<longleftrightarrow> st' \<in> set (matches r st) \<or> st' = st" by (auto simp: opt_def numeral_eq_Suc)
  then show "st' \<in> set (matches (opt r) st) \<longleftrightarrow> (\<exists>w. (w = [] \<or> L w) \<and> prefix w (snd st) \<and> st' = advance (length w) st)"
    using spansD[OF assms, of st' st] by auto
qed

lemma spans_full: "spans r L \<Longrightarrow> (\<exists>st \<in> set (matches r (p, s)). snd st = []) \<longleftrightarrow> L s"
  unfolding Bex_def spansD snd_conv using prefix_to_end[of _ s p] by metis

section \<open>Whole patterns\<close>

lemma seq_groups_Cons:
  "(gs, st'') \<in> set (seq_groups ((m, r) # ps) st) \<longleftrightarrow>
     (\<exists>st' hs. st' \<in> set (matches r st) \<and> (hs, st'') \<in> set (seq_groups ps st') \<and>
        gs = (if m then [take (length (snd st) - length (snd st')) (snd st)] else []) @ hs)"
  unfolding seq_groups.simps in_concat_map set_map image_iff Bex_def split_paired_Ex prod.case prod.inject by (cases st'') blast

lemma seq_groups_append:
  "(gs, st'') \<in> set (seq_groups (ps @ qs) st) \<longleftrightarrow>
     (\<exists>hs ks st'. gs = hs @ ks \<and> (hs, st') \<in> set (seq_groups ps st) \<and> (ks, st'') \<in> set (seq_groups qs st'))"
proof (induction ps arbitrary: st gs)
  case (Cons p ps)
  obtain m r where p: "p = (m, r)" by (cases p)
  show ?case unfolding p append_Cons seq_groups_Cons Cons.IH by (metis append_assoc)
qed simp

text \<open>The words of the marked pieces.\<close>

fun marked_words :: "(bool \<times> rx \<times> (string \<Rightarrow> bool)) list \<Rightarrow> string list \<Rightarrow> string list" where
  "marked_words ((m, _, _) # ps) (w # ws) = (if m then w # marked_words ps ws else marked_words ps ws)"
| "marked_words _ _ = []"

lemma seq_groups_spans:
  assumes "\<forall>(m, r, L) \<in> set ps. spans r L"
  shows "(gs, st') \<in> set (seq_groups (map (\<lambda>(m, r, L). (m, r)) ps) st) \<longleftrightarrow>
    (\<exists>ws. list_all2 (\<lambda>(m, r, L) w. L w) ps ws \<and> prefix (concat ws) (snd st) \<and> gs = marked_words ps ws \<and>
       st' = advance (length (concat ws)) st)"
  using assms
proof (induction ps arbitrary: st gs)
  case Nil
  then show ?case by auto
next
  case (Cons p ps)
  obtain m r L where p: "p = (m, r, L)" by (cases p)
  have r: "spans r L" and rest: "\<forall>(m, r, L) \<in> set ps. spans r L" using Cons.prems p by auto
  let ?rest = "map (\<lambda>(m, r, L). (m, r)) ps"
  have "(gs, st') \<in> set (seq_groups ((m, r) # ?rest) st) \<longleftrightarrow>
      (\<exists>w hs. L w \<and> prefix w (snd st) \<and> (hs, st') \<in> set (seq_groups ?rest (advance (length w) st)) \<and> gs = (if m then [w] else []) @ hs)"
    (is "_ \<longleftrightarrow> (\<exists>w hs. ?R w hs)")
  proof
    assume "(gs, st') \<in> set (seq_groups ((m, r) # ?rest) st)"
    then obtain st1 hs where "st1 \<in> set (matches r st)" "(hs, st') \<in> set (seq_groups ?rest st1)"
      "gs = (if m then [take (length (snd st) - length (snd st1)) (snd st)] else []) @ hs" unfolding seq_groups_Cons by blast
    moreover from this obtain w where "L w" "prefix w (snd st)" "st1 = advance (length w) st" using spansD[OF r] by blast
    ultimately have "?R w hs" by (auto simp: prefix_def)
    then show "\<exists>w hs. ?R w hs" by blast
  next
    assume "\<exists>w hs. ?R w hs"
    then obtain w hs where w: "?R w hs" by blast
    then have "advance (length w) st \<in> set (matches r st)" using spansD[OF r] by blast
    moreover have "take (length (snd st) - length (snd (advance (length w) st))) (snd st) = w" using w by (auto simp: prefix_def)
    ultimately show "(gs, st') \<in> set (seq_groups ((m, r) # ?rest) st)" unfolding seq_groups_Cons using w by metis
  qed
  also have "\<dots> \<longleftrightarrow> (\<exists>w ws. L w \<and> prefix w (snd st) \<and> list_all2 (\<lambda>(m, r, L) w. L w) ps ws \<and>
      prefix (concat ws) (snd (advance (length w) st)) \<and> gs = (if m then [w] else []) @ marked_words ps ws \<and>
      st' = advance (length (concat ws)) (advance (length w) st))"
    unfolding Cons.IH[OF rest] by blast
  also have "\<dots> \<longleftrightarrow> (\<exists>w ws. L w \<and> list_all2 (\<lambda>(m, r, L) w. L w) ps ws \<and> prefix (concat (w # ws)) (snd st) \<and>
      gs = marked_words (p # ps) (w # ws) \<and> st' = advance (length (concat (w # ws))) st)"
    by (intro ex_cong1) (auto simp: p prefix_split advance_append)
  also have "\<dots> \<longleftrightarrow> (\<exists>ws. list_all2 (\<lambda>(m, r, L) w. L w) (p # ps) ws \<and> prefix (concat ws) (snd st) \<and> gs = marked_words (p # ps) ws \<and>
       st' = advance (length (concat ws)) st)"
    unfolding list_all2_Cons1 p prod.case by blast
  finally show ?case by (simp only: p list.map prod.case)
qed

text \<open>Between the anchors, under \<^verbatim>\<open>fullmatch\<close>.\<close>

definition anchored_groups :: "(bool \<times> rx) list \<Rightarrow> (bool \<times> rx) list" where
  "anchored_groups ps = (False, Bos) # ps @ [(False, Eos)]"

lemma anchored_groups_iff:
  assumes "\<forall>(m, r, L) \<in> set ps. spans r L"
  shows "(\<exists>st. (gs, st) \<in> set (seq_groups (anchored_groups (map (\<lambda>(m, r, L). (m, r)) ps)) (None, s)) \<and> snd st = []) \<longleftrightarrow>
    (\<exists>ws. list_all2 (\<lambda>(m, r, L) w. L w) ps ws \<and> s = concat ws \<and> gs = marked_words ps ws)"
proof -
  let ?qs = "map (\<lambda>(m, r, L). (m, r)) ps"
  have anchors: "(gs, st) \<in> set (seq_groups (anchored_groups ?qs) (None, s)) \<and> snd st = [] \<longleftrightarrow>
      (gs, st) \<in> set (seq_groups ?qs (None, s)) \<and> snd st = []" for st
    unfolding anchored_groups_def seq_groups_Cons seq_groups_append seq_groups.simps(1) matches.simps
    by (cases st) (auto intro: exI[of _ gs])
  have "(\<exists>st. (gs, st) \<in> set (seq_groups (anchored_groups ?qs) (None, s)) \<and> snd st = []) \<longleftrightarrow>
      (\<exists>ws. list_all2 (\<lambda>(m, r, L) w. L w) ps ws \<and> (prefix (concat ws) s \<and> snd (advance (length (concat ws)) (None, s)) = []) \<and>
         gs = marked_words ps ws)"
    unfolding anchors seq_groups_spans[OF assms] snd_conv by blast
  then show ?thesis unfolding prefix_to_end .
qed

lemma ex_words:
  "(\<exists>ws. list_all2 (\<lambda>(m, r, L) w. L w) ((m, r, L) # ps) ws \<and> P ws) \<longleftrightarrow> (\<exists>w. L w \<and> (\<exists>ws. list_all2 (\<lambda>(m, r, L) w. L w) ps ws \<and> P (w # ws)))"
  "(\<exists>ws. list_all2 (\<lambda>(m, r, L) w. L w) [] ws \<and> P ws) \<longleftrightarrow> P []"
  by (auto simp: list_all2_Cons1)

lemma re_fullgroups_None: "re_fullgroups ps s = None \<longleftrightarrow> \<not> (\<exists>gs st. (gs, st) \<in> set (seq_groups ps (None, s)) \<and> snd st = [])"
proof -
  have "re_fullgroups ps s = None \<longleftrightarrow> filter (\<lambda>(gs, st). snd st = []) (seq_groups ps (None, s)) = []"
    by (auto simp: re_fullgroups_def split: list.splits)
  then show ?thesis by (auto simp: filter_empty_conv)
qed

lemma re_fullgroups_Some: "re_fullgroups ps s = Some gs \<Longrightarrow> \<exists>st. (gs, st) \<in> set (seq_groups ps (None, s)) \<and> snd st = []"
  by (auto simp: re_fullgroups_def split: list.splits prod.splits dest!: filter_eq_ConsD)

text \<open>A pattern that splits a text in at most one way has its groups determined.\<close>

lemma re_fullgroups_unique:
  assumes "\<And>gs hs st st'. (gs, st) \<in> set (seq_groups ps (None, s)) \<Longrightarrow> snd st = [] \<Longrightarrow>
      (hs, st') \<in> set (seq_groups ps (None, s)) \<Longrightarrow> snd st' = [] \<Longrightarrow> gs = hs"
  shows "re_fullgroups ps s = Some gs \<longleftrightarrow> (\<exists>st. (gs, st) \<in> set (seq_groups ps (None, s)) \<and> snd st = [])"
proof
  assume "\<exists>st. (gs, st) \<in> set (seq_groups ps (None, s)) \<and> snd st = []"
  moreover from this obtain hs where "re_fullgroups ps s = Some hs" using re_fullgroups_None[of ps s] by fastforce
  ultimately show "re_fullgroups ps s = Some gs" using assms re_fullgroups_Some by metis
qed (rule re_fullgroups_Some)

lemma fullmatch_plus_class: "re_fullmatch (seqs [Bos, plus (Ch P), Eos]) s \<longleftrightarrow> s \<noteq> [] \<and> list_all P s"
proof -
  have "re_fullmatch (seqs [Bos, plus (Ch P), Eos]) s \<longleftrightarrow> (\<exists>st \<in> set (matches (plus (Ch P)) (None, s)). snd st = [])"
    unfolding re_fullmatch_def list_ex_iff by (auto split: if_splits)
  also have "\<dots> \<longleftrightarrow> s \<noteq> [] \<and> list_all P s"
    by (rule spans_full[OF spans_plus_Ch])
  finally show ?thesis .
qed

end
