(* ===== verification/ProtectedReview.thy ===== *)
theory ProtectedReview
  imports RunnerCleanliness RegexGroups
begin

text \<open>
  \<^verbatim>\<open>qa/protected_environment_review_check.py\<close>: the normalized proof that a reviewer approved the protected
  environment of one GitHub Actions run. An accepted proof names one run of one repository in its run URL, in
  its approvals URL and in its run id, and holds nothing private at any depth.
\<close>

section \<open>Model\<close>

definition SCHEMA_ID :: string where
  "SCHEMA_ID = ''zig-scheduler/protected-environment-review/v1''"

definition DEFAULT_SCHEMA_pr :: path where
  "DEFAULT_SCHEMA_pr = mk_path ''schemas/control/protected-environment-review.v1.schema.json''"

definition DEFAULT_FIXTURES_pr :: path where
  "DEFAULT_FIXTURES_pr = mk_path ''fixtures/protected-environment-review''"

definition REQUIRED_COMMENT :: string where
  "REQUIRED_COMMENT = ''manual protected VM proof only; not release approval''"

definition ENVIRONMENT_NAME :: string where
  "ENVIRONMENT_NAME = ''vm-proof-manual''"

definition not_slash :: rx where
  "not_slash = Ch (\<lambda>c. c \<noteq> CHR ''/'')"

definition RUN_ID_RE_pr :: rx where
  "RUN_ID_RE_pr = seqs [Bos, plus (Ch is_digit_char), Eos]"

definition RUN_URL_RE_pr :: "(bool \<times> rx) list" where
  "RUN_URL_RE_pr =
     [(False, Bos), (False, lit ''https://github.com/''), (True, plus not_slash), (False, lit ''/''), (True, plus not_slash),
      (False, lit ''/actions/runs/''), (True, plus (Ch is_digit_char)), (False, Eos)]"

definition API_URL_RE :: "(bool \<times> rx) list" where
  "API_URL_RE =
     [(False, Bos), (False, lit ''https://api.github.com/repos/''), (True, plus not_slash), (False, lit ''/''), (True, plus not_slash),
      (False, lit ''/actions/runs/''), (True, plus (Ch is_digit_char)), (False, lit ''/approvals''), (False, Eos)]"

definition HEAD_SHA_RE :: rx where
  "HEAD_SHA_RE = anchored_class is_hex_char 40 40"

definition RFC3339_UTC_RE :: rx where
  "RFC3339_UTC_RE =
     (let digits = (\<lambda>n. Rep n n (Ch is_digit_char)) in
      seqs [Bos, digits 4, lit ''-'', digits 2, lit ''-'', digits 2, lit ''T'', digits 2, lit '':'', digits 2, lit '':'', digits 2, lit ''Z'', Eos])"

definition hyphenated_key :: "string \<Rightarrow> rx" where
  "hyphenated_key w = seqs [lit_ic w, opt (Ch (\<lambda>c. c \<in> {CHR ''_'', CHR ''-''})), lit_ic ''key'']"

definition PRIVACY_KEY_RE :: rx where
  "PRIVACY_KEY_RE =
     alts [lit_ic ''authorization'', lit_ic ''bearer'', lit_ic ''token'', lit_ic ''secret'', lit_ic ''password'', hyphenated_key ''api'',
       lit_ic ''cookie'', lit_ic ''session'', hyphenated_key ''private'', lit_ic ''cmdline'', lit_ic ''argv'']"

definition PRIVATE_VALUE_RE :: rx where
  "PRIVATE_VALUE_RE =
     (let word = plus (Ch (\<lambda>c. is_alnum_ascii c \<or> c = CHR ''_'')) in
      alts [lit_ic ''Authorization:'',
        seqs [lit_ic ''Bearer'', plus (Ch is_space_char), plus (Ch (\<lambda>c. is_alnum_ascii c \<or> c \<in> set ''._~+/=-''))],
        Seq (lit_ic ''ghp_'') word, Seq (lit_ic ''github_pat_'') word])"

definition ROOT_FIELDS_pr :: "string list" where
  "ROOT_FIELDS_pr =
     [''schema'', ''run_id'', ''run_url'', ''head_sha'', ''environment_name'', ''environment_id'', ''reviewer_status'', ''reviewer_identity'',
      ''reviewer_id'', ''comment'', ''review_history_api_url'', ''collected_at'', ''host_mutation'', ''release_eligible'',
      ''production_capacity_claim'']"

definition SCHEMA_FIELDS :: "string list" where
  "SCHEMA_FIELDS = [''$id'', ''$schema'', ''type'', ''additionalProperties'', ''required'', ''properties'']"

datatype mode_pr = ReviewProof | ReviewFixtures | ReviewInvalidFixtures | ReviewSelfTest

record review_args =
  review_mode :: mode_pr
  review_proof :: "path option"
  review_fixtures :: path
  review_schema :: path

definition reject_constant :: "string \<Rightarrow> exn" where
  "reject_constant value = ProtectedReviewError (msg [''invalid JSON constant: '', value])"

definition load_json_object_pr :: "env \<Rightarrow> path \<Rightarrow> json_object result" where
  "load_json_object_pr env path =
     (bindE (reraise is_JSONDecodeError
         (\<lambda>exc. case exc of JSONDecodeError pos m s \<Rightarrow>
         ProtectedReviewError (msg [''invalid JSON in '', path_str path, '' at byte '', show_nat pos, '': '', m]))
         (reraise is_FileNotFoundError
         (\<lambda>_. ProtectedReviewError (msg [''missing JSON file: '', path_str path]))
         (bindE (fs_read_text env path) (json_loads_strict env reject_constant)))) (\<lambda>raw.
     case obj_of raw of
         None \<Rightarrow> Inl (ProtectedReviewError (msg [path_str path, '' must contain a JSON object'']))
         | Some d \<Rightarrow> Inr d))"

text \<open>\<^verbatim>\<open>parse_args\<close> on the options that \<^verbatim>\<open>argparse\<close> found; the last case does not arise, since exactly
  one option is set by then.\<close>

definition parse_args_pr :: "string list \<Rightarrow> (path option \<times> path option \<times> path option \<times> path) \<Rightarrow> review_args result" where
  "parse_args_pr argv = (\<lambda>(proof, fixtures, invalid_fixtures, schema).
     if argv = [''--self-test''] then
       Inr \<lparr> review_mode = ReviewSelfTest, review_proof = None, review_fixtures = DEFAULT_FIXTURES_pr, review_schema = DEFAULT_SCHEMA_pr \<rparr>
     else
       ((let selected = length (filter (\<lambda>value. value \<noteq> None) [proof, fixtures, invalid_fixtures]) in
       thenE (raise_if (selected \<noteq> 1)
           (ProtectedReviewError ''exactly one of --proof, --fixtures, --invalid-fixtures, or --self-test is required'')) (
       (case (proof, invalid_fixtures, fixtures) of
           (Some p, _, _) \<Rightarrow>
           Inr \<lparr> review_mode = ReviewProof, review_proof = Some p, review_fixtures = DEFAULT_FIXTURES_pr, review_schema = schema \<rparr>
           | (None, Some p, _) \<Rightarrow>
           Inr \<lparr> review_mode = ReviewInvalidFixtures, review_proof = None, review_fixtures = p, review_schema = schema \<rparr>
           | (None, None, Some p) \<Rightarrow>
           Inr \<lparr> review_mode = ReviewFixtures, review_proof = None, review_fixtures = p, review_schema = schema \<rparr>
           | (None, None, None) \<Rightarrow> Inl (TypeError ''unreachable''))))))"

definition require_pr :: "bool \<Rightarrow> string \<Rightarrow> check" where
  "require_pr condition message = raise_if (\<not> condition) (ProtectedReviewError message)"

definition text_pr :: "json \<Rightarrow> string \<Rightarrow> string result" where
  "text_pr v context =
     (case text_of v of
        None \<Rightarrow> Inl (ProtectedReviewError (msg [context, '' must be non-empty text'']))
      | Some s \<Rightarrow> Inr s)"

definition int_field_pr :: "json \<Rightarrow> string \<Rightarrow> int result" where
  "int_field_pr v context =
     (case int_of v of
        None \<Rightarrow> Inl (ProtectedReviewError (msg [context, '' must be a positive integer'']))
      | Some n \<Rightarrow>
          if is_bool v \<or> n < 1 then Inl (ProtectedReviewError (msg [context, '' must be a positive integer''])) else Inr n)"

fun scan_privacy :: "json \<Rightarrow> string \<Rightarrow> check" where
  "scan_privacy (JStr raw) context = require_pr (\<not> re_search PRIVATE_VALUE_RE raw) (msg [context, '' contains privacy-unsafe value''])"
| "scan_privacy (JList rows) context =
     forE (\<lambda>(index, item). scan_privacy item (msg [context, ''['', show_nat index, '']''])) (enumerate_from 0 rows)"
| "scan_privacy (JObj row) context =
     forE (\<lambda>(key, item).
       thenE (require_pr (\<not> re_search PRIVACY_KEY_RE key) (msg [context, ''.'', key, '' is a privacy-unsafe key'']))
         (scan_privacy item (msg [context, ''.'', key]))) row"
| "scan_privacy _ context = Inr ()"

definition only_fields_pr :: "json_object \<Rightarrow> string list \<Rightarrow> string \<Rightarrow> check" where
  "only_fields_pr row allowed context =
     (let extra = sorted_diff (keys row) allowed in
      require_pr (extra = []) (msg [context, '' has unexpected fields: '', join '', '' extra]))"

definition validate_schema_file_pr :: "env \<Rightarrow> path \<Rightarrow> check" where
  "validate_schema_file_pr env path =
     (bindE (load_json_object_pr env path) (\<lambda>schema.
     thenE (only_fields_pr schema SCHEMA_FIELDS ''schema'') (
     thenE (require_pr (jget schema ''$id'' = JStr SCHEMA_ID) ''protected review schema $id mismatch'') (
     (case list_of (jget schema ''required'') of
         None \<Rightarrow> Inl (ProtectedReviewError ''schema.required must be a list'')
         | Some required \<Rightarrow>
         (bindE (mapE (\<lambda>item. text_pr item ''schema.required[]'') required) (\<lambda>names.
         thenE (require_pr (set names = set ROOT_FIELDS_pr) ''schema.required must match protected review root fields'') (
         require_pr (jget schema ''additionalProperties'' = JBool False) ''schema must reject additional properties''))))))))"

definition validate_proof_pr :: "env \<Rightarrow> path \<Rightarrow> path \<Rightarrow> check" where
  "validate_proof_pr env path schema_path =
     (thenE (validate_schema_file_pr env schema_path) (
     bindE (load_json_object_pr env path) (\<lambda>data.
     thenE (scan_privacy (JObj data) (path_str path)) (
     thenE (only_fields_pr data ROOT_FIELDS_pr (path_str path)) (
     thenE (require_pr (jget data ''schema'' = JStr SCHEMA_ID) ''unsupported protected review schema'') (
     bindE (text_pr (jget data ''run_id'') ''run_id'') (\<lambda>run_id.
     thenE (require_pr (re_fullmatch RUN_ID_RE_pr run_id) ''run_id must be decimal GitHub Actions run id text'') (
     bindE (text_pr (jget data ''run_url'') ''run_url'') (\<lambda>run_url.
     (case re_fullgroups RUN_URL_RE_pr run_url of
         None \<Rightarrow> Inl (ProtectedReviewError ''run_url must be a GitHub Actions run URL'')
         | Some run_match \<Rightarrow>
         (thenE (require_pr (run_match ! 2 = run_id) ''run_url run id must match run_id'') (
         bindE (text_pr (jget data ''head_sha'') ''head_sha'') (\<lambda>head_sha.
         thenE (require_pr (re_fullmatch HEAD_SHA_RE head_sha) ''head_sha must be 40 lowercase hex characters'') (
         thenE (require_pr (jget data ''environment_name'' = JStr ENVIRONMENT_NAME) ''environment_name must be vm-proof-manual'') (
         bindE (int_field_pr (jget data ''environment_id'') ''environment_id'') (\<lambda>_.
         thenE (require_pr (jget data ''reviewer_status'' = JStr ''approved'') ''reviewer_status must be approved'') (
         bindE (text_pr (jget data ''reviewer_identity'') ''reviewer_identity'') (\<lambda>_.
         bindE (int_field_pr (jget data ''reviewer_id'') ''reviewer_id'') (\<lambda>_.
         thenE (require_pr (jget data ''comment'' = JStr REQUIRED_COMMENT) ''comment must exactly match protected VM proof acknowledgement'') (
         bindE (text_pr (jget data ''review_history_api_url'') ''review_history_api_url'') (\<lambda>api_url.
         (case re_fullgroups API_URL_RE api_url of
         None \<Rightarrow> Inl (ProtectedReviewError ''review_history_api_url must be GitHub approvals API URL'')
         | Some api_match \<Rightarrow>
         (thenE (require_pr (api_match ! 0 = run_match ! 0 \<and> api_match ! 1 = run_match ! 1)
         ''review_history_api_url repository must match run_url'') (
         thenE (require_pr (api_match ! 2 = run_id) ''review_history_api_url run id must match run_id'') (
         bindE (text_pr (jget data ''collected_at'') ''collected_at'') (\<lambda>collected_at.
         thenE (require_pr (re_fullmatch RFC3339_UTC_RE collected_at) ''collected_at must be UTC RFC3339 seconds'') (
         thenE (require_pr (jget data ''host_mutation'' = JBool False) ''host_mutation must be false'') (
         thenE (require_pr (jget data ''release_eligible'' = JBool False) ''release_eligible must be false'') (
         require_pr (jget data ''production_capacity_claim'' = JBool False) ''production_capacity_claim must be false'')))))))))))))))))))))))))))))"

definition reject_fixture_pr :: "env \<Rightarrow> path \<Rightarrow> path \<Rightarrow> check" where
  "reject_fixture_pr env schema invalid =
     (case validate_proof_pr env invalid schema of
        Inl e \<Rightarrow> if is_ProtectedReviewError e then Inr () else Inl e
      | Inr _ \<Rightarrow> Inl (ProtectedReviewError (msg [''expected invalid protected review fixture rejection: '', path_str invalid])))"

definition validate_invalid_fixtures :: "env \<Rightarrow> path \<Rightarrow> path \<Rightarrow> check" where
  "validate_invalid_fixtures env base schema =
     (let invalid_paths = json_files env base in
      thenE (require_pr (invalid_paths \<noteq> []) (msg [''missing invalid protected review fixtures under '', path_str base]))
        (forE (reject_fixture_pr env schema) invalid_paths))"

definition validate_fixtures_pr :: "env \<Rightarrow> path \<Rightarrow> path \<Rightarrow> check" where
  "validate_fixtures_pr env base schema =
     (let valid_paths = json_files env (path_join base ''valid'') in
      (thenE (require_pr (valid_paths \<noteq> []) (msg [''missing valid protected review fixtures under '', path_str (path_join base ''valid'')])) (
      thenE (forE (\<lambda>valid. validate_proof_pr env valid schema) valid_paths) (
      validate_invalid_fixtures env (path_join base ''invalid'') schema))))"

text \<open>\<^verbatim>\<open>main\<close>: the last line printed and the exit status.\<close>

definition main_pr :: "env \<Rightarrow> string list \<Rightarrow> (path option \<times> path option \<times> path option \<times> path) \<Rightarrow> (string \<times> int) result" where
  "main_pr env argv options =
     (let outcome =
        (bindE (parse_args_pr argv options) (\<lambda>args.
          (case review_mode args of
              ReviewSelfTest \<Rightarrow>
              thenE (validate_fixtures_pr env (review_fixtures args) (review_schema args)) (Inr ''PASS protected review self-test'')
              | ReviewProof \<Rightarrow>
              (case review_proof args of
              None \<Rightarrow> Inl (ProtectedReviewError ''--proof path missing'')
              | Some p \<Rightarrow> thenE (validate_proof_pr env p (review_schema args)) (Inr (msg [''PASS protected review proof: '', path_str p])))
              | ReviewFixtures \<Rightarrow> thenE (validate_fixtures_pr env (review_fixtures args) (review_schema args)) (Inr [])
              | ReviewInvalidFixtures \<Rightarrow> thenE (validate_invalid_fixtures env (review_fixtures args) (review_schema args)) (Inr []))))
      in case outcome of
           Inr line \<Rightarrow> Inr (line, 0)
         | Inl e \<Rightarrow> if is_ProtectedReviewError e then Inr ((msg [''FAIL protected review proof: '', exn_str e]), 1) else Inl e)"

section \<open>What the two URL patterns read\<close>

text \<open>A name of a repository or of its owner, as the patterns accept it.\<close>

definition slug :: "string \<Rightarrow> bool" where
  "slug s \<longleftrightarrow> s \<noteq> [] \<and> CHR ''/'' \<notin> set s"

definition run_url_of :: "string \<Rightarrow> string \<Rightarrow> string \<Rightarrow> string" where
  "run_url_of owner repo run = ''https://github.com/'' @ owner @ ''/'' @ repo @ ''/actions/runs/'' @ run"

definition approvals_url_of :: "string \<Rightarrow> string \<Rightarrow> string \<Rightarrow> string" where
  "approvals_url_of owner repo run = ''https://api.github.com/repos/'' @ owner @ ''/'' @ repo @ ''/actions/runs/'' @ run @ ''/approvals''"

lemma list_all_not_slash: "list_all (\<lambda>c. c \<noteq> CHR ''/'') w \<longleftrightarrow> CHR ''/'' \<notin> set w"
  by (auto simp: list_all_iff)

lemma slash_split: "CHR ''/'' \<notin> set u \<Longrightarrow> CHR ''/'' \<notin> set v \<Longrightarrow> u @ CHR ''/'' # x = v @ CHR ''/'' # y \<longleftrightarrow> u = v \<and> x = y"
proof (induction u arbitrary: v)
  case Nil
  then show ?case by (cases v) auto
next
  case (Cons c u)
  then show ?case by (cases v) auto
qed

lemma run_url_of_inj:
  "slug o1 \<Longrightarrow> slug o2 \<Longrightarrow> slug r1 \<Longrightarrow> slug r2 \<Longrightarrow> run_url_of o1 r1 i1 = run_url_of o2 r2 i2 \<longleftrightarrow> o1 = o2 \<and> r1 = r2 \<and> i1 = i2"
  by (simp add: run_url_of_def slug_def slash_split)

lemma approvals_url_of_inj:
  "slug o1 \<Longrightarrow> slug o2 \<Longrightarrow> slug r1 \<Longrightarrow> slug r2 \<Longrightarrow>
     approvals_url_of o1 r1 i1 = approvals_url_of o2 r2 i2 \<longleftrightarrow> o1 = o2 \<and> r1 = r2 \<and> i1 = i2"
  by (simp add: approvals_url_of_def slug_def slash_split)

abbreviation slug_piece :: "bool \<times> rx \<times> (string \<Rightarrow> bool)" where
  "slug_piece \<equiv> (True, plus not_slash, \<lambda>w. w \<noteq> [] \<and> list_all (\<lambda>c. c \<noteq> CHR ''/'') w)"

abbreviation number_piece :: "bool \<times> rx \<times> (string \<Rightarrow> bool)" where
  "number_piece \<equiv> (True, plus (Ch is_digit_char), \<lambda>w. w \<noteq> [] \<and> list_all is_digit_char w)"

abbreviation lit_piece :: "string \<Rightarrow> bool \<times> rx \<times> (string \<Rightarrow> bool)" where
  "lit_piece w \<equiv> (False, lit w, \<lambda>v. v = w)"

lemma RUN_URL_RE_pr_match:
  "(\<exists>st. (gs, st) \<in> set (seq_groups RUN_URL_RE_pr (None, s)) \<and> snd st = []) \<longleftrightarrow>
     (\<exists>owner repo run. slug owner \<and> slug repo \<and> isdecimal run \<and> s = run_url_of owner repo run \<and> gs = [owner, repo, run])"
proof -
  define ps where "ps = [lit_piece ''https://github.com/'', slug_piece, lit_piece ''/'', slug_piece, lit_piece ''/actions/runs/'', number_piece]"
  have "RUN_URL_RE_pr = anchored_groups (map (\<lambda>(m, r, L). (m, r)) ps)" by (simp add: RUN_URL_RE_pr_def anchored_groups_def ps_def)
  moreover have "\<forall>(m, r, L) \<in> set ps. spans r L" by (simp add: ps_def spans_lit spans_plus_Ch not_slash_def)
  ultimately have "(\<exists>st. (gs, st) \<in> set (seq_groups RUN_URL_RE_pr (None, s)) \<and> snd st = []) \<longleftrightarrow>
      (\<exists>ws. list_all2 (\<lambda>(m, r, L) w. L w) ps ws \<and> s = concat ws \<and> gs = marked_words ps ws)"
    using anchored_groups_iff by metis
  also have "\<dots> \<longleftrightarrow> (\<exists>owner repo run. slug owner \<and> slug repo \<and> isdecimal run \<and> s = run_url_of owner repo run \<and> gs = [owner, repo, run])"
    unfolding ps_def ex_words by (auto simp: slug_def isdecimal_def run_url_of_def list_all_not_slash)
  finally show ?thesis .
qed

lemma API_URL_RE_match:
  "(\<exists>st. (gs, st) \<in> set (seq_groups API_URL_RE (None, s)) \<and> snd st = []) \<longleftrightarrow>
     (\<exists>owner repo run. slug owner \<and> slug repo \<and> isdecimal run \<and> s = approvals_url_of owner repo run \<and> gs = [owner, repo, run])"
proof -
  define ps where "ps = [lit_piece ''https://api.github.com/repos/'', slug_piece, lit_piece ''/'', slug_piece, lit_piece ''/actions/runs/'',
    number_piece, lit_piece ''/approvals'']"
  have "API_URL_RE = anchored_groups (map (\<lambda>(m, r, L). (m, r)) ps)" by (simp add: API_URL_RE_def anchored_groups_def ps_def)
  moreover have "\<forall>(m, r, L) \<in> set ps. spans r L" by (simp add: ps_def spans_lit spans_plus_Ch not_slash_def)
  ultimately have "(\<exists>st. (gs, st) \<in> set (seq_groups API_URL_RE (None, s)) \<and> snd st = []) \<longleftrightarrow>
      (\<exists>ws. list_all2 (\<lambda>(m, r, L) w. L w) ps ws \<and> s = concat ws \<and> gs = marked_words ps ws)"
    using anchored_groups_iff by metis
  also have "\<dots> \<longleftrightarrow> (\<exists>owner repo run. slug owner \<and> slug repo \<and> isdecimal run \<and> s = approvals_url_of owner repo run \<and> gs = [owner, repo, run])"
    unfolding ps_def ex_words by (auto simp: slug_def isdecimal_def approvals_url_of_def list_all_not_slash)
  finally show ?thesis .
qed

lemma RUN_URL_RE_pr_groups:
  "re_fullgroups RUN_URL_RE_pr s = Some gs \<longleftrightarrow>
     (\<exists>owner repo run. slug owner \<and> slug repo \<and> isdecimal run \<and> s = run_url_of owner repo run \<and> gs = [owner, repo, run])"
proof -
  have "re_fullgroups RUN_URL_RE_pr s = Some gs \<longleftrightarrow> (\<exists>st. (gs, st) \<in> set (seq_groups RUN_URL_RE_pr (None, s)) \<and> snd st = [])"
  proof (rule re_fullgroups_unique)
    fix xs ys st st' assume "(xs, st) \<in> set (seq_groups RUN_URL_RE_pr (None, s))" "snd st = []"
      "(ys, st') \<in> set (seq_groups RUN_URL_RE_pr (None, s))" "snd st' = []"
    then show "xs = ys" using RUN_URL_RE_pr_match[of xs s] RUN_URL_RE_pr_match[of ys s] run_url_of_inj by metis
  qed
  then show ?thesis unfolding RUN_URL_RE_pr_match .
qed

lemma API_URL_RE_groups:
  "re_fullgroups API_URL_RE s = Some gs \<longleftrightarrow>
     (\<exists>owner repo run. slug owner \<and> slug repo \<and> isdecimal run \<and> s = approvals_url_of owner repo run \<and> gs = [owner, repo, run])"
proof -
  have "re_fullgroups API_URL_RE s = Some gs \<longleftrightarrow> (\<exists>st. (gs, st) \<in> set (seq_groups API_URL_RE (None, s)) \<and> snd st = [])"
  proof (rule re_fullgroups_unique)
    fix xs ys st st' assume "(xs, st) \<in> set (seq_groups API_URL_RE (None, s))" "snd st = []"
      "(ys, st') \<in> set (seq_groups API_URL_RE (None, s))" "snd st' = []"
    then show "xs = ys" using API_URL_RE_match[of xs s] API_URL_RE_match[of ys s] approvals_url_of_inj by metis
  qed
  then show ?thesis unfolding API_URL_RE_match .
qed

section \<open>Readers and the privacy scan\<close>

lemma require_pr_ok_iff [ok_iff]: "require_pr c m = Inr u \<longleftrightarrow> c"
  by (simp add: require_pr_def ok_iff)

interpretation pr_text: value_reader text_pr text_of ProtectedReviewError
  by unfold_locales (auto simp: text_pr_def split: option.splits)

text \<open>A positive integer that is not a bool.\<close>

definition positive_of :: "json \<Rightarrow> int option" where
  "positive_of v = (case v of JInt n \<Rightarrow> if 1 \<le> n then Some n else None | _ \<Rightarrow> None)"

interpretation pr_int: value_reader int_field_pr positive_of ProtectedReviewError
  by unfold_locales (auto simp: int_field_pr_def positive_of_def split: option.splits json.splits if_splits)

lemma only_fields_pr_ok_iff [ok_iff]: "only_fields_pr d allowed c = Inr u \<longleftrightarrow> set (keys d) \<subseteq> set allowed"
  by (simp add: only_fields_pr_def Let_def ok_iff)

lemma load_json_object_pr_ok_iff [ok_iff]:
  "load_json_object_pr env p = Inr d \<longleftrightarrow>
     (\<exists>s. fs_read_text env p = Inr s \<and> json_constant env s = None \<and> json_decode env s = Decoded (JObj d))"
  by (auto simp: load_json_object_pr_def ok_iff obj_of_iff split: option.splits)

fun node_ok_pr :: "string \<Rightarrow> json \<Rightarrow> bool" where
  "node_ok_pr c (JStr s) \<longleftrightarrow> \<not> re_search PRIVATE_VALUE_RE s"
| "node_ok_pr c (JObj d) \<longleftrightarrow> (\<forall>k \<in> set (keys d). \<not> re_search PRIVACY_KEY_RE k)"
| "node_ok_pr c _ \<longleftrightarrow> True"

interpretation pr_scan: context_free_scanner scan_privacy node_ok_pr
proof
  fix v c
  show "scan_privacy v c = Inr () \<longleftrightarrow> node_ok_pr c v \<and> (\<forall>(c', v') \<in> set (children c v). scan_privacy v' c' = Inr ())"
    by (cases v) (auto simp: ok_iff obj_children_def list_children_def msg_def)
  fix c' show "node_ok_pr c v = node_ok_pr c' v" by (cases v) auto
qed

section \<open>What acceptance means\<close>

definition review_schema_ok :: "json_object \<Rightarrow> bool" where
  "review_schema_ok d \<longleftrightarrow>
     set (keys d) \<subseteq> set SCHEMA_FIELDS \<and> jget d ''$id'' = JStr SCHEMA_ID \<and> jget d ''additionalProperties'' = JBool False \<and>
     (\<exists>names. jget d ''required'' = JList (map JStr names) \<and> set names = set ROOT_FIELDS_pr)"

text \<open>One run of one repository, named in the run URL, the approvals URL and the run id.\<close>

definition names_one_run :: "json_object \<Rightarrow> string \<Rightarrow> string \<Rightarrow> string \<Rightarrow> bool" where
  "names_one_run d owner repo run \<longleftrightarrow>
     slug owner \<and> slug repo \<and> isdecimal run \<and> jget d ''run_id'' = JStr run \<and>
     jget d ''run_url'' = JStr (run_url_of owner repo run) \<and> jget d ''review_history_api_url'' = JStr (approvals_url_of owner repo run)"

definition approved_review :: "json_object \<Rightarrow> bool" where
  "approved_review d \<longleftrightarrow>
     jget d ''schema'' = JStr SCHEMA_ID \<and> jget d ''environment_name'' = JStr ENVIRONMENT_NAME \<and>
     jget d ''reviewer_status'' = JStr ''approved'' \<and> jget d ''comment'' = JStr REQUIRED_COMMENT \<and>
     (\<exists>s. jget d ''reviewer_identity'' = JStr s \<and> s \<noteq> []) \<and>
     (\<forall>f \<in> {''environment_id'', ''reviewer_id''}. \<exists>n. jget d f = JInt n \<and> 1 \<le> n) \<and>
     (\<exists>s. jget d ''head_sha'' = JStr s \<and> length s = 40 \<and> list_all is_hex_char s) \<and>
     (\<exists>s. jget d ''collected_at'' = JStr s \<and> re_fullmatch RFC3339_UTC_RE s) \<and>
     (\<forall>f \<in> {''host_mutation'', ''release_eligible'', ''production_capacity_claim''}. jget d f = JBool False)"

definition review_contract :: "json_object \<Rightarrow> bool" where
  "review_contract d \<longleftrightarrow>
     set (keys d) \<subseteq> set ROOT_FIELDS_pr \<and> (\<forall>(c, v) \<in> set (nodes [] (JObj d)). node_ok_pr c v) \<and> approved_review d \<and>
     (\<exists>owner repo run. names_one_run d owner repo run)"

lemma text_list_iff: "mapE (\<lambda>item. text_pr item c) xs = Inr names \<longleftrightarrow> xs = map JStr names \<and> [] \<notin> set names"
proof -
  have "list_all2 (\<lambda>x y. text_of x = Some y) xs names \<longleftrightarrow> xs = map JStr names \<and> [] \<notin> set names"
    by (induction xs names rule: list_induct2') (auto simp: text_of_iff)
  then show ?thesis by (simp add: mapE_ok_iff pr_text.read_ok)
qed

lemma ROOT_FIELDS_pr_texts: "[] \<notin> set ROOT_FIELDS_pr"
  by (simp add: ROOT_FIELDS_pr_def)

lemma validate_schema_file_pr_ok_iff:
  "validate_schema_file_pr env p = Inr () \<longleftrightarrow> (\<exists>d. load_json_object_pr env p = Inr d \<and> review_schema_ok d)"
proof -
  have req: "(case list_of v of None \<Rightarrow> Inl e
       | Some required \<Rightarrow> bindE (mapE (\<lambda>item. text_pr item ''schema.required[]'') required)
           (\<lambda>names. thenE (require_pr (set names = set ROOT_FIELDS_pr) m) (require_pr b m'))) = Inr () \<longleftrightarrow>
     (\<exists>names. v = JList (map JStr names) \<and> set names = set ROOT_FIELDS_pr) \<and> b" for v e m m' b
    using ROOT_FIELDS_pr_texts by (cases v) (auto simp: ok_iff text_list_iff)
  show ?thesis unfolding validate_schema_file_pr_def bindE_ok_iff thenE_ok_iff only_fields_pr_ok_iff require_pr_ok_iff req review_schema_ok_def
    by blast
qed

lemma text_pr_fullmatch: "\<not> re_fullmatch r [] \<Longrightarrow> (\<exists>s. text_of v = Some s \<and> re_fullmatch r s) \<longleftrightarrow> (\<exists>s. v = JStr s \<and> re_fullmatch r s)"
  by (auto simp: text_of_iff)

lemma positive_of_iff: "(\<exists>n. positive_of v = Some n) \<longleftrightarrow> (\<exists>n. v = JInt n \<and> 1 \<le> n)"
  by (cases v) (auto simp: positive_of_def)

lemma url_not_empty: "run_url_of owner repo run \<noteq> []" "approvals_url_of owner repo run \<noteq> []"
  by (simp_all add: run_url_of_def approvals_url_of_def)

lemma isdecimal_not_empty: "isdecimal s \<Longrightarrow> s \<noteq> []"
  by (simp add: isdecimal_def)

lemma RUN_ID_RE_pr_iff: "re_fullmatch RUN_ID_RE_pr s \<longleftrightarrow> isdecimal s"
  unfolding RUN_ID_RE_pr_def fullmatch_plus_class isdecimal_def ..

lemma HEAD_SHA_RE_iff: "re_fullmatch HEAD_SHA_RE s \<longleftrightarrow> length s = 40 \<and> list_all is_hex_char s"
  unfolding HEAD_SHA_RE_def by (subst re_fullmatch_anchored_class) auto

lemma RFC3339_UTC_RE_empty: "\<not> re_fullmatch RFC3339_UTC_RE []"
  by code_simp

lemmas review_steps = bindE_ok_iff thenE_ok_iff require_pr_ok_iff pr_text.read_ok pr_int.read_ok only_fields_pr_ok_iff case_option_Inl
  RUN_URL_RE_pr_groups API_URL_RE_groups RUN_ID_RE_pr_iff HEAD_SHA_RE_iff

lemma scan_privacy_ok_iff: "scan_privacy v c = Inr () \<longleftrightarrow> (\<forall>(c', v') \<in> set (nodes [] v). node_ok_pr c' v')"
  using pr_scan.scan_context[of v c "[]"] pr_scan.scan_ok_iff[of v "[]"] by blast

lemma validate_proof_pr_ok:
  assumes "validate_proof_pr env p schema = Inr ()"
  shows "\<exists>d. load_json_object_pr env p = Inr d \<and> review_contract d"
proof -
  obtain d run_id run_url run_match sha api_url api_match stamp env_id who who_id where
    load: "load_json_object_pr env p = Inr d" and scan: "scan_privacy (JObj d) (path_str p) = Inr ()"
    and fields: "set (keys d) \<subseteq> set ROOT_FIELDS_pr" "jget d ''schema'' = JStr SCHEMA_ID"
    and run: "text_of (jget d ''run_id'') = Some run_id" "text_of (jget d ''run_url'') = Some run_url"
      "re_fullgroups RUN_URL_RE_pr run_url = Some run_match" "run_match ! 2 = run_id"
    and sha: "text_of (jget d ''head_sha'') = Some sha" "length sha = 40" "list_all is_hex_char sha"
    and who: "jget d ''environment_name'' = JStr ENVIRONMENT_NAME" "positive_of (jget d ''environment_id'') = Some env_id"
      "jget d ''reviewer_status'' = JStr ''approved''" "text_of (jget d ''reviewer_identity'') = Some who"
      "positive_of (jget d ''reviewer_id'') = Some who_id" "jget d ''comment'' = JStr REQUIRED_COMMENT"
    and api: "text_of (jget d ''review_history_api_url'') = Some api_url" "re_fullgroups API_URL_RE api_url = Some api_match"
      "api_match ! 0 = run_match ! 0" "api_match ! 1 = run_match ! 1" "api_match ! 2 = run_id"
    and stamp: "text_of (jget d ''collected_at'') = Some stamp" "re_fullmatch RFC3339_UTC_RE stamp"
    and flags: "jget d ''host_mutation'' = JBool False" "jget d ''release_eligible'' = JBool False" "jget d ''production_capacity_claim'' = JBool False"
    using assms unfolding validate_proof_pr_def bindE_ok_iff thenE_ok_iff require_pr_ok_iff pr_text.read_ok pr_int.read_ok
      only_fields_pr_ok_iff case_option_Inl HEAD_SHA_RE_iff by (elim exE conjE) (rule that; assumption)
  obtain owner repo where url: "slug owner" "slug repo" "isdecimal run_id" "run_url = run_url_of owner repo run_id" "run_match = [owner, repo, run_id]"
    using run(3,4) unfolding RUN_URL_RE_pr_groups by fastforce
  with api(2-5) have "api_url = approvals_url_of owner repo run_id" unfolding API_URL_RE_groups by fastforce
  then have "names_one_run d owner repo run_id" using url run api(1) by (simp add: names_one_run_def text_of_iff)
  moreover have "approved_review d"
    using fields(2) sha who stamp flags positive_of_iff by (auto simp: approved_review_def text_of_iff)
  ultimately have "review_contract d" using fields(1) scan unfolding review_contract_def scan_privacy_ok_iff by blast
  with load show ?thesis by blast
qed

lemma validate_proof_pr_complete:
  assumes "validate_schema_file_pr env schema = Inr ()" and "load_json_object_pr env p = Inr d" and "review_contract d"
  shows "validate_proof_pr env p schema = Inr ()"
proof -
  obtain owner repo run where run: "names_one_run d owner repo run" using assms(3) by (auto simp: review_contract_def)
  have groups: "re_fullgroups RUN_URL_RE_pr (run_url_of owner repo run) = Some [owner, repo, run]"
    "re_fullgroups API_URL_RE (approvals_url_of owner repo run) = Some [owner, repo, run]"
    using run unfolding names_one_run_def RUN_URL_RE_pr_groups API_URL_RE_groups by blast+
  have texts: "text_pr (jget d ''run_id'') c = Inr run" "text_pr (jget d ''run_url'') c = Inr (run_url_of owner repo run)"
    "text_pr (jget d ''review_history_api_url'') c = Inr (approvals_url_of owner repo run)" for c
    using run url_not_empty by (simp_all add: names_one_run_def pr_text.read_ok text_of_iff isdecimal_def)
  have ap: "approved_review d" and fields: "set (keys d) \<subseteq> set ROOT_FIELDS_pr" and scan: "scan_privacy (JObj d) (path_str p) = Inr ()"
    using assms(3) unfolding review_contract_def scan_privacy_ok_iff by blast+
  obtain who sha stamp env_id who_id where
    "jget d ''reviewer_identity'' = JStr who" "who \<noteq> []" "jget d ''head_sha'' = JStr sha" "length sha = 40 \<and> list_all is_hex_char sha"
    "jget d ''collected_at'' = JStr stamp" "re_fullmatch RFC3339_UTC_RE stamp"
    "jget d ''environment_id'' = JInt env_id" "1 \<le> env_id" "jget d ''reviewer_id'' = JInt who_id" "1 \<le> who_id"
    using ap unfolding approved_review_def by blast
  then have facts: "text_pr (jget d ''reviewer_identity'') ''reviewer_identity'' = Inr who" "text_pr (jget d ''head_sha'') ''head_sha'' = Inr sha"
    "re_fullmatch HEAD_SHA_RE sha" "text_pr (jget d ''collected_at'') ''collected_at'' = Inr stamp" "re_fullmatch RFC3339_UTC_RE stamp"
    "int_field_pr (jget d ''environment_id'') ''environment_id'' = Inr env_id" "int_field_pr (jget d ''reviewer_id'') ''reviewer_id'' = Inr who_id"
    using RFC3339_UTC_RE_empty unfolding pr_text.read_ok pr_int.read_ok HEAD_SHA_RE_iff text_of_iff by (auto simp: positive_of_def)
  have flags: "jget d ''schema'' = JStr SCHEMA_ID" "jget d ''environment_name'' = JStr ENVIRONMENT_NAME" "jget d ''reviewer_status'' = JStr ''approved''"
    "jget d ''comment'' = JStr REQUIRED_COMMENT" "jget d ''host_mutation'' = JBool False" "jget d ''release_eligible'' = JBool False"
    "jget d ''production_capacity_claim'' = JBool False"
    using ap by (simp_all add: approved_review_def)
  have "isdecimal run" using run by (simp add: names_one_run_def)
  moreover have "only_fields_pr d ROOT_FIELDS_pr (path_str p) = Inr ()" using fields unfolding only_fields_pr_ok_iff .
  ultimately show ?thesis unfolding validate_proof_pr_def assms(1,2) bindE_simps thenE_simps scan
    by (simp add: texts groups facts flags require_pr_def raise_if_def RUN_ID_RE_pr_iff)
qed

text \<open>C20: the review check accepts a file exactly when the schema file is the protected review
  schema, requiring the fields of a proof and nothing else, and the file decodes, without \<^verbatim>\<open>NaN\<close> or
  infinities, to an object that fulfils the contract: no private key or value at any depth; an approval of
  \<^verbatim>\<open>vm-proof-manual\<close> by an identified reviewer with the fixed comment; no mutation, release or capacity
  claim; and one owner, repository and decimal run id from which the run URL and the approvals URL are both
  composed.\<close>

theorem protected_review_refines:
  "validate_proof_pr env path schema = Inr () \<longleftrightarrow>
     (\<exists>d. load_json_object_pr env schema = Inr d \<and> review_schema_ok d) \<and>
     (\<exists>d. load_json_object_pr env path = Inr d \<and> review_contract d)"
proof -
  have "validate_proof_pr env path schema = Inr () \<Longrightarrow> validate_schema_file_pr env schema = Inr ()"
    unfolding validate_proof_pr_def thenE_ok_iff by blast
  then show ?thesis unfolding validate_schema_file_pr_ok_iff[symmetric] using validate_proof_pr_ok validate_proof_pr_complete by blast
qed

section \<open>A run\<close>

definition review_doc :: json_object where
  "review_doc =
     [(''schema'', JStr SCHEMA_ID), (''run_id'', JStr ''28''), (''run_url'', JStr ''https://github.com/o/r/actions/runs/28''),
      (''head_sha'', JStr (replicate 40 CHR ''a'')), (''environment_name'', JStr ENVIRONMENT_NAME), (''environment_id'', JInt 5),
      (''reviewer_status'', JStr ''approved''), (''reviewer_identity'', JStr ''octo''), (''reviewer_id'', JInt 7), (''comment'', JStr REQUIRED_COMMENT),
      (''review_history_api_url'', JStr ''https://api.github.com/repos/o/r/actions/runs/28/approvals''),
      (''collected_at'', JStr ''2026-07-01T10:00:00Z''), (''host_mutation'', JBool False), (''release_eligible'', JBool False),
      (''production_capacity_claim'', JBool False)]"

definition review_schema_doc :: json_object where
  "review_schema_doc =
     [(''$id'', JStr SCHEMA_ID), (''required'', JList (map JStr ROOT_FIELDS_pr)), (''additionalProperties'', JBool False)]"

definition review_env :: env where
  "review_env = files_env [(''schemas/control/protected-environment-review.v1.schema.json'', ''SCHEMA''), (''d/review.json'', ''R'')] []
     [(''SCHEMA'', JObj review_schema_doc), (''R'', JObj review_doc)]"

lemma review_env_accepted: "validate_proof_pr review_env (mk_path ''d/review.json'') DEFAULT_SCHEMA_pr = Inr ()"
  by code_simp

section \<open>The fixtures\<close>

lemma reject_fixture_pr_ok_iff: "reject_fixture_pr env schema p = Inr () \<longleftrightarrow> (\<exists>m. validate_proof_pr env p schema = Inl (ProtectedReviewError m))"
  by (auto simp: reject_fixture_pr_def is_ProtectedReviewError_def split: sum.splits)

lemma validate_fixtures_pr_ok_iff:
  "validate_fixtures_pr env base schema = Inr () \<longleftrightarrow>
     json_files env (path_join base ''valid'') \<noteq> [] \<and> json_files env (path_join base ''invalid'') \<noteq> [] \<and>
     (\<forall>p \<in> set (json_files env (path_join base ''valid'')). validate_proof_pr env p schema = Inr ()) \<and>
     (\<forall>p \<in> set (json_files env (path_join base ''invalid'')). \<exists>m. validate_proof_pr env p schema = Inl (ProtectedReviewError m))"
  unfolding validate_fixtures_pr_def validate_invalid_fixtures_def Let_def thenE_ok_iff forE_ok_iff require_pr_ok_iff reject_fixture_pr_ok_iff
  by blast

section \<open>Which exceptions escape\<close>

abbreviation review_error :: "exn \<Rightarrow> bool" where
  "review_error e \<equiv> is_ProtectedReviewError e \<or> io_error e"

lemma raises_pr [raises_intro]:
  "(\<And>m. P (ProtectedReviewError m)) \<Longrightarrow> raises P (require_pr b t)"
  "(\<And>m. P (ProtectedReviewError m)) \<Longrightarrow> raises P (only_fields_pr d fs c)"
  "(\<And>m. P (ProtectedReviewError m)) \<Longrightarrow> raises P (text_pr v c)"
  "(\<And>m. P (ProtectedReviewError m)) \<Longrightarrow> raises P (int_field_pr v c)"
  by (auto simp: raises_def require_pr_def only_fields_pr_def Let_def raise_if_def text_pr_def int_field_pr_def split: option.splits if_splits)

lemma raises_scan_privacy: "raises is_ProtectedReviewError (scan_privacy v c)"
  by (induction v c rule: scan_privacy.induct) (auto intro!: raises_intro)

lemma raises_load_json_object_pr: "io_env env \<Longrightarrow> raises review_error (load_json_object_pr env p)"
  unfolding load_json_object_pr_def by (intro raises_intro io_env_read) (auto simp: reject_constant_def is_os_error_def)

lemma raises_validate_proof_pr: "io_env env \<Longrightarrow> raises review_error (validate_proof_pr env p schema)"
  unfolding validate_proof_pr_def validate_schema_file_pr_def
  by (intro raises_intro raises_load_json_object_pr raises_weaken[OF raises_scan_privacy]) simp_all

end
