(* ===== verification/RunnerSubstrate.thy ===== *)
theory RunnerSubstrate
  imports ProtectedReview
begin

text \<open>
  \<^verbatim>\<open>qa/runner_substrate_proof_check.py\<close>: the proof of what a protected run ran on. It composes the
  environment review of \<open>ProtectedReview\<close>: a passing proof refers to a hash-matched review that its own
  checker accepts and that names the same run and reviewer. The loader and the path, hash and URL patterns are
  those of \<open>RunnerCleanliness\<close>; the two modules have them word for word.
\<close>

section \<open>Model\<close>

definition SCHEMA_rp :: string where
  "SCHEMA_rp = ''zig-scheduler/runner-substrate-proof/v1''"

definition DEFAULT_SCHEMA_rp :: path where
  "DEFAULT_SCHEMA_rp = mk_path ''schemas/control/runner-substrate-proof.v1.schema.json''"

definition DEFAULT_FIXTURES_rp :: path where
  "DEFAULT_FIXTURES_rp = mk_path ''fixtures/runner-substrate-proof''"

definition RUN_URL_UNAVAILABLE :: string where
  "RUN_URL_UNAVAILABLE = ''unavailable''"

text \<open>The group \<^verbatim>\<open>release\<close> is the only one the code reads.\<close>

definition TUPLE_RE :: "(bool \<times> rx) list" where
  "TUPLE_RE =
     (let class = (\<lambda>s. Ch (\<lambda>c. c \<in> set s)); digit = Ch is_digit_char;
          minor = Alt (Seq (lit ''1'') (class ''23456789'')) (Seq (class ''23456789'') (class ''0123456789''));
          mainline = seqs [lit ''6.'', minor, opt (Seq (lit ''.'') (plus digit))];
          cachyos = seqs [lit ''7.1.'', Alt (lit ''1-2'') (lit ''2-3''), lit ''-cachyos'']
      in [(False, Bos), (False, lit ''linux-''), (True, Alt mainline cachyos),
          (False, lit ''-x86_64-sched_ext-bpf-bpf_jit-btf-vm_lab_only''), (False, Eos)])"

definition PLACEHOLDER_SHA_VALUES :: "string list" where
  "PLACEHOLDER_SHA_VALUES = [replicate 64 CHR ''0'', replicate 64 CHR ''1'']"

definition REQUIRED_LABELS :: "string list" where
  "REQUIRED_LABELS = [''self-hosted'', ''zig-scheduler-vm-proof'', ''disposable-vm'']"

definition ROOT_FIELDS_rp :: "string list" where
  "ROOT_FIELDS_rp =
     [''schema'', ''proof_outcome'', ''runner'', ''protected_environment'', ''protected_review'', ''qemu'', ''dev_kvm'', ''accel_mode'',
      ''kernel_tuple'', ''bpf_metadata'', ''attestation'', ''unavailable_reasons'', ''host_mutation'', ''release_eligible'',
      ''production_capacity_claim'']"

definition RUNNER_FIELDS :: "string list" where
  "RUNNER_FIELDS = [''class'', ''group'', ''labels'', ''name'', ''os'', ''arch'']"

definition ENV_FIELDS :: "string list" where
  "ENV_FIELDS = [''name'', ''protected'', ''required_reviewers'', ''reviewer_status'', ''reviewer_identity'', ''unavailable_reason'', ''run_url'']"

definition STATUS_PATH_FIELDS :: "string list" where
  "STATUS_PATH_FIELDS = [''path'', ''version'', ''status'', ''unavailable_reason'']"

definition KERNEL_FIELDS :: "string list" where
  "KERNEL_FIELDS = [''supported_tuple'', ''release'', ''arch'', ''config_sha256'', ''btf_available'', ''sched_ext_available'']"

definition REF_FIELDS_rp :: "string list" where
  "REF_FIELDS_rp = [''path'', ''sha256'', ''schema_role'', ''unavailable_reason'']"

definition PROTECTED_REVIEW_ROLE :: string where
  "PROTECTED_REVIEW_ROLE = ''protected-environment-review''"

definition ATTEST_FIELDS :: "string list" where
  "ATTEST_FIELDS = [''capability'', ''status'', ''workflow_uses'', ''verify_command'', ''unavailable_reason'']"

record substrate_args =
  substrate_mode :: mode_rc
  substrate_proof :: "path option"
  substrate_fixtures :: path
  substrate_schema :: path

text \<open>
  The \<^verbatim>\<open>while\<close> loop of \<^verbatim>\<open>parse_args\<close>, with its index into \<^verbatim>\<open>argv\<close>. Nothing in the text of the loop
  bounds it, so it is a partial function whose result is \<open>None\<close> when it does not return.
\<close>

partial_function (option) parse_args_loop_rp :: "string list \<Rightarrow> nat \<Rightarrow> substrate_args \<Rightarrow> substrate_args result option" where
  "parse_args_loop_rp argv index args =
     (if \<not> index < length argv then Some (Inr args)
      else
        (let arg = argv ! index in
         if arg = ''--proof'' then
           (let index = index + 1 in
            if index \<ge> length argv then Some (Inl (RunnerProofError ''--proof requires a path''))
            else parse_args_loop_rp argv (index + 1) (args \<lparr> substrate_proof := Some (mk_path (argv ! index)), substrate_mode := ModeProof \<rparr>))
         else if arg = ''--fixtures'' then
           (let index = index + 1 in
            if index \<ge> length argv then Some (Inl (RunnerProofError ''--fixtures requires a path''))
            else parse_args_loop_rp argv (index + 1) (args \<lparr> substrate_fixtures := mk_path (argv ! index), substrate_mode := ModeFixtures \<rparr>))
         else if arg = ''--schema'' then
           (let index = index + 1 in
            if index \<ge> length argv then Some (Inl (RunnerProofError ''--schema requires a path''))
            else parse_args_loop_rp argv (index + 1) (args \<lparr> substrate_schema := mk_path (argv ! index) \<rparr>))
         else Some (Inl (RunnerProofError ''usage: runner_substrate_proof_check.py --self-test | --proof <path> [--schema <path>] | [--fixtures <dir>] [--schema <path>]''))))"

definition parse_args_rp :: "string list \<Rightarrow> substrate_args result option" where
  "parse_args_rp argv =
     (if argv = [''--self-test''] then
        Some (Inr \<lparr> substrate_mode = ModeSelfTest, substrate_proof = None, substrate_fixtures = DEFAULT_FIXTURES_rp, substrate_schema = DEFAULT_SCHEMA_rp \<rparr>)
      else
        parse_args_loop_rp argv 0
          \<lparr> substrate_mode = ModeFixtures, substrate_proof = None, substrate_fixtures = DEFAULT_FIXTURES_rp, substrate_schema = DEFAULT_SCHEMA_rp \<rparr>)"

definition require_rp :: "bool \<Rightarrow> string \<Rightarrow> check" where
  "require_rp condition message = raise_if (\<not> condition) (RunnerProofError message)"

definition only_fields_rp :: "json_object \<Rightarrow> string list \<Rightarrow> string \<Rightarrow> check" where
  "only_fields_rp row allowed context =
     (let extra = sorted_diff (keys row) allowed in
      require_rp (extra = []) (msg [context, '' has unexpected fields: '', join '', '' extra]))"

definition text_rp :: "json \<Rightarrow> string \<Rightarrow> string result" where
  "text_rp v context =
     (case text_of v of
        None \<Rightarrow> Inl (RunnerProofError (msg [context, '' must be non-empty text'']))
      | Some s \<Rightarrow> Inr s)"

definition bool_field_rp :: "json \<Rightarrow> string \<Rightarrow> bool result" where
  "bool_field_rp v context =
     (case bool_of v of
        None \<Rightarrow> Inl (RunnerProofError (msg [context, '' must be bool'']))
      | Some b \<Rightarrow> Inr b)"

definition safe_path_rp :: "json \<Rightarrow> string \<Rightarrow> path result" where
  "safe_path_rp v context =
     (bindE (text_rp v context) (\<lambda>raw.
     thenE (require_rp (SAFE_PATH_RE raw) (msg [context, '' must be relative and non-traversing: '', raw])) (
     Inr (mk_path raw))))"

definition digest_rp :: "env \<Rightarrow> path \<Rightarrow> string result" where
  "digest_rp env path =
     reraise is_FileNotFoundError (\<lambda>_. RunnerProofError (msg [''missing referenced file: '', path_str path])) (fs_sha256 env path)"

definition enum_text :: "json \<Rightarrow> string list \<Rightarrow> string \<Rightarrow> string result" where
  "enum_text v allowed context =
     (bindE (text_rp v context) (\<lambda>raw.
     thenE (require_rp (raw \<in> set allowed) (msg [context, '' has unsupported value: '', raw])) (
     Inr raw)))"

definition strings_rp :: "json \<Rightarrow> string \<Rightarrow> string list result" where
  "strings_rp v context =
     (case list_of v of
        None \<Rightarrow> Inl (RunnerProofError (msg [context, '' must be a non-empty list'']))
      | Some items \<Rightarrow>
          if items = [] then Inl (RunnerProofError (msg [context, '' must be a non-empty list'']))
          else mapE (\<lambda>(index, item). text_rp item (msg [context, ''['', show_nat index, '']''])) (enumerate_from 0 items))"

definition object_field :: "json_object \<Rightarrow> string \<Rightarrow> string \<Rightarrow> json_object result" where
  "object_field data field context =
     (case obj_of (jget data field) of
        None \<Rightarrow> Inl (RunnerProofError (msg [context, ''.'', field, '' must be an object'']))
      | Some d \<Rightarrow> Inr d)"

definition validate_schema_file_rp :: "env \<Rightarrow> path \<Rightarrow> check" where
  "validate_schema_file_rp env path =
     (bindE (load_json_object env path) (\<lambda>schema.
     require_rp (jget schema ''$id'' = JStr SCHEMA_rp) ''runner substrate schema $id mismatch''))"

definition validate_runner :: "json_object \<Rightarrow> string \<Rightarrow> check" where
  "validate_runner data outcome =
     (bindE (object_field data ''runner'' ''proof'') (\<lambda>runner.
     thenE (only_fields_rp runner RUNNER_FIELDS ''runner'') (
     bindE (enum_text (jget runner ''class'') [''self-hosted'', ''unknown''] ''runner.class'') (\<lambda>class.
     thenE (require_rp (class = ''self-hosted'') ''runner.class must be self-hosted for protected proof'') (
     bindE (strings_rp (jget runner ''labels'') ''runner.labels'') (\<lambda>labels.
     (let missing = sorted_diff REQUIRED_LABELS labels in
     thenE (require_rp (missing = []) (msg [''runner.labels missing protected labels: '', join '', '' missing])) (
     thenE (if outcome = ''PASS'' then
         (bindE (text_rp (jget runner ''group'') ''runner.group'') (\<lambda>_.
         bindE (text_rp (jget runner ''name'') ''runner.name'') (\<lambda>_.
         Inr ())))
         else Inr ()) (
     bindE (text_rp (jget runner ''os'') ''runner.os'') (\<lambda>_.
     bindE (text_rp (jget runner ''arch'') ''runner.arch'') (\<lambda>_.
     Inr ())))))))))))"

definition validate_environment :: "json_object \<Rightarrow> string \<Rightarrow> check" where
  "validate_environment data outcome =
     (bindE (object_field data ''protected_environment'' ''proof'') (\<lambda>env.
     thenE (only_fields_rp env ENV_FIELDS ''protected_environment'') (
     thenE (require_rp (jget env ''name'' = JStr ''vm-proof-manual'') ''protected_environment.name must be vm-proof-manual'') (
     thenE (require_rp (jget env ''protected'' = JBool True) ''protected_environment.protected must be true'') (
     bindE (text_rp (jget env ''required_reviewers'') ''protected_environment.required_reviewers'') (\<lambda>_.
     bindE (enum_text (jget env ''reviewer_status'') [''approved'', ''not_exposed_by_github_actions_runtime'', ''unavailable'']
         ''protected_environment.reviewer_status'') (\<lambda>status_raw.
     bindE (text_rp (jget env ''run_url'') ''protected_environment.run_url'') (\<lambda>run_url.
     thenE (if run_url = RUN_URL_UNAVAILABLE then
         (thenE (require_rp (outcome \<noteq> ''PASS'') ''PASS proof requires a GitHub Actions run URL'') (
         require_rp (status_raw \<noteq> ''approved'') ''approved reviewer proof requires a GitHub Actions run URL''))
         else
         require_rp (re_fullmatch RUN_URL_RE run_url)
         ''protected_environment.run_url must be a GitHub Actions run URL or unavailable for SKIP/REFUSE'') (
     if status_raw = ''approved'' then
         bindE (text_rp (jget env ''reviewer_identity'') ''protected_environment.reviewer_identity'') (\<lambda>_. Inr ())
         else
         (bindE (text_rp (jget env ''unavailable_reason'') ''protected_environment.unavailable_reason'') (\<lambda>_.
         require_rp (outcome \<noteq> ''PASS'') ''PASS proof requires explicit protected environment reviewer approval'')))))))))))"

definition validate_protected_review :: "env \<Rightarrow> json_object \<Rightarrow> string \<Rightarrow> check" where
  "validate_protected_review env data outcome =
     (bindE (object_field data ''protected_review'' ''proof'') (\<lambda>ref.
     thenE (only_fields_rp ref REF_FIELDS_rp ''protected_review'') (
     bindE (safe_path_rp (jget ref ''path'') ''protected_review.path'') (\<lambda>path.
     bindE (text_rp (jget ref ''sha256'') ''protected_review.sha256'') (\<lambda>sha.
     thenE (require_rp (re_fullmatch SHA_RE sha) ''protected_review.sha256 must be sha256 hex'') (
     bindE (digest_rp env path) (\<lambda>actual.
     thenE (require_rp (actual = sha) (msg [''protected_review.sha256 does not match '', path_str path])) (
     bindE (enum_text (jget ref ''schema_role'') [PROTECTED_REVIEW_ROLE] ''protected_review.schema_role'') (\<lambda>role.
     thenE (require_rp (role = PROTECTED_REVIEW_ROLE) ''protected_review.schema_role must be protected-environment-review'') (
     thenE (reraise is_ProtectedReviewError
         (\<lambda>exc. RunnerProofError (msg [''protected_review artifact is not normalized proof: '', exn_str exc]))
         (validate_proof_pr env path DEFAULT_SCHEMA_pr)) (
     bindE (load_json_object env path) (\<lambda>review.
     bindE (object_field data ''protected_environment'' ''proof'') (\<lambda>penv.
     if \<not> py_eq (jget review ''run_url'') (jget penv ''run_url'') \<or>
         \<not> py_eq (jget review ''reviewer_identity'') (jget penv ''reviewer_identity'') then
         (bindE (text_rp (jget ref ''unavailable_reason'') ''protected_review.unavailable_reason'') (\<lambda>_.
         require_rp (outcome \<noteq> ''PASS'') ''PASS proof requires protected review artifact to match runner proof''))
         else Inr ())))))))))))))"

definition validate_status_path :: "json_object \<Rightarrow> string \<Rightarrow> string result" where
  "validate_status_path data field =
     (bindE (object_field data field ''proof'') (\<lambda>value.
     thenE (only_fields_rp value STATUS_PATH_FIELDS field) (
     bindE (safe_path_rp (jget value ''path'') (msg [field, ''.path''])) (\<lambda>_.
     bindE (enum_text (jget value ''status'') [''available'', ''unavailable''] (msg [field, ''.status''])) (\<lambda>status.
     thenE (if status = ''available'' \<and> field = ''qemu'' then
         bindE (text_rp (jget value ''version'') ''qemu.version'') (\<lambda>_. Inr ())
         else Inr ()) (
     thenE (if status = ''unavailable'' then
         bindE (text_rp (jget value ''unavailable_reason'') (msg [field, ''.unavailable_reason''])) (\<lambda>_. Inr ())
         else Inr ()) (
     Inr status)))))))"

definition validate_kernel :: "json_object \<Rightarrow> string \<Rightarrow> string list \<Rightarrow> check" where
  "validate_kernel data outcome reasons =
     (bindE (object_field data ''kernel_tuple'' ''proof'') (\<lambda>kernel.
     thenE (only_fields_rp kernel KERNEL_FIELDS ''kernel_tuple'') (
     bindE (text_rp (jget kernel ''supported_tuple'') ''kernel_tuple.supported_tuple'') (\<lambda>supported.
     (case re_fullgroups TUPLE_RE supported of
         None \<Rightarrow> Inl (RunnerProofError ''kernel_tuple.supported_tuple is unsupported'')
         | Some tuple_match \<Rightarrow>
         (bindE (text_rp (jget kernel ''release'') ''kernel_tuple.release'') (\<lambda>release.
         thenE (require_rp (jget kernel ''arch'' = JStr ''x86_64'') ''kernel_tuple.arch must be x86_64'') (
         bindE (text_rp (jget kernel ''config_sha256'') ''kernel_tuple.config_sha256'') (\<lambda>config_sha.
         thenE (require_rp (re_fullmatch SHA_RE config_sha) ''kernel_tuple.config_sha256 must be sha256 hex'') (
         (let config_unavailable = (''kernel config metadata unavailable or placeholder'' \<in> set reasons) in
         thenE (require_rp (config_sha \<notin> set PLACEHOLDER_SHA_VALUES \<or> outcome \<noteq> ''PASS'' \<and> config_unavailable)
         ''kernel_tuple.config_sha256 placeholder metadata requires SKIP/REFUSE unavailable reason'') (
         bindE (bool_field_rp (jget kernel ''btf_available'') ''kernel_tuple.btf_available'') (\<lambda>btf_available.
         bindE (bool_field_rp (jget kernel ''sched_ext_available'') ''kernel_tuple.sched_ext_available'') (\<lambda>sched_ext_available.
         if outcome = ''PASS'' then
         ((let expected_release = tuple_match ! 0 in
         thenE (require_rp (prefix expected_release release) ''PASS proof kernel release must match supported_tuple'') (
         thenE (require_rp btf_available ''PASS proof requires kernel BTF availability'') (
         require_rp sched_ext_available ''PASS proof requires sched_ext availability''))))
         else Inr ()))))))))))))))"

definition validate_bpf :: "env \<Rightarrow> json_object \<Rightarrow> string \<Rightarrow> check" where
  "validate_bpf env data outcome =
     (bindE (object_field data ''bpf_metadata'' ''proof'') (\<lambda>bpf.
     thenE (only_fields_rp bpf REF_FIELDS_rp ''bpf_metadata'') (
     bindE (safe_path_rp (jget bpf ''path'') ''bpf_metadata.path'') (\<lambda>path.
     bindE (text_rp (jget bpf ''sha256'') ''bpf_metadata.sha256'') (\<lambda>sha.
     thenE (require_rp (re_fullmatch SHA_RE sha) ''bpf_metadata.sha256 must be sha256 hex'') (
     bindE (digest_rp env path) (\<lambda>actual.
     thenE (require_rp (actual = sha) (msg [''bpf_metadata.sha256 does not match '', path_str path])) (
     bindE (enum_text (jget bpf ''schema_role'') [''bpf-metadata'', ''bpf-skip-json''] ''bpf_metadata.schema_role'') (\<lambda>role.
     if role = ''bpf-skip-json'' then
         (bindE (text_rp (jget bpf ''unavailable_reason'') ''bpf_metadata.unavailable_reason'') (\<lambda>_.
         require_rp (outcome \<noteq> ''PASS'') ''PASS proof requires BPF object metadata''))
         else Inr ())))))))))"

definition validate_attestation :: "json_object \<Rightarrow> string \<Rightarrow> check" where
  "validate_attestation data outcome =
     (bindE (object_field data ''attestation'' ''proof'') (\<lambda>att.
     thenE (only_fields_rp att ATTEST_FIELDS ''attestation'') (
     bindE (enum_text (jget att ''capability'') [''available'', ''unavailable''] ''attestation.capability'') (\<lambda>capability.
     bindE (enum_text (jget att ''status'') [''pending-post-run-github-attestation'', ''verified-by-operator'', ''unavailable''] ''attestation.status'') (\<lambda>status.
     bindE (text_rp (jget att ''workflow_uses'') ''attestation.workflow_uses'') (\<lambda>workflow_uses.
     thenE (require_rp (prefix ''actions/attest-build-provenance'' workflow_uses) ''attestation.workflow_uses must use actions/attest-build-provenance'') (
     bindE (text_rp (jget att ''verify_command'') ''attestation.verify_command'') (\<lambda>verify_command.
     thenE (require_rp (contains ''gh attestation verify'' verify_command) ''attestation.verify_command must document gh attestation verify'') (
     if capability = ''unavailable'' \<or> status = ''unavailable'' then
         (bindE (text_rp (jget att ''unavailable_reason'') ''attestation.unavailable_reason'') (\<lambda>_.
         require_rp (outcome \<noteq> ''PASS'') ''attestation unavailable cannot accompany PASS proof''))
         else Inr ())))))))))"

definition validate_proof_rp :: "env \<Rightarrow> path \<Rightarrow> path \<Rightarrow> check" where
  "validate_proof_rp env path schema_path =
     (thenE (validate_schema_file_rp env schema_path) (
     bindE (load_json_object env path) (\<lambda>data.
     thenE (only_fields_rp data ROOT_FIELDS_rp (path_str path)) (
     thenE (require_rp (jget data ''schema'' = JStr SCHEMA_rp) ''unsupported runner substrate schema'') (
     thenE (require_rp (jget data ''host_mutation'' = JBool False) ''proof.host_mutation must be false'') (
     thenE (require_rp (jget data ''release_eligible'' = JBool False) ''proof.release_eligible must be false'') (
     thenE (require_rp (jget data ''production_capacity_claim'' = JBool False) ''proof.production_capacity_claim must be false'') (
     bindE (enum_text (jget data ''proof_outcome'') [''PASS'', ''SKIP'', ''REFUSE''] ''proof_outcome'') (\<lambda>outcome.
     thenE (validate_runner data outcome) (
     thenE (validate_environment data outcome) (
     thenE (validate_protected_review env data outcome) (
     bindE (validate_status_path data ''qemu'') (\<lambda>qemu_status.
     bindE (validate_status_path data ''dev_kvm'') (\<lambda>kvm_status.
     bindE (enum_text (jget data ''accel_mode'') [''kvm'', ''tcg'', ''unavailable''] ''accel_mode'') (\<lambda>accel.
     thenE (require_rp (accel \<noteq> ''kvm'' \<or> qemu_status = ''available'' \<and> kvm_status = ''available'') ''accel_mode=kvm requires available qemu and /dev/kvm'') (
     thenE (require_rp (outcome \<noteq> ''PASS'' \<or> qemu_status = ''available'' \<and> kvm_status = ''available'') ''PASS proof requires qemu and /dev/kvm availability'') (
     thenE (require_rp (outcome \<noteq> ''PASS'' \<or> accel = ''kvm'') ''PASS proof requires accel_mode=kvm'') (
     (case list_of (jget data ''unavailable_reasons'') of
         None \<Rightarrow> Inl (RunnerProofError ''unavailable_reasons must be a list'')
         | Some reasons_list \<Rightarrow>
         (bindE (if outcome = ''PASS'' then Inr [] else strings_rp (JList reasons_list) ''unavailable_reasons'') (\<lambda>reasons.
         thenE (require_rp (outcome \<noteq> ''PASS'' \<or> length reasons_list = 0) ''PASS proof must not carry unavailable reasons'') (
         thenE (require_rp (outcome = ''PASS'' \<or> length reasons > 0) ''SKIP/REFUSE proof must explain unavailable reasons'') (
         thenE (validate_kernel data outcome reasons) (
         thenE (validate_bpf env data outcome) (
         validate_attestation data outcome)))))))))))))))))))))))))"

definition reject_fixture_rp :: "env \<Rightarrow> path \<Rightarrow> path \<Rightarrow> check" where
  "reject_fixture_rp env schema invalid =
     (case validate_proof_rp env invalid schema of
        Inl e \<Rightarrow> if is_RunnerProofError e then Inr () else Inl e
      | Inr _ \<Rightarrow> Inl (RunnerProofError (msg [''expected invalid runner substrate fixture rejection: '', path_str invalid])))"

definition validate_fixtures_rp :: "env \<Rightarrow> path \<Rightarrow> path \<Rightarrow> check" where
  "validate_fixtures_rp env base schema =
     (let valid_paths = filter (\<lambda>path. path_name path \<notin> {''bpf-meta.json'', ''protected-review.json''}) (json_files env (path_join base ''valid''));
          invalid_root = path_join base ''invalid'' in
      (thenE (require_rp (valid_paths \<noteq> []) (msg [''missing valid runner substrate fixtures under '', path_str (path_join base ''valid'')])) (
      thenE (forE (\<lambda>valid. validate_proof_rp env valid schema) valid_paths) (
      (let invalid_paths = json_files env invalid_root in
      thenE (require_rp (invalid_paths \<noteq> []) (msg [''missing invalid runner substrate fixtures under '', path_str invalid_root])) (
      forE (reject_fixture_rp env schema) invalid_paths))))))"

text \<open>\<^verbatim>\<open>main\<close>: the last line printed and the exit status, or \<open>None\<close> if it does not return; the self-test is a parameter.\<close>

definition main_rp :: "(path \<Rightarrow> check) \<Rightarrow> env \<Rightarrow> string list \<Rightarrow> (string \<times> int) result option" where
  "main_rp self_test env argv =
     map_option (\<lambda>parsed.
       (let outcome =
          (bindE (parsed) (\<lambda>args.
            if substrate_mode args = ModeSelfTest then thenE (self_test (substrate_schema args)) (Inr [])
                else (case (substrate_mode args, substrate_proof args) of
                (ModeProof, Some p) \<Rightarrow> thenE (validate_proof_rp env p (substrate_schema args)) (Inr (msg [''PASS runner substrate proof: '', path_str p]))
                | _ \<Rightarrow> thenE (validate_fixtures_rp env (substrate_fixtures args) (substrate_schema args)) (Inr []))))
        in case outcome of
             Inr line \<Rightarrow> Inr (line, 0)
           | Inl e \<Rightarrow> if is_RunnerProofError e then Inr ((msg [''FAIL runner substrate proof: '', exn_str e]), 1) else Inl e))
       (parse_args_rp argv)"

section \<open>The supported kernel tuples\<close>

text \<open>Mainline 6.12 to 6.99, with or without a patch level, and two builds of 7.1.\<close>

definition supported_release :: "string \<Rightarrow> bool" where
  "supported_release rel \<longleftrightarrow>
     (\<exists>n patch. 12 \<le> n \<and> n \<le> 99 \<and> rel = ''6.'' @ show_nat n @ patch \<and> (patch = [] \<or> (\<exists>d. isdecimal d \<and> patch = ''.'' @ d))) \<or>
     rel \<in> {''7.1.1-2-cachyos'', ''7.1.2-3-cachyos''}"

definition tuple_of :: "string \<Rightarrow> string" where
  "tuple_of rel = ''linux-'' @ rel @ ''-x86_64-sched_ext-bpf-bpf_jit-btf-vm_lab_only''"

lemma minor_digits:
  "(\<exists>c. w = [CHR ''1'', c] \<and> c \<in> set ''23456789'') \<or> (\<exists>c d. w = [c, d] \<and> c \<in> set ''23456789'' \<and> d \<in> set ''0123456789'') \<longleftrightarrow>
     (\<exists>n. 12 \<le> n \<and> n \<le> 99 \<and> w = show_nat n)" (is "?L \<longleftrightarrow> ?R")
proof
  have gen: "(\<exists>c. w = [a, c] \<and> c \<in> set S) \<or> (\<exists>c d. w = [c, d] \<and> c \<in> set S \<and> d \<in> set T) \<Longrightarrow>
      w \<in> set (map (\<lambda>c. [a, c]) S @ concat (map (\<lambda>c. map (\<lambda>d. [c, d]) T) S))" for a :: char and S T
    by auto
  have *: "list_all (\<lambda>w. let n = nat (digits_value w) in 12 \<le> n \<and> n \<le> 99 \<and> show_nat n = w)
      (map (\<lambda>c. [CHR ''1'', c]) ''23456789'' @ concat (map (\<lambda>c. map (\<lambda>d. [c, d]) ''0123456789'') ''23456789''))"
    by (simp add: digits_value_def show_nat.simps digit_char_def)
  assume ?L
  then have "w \<in> set (map (\<lambda>c. [CHR ''1'', c]) ''23456789'' @ concat (map (\<lambda>c. map (\<lambda>d. [c, d]) ''0123456789'') ''23456789''))"
    by (rule gen)
  with * have "let n = nat (digits_value w) in 12 \<le> n \<and> n \<le> 99 \<and> show_nat n = w" unfolding list_all_iff by (rule bspec)
  then show ?R unfolding Let_def by (intro exI[of _ "nat (digits_value w)"]) simp
next
  have *: "list_all (\<lambda>n. let w = show_nat n in w = [CHR ''1'', w ! 1] \<and> w ! 1 \<in> set ''23456789'' \<or>
      w = [w ! 0, w ! 1] \<and> w ! 0 \<in> set ''23456789'' \<and> w ! 1 \<in> set ''0123456789'') [12..<100]"
    by code_simp
  assume ?R
  then obtain n where "12 \<le> n" "n \<le> 99" and w: "w = show_nat n" by blast
  then have n: "n \<in> set [12..<100]" unfolding set_upt by simp
  from bspec[OF *[unfolded list_all_iff] n] show ?L unfolding Let_def w[symmetric] by blast
qed

abbreviation release_rx :: rx where
  "release_rx \<equiv>
     Alt (seqs [lit ''6.'', Alt (Seq (lit ''1'') (Ch (\<lambda>c. c \<in> set ''23456789''))) (Seq (Ch (\<lambda>c. c \<in> set ''23456789'')) (Ch (\<lambda>c. c \<in> set ''0123456789''))),
            opt (Seq (lit ''.'') (plus (Ch is_digit_char)))])
         (seqs [lit ''7.1.'', Alt (lit ''1-2'') (lit ''2-3''), lit ''-cachyos''])"

lemma spans_Ch_Ch: "spans (Seq (Ch P) (Ch Q)) (\<lambda>w. \<exists>c d. w = [c, d] \<and> P c \<and> Q d)"
  by (rule spans_cong[OF spans_Seq[OF spans_Ch spans_Ch]]) (metis append_Cons append_Nil)

lemma spans_lit_Ch: "spans (Seq (lit u) (Ch P)) (\<lambda>w. \<exists>c. w = u @ [c] \<and> P c)"
  by (rule spans_cong[OF spans_Seq[OF spans_lit spans_Ch]]) blast

lemma spans_release: "spans release_rx supported_release"
proof -
  have minor: "spans (Alt (Seq (lit ''1'') (Ch (\<lambda>c. c \<in> set ''23456789''))) (Seq (Ch (\<lambda>c. c \<in> set ''23456789'')) (Ch (\<lambda>c. c \<in> set ''0123456789''))))
      (\<lambda>w. \<exists>n. 12 \<le> n \<and> n \<le> 99 \<and> w = show_nat n)"
    unfolding minor_digits[symmetric]
    by (rule spans_cong[OF spans_Alt[OF spans_lit_Ch spans_Ch_Ch]]) (simp only: append.simps)
  have patch: "spans (opt (Seq (lit ''.'') (plus (Ch is_digit_char)))) (\<lambda>w. w = [] \<or> (\<exists>d. isdecimal d \<and> w = ''.'' @ d))"
    by (rule spans_cong[OF spans_opt[OF spans_Seq[OF spans_lit spans_plus_Ch]]]) (auto simp: isdecimal_def)
  show ?thesis unfolding seqs.simps
    by (rule spans_cong[OF spans_Alt[OF spans_Seq[OF spans_lit spans_Seq[OF minor patch]]
          spans_Seq[OF spans_lit spans_Seq[OF spans_Alt[OF spans_lit spans_lit] spans_lit]]]])
      (auto simp: supported_release_def)
qed

lemma TUPLE_RE_match:
  "(\<exists>st. (gs, st) \<in> set (seq_groups TUPLE_RE (None, s)) \<and> snd st = []) \<longleftrightarrow> (\<exists>rel. supported_release rel \<and> s = tuple_of rel \<and> gs = [rel])"
proof -
  define ps where "ps = [lit_piece ''linux-'', (True, release_rx, supported_release), lit_piece ''-x86_64-sched_ext-bpf-bpf_jit-btf-vm_lab_only'']"
  have "TUPLE_RE = anchored_groups (map (\<lambda>(m, r, L). (m, r)) ps)" by (simp add: TUPLE_RE_def anchored_groups_def ps_def Let_def)
  moreover have "\<forall>(m, r, L) \<in> set ps. spans r L" unfolding ps_def using spans_lit spans_release by simp
  ultimately have "(\<exists>st. (gs, st) \<in> set (seq_groups TUPLE_RE (None, s)) \<and> snd st = []) \<longleftrightarrow>
      (\<exists>ws. list_all2 (\<lambda>(m, r, L) w. L w) ps ws \<and> s = concat ws \<and> gs = marked_words ps ws)"
    using anchored_groups_iff by metis
  also have "\<dots> \<longleftrightarrow> (\<exists>rel. supported_release rel \<and> s = tuple_of rel \<and> gs = [rel])"
    unfolding ps_def ex_words tuple_of_def by simp
  finally show ?thesis .
qed

lemma TUPLE_RE_groups: "re_fullgroups TUPLE_RE s = Some gs \<longleftrightarrow> (\<exists>rel. supported_release rel \<and> s = tuple_of rel \<and> gs = [rel])"
proof -
  have "re_fullgroups TUPLE_RE s = Some gs \<longleftrightarrow> (\<exists>st. (gs, st) \<in> set (seq_groups TUPLE_RE (None, s)) \<and> snd st = [])"
  proof (rule re_fullgroups_unique)
    fix xs ys st st' assume "(xs, st) \<in> set (seq_groups TUPLE_RE (None, s))" "snd st = []"
      "(ys, st') \<in> set (seq_groups TUPLE_RE (None, s))" "snd st' = []"
    then obtain r r' where "xs = [r]" "ys = [r']" "tuple_of r = tuple_of r'" using TUPLE_RE_match[of xs s] TUPLE_RE_match[of ys s] by metis
    then show "xs = ys" by (simp add: tuple_of_def)
  qed
  then show ?thesis unfolding TUPLE_RE_match .
qed

text \<open>C35: apart from the tuple of the build 7.1.2-3, which the documents on CI and on supported tuples list and
  the pattern of the schema file does not have, the pattern of the code accepts exactly the tuples of the schema file, and
  it reads the release out of them: mainline 6.n with n from 12 to 99, with or without a patch level, and the build
  7.1.1-2.\<close>

theorem kernel_tuple_bounds:
  assumes "s \<noteq> tuple_of ''7.1.2-3-cachyos''"
  shows "re_fullgroups TUPLE_RE s = Some gs \<longleftrightarrow>
     (\<exists>rel. s = ''linux-'' @ rel @ ''-x86_64-sched_ext-bpf-bpf_jit-btf-vm_lab_only'' \<and> gs = [rel] \<and>
        ((\<exists>n patch. 12 \<le> n \<and> n \<le> 99 \<and> rel = ''6.'' @ show_nat n @ patch \<and> (patch = [] \<or> (\<exists>d. isdecimal d \<and> patch = ''.'' @ d))) \<or>
         rel = ''7.1.1-2-cachyos''))"
  using assms unfolding TUPLE_RE_groups supported_release_def tuple_of_def by blast

theorem kernel_tuple_bounds_witness:
  "tuple_of ''6.12.3'' \<noteq> tuple_of ''7.1.2-3-cachyos'' \<and> re_fullgroups TUPLE_RE (tuple_of ''6.12.3'') = Some [''6.12.3'']"
proof -
  have other: "tuple_of ''6.12.3'' \<noteq> tuple_of ''7.1.2-3-cachyos''" by (simp add: tuple_of_def)
  have rel: "''6.12.3'' = ''6.'' @ show_nat 12 @ ''.3''" and digit: "isdecimal ''3''" by code_simp+
  have "\<exists>d. isdecimal d \<and> ''.3'' = ''.'' @ d" using digit by (intro exI[of _ "''3''"]) simp
  then have mainline: "\<exists>n patch. 12 \<le> n \<and> n \<le> 99 \<and> ''6.12.3'' = ''6.'' @ show_nat n @ patch \<and> (patch = [] \<or> (\<exists>d. isdecimal d \<and> patch = ''.'' @ d))"
    using rel by (intro exI[of _ 12], intro exI[of _ "''.3''"]) simp
  have "re_fullgroups TUPLE_RE (tuple_of ''6.12.3'') = Some [''6.12.3'']"
    unfolding kernel_tuple_bounds[OF other] by (rule exI[of _ "''6.12.3''"], intro conjI disjI1 mainline) (simp_all add: tuple_of_def)
  with other show ?thesis by blast
qed

section \<open>What acceptance means\<close>

lemma require_rp_ok_iff [ok_iff]: "require_rp c m = Inr u \<longleftrightarrow> c"
  by (simp add: require_rp_def ok_iff)

interpretation rp_text: value_reader text_rp text_of RunnerProofError
  by unfold_locales (auto simp: text_rp_def split: option.splits)

interpretation rp_bool: value_reader bool_field_rp bool_of RunnerProofError
  by unfold_locales (auto simp: bool_field_rp_def split: option.splits)

interpretation rp_obj: field_reader object_field obj_of RunnerProofError
  by unfold_locales (auto simp: object_field_def split: option.splits)

lemma only_fields_rp_ok_iff [ok_iff]: "only_fields_rp d allowed c = Inr u \<longleftrightarrow> set (keys d) \<subseteq> set allowed"
  by (simp add: only_fields_rp_def Let_def ok_iff)

lemma digest_rp_ok_iff [ok_iff]: "digest_rp env p = Inr s \<longleftrightarrow> fs_sha256 env p = Inr s"
  by (simp add: digest_rp_def ok_iff)

lemma safe_path_rp_ok_iff [ok_iff]: "safe_path_rp v c = Inr p \<longleftrightarrow> (\<exists>s. v = JStr s \<and> SAFE_PATH_RE s \<and> p = mk_path s)"
  by (auto simp: safe_path_rp_def ok_iff text_of_iff SAFE_PATH_RE_iff)

lemma enum_text_ok_iff [ok_iff]: "enum_text v allowed c = Inr s \<longleftrightarrow> v = JStr s \<and> s \<noteq> [] \<and> s \<in> set allowed"
  by (auto simp: enum_text_def ok_iff text_of_iff)

lemma strings_rp_ok_iff [ok_iff]: "strings_rp v c = Inr xs \<longleftrightarrow> v = JList (map JStr xs) \<and> xs \<noteq> [] \<and> [] \<notin> set xs"
proof -
  have "mapE (\<lambda>(i, item). text_rp item (g i)) (enumerate_from n items) = Inr xs \<longleftrightarrow> items = map JStr xs \<and> [] \<notin> set xs" for g n items
  proof (induction items arbitrary: n xs)
    case (Cons item items)
    then show ?case by (cases xs) (auto simp: bindE_ok_iff rp_text.read_ok text_of_iff)
  qed auto
  then show ?thesis by (cases v) (auto simp: strings_rp_def)
qed

lemmas substrate_steps = bindE_ok_iff thenE_ok_iff guarded_ok_iff require_rp_ok_iff rp_text.read_ok rp_bool.read_ok rp_obj.read_ok
  only_fields_rp_ok_iff safe_path_rp_ok_iff digest_rp_ok_iff enum_text_ok_iff obj_of_iff text_of_iff bool_of_iff case_option_Inl sum.inject

definition protected_runner :: "json_object \<Rightarrow> bool" where
  "protected_runner d \<longleftrightarrow> (\<exists>runner labels. jget d ''runner'' = JObj runner \<and> jget runner ''class'' = JStr ''self-hosted'' \<and>
     jget runner ''labels'' = JList (map JStr labels) \<and> set REQUIRED_LABELS \<subseteq> set labels)"

text \<open>The review is a hash-matched file that fulfils the contract of \<open>ProtectedReview\<close>, and the proof repeats its run and reviewer.\<close>

definition approved_run :: "env \<Rightarrow> json_object \<Rightarrow> bool" where
  "approved_run env d \<longleftrightarrow> (\<exists>penv p review. jget d ''protected_environment'' = JObj penv \<and> jget penv ''reviewer_status'' = JStr ''approved'' \<and>
     hashed_ref env (jget d ''protected_review'') PROTECTED_REVIEW_ROLE p \<and> load_json_object_pr env p = Inr review \<and> review_contract review \<and>
     jget penv ''run_url'' = jget review ''run_url'' \<and> jget penv ''reviewer_identity'' = jget review ''reviewer_identity'')"

definition vm_available :: "json_object \<Rightarrow> bool" where
  "vm_available d \<longleftrightarrow> jget d ''accel_mode'' = JStr ''kvm'' \<and>
     (\<forall>f \<in> {''qemu'', ''dev_kvm''}. \<exists>tool. jget d f = JObj tool \<and> jget tool ''status'' = JStr ''available'')"

definition supported_kernel :: "json_object \<Rightarrow> bool" where
  "supported_kernel d \<longleftrightarrow> (\<exists>kernel rel release. jget d ''kernel_tuple'' = JObj kernel \<and> supported_release rel \<and>
     jget kernel ''supported_tuple'' = JStr (tuple_of rel) \<and> jget kernel ''release'' = JStr release \<and> prefix rel release \<and>
     jget kernel ''btf_available'' = JBool True \<and> jget kernel ''sched_ext_available'' = JBool True \<and>
     jget kernel ''config_sha256'' \<notin> JStr ` set PLACEHOLDER_SHA_VALUES)"

definition attestable :: "json_object \<Rightarrow> bool" where
  "attestable d \<longleftrightarrow> (\<exists>att. jget d ''attestation'' = JObj att \<and> jget att ''capability'' = JStr ''available'' \<and> jget att ''status'' \<noteq> JStr ''unavailable'')"

lemma validate_runner_ok: "validate_runner d outcome = Inr () \<Longrightarrow> protected_runner d"
  unfolding validate_runner_def Let_def bindE_ok_iff thenE_ok_iff require_rp_ok_iff rp_obj.read_ok obj_of_iff enum_text_ok_iff strings_rp_ok_iff
    sorted_diff_empty_iff protected_runner_def by blast

lemma load_pr_load: "load_json_object_pr env p = Inr d \<Longrightarrow> load_json_object env p = Inr d"
  by (auto simp: load_json_object_pr_ok_iff load_json_object_ok_iff)

lemma validate_protected_review_ok:
  assumes "validate_protected_review env d ''PASS'' = Inr ()" and "validate_environment d ''PASS'' = Inr ()"
  shows "approved_run env d"
proof -
  obtain ref s sha review penv where ref: "jget d ''protected_review'' = JObj ref" "jget ref ''path'' = JStr s" "SAFE_PATH_RE s"
      "jget ref ''sha256'' = JStr sha" "fs_sha256 env (mk_path s) = Inr sha" "jget ref ''schema_role'' = JStr PROTECTED_REVIEW_ROLE"
    and check: "validate_proof_pr env (mk_path s) DEFAULT_SCHEMA_pr = Inr ()" and load: "load_json_object env (mk_path s) = Inr review"
    and penv: "jget d ''protected_environment'' = JObj penv"
    and eq: "py_eq (jget review ''run_url'') (jget penv ''run_url'')" "py_eq (jget review ''reviewer_identity'') (jget penv ''reviewer_identity'')"
    using assms(1) unfolding validate_protected_review_def substrate_steps reraise_ok_iff by blast
  obtain d' where d': "load_json_object_pr env (mk_path s) = Inr d'" "review_contract d'" using validate_proof_pr_ok[OF check] by blast
  with load load_pr_load have "d' = review" by fastforce
  with d'(2) obtain url who where "jget review ''run_url'' = JStr url" "jget review ''reviewer_identity'' = JStr who"
    by (auto simp: review_contract_def approved_review_def names_one_run_def)
  with eq have same: "jget penv ''run_url'' = jget review ''run_url''" "jget penv ''reviewer_identity'' = jget review ''reviewer_identity''" by simp_all
  obtain penv' where "jget d ''protected_environment'' = JObj penv'" "jget penv' ''reviewer_status'' = JStr ''approved''"
    using assms(2) unfolding validate_environment_def bindE_ok_iff thenE_ok_iff require_rp_ok_iff rp_obj.read_ok obj_of_iff enum_text_ok_iff if_ok_iff
    by (metis (no_types, lifting))
  moreover have "hashed_ref env (jget d ''protected_review'') PROTECTED_REVIEW_ROLE (mk_path s)"
    using ref SAFE_PATH_RE_safe unfolding hashed_ref_def names_hashed_def by blast
  ultimately show ?thesis unfolding approved_run_def using penv same d' \<open>d' = review\<close> by auto
qed

lemma validate_kernel_ok: "validate_kernel d ''PASS'' reasons = Inr () \<Longrightarrow> supported_kernel d"
  unfolding validate_kernel_def Let_def substrate_steps TUPLE_RE_groups if_P[OF refl] supported_kernel_def image_iff
  by (elim exE conjE) (simp, blast)

lemma validate_bpf_ok: "validate_bpf env d ''PASS'' = Inr () \<Longrightarrow> \<exists>p. hashed_ref env (jget d ''bpf_metadata'') ''bpf-metadata'' p"
  using SAFE_PATH_RE_safe unfolding validate_bpf_def substrate_steps hashed_ref_def names_hashed_def by fastforce

lemma validate_attestation_ok: "validate_attestation d ''PASS'' = Inr () \<Longrightarrow> attestable d"
  unfolding validate_attestation_def substrate_steps attestable_def by fastforce

lemma validate_status_path_ok: "validate_status_path d f = Inr status \<Longrightarrow> \<exists>tool. jget d f = JObj tool \<and> jget tool ''status'' = JStr status"
  unfolding validate_status_path_def substrate_steps by blast

lemma validate_proof_rp_ok:
  assumes "validate_proof_rp env path schema = Inr ()" and "load_json_object env path = Inr d"
  shows "\<forall>f \<in> {''host_mutation'', ''release_eligible'', ''production_capacity_claim''}. jget d f = JBool False" and "protected_runner d"
    and "jget d ''proof_outcome'' = JStr ''PASS'' \<Longrightarrow> approved_run env d \<and> vm_available d \<and> supported_kernel d \<and> attestable d \<and>
      (\<exists>p. hashed_ref env (jget d ''bpf_metadata'') ''bpf-metadata'' p) \<and> jget d ''unavailable_reasons'' = JList []"
    and "jget d ''proof_outcome'' \<noteq> JStr ''PASS'' \<Longrightarrow>
      (\<exists>reasons. jget d ''unavailable_reasons'' = JList (map JStr reasons) \<and> reasons \<noteq> [] \<and> [] \<notin> set reasons)"
proof -
  obtain outcome qemu kvm accel items reasons where
    flags: "jget d ''host_mutation'' = JBool False" "jget d ''release_eligible'' = JBool False" "jget d ''production_capacity_claim'' = JBool False"
    and outcome: "jget d ''proof_outcome'' = JStr outcome" and runner: "validate_runner d outcome = Inr ()"
    and review: "validate_environment d outcome = Inr ()" "validate_protected_review env d outcome = Inr ()"
    and tools: "validate_status_path d ''qemu'' = Inr qemu" "validate_status_path d ''dev_kvm'' = Inr kvm" "jget d ''accel_mode'' = JStr accel"
      "outcome \<noteq> ''PASS'' \<or> qemu = ''available'' \<and> kvm = ''available''" "outcome \<noteq> ''PASS'' \<or> accel = ''kvm''"
    and reasons: "list_of (jget d ''unavailable_reasons'') = Some items" "(if outcome = ''PASS'' then Inr [] else strings_rp (JList items) ''unavailable_reasons'') = Inr reasons"
      "outcome \<noteq> ''PASS'' \<or> length items = 0"
    and rest: "validate_kernel d outcome reasons = Inr ()" "validate_bpf env d outcome = Inr ()" "validate_attestation d outcome = Inr ()"
    using assms(1) unfolding validate_proof_rp_def assms(2) bindE_simps bindE_ok_iff thenE_ok_iff require_rp_ok_iff enum_text_ok_iff case_option_Inl
    by (elim exE conjE) (rule that; assumption)
  show "\<forall>f \<in> {''host_mutation'', ''release_eligible'', ''production_capacity_claim''}. jget d f = JBool False" using flags by blast
  show "protected_runner d" by (rule validate_runner_ok[OF runner])
  { assume "jget d ''proof_outcome'' = JStr ''PASS''"
    with outcome have out: "outcome = ''PASS''" by simp
    have "vm_available d" using tools validate_status_path_ok out unfolding vm_available_def by fastforce
    moreover have "jget d ''unavailable_reasons'' = JList []" using reasons(1,3) out by (simp add: list_of_iff)
    ultimately show "approved_run env d \<and> vm_available d \<and> supported_kernel d \<and> attestable d \<and>
      (\<exists>p. hashed_ref env (jget d ''bpf_metadata'') ''bpf-metadata'' p) \<and> jget d ''unavailable_reasons'' = JList []"
      using validate_protected_review_ok review rest validate_kernel_ok validate_bpf_ok validate_attestation_ok out by blast }
  assume "jget d ''proof_outcome'' \<noteq> JStr ''PASS''"
  with outcome have "outcome \<noteq> ''PASS''" by auto
  with reasons(2) have "JList items = JList (map JStr reasons) \<and> reasons \<noteq> [] \<and> [] \<notin> set reasons" by (simp add: strings_rp_ok_iff)
  with reasons(1) show "\<exists>reasons. jget d ''unavailable_reasons'' = JList (map JStr reasons) \<and> reasons \<noteq> [] \<and> [] \<notin> set reasons"
    by (auto simp: list_of_iff)
qed

text \<open>C17: an accepted substrate proof denies host mutation, release and capacity, and its runner is
  self-hosted with the three protected labels. If it says PASS, the environment was approved, and a hash-matched
  review file that fulfils its own contract names the same run and the same reviewer; QEMU and KVM were
  available and used; the kernel is a supported one with BTF, sched_ext and a real configuration hash; the BPF
  metadata is a hash-matched file; attestation is available; and no reason for unavailability is given. If it
  says anything else, it gives at least one reason, and none of them is empty.\<close>

theorem substrate_pass_proven:
  assumes "validate_proof_rp env path schema = Inr ()" and "load_json_object env path = Inr d"
  shows "(\<forall>f \<in> {''host_mutation'', ''release_eligible'', ''production_capacity_claim''}. jget d f = JBool False) \<and> protected_runner d \<and>
    (if jget d ''proof_outcome'' = JStr ''PASS'' then
       approved_run env d \<and> vm_available d \<and> supported_kernel d \<and> attestable d \<and>
       (\<exists>p. hashed_ref env (jget d ''bpf_metadata'') ''bpf-metadata'' p) \<and> jget d ''unavailable_reasons'' = JList []
     else (\<exists>reasons. jget d ''unavailable_reasons'' = JList (map JStr reasons) \<and> reasons \<noteq> [] \<and> [] \<notin> set reasons))"
  using validate_proof_rp_ok[OF assms] by auto

definition substrate_doc :: json_object where
  "substrate_doc =
     [(''schema'', JStr SCHEMA_rp), (''proof_outcome'', JStr ''PASS''),
      (''runner'', JObj [(''class'', JStr ''self-hosted''), (''group'', JStr ''g''), (''labels'', JList (map JStr REQUIRED_LABELS)), (''name'', JStr ''n''),
         (''os'', JStr ''linux''), (''arch'', JStr ''x86_64'')]),
      (''protected_environment'', JObj [(''name'', JStr ''vm-proof-manual''), (''protected'', JBool True), (''required_reviewers'', JStr ''octo''),
         (''reviewer_status'', JStr ''approved''), (''reviewer_identity'', JStr ''octo''), (''run_url'', JStr ''https://github.com/o/r/actions/runs/28'')]),
      (''protected_review'', JObj [(''path'', JStr ''d/review.json''), (''sha256'', JStr (replicate 64 CHR ''b'')), (''schema_role'', JStr PROTECTED_REVIEW_ROLE)]),
      (''qemu'', JObj [(''path'', JStr ''bin/qemu''), (''version'', JStr ''9''), (''status'', JStr ''available'')]),
      (''dev_kvm'', JObj [(''path'', JStr ''dev/kvm''), (''status'', JStr ''available'')]), (''accel_mode'', JStr ''kvm''),
      (''kernel_tuple'', JObj [(''supported_tuple'', JStr (tuple_of ''6.12'')), (''release'', JStr ''6.120''), (''arch'', JStr ''x86_64''),
         (''config_sha256'', JStr (replicate 64 CHR ''c'')), (''btf_available'', JBool True), (''sched_ext_available'', JBool True)]),
      (''bpf_metadata'', JObj [(''path'', JStr ''d/bpf.json''), (''sha256'', JStr (replicate 64 CHR ''d'')), (''schema_role'', JStr ''bpf-metadata'')]),
      (''attestation'', JObj [(''capability'', JStr ''available''), (''status'', JStr ''verified-by-operator''),
         (''workflow_uses'', JStr ''actions/attest-build-provenance@v2''), (''verify_command'', JStr ''gh attestation verify x'')]),
      (''unavailable_reasons'', JList []), (''host_mutation'', JBool False), (''release_eligible'', JBool False), (''production_capacity_claim'', JBool False)]"

definition substrate_env :: env where
  "substrate_env = files_env
     [(''schemas/control/protected-environment-review.v1.schema.json'', ''SCHEMA''), (''d/review.json'', ''R''), (''s'', ''S''), (''p'', ''P'')]
     [(''d/review.json'', replicate 64 CHR ''b''), (''d/bpf.json'', replicate 64 CHR ''d'')]
     [(''SCHEMA'', JObj review_schema_doc), (''R'', JObj review_doc), (''S'', JObj [(''$id'', JStr SCHEMA_rp)]), (''P'', JObj substrate_doc)]"

lemma substrate_env_accepted: "validate_proof_rp substrate_env (mk_path ''p'') (mk_path ''s'') = Inr ()"
  by code_simp

lemma substrate_env_proof: "load_json_object substrate_env (mk_path ''p'') = Inr substrate_doc"
  by code_simp

theorem substrate_pass_proven_witness:
  "validate_proof_rp substrate_env (mk_path ''p'') (mk_path ''s'') = Inr () \<and> approved_run substrate_env substrate_doc \<and>
   vm_available substrate_doc \<and> supported_kernel substrate_doc"
proof -
  have "jget substrate_doc ''proof_outcome'' = JStr ''PASS''" by code_simp
  with substrate_pass_proven[OF substrate_env_accepted substrate_env_proof] substrate_env_accepted show ?thesis by simp
qed

section \<open>The command returns\<close>

lemma parse_args_loop_rp_returns:
  "\<exists>r. parse_args_loop_rp argv index args = Some r \<and> raises is_RunnerProofError r"
proof (induction "length argv - index" arbitrary: index args rule: less_induct)
  case less
  have IH: "\<exists>r. parse_args_loop_rp argv (Suc (Suc index)) a = Some r \<and> raises is_RunnerProofError r" if "index < length argv" for a
    using that by (intro less) simp
  show ?case by (subst (1) parse_args_loop_rp.simps) (auto simp: Let_def raises_def[of _ "Inl _"] raises_Inr IH)
qed

lemma parse_args_rp_returns: "\<exists>r. parse_args_rp argv = Some r \<and> raises is_RunnerProofError r"
  unfolding parse_args_rp_def using parse_args_loop_rp_returns raises_Inr by auto

abbreviation substrate_error :: "exn \<Rightarrow> bool" where
  "substrate_error e \<equiv> is_RunnerProofError e \<or> io_error e"

lemma raises_rp [raises_intro]:
  "(\<And>m. P (RunnerProofError m)) \<Longrightarrow> raises P (require_rp b t)"
  "(\<And>m. P (RunnerProofError m)) \<Longrightarrow> raises P (only_fields_rp d fs c)"
  "(\<And>m. P (RunnerProofError m)) \<Longrightarrow> raises P (text_rp v c)"
  "(\<And>m. P (RunnerProofError m)) \<Longrightarrow> raises P (bool_field_rp v c)"
  "(\<And>m. P (RunnerProofError m)) \<Longrightarrow> raises P (safe_path_rp v c)"
  "(\<And>m. P (RunnerProofError m)) \<Longrightarrow> raises P (enum_text v allowed c)"
  "(\<And>m. P (RunnerProofError m)) \<Longrightarrow> raises P (object_field d f c)"
  by (auto simp: raises_def require_rp_def only_fields_rp_def Let_def raise_if_def text_rp_def bool_field_rp_def safe_path_rp_def enum_text_def
      object_field_def err_iff split: option.splits if_splits)

lemma raises_strings_rp [raises_intro]: "(\<And>m. P (RunnerProofError m)) \<Longrightarrow> raises P (strings_rp v c)"
  unfolding strings_rp_def by (intro raises_intro)

lemma raises_digest_rp: "io_env env \<Longrightarrow> raises substrate_error (digest_rp env p)"
  unfolding digest_rp_def by (intro raises_intro io_env_sha256) (auto simp: is_os_error_def)

lemma raises_load_substrate: "io_env env \<Longrightarrow> raises substrate_error (load_json_object env p)"
  unfolding load_json_object_def by (intro raises_intro io_env_read) (auto simp: is_os_error_def)

lemma raises_validate_protected_review: "io_env env \<Longrightarrow> raises substrate_error (validate_protected_review env d outcome)"
  unfolding validate_protected_review_def
  by (intro raises_intro raises_digest_rp raises_load_substrate raises_weaken[OF raises_validate_proof_pr]) auto

lemma raises_validate_proof_rp: "io_env env \<Longrightarrow> raises substrate_error (validate_proof_rp env p schema)"
  unfolding validate_proof_rp_def validate_schema_file_rp_def validate_runner_def validate_environment_def validate_status_path_def
    validate_kernel_def validate_bpf_def validate_attestation_def Let_def
  by (intro raises_intro raises_validate_protected_review raises_digest_rp raises_load_substrate) simp_all

lemma raises_validate_fixtures_rp: "io_env env \<Longrightarrow> raises substrate_error (validate_fixtures_rp env base schema)"
  unfolding validate_fixtures_rp_def reject_fixture_rp_def Let_def
  by (intro raises_intro raises_case_sum raises_validate_proof_rp) (auto dest: raises_validate_proof_rp[THEN raisesD])

text \<open>C37: the argument loop of the command has no bound of its own, but it always ends, because every round
  moves the index; so the command returns, whatever its arguments. Where file access fails only as documented
  and the self-test passes, it returns a line with exit status 0 or 1, or lets an input error through, which it
  does not catch: an operating system or decoding error, the \<^verbatim>\<open>ValueError\<close> of a path with a null character or of an
  integer literal over the interpreter's limit, or the \<^verbatim>\<open>RecursionError\<close> of a document nested too deeply.\<close>

theorem substrate_command_returns:
  assumes "io_env env"
  shows "\<exists>r. main_rp (\<lambda>_. Inr ()) env argv = Some r \<and>
    ((\<exists>line status. r = Inr (line, status) \<and> status \<in> {0, 1}) \<or> (\<exists>e. r = Inl e \<and> io_error e))"
proof -
  obtain parsed where parsed: "parse_args_rp argv = Some parsed" "raises is_RunnerProofError parsed"
    using parse_args_rp_returns by blast
  define outcome where "outcome =
    bindE parsed (\<lambda>args. if substrate_mode args = ModeSelfTest then thenE (Inr ()) (Inr [])
      else (case (substrate_mode args, substrate_proof args) of
              (ModeProof, Some p) \<Rightarrow> thenE (validate_proof_rp env p (substrate_schema args)) (Inr (msg [''PASS runner substrate proof: '', path_str p]))
            | _ \<Rightarrow> thenE (validate_fixtures_rp env (substrate_fixtures args) (substrate_schema args)) (Inr [])))"
  have run: "raises substrate_error (case (m, q) of
      (ModeProof, Some p) \<Rightarrow> thenE (validate_proof_rp env p s) (Inr (msg [''PASS runner substrate proof: '', path_str p]))
    | _ \<Rightarrow> thenE (validate_fixtures_rp env b s) (Inr []))" for m q b s
    using assms by (cases m; cases q) (auto intro!: raises_intro raises_validate_proof_rp raises_validate_fixtures_rp)
  have "raises substrate_error outcome"
    unfolding outcome_def using parsed(2) by (intro raises_bindE raises_if raises_thenE raises_Inr run) (auto elim: raises_weaken)
  moreover have "main_rp (\<lambda>_. Inr ()) env argv = Some (case outcome of Inr line \<Rightarrow> Inr (line, 0)
      | Inl e \<Rightarrow> if is_RunnerProofError e then Inr (msg [''FAIL runner substrate proof: '', exn_str e], 1) else Inl e)"
    by (simp add: main_rp_def parsed outcome_def Let_def)
  ultimately show ?thesis by (cases outcome) (auto simp: raises_def)
qed

text \<open>Two runs: a proof that passes, and one that is nested too deeply for the decoder.\<close>

definition nested_env :: env where
  "nested_env = substrate_env \<lparr> json_decode := (\<lambda>s. NestedTooDeeply ''maximum recursion depth exceeded'') \<rparr>"

lemma substrate_runs:
  "main_rp (\<lambda>_. Inr ()) substrate_env [''--proof'', ''p'', ''--schema'', ''s''] = Some (Inr (''PASS runner substrate proof: p'', 0))"
  "main_rp (\<lambda>_. Inr ()) nested_env [''--proof'', ''p'', ''--schema'', ''s''] = Some (Inl (RecursionError ''maximum recursion depth exceeded''))"
proof -
  have args: "parse_args_rp [''--proof'', ''p'', ''--schema'', ''s''] =
      Some (Inr \<lparr> substrate_mode = ModeProof, substrate_proof = Some (mk_path ''p''), substrate_fixtures = DEFAULT_FIXTURES_rp, substrate_schema = mk_path ''s'' \<rparr>)"
    by (simp add: parse_args_rp_def parse_args_loop_rp.simps[of _ 0] parse_args_loop_rp.simps[of _ "Suc (Suc 0)"]
        parse_args_loop_rp.simps[of _ "Suc (Suc (Suc (Suc 0)))"])
  have "msg [''PASS runner substrate proof: '', path_str (mk_path ''p'')] = ''PASS runner substrate proof: p''" by code_simp
  with substrate_env_accepted
  show "main_rp (\<lambda>_. Inr ()) substrate_env [''--proof'', ''p'', ''--schema'', ''s''] = Some (Inr (''PASS runner substrate proof: p'', 0))"
    by (simp add: main_rp_def args)
  have "validate_proof_rp nested_env (mk_path ''p'') (mk_path ''s'') = Inl (RecursionError ''maximum recursion depth exceeded'')" by code_simp
  then show "main_rp (\<lambda>_. Inr ()) nested_env [''--proof'', ''p'', ''--schema'', ''s''] = Some (Inl (RecursionError ''maximum recursion depth exceeded''))"
    by (simp add: main_rp_def args)
qed

theorem substrate_command_returns_witness:
  "(\<exists>r. main_rp (\<lambda>_. Inr ()) nested_env [''--proof'', ''p'', ''--schema'', ''s''] = Some r \<and>
    ((\<exists>line status. r = Inr (line, status) \<and> status \<in> {0, 1}) \<or> (\<exists>e. r = Inl e \<and> io_error e))) \<and>
   main_rp (\<lambda>_. Inr ()) substrate_env [''--proof'', ''p'', ''--schema'', ''s''] = Some (Inr (''PASS runner substrate proof: p'', 0))"
proof -
  have "io_env substrate_env" by (simp add: substrate_env_def io_env_files_env)
  then have "io_env nested_env" by (simp add: io_env_def nested_env_def)
  from substrate_command_returns[OF this] substrate_runs(1) show ?thesis by blast
qed

end
