(* ===== verification/EvidenceManifest.thy ===== *)
theory EvidenceManifest
  imports RunnerSubstrate RuntimeCommon
begin

text \<open>
  \<^verbatim>\<open>qa/evidence_manifest_check.py\<close>: the manifest of a VM proof, which lists every artifact of the proof by path,
  hash and role. The check recomputes the hashes, looks through the artifacts for private text and for claims, and
  hands the environment review to its own checker.
\<close>

section \<open>Model\<close>

text \<open>
  What lies outside: the bytes of a file, UTF-8 decoding and \<^verbatim>\<open>git -C root ls-files\<close> with its return code,
  output and error output.
\<close>

record manifest_tools =
  bytes_of :: "env \<Rightarrow> path \<Rightarrow> string result"
  decode_utf8 :: "string \<Rightarrow> string result"
  ls_files :: "string \<Rightarrow> (int \<times> string \<times> string) result"

definition SCHEMA_em :: string where
  "SCHEMA_em = ''zig-scheduler/evidence-manifest/v1''"

definition VM_MARKER_em :: string where
  "VM_MARKER_em = ''/run/zig-scheduler-vm-lab.marker''"

definition SHA_RE_em :: rx where
  "SHA_RE_em = anchored_class is_hex_char 64 64"

definition AUDIT_RE_em :: rx where
  "AUDIT_RE_em = seqs [Bos, lit ''AUD-'', Rep 8 8 (Ch is_digit_char), lit ''T'', Rep 6 6 (Ch is_digit_char), lit ''Z-'',
     plus (Ch (\<lambda>c. is_alnum_ascii c \<or> c \<in> set ''_.-'')), Eos]"

definition ROLLBACK_RE :: rx where
  "ROLLBACK_RE = seqs [Bos, lit ''RB-'', Ch is_alnum_ascii, Rep 0 127 (Ch (\<lambda>c. is_alnum_ascii c \<or> c \<in> set ''._-'')), Eos]"

text \<open>The code reads none of the groups; the outer one is kept here.\<close>

definition TUPLE_RE_em :: "(bool \<times> rx) list" where
  "TUPLE_RE_em =
     (let class = (\<lambda>s. Ch (\<lambda>c. c \<in> set s)); digit = Ch is_digit_char;
          minor = Alt (Seq (lit ''1'') (class ''23456789'')) (Seq (class ''23456789'') (class ''0123456789''));
          mainline = seqs [lit ''6.'', minor, opt (Seq (lit ''.'') (plus digit))];
          cachyos = seqs [lit ''7.1.'', Alt (lit ''1-2'') (lit ''2-3''), lit ''-cachyos'']
      in [(False, Bos), (False, lit ''linux-''), (True, Alt mainline cachyos),
          (False, lit ''-x86_64-sched_ext-bpf-bpf_jit-btf-vm_lab_only''), (False, Eos)])"

definition FIELDS_em :: "string list" where
  "FIELDS_em =
     [''schema'', ''outcome'', ''audit_id'', ''rollback_id'', ''vm_marker'', ''supported_tuple'', ''bpf_metadata_or_skip'', ''matrix_manifest'',
      ''daemon_events'', ''runner_substrate'', ''runner_cleanliness'', ''artifacts'', ''benchmark_provenance'', ''privacy_scan'',
      ''attestation'', ''required_sources'', ''host_mutation'', ''release_eligible'', ''production_capacity_claim'']"

definition REF_FIELDS_em :: "string list" where
  "REF_FIELDS_em = [''path'', ''sha256'', ''schema_role'']"

definition MARKER_FIELDS :: "string list" where
  "MARKER_FIELDS = [''path'', ''present'', ''checked_by'']"

definition BENCHMARK_NA_FIELDS :: "string list" where
  "BENCHMARK_NA_FIELDS = [''status'', ''reason'', ''applies_to_outcomes'']"

definition PRIVACY_FIELDS :: "string list" where
  "PRIVACY_FIELDS = [''status'', ''private_fields_found'', ''artifact_paths'']"

definition ATTEST_FIELDS_em :: "string list" where
  "ATTEST_FIELDS_em = [''status'', ''workflow_uses'', ''verify_command'', ''retention_days'']"

definition PROTECTED_REVIEW_ROLE_em :: string where
  "PROTECTED_REVIEW_ROLE_em = ''protected-environment-review''"

definition REQUIRED_ROLES :: "string list" where
  "REQUIRED_ROLES =
     [''matrix-row'', ''rollback-proof'', ''cleanup-proof'', ''host-refusal-proof'', ''privacy-scan'', ''static-verification-log'',
      ''runner-substrate-proof'', ''runner-cleanliness-proof'', ''protected-environment-review'']"

definition BPF_ROLES :: "string list" where
  "BPF_ROLES = [''bpf-metadata'', ''bpf-skip-json'']"

definition ATTEST_STATUSES :: "string list" where
  "ATTEST_STATUSES = [''pending-post-run-github-attestation'', ''verified-by-operator'']"

definition OUTCOMES_em :: "string list" where
  "OUTCOMES_em = [''PASS'', ''SKIP'', ''REFUSE'', ''BLOCKED'']"

definition BENCHMARK_NA_OUTCOMES :: "string list" where
  "BENCHMARK_NA_OUTCOMES = [''SKIP'', ''REFUSE'', ''BLOCKED'']"

definition FORBIDDEN_PRIVATE_KEYS :: "string list" where
  "FORBIDDEN_PRIVATE_KEYS =
     [''access_token'', ''apikey'', ''api_key'', ''aws_secret'', ''command_line'', ''env'', ''environment'', ''password'', ''raw_debug'',
      ''secret'', ''token'']"

definition FORBIDDEN_PRIVATE_KEY_PATTERNS :: "string list list" where
  "FORBIDDEN_PRIVATE_KEY_PATTERNS = map private_key_tokens FORBIDDEN_PRIVATE_KEYS"

definition PRIVATE_SAFE_KEYS :: "string list" where
  "PRIVATE_SAFE_KEYS = [''protected_environment'']"

definition PROTECTED_REVIEW_PRIVATE_SAFE_KEYS :: "string list" where
  "PROTECTED_REVIEW_PRIVATE_SAFE_KEYS = [''environment_id'', ''environment_name'']"

definition TEXT_ARTIFACT_ROLES :: "string list" where
  "TEXT_ARTIFACT_ROLES = [''static-verification-log'']"

definition TEXT_ARTIFACT_SUFFIXES :: "string list" where
  "TEXT_ARTIFACT_SUFFIXES = [''.log'', ''.txt'', ''.md'', ''.out'', ''.err'']"

definition MAX_TEXT_ARTIFACT_BYTES :: nat where
  "MAX_TEXT_ARTIFACT_BYTES = 1024 * 1024"

record manifest_args =
  em_manifest :: "path option"
  em_schema :: path
  em_source_root :: path
  em_self_test :: bool

text \<open>The loop of \<^verbatim>\<open>parse_args\<close>; an option takes the argument that follows it.\<close>

fun parse_args_loop_em :: "string list \<Rightarrow> manifest_args \<Rightarrow> manifest_args result" where
  "parse_args_loop_em [] args = Inr args"
| "parse_args_loop_em (arg # rest) args =
     (if arg = ''--self-test'' then parse_args_loop_em rest (args \<lparr> em_self_test := True \<rparr>)
      else if arg = ''--manifest'' then
        (case rest of [] \<Rightarrow> Inl (ManifestError ''--manifest requires a path'')
         | value # rest' \<Rightarrow> parse_args_loop_em rest' (args \<lparr> em_manifest := Some (mk_path value) \<rparr>))
      else if arg = ''--schema'' then
        (case rest of [] \<Rightarrow> Inl (ManifestError ''--schema requires a path'')
         | value # rest' \<Rightarrow> parse_args_loop_em rest' (args \<lparr> em_schema := mk_path value \<rparr>))
      else if arg = ''--source-root'' then
        (case rest of [] \<Rightarrow> Inl (ManifestError ''--source-root requires a path'')
         | value # rest' \<Rightarrow> parse_args_loop_em rest' (args \<lparr> em_source_root := mk_path value \<rparr>))
      else Inl (ManifestError ''usage: evidence_manifest_check.py --manifest <path> [--schema <path>] [--source-root <repo>] | --self-test [--schema <path>] [--source-root <repo>]''))"

definition parse_args_em :: "path \<Rightarrow> string list \<Rightarrow> manifest_args result" where
  "parse_args_em cwd argv =
     (bindE (parse_args_loop_em argv
         \<lparr> em_manifest = None, em_schema = mk_path ''schemas/control/evidence-manifest.v1.schema.json'', em_source_root = cwd, em_self_test = False \<rparr>) (\<lambda>args.
     (if em_self_test args then
         thenE (raise_if (em_manifest args \<noteq> None) (ManifestError ''--self-test cannot be combined with --manifest'')) (Inr args)
         else thenE (raise_if (em_manifest args = None) (ManifestError ''--manifest is required'')) (Inr args))))"

definition load_json_em :: "env \<Rightarrow> path \<Rightarrow> json_object result" where
  "load_json_em env path =
     (bindE (reraise is_JSONDecodeError (\<lambda>exc. ManifestError (msg [''invalid JSON in '', path_str path, '': '', exn_str exc]))
         (reraise is_FileNotFoundError (\<lambda>_. ManifestError (msg [''missing JSON file: '', path_str path]))
         (bindE (fs_read_text env path) (json_loads env)))) (\<lambda>raw.
     case obj_of raw of
         None \<Rightarrow> Inl (ManifestError (msg [path_str path, '' must contain a JSON object'']))
         | Some d \<Rightarrow> Inr d))"

definition require_em :: "bool \<Rightarrow> string \<Rightarrow> check" where
  "require_em condition message = raise_if (\<not> condition) (ManifestError message)"

definition only_fields_em :: "json_object \<Rightarrow> string list \<Rightarrow> string \<Rightarrow> check" where
  "only_fields_em row allowed context =
     (let extra = sorted_diff (keys row) allowed in
      require_em (extra = []) (msg [context, '' has unexpected fields: '', join '', '' extra]))"

definition text_em :: "json \<Rightarrow> string \<Rightarrow> string result" where
  "text_em v context =
     (case text_of v of
        None \<Rightarrow> Inl (ManifestError (msg [context, '' must be non-empty text'']))
      | Some s \<Rightarrow> Inr s)"

definition safe_path_em :: "json \<Rightarrow> string \<Rightarrow> path result" where
  "safe_path_em v context =
     (bindE (text_em v context) (\<lambda>raw.
     (let path = mk_path raw in
     thenE (require_em (\<not> is_absolute path \<and> ''..'' \<notin> set (path_parts path)) (msg [context, '' must be relative and non-traversing: '', raw])) (
     Inr path))))"

definition file_sha_em :: "env \<Rightarrow> path \<Rightarrow> string result" where
  "file_sha_em env path = reraise is_FileNotFoundError (\<lambda>_. ManifestError (msg [''missing referenced artifact: '', path_str path])) (fs_sha256 env path)"

definition validate_ref_em :: "env \<Rightarrow> json \<Rightarrow> string \<Rightarrow> string result" where
  "validate_ref_em env v context =
     (case obj_of v of
        None \<Rightarrow> Inl (ManifestError (msg [context, '' must be an artifact reference'']))
      | Some row \<Rightarrow>
          (thenE (only_fields_em row REF_FIELDS_em context) (
            bindE (safe_path_em (jget row ''path'') (msg [context, ''.path''])) (\<lambda>path.
            bindE (text_em (jget row ''sha256'') (msg [context, ''.sha256''])) (\<lambda>digest.
            thenE (require_em (re_fullmatch SHA_RE_em digest) (msg [context, ''.sha256 must be sha256 hex''])) (
            bindE (file_sha_em env path) (\<lambda>sha.
            thenE (require_em (sha = digest) (msg [context, ''.sha256 does not match '', path_str path])) (
            text_em (jget row ''schema_role'') (msg [context, ''.schema_role''])))))))))"

definition private_key_is_safe :: "string \<Rightarrow> string \<Rightarrow> bool" where
  "private_key_is_safe key role \<longleftrightarrow>
     key \<in> set PRIVATE_SAFE_KEYS \<or> role = PROTECTED_REVIEW_ROLE_em \<and> key \<in> set PROTECTED_REVIEW_PRIVATE_SAFE_KEYS"

definition reject_private_text :: "string \<Rightarrow> string \<Rightarrow> check" where
  "reject_private_text v context = require_em (\<not> private_text_contains v) (msg [''privacy-unsafe text in referenced artifact: '', context])"

fun reject_claim_value :: "string \<Rightarrow> json \<Rightarrow> string \<Rightarrow> check" where
  "reject_claim_value role (JObj d) context =
     forE (\<lambda>(key, child).
       thenE (raise_if (\<not> private_key_is_safe key role \<and> private_key_has_pattern key FORBIDDEN_PRIVATE_KEY_PATTERNS)
                (ManifestError (msg [''privacy-unsafe key in referenced artifact: '', context, ''.'', key])))
         (thenE (if key = ''host_mutation'' then require_em (child = JBool False) (msg [context, ''.host_mutation must be false'']) else Inr ())
           (thenE (if key \<in> {''release_eligible'', ''production_capacity_claim''} then require_em (child = JBool False) (msg [context, ''.'', key, '' must be false'']) else Inr ())
             (reject_claim_value role child (msg [context, ''.'', key]))))) d"
| "reject_claim_value role (JList xs) context =
     forE (\<lambda>(index, child). reject_claim_value role child (msg [context, ''['', show_nat index, '']''])) (enumerate_from 0 xs)"
| "reject_claim_value role (JStr s) context = reject_private_text s context"
| "reject_claim_value role _ context = Inr ()"

declare reject_claim_value.simps [simp del]

definition reject_text_artifact :: "manifest_tools \<Rightarrow> env \<Rightarrow> path \<Rightarrow> string \<Rightarrow> check" where
  "reject_text_artifact tools env path role =
     (if role \<notin> set TEXT_ARTIFACT_ROLES \<and> path_suffix path \<notin> set TEXT_ARTIFACT_SUFFIXES then Inr ()
      else
        (bindE (reraise is_FileNotFoundError (\<lambda>_. ManifestError (msg [''missing referenced artifact: '', path_str path])) (bytes_of tools env path)) (\<lambda>raw.
          thenE (require_em (length raw \<le> MAX_TEXT_ARTIFACT_BYTES) (msg [''referenced text artifact is too large to privacy-scan: '', path_str path])) (
          bindE (reraise is_UnicodeError (\<lambda>_. ManifestError (msg [''referenced text artifact is not UTF-8: '', path_str path])) (decode_utf8 tools raw)) (\<lambda>text_value.
          reject_private_text text_value (path_str path))))))"

definition reject_claim_line :: "env \<Rightarrow> path \<Rightarrow> string \<Rightarrow> nat \<Rightarrow> string \<Rightarrow> check" where
  "reject_claim_line env path role line_no line =
     (if strip line = [] then Inr ()
      else
        (bindE (reraise is_JSONDecodeError (\<lambda>exc. ManifestError (msg [''invalid referenced JSON '', path_str path, '':'', show_nat line_no, '': '', exn_str exc]))
              (json_loads env line)) (\<lambda>v.
          reject_claim_value role v (msg [path_str path, '':'', show_nat line_no]))))"

definition reject_claims :: "manifest_tools \<Rightarrow> env \<Rightarrow> path \<Rightarrow> string \<Rightarrow> check" where
  "reject_claims tools env path role =
     (if path_suffix path = ''.json'' then bindE (load_json_em env path) (\<lambda>d. reject_claim_value role (JObj d) (path_str path))
      else if path_suffix path \<noteq> ''.jsonl'' then reject_text_artifact tools env path role
      else
        bindE (fs_read_text env path) (\<lambda>content.
          forE (\<lambda>(line_no, line). reject_claim_line env path role line_no line) (enumerate_from 1 (splitlines content))))"

definition tracked_sources :: "manifest_tools \<Rightarrow> json \<Rightarrow> path \<Rightarrow> check" where
  "tracked_sources tools paths source_root =
     (case paths of
        JList (item # items) \<Rightarrow>
          bindE (ls_files tools (path_str source_root)) (\<lambda>(returncode, stdout, stderr).
            thenE (raise_if (returncode \<noteq> 0) (ManifestError (msg [''git ls-files failed: '', strip stderr])))
              (forE (\<lambda>(index, item).
                 bindE (safe_path_em item (msg [''required_sources['', show_nat index, '']''])) (\<lambda>path.
                   require_em (path_str path \<in> set (splitlines stdout)) (msg [''required source is not tracked: '', path_str path])))
                 (enumerate_from 0 (item # items))))
      | _ \<Rightarrow> Inl (ManifestError ''required_sources must be a non-empty list''))"

definition validate_benchmark_not_applicable :: "json_object \<Rightarrow> string \<Rightarrow> check" where
  "validate_benchmark_not_applicable row outcome =
     (thenE (only_fields_em row BENCHMARK_NA_FIELDS ''benchmark_provenance'') (
     thenE (require_em (jget row ''status'' = JStr ''not_applicable'') ''benchmark_provenance.status must be not_applicable'') (
     thenE (require_em (outcome \<in> set BENCHMARK_NA_OUTCOMES) ''benchmark_provenance not_applicable is only valid for SKIP/REFUSE/BLOCKED'') (
     bindE (text_em (jget row ''reason'') ''benchmark_provenance.reason'') (\<lambda>reason.
     thenE (reject_private_text reason ''benchmark_provenance.reason'') (
     (case jget row ''applies_to_outcomes'' of
         JList (item # items) \<Rightarrow>
         (thenE (forE (\<lambda>(index, item).
         bindE (text_em item (msg [''benchmark_provenance.applies_to_outcomes['', show_nat index, '']''])) (\<lambda>outcome_value.
         require_em (outcome_value \<in> set BENCHMARK_NA_OUTCOMES) (msg [''benchmark_provenance.applies_to_outcomes['', show_nat index, ''] is unsupported''])))
         (enumerate_from 0 (item # items))) (
         require_em (JStr outcome \<in> set (item # items)) ''benchmark_provenance.applies_to_outcomes must include the manifest outcome''))
         | _ \<Rightarrow> Inl (ManifestError ''benchmark_provenance.applies_to_outcomes must be a non-empty list''))))))))"

definition validate_privacy_em :: "json \<Rightarrow> check" where
  "validate_privacy_em v =
     (case obj_of v of
        None \<Rightarrow> Inl (ManifestError ''privacy_scan must be an object'')
      | Some row \<Rightarrow>
          (thenE (only_fields_em row PRIVACY_FIELDS ''privacy_scan'') (
            thenE (require_em (jget row ''status'' = JStr ''PASS'' \<and> jget row ''private_fields_found'' = JBool False)
                ''privacy scan must pass without private fields'') (
            (case jget row ''artifact_paths'' of
                JList (item # items) \<Rightarrow>
                forE (\<lambda>(index, item).
                (bindE (text_em item (msg [''privacy_scan.artifact_paths['', show_nat index, '']''])) (\<lambda>raw.
                thenE (reject_private_text raw (msg [''privacy_scan.artifact_paths['', show_nat index, '']''])) (
                bindE (safe_path_em (JStr raw) (msg [''privacy_scan.artifact_paths['', show_nat index, '']''])) (\<lambda>_.
                Inr ()))))) (enumerate_from 0 (item # items))
                | _ \<Rightarrow> Inl (ManifestError ''privacy_scan.artifact_paths must be non-empty''))))))"

definition validate_attestation_em :: "json \<Rightarrow> check" where
  "validate_attestation_em v =
     (case obj_of v of
        None \<Rightarrow> Inl (ManifestError ''attestation must be an object'')
      | Some row \<Rightarrow>
          (thenE (only_fields_em row ATTEST_FIELDS_em ''attestation'') (
            bindE (text_em (jget row ''status'') ''attestation.status'') (\<lambda>status.
            thenE (require_em (status \<in> set ATTEST_STATUSES) ''attestation.status is unsupported'') (
            bindE (text_em (jget row ''workflow_uses'') ''attestation.workflow_uses'') (\<lambda>uses.
            thenE (require_em (contains ''actions/attest-build-provenance'' uses) ''attestation workflow action is missing'') (
            bindE (text_em (jget row ''verify_command'') ''attestation.verify_command'') (\<lambda>verify.
            thenE (require_em (contains ''gh attestation verify'' verify) ''attestation verify command is missing'') (
            (case int_of (jget row ''retention_days'') of
                None \<Rightarrow> Inl (ManifestError ''attestation.retention_days must be positive'')
                | Some n \<Rightarrow> raise_if (n \<le> 0) (ManifestError ''attestation.retention_days must be positive'')))))))))))"

text \<open>
  A reference with the pair that is put into \<^verbatim>\<open>artifact_paths\<close>; \<^verbatim>\<open>validate_ref\<close> has returned, so the
  value is an object.
\<close>

definition ref_artifact :: "env \<Rightarrow> json \<Rightarrow> string \<Rightarrow> (path \<times> string) result" where
  "ref_artifact env v context =
     (bindE (validate_ref_em env v context) (\<lambda>role.
     bindE ((case obj_of v of None \<Rightarrow> Inl (TypeError ''unreachable'') | Some row \<Rightarrow> safe_path_em (jget row ''path'') (msg [context, ''.path'']))) (\<lambda>path.
     Inr (path, role))))"

definition benchmark_artifact :: "env \<Rightarrow> json \<Rightarrow> string \<Rightarrow> (path \<times> string) result" where
  "benchmark_artifact env v context =
     bindE (ref_artifact env v context) (\<lambda>(path, role).
       thenE (require_em (role = ''benchmark-provenance'') (msg [context, '' must use benchmark-provenance role''])) (Inr (path, role)))"

definition benchmark_artifacts :: "env \<Rightarrow> json \<Rightarrow> string \<Rightarrow> (path \<times> string) list result" where
  "benchmark_artifacts env benchmark outcome =
     (case benchmark of
        JList items \<Rightarrow>
          thenE (require_em (items \<noteq> []) ''benchmark_provenance must be a non-empty list'')
            (mapE (\<lambda>(index, item). benchmark_artifact env item (msg [''benchmark_provenance['', show_nat index, '']''])) (enumerate_from 0 items))
      | JObj row \<Rightarrow> thenE (validate_benchmark_not_applicable row outcome) (Inr [])
      | _ \<Rightarrow> Inl (ManifestError ''benchmark_provenance must be artifact references or a not-applicable object''))"

definition check_artifact :: "manifest_tools \<Rightarrow> env \<Rightarrow> path \<times> string \<Rightarrow> check" where
  "check_artifact tools env = (\<lambda>(artifact_path, role).
     thenE (if role = PROTECTED_REVIEW_ROLE_em then
              reraise is_ProtectedReviewError
                (\<lambda>exc. ManifestError (msg [''invalid protected-environment-review artifact '', path_str artifact_path, '': '', exn_str exc]))
                (validate_proof_pr env artifact_path DEFAULT_SCHEMA_pr)
            else Inr ())
       (reject_claims tools env artifact_path role))"

definition REF_SLOTS :: "string list" where
  "REF_SLOTS = [''matrix_manifest'', ''daemon_events'', ''bpf_metadata_or_skip'', ''runner_substrate'', ''runner_cleanliness'']"

definition validate_vm_marker_em :: "json \<Rightarrow> string \<Rightarrow> check" where
  "validate_vm_marker_em v outcome =
     (case obj_of v of
        None \<Rightarrow> Inl (ManifestError ''vm_marker must be an object'')
      | Some marker \<Rightarrow>
          (thenE (only_fields_em marker MARKER_FIELDS ''vm_marker'') (
            thenE (require_em (jget marker ''path'' = JStr VM_MARKER_em) ''VM marker path is invalid'') (
            thenE (require_em (is_bool (jget marker ''present'')) ''vm_marker.present must be a boolean'') (
            (if outcome = ''PASS'' then require_em (jget marker ''present'' = JBool True) ''VM marker proof is missing'' else Inr ()))))))"

definition manifest_artifacts :: "env \<Rightarrow> json_object \<Rightarrow> (path \<times> string) list result" where
  "manifest_artifacts env data =
     (bindE (mapE (\<lambda>field. ref_artifact env (jget data field) field) REF_SLOTS) (\<lambda>slots.
     thenE (require_em (\<exists>role \<in> set (map snd slots). role \<in> set BPF_ROLES) ''BPF metadata or SKIP JSON role is required'') (
     (case jget data ''artifacts'' of
         JList (item # items) \<Rightarrow>
         (bindE (mapE (\<lambda>(index, item). ref_artifact env item (msg [''artifacts['', show_nat index, '']''])) (enumerate_from 0 (item # items))) (\<lambda>listed.
         (let missing = sorted_diff REQUIRED_ROLES (map snd (slots @ listed)) in
         thenE (require_em (missing = []) (''missing required artifact role(s): '' @ join '', '' missing)) (
         Inr (slots @ listed)))))
         | _ \<Rightarrow> Inl (ManifestError ''artifacts must be a non-empty list'')))))"

definition validate_manifest_em :: "manifest_tools \<Rightarrow> env \<Rightarrow> path \<Rightarrow> path \<Rightarrow> path \<Rightarrow> check" where
  "validate_manifest_em tools env path schema_path source_root =
     (bindE (load_json_em env schema_path) (\<lambda>schema.
     thenE (require_em (jget schema ''$id'' = JStr SCHEMA_em) ''evidence manifest schema $id mismatch'') (
     bindE (load_json_em env path) (\<lambda>data.
     thenE (only_fields_em data FIELDS_em (path_str path)) (
     thenE (require_em (jget data ''schema'' = JStr SCHEMA_em) ''unsupported evidence manifest schema'') (
     bindE (text_em (jget data ''outcome'') ''outcome'') (\<lambda>outcome.
     thenE (require_em (outcome \<in> set OUTCOMES_em) ''outcome is unsupported'') (
     thenE (require_em (jget data ''host_mutation'' = JBool False) ''manifest.host_mutation must be false'') (
     thenE (require_em (jget data ''release_eligible'' = JBool False) ''manifest.release_eligible must be false'') (
     thenE (require_em (jget data ''production_capacity_claim'' = JBool False) ''manifest.production_capacity_claim must be false'') (
     bindE (text_em (jget data ''audit_id'') ''audit_id'') (\<lambda>audit_id.
     thenE (require_em (re_fullmatch AUDIT_RE_em audit_id) ''audit_id is malformed'') (
     bindE (text_em (jget data ''rollback_id'') ''rollback_id'') (\<lambda>rollback_id.
     thenE (require_em (re_fullmatch ROLLBACK_RE rollback_id) ''rollback_id is malformed'') (
     bindE (text_em (jget data ''supported_tuple'') ''supported_tuple'') (\<lambda>supported_tuple.
     thenE (require_em (re_fullgroups TUPLE_RE_em supported_tuple \<noteq> None) ''supported_tuple is unsupported'') (
     thenE (validate_vm_marker_em (jget data ''vm_marker'') outcome) (
     bindE (manifest_artifacts env data) (\<lambda>artifact_paths.
     bindE (benchmark_artifacts env (jget data ''benchmark_provenance'') outcome) (\<lambda>benchmark_paths.
     thenE (validate_privacy_em (jget data ''privacy_scan'')) (
     thenE (validate_attestation_em (jget data ''attestation'')) (
     thenE (tracked_sources tools (jget data ''required_sources'') source_root) (
     forE (check_artifact tools env) (artifact_paths @ benchmark_paths))))))))))))))))))))))))"

text \<open>The self-test runs another script; its exit status, or the exception when it cannot be started, is a parameter.\<close>

definition self_test_em :: "int result \<Rightarrow> check" where
  "self_test_em script =
     bindE script (\<lambda>returncode.
       raise_if (returncode \<noteq> 0) (ManifestError (msg [''evidence manifest self-test failed with rc='', show_int returncode])))"

text \<open>\<^verbatim>\<open>main\<close>: the last line printed and the exit status.\<close>

definition main_em :: "int result \<Rightarrow> manifest_tools \<Rightarrow> env \<Rightarrow> path \<Rightarrow> string list \<Rightarrow> (string \<times> int) result" where
  "main_em script tools env cwd argv =
     (let outcome =
        (bindE (parse_args_em cwd argv) (\<lambda>args.
          (if em_self_test args then thenE (self_test_em script) (Inr [])
              else (case em_manifest args of
              None \<Rightarrow> Inr []
              | Some p \<Rightarrow> thenE (validate_manifest_em tools env p (em_schema args) (em_source_root args)) (Inr (msg [''PASS evidence manifest: '', path_str p]))))))
      in case outcome of
           Inr line \<Rightarrow> Inr (line, 0)
         | Inl e \<Rightarrow> if is_ManifestError e then Inr ((msg [''FAIL evidence manifest: '', exn_str e]), 1) else Inl e)"

section \<open>References, readers and the scan for claims\<close>

lemma require_em_ok_iff [ok_iff]: "require_em c m = Inr u \<longleftrightarrow> c"
  by (simp add: require_em_def ok_iff)

interpretation em_text: value_reader text_em text_of ManifestError
  by unfold_locales (auto simp: text_em_def split: option.splits)

lemma only_fields_em_ok_iff [ok_iff]: "only_fields_em d allowed c = Inr u \<longleftrightarrow> set (keys d) \<subseteq> set allowed"
  by (simp add: only_fields_em_def Let_def ok_iff)

definition safe_path_of :: "json \<Rightarrow> path option" where
  "safe_path_of v = (case text_of v of None \<Rightarrow> None | Some s \<Rightarrow> if safe_path (mk_path s) then Some (mk_path s) else None)"

interpretation em_path: value_reader safe_path_em safe_path_of ManifestError
proof
  show "safe_path_em v c = Inr p \<longleftrightarrow> safe_path_of v = Some p" for v c p
    by (auto simp: safe_path_em_def Let_def ok_iff safe_path_of_def safe_path_def split: option.splits)
  show "\<exists>m. e = ManifestError m" if "safe_path_em v c = Inl e" for v c e
    using that by (auto simp: safe_path_em_def Let_def err_iff require_em_def dest: em_text.read_err)
qed

lemma safe_path_of_iff: "safe_path_of v = Some p \<longleftrightarrow> (\<exists>s. v = JStr s \<and> s \<noteq> [] \<and> p = mk_path s \<and> safe_path p)"
  by (auto simp: safe_path_of_def text_of_iff split: option.splits)

lemma load_json_em_ok_iff:
  "load_json_em env p = Inr d \<longleftrightarrow> (\<exists>s. fs_read_text env p = Inr s \<and> json_decode env s = Decoded (JObj d))"
  by (auto simp: load_json_em_def ok_iff obj_of_iff split: option.splits)

lemma SHA_RE_em_iff: "re_fullmatch SHA_RE_em s \<longleftrightarrow> length s = 64 \<and> list_all is_hex_char s"
  by (auto simp: SHA_RE_em_def re_fullmatch_anchored_class)

lemma TUPLE_RE_em_iff: "re_fullgroups TUPLE_RE_em s \<noteq> None \<longleftrightarrow> (\<exists>rel. supported_release rel \<and> s = tuple_of rel)"
proof -
  have "TUPLE_RE_em = TUPLE_RE" by (simp add: TUPLE_RE_em_def TUPLE_RE_def Let_def)
  then show ?thesis using TUPLE_RE_groups[of s] by (metis not_Some_eq)
qed

text \<open>A reference to a file below the working directory, with the hash that the file has.\<close>

definition hashed_artifact :: "env \<Rightarrow> json \<Rightarrow> path \<times> string \<Rightarrow> bool" where
  "hashed_artifact env v = (\<lambda>(p, role). \<exists>row digest. v = JObj row \<and> set (keys row) \<subseteq> set REF_FIELDS_em \<and>
     safe_path_of (jget row ''path'') = Some p \<and> jget row ''sha256'' = JStr digest \<and> length digest = 64 \<and> list_all is_hex_char digest \<and>
     fs_sha256 env p = Inr digest \<and> jget row ''schema_role'' = JStr role \<and> role \<noteq> [])"

lemma validate_ref_em_ok_iff: "validate_ref_em env v c = Inr role \<longleftrightarrow> (\<exists>p. hashed_artifact env v (p, role))"
proof (cases v)
  case (JObj row)
  have nonempty: "s \<noteq> []" if "length s = 64" for s :: string using that by auto
  show ?thesis
    unfolding JObj validate_ref_em_def hashed_artifact_def obj_of.simps option.case bindE_ok_iff thenE_ok_iff require_em_ok_iff em_text.read_ok
      em_path.read_ok only_fields_em_ok_iff SHA_RE_em_iff file_sha_em_def reraise_ok_iff text_of_iff case_prod_conv json.inject
    using nonempty by blast
qed (simp_all add: validate_ref_em_def hashed_artifact_def)

lemma ref_artifact_ok_iff: "ref_artifact env v c = Inr a \<longleftrightarrow> hashed_artifact env v a"
proof -
  obtain p role where a: "a = (p, role)" by (cases a)
  have "hashed_artifact env v (p, role) \<Longrightarrow> hashed_artifact env v (q, role) \<Longrightarrow> p = q" for q
    by (auto simp: hashed_artifact_def)
  then show ?thesis unfolding a ref_artifact_def bindE_ok_iff validate_ref_em_ok_iff
    by (cases v) (auto simp: hashed_artifact_def em_path.read_ok)
qed

fun node_ok_em :: "string \<Rightarrow> string \<Rightarrow> json \<Rightarrow> bool" where
  "node_ok_em role c (JObj d) \<longleftrightarrow>
     (\<forall>(k, v) \<in> set d. (private_key_is_safe k role \<or> \<not> private_key_has_pattern k FORBIDDEN_PRIVATE_KEY_PATTERNS) \<and>
        (k \<in> {''host_mutation'', ''release_eligible'', ''production_capacity_claim''} \<longrightarrow> v = JBool False))"
| "node_ok_em role c (JStr s) \<longleftrightarrow> \<not> private_text_contains s"
| "node_ok_em role c _ \<longleftrightarrow> True"

lemma reject_private_text_ok_iff [ok_iff]: "reject_private_text s c = Inr u \<longleftrightarrow> \<not> private_text_contains s"
  by (simp add: reject_private_text_def ok_iff)

interpretation em_scan: context_free_scanner "reject_claim_value role" "node_ok_em role" for role
proof
  fix v c
  show "reject_claim_value role v c = Inr () \<longleftrightarrow>
      node_ok_em role c v \<and> (\<forall>(c', v') \<in> set (children c v). reject_claim_value role v' c' = Inr ())"
  proof (cases v)
    case (JObj d)
    have entry: "thenE (raise_if (\<not> s \<and> q) e) (thenE (if k = ''host_mutation'' then require_em b m else Inr ())
        (thenE (if k \<in> {''release_eligible'', ''production_capacity_claim''} then require_em b m' else Inr ()) r)) = Inr () \<longleftrightarrow>
        (s \<or> \<not> q) \<and> (k \<in> {''host_mutation'', ''release_eligible'', ''production_capacity_claim''} \<longrightarrow> b) \<and> r = Inr ()"
      for s q e k b m m' and r :: check
      unfolding thenE_ok_iff raise_if_ok_iff guarded_ok_iff require_em_ok_iff by blast
    have scan: "reject_claim_value role (JObj d) c = Inr () \<longleftrightarrow>
        (\<forall>(k, w) \<in> set d. ((private_key_is_safe k role \<or> \<not> private_key_has_pattern k FORBIDDEN_PRIVATE_KEY_PATTERNS) \<and>
          (k \<in> {''host_mutation'', ''release_eligible'', ''production_capacity_claim''} \<longrightarrow> w = JBool False)) \<and>
          reject_claim_value role w (msg [c, ''.'', k]) = Inr ())"
      unfolding reject_claim_value.simps forE_ok_iff case_prod_ok_iff entry conj_assoc ..
    have split: "(\<forall>(k, w) \<in> set d. P k w \<and> R w (g k)) \<longleftrightarrow> (\<forall>(k, w) \<in> set d. P k w) \<and> (\<forall>(c', w) \<in> set (map (\<lambda>(k, w). (g k, w)) d). R w c')"
      for P R and g :: "string \<Rightarrow> string" by auto
    show ?thesis unfolding JObj node_ok_em.simps children.simps obj_children_def scan by (rule split)
  qed (auto simp: ok_iff list_children_def reject_claim_value.simps)
  fix c' show "node_ok_em role c v = node_ok_em role c' v" by (cases v) auto
qed

text \<open>Nothing private and no claim at any depth.\<close>

definition claim_free :: "string \<Rightarrow> json \<Rightarrow> bool" where
  "claim_free role v \<longleftrightarrow> (\<forall>(c, w) \<in> set (nodes [] v). node_ok_em role c w)"

lemma reject_claim_value_ok_iff: "reject_claim_value role v c = Inr () \<longleftrightarrow> claim_free role v"
  unfolding claim_free_def using em_scan.scan_context[of role v c "[]"] em_scan.scan_ok_iff[of role v "[]"] by blast

section \<open>What acceptance means\<close>

text \<open>What the look into an artifact finds, by the suffix of its name.\<close>

definition scanned_text :: "manifest_tools \<Rightarrow> env \<Rightarrow> path \<Rightarrow> bool" where
  "scanned_text tools env p \<longleftrightarrow>
     (\<exists>raw content. bytes_of tools env p = Inr raw \<and> length raw \<le> MAX_TEXT_ARTIFACT_BYTES \<and> decode_utf8 tools raw = Inr content \<and>
        \<not> private_text_contains content)"

definition artifact_clean :: "manifest_tools \<Rightarrow> env \<Rightarrow> path \<Rightarrow> string \<Rightarrow> bool" where
  "artifact_clean tools env p role \<longleftrightarrow>
     (if path_suffix p = ''.json'' then \<exists>d. load_json_em env p = Inr d \<and> claim_free role (JObj d)
      else if path_suffix p = ''.jsonl'' then
        \<exists>content. fs_read_text env p = Inr content \<and>
          (\<forall>line \<in> set (splitlines content). strip line \<noteq> [] \<longrightarrow> (\<exists>v. json_decode env line = Decoded v \<and> claim_free role v))
      else role \<in> set TEXT_ARTIFACT_ROLES \<or> path_suffix p \<in> set TEXT_ARTIFACT_SUFFIXES \<longrightarrow> scanned_text tools env p)"

lemma reject_text_artifact_ok_iff:
  "reject_text_artifact tools env p role = Inr u \<longleftrightarrow>
     (role \<in> set TEXT_ARTIFACT_ROLES \<or> path_suffix p \<in> set TEXT_ARTIFACT_SUFFIXES \<longrightarrow> scanned_text tools env p)"
  by (auto simp: reject_text_artifact_def scanned_text_def ok_iff)

lemma reject_claim_line_ok_iff:
  "reject_claim_line env p role n line = Inr u \<longleftrightarrow>
     (strip line \<noteq> [] \<longrightarrow> (\<exists>v. json_decode env line = Decoded v \<and> claim_free role v))"
  by (simp add: reject_claim_line_def ok_iff reject_claim_value_ok_iff)

lemma reject_claims_ok_iff: "reject_claims tools env p role = Inr u \<longleftrightarrow> artifact_clean tools env p role"
proof -
  have lines: "forE (\<lambda>(line_no, line). reject_claim_line env p role line_no line) (enumerate_from 1 ls) = Inr u \<longleftrightarrow>
      (\<forall>line \<in> set ls. strip line \<noteq> [] \<longrightarrow> (\<exists>v. json_decode env line = Decoded v \<and> claim_free role v))" for ls
    by (rule forE_enumerate_ok_iff) (simp add: reject_claim_line_ok_iff)
  show ?thesis unfolding reject_claims_def artifact_clean_def if_ok_iff bindE_ok_iff lines reject_text_artifact_ok_iff
    by (simp add: reject_claim_value_ok_iff)
qed

lemma check_artifact_ok_iff:
  "check_artifact tools env (p, role) = Inr u \<longleftrightarrow>
     (role = PROTECTED_REVIEW_ROLE_em \<longrightarrow> validate_proof_pr env p DEFAULT_SCHEMA_pr = Inr ()) \<and> artifact_clean tools env p role"
  unfolding check_artifact_def case_prod_conv thenE_ok_iff guarded_ok_iff reraise_ok_iff reject_claims_ok_iff by simp

definition marker_ok :: "json \<Rightarrow> string \<Rightarrow> bool" where
  "marker_ok v outcome \<longleftrightarrow>
     (\<exists>marker b. v = JObj marker \<and> set (keys marker) \<subseteq> set MARKER_FIELDS \<and> jget marker ''path'' = JStr VM_MARKER_em \<and>
        jget marker ''present'' = JBool b \<and> (outcome = ''PASS'' \<longrightarrow> b))"

lemma validate_vm_marker_em_ok_iff: "validate_vm_marker_em v outcome = Inr u \<longleftrightarrow> marker_ok v outcome"
proof (cases v)
  case (JObj marker)
  then show ?thesis by (cases "jget marker ''present''") (auto simp: validate_vm_marker_em_def marker_ok_def ok_iff)
qed (simp_all add: validate_vm_marker_em_def marker_ok_def)

definition not_applicable :: "json_object \<Rightarrow> string \<Rightarrow> bool" where
  "not_applicable row outcome \<longleftrightarrow>
     set (keys row) \<subseteq> set BENCHMARK_NA_FIELDS \<and> jget row ''status'' = JStr ''not_applicable'' \<and>
     (\<exists>reason. jget row ''reason'' = JStr reason \<and> reason \<noteq> [] \<and> \<not> private_text_contains reason) \<and>
     (\<exists>outcomes. jget row ''applies_to_outcomes'' = JList (map JStr outcomes) \<and> set outcomes \<subseteq> set BENCHMARK_NA_OUTCOMES \<and>
        outcome \<in> set outcomes)"

lemma nonempty_list_case:
  "(case v of JList (x # xs) \<Rightarrow> f x xs | _ \<Rightarrow> Inl e) = Inr y \<longleftrightarrow> (\<exists>x xs. v = JList (x # xs) \<and> f x xs = Inr y)"
  by (auto split: json.splits list.splits)

lemma BENCHMARK_NA_OUTCOMES_texts: "[] \<notin> set BENCHMARK_NA_OUTCOMES"
  by (simp add: BENCHMARK_NA_OUTCOMES_def)

lemma validate_benchmark_not_applicable_ok_iff:
  "validate_benchmark_not_applicable row outcome = Inr u \<longleftrightarrow> not_applicable row outcome"
proof -
  have each: "forE (\<lambda>(i, item). bindE (text_em item (g i)) (\<lambda>v. require_em (v \<in> set BENCHMARK_NA_OUTCOMES) (h i))) (enumerate_from 0 vs) = Inr u \<longleftrightarrow>
      (\<exists>ss. vs = map JStr ss \<and> (\<forall>s \<in> set ss. s \<noteq> [] \<and> s \<in> set BENCHMARK_NA_OUTCOMES))" for g h vs u
    unfolding all_texts_iff[symmetric] by (rule forE_enumerate_ok_iff) (simp add: ok_iff em_text.read_ok)
  have outcomes: "(\<exists>x xs. v = JList (x # xs) \<and> (\<exists>ss. x # xs = map JStr ss \<and> (\<forall>s \<in> set ss. s \<noteq> [] \<and> s \<in> S)) \<and> JStr out \<in> set (x # xs)) \<longleftrightarrow>
      (\<exists>ss. v = JList (map JStr ss) \<and> set ss \<subseteq> S \<and> out \<in> set ss)" (is "?L \<longleftrightarrow> ?R") if "[] \<notin> S" for v S out
  proof
    assume ?L
    then show ?R by (metis (no_types, lifting) image_iff json.inject(4) list.set_map subsetI)
  next
    assume ?R
    then obtain ss where ss: "v = JList (map JStr ss)" "set ss \<subseteq> S" "out \<in> set ss" by blast
    then obtain x xs where "map JStr ss = x # xs" by (cases ss) auto
    moreover have "JStr out \<in> set (map JStr ss)" using ss(3) by simp
    ultimately show ?L using ss(1,2) that by (metis subset_iff)
  qed
  show ?thesis
    unfolding validate_benchmark_not_applicable_def bindE_ok_iff thenE_ok_iff require_em_ok_iff only_fields_em_ok_iff em_text.read_ok
      text_of_iff reject_private_text_ok_iff nonempty_list_case each outcomes[OF BENCHMARK_NA_OUTCOMES_texts] not_applicable_def
    by blast
qed

definition benchmarks_ok :: "env \<Rightarrow> json \<Rightarrow> string \<Rightarrow> (path \<times> string) list \<Rightarrow> bool" where
  "benchmarks_ok env v outcome bench \<longleftrightarrow>
     (\<exists>items. v = JList items \<and> items \<noteq> [] \<and> list_all2 (hashed_artifact env) items bench \<and> (\<forall>a \<in> set bench. snd a = ''benchmark-provenance'')) \<or>
     (\<exists>row. v = JObj row \<and> not_applicable row outcome \<and> bench = [])"

lemma benchmark_artifact_ok_iff:
  "benchmark_artifact env v c = Inr a \<longleftrightarrow> hashed_artifact env v a \<and> snd a = ''benchmark-provenance''"
  by (cases a) (auto simp: benchmark_artifact_def bindE_ok_iff ref_artifact_ok_iff thenE_ok_iff require_em_ok_iff)

lemma benchmark_artifacts_ok_iff: "benchmark_artifacts env v outcome = Inr bench \<longleftrightarrow> benchmarks_ok env v outcome bench"
proof -
  have items: "mapE (\<lambda>(i, item). benchmark_artifact env item (g i)) (enumerate_from 0 xs) = Inr bench \<longleftrightarrow>
      list_all2 (\<lambda>x a. hashed_artifact env x a \<and> snd a = ''benchmark-provenance'') xs bench" for g xs
    by (rule mapE_enumerate_ok_iff) (simp add: benchmark_artifact_ok_iff)
  have "list_all2 (\<lambda>x a. P x a \<and> Q a) xs ys \<longleftrightarrow> list_all2 P xs ys \<and> (\<forall>a \<in> set ys. Q a)" for P :: "json \<Rightarrow> path \<times> string \<Rightarrow> bool" and Q xs ys
    by (induction xs ys rule: list_induct2') auto
  then show ?thesis unfolding benchmark_artifacts_def benchmarks_ok_def
    by (cases v) (auto simp: thenE_ok_iff require_em_ok_iff items validate_benchmark_not_applicable_ok_iff)
qed

text \<open>The references of the five slots and of the list of artifacts.\<close>

definition manifest_refs :: "json_object \<Rightarrow> json list \<Rightarrow> bool" where
  "manifest_refs d refs \<longleftrightarrow> (\<exists>items. jget d ''artifacts'' = JList items \<and> items \<noteq> [] \<and> refs = map (jget d) REF_SLOTS @ items)"

definition roles_complete :: "(path \<times> string) list \<Rightarrow> bool" where
  "roles_complete arts \<longleftrightarrow> set REQUIRED_ROLES \<subseteq> snd ` set arts \<and> (\<exists>a \<in> set (take (length REF_SLOTS) arts). snd a \<in> set BPF_ROLES)"

lemma manifest_artifacts_ok_iff:
  "manifest_artifacts env d = Inr arts \<longleftrightarrow>
     (\<exists>refs. manifest_refs d refs \<and> list_all2 (hashed_artifact env) refs arts) \<and> roles_complete arts"
proof -
  have slots: "mapE (\<lambda>field. ref_artifact env (jget d field) field) REF_SLOTS = Inr slots \<longleftrightarrow>
      list_all2 (hashed_artifact env) (map (jget d) REF_SLOTS) slots" for slots
    by (simp add: mapE_ok_iff ref_artifact_ok_iff list_all2_map1)
  have items: "mapE (\<lambda>(i, item). ref_artifact env item (g i)) (enumerate_from 0 xs) = Inr ys \<longleftrightarrow> list_all2 (hashed_artifact env) xs ys" for g xs ys
    by (rule mapE_enumerate_ok_iff) (simp add: ref_artifact_ok_iff)
  have len: "take (length REF_SLOTS) (slots @ listed) = slots" if "list_all2 P (map f REF_SLOTS) slots" for P f and slots listed :: "(path \<times> string) list"
    using list_all2_lengthD[OF that] by simp
  have "manifest_artifacts env d = Inr arts \<longleftrightarrow>
      (\<exists>slots item items listed. list_all2 (hashed_artifact env) (map (jget d) REF_SLOTS) slots \<and> (\<exists>a \<in> set slots. snd a \<in> set BPF_ROLES) \<and>
         jget d ''artifacts'' = JList (item # items) \<and> list_all2 (hashed_artifact env) (item # items) listed \<and>
         set REQUIRED_ROLES \<subseteq> snd ` set (slots @ listed) \<and> arts = slots @ listed)"
    unfolding manifest_artifacts_def bindE_ok_iff thenE_ok_iff require_em_ok_iff nonempty_list_case Let_def items slots sorted_diff_empty_iff set_map bex_simps sum.inject
    by blast
  also have "\<dots> \<longleftrightarrow> (\<exists>refs. manifest_refs d refs \<and> list_all2 (hashed_artifact env) refs arts) \<and> roles_complete arts" (is "?L \<longleftrightarrow> ?R")
  proof
    assume ?L
    then show ?R unfolding manifest_refs_def roles_complete_def using len by (metis list.distinct(1) list_all2_appendI)
  next
    assume ?R
    then obtain items where items: "jget d ''artifacts'' = JList items" "items \<noteq> []" "list_all2 (hashed_artifact env) (map (jget d) REF_SLOTS @ items) arts"
      and roles: "roles_complete arts" unfolding manifest_refs_def by blast
    then obtain slots listed where "arts = slots @ listed" "list_all2 (hashed_artifact env) (map (jget d) REF_SLOTS) slots"
      "list_all2 (hashed_artifact env) items listed" by (auto simp: list_all2_append1)
    with items roles len show ?L unfolding roles_complete_def by (metis list.exhaust)
  qed
  finally show ?thesis .
qed

definition privacy_ok :: "json \<Rightarrow> bool" where
  "privacy_ok v \<longleftrightarrow>
     (\<exists>row paths. v = JObj row \<and> set (keys row) \<subseteq> set PRIVACY_FIELDS \<and> jget row ''status'' = JStr ''PASS'' \<and>
        jget row ''private_fields_found'' = JBool False \<and> jget row ''artifact_paths'' = JList (map JStr paths) \<and> paths \<noteq> [] \<and>
        (\<forall>p \<in> set paths. p \<noteq> [] \<and> \<not> private_text_contains p \<and> safe_path (mk_path p)))"

lemma nonempty_texts:
  "(\<exists>x xs. v = JList (x # xs) \<and> (\<exists>ss. x # xs = map JStr ss \<and> P ss)) \<longleftrightarrow> (\<exists>ss. v = JList (map JStr ss) \<and> ss \<noteq> [] \<and> P ss)"
  by (metis list.exhaust list.map_disc_iff list.distinct(1))

lemma validate_privacy_em_ok_iff: "validate_privacy_em v = Inr u \<longleftrightarrow> privacy_ok v"
proof -
  have each: "forE (\<lambda>(i, item). bindE (text_em item (g i)) (\<lambda>raw. thenE (reject_private_text raw (h i))
        (bindE (safe_path_em (JStr raw) (k i)) (\<lambda>_. Inr ())))) (enumerate_from 0 vs) = Inr u \<longleftrightarrow>
      (\<exists>ss. vs = map JStr ss \<and> (\<forall>s \<in> set ss. s \<noteq> [] \<and> \<not> private_text_contains s \<and> safe_path (mk_path s)))" for g h k vs
    unfolding all_texts_iff[symmetric]
    by (rule forE_enumerate_ok_iff) (auto simp: ok_iff em_text.read_ok em_path.read_ok safe_path_of_iff text_of_iff)
  show ?thesis unfolding validate_privacy_em_def privacy_ok_def case_option_Inl obj_of_iff thenE_ok_iff only_fields_em_ok_iff require_em_ok_iff
      nonempty_list_case each nonempty_texts by blast
qed

definition attestation_ok :: "json \<Rightarrow> bool" where
  "attestation_ok v \<longleftrightarrow>
     (\<exists>row status uses verify n. v = JObj row \<and> set (keys row) \<subseteq> set ATTEST_FIELDS_em \<and> jget row ''status'' = JStr status \<and>
        status \<in> set ATTEST_STATUSES \<and> jget row ''workflow_uses'' = JStr uses \<and> contains ''actions/attest-build-provenance'' uses \<and>
        jget row ''verify_command'' = JStr verify \<and> contains ''gh attestation verify'' verify \<and>
        int_of (jget row ''retention_days'') = Some n \<and> 0 < n)"

lemma attestation_texts:
  "s \<in> set ATTEST_STATUSES \<Longrightarrow> s \<noteq> []" "contains ''actions/attest-build-provenance'' s \<Longrightarrow> s \<noteq> []" "contains ''gh attestation verify'' s \<Longrightarrow> s \<noteq> []"
  by (auto simp: ATTEST_STATUSES_def)

lemma validate_attestation_em_ok_iff: "validate_attestation_em v = Inr u \<longleftrightarrow> attestation_ok v"
proof -
  have "validate_attestation_em v = Inr u \<longleftrightarrow>
      (\<exists>row. v = JObj row \<and> set (keys row) \<subseteq> set ATTEST_FIELDS_em \<and>
         (\<exists>status. (jget row ''status'' = JStr status \<and> status \<noteq> []) \<and> status \<in> set ATTEST_STATUSES \<and>
         (\<exists>uses. (jget row ''workflow_uses'' = JStr uses \<and> uses \<noteq> []) \<and> contains ''actions/attest-build-provenance'' uses \<and>
         (\<exists>verify. (jget row ''verify_command'' = JStr verify \<and> verify \<noteq> []) \<and> contains ''gh attestation verify'' verify \<and>
         (\<exists>n. int_of (jget row ''retention_days'') = Some n \<and> \<not> n \<le> 0)))))"
    unfolding validate_attestation_em_def case_option_Inl obj_of_iff thenE_ok_iff bindE_ok_iff only_fields_em_ok_iff require_em_ok_iff
      em_text.read_ok text_of_iff raise_if_ok_iff ..
  also have "\<dots> \<longleftrightarrow> attestation_ok v" unfolding attestation_ok_def not_le using attestation_texts by blast
  finally show ?thesis .
qed

definition sources_tracked :: "manifest_tools \<Rightarrow> json \<Rightarrow> path \<Rightarrow> bool" where
  "sources_tracked tools v source_root \<longleftrightarrow>
     (\<exists>paths out err. v = JList (map JStr paths) \<and> paths \<noteq> [] \<and> ls_files tools (path_str source_root) = Inr (0, out, err) \<and>
        (\<forall>p \<in> set paths. p \<noteq> [] \<and> safe_path (mk_path p) \<and> path_str (mk_path p) \<in> set (splitlines out)))"

lemma tracked_sources_ok_iff: "tracked_sources tools v source_root = Inr u \<longleftrightarrow> sources_tracked tools v source_root"
proof -
  have each: "forE (\<lambda>(i, item). bindE (safe_path_em item (g i)) (\<lambda>p. require_em (path_str p \<in> S) (h i p))) (enumerate_from 0 vs) = Inr u \<longleftrightarrow>
      (\<exists>ss. vs = map JStr ss \<and> (\<forall>s \<in> set ss. s \<noteq> [] \<and> safe_path (mk_path s) \<and> path_str (mk_path s) \<in> S))" for g h vs S
    unfolding all_texts_iff[symmetric]
    by (rule forE_enumerate_ok_iff) (auto simp: ok_iff em_path.read_ok safe_path_of_iff text_of_iff)
  have swap: "(\<exists>x xs. A x xs \<and> (\<exists>n out err. L = Inr (n, out, err) \<and> n = 0 \<and> E x xs out)) \<longleftrightarrow>
      (\<exists>out err. L = Inr (0, out, err) \<and> (\<exists>x xs. A x xs \<and> E x xs out))"
    for A :: "json \<Rightarrow> json list \<Rightarrow> bool" and L :: "(int \<times> string \<times> string) result" and E by blast
  have "tracked_sources tools v source_root = Inr u \<longleftrightarrow>
      (\<exists>out err. ls_files tools (path_str source_root) = Inr (0, out, err) \<and>
         (\<exists>x xs. v = JList (x # xs) \<and> (\<exists>ss. x # xs = map JStr ss \<and>
            (\<forall>s \<in> set ss. s \<noteq> [] \<and> safe_path (mk_path s) \<and> path_str (mk_path s) \<in> set (splitlines out)))))"
    unfolding tracked_sources_def nonempty_list_case bindE_ok_iff split_paired_Ex case_prod_conv thenE_ok_iff raise_if_ok_iff not_not each
    by (rule swap)
  then show ?thesis unfolding nonempty_texts sources_tracked_def by blast
qed

definition manifest_head :: "json_object \<Rightarrow> string \<Rightarrow> bool" where
  "manifest_head d outcome \<longleftrightarrow>
     set (keys d) \<subseteq> set FIELDS_em \<and> jget d ''schema'' = JStr SCHEMA_em \<and> jget d ''outcome'' = JStr outcome \<and> outcome \<in> set OUTCOMES_em \<and>
     (\<forall>f \<in> {''host_mutation'', ''release_eligible'', ''production_capacity_claim''}. jget d f = JBool False) \<and>
     (\<exists>s. jget d ''audit_id'' = JStr s \<and> re_fullmatch AUDIT_RE_em s) \<and> (\<exists>s. jget d ''rollback_id'' = JStr s \<and> re_fullmatch ROLLBACK_RE s) \<and>
     (\<exists>rel. jget d ''supported_tuple'' = JStr (tuple_of rel) \<and> supported_release rel)"

text \<open>Every listed artifact is clean, and one that is given as the review fulfils the contract of \<open>ProtectedReview\<close>.\<close>

definition artifacts_checked :: "manifest_tools \<Rightarrow> env \<Rightarrow> (path \<times> string) list \<Rightarrow> bool" where
  "artifacts_checked tools env arts \<longleftrightarrow>
     (\<forall>(p, role) \<in> set arts. artifact_clean tools env p role \<and>
        (role = PROTECTED_REVIEW_ROLE_em \<longrightarrow> validate_proof_pr env p DEFAULT_SCHEMA_pr = Inr ()))"

definition manifest_contract :: "manifest_tools \<Rightarrow> env \<Rightarrow> path \<Rightarrow> json_object \<Rightarrow> bool" where
  "manifest_contract tools env source_root d \<longleftrightarrow>
     (\<exists>outcome refs arts bench. manifest_head d outcome \<and> marker_ok (jget d ''vm_marker'') outcome \<and>
        manifest_refs d refs \<and> list_all2 (hashed_artifact env) refs arts \<and> roles_complete arts \<and>
        benchmarks_ok env (jget d ''benchmark_provenance'') outcome bench \<and>
        privacy_ok (jget d ''privacy_scan'') \<and> attestation_ok (jget d ''attestation'') \<and>
        sources_tracked tools (jget d ''required_sources'') source_root \<and> artifacts_checked tools env (arts @ bench))"

lemma identifier_texts: "\<not> re_fullmatch AUDIT_RE_em []" "\<not> re_fullmatch ROLLBACK_RE []" "[] \<notin> set OUTCOMES_em" "tuple_of rel \<noteq> []"
  by (code_simp, code_simp, simp_all add: OUTCOMES_em_def tuple_of_def)

lemma checked_artifacts_ok_iff: "forE (check_artifact tools env) arts = Inr u \<longleftrightarrow> artifacts_checked tools env arts"
proof -
  have "check_artifact tools env a = Inr () \<longleftrightarrow> (case a of (p, role) \<Rightarrow> artifact_clean tools env p role \<and>
      (role = PROTECTED_REVIEW_ROLE_em \<longrightarrow> validate_proof_pr env p DEFAULT_SCHEMA_pr = Inr ()))" for a
    by (cases a) (simp add: check_artifact_ok_iff conj_commute)
  then show ?thesis by (simp add: forE_ok_iff artifacts_checked_def)
qed

lemma text_field_iff: "\<not> P [] \<Longrightarrow> (\<exists>s. text_of v = Some s \<and> P s \<and> R) \<longleftrightarrow> (\<exists>s. v = JStr s \<and> P s) \<and> R"
  by (auto simp: text_of_iff)

lemma validate_manifest_em_ok_iff:
  "validate_manifest_em tools env path schema_path source_root = Inr () \<longleftrightarrow>
     (\<exists>schema. load_json_em env schema_path = Inr schema \<and> jget schema ''$id'' = JStr SCHEMA_em) \<and>
     (\<exists>d. load_json_em env path = Inr d \<and> manifest_contract tools env source_root d)"
proof -
  have tuple: "(\<exists>s. text_of v = Some s \<and> (\<exists>rel. supported_release rel \<and> s = tuple_of rel) \<and> R) \<longleftrightarrow>
      (\<exists>rel. v = JStr (tuple_of rel) \<and> supported_release rel) \<and> R" for v R
    using identifier_texts(4) by (auto simp: text_of_iff)
  have out: "(\<exists>s. text_of v = Some s \<and> s \<in> set OUTCOMES_em \<and> R s) \<longleftrightarrow> (\<exists>s. v = JStr s \<and> s \<in> set OUTCOMES_em \<and> R s)" for v R
    using identifier_texts(3) by (auto simp: text_of_iff)
  show ?thesis
    unfolding validate_manifest_em_def bindE_ok_iff thenE_ok_iff require_em_ok_iff only_fields_em_ok_iff em_text.read_ok TUPLE_RE_em_iff
      validate_vm_marker_em_ok_iff manifest_artifacts_ok_iff benchmark_artifacts_ok_iff validate_privacy_em_ok_iff validate_attestation_em_ok_iff
      tracked_sources_ok_iff checked_artifacts_ok_iff text_field_iff[where P = "re_fullmatch AUDIT_RE_em", OF identifier_texts(1)] text_field_iff[where P = "re_fullmatch ROLLBACK_RE", OF identifier_texts(2)] tuple out
      manifest_contract_def manifest_head_def
    by (simp only: ball_simps) blast
qed

text \<open>
  What the schema file \<^verbatim>\<open>evidence-manifest.v1.schema.json\<close> demands of a manifest beyond the contract: the marker names who
  checked it, the kernel tuple is not the second build of 7.1, the days of retention are a number and not a boolean, every
  reference has one of the schema's roles, and paths are of one line. The check does not look at these.
\<close>

definition SCHEMA_ROLES :: "string list" where
  "SCHEMA_ROLES = REQUIRED_ROLES @ BPF_ROLES @ [''benchmark-provenance'', ''daemon-events'', ''matrix-manifest'']"

definition one_line_em :: "json \<Rightarrow> bool" where
  "one_line_em v \<longleftrightarrow> (\<exists>s. v = JStr s \<and> CHR 0x0A \<notin> set s \<and> CHR 0x0D \<notin> set s)"

definition schema_ref :: "json \<Rightarrow> bool" where
  "schema_ref v \<longleftrightarrow> (\<exists>row. v = JObj row \<and> one_line_em (jget row ''path'') \<and> jget row ''schema_role'' \<in> JStr ` set SCHEMA_ROLES)"

definition schema_demands_em :: "json_object \<Rightarrow> bool" where
  "schema_demands_em d \<longleftrightarrow>
     (\<exists>marker. jget d ''vm_marker'' = JObj marker \<and> text_of (jget marker ''checked_by'') \<noteq> None) \<and>
     jget d ''supported_tuple'' \<noteq> JStr (tuple_of ''7.1.2-3-cachyos'') \<and>
     (\<exists>row n. jget d ''attestation'' = JObj row \<and> jget row ''retention_days'' = JInt n) \<and>
     (\<forall>f \<in> set REF_SLOTS. schema_ref (jget d f)) \<and>
     (\<forall>f \<in> {''artifacts'', ''benchmark_provenance''}. \<forall>items. jget d f = JList items \<longrightarrow> list_all schema_ref items) \<and>
     (\<exists>row paths sources. jget d ''privacy_scan'' = JObj row \<and> jget row ''artifact_paths'' = JList paths \<and> list_all one_line_em paths \<and>
        jget d ''required_sources'' = JList sources \<and> list_all one_line_em sources)"

text \<open>C5: what the check accepts fulfils the manifest's contract, and it accepts every manifest that fulfils the
  contract and the further demands of the schema file, provided that the schema file it is given carries the manifest's identifier; on
  manifests that miss only these demands the check is more liberal than the schema file, and the property says nothing about their
  acceptance. The contract: a supported kernel tuple, well-formed identifiers and no claim; for a pass, the marker of the
  machine and, since only the other outcomes may do without, benchmark records; every reference hash-matched, all required roles present; the
  sources tracked by \<^verbatim>\<open>git\<close>; in no JSON artifact, at any depth, a claim or a private key or text; and
  an artifact given as the environment review accepted by the review's own checker.\<close>

theorem evidence_manifest_refines:
  "(validate_manifest_em tools env path schema_path source_root = Inr () \<longrightarrow>
     (\<exists>schema. load_json_em env schema_path = Inr schema \<and> jget schema ''$id'' = JStr SCHEMA_em) \<and>
     (\<exists>d. load_json_em env path = Inr d \<and> manifest_contract tools env source_root d)) \<and>
   ((\<exists>schema. load_json_em env schema_path = Inr schema \<and> jget schema ''$id'' = JStr SCHEMA_em) \<and>
     (\<exists>d. load_json_em env path = Inr d \<and> manifest_contract tools env source_root d \<and> schema_demands_em d) \<longrightarrow>
     validate_manifest_em tools env path schema_path source_root = Inr ())"
  unfolding validate_manifest_em_ok_iff by blast

lemma not_applicable_outcome: "not_applicable row outcome \<Longrightarrow> outcome \<noteq> ''PASS''"
  by (auto simp: not_applicable_def BENCHMARK_NA_OUTCOMES_def)

lemma contract_outcome: "manifest_head d outcome \<Longrightarrow> jget d ''outcome'' = JStr s \<Longrightarrow> outcome = s"
  by (simp add: manifest_head_def)

text \<open>C6: a manifest that is accepted with the outcome \<^verbatim>\<open>PASS\<close> has seen the marker of the machine, lists
  benchmark records, each hash-matched, and refers to a hash-matched environment review that approves one run of one
  repository.\<close>

theorem pass_manifest_grounded:
  assumes "validate_manifest_em tools env path schema_path source_root = Inr ()" and "load_json_em env path = Inr d" and "jget d ''outcome'' = JStr ''PASS''"
  shows "(\<exists>marker. jget d ''vm_marker'' = JObj marker \<and> jget marker ''path'' = JStr VM_MARKER_em \<and> jget marker ''present'' = JBool True) \<and>
    (\<exists>items. jget d ''benchmark_provenance'' = JList items \<and> items \<noteq> [] \<and>
       (\<forall>item \<in> set items. \<exists>p. hashed_artifact env item (p, ''benchmark-provenance''))) \<and>
    (\<exists>ref p review. hashed_artifact env ref (p, PROTECTED_REVIEW_ROLE_em) \<and> load_json_object_pr env p = Inr review \<and> review_contract review \<and>
       (\<exists>refs. manifest_refs d refs \<and> ref \<in> set refs))"
proof -
  obtain outcome refs arts bench where c: "manifest_head d outcome" "marker_ok (jget d ''vm_marker'') outcome" "manifest_refs d refs"
    "list_all2 (hashed_artifact env) refs arts" "roles_complete arts" "benchmarks_ok env (jget d ''benchmark_provenance'') outcome bench"
    "artifacts_checked tools env (arts @ bench)"
    using assms(1,2) unfolding validate_manifest_em_ok_iff manifest_contract_def by auto
  then have outcome: "outcome = ''PASS''" using assms(3) contract_outcome by blast
  have "PROTECTED_REVIEW_ROLE_em \<in> snd ` set arts" using c(5) by (auto simp: roles_complete_def REQUIRED_ROLES_def PROTECTED_REVIEW_ROLE_em_def)
  then obtain p where art: "(p, PROTECTED_REVIEW_ROLE_em) \<in> set arts" by auto
  then obtain ref where "ref \<in> set refs" "hashed_artifact env ref (p, PROTECTED_REVIEW_ROLE_em)" using list_all2_right[OF c(4)] by blast
  moreover have "validate_proof_pr env p DEFAULT_SCHEMA_pr = Inr ()" using c(7) art by (auto simp: artifacts_checked_def)
  ultimately have review: "\<exists>ref p review. hashed_artifact env ref (p, PROTECTED_REVIEW_ROLE_em) \<and> load_json_object_pr env p = Inr review \<and>
      review_contract review \<and> (\<exists>refs. manifest_refs d refs \<and> ref \<in> set refs)"
    using validate_proof_pr_ok c(3) by blast
  obtain items where items: "jget d ''benchmark_provenance'' = JList items" "items \<noteq> []" "list_all2 (hashed_artifact env) items bench"
    "\<forall>a \<in> set bench. snd a = ''benchmark-provenance''"
    using c(6) outcome not_applicable_outcome unfolding benchmarks_ok_def by blast
  have "\<exists>p. hashed_artifact env item (p, ''benchmark-provenance'')" if "item \<in> set items" for item
    using list_all2_left[OF items(3) that] items(4) by (metis prod.collapse)
  moreover have "\<exists>marker. jget d ''vm_marker'' = JObj marker \<and> jget marker ''path'' = JStr VM_MARKER_em \<and> jget marker ''present'' = JBool True"
    using c(2) outcome unfolding marker_ok_def by auto
  ultimately show ?thesis using items(1,2) review by blast
qed

section \<open>A run\<close>

definition em_ref :: "string \<Rightarrow> string \<Rightarrow> json" where
  "em_ref p role = JObj [(''path'', JStr p), (''sha256'', JStr (replicate 64 CHR ''a'')), (''schema_role'', JStr role)]"

definition em_doc :: json_object where
  "em_doc =
     [(''schema'', JStr SCHEMA_em), (''outcome'', JStr ''PASS''), (''audit_id'', JStr ''AUD-20260701T100000Z-a''), (''rollback_id'', JStr ''RB-1''),
      (''vm_marker'', JObj [(''path'', JStr VM_MARKER_em), (''present'', JBool True), (''checked_by'', JStr ''guest'')]),
      (''supported_tuple'', JStr (tuple_of ''6.12'')), (''bpf_metadata_or_skip'', em_ref ''d/a.json'' ''bpf-metadata''),
      (''matrix_manifest'', em_ref ''d/a.json'' ''matrix-row''), (''daemon_events'', em_ref ''d/a.json'' ''rollback-proof''),
      (''runner_substrate'', em_ref ''d/a.json'' ''runner-substrate-proof''),
      (''runner_cleanliness'', em_ref ''d/a.json'' ''runner-cleanliness-proof''),
      (''artifacts'', JList (em_ref ''d/review.json'' PROTECTED_REVIEW_ROLE_em #
         map (em_ref ''d/a.json'') [''cleanup-proof'', ''host-refusal-proof'', ''privacy-scan'', ''static-verification-log''])),
      (''benchmark_provenance'', JList [em_ref ''d/a.json'' ''benchmark-provenance'']),
      (''privacy_scan'', JObj [(''status'', JStr ''PASS''), (''private_fields_found'', JBool False), (''artifact_paths'', JList [JStr ''d/a.json''])]),
      (''attestation'', JObj [(''status'', JStr ''verified-by-operator''), (''workflow_uses'', JStr ''actions/attest-build-provenance''),
         (''verify_command'', JStr ''gh attestation verify''), (''retention_days'', JInt 30)]),
      (''required_sources'', JList [JStr ''build.zig'']), (''host_mutation'', JBool False), (''release_eligible'', JBool False),
      (''production_capacity_claim'', JBool False)]"

definition em_env :: env where
  "em_env = files_env
     [(''schemas/control/protected-environment-review.v1.schema.json'', ''SCHEMA''), (''d/review.json'', ''R''), (''d/a.json'', ''A''),
      (''m.json'', ''M''), (''s.json'', ''S'')]
     [(''d/review.json'', replicate 64 CHR ''a''), (''d/a.json'', replicate 64 CHR ''a'')]
     [(''SCHEMA'', JObj review_schema_doc), (''R'', JObj review_doc), (''A'', JObj []), (''M'', JObj em_doc), (''S'', JObj [(''$id'', JStr SCHEMA_em)])]"

definition em_tools :: manifest_tools where
  "em_tools = \<lparr> bytes_of = fs_read_text, decode_utf8 = Inr, ls_files = (\<lambda>_. Inr (0, ''build.zig'', [])) \<rparr>"

lemma em_env_accepted: "validate_manifest_em em_tools em_env (mk_path ''m.json'') (mk_path ''s.json'') (mk_path ''.'') = Inr ()"
  by code_simp

lemma em_doc_schema: "schema_demands_em em_doc"
proof -
  have "list_all schema_ref (map (jget em_doc) REF_SLOTS)"
    by (simp add: em_doc_def em_ref_def schema_ref_def one_line_em_def REF_SLOTS_def jget_def SCHEMA_ROLES_def REQUIRED_ROLES_def BPF_ROLES_def)
  moreover have "list_all schema_ref items" if "jget em_doc ''artifacts'' = JList items \<or> jget em_doc ''benchmark_provenance'' = JList items" for items
    using that by (auto simp: em_doc_def em_ref_def schema_ref_def one_line_em_def jget_def SCHEMA_ROLES_def REQUIRED_ROLES_def BPF_ROLES_def
        PROTECTED_REVIEW_ROLE_em_def)
  moreover have "jget em_doc ''supported_tuple'' \<noteq> JStr (tuple_of ''7.1.2-3-cachyos'')" by code_simp
  moreover have "\<exists>marker. jget em_doc ''vm_marker'' = JObj marker \<and> text_of (jget marker ''checked_by'') \<noteq> None"
    "\<exists>row n. jget em_doc ''attestation'' = JObj row \<and> jget row ''retention_days'' = JInt n"
    "\<exists>row paths sources. jget em_doc ''privacy_scan'' = JObj row \<and> jget row ''artifact_paths'' = JList paths \<and> list_all one_line_em paths \<and>
        jget em_doc ''required_sources'' = JList sources \<and> list_all one_line_em sources"
    by (simp_all add: em_doc_def jget_def one_line_em_def)
  ultimately show ?thesis unfolding schema_demands_em_def list.pred_map o_apply by (auto simp: list_all_iff)
qed

theorem evidence_manifest_refines_witness:
  "\<exists>d. load_json_em em_env (mk_path ''m.json'') = Inr d \<and> manifest_contract em_tools em_env (mk_path ''.'') d \<and> schema_demands_em d \<and>
     validate_manifest_em em_tools em_env (mk_path ''m.json'') (mk_path ''s.json'') (mk_path ''.'') = Inr ()"
proof -
  have "load_json_em em_env (mk_path ''m.json'') = Inr em_doc" by code_simp
  with evidence_manifest_refines[of em_tools em_env "mk_path ''m.json''" "mk_path ''s.json''" "mk_path ''.''"] em_env_accepted em_doc_schema
  show ?thesis by auto
qed

theorem pass_manifest_grounded_witness:
  "\<exists>ref p review. hashed_artifact em_env ref (p, PROTECTED_REVIEW_ROLE_em) \<and> load_json_object_pr em_env p = Inr review \<and> review_contract review"
proof -
  have "load_json_em em_env (mk_path ''m.json'') = Inr em_doc" "jget em_doc ''outcome'' = JStr ''PASS''" by code_simp+
  from pass_manifest_grounded[OF em_env_accepted this] show ?thesis by blast
qed

text \<open>
  Where the check is looser than the schema file of the manifest: the marker may come without \<^verbatim>\<open>checked_by\<close>, the
  kernel tuple may be the second build of 7.1, and a boolean passes for the number of days.
\<close>

theorem marker_without_checker:
  "validate_vm_marker_em (JObj [(''path'', JStr VM_MARKER_em), (''present'', JBool True)]) outcome = Inr ()"
  by (auto simp: validate_vm_marker_em_ok_iff marker_ok_def MARKER_FIELDS_def jget_def)

theorem second_cachyos_build_supported: "re_fullgroups TUPLE_RE_em (tuple_of ''7.1.2-3-cachyos'') \<noteq> None"
  unfolding TUPLE_RE_em_iff by (auto simp: supported_release_def)

text \<open>An artifact whose role and suffix are not those of a text or of JSON is not looked into.\<close>

theorem other_artifact_unscanned:
  "path_suffix p \<notin> {''.json'', ''.jsonl''} \<union> set TEXT_ARTIFACT_SUFFIXES \<Longrightarrow> role \<notin> set TEXT_ARTIFACT_ROLES \<Longrightarrow>
     reject_claims tools env p role = Inr ()"
  by (simp add: reject_claims_ok_iff artifact_clean_def)

end
