(* ===== verification/LiveEvidence.thy ===== *)
theory LiveEvidence
  imports Readers
begin

text \<open>
  \<^verbatim>\<open>qa/live_lab_evidence_check.py\<close>: the journals and proofs of a live lab run, six document types selected by
  their schema. The four proofs pass a gate that only a marked QEMU machine can give; the two journals do not.
\<close>

section \<open>Model\<close>

definition ACTION_SCHEMA :: string where
  "ACTION_SCHEMA = ''zig-scheduler/action-journal/v1''"

definition EVENT_SCHEMA :: string where
  "EVENT_SCHEMA = ''zig-scheduler/daemon-event-journal/v1''"

definition TRANSCRIPT_SCHEMA :: string where
  "TRANSCRIPT_SCHEMA = ''zig-scheduler/vm-transcript-index/v1''"

definition ATTACH_SCHEMA :: string where
  "ATTACH_SCHEMA = ''zig-scheduler/live-attach-proof/v1''"

definition BEHAVIOR_SCHEMA :: string where
  "BEHAVIOR_SCHEMA = ''zig-scheduler/live-behavior-proof/v1''"

definition ROLLBACK_SCHEMA :: string where
  "ROLLBACK_SCHEMA = ''zig-scheduler/rollback-result/v1''"

definition VM_MARKER_le :: string where
  "VM_MARKER_le = ''/run/zig-scheduler-vm-lab.marker''"

definition LIVE_MODE_le :: string where
  "LIVE_MODE_le = ''vm-live''"

definition LIVE_VM_KIND_le :: string where
  "LIVE_VM_KIND_le = ''qemu-vm''"

definition EVIDENCE_MODES_le :: "string list" where
  "EVIDENCE_MODES_le = [''host-safe-surrogate'', ''vm-configured-skip'', LIVE_MODE_le]"

definition FORBIDDEN_KEYS_le :: "string list" where
  "FORBIDDEN_KEYS_le =
     [''cmdline'', ''command_line'', ''argv'', ''env'', ''environment'', ''raw_log'', ''private_log'', ''secret'', ''token'', ''hostname'']"

definition FORBIDDEN_TEXT_le :: "string list" where
  "FORBIDDEN_TEXT_le = [''--token'', ''password='', ''api_key='', ''AWS_SECRET'', ''BEGIN PRIVATE KEY'']"

definition parse_args_le :: "string list \<Rightarrow> (path option \<times> bool) result" where
  "parse_args_le argv =
     (if argv = [''--self-test''] then Inr (None, True)
      else if length argv = 2 \<and> argv ! 0 = ''--file'' then Inr (Some (mk_path (argv ! 1)), False)
      else Inl (LiveEvidenceError ''usage: live_lab_evidence_check.py --file <proof.json> | --self-test''))"

definition load_object_le :: "env \<Rightarrow> path \<Rightarrow> json_object result" where
  "load_object_le env path =
     (bindE (reraise is_JSONDecodeError (\<lambda>exc. LiveEvidenceError (msg [''invalid JSON in '', path_str path, '': '', exn_str exc]))
         (reraise is_FileNotFoundError (\<lambda>_. LiveEvidenceError (msg [''missing JSON file: '', path_str path]))
         (bindE (fs_read_text env path) (json_loads env)))) (\<lambda>raw.
     case obj_of raw of
         None \<Rightarrow> Inl (LiveEvidenceError (msg [path_str path, '' must contain a JSON object'']))
         | Some d \<Rightarrow> Inr d))"

definition require_string_le :: "json_object \<Rightarrow> string \<Rightarrow> string \<Rightarrow> string result" where
  "require_string_le data field context =
     (case text_of (jget data field) of
        None \<Rightarrow> Inl (LiveEvidenceError (msg [context, '' missing non-empty string field: '', field]))
      | Some s \<Rightarrow> Inr s)"

definition require_bool_le :: "json_object \<Rightarrow> string \<Rightarrow> string \<Rightarrow> bool result" where
  "require_bool_le data field context =
     (case bool_of (jget data field) of
        None \<Rightarrow> Inl (LiveEvidenceError (msg [context, '' missing bool field: '', field]))
      | Some b \<Rightarrow> Inr b)"

definition require_int_le :: "json_object \<Rightarrow> string \<Rightarrow> string \<Rightarrow> int result" where
  "require_int_le data field context =
     (case int_of (jget data field) of
        None \<Rightarrow> Inl (LiveEvidenceError (msg [context, '' missing integer field: '', field]))
      | Some n \<Rightarrow> Inr n)"

definition require_object_le :: "json_object \<Rightarrow> string \<Rightarrow> string \<Rightarrow> json_object result" where
  "require_object_le data field context =
     (case obj_of (jget data field) of
        None \<Rightarrow> Inl (LiveEvidenceError (msg [context, '' missing object field: '', field]))
      | Some d \<Rightarrow> Inr d)"

definition require_list_le :: "json_object \<Rightarrow> string \<Rightarrow> string \<Rightarrow> json list result" where
  "require_list_le data field context =
     (case list_of (jget data field) of
        None \<Rightarrow> Inl (LiveEvidenceError (msg [context, '' missing non-empty list field: '', field]))
      | Some xs \<Rightarrow>
          if length xs = 0 then Inl (LiveEvidenceError (msg [context, '' missing non-empty list field: '', field])) else Inr xs)"

text \<open>
  \<^verbatim>\<open>git rev-parse HEAD\<close> is a parameter: its return code and its output, or the exception when it cannot be
  started.
\<close>

type_synonym git_head = "(int \<times> string) result"

definition current_git_sha_le :: "git_head \<Rightarrow> string result" where
  "current_git_sha_le git =
     bindE git (\<lambda>(returncode, stdout).
       if returncode \<noteq> 0 then Inl (LiveEvidenceError ''cannot determine current git sha'') else Inr (strip stdout))"

fun reject_private_le :: "json \<Rightarrow> string \<Rightarrow> check" where
  "reject_private_le (JObj d) context =
     forE (\<lambda>(key, child).
       thenE (raise_if (lower key \<in> set FORBIDDEN_KEYS_le) (LiveEvidenceError (msg [''privacy-unsafe key in evidence: '', context, ''.'', key])))
         (reject_private_le child (msg [context, ''.'', key]))) d"
| "reject_private_le (JList xs) context =
     forE (\<lambda>(index, child). reject_private_le child (msg [context, ''['', show_nat index, '']''])) (enumerate_from 0 xs)"
| "reject_private_le (JStr s) context =
     forE (\<lambda>needle. raise_if (contains needle s) (LiveEvidenceError (msg [''privacy-unsafe text in evidence: '', context]))) FORBIDDEN_TEXT_le"
| "reject_private_le _ context = Inr ()"

declare reject_private_le.simps [simp del]

definition require_safe_relative_path :: "string \<Rightarrow> string \<Rightarrow> check" where
  "require_safe_relative_path raw context =
     (let path = mk_path raw in
      raise_if (is_absolute path \<or> ''..'' \<in> set (path_parts path)) (LiveEvidenceError (msg [context, '' path escapes repository: '', raw])))"

definition validate_common :: "json_object \<Rightarrow> string \<Rightarrow> check" where
  "validate_common data context =
     (thenE (reject_private_le (JObj data) context) (
     bindE (require_string_le data ''action_id'' context) (\<lambda>_.
     bindE (require_bool_le data ''host_mutation'' context) (\<lambda>host_mutation.
     thenE (raise_if host_mutation (LiveEvidenceError (msg [context, '' host_mutation must be false'']))) (
     bindE (require_string_le data ''evidence_mode'' context) (\<lambda>mode.
     thenE (raise_if (mode \<notin> set EVIDENCE_MODES_le) (LiveEvidenceError (msg [context, '' evidence_mode is invalid: '', mode]))) (
     raise_if (jget data ''private_logs'' = JBool True) (LiveEvidenceError (msg [context, '' private logs are not allowed''])))))))))"

definition validate_git_sha :: "git_head \<Rightarrow> json_object \<Rightarrow> string \<Rightarrow> check" where
  "validate_git_sha git data context =
     (bindE (require_string_le data ''git_sha'' context) (\<lambda>git_sha.
     bindE (current_git_sha_le git) (\<lambda>current.
     raise_if (git_sha \<noteq> current) (LiveEvidenceError (msg [context, '' git_sha is stale''])))))"

definition validate_checked_common :: "git_head \<Rightarrow> json_object \<Rightarrow> string \<Rightarrow> check" where
  "validate_checked_common git data context = thenE (validate_common data context) (validate_git_sha git data context)"

definition validate_live_gate :: "json_object \<Rightarrow> string \<Rightarrow> check" where
  "validate_live_gate data context =
     (bindE (require_string_le data ''evidence_mode'' context) (\<lambda>mode.
     thenE (raise_if (mode \<noteq> LIVE_MODE_le) (LiveEvidenceError (msg [context, '' is not vm-live evidence'']))) (
     bindE (require_string_le data ''vm_kind'' context) (\<lambda>kind.
     thenE (raise_if (kind \<noteq> LIVE_VM_KIND_le) (LiveEvidenceError (msg [context, '' vm-live evidence must come from qemu-vm'']))) (
     bindE (require_bool_le data ''vm_marker_present'' context) (\<lambda>present.
     thenE (raise_if (\<not> present) (LiveEvidenceError (msg [context, '' missing VM marker'']))) (
     bindE (require_string_le data ''vm_marker_path'' context) (\<lambda>marker.
     thenE (raise_if (marker \<noteq> VM_MARKER_le) (LiveEvidenceError (msg [context, '' VM marker path is invalid'']))) (
     bindE (require_object_le data ''kernel_tuple'' context) (\<lambda>kernel.
     forE (\<lambda>field. bindE (require_string_le kernel field (msg [context, ''.kernel_tuple''])) (\<lambda>_. Inr ()))
         [''release'', ''arch'', ''config_sha256'']))))))))))"

definition validate_paths :: "json list \<Rightarrow> string \<Rightarrow> check" where
  "validate_paths vs context =
     forE (\<lambda>(index, v).
       case text_of v of
         None \<Rightarrow> Inl (LiveEvidenceError (msg [context, ''['', show_nat index, ''] must be non-empty path text'']))
       | Some s \<Rightarrow> require_safe_relative_path s (msg [context, ''['', show_nat index, '']''])) (enumerate_from 0 vs)"

definition validate_action :: "git_head \<Rightarrow> json_object \<Rightarrow> check" where
  "validate_action git data =
     (thenE (validate_checked_common git data ''action'') (
     bindE (require_string_le data ''action'' ''action'') (\<lambda>_.
     bindE (require_string_le data ''timestamp'' ''action'') (\<lambda>_.
     Inr ()))))"

definition validate_event :: "git_head \<Rightarrow> json_object \<Rightarrow> check" where
  "validate_event git data =
     (thenE (validate_checked_common git data ''event'') (
     bindE (require_int_le data ''sequence'' ''event'') (\<lambda>_.
     bindE (require_string_le data ''event'' ''event'') (\<lambda>_.
     bindE (require_string_le data ''status'' ''event'') (\<lambda>_.
     Inr ())))))"

definition validate_transcript_index :: "git_head \<Rightarrow> json_object \<Rightarrow> check" where
  "validate_transcript_index git data =
     (thenE (validate_common data ''transcript_index'') (
     thenE (validate_live_gate data ''transcript_index'') (
     thenE (validate_git_sha git data ''transcript_index'') (
     bindE (require_list_le data ''transcript_paths'' ''transcript_index'') (\<lambda>transcripts.
     thenE (validate_paths transcripts ''transcript_index.transcript_paths'') (
     bindE (require_list_le data ''command_allowlist'' ''transcript_index'') (\<lambda>allowlist.
     thenE (validate_paths allowlist ''transcript_index.command_allowlist'') (
     bindE (require_object_le data ''cleanup'' ''transcript_index'') (\<lambda>cleanup.
     bindE (require_bool_le cleanup ''qemu_leftovers'' ''transcript_index.cleanup'') (\<lambda>leftovers.
     raise_if leftovers (LiveEvidenceError ''transcript_index cleanup reports qemu leftovers'')))))))))))"

definition validate_attach :: "git_head \<Rightarrow> json_object \<Rightarrow> check" where
  "validate_attach git data =
     (thenE (validate_common data ''attach'') (
     thenE (validate_live_gate data ''attach'') (
     thenE (validate_git_sha git data ''attach'') (
     forE (\<lambda>field. bindE (require_string_le data field ''attach'') (\<lambda>_. Inr ()))
         [''audit_id'', ''rollback_id'', ''target_cgroup'', ''registered_ops'']))))"

definition validate_behavior :: "git_head \<Rightarrow> json_object \<Rightarrow> check" where
  "validate_behavior git data =
     (thenE (validate_common data ''behavior'') (
     thenE (validate_live_gate data ''behavior'') (
     thenE (validate_git_sha git data ''behavior'') (
     bindE (require_string_le data ''scheduler_state'' ''behavior'') (\<lambda>_.
     bindE (require_string_le data ''registered_ops'' ''behavior'') (\<lambda>_.
     bindE (require_int_le data ''runtime_events'' ''behavior'') (\<lambda>_.
     bindE (require_bool_le data ''workload_alive'' ''behavior'') (\<lambda>alive.
     raise_if (\<not> alive) (LiveEvidenceError ''behavior workload must be live during observation'')))))))))"

definition validate_rollback :: "git_head \<Rightarrow> json_object \<Rightarrow> check" where
  "validate_rollback git data =
     (thenE (validate_common data ''rollback'') (
     thenE (validate_live_gate data ''rollback'') (
     thenE (validate_git_sha git data ''rollback'') (
     bindE (require_string_le data ''rollback_id'' ''rollback'') (\<lambda>_.
     bindE (require_string_le data ''result'' ''rollback'') (\<lambda>outcome.
     thenE (raise_if (outcome \<noteq> ''PASS'') (LiveEvidenceError ''rollback result must pass for live proof'')) (
     bindE (require_bool_le data ''idempotent'' ''rollback'') (\<lambda>idempotent.
     raise_if (\<not> idempotent) (LiveEvidenceError ''rollback must be idempotent'')))))))))"

definition validate_file_le :: "git_head \<Rightarrow> env \<Rightarrow> path \<Rightarrow> check" where
  "validate_file_le git env path =
     (bindE (load_object_le env path) (\<lambda>data.
     bindE (require_string_le data ''schema'' ''evidence'') (\<lambda>schema.
     (if schema = ACTION_SCHEMA then validate_action git data
         else if schema = EVENT_SCHEMA then validate_event git data
         else if schema = TRANSCRIPT_SCHEMA then validate_transcript_index git data
         else if schema = ATTACH_SCHEMA then validate_attach git data
         else if schema = BEHAVIOR_SCHEMA then validate_behavior git data
         else if schema = ROLLBACK_SCHEMA then validate_rollback git data
         else Inl (LiveEvidenceError (msg [''unsupported evidence schema: '', schema]))))))"

definition good_base :: "string \<Rightarrow> string \<Rightarrow> json_object" where
  "good_base schema git_sha =
     [(''schema'', JStr schema), (''action_id'', JStr ''act-live''), (''evidence_mode'', JStr LIVE_MODE_le), (''git_sha'', JStr git_sha),
      (''host_mutation'', JBool False), (''private_logs'', JBool False)]"

text \<open>\<^verbatim>\<open>add_live\<close> on an object that has none of the added keys, as in all its calls.\<close>

definition add_live :: "json_object \<Rightarrow> json_object" where
  "add_live data =
     data @ [(''vm_kind'', JStr LIVE_VM_KIND_le), (''vm_marker_present'', JBool True), (''vm_marker_path'', JStr VM_MARKER_le),
       (''kernel_tuple'', JObj [(''release'', JStr ''6.12.0-lab''), (''arch'', JStr ''x86_64''), (''config_sha256'', JStr ''sha'')])]"

definition reject_le :: "git_head \<Rightarrow> env \<Rightarrow> path \<Rightarrow> string \<Rightarrow> check" where
  "reject_le git env path label =
     (case validate_file_le git env path of
        Inl e \<Rightarrow> if is_LiveEvidenceError e then Inr () else Inl e
      | Inr _ \<Rightarrow> Inl (LiveEvidenceError (msg [''expected rejection did not occur: '', label])))"

text \<open>The command with its exit status; the self-test, which writes files, is a parameter.\<close>

definition run_le :: "check \<Rightarrow> git_head \<Rightarrow> env \<Rightarrow> string list \<Rightarrow> int result" where
  "run_le self_test git env argv =
     bindE (parse_args_le argv) (\<lambda>(file_path, should_self_test).
       if should_self_test then thenE self_test (Inr 0)
       else (case file_path of
               None \<Rightarrow> Inl (LiveEvidenceError ''internal argument parser error'')
             | Some p \<Rightarrow> thenE (validate_file_le git env p) (Inr 0)))"

definition script_le :: "check \<Rightarrow> git_head \<Rightarrow> env \<Rightarrow> string list \<Rightarrow> int result" where
  "script_le self_test git env argv =
     (case run_le self_test git env argv of
        Inl e \<Rightarrow> if is_LiveEvidenceError e then Inr 1 else Inl e
      | Inr status \<Rightarrow> Inr status)"

section \<open>Readers and the privacy scan\<close>

interpretation le_string: field_reader require_string_le text_of LiveEvidenceError
  by unfold_locales (auto simp: require_string_le_def split: option.splits)

interpretation le_bool: field_reader require_bool_le bool_of LiveEvidenceError
  by unfold_locales (auto simp: require_bool_le_def split: option.splits)

interpretation le_int: field_reader require_int_le int_of LiveEvidenceError
  by unfold_locales (auto simp: require_int_le_def split: option.splits)

interpretation le_obj: field_reader require_object_le obj_of LiveEvidenceError
  by unfold_locales (auto simp: require_object_le_def split: option.splits)

fun nonempty_list_of :: "json \<Rightarrow> json list option" where
  "nonempty_list_of (JList xs) = (if xs = [] then None else Some xs)"
| "nonempty_list_of _ = None"

interpretation le_list: field_reader require_list_le nonempty_list_of LiveEvidenceError
  by unfold_locales (auto simp: require_list_le_def list_of_iff elim!: nonempty_list_of.elims split: option.splits if_splits)

fun node_ok_le :: "string \<Rightarrow> json \<Rightarrow> bool" where
  "node_ok_le c (JObj d) \<longleftrightarrow> (\<forall>k \<in> set (keys d). lower k \<notin> set FORBIDDEN_KEYS_le)"
| "node_ok_le c (JStr s) \<longleftrightarrow> (\<forall>needle \<in> set FORBIDDEN_TEXT_le. \<not> contains needle s)"
| "node_ok_le c _ \<longleftrightarrow> True"

interpretation le_scan: context_free_scanner reject_private_le node_ok_le
proof
  fix v c
  show "reject_private_le v c = Inr () \<longleftrightarrow> node_ok_le c v \<and> (\<forall>(c', v') \<in> set (children c v). reject_private_le v' c' = Inr ())"
    by (cases v) (fastforce simp: ok_iff obj_children_def list_children_def reject_private_le.simps)+
  fix c' show "node_ok_le c v = node_ok_le c' v" by (cases v) auto
qed

lemma reject_private_le_ok_iff: "reject_private_le v c = Inr () \<longleftrightarrow> (\<forall>(c', v') \<in> set (nodes [] v). node_ok_le c' v')"
  using le_scan.scan_context[of v c "[]"] le_scan.scan_ok_iff[of v "[]"] by blast

lemma load_object_le_ok_iff:
  "load_object_le env p = Inr d \<longleftrightarrow> (\<exists>s. fs_read_text env p = Inr s \<and> json_decode env s = Decoded (JObj d))"
  by (auto simp: load_object_le_def ok_iff obj_of_iff split: option.splits)

section \<open>What acceptance means\<close>

definition texts :: "json_object \<Rightarrow> string set \<Rightarrow> bool" where
  "texts d fs \<longleftrightarrow> (\<forall>f \<in> fs. \<exists>s. jget d f = JStr s \<and> s \<noteq> [])"

text \<open>What all six documents state: an action, a known mode and the revision, no mutation and nothing private.\<close>

definition live_common :: "string \<Rightarrow> json_object \<Rightarrow> bool" where
  "live_common sha d \<longleftrightarrow>
     (\<forall>(c, v) \<in> set (nodes [] (JObj d)). node_ok_le c v) \<and> texts d {''action_id''} \<and> jget d ''host_mutation'' = JBool False \<and>
     (\<exists>m \<in> set EVIDENCE_MODES_le. jget d ''evidence_mode'' = JStr m) \<and> jget d ''private_logs'' \<noteq> JBool True \<and>
     jget d ''git_sha'' = JStr sha \<and> sha \<noteq> []"

text \<open>The gate of the four proofs: the marker of a QEMU machine, and its kernel.\<close>

definition live_gate :: "json_object \<Rightarrow> bool" where
  "live_gate d \<longleftrightarrow>
     jget d ''evidence_mode'' = JStr LIVE_MODE_le \<and> jget d ''vm_kind'' = JStr LIVE_VM_KIND_le \<and> jget d ''vm_marker_present'' = JBool True \<and>
     jget d ''vm_marker_path'' = JStr VM_MARKER_le \<and>
     (\<exists>kernel. jget d ''kernel_tuple'' = JObj kernel \<and> texts kernel {''release'', ''arch'', ''config_sha256''})"

definition safe_texts :: "json \<Rightarrow> bool" where
  "safe_texts v \<longleftrightarrow> (\<exists>paths. v = JList (map JStr paths) \<and> paths \<noteq> [] \<and> (\<forall>p \<in> set paths. p \<noteq> [] \<and> safe_path (mk_path p)))"

definition live_body :: "json_object \<Rightarrow> bool" where
  "live_body d \<longleftrightarrow>
     jget d ''schema'' = JStr ACTION_SCHEMA \<and> texts d {''action'', ''timestamp''} \<or>
     jget d ''schema'' = JStr EVENT_SCHEMA \<and> is_int (jget d ''sequence'') \<and> texts d {''event'', ''status''} \<or>
     live_gate d \<and>
       (jget d ''schema'' = JStr TRANSCRIPT_SCHEMA \<and> safe_texts (jget d ''transcript_paths'') \<and> safe_texts (jget d ''command_allowlist'') \<and>
          (\<exists>cleanup. jget d ''cleanup'' = JObj cleanup \<and> jget cleanup ''qemu_leftovers'' = JBool False) \<or>
        jget d ''schema'' = JStr ATTACH_SCHEMA \<and> texts d {''audit_id'', ''rollback_id'', ''target_cgroup'', ''registered_ops''} \<or>
        jget d ''schema'' = JStr BEHAVIOR_SCHEMA \<and> texts d {''scheduler_state'', ''registered_ops''} \<and> is_int (jget d ''runtime_events'') \<and>
          jget d ''workload_alive'' = JBool True \<or>
        jget d ''schema'' = JStr ROLLBACK_SCHEMA \<and> texts d {''rollback_id''} \<and> jget d ''result'' = JStr ''PASS'' \<and>
          jget d ''idempotent'' = JBool True)"

lemma validate_common_ok_iff:
  "validate_common d c = Inr u \<longleftrightarrow>
     (\<forall>(c, v) \<in> set (nodes [] (JObj d)). node_ok_le c v) \<and> texts d {''action_id''} \<and> jget d ''host_mutation'' = JBool False \<and>
     (\<exists>m \<in> set EVIDENCE_MODES_le. jget d ''evidence_mode'' = JStr m) \<and> jget d ''private_logs'' \<noteq> JBool True"
proof -
  have "[] \<notin> set EVIDENCE_MODES_le" by (simp add: EVIDENCE_MODES_le_def LIVE_MODE_le_def)
  then show ?thesis
    unfolding validate_common_def texts_def by (auto simp: ok_iff reject_private_le_ok_iff text_of_iff bool_of_iff)
qed

lemma current_git_sha_le_ok_iff: "current_git_sha_le git = Inr sha \<longleftrightarrow> (\<exists>out. git = Inr (0, out) \<and> sha = strip out)"
  by (cases git) (auto simp: current_git_sha_le_def split: if_splits)

lemma validate_git_sha_ok_iff:
  "validate_git_sha git d c = Inr u \<longleftrightarrow> (\<exists>out. git = Inr (0, out) \<and> jget d ''git_sha'' = JStr (strip out) \<and> strip out \<noteq> [])"
  unfolding validate_git_sha_def by (auto simp: ok_iff text_of_iff current_git_sha_le_ok_iff)

lemma validate_live_gate_ok_iff: "validate_live_gate d c = Inr u \<longleftrightarrow> live_gate d"
  unfolding validate_live_gate_def live_gate_def texts_def LIVE_MODE_le_def LIVE_VM_KIND_le_def VM_MARKER_le_def
  by (auto simp: ok_iff text_of_iff bool_of_iff obj_of_iff)

lemma require_safe_relative_path_ok_iff: "require_safe_relative_path s c = Inr u \<longleftrightarrow> safe_path (mk_path s)"
  by (simp add: require_safe_relative_path_def Let_def ok_iff safe_path_def)

lemma validate_paths_ok_iff: "validate_paths vs c = Inr u \<longleftrightarrow> (\<exists>paths. vs = map JStr paths \<and> (\<forall>p \<in> set paths. p \<noteq> [] \<and> safe_path (mk_path p)))"
  unfolding validate_paths_def all_texts_iff[symmetric]
  by (rule forE_enumerate_ok_iff) (simp add: case_option_Inl require_safe_relative_path_ok_iff)

lemma path_list_ok_iff:
  "(\<exists>vs. nonempty_list_of v = Some vs \<and> validate_paths vs c = Inr u) \<longleftrightarrow> safe_texts v"
  unfolding validate_paths_ok_iff safe_texts_def by (cases v) auto

lemma checked_ok_iff:
  "validate_common d c = Inr () \<and> validate_git_sha git d c' = Inr () \<longleftrightarrow> (\<exists>out. git = Inr (0, out) \<and> live_common (strip out) d)"
  unfolding validate_common_ok_iff validate_git_sha_ok_iff live_common_def by blast

lemmas le_steps = bindE_ok_iff thenE_ok_iff raise_if_ok_iff forE_ok_iff le_string.read_ok le_bool.read_ok le_int.read_ok le_obj.read_ok
  validate_live_gate_ok_iff text_of_iff bool_of_iff obj_of_iff not_not

lemma texts_simps [simp]: "texts d {}" "texts d (insert f fs) \<longleftrightarrow> (\<exists>s. jget d f = JStr s \<and> s \<noteq> []) \<and> texts d fs"
  by (auto simp: texts_def)

text \<open>The revision that \<^verbatim>\<open>git\<close> reports and the part that all documents share.\<close>

definition at_revision :: "git_head \<Rightarrow> json_object \<Rightarrow> bool" where
  "at_revision git d \<longleftrightarrow> (\<exists>out. git = Inr (0, out) \<and> live_common (strip out) d)"

lemmas at_revision_iff = checked_ok_iff[folded at_revision_def]

lemma checked_common_iff: "validate_checked_common git d c = Inr u \<longleftrightarrow> at_revision git d"
  unfolding at_revision_iff[symmetric, of git d c c] by (simp add: validate_checked_common_def thenE_ok_iff)

lemma validate_action_ok_iff: "validate_action git d = Inr u \<longleftrightarrow> at_revision git d \<and> texts d {''action'', ''timestamp''}"
  unfolding validate_action_def by (auto simp: le_steps checked_common_iff)

lemma validate_event_ok_iff:
  "validate_event git d = Inr u \<longleftrightarrow> at_revision git d \<and> is_int (jget d ''sequence'') \<and> texts d {''event'', ''status''}"
  unfolding validate_event_def by (auto simp: le_steps checked_common_iff)

lemma gated_ok_iff:
  "thenE (validate_common d c) (thenE (validate_live_gate d c') (thenE (validate_git_sha git d c'') m)) = Inr u \<longleftrightarrow>
     at_revision git d \<and> live_gate d \<and> m = Inr u"
  unfolding at_revision_iff[symmetric, of git d c c''] thenE_ok_iff validate_live_gate_ok_iff by blast

lemma validate_transcript_index_ok_iff:
  "validate_transcript_index git d = Inr u \<longleftrightarrow>
     at_revision git d \<and> live_gate d \<and> safe_texts (jget d ''transcript_paths'') \<and> safe_texts (jget d ''command_allowlist'') \<and>
     (\<exists>cleanup. jget d ''cleanup'' = JObj cleanup \<and> jget cleanup ''qemu_leftovers'' = JBool False)"
proof -
  have split: "bindE (require_list_le d f c) (\<lambda>vs. thenE (validate_paths vs c') m) = Inr u \<longleftrightarrow> safe_texts (jget d f) \<and> m = Inr u" for f c c' m
    unfolding bindE_ok_iff thenE_ok_iff le_list.read_ok path_list_ok_iff[symmetric, of _ c' "()"] by blast
  show ?thesis unfolding validate_transcript_index_def gated_ok_iff split by (auto simp: le_steps)
qed

lemma validate_attach_ok_iff:
  "validate_attach git d = Inr u \<longleftrightarrow> at_revision git d \<and> live_gate d \<and> texts d {''audit_id'', ''rollback_id'', ''target_cgroup'', ''registered_ops''}"
  unfolding validate_attach_def gated_ok_iff by (auto simp: le_steps)

lemma validate_behavior_ok_iff:
  "validate_behavior git d = Inr u \<longleftrightarrow>
     at_revision git d \<and> live_gate d \<and> texts d {''scheduler_state'', ''registered_ops''} \<and> is_int (jget d ''runtime_events'') \<and>
     jget d ''workload_alive'' = JBool True"
  unfolding validate_behavior_def gated_ok_iff by (auto simp: le_steps)

lemma validate_rollback_ok_iff:
  "validate_rollback git d = Inr u \<longleftrightarrow>
     at_revision git d \<and> live_gate d \<and> texts d {''rollback_id''} \<and> jget d ''result'' = JStr ''PASS'' \<and> jget d ''idempotent'' = JBool True"
  unfolding validate_rollback_def gated_ok_iff by (auto simp: le_steps)

lemmas schema_defs = ACTION_SCHEMA_def EVENT_SCHEMA_def TRANSCRIPT_SCHEMA_def ATTACH_SCHEMA_def BEHAVIOR_SCHEMA_def ROLLBACK_SCHEMA_def

lemma dispatch_ok_iff:
  "(\<exists>s. text_of (jget d ''schema'') = Some s \<and>
      (if s = ACTION_SCHEMA then validate_action git d else if s = EVENT_SCHEMA then validate_event git d
       else if s = TRANSCRIPT_SCHEMA then validate_transcript_index git d else if s = ATTACH_SCHEMA then validate_attach git d
       else if s = BEHAVIOR_SCHEMA then validate_behavior git d else if s = ROLLBACK_SCHEMA then validate_rollback git d
       else Inl (e s)) = Inr ()) \<longleftrightarrow> at_revision git d \<and> live_body d"
proof (cases "text_of (jget d ''schema'')")
  case None
  then show ?thesis by (auto simp: live_body_def schema_defs)
next
  case (Some s)
  then have schema: "jget d ''schema'' = JStr s" by (simp add: text_of_iff)
  consider "s = ACTION_SCHEMA" | "s = EVENT_SCHEMA" | "s = TRANSCRIPT_SCHEMA" | "s = ATTACH_SCHEMA" | "s = BEHAVIOR_SCHEMA" | "s = ROLLBACK_SCHEMA"
    | "s \<notin> {ACTION_SCHEMA, EVENT_SCHEMA, TRANSCRIPT_SCHEMA, ATTACH_SCHEMA, BEHAVIOR_SCHEMA, ROLLBACK_SCHEMA}" by blast
  then show ?thesis
    by cases (simp_all add: schema_defs Some schema live_body_def validate_action_ok_iff validate_event_ok_iff validate_transcript_index_ok_iff
        validate_attach_ok_iff validate_behavior_ok_iff validate_rollback_ok_iff del: texts_simps)
qed

lemma validate_file_le_ok_iff:
  "validate_file_le git env path = Inr () \<longleftrightarrow>
     (\<exists>d out. load_object_le env path = Inr d \<and> git = Inr (0, out) \<and> live_common (strip out) d \<and> live_body d)"
proof -
  have "validate_file_le git env path = Inr () \<longleftrightarrow> (\<exists>d. load_object_le env path = Inr d \<and> at_revision git d \<and> live_body d)"
    unfolding validate_file_le_def bindE_ok_iff le_string.read_ok dispatch_ok_iff by blast
  then show ?thesis unfolding at_revision_def by blast
qed


section \<open>Runs\<close>

text \<open>The documents of the self-test are accepted at the revision that they state, and refused at another.\<close>

definition attach_case :: "string \<Rightarrow> json_object" where
  "attach_case git_sha =
     add_live (good_base ATTACH_SCHEMA git_sha @
       [(''audit_id'', JStr ''AUD-20990101T000000Z-deadbee-abc123''), (''rollback_id'', JStr ''RB-demo''),
        (''target_cgroup'', JStr ''/sys/fs/cgroup/zig-scheduler-lab.slice/demo.scope''), (''registered_ops'', JStr ''zigsched_minimal_ops'')])"

definition rollback_case :: "string \<Rightarrow> json_object" where
  "rollback_case git_sha =
     add_live (good_base ROLLBACK_SCHEMA git_sha @ [(''rollback_id'', JStr ''RB-demo''), (''result'', JStr ''PASS''), (''idempotent'', JBool True)])"

definition le_env :: env where
  "le_env = files_env [(''a.json'', ''A''), (''r.json'', ''R''), (''s.json'', ''S'')] []
     [(''A'', JObj (attach_case ''f00d'')), (''R'', JObj (rollback_case ''f00d'')), (''S'', JObj (attach_case ''0000000''))]"

lemma le_env_accepted: "validate_file_le (Inr (0, ''f00d'')) le_env (mk_path ''a.json'') = Inr ()"
  "validate_file_le (Inr (0, ''f00d'')) le_env (mk_path ''r.json'') = Inr ()"
  by code_simp+

lemma le_env_stale: "reject_le (Inr (0, ''f00d'')) le_env (mk_path ''s.json'') ''stale git sha'' = Inr ()"
  by code_simp

text \<open>No proof is accepted without the marker, whatever else it says.\<close>

corollary live_proof_has_marker:
  assumes "validate_file_le git env path = Inr ()" and "load_object_le env path = Inr d"
    and "jget d ''schema'' \<notin> {JStr ACTION_SCHEMA, JStr EVENT_SCHEMA}"
  shows "jget d ''vm_marker_present'' = JBool True \<and> jget d ''vm_kind'' = JStr LIVE_VM_KIND_le"
  using assms unfolding validate_file_le_ok_iff live_body_def live_gate_def by auto

end
