(* ===== verification/BundleFreshness.thy ===== *)
theory BundleFreshness
  imports BpfArtifacts
begin

text \<open>
  \<^verbatim>\<open>qa/live_bundle_freshness_check.py\<close>: whether a live bundle belongs to the present revision, to the present BPF
  object and, when it was made from a dirty tree, to the present state of the tree.
\<close>

section \<open>Model\<close>

text \<open>
  What lies outside: \<^verbatim>\<open>git\<close>, run for its text or for its bytes, with its return code or the exception when
  it cannot be started; SHA-256 of a byte string; the bytes of a file; and UTF-8 decoding. A byte string is a list
  of 8-bit characters.
\<close>

record git_tools = tools +
  git_text :: "env \<Rightarrow> string list \<Rightarrow> (int \<times> string) result"
  git_bytes :: "env \<Rightarrow> string list \<Rightarrow> (int \<times> string) result"
  sha256_hex :: "string \<Rightarrow> string"
  file_bytes :: "env \<Rightarrow> path \<Rightarrow> string result"
  utf8_decode :: "string \<Rightarrow> string result"

record freshness_args =
  fresh_bundle :: "path option"
  fresh_self_test :: bool

definition parse_args_bf :: "string list \<Rightarrow> freshness_args result" where
  "parse_args_bf argv =
     (if argv = [''--self-test''] then Inr \<lparr> fresh_bundle = None, fresh_self_test = True \<rparr>
      else if length argv = 2 \<and> argv ! 0 = ''--bundle'' then Inr \<lparr> fresh_bundle = Some (mk_path (argv ! 1)), fresh_self_test = False \<rparr>
      else Inl (FreshnessCheckError ''usage: live_bundle_freshness_check.py --self-test | --bundle <summary.json>''))"

definition load_object_bf :: "env \<Rightarrow> path \<Rightarrow> json_object result" where
  "load_object_bf env path =
     (bindE (reraise is_JSONDecodeError (\<lambda>exc. FreshnessCheckError (msg [''invalid JSON file: '', path_str path, '': '', exn_str exc]))
         (reraise is_FileNotFoundError (\<lambda>_. FreshnessCheckError (msg [''missing JSON file: '', path_str path]))
         (bindE (fs_read_text env path) (json_loads env)))) (\<lambda>raw.
     case obj_of raw of
         None \<Rightarrow> Inl (FreshnessCheckError (msg [''JSON root must be object: '', path_str path]))
         | Some d \<Rightarrow> Inr d))"

definition require_text_bf :: "json_object \<Rightarrow> string \<Rightarrow> string result" where
  "require_text_bf data field =
     (case text_of (jget data field) of
        None \<Rightarrow> Inl (FreshnessCheckError (msg [''missing text field: '', field]))
      | Some s \<Rightarrow> Inr s)"

definition require_bool_bf :: "json_object \<Rightarrow> string \<Rightarrow> bool result" where
  "require_bool_bf data field =
     (case bool_of (jget data field) of
        None \<Rightarrow> Inl (FreshnessCheckError (msg [''missing bool field: '', field]))
      | Some b \<Rightarrow> Inr b)"

definition require_object_bf :: "json_object \<Rightarrow> string \<Rightarrow> json_object result" where
  "require_object_bf data field =
     (case obj_of (jget data field) of
        None \<Rightarrow> Inl (FreshnessCheckError (msg [''missing object field: '', field]))
      | Some d \<Rightarrow> Inr d)"

definition require_equal :: "string \<Rightarrow> string \<Rightarrow> string \<Rightarrow> check" where
  "require_equal found expected field = raise_if (found \<noteq> expected) (FreshnessCheckError (msg [field, '' mismatch'']))"

definition load_manifest_provenance :: "env \<Rightarrow> path \<Rightarrow> json_object result" where
  "load_manifest_provenance env bundle_path =
     (bindE (load_object_bf env (path_join (path_parent (path_parent bundle_path)) ''manifest-provenance.json'')) (\<lambda>manifest.
     bindE (require_text_bf manifest ''schema'') (\<lambda>schema.
     thenE (require_equal schema ''zig-scheduler/task-09-provenance/v1'' ''manifest schema'') (
     Inr manifest))))"

definition validate_dirty_snapshot :: "env \<Rightarrow> json_object \<Rightarrow> path \<Rightarrow> string \<Rightarrow> string option \<Rightarrow> check" where
  "validate_dirty_snapshot env summary bundle_path current_git_sha current_dirty_snapshot_sha =
     (case current_dirty_snapshot_sha of
        None \<Rightarrow> Inl (FreshnessCheckError ''bundle was generated from a dirty worktree'')
      | Some current \<Rightarrow>
          (bindE (require_text_bf summary ''dirty_tree_snapshot_sha256'') (\<lambda>bundle_snapshot.
            thenE (require_equal bundle_snapshot current ''dirty_tree_snapshot_sha256'') (
            bindE (load_manifest_provenance env bundle_path) (\<lambda>provenance.
            bindE (require_text_bf provenance ''dirty_tree_snapshot_sha256'') (\<lambda>snapshot.
            thenE (require_equal snapshot current ''manifest dirty_tree_snapshot_sha256'') (
            bindE (require_text_bf provenance ''repo_head'') (\<lambda>repo_head.
            thenE (require_equal repo_head current_git_sha ''manifest repo_head'') (
            bindE (require_text_bf provenance ''status'') (\<lambda>status.
            thenE (require_equal status ''PASS'' ''manifest status'') (
            bindE (require_bool_bf provenance ''git_dirty'') (\<lambda>dirty.
            thenE (raise_if (\<not> dirty) (FreshnessCheckError ''manifest git_dirty must be true for dirty bundle'')) (
            bindE (require_text_bf provenance ''copied_bundle_summary'') (\<lambda>copied.
            raise_if (mk_path copied \<noteq> bundle_path) (FreshnessCheckError ''manifest copied_bundle_summary mismatch'')))))))))))))))"

text \<open>\<^verbatim>\<open>p.parents\<close>, the nearest first.\<close>

definition path_parents :: "path \<Rightarrow> path list" where
  "path_parents p = map (\<lambda>n. Path (path_root p) (take n (path_comps p))) (rev [0..<length (path_comps p)])"

definition validate_qemu_scan :: "git_tools \<Rightarrow> env \<Rightarrow> json \<Rightarrow> path \<Rightarrow> string \<Rightarrow> check" where
  "validate_qemu_scan tools env v bundle_root field =
     (case text_of v of
        None \<Rightarrow> Inl (FreshnessCheckError (msg [''cleanup missing process scan: '', field]))
      | Some s \<Rightarrow>
          ((let path = mk_path s in
            thenE (raise_if (is_absolute path \<or> ''..'' \<in> set (path_parts path) \<or> \<not> fs_exists env path)
                (FreshnessCheckError (msg [''cleanup process scan path is unsafe or missing: '', field]))) (
            thenE (raise_if (bundle_root \<notin> set (path # path_parents path))
                (FreshnessCheckError (msg [''cleanup process scan must be inside bundle: '', field]))) (
            bindE (read_replace tools env path) (\<lambda>content.
            raise_if (contains ''zig-scheduler-microvm-live-lab'' content)
                (FreshnessCheckError (msg [''cleanup process scan still contains lab qemu process: '', field]))))))))"

definition validate_cleanup :: "git_tools \<Rightarrow> env \<Rightarrow> json_object \<Rightarrow> path \<Rightarrow> check" where
  "validate_cleanup tools env cleanup bundle_root =
     (thenE (raise_if (jget cleanup ''temp_dirs_removed'' \<noteq> JBool True) (FreshnessCheckError ''cleanup missing temp dir removal receipt'')) (
     thenE (raise_if (jget cleanup ''process_group_reaped'' \<noteq> JBool True) (FreshnessCheckError ''cleanup missing process group receipt'')) (
     thenE (raise_if (text_of (jget cleanup ''timeout_pid'') = None) (FreshnessCheckError ''cleanup missing timeout pid receipt'')) (
     thenE (raise_if (\<not> is_int (jget cleanup ''timeout_rc'')) (FreshnessCheckError ''cleanup missing timeout rc receipt'')) (
     thenE (validate_qemu_scan tools env (jget cleanup ''qemu_process_scan_before'') bundle_root ''qemu_process_scan_before'') (
     thenE (validate_qemu_scan tools env (jget cleanup ''qemu_process_scan_after'') bundle_root ''qemu_process_scan_after'') (
     raise_if (list_of (jget cleanup ''tmux_sessions_after'') = None) (FreshnessCheckError ''cleanup missing tmux session scan''))))))))"

definition validate_fresh_bundle :: "git_tools \<Rightarrow> env \<Rightarrow> path \<Rightarrow> string \<Rightarrow> string \<Rightarrow> string option \<Rightarrow> check" where
  "validate_fresh_bundle tools env path current_git_sha current_bpf_sha current_dirty_snapshot_sha =
     (bindE (load_object_bf env path) (\<lambda>summary.
     bindE (require_text_bf summary ''schema'') (\<lambda>schema.
     thenE (require_equal schema ''zig-scheduler/run-all-lab/v1'' ''schema'') (
     bindE (require_text_bf summary ''status'') (\<lambda>status.
     thenE (require_equal status ''PASS'' ''status'') (
     bindE (require_text_bf summary ''evidence_mode'') (\<lambda>mode.
     thenE (require_equal mode ''vm-live'' ''evidence_mode'') (
     bindE (require_text_bf summary ''git_sha'') (\<lambda>git_sha.
     thenE (require_equal git_sha current_git_sha ''git_sha'') (
     bindE (require_text_bf summary ''bpf_object_sha256'') (\<lambda>bpf_sha.
     thenE (require_equal bpf_sha current_bpf_sha ''bpf_object_sha256'') (
     bindE (require_bool_bf summary ''git_dirty'') (\<lambda>dirty.
     thenE ((if dirty then validate_dirty_snapshot env summary path current_git_sha current_dirty_snapshot_sha else Inr ())) (
     bindE (require_bool_bf summary ''host_mutation'') (\<lambda>host_mutation.
     thenE (raise_if host_mutation (FreshnessCheckError ''host_mutation must be false'')) (
     bindE (require_bool_bf summary ''output_dir_created_fresh'') (\<lambda>fresh.
     thenE (raise_if (\<not> fresh) (FreshnessCheckError ''output directory was reused'')) (
     bindE (require_text_bf summary ''output_dir'') (\<lambda>output_dir.
     thenE (raise_if (mk_path output_dir \<noteq> path_parent path) (FreshnessCheckError ''output_dir must match summary parent'')) (
     bindE (require_object_bf summary ''cleanup'') (\<lambda>cleanup.
     validate_cleanup tools env cleanup (path_parent path))))))))))))))))))))))"

text \<open>\<^verbatim>\<open>check=True\<close>: a return code other than 0 raises, like a command that is not there.\<close>

definition current_git_sha_bf :: "git_tools \<Rightarrow> env \<Rightarrow> string result" where
  "current_git_sha_bf tools env =
     bindE (reraise is_FileNotFoundError (\<lambda>_. FreshnessCheckError ''could not read current git SHA'') (git_text tools env [''git'', ''rev-parse'', ''HEAD'']))
       (\<lambda>(returncode, stdout).
          if returncode \<noteq> 0 then Inl (FreshnessCheckError ''could not read current git SHA'') else Inr (strip stdout))"

definition current_git_dirty :: "git_tools \<Rightarrow> env \<Rightarrow> bool result" where
  "current_git_dirty tools env =
     bindE (reraise is_FileNotFoundError (\<lambda>_. FreshnessCheckError ''could not read current git state'') (git_text tools env [''git'', ''status'', ''--porcelain'']))
       (\<lambda>(returncode, stdout).
          if returncode \<noteq> 0 then Inl (FreshnessCheckError ''could not read current git state'') else Inr (strip stdout \<noteq> []))"

text \<open>What \<^verbatim>\<open>h.update\<close> is fed with: first two commands with their outputs, then the untracked files.\<close>

definition nul :: string where
  "nul = [CHR 0x00]"

definition snapshot_command :: "git_tools \<Rightarrow> env \<Rightarrow> string list \<Rightarrow> string result" where
  "snapshot_command tools env cmd =
     bindE (git_bytes tools env cmd) (\<lambda>(returncode, stdout).
       if returncode \<noteq> 0 then Inl (FreshnessCheckError (msg [''snapshot command failed: '', join '' '' cmd]))
       else Inr (nul @ ''CMD'' @ nul @ join '' '' cmd @ nul @ stdout))"

definition snapshot_untracked :: "git_tools \<Rightarrow> env \<Rightarrow> string \<Rightarrow> string result" where
  "snapshot_untracked tools env raw =
     (bindE (utf8_decode tools raw) (\<lambda>name.
     (let path = mk_path name in
     (if \<not> fs_is_file env path then Inr []
         else bindE (file_bytes tools env path) (\<lambda>bytes. Inr (nul @ ''UNTRACKED'' @ nul @ raw @ nul @ sha256_hex tools bytes))))))"

definition current_dirty_snapshot_hash :: "git_tools \<Rightarrow> env \<Rightarrow> string result" where
  "current_dirty_snapshot_hash tools env =
     (bindE (mapE (snapshot_command tools env)
         [[''git'', ''status'', ''--porcelain=v1'', ''-z''], [''git'', ''diff'', ''--binary'', ''HEAD'', ''--'']]) (\<lambda>commands.
     bindE (bindE (git_bytes tools env [''git'', ''ls-files'', ''--others'', ''--exclude-standard'', ''-z'']) (\<lambda>(returncode, stdout).
         if returncode \<noteq> 0 then Inl (FreshnessCheckError ''git ls-files --others failed'') else Inr stdout)) (\<lambda>other.
     bindE (mapE (snapshot_untracked tools env) (sort (filter (\<lambda>item. item \<noteq> []) (split_on (CHR 0x00) other)))) (\<lambda>untracked.
     Inr (sha256_hex tools (concat commands @ concat untracked))))))"

text \<open>\<^verbatim>\<open>current_bpf_sha\<close>; without a path, it may build the artifacts first.\<close>

definition current_bpf_sha :: "git_tools \<Rightarrow> env \<Rightarrow> path option \<Rightarrow> (env \<times> string) result" where
  "current_bpf_sha tools env path =
     (case path of
        None \<Rightarrow>
          bindE (reraise is_BpfArtifactError (\<lambda>exc. FreshnessCheckError (exn_str exc)) (ensure_canonical_bpf_artifacts (tools.truncate tools) env))
            (\<lambda>(env', artifacts). Inr (env', object_sha256 artifacts))
      | Some p \<Rightarrow>
          bindE (reraise is_FileNotFoundError (\<lambda>_. FreshnessCheckError (msg [''missing current BPF object: '', path_str p])) (fs_sha256 env p))
            (\<lambda>sha. Inr (env, sha)))"

definition run_bf :: "check \<Rightarrow> git_tools \<Rightarrow> env \<Rightarrow> string list \<Rightarrow> (env \<times> int) result" where
  "run_bf self_test tools env argv =
     (bindE (parse_args_bf argv) (\<lambda>args.
     (if fresh_self_test args then thenE self_test (Inr (env, 0))
         else (case fresh_bundle args of
         None \<Rightarrow> Inl (FreshnessCheckError ''internal argument parser error'')
         | Some bundle \<Rightarrow>
         (bindE (current_git_dirty tools env) (\<lambda>dirty.
         bindE (if dirty then bindE (current_dirty_snapshot_hash tools env) (\<lambda>h. Inr (Some h)) else Inr None) (\<lambda>snapshot.
         bindE (current_git_sha_bf tools env) (\<lambda>git_sha.
         bindE (current_bpf_sha tools env None) (\<lambda>(env', bpf_sha).
         thenE (validate_fresh_bundle tools env' bundle git_sha bpf_sha snapshot) (Inr (env', 0)))))))))))"

definition script_bf :: "check \<Rightarrow> git_tools \<Rightarrow> env \<Rightarrow> string list \<Rightarrow> int result" where
  "script_bf self_test tools env argv =
     (case run_bf self_test tools env argv of
        Inl e \<Rightarrow> if is_FreshnessCheckError e \<or> is_os_error e then Inr 1 else Inl e
      | Inr (env', status) \<Rightarrow> Inr status)"

text \<open>The documents that the self-test writes for its cases.\<close>

definition cleanup_receipt :: "path \<Rightarrow> bool \<Rightarrow> bool \<Rightarrow> json_object" where
  "cleanup_receipt root_dir cleanup list_scan =
     (if cleanup then
        [(''qemu_process_scan_before'', if list_scan then JList [] else JStr (path_str (path_join root_dir ''qemu-process-scan-before.txt''))),
         (''qemu_process_scan_after'', if list_scan then JList [] else JStr (path_str (path_join root_dir ''qemu-process-scan-after.txt''))),
         (''tmux_sessions_after'', JList []), (''timeout_pid'', JStr ''timeout-supervised-foreground''), (''timeout_rc'', JInt 0),
         (''process_group_reaped'', JBool True), (''temp_dirs_removed'', JBool True)]
      else [])"

definition bundle_summary :: "path \<Rightarrow> string \<Rightarrow> string \<Rightarrow> bool \<Rightarrow> bool \<Rightarrow> bool \<Rightarrow> string \<Rightarrow> bool \<Rightarrow> string option \<Rightarrow> json_object" where
  "bundle_summary root_dir git_sha bpf_sha cleanup reused git_dirty status list_scan dirty_snapshot =
     [(''schema'', JStr ''zig-scheduler/run-all-lab/v1''), (''status'', JStr status), (''evidence_mode'', JStr ''vm-live''),
      (''git_dirty'', JBool git_dirty), (''git_sha'', JStr git_sha), (''bpf_object_sha256'', JStr bpf_sha),
      (''output_dir'', JStr (path_str root_dir)), (''output_dir_created_fresh'', JBool (\<not> reused)),
      (''cleanup'', JObj (cleanup_receipt root_dir cleanup list_scan)), (''host_mutation'', JBool False)] @
     (case dirty_snapshot of None \<Rightarrow> [] | Some snapshot \<Rightarrow> [(''dirty_tree_snapshot_sha256'', JStr snapshot)])"

definition self_test_manifest :: "path \<Rightarrow> string \<Rightarrow> string \<Rightarrow> json_object" where
  "self_test_manifest bundle git_sha dirty_snapshot =
     [(''schema'', JStr ''zig-scheduler/task-09-provenance/v1''), (''status'', JStr ''PASS''), (''repo_head'', JStr git_sha),
      (''git_dirty'', JBool True), (''dirty_tree_snapshot_sha256'', JStr dirty_snapshot), (''copied_bundle_summary'', JStr (path_str bundle))]"

section \<open>Paths inside a bundle\<close>

lemma path_parents_iff: "q \<in> set (p # path_parents p) \<longleftrightarrow> path_root q = path_root p \<and> prefix (path_comps q) (path_comps p)"
proof -
  have parents: "q \<in> set (path_parents p) \<longleftrightarrow> path_root q = path_root p \<and> (\<exists>n < length (path_comps p). path_comps q = take n (path_comps p))"
    by (cases q) (auto simp: path_parents_def image_iff)
  have "q \<in> set (p # path_parents p) \<longleftrightarrow> path_root q = path_root p \<and> (\<exists>n \<le> length (path_comps p). path_comps q = take n (path_comps p))"
    using parents by (cases p; cases q) (auto simp: le_less intro: exI[of _ "length (path_comps p)"])
  also have "(\<exists>n \<le> length (path_comps p). path_comps q = take n (path_comps p)) \<longleftrightarrow> prefix (path_comps q) (path_comps p)"
    by (metis append_eq_conv_conj nle_le prefix_def take_all take_is_prefix)
  finally show ?thesis .
qed

section \<open>What acceptance means\<close>

lemma require_text_bf_ok_iff [ok_iff]: "require_text_bf d f = Inr s \<longleftrightarrow> jget d f = JStr s \<and> s \<noteq> []"
  by (simp add: require_text_bf_def case_option_Inl text_of_iff)

lemma require_bool_bf_ok_iff [ok_iff]: "require_bool_bf d f = Inr b \<longleftrightarrow> jget d f = JBool b"
  by (auto simp: require_bool_bf_def bool_of_iff split: option.splits)

lemma require_object_bf_ok_iff [ok_iff]: "require_object_bf d f = Inr row \<longleftrightarrow> jget d f = JObj row"
  by (auto simp: require_object_bf_def obj_of_iff split: option.splits)

lemma require_equal_ok_iff [ok_iff]: "require_equal a b f = Inr u \<longleftrightarrow> a = b"
  by (simp add: require_equal_def ok_iff)

text \<open>A scan of the processes that lies in the bundle and does not show the machine of the lab.\<close>

definition clean_scan :: "git_tools \<Rightarrow> env \<Rightarrow> json \<Rightarrow> path \<Rightarrow> bool" where
  "clean_scan tools env v bundle_root \<longleftrightarrow>
     (\<exists>s content. v = JStr s \<and> s \<noteq> [] \<and> safe_path (mk_path s) \<and> fs_exists env (mk_path s) \<and> path_root bundle_root = [] \<and>
        prefix (path_comps bundle_root) (path_comps (mk_path s)) \<and> read_replace tools env (mk_path s) = Inr content \<and>
        \<not> contains ''zig-scheduler-microvm-live-lab'' content)"

lemma validate_qemu_scan_ok_iff: "validate_qemu_scan tools env v bundle_root f = Inr u \<longleftrightarrow> clean_scan tools env v bundle_root"
proof -
  have safe: "\<not> (is_absolute p \<or> ''..'' \<in> set (path_parts p) \<or> \<not> e) \<longleftrightarrow> safe_path p \<and> e" for p e by (simp add: safe_path_def)
  have rooted: "path_root p = []" if "safe_path p" for p using that by (simp add: safe_path_def is_absolute_def)
  show ?thesis
    unfolding validate_qemu_scan_def clean_scan_def case_option_Inl Let_def thenE_ok_iff bindE_ok_iff raise_if_ok_iff safe not_not path_parents_iff text_of_iff
    using rooted by auto
qed

definition cleaned_up :: "git_tools \<Rightarrow> env \<Rightarrow> json_object \<Rightarrow> path \<Rightarrow> bool" where
  "cleaned_up tools env cleanup bundle_root \<longleftrightarrow>
     (\<forall>f \<in> {''temp_dirs_removed'', ''process_group_reaped''}. jget cleanup f = JBool True) \<and>
     text_of (jget cleanup ''timeout_pid'') \<noteq> None \<and> is_int (jget cleanup ''timeout_rc'') \<and> list_of (jget cleanup ''tmux_sessions_after'') \<noteq> None \<and>
     (\<forall>f \<in> {''qemu_process_scan_before'', ''qemu_process_scan_after''}. clean_scan tools env (jget cleanup f) bundle_root)"

lemma validate_cleanup_ok_iff: "validate_cleanup tools env cleanup bundle_root = Inr u \<longleftrightarrow> cleaned_up tools env cleanup bundle_root"
  unfolding validate_cleanup_def cleaned_up_def thenE_ok_iff raise_if_ok_iff validate_qemu_scan_ok_iff by blast

text \<open>A bundle from a dirty tree carries the digest of that tree, and so does the manifest beside it.\<close>

definition snapshot_backed :: "env \<Rightarrow> json_object \<Rightarrow> path \<Rightarrow> string \<Rightarrow> string \<Rightarrow> bool" where
  "snapshot_backed env summary bundle_path git_sha snapshot \<longleftrightarrow>
     snapshot \<noteq> [] \<and> git_sha \<noteq> [] \<and> jget summary ''dirty_tree_snapshot_sha256'' = JStr snapshot \<and>
     (\<exists>manifest copied. load_object_bf env (path_join (path_parent (path_parent bundle_path)) ''manifest-provenance.json'') = Inr manifest \<and>
        jget manifest ''schema'' = JStr ''zig-scheduler/task-09-provenance/v1'' \<and> jget manifest ''dirty_tree_snapshot_sha256'' = JStr snapshot \<and>
        jget manifest ''repo_head'' = JStr git_sha \<and> jget manifest ''status'' = JStr ''PASS'' \<and> jget manifest ''git_dirty'' = JBool True \<and>
        jget manifest ''copied_bundle_summary'' = JStr copied \<and> copied \<noteq> [] \<and> mk_path copied = bundle_path)"

lemma validate_dirty_snapshot_ok_iff:
  "validate_dirty_snapshot env summary p git_sha snapshot = Inr u \<longleftrightarrow> (\<exists>h. snapshot = Some h \<and> snapshot_backed env summary p git_sha h)"
  unfolding validate_dirty_snapshot_def load_manifest_provenance_def case_option_Inl snapshot_backed_def by (auto simp: ok_iff)

definition fresh_summary :: "git_tools \<Rightarrow> env \<Rightarrow> path \<Rightarrow> string \<Rightarrow> string \<Rightarrow> string option \<Rightarrow> json_object \<Rightarrow> bool" where
  "fresh_summary tools env path git_sha bpf_sha snapshot d \<longleftrightarrow>
     jget d ''schema'' = JStr ''zig-scheduler/run-all-lab/v1'' \<and> jget d ''status'' = JStr ''PASS'' \<and> jget d ''evidence_mode'' = JStr ''vm-live'' \<and>
     jget d ''git_sha'' = JStr git_sha \<and> git_sha \<noteq> [] \<and> jget d ''bpf_object_sha256'' = JStr bpf_sha \<and> bpf_sha \<noteq> [] \<and>
     (jget d ''git_dirty'' = JBool False \<or>
      jget d ''git_dirty'' = JBool True \<and> (\<exists>h. snapshot = Some h \<and> snapshot_backed env d path git_sha h)) \<and>
     jget d ''host_mutation'' = JBool False \<and> jget d ''output_dir_created_fresh'' = JBool True \<and>
     (\<exists>dir. jget d ''output_dir'' = JStr dir \<and> dir \<noteq> [] \<and> mk_path dir = path_parent path) \<and>
     (\<exists>cleanup. jget d ''cleanup'' = JObj cleanup \<and> cleaned_up tools env cleanup (path_parent path))"

lemma validate_fresh_bundle_ok_iff:
  "validate_fresh_bundle tools env path git_sha bpf_sha snapshot = Inr u \<longleftrightarrow>
     (\<exists>d. load_object_bf env path = Inr d \<and> fresh_summary tools env path git_sha bpf_sha snapshot d)"
proof -
  have dirty: "(\<exists>b. v = JBool b \<and> (if b then m else Inr ()) = Inr () \<and> R) \<longleftrightarrow> (v = JBool False \<or> v = JBool True \<and> m = Inr ()) \<and> R" for v m R
    by (cases v) auto
  have eq: "(\<exists>s. (v = JStr s \<and> s \<noteq> []) \<and> s = t \<and> R) \<longleftrightarrow> v = JStr t \<and> t \<noteq> [] \<and> R" for v t R by auto
  show ?thesis
    unfolding validate_fresh_bundle_def bindE_ok_iff thenE_ok_iff require_text_bf_ok_iff require_bool_bf_ok_iff require_object_bf_ok_iff
      require_equal_ok_iff raise_if_ok_iff validate_cleanup_ok_iff not_not dirty eq validate_dirty_snapshot_ok_iff fresh_summary_def ex_bool
    by auto
qed

section \<open>The command\<close>

lemma ensure_canonical_ok:
  assumes "ensure_canonical_bpf_artifacts tools env = Inr (env', a)"
  shows "leads_to tools env env' \<and> describes_object env' CANONICAL_OBJECT CANONICAL_METADATA (object_sha256 a)"
  using assms validate_bpf_artifacts_ok unfolding ensure_canonical_bpf_artifacts_def run_build_bpf_def leads_to_def
  by (fastforce simp: ok_iff split: if_splits)

text \<open>C7: when the freshness command accepts a bundle, \<^verbatim>\<open>git\<close> named a revision and the bundle
  states it; the bundle's BPF hash is the hash of the canonical object, described by its metadata, in the file system
  that a build, if one was needed, left behind; a bundle from a dirty tree carries the digest of the tree as it is now,
  and so does the manifest beside it; the bundle has a directory of its own, denies host mutation, and its process scans
  lie inside it and show no machine of the lab.\<close>

theorem bundle_freshness_current:
  assumes "run_bf self_test tools env [''--bundle'', b] = Inr (env', status)"
  shows "status = 0 \<and> leads_to (tools.truncate tools) env env' \<and>
    (\<exists>head sha snapshot d.
       git_text tools env [''git'', ''rev-parse'', ''HEAD''] = Inr (0, head) \<and>
       describes_object env' CANONICAL_OBJECT CANONICAL_METADATA sha \<and>
       (\<forall>h. snapshot = Some h \<longrightarrow> current_dirty_snapshot_hash tools env = Inr h) \<and>
       load_object_bf env' (mk_path b) = Inr d \<and> fresh_summary tools env' (mk_path b) (strip head) sha snapshot d)"
proof -
  have args: "parse_args_bf [''--bundle'', b] = Inr \<lparr> fresh_bundle = Some (mk_path b), fresh_self_test = False \<rparr>" by (simp add: parse_args_bf_def)
  obtain dirty snapshot git_sha bpf_sha where run:
    "(if dirty then bindE (current_dirty_snapshot_hash tools env) (\<lambda>h. Inr (Some h)) else Inr None) = Inr snapshot"
    "current_git_sha_bf tools env = Inr git_sha" "current_bpf_sha tools env None = Inr (env', bpf_sha)"
    "validate_fresh_bundle tools env' (mk_path b) git_sha bpf_sha snapshot = Inr ()" "status = 0"
    using assms unfolding run_bf_def args bindE_simps by (auto simp: bindE_ok_iff thenE_ok_iff)
  obtain head where "git_text tools env [''git'', ''rev-parse'', ''HEAD''] = Inr (0, head)" "git_sha = strip head"
    using run(2) by (auto simp: current_git_sha_bf_def ok_iff split: if_splits)
  moreover have "\<forall>h. snapshot = Some h \<longrightarrow> current_dirty_snapshot_hash tools env = Inr h"
    using run(1) by (auto simp: bindE_ok_iff split: if_splits)
  moreover have "leads_to (tools.truncate tools) env env' \<and> describes_object env' CANONICAL_OBJECT CANONICAL_METADATA bpf_sha"
    using run(3) ensure_canonical_ok by (fastforce simp: current_bpf_sha_def ok_iff)
  moreover obtain d where "load_object_bf env' (mk_path b) = Inr d" "fresh_summary tools env' (mk_path b) git_sha bpf_sha snapshot d"
    using run(4) unfolding validate_fresh_bundle_ok_iff by blast
  ultimately show ?thesis using run(5) by blast
qed

text \<open>A bundle that was made from a clean tree is judged without the state of the present tree.\<close>

lemma clean_bundle_ignores_tree:
  "jget d ''git_dirty'' = JBool False \<Longrightarrow>
     fresh_summary tools env p git_sha bpf_sha snapshot d \<longleftrightarrow> fresh_summary tools env p git_sha bpf_sha snapshot' d"
  by (simp add: fresh_summary_def)

section \<open>A run\<close>

definition bf_metadata :: json_object where
  "bf_metadata =
     [(''schema'', JStr ''zig-scheduler/bpf-object-metadata/v1''), (''object_sha256'', JStr (replicate 64 CHR ''a'')),
      (''object_hash'', JStr (''sha256:'' @ replicate 64 CHR ''a'')), (''host_mutation'', JBool False),
      (''host_attach_allowed'', JBool False), (''vm_only'', JBool True), (''verification_claimed'', JBool False),
      (''tool_versions'', JObj [(''clang_path'', JStr ''/usr/bin/clang'')])]"

text \<open>A bundle of a dirty tree; the digest of the model's tree is its status output between the two separators.\<close>

definition bf_snapshot :: string where
  "bf_snapshot =
     nul @ ''CMD'' @ nul @ ''git status --porcelain=v1 -z'' @ nul @ ''M x'' @ nul @ ''CMD'' @ nul @ ''git diff --binary HEAD --'' @ nul @ ''M x''"

definition bf_summary :: json_object where
  "bf_summary =
     [(''schema'', JStr ''zig-scheduler/run-all-lab/v1''), (''status'', JStr ''PASS''), (''evidence_mode'', JStr ''vm-live''),
      (''git_sha'', JStr ''f00d''), (''bpf_object_sha256'', JStr (replicate 64 CHR ''a'')), (''git_dirty'', JBool True),
      (''dirty_tree_snapshot_sha256'', JStr bf_snapshot), (''host_mutation'', JBool False), (''output_dir_created_fresh'', JBool True),
      (''output_dir'', JStr ''r/b''),
      (''cleanup'', JObj [(''temp_dirs_removed'', JBool True), (''process_group_reaped'', JBool True), (''timeout_pid'', JStr ''7''),
         (''timeout_rc'', JInt 0), (''qemu_process_scan_before'', JStr ''r/b/q1''), (''qemu_process_scan_after'', JStr ''r/b/q2''),
         (''tmux_sessions_after'', JList [])])]"

definition bf_manifest :: json_object where
  "bf_manifest =
     [(''schema'', JStr ''zig-scheduler/task-09-provenance/v1''), (''status'', JStr ''PASS''), (''repo_head'', JStr ''f00d''),
      (''git_dirty'', JBool True), (''dirty_tree_snapshot_sha256'', JStr bf_snapshot), (''copied_bundle_summary'', JStr ''r/b/summary.json'')]"

definition bf_env :: env where
  "bf_env = files_env
     [(path_str CANONICAL_OBJECT, ''O''), (path_str CANONICAL_METADATA, ''M''), (''r/b/summary.json'', ''S''), (''r/manifest-provenance.json'', ''P''),
      (''r/b/q1'', ''''), (''r/b/q2'', '''')]
     [(path_str CANONICAL_OBJECT, replicate 64 CHR ''a'')] [(''M'', JObj bf_metadata), (''S'', JObj bf_summary), (''P'', JObj bf_manifest)]"

definition bf_tools :: git_tools where
  "bf_tools =
     \<lparr> build_script = (\<lambda>env. Inl (FileNotFoundError ''tools/build_bpf.sh'')), read_replace = fs_read_text,
       git_text = (\<lambda>env cmd. Inr (0, if cmd = [''git'', ''rev-parse'', ''HEAD''] then ''f00d'' @ [CHR 0x0A] else ''M x'')),
       git_bytes = (\<lambda>env cmd. Inr (0, if cmd ! 1 = ''ls-files'' then [] else ''M x'')),
       sha256_hex = (\<lambda>s. s), file_bytes = fs_read_text, utf8_decode = Inr \<rparr>"

lemma bf_env_accepted: "run_bf (Inr ()) bf_tools bf_env [''--bundle'', ''r/b/summary.json''] = Inr (bf_env, 0)"
proof -
  have "case run_bf (Inr ()) bf_tools bf_env [''--bundle'', ''r/b/summary.json''] of Inr (env, status) \<Rightarrow> status = 0 | Inl e \<Rightarrow> False" by code_simp
  then obtain env' where ok: "run_bf (Inr ()) bf_tools bf_env [''--bundle'', ''r/b/summary.json''] = Inr (env', 0)"
    by (auto split: sum.splits)
  have "\<not> canonical_missing bf_env" by code_simp
  then have "env' = bf_env" using ok unfolding run_bf_def parse_args_bf_def current_bpf_sha_def ensure_canonical_bpf_artifacts_def
    by (auto simp: ok_iff split: if_splits)
  with ok show ?thesis by simp
qed

theorem bundle_freshness_current_witness:
  "\<exists>sha snapshot d. describes_object bf_env CANONICAL_OBJECT CANONICAL_METADATA sha \<and>
     fresh_summary bf_tools bf_env (mk_path ''r/b/summary.json'') ''f00d'' sha snapshot d"
proof -
  have "strip (''f00d'' @ [CHR 0x0A]) = ''f00d''" by code_simp
  then show ?thesis using bundle_freshness_current[OF bf_env_accepted] by (auto simp: bf_tools_def)
qed

section \<open>The verdicts of the self-test\<close>

lemma split_on_join: "ws \<noteq> [] \<Longrightarrow> \<forall>w \<in> set ws. sep \<notin> set w \<Longrightarrow> split_on sep (join [sep] ws) = ws"
  by (induction "[sep]" ws rule: join.induct) (simp_all add: split_on_append split_on_single)

text \<open>A relative path as \<^verbatim>\<open>Path\<close> builds it: writing it out and reading it back changes nothing.\<close>

definition relative_path :: "path \<Rightarrow> bool" where
  "relative_path p \<longleftrightarrow> path_root p = [] \<and> path_comps p \<noteq> [] \<and>
     (\<forall>c \<in> set (path_comps p). c \<noteq> [] \<and> c \<noteq> ''.'' \<and> c \<noteq> ''..'' \<and> CHR ''/'' \<notin> set c)"

lemma relative_path_roundtrip:
  assumes "relative_path p"
  shows "mk_path (path_str p) = p" and "path_str p \<noteq> []" and "safe_path p"
proof -
  obtain c cs where p: "p = Path [] (c # cs)" using assms by (cases p; cases "path_comps p") (auto simp: relative_path_def)
  have c: "c \<noteq> []" "hd c \<noteq> CHR ''/''" using assms by (cases c; force simp: relative_path_def p)+
  have str: "path_str p = join ''/'' (c # cs)" by (simp add: path_str_def p)
  have split: "split_on CHR ''/'' (join ''/'' (c # cs)) = c # cs"
    using assms split_on_join[of "c # cs" "CHR ''/''"] by (simp add: relative_path_def p)
  have "\<not> prefix ''/'' (join ''/'' (c # cs))" using c by (cases cs; cases c) auto
  moreover have "filter (\<lambda>d. d \<noteq> [] \<and> d \<noteq> ''.'') (c # cs) = c # cs" using assms unfolding filter_id_conv by (auto simp: relative_path_def p)
  ultimately show "mk_path (path_str p) = p" unfolding mk_path_def str split by (simp only: p if_True not_False_eq_True)
  show "path_str p \<noteq> []" unfolding str using c by (cases cs) auto
  show "safe_path p" using assms by (auto simp: safe_path_def is_absolute_def path_parts_def relative_path_def)
qed

definition file_name :: "string \<Rightarrow> bool" where
  "file_name s \<longleftrightarrow> s \<noteq> [] \<and> s \<noteq> ''.'' \<and> s \<noteq> ''..'' \<and> CHR ''/'' \<notin> set s"

lemma mk_path_file_name: "file_name s \<Longrightarrow> mk_path s = Path [] [s]"
  by (cases s) (auto simp: file_name_def mk_path_def split_on_single)

lemma path_join_file_name: "relative_path p \<Longrightarrow> file_name s \<Longrightarrow> path_join p s = Path [] (path_comps p @ [s])"
  by (simp add: path_join_def mk_path_file_name is_absolute_def relative_path_def)

lemma relative_path_join: "relative_path p \<Longrightarrow> file_name s \<Longrightarrow> relative_path (path_join p s)"
  by (auto simp: path_join_file_name relative_path_def file_name_def)

lemma self_test_file_names:
  "file_name ''summary.json''" "file_name ''qemu-process-scan-before.txt''" "file_name ''qemu-process-scan-after.txt''"
  by (simp_all add: file_name_def)

text \<open>An object as it is read back after it was written with sorted keys: the order of the keys may differ.\<close>

definition read_back :: "json_object \<Rightarrow> json_object \<Rightarrow> bool" where
  "read_back d doc \<longleftrightarrow>
     (\<forall>f. case jget doc f of JObj row \<Rightarrow> (\<exists>row'. jget d f = JObj row' \<and> (\<forall>g. jget row' g = jget row g)) | v \<Rightarrow> jget d f = v)"

lemma read_back_field: "read_back d doc \<Longrightarrow> \<not> is_obj (jget doc f) \<Longrightarrow> jget d f = jget doc f"
  unfolding read_back_def by (drule spec[of _ f]) (cases "jget doc f"; simp)

lemma read_back_object: "read_back d doc \<Longrightarrow> jget doc f = JObj row \<Longrightarrow> \<exists>row'. jget d f = JObj row' \<and> (\<forall>g. jget row' g = jget row g)"
  unfolding read_back_def by (drule spec[of _ f]) simp

lemma receipt_cleaned_up:
  assumes "relative_path root_dir" and "\<forall>g. jget row g = jget (cleanup_receipt root_dir cleanup list_scan) g"
    and "cleanup \<Longrightarrow> \<forall>s \<in> {''qemu-process-scan-before.txt'', ''qemu-process-scan-after.txt''}.
           fs_exists env (path_join root_dir s) \<and> read_replace tools env (path_join root_dir s) = Inr []"
  shows "cleaned_up tools env row root_dir \<longleftrightarrow> cleanup \<and> \<not> list_scan"
proof (cases "cleanup \<and> \<not> list_scan")
  case True
  have scan: "clean_scan tools env (JStr (path_str (path_join root_dir s))) root_dir"
    if s: "s \<in> {''qemu-process-scan-before.txt'', ''qemu-process-scan-after.txt''}" for s
  proof -
    have name: "file_name s" using s self_test_file_names by blast
    note path = relative_path_roundtrip[OF relative_path_join[OF assms(1) name]]
    have "path_root root_dir = []" "prefix (path_comps root_dir) (path_comps (path_join root_dir s))"
      using assms(1) name by (simp_all add: relative_path_def path_join_file_name)
    moreover have "\<not> contains ''zig-scheduler-microvm-live-lab'' []" by simp
    ultimately show ?thesis unfolding clean_scan_def using path assms(3) True s by (intro exI[of _ "path_str (path_join root_dir s)"] exI[of _ "[]"]) auto
  qed
  show ?thesis using True scan assms(2) by (auto simp: cleaned_up_def cleanup_receipt_def jget_def)
next
  case False
  then show ?thesis using assms(2) by (cases cleanup) (auto simp: cleaned_up_def cleanup_receipt_def clean_scan_def jget_def)
qed

lemma summary_fields:
  "jget (bundle_summary root_dir git_sha bpf_sha cleanup reused git_dirty status list_scan snap) ''schema'' = JStr ''zig-scheduler/run-all-lab/v1''"
  "jget (bundle_summary root_dir git_sha bpf_sha cleanup reused git_dirty status list_scan snap) ''status'' = JStr status"
  "jget (bundle_summary root_dir git_sha bpf_sha cleanup reused git_dirty status list_scan snap) ''evidence_mode'' = JStr ''vm-live''"
  "jget (bundle_summary root_dir git_sha bpf_sha cleanup reused git_dirty status list_scan snap) ''git_dirty'' = JBool git_dirty"
  "jget (bundle_summary root_dir git_sha bpf_sha cleanup reused git_dirty status list_scan snap) ''git_sha'' = JStr git_sha"
  "jget (bundle_summary root_dir git_sha bpf_sha cleanup reused git_dirty status list_scan snap) ''bpf_object_sha256'' = JStr bpf_sha"
  "jget (bundle_summary root_dir git_sha bpf_sha cleanup reused git_dirty status list_scan snap) ''output_dir'' = JStr (path_str root_dir)"
  "jget (bundle_summary root_dir git_sha bpf_sha cleanup reused git_dirty status list_scan snap) ''output_dir_created_fresh'' = JBool (\<not> reused)"
  "jget (bundle_summary root_dir git_sha bpf_sha cleanup reused git_dirty status list_scan snap) ''cleanup'' = JObj (cleanup_receipt root_dir cleanup list_scan)"
  "jget (bundle_summary root_dir git_sha bpf_sha cleanup reused git_dirty status list_scan snap) ''host_mutation'' = JBool False"
  "jget (bundle_summary root_dir git_sha bpf_sha cleanup reused git_dirty status list_scan snap) ''dirty_tree_snapshot_sha256'' =
     (case snap of None \<Rightarrow> JNull | Some s \<Rightarrow> JStr s)"
  by (simp_all add: bundle_summary_def jget_def split: option.splits)

lemma manifest_fields:
  "jget (self_test_manifest b git_sha s) ''schema'' = JStr ''zig-scheduler/task-09-provenance/v1''"
  "jget (self_test_manifest b git_sha s) ''status'' = JStr ''PASS''"
  "jget (self_test_manifest b git_sha s) ''repo_head'' = JStr git_sha"
  "jget (self_test_manifest b git_sha s) ''git_dirty'' = JBool True"
  "jget (self_test_manifest b git_sha s) ''dirty_tree_snapshot_sha256'' = JStr s"
  "jget (self_test_manifest b git_sha s) ''copied_bundle_summary'' = JStr (path_str b)"
  by (simp_all add: self_test_manifest_def jget_def)

text \<open>C19: the verdict on a bundle that the self-test wrote. With the summary, the two empty scans and, for a dirty
  bundle of the present tree, the manifest beside it in place, the check accepts the bundle exactly when it has the
  present revision and BPF hash, a receipt with scan files, a directory of its own and a pass, and, if it is dirty, the
  digest of the present tree: so the two good cases are accepted and the eight spoilt ones are not.\<close>

theorem freshness_verdicts:
  assumes "relative_path root_dir" and bundle_at: "bundle = path_join root_dir ''summary.json''"
    and "load_object_bf env bundle = Inr d" and "read_back d (bundle_summary root_dir git_sha bpf_sha cleanup reused git_dirty status list_scan snap)"
    and "cleanup \<Longrightarrow> \<forall>s \<in> {''qemu-process-scan-before.txt'', ''qemu-process-scan-after.txt''}.
           fs_exists env (path_join root_dir s) \<and> read_replace tools env (path_join root_dir s) = Inr []"
    and "snap = Some current \<Longrightarrow> load_object_bf env (path_join (path_parent root_dir) ''manifest-provenance.json'') = Inr m \<and>
           read_back m (self_test_manifest bundle git_sha current)"
    and nonempty: "head_sha \<noteq> []" "object_sha \<noteq> []" "current \<noteq> []"
  shows "validate_fresh_bundle tools env bundle head_sha object_sha (Some current) = Inr () \<longleftrightarrow>
    git_sha = head_sha \<and> bpf_sha = object_sha \<and> cleanup \<and> \<not> list_scan \<and> \<not> reused \<and> status = ''PASS'' \<and> (git_dirty \<longrightarrow> snap = Some current)"
proof -
  note field = read_back_field[OF assms(4)]
  have texts: "jget d ''schema'' = JStr ''zig-scheduler/run-all-lab/v1''" "jget d ''status'' = JStr status" "jget d ''evidence_mode'' = JStr ''vm-live''"
    "jget d ''git_dirty'' = JBool git_dirty" "jget d ''git_sha'' = JStr git_sha" "jget d ''bpf_object_sha256'' = JStr bpf_sha"
    "jget d ''output_dir'' = JStr (path_str root_dir)" "jget d ''output_dir_created_fresh'' = JBool (\<not> reused)" "jget d ''host_mutation'' = JBool False"
    "jget d ''dirty_tree_snapshot_sha256'' = (case snap of None \<Rightarrow> JNull | Some s \<Rightarrow> JStr s)"
    using summary_fields field by (simp_all split: option.splits)
  obtain row where row: "jget d ''cleanup'' = JObj row" "\<forall>g. jget row g = jget (cleanup_receipt root_dir cleanup list_scan) g"
    using read_back_object[OF assms(4) summary_fields(9)] by blast
  have parent: "path_parent bundle = root_dir" using assms(1) unfolding bundle_at path_join_file_name[OF assms(1) self_test_file_names(1)]
    by (cases root_dir) (simp add: path_parent_def relative_path_def)
  have "snapshot_backed env d bundle head_sha current" if "snap = Some current" "git_sha = head_sha"
  proof -
    have m: "load_object_bf env (path_join (path_parent root_dir) ''manifest-provenance.json'') = Inr m"
      and again: "read_back m (self_test_manifest bundle git_sha current)" using assms(6) that by blast+
    note path = relative_path_roundtrip[OF relative_path_join[OF assms(1) self_test_file_names(1)], folded bundle_at]
    show ?thesis unfolding snapshot_backed_def parent
      using m texts(10) that nonempty path read_back_field[OF again] manifest_fields by auto
  qed
  moreover have "snap = Some current" if "snapshot_backed env d bundle head_sha current"
    using that texts(10) by (auto simp: snapshot_backed_def split: option.splits)
  moreover have "cleaned_up tools env row root_dir \<longleftrightarrow> cleanup \<and> \<not> list_scan" by (rule receipt_cleaned_up[OF assms(1) row(2) assms(5)])
  ultimately show ?thesis
    unfolding validate_fresh_bundle_ok_iff fresh_summary_def parent using assms(3) texts(1-9) row(1) nonempty relative_path_roundtrip[OF assms(1)] by auto
qed

lemma read_back_refl: "read_back d d"
  by (auto simp: read_back_def split: json.splits)

definition case_dir :: path where
  "case_dir = Path [] [''r'', ''b'']"

definition case_env :: env where
  "case_env = files_env
     [(''r/b/summary.json'', ''S''), (''r/manifest-provenance.json'', ''P''), (''r/b/qemu-process-scan-before.txt'', []), (''r/b/qemu-process-scan-after.txt'', [])] []
     [(''S'', JObj (bundle_summary case_dir ''f'' ''a'' True False True ''PASS'' False (Some ''2''))),
      (''P'', JObj (self_test_manifest (path_join case_dir ''summary.json'') ''f'' ''2''))]"

theorem freshness_verdicts_witness:
  "validate_fresh_bundle bf_tools case_env (path_join case_dir ''summary.json'') ''f'' ''a'' (Some ''2'') = Inr ()"
proof -
  have "relative_path case_dir" by (simp add: relative_path_def case_dir_def)
  moreover have "load_object_bf case_env (path_join case_dir ''summary.json'') =
      Inr (bundle_summary case_dir ''f'' ''a'' True False True ''PASS'' False (Some ''2''))"
    "load_object_bf case_env (path_join (path_parent case_dir) ''manifest-provenance.json'') =
      Inr (self_test_manifest (path_join case_dir ''summary.json'') ''f'' ''2'')" by code_simp+
  moreover have "fs_exists case_env (path_join case_dir ''qemu-process-scan-before.txt'') \<and>
      read_replace bf_tools case_env (path_join case_dir ''qemu-process-scan-before.txt'') = Inr []"
    "fs_exists case_env (path_join case_dir ''qemu-process-scan-after.txt'') \<and>
      read_replace bf_tools case_env (path_join case_dir ''qemu-process-scan-after.txt'') = Inr []" by code_simp+
  ultimately show ?thesis using freshness_verdicts[OF _ refl _ read_back_refl] read_back_refl by fastforce
qed

end
