(* ===== verification/DaemonAssert.thy ===== *)
theory DaemonAssert
  imports Readers
begin

text \<open>
  \<^verbatim>\<open>tools/daemon_stdio_assert.py\<close>: what the transcript of one daemon session has to show, by test mode. The
  checks are about the order of the rows: nothing passes after an incident, and an alert follows the sample that
  caused it.
\<close>

section \<open>Model\<close>

datatype daemon_mode =
    LIFECYCLE_SUCCESS | LIFECYCLE_FIXTURE_REJECTED | LOST_STREAM | TIMEOUT | INCIDENT_DRILL | DUPLICATE_TARGET
  | MISSING_TARGET | MISSING_AUDIT | MALFORMED_DEFAULT | FAILED_ROLLBACK_REPLAY | FAILED_CLEANUP_REPLAY
  | FAILED_LIVE_ROLLBACK | FAILED_LIVE_CLEANUP | JOURNAL_REPLAY | ACTIVE_ROLLBACK | STOP_CLEANUP | RUNTIME_ALERT_ORDERING

definition mode_values :: "(string \<times> daemon_mode) list" where
  "mode_values =
     [(''lifecycle-success'', LIFECYCLE_SUCCESS), (''lifecycle-fixture-rejected'', LIFECYCLE_FIXTURE_REJECTED),
      (''lost-stream'', LOST_STREAM), (''timeout'', TIMEOUT), (''incident-drill'', INCIDENT_DRILL),
      (''duplicate-target'', DUPLICATE_TARGET), (''missing-target'', MISSING_TARGET), (''missing-audit'', MISSING_AUDIT),
      (''malformed-default'', MALFORMED_DEFAULT), (''failed-rollback-replay'', FAILED_ROLLBACK_REPLAY),
      (''failed-cleanup-replay'', FAILED_CLEANUP_REPLAY), (''failed-live-rollback'', FAILED_LIVE_ROLLBACK),
      (''failed-live-cleanup'', FAILED_LIVE_CLEANUP), (''journal-replay'', JOURNAL_REPLAY),
      (''active-rollback'', ACTIVE_ROLLBACK), (''stop-cleanup'', STOP_CLEANUP),
      (''runtime-alert-ordering'', RUNTIME_ALERT_ORDERING)]"

record daemon_row =
  dr_event :: string
  dr_status :: string
  dr_state :: string
  dr_reason :: string
  dr_action_id :: string
  dr_target_action_id :: string
  dr_rollback_id :: string
  dr_host_mutation :: bool
  dr_nr_rejected :: string
  dr_workload_alive :: "bool option"

text \<open>\<^verbatim>\<open>fail\<close>; the label is \<^verbatim>\<open>MODE_LABEL\<close>, the raw argument of the command.\<close>

definition fail_da :: "string \<Rightarrow> string \<Rightarrow> exn" where
  "fail_da label message = SystemExit (msg [''FAIL: '', label, '': '', message])"

text \<open>
  \<^verbatim>\<open>DaemonRow.field\<close>, with a text as \<open>Inl\<close> and a flag as \<open>Inr\<close>; every field has one of these types,
  so the branch for another type does not arise.
\<close>

definition row_field :: "string \<Rightarrow> daemon_row \<Rightarrow> string \<Rightarrow> (string + bool) result" where
  "row_field label row name =
     (if name = ''event'' then Inr (Inl (dr_event row))
      else if name = ''status'' then Inr (Inl (dr_status row))
      else if name = ''state'' then Inr (Inl (dr_state row))
      else if name = ''reason'' then Inr (Inl (dr_reason row))
      else if name = ''action_id'' then Inr (Inl (dr_action_id row))
      else if name = ''target_action_id'' then Inr (Inl (dr_target_action_id row))
      else if name = ''rollback_id'' then Inr (Inl (dr_rollback_id row))
      else if name = ''host_mutation'' then Inr (Inr (dr_host_mutation row))
      else if name = ''nr_rejected'' then Inr (Inl (dr_nr_rejected row))
      else if name = ''workload_alive'' then Inr (Inr (dr_workload_alive row = Some True))
      else Inl (fail_da label (msg [''unknown daemon row field: '', name])))"

definition string_field :: "json_object \<Rightarrow> string \<Rightarrow> string" where
  "string_field row name = (case str_of (jget row name) of Some s \<Rightarrow> s | None \<Rightarrow> [])"

definition parse_row :: "string \<Rightarrow> json \<Rightarrow> daemon_row result" where
  "parse_row label raw =
     (case obj_of raw of
        None \<Rightarrow> Inl (fail_da label (msg [''daemon row is not an object: '', py_str raw]))
      | Some d \<Rightarrow>
          (case bool_of (jget d ''host_mutation'') of
             None \<Rightarrow> Inl (fail_da label (msg [''host_mutation is not boolean: '', py_str raw]))
           | Some host_mutation \<Rightarrow>
               Inr \<lparr> dr_event = string_field d ''event'', dr_status = string_field d ''status'', dr_state = string_field d ''state'',
                 dr_reason = string_field d ''reason'', dr_action_id = string_field d ''action_id'',
                 dr_target_action_id = string_field d ''target_action_id'', dr_rollback_id = string_field d ''rollback_id'',
                 dr_host_mutation = host_mutation, dr_nr_rejected = string_field d ''nr_rejected'',
                 dr_workload_alive = bool_of (jget d ''workload_alive'') \<rparr>))"

text \<open>The \<^verbatim>\<open>repr\<close> that the dataclass decorator generates.\<close>

definition row_repr :: "daemon_row \<Rightarrow> string" where
  "row_repr row =
     (let flag = (\<lambda>b. if b then ''True'' else ''False'') in
      (msg [''DaemonRow(event='', repr_str (dr_event row), '', status='', repr_str (dr_status row), '', state='', repr_str (dr_state row), '', reason='', repr_str (dr_reason row), '', action_id='', repr_str (dr_action_id row), '', target_action_id='', repr_str (dr_target_action_id row), '', rollback_id='', repr_str (dr_rollback_id row), '', host_mutation='', flag (dr_host_mutation row), '', nr_rejected='', repr_str (dr_nr_rejected row), '', workload_alive='', case dr_workload_alive row of None \<Rightarrow> ''None'' | Some b \<Rightarrow> flag b, '')'']))"

definition load_rows_da :: "env \<Rightarrow> string \<Rightarrow> string \<Rightarrow> daemon_row list result" where
  "load_rows_da env label stdin =
     (bindE (mapE (\<lambda>line. bindE (json_loads env (strip line)) (parse_row label))
         (filter (\<lambda>line. prefix ''{'' (strip line)) (splitlines stdin))) (\<lambda>rows.
     thenE (raise_if (rows = []) (fail_da label ''no JSON daemon rows'')) (
     thenE (forE (\<lambda>row. raise_if (dr_host_mutation row) (fail_da label (msg [''host_mutation is not false: '', row_repr row]))) rows) (
     Inr rows))))"

text \<open>\<^verbatim>\<open>all\<close> and \<^verbatim>\<open>any\<close> over a generator stop at the first item that decides them.\<close>

fun all_of :: "('a \<Rightarrow> bool result) \<Rightarrow> 'a list \<Rightarrow> bool result" where
  "all_of p [] = Inr True"
| "all_of p (x # xs) = bindE (p x) (\<lambda>b. if b then all_of p xs else Inr False)"

fun any_of :: "('a \<Rightarrow> bool result) \<Rightarrow> 'a list \<Rightarrow> bool result" where
  "any_of p [] = Inr False"
| "any_of p (x # xs) = bindE (p x) (\<lambda>b. if b then Inr True else any_of p xs)"

definition row_matches :: "string \<Rightarrow> (string \<times> string) list \<Rightarrow> daemon_row \<Rightarrow> bool result" where
  "row_matches label want row = all_of (\<lambda>(key, value). bindE (row_field label row key) (\<lambda>found. Inr (found = Inl value))) want"

definition has_da :: "string \<Rightarrow> daemon_row list \<Rightarrow> (string \<times> string) list \<Rightarrow> bool result" where
  "has_da label rows want = any_of (row_matches label want) rows"

fun matching :: "string \<Rightarrow> daemon_row list \<Rightarrow> (string \<times> string) list \<Rightarrow> daemon_row list result" where
  "matching label [] want = Inr []"
| "matching label (row # rows) want =
     (bindE (row_matches label want row) (\<lambda>b.
     bindE (matching label rows want) (\<lambda>rest.
     Inr (if b then row # rest else rest))))"

text \<open>\<^verbatim>\<open>if not has(...): fail(...)\<close> and \<^verbatim>\<open>if has(...): fail(...)\<close>.\<close>

definition require_row :: "string \<Rightarrow> daemon_row list \<Rightarrow> (string \<times> string) list \<Rightarrow> string \<Rightarrow> check" where
  "require_row label rows want message = bindE (has_da label rows want) (\<lambda>b. raise_if (\<not> b) (fail_da label message))"

definition reject_row :: "string \<Rightarrow> daemon_row list \<Rightarrow> (string \<times> string) list \<Rightarrow> string \<Rightarrow> check" where
  "reject_row label rows want message = bindE (has_da label rows want) (\<lambda>b. raise_if b (fail_da label message))"

definition incident_step :: "string \<Rightarrow> bool \<Rightarrow> daemon_row \<Rightarrow> bool result" where
  "incident_step label incident_seen row =
     (let incident_seen = (incident_seen \<or> dr_event row = ''incident'') in
      if incident_seen \<and> dr_event row = ''stage_finished'' \<and> dr_status row = ''PASS''
      then Inl (fail_da label (msg [''incident followed by PASS terminal row: '', row_repr row]))
      else Inr incident_seen)"

definition reject_incident_then_pass :: "string \<Rightarrow> daemon_row list \<Rightarrow> check" where
  "reject_incident_then_pass label rows = bindE (foldE (incident_step label) False rows) (\<lambda>_. Inr ())"

definition require_non_pass_terminal :: "string \<Rightarrow> daemon_row list \<Rightarrow> check" where
  "require_non_pass_terminal label rows =
     (bindE (matching label rows [(''event'', ''stage_finished'')]) (\<lambda>terminals.
     thenE (raise_if (terminals = []) (fail_da label ''missing terminal stage_finished row'')) (
     raise_if (list_ex (\<lambda>row. dr_status row = ''PASS'') terminals)
         (fail_da label (msg [''terminal stage_finished unexpectedly passed: ['', join '', '' (map row_repr terminals), '']''])))))"

definition assert_lifecycle_success :: "string \<Rightarrow> daemon_row list \<Rightarrow> check" where
  "assert_lifecycle_success label rows =
     (thenE (forE (\<lambda>event. raise_if (\<not> list_ex (\<lambda>row. dr_event row = event) rows) (fail_da label (msg [''missing '', event])))
         [''runtime_sample'', ''rollback'', ''cleanup'']) (
     thenE (raise_if (list_ex (\<lambda>row. dr_event row = ''incident'') rows) (fail_da label ''unexpected incident in success lifecycle'')) (
     require_row label rows [(''event'', ''stage_finished''), (''status'', ''PASS''), (''state'', ''vm_live_complete'')]
         ''missing final vm_live_complete PASS'')))"

definition assert_active_rollback :: "string \<Rightarrow> daemon_row list \<Rightarrow> check" where
  "assert_active_rollback label rows =
     (thenE (require_row label rows
         [(''event'', ''rollback_completed''), (''action_id'', ''rb-live-rollback-1''), (''target_action_id'', ''live-rollback-1''),
         (''rollback_id'', ''RB-rollback-1''), (''state'', ''rolled_back''), (''status'', ''PASS'')]
         ''missing semantic rollback completion for active target'') (
     raise_if (list_ex (\<lambda>row. dr_reason row \<in> {''stale_target'', ''stale_rollback_id''}) rows)
         (fail_da label ''active rollback was refused as stale'')))"

definition assert_stop_cleanup :: "string \<Rightarrow> daemon_row list \<Rightarrow> check" where
  "assert_stop_cleanup label rows =
     (thenE (require_row label rows
         [(''event'', ''cleanup''), (''action_id'', ''stop-live-1''), (''target_action_id'', ''live-stop-1''),
         (''rollback_id'', ''RB-stop-1''), (''state'', ''clean''), (''status'', ''PASS'')]
         ''missing first stop cleanup completion'') (
     require_row label rows
         [(''event'', ''cleanup''), (''action_id'', ''stop-live-2''), (''target_action_id'', ''live-stop-1''),
         (''rollback_id'', ''RB-stop-1''), (''state'', ''clean''), (''status'', ''already_clean'')]
         ''missing idempotent second stop cleanup completion''))"

definition assert_failed_live :: "string \<Rightarrow> daemon_row list \<Rightarrow> string \<Rightarrow> check" where
  "assert_failed_live label rows event =
     thenE (require_row label rows [(''event'', event), (''status'', ''FAIL''), (''state'', ''incident'')] (msg [''missing failed live '', event, '' event'']))
       (thenE (require_row label rows [(''event'', ''stage_finished''), (''status'', ''INCIDENT''), (''state'', ''unsafe_to_assume'')]
                ''failed live stream did not terminate as INCIDENT'')
         (require_row label rows [(''event'', ''refusal''), (''reason'', ''duplicate_target_id'')]
           ''failed live terminal event cleared active target; duplicate target was not refused''))"

definition assert_incident_terminal :: "string \<Rightarrow> daemon_row list \<Rightarrow> check" where
  "assert_incident_terminal label rows =
     (thenE (raise_if (\<not> list_ex (\<lambda>row. dr_event row = ''incident'') rows) (fail_da label ''missing incident row'')) (
     require_non_pass_terminal label rows))"

text \<open>The state of the loop: \<^verbatim>\<open>rejected_sample_seen\<close> and \<^verbatim>\<open>dead_sample_seen\<close>.\<close>

definition rejected_sample :: "daemon_row \<Rightarrow> bool" where
  "rejected_sample row \<longleftrightarrow> dr_event row = ''runtime_sample'' \<and> dr_nr_rejected row \<notin> {[], ''0''}"

definition dead_sample :: "daemon_row \<Rightarrow> bool" where
  "dead_sample row \<longleftrightarrow> dr_event row = ''runtime_sample'' \<and> dr_workload_alive row = Some False"

definition alert_step_da :: "string \<Rightarrow> bool \<times> bool \<Rightarrow> daemon_row \<Rightarrow> (bool \<times> bool) result" where
  "alert_step_da label = (\<lambda>(rejected_sample_seen, dead_sample_seen) row.
     let rejected_sample_seen = (rejected_sample_seen \<or> rejected_sample row);
         dead_sample_seen = (dead_sample_seen \<or> dead_sample row)
     in if dr_event row = ''incident'' \<and> dr_reason row = ''runtime_nr_rejected_nonzero'' \<and> \<not> rejected_sample_seen
        then Inl (fail_da label ''nr_rejected incident preceded accepted runtime sample'')
        else if dr_event row = ''incident'' \<and> dr_reason row = ''runtime_workload_dead'' \<and> \<not> dead_sample_seen
        then Inl (fail_da label ''workload_dead incident preceded accepted runtime sample'')
        else Inr (rejected_sample_seen, dead_sample_seen))"

definition require_alert :: "string \<Rightarrow> daemon_row list \<Rightarrow> bool \<Rightarrow> string \<Rightarrow> string \<Rightarrow> check" where
  "require_alert label rows sample_seen reason message =
     (if \<not> sample_seen then Inl (fail_da label message)
      else require_row label rows [(''event'', ''incident''), (''reason'', reason)] message)"

definition assert_runtime_alert_ordering :: "string \<Rightarrow> daemon_row list \<Rightarrow> check" where
  "assert_runtime_alert_ordering label rows =
     bindE (foldE (alert_step_da label) (False, False) rows) (\<lambda>(rejected_sample_seen, dead_sample_seen).
       thenE (require_alert label rows rejected_sample_seen ''runtime_nr_rejected_nonzero'' ''missing ordered nr_rejected runtime alert'')
         (require_alert label rows dead_sample_seen ''runtime_workload_dead'' ''missing ordered workload_dead runtime alert''))"

definition parse_mode :: "string \<Rightarrow> string \<Rightarrow> daemon_mode result" where
  "parse_mode label raw =
     (case map_of mode_values raw of
        None \<Rightarrow> Inl (fail_da label ''unknown json assertion mode'')
      | Some mode \<Rightarrow> Inr mode)"

definition assert_one_mode :: "string \<Rightarrow> daemon_row list \<Rightarrow> daemon_mode \<Rightarrow> check" where
  "assert_one_mode label rows mode =
     (case mode of
        LIFECYCLE_SUCCESS \<Rightarrow> assert_lifecycle_success label rows
      | LIFECYCLE_FIXTURE_REJECTED \<Rightarrow>
          (thenE (require_row label rows [(''event'', ''incident''), (''reason'', ''live_bundle_rejected'')] ''fixture live bundle was not rejected'') (
            thenE (require_row label rows [(''event'', ''stage_finished''), (''status'', ''INCIDENT''), (''state'', ''unsafe_to_assume'')]
                ''fixture live bundle did not terminate as INCIDENT'') (
            reject_row label rows [(''event'', ''stage_finished''), (''status'', ''PASS''), (''state'', ''vm_live_complete'')]
                ''fixture live bundle emitted vm_live_complete PASS'')))
      | LOST_STREAM \<Rightarrow> assert_incident_terminal label rows
      | TIMEOUT \<Rightarrow> assert_incident_terminal label rows
      | INCIDENT_DRILL \<Rightarrow>
          thenE (require_row label rows [(''event'', ''incident''), (''status'', ''INCIDENT''), (''state'', ''incident'')] ''missing incident drill incident row'')
            (require_non_pass_terminal label rows)
      | DUPLICATE_TARGET \<Rightarrow> require_row label rows [(''event'', ''refusal''), (''reason'', ''duplicate_target_id'')] ''duplicate target was not refused''
      | MISSING_TARGET \<Rightarrow> require_row label rows [(''event'', ''refusal''), (''reason'', ''target_id_required'')] ''missing target was not refused''
      | MISSING_AUDIT \<Rightarrow>
          (bindE (has_da label rows [(''event'', ''refusal''), (''reason'', ''malformed_action'')]) (\<lambda>malformed.
            thenE ((if malformed then Inr ()
                else require_row label rows [(''event'', ''refusal''), (''reason'', ''invalid_field'')] ''missing audit_id was not refused'')) (
            raise_if (list_ex (\<lambda>row. dr_event row \<in> {''stage_started'', ''lab_run_active''}) rows)
                (fail_da label ''missing audit_id reached live runner dispatch events''))))
      | MALFORMED_DEFAULT \<Rightarrow>
          raise_if (\<not> list_ex (\<lambda>row. dr_reason row = ''malformed_action'') rows) (fail_da label ''malformed input was not refused'')
      | FAILED_ROLLBACK_REPLAY \<Rightarrow>
          require_row label rows [(''event'', ''refusal''), (''reason'', ''duplicate_target_id'')] ''failed terminal replay cleared active target''
      | FAILED_CLEANUP_REPLAY \<Rightarrow>
          require_row label rows [(''event'', ''refusal''), (''reason'', ''duplicate_target_id'')] ''failed terminal replay cleared active target''
      | FAILED_LIVE_ROLLBACK \<Rightarrow> assert_failed_live label rows ''rollback''
      | FAILED_LIVE_CLEANUP \<Rightarrow> assert_failed_live label rows ''cleanup''
      | JOURNAL_REPLAY \<Rightarrow>
          raise_if (list_ex (\<lambda>row. dr_reason row = ''duplicate_target_id'') rows) (fail_da label ''successful terminal replay left target active'')
      | ACTIVE_ROLLBACK \<Rightarrow> assert_active_rollback label rows
      | STOP_CLEANUP \<Rightarrow> assert_stop_cleanup label rows
      | RUNTIME_ALERT_ORDERING \<Rightarrow> assert_runtime_alert_ordering label rows)"

definition assert_mode :: "string \<Rightarrow> daemon_row list \<Rightarrow> daemon_mode \<Rightarrow> check" where
  "assert_mode label rows mode = thenE (reject_incident_then_pass label rows) (assert_one_mode label rows mode)"

text \<open>The script, on its arguments without the program's name and on standard input.\<close>

definition script_da :: "env \<Rightarrow> string list \<Rightarrow> string \<Rightarrow> check" where
  "script_da env argv stdin =
     (case argv of
        [raw] \<Rightarrow>
          (bindE (load_rows_da env raw stdin) (\<lambda>rows.
            bindE (parse_mode raw raw) (\<lambda>mode.
            assert_mode raw rows mode)))
      | _ \<Rightarrow> Inl (SystemExit ''usage: daemon_stdio_assert.py <mode>''))"

section \<open>Loops that update a state and test it\<close>

text \<open>
  A loop whose step first updates its state and then lets a row pass or not: it runs through exactly when every row
  passes in the state that the rows up to it have built.
\<close>

locale guarded_loop =
  fixes step :: "'s \<Rightarrow> 'a \<Rightarrow> 's result"
    and update :: "'s \<Rightarrow> 'a \<Rightarrow> 's"
    and guard :: "'s \<Rightarrow> 'a \<Rightarrow> bool"
  assumes step_ok: "step s x = Inr s' \<longleftrightarrow> s' = update s x \<and> guard s' x"
begin

lemma loop_ok_iff:
  "foldE step s xs = Inr s' \<longleftrightarrow> s' = foldl update s xs \<and> (\<forall>i < length xs. guard (foldl update s (take (Suc i) xs)) (xs ! i))"
proof (induction xs arbitrary: s)
  case Nil
  then show ?case by auto
next
  case (Cons x xs)
  have "foldE step s (x # xs) = Inr s' \<longleftrightarrow> guard (update s x) x \<and> foldE step (update s x) xs = Inr s'"
    by (auto simp: bindE_ok_iff step_ok)
  then show ?case unfolding Cons.IH by (auto simp: All_less_Suc2)
qed

end

interpretation incident_loop: guarded_loop "incident_step label" "\<lambda>seen row. seen \<or> dr_event row = ''incident''"
  "\<lambda>seen row. \<not> (seen \<and> dr_event row = ''stage_finished'' \<and> dr_status row = ''PASS'')" for label
  by unfold_locales (auto simp: incident_step_def Let_def)

interpretation alert_loop: guarded_loop "alert_step_da label" "\<lambda>(a, b) row. (a \<or> rejected_sample row, b \<or> dead_sample row)"
  "\<lambda>(a, b) row. (dr_event row = ''incident'' \<and> dr_reason row = ''runtime_nr_rejected_nonzero'' \<longrightarrow> a) \<and>
     (dr_event row = ''incident'' \<and> dr_reason row = ''runtime_workload_dead'' \<longrightarrow> b)" for label
  by unfold_locales (auto simp: alert_step_da_def Let_def split: if_splits)

text \<open>A latch remembers whether a row of some kind has gone by.\<close>

lemma foldl_latch: "foldl (\<lambda>seen x. seen \<or> P x) b xs \<longleftrightarrow> b \<or> (\<exists>x \<in> set xs. P x)"
  by (induction xs arbitrary: b) auto

lemma foldl_two_latches:
  "foldl (\<lambda>(a, b) x. (a \<or> P x, b \<or> Q x)) (a, b) xs = (a \<or> (\<exists>x \<in> set xs. P x), b \<or> (\<exists>x \<in> set xs. Q x))"
  by (induction xs arbitrary: a b) auto

lemma set_take_Suc: "i < length xs \<Longrightarrow> (\<exists>x \<in> set (take (Suc i) xs). P x) \<longleftrightarrow> (\<exists>j \<le> i. P (xs ! j))"
  by (auto simp: nth_image[symmetric] less_Suc_eq_le)

section \<open>Looking up rows\<close>

text \<open>The fields that the checks ask for.\<close>

definition text_fields :: "(string \<times> (daemon_row \<Rightarrow> string)) list" where
  "text_fields =
     [(''event'', dr_event), (''status'', dr_status), (''state'', dr_state), (''reason'', dr_reason), (''action_id'', dr_action_id),
      (''target_action_id'', dr_target_action_id), (''rollback_id'', dr_rollback_id)]"

definition row_shows :: "(string \<times> string) list \<Rightarrow> daemon_row \<Rightarrow> bool" where
  "row_shows want row \<longleftrightarrow> (\<forall>(key, v) \<in> set want. \<forall>f. map_of text_fields key = Some f \<longrightarrow> f row = v)"

lemma row_field_text: "map_of text_fields key = Some f \<Longrightarrow> row_field label row key = Inr (Inl (f row))"
  by (auto simp: text_fields_def row_field_def split: if_splits)

lemma row_matches_shows:
  assumes "fst ` set want \<subseteq> fst ` set text_fields"
  shows "row_matches label want row = Inr (row_shows want row)"
  using assms
proof (induction want)
  case Nil
  then show ?case by (simp add: row_matches_def row_shows_def)
next
  case (Cons p want)
  obtain key v where p: "p = (key, v)" by (cases p)
  with Cons.prems have "key \<in> fst ` set text_fields" by simp
  then obtain f where f: "map_of text_fields key = Some f" by (metis map_of_eq_None_iff not_Some_eq)
  from Cons have "row_matches label want row = Inr (row_shows want row)" by simp
  then show ?case using f p by (simp add: row_matches_def row_field_text row_shows_def)
qed

lemma has_da_shows: "fst ` set want \<subseteq> fst ` set text_fields \<Longrightarrow> has_da label rows want = Inr (\<exists>row \<in> set rows. row_shows want row)"
  unfolding has_da_def by (induction rows) (auto simp: row_matches_shows)

lemma matching_shows: "fst ` set want \<subseteq> fst ` set text_fields \<Longrightarrow> matching label rows want = Inr (filter (row_shows want) rows)"
  by (induction rows) (auto simp: row_matches_shows)

lemma require_row_ok_iff:
  "fst ` set want \<subseteq> fst ` set text_fields \<Longrightarrow> require_row label rows want m = Inr u \<longleftrightarrow> (\<exists>row \<in> set rows. row_shows want row)"
  by (simp add: require_row_def has_da_shows ok_iff)

lemma reject_row_ok_iff:
  "fst ` set want \<subseteq> fst ` set text_fields \<Longrightarrow> reject_row label rows want m = Inr u \<longleftrightarrow> \<not> (\<exists>row \<in> set rows. row_shows want row)"
  by (simp add: reject_row_def has_da_shows ok_iff)

lemma row_shows_simps [simp]:
  "row_shows [] row"
  "row_shows ((''event'', v) # want) row \<longleftrightarrow> dr_event row = v \<and> row_shows want row"
  "row_shows ((''status'', v) # want) row \<longleftrightarrow> dr_status row = v \<and> row_shows want row"
  "row_shows ((''state'', v) # want) row \<longleftrightarrow> dr_state row = v \<and> row_shows want row"
  "row_shows ((''reason'', v) # want) row \<longleftrightarrow> dr_reason row = v \<and> row_shows want row"
  "row_shows ((''action_id'', v) # want) row \<longleftrightarrow> dr_action_id row = v \<and> row_shows want row"
  "row_shows ((''target_action_id'', v) # want) row \<longleftrightarrow> dr_target_action_id row = v \<and> row_shows want row"
  "row_shows ((''rollback_id'', v) # want) row \<longleftrightarrow> dr_rollback_id row = v \<and> row_shows want row"
  by (auto simp: row_shows_def text_fields_def)

lemma text_field_names: "fst ` set text_fields = {''event'', ''status'', ''state'', ''reason'', ''action_id'', ''target_action_id'', ''rollback_id''}"
  by (auto simp: text_fields_def)

lemmas row_lookups = require_row_ok_iff reject_row_ok_iff text_field_names

section \<open>What an accepted transcript shows\<close>

text \<open>Terminal rows that report success.\<close>

definition passed_terminal :: "daemon_row \<Rightarrow> bool" where
  "passed_terminal row \<longleftrightarrow> dr_event row = ''stage_finished'' \<and> dr_status row = ''PASS''"

definition passes_after_incident :: "daemon_row list \<Rightarrow> bool" where
  "passes_after_incident rows \<longleftrightarrow>
     (\<exists>i j. i < j \<and> j < length rows \<and> dr_event (rows ! i) = ''incident'' \<and> passed_terminal (rows ! j))"

lemma reject_incident_then_pass_ok_iff: "reject_incident_then_pass label rows = Inr u \<longleftrightarrow> \<not> passes_after_incident rows"
proof -
  have "reject_incident_then_pass label rows = Inr u \<longleftrightarrow>
      (\<forall>j < length rows. \<not> ((\<exists>i \<le> j. dr_event (rows ! i) = ''incident'') \<and> passed_terminal (rows ! j)))"
    unfolding reject_incident_then_pass_def bindE_ok_iff incident_loop.loop_ok_iff foldl_latch passed_terminal_def
    by (auto simp: set_take_Suc)
  also have "\<dots> \<longleftrightarrow> \<not> passes_after_incident rows"
    unfolding passes_after_incident_def passed_terminal_def by (auto simp: le_less)
  finally show ?thesis .
qed

lemma require_non_pass_terminal_ok_iff:
  "require_non_pass_terminal label rows = Inr u \<longleftrightarrow>
     (\<exists>row \<in> set rows. dr_event row = ''stage_finished'') \<and> (\<forall>row \<in> set rows. \<not> passed_terminal row)"
  unfolding require_non_pass_terminal_def
  by (subst matching_shows) (auto simp: text_field_names ok_iff filter_empty_conv list_ex_iff passed_terminal_def)

lemma assert_mode_ok_iff:
  "assert_mode label rows mode = Inr u \<longleftrightarrow> \<not> passes_after_incident rows \<and> assert_one_mode label rows mode = Inr ()"
  by (simp add: assert_mode_def thenE_ok_iff reject_incident_then_pass_ok_iff)

lemma load_rows_da_ok:
  assumes "load_rows_da env label stdin = Inr rows"
  shows "rows \<noteq> [] \<and> (\<forall>row \<in> set rows. \<not> dr_host_mutation row)"
  using assms by (auto simp: load_rows_da_def ok_iff)

lemma script_da_ok_iff:
  "script_da env argv stdin = Inr () \<longleftrightarrow>
     (\<exists>raw rows mode. argv = [raw] \<and> load_rows_da env raw stdin = Inr rows \<and> map_of mode_values raw = Some mode \<and>
        \<not> passes_after_incident rows \<and> assert_one_mode raw rows mode = Inr ())"
proof (cases argv)
  case (Cons raw rest)
  then show ?thesis
    by (cases rest) (auto simp: script_da_def bindE_ok_iff parse_mode_def case_option_ok_iff assert_mode_ok_iff split: option.splits)
qed (simp add: script_da_def)

text \<open>
  The modes under which a completed live stage is excluded: a lost stream, a timeout, an incident drill and a rejected
  fixture. The two modes of a failed rollback and a failed cleanup during a live run exclude none; they ask for the rows below.
\<close>

definition incident_mode :: "daemon_mode \<Rightarrow> bool" where
  "incident_mode mode \<longleftrightarrow> mode \<in> {LOST_STREAM, TIMEOUT, INCIDENT_DRILL, LIFECYCLE_FIXTURE_REJECTED}"

definition failed_live_event :: "daemon_mode \<rightharpoonup> string" where
  "failed_live_event mode =
     (if mode = FAILED_LIVE_ROLLBACK then Some ''rollback'' else if mode = FAILED_LIVE_CLEANUP then Some ''cleanup'' else None)"

text \<open>A failed rollback or cleanup: its failure, the end of the run as an incident, and the refusal of its target, which is still active.\<close>

definition failed_live_shown :: "daemon_row list \<Rightarrow> string \<Rightarrow> bool" where
  "failed_live_shown rows event \<longleftrightarrow>
     (\<exists>row \<in> set rows. dr_event row = event \<and> dr_status row = ''FAIL'' \<and> dr_state row = ''incident'') \<and>
     (\<exists>row \<in> set rows. dr_event row = ''stage_finished'' \<and> dr_status row = ''INCIDENT'' \<and> dr_state row = ''unsafe_to_assume'') \<and>
     (\<exists>row \<in> set rows. dr_event row = ''refusal'' \<and> dr_reason row = ''duplicate_target_id'')"

lemma failed_live_ok:
  assumes "failed_live_event mode = Some event"
  shows "assert_one_mode label rows mode = Inr u \<longleftrightarrow> failed_live_shown rows event"
  using assms
  by (auto simp: failed_live_event_def failed_live_shown_def assert_one_mode_def assert_failed_live_def ok_iff row_lookups split: if_splits)

lemma event_shown: "e \<in> dr_event ` set rows \<longleftrightarrow> list_ex (\<lambda>row. dr_event row = e) rows"
  by (auto simp: list_ex_iff)

lemma success_ok_iff:
  "assert_one_mode label rows LIFECYCLE_SUCCESS = Inr u \<longleftrightarrow>
     {''runtime_sample'', ''rollback'', ''cleanup''} \<subseteq> dr_event ` set rows \<and> ''incident'' \<notin> dr_event ` set rows \<and>
     (\<exists>row \<in> set rows. passed_terminal row \<and> dr_state row = ''vm_live_complete'')"
  unfolding event_shown insert_subset
  by (simp add: assert_one_mode_def assert_lifecycle_success_def ok_iff row_lookups passed_terminal_def)

lemma incident_mode_ok:
  assumes "incident_mode mode" and "assert_one_mode label rows mode = Inr ()"
  shows "{''incident'', ''stage_finished''} \<subseteq> dr_event ` set rows \<and>
    (\<forall>row \<in> set rows. \<not> (passed_terminal row \<and> dr_state row = ''vm_live_complete''))"
  using assms unfolding event_shown insert_subset
  by (auto simp: incident_mode_def assert_one_mode_def assert_incident_terminal_def require_non_pass_terminal_ok_iff ok_iff row_lookups list_ex_iff
      passed_terminal_def)

text \<open>C8: whatever the mode, a transcript that the assertion accepts has rows, denies host mutation in
  every row, and after an incident row no stage finishes with a pass. Accepted as a success, it has a sample, a rollback, a
  cleanup and the completed live stage, and no incident at all. Accepted as a lost stream, a timeout, an incident drill or a
  rejected fixture, it has an incident and an end, and the live stage is never reported complete. Accepted as a failed rollback
  or a failed cleanup of a live run, it reports that failure, the end of the stage as an incident and the refusal of the
  target that is still active; these two modes do not exclude a report of the completed live stage.\<close>

theorem daemon_transcript_safe:
  assumes "script_da env argv stdin = Inr ()"
  shows "\<exists>raw rows mode. argv = [raw] \<and> load_rows_da env raw stdin = Inr rows \<and> map_of mode_values raw = Some mode \<and>
    rows \<noteq> [] \<and> (\<forall>row \<in> set rows. \<not> dr_host_mutation row) \<and>
    (\<forall>i j. i < j \<longrightarrow> j < length rows \<longrightarrow> dr_event (rows ! i) = ''incident'' \<longrightarrow> \<not> passed_terminal (rows ! j)) \<and>
    (mode = LIFECYCLE_SUCCESS \<longrightarrow>
       {''runtime_sample'', ''rollback'', ''cleanup''} \<subseteq> dr_event ` set rows \<and> ''incident'' \<notin> dr_event ` set rows \<and>
       (\<exists>row \<in> set rows. passed_terminal row \<and> dr_state row = ''vm_live_complete'')) \<and>
    (incident_mode mode \<longrightarrow>
       {''incident'', ''stage_finished''} \<subseteq> dr_event ` set rows \<and>
       (\<forall>row \<in> set rows. \<not> (passed_terminal row \<and> dr_state row = ''vm_live_complete''))) \<and>
    (\<forall>event. failed_live_event mode = Some event \<longrightarrow> failed_live_shown rows event)"
proof -
  obtain raw rows mode where run: "argv = [raw]" "load_rows_da env raw stdin = Inr rows" "map_of mode_values raw = Some mode"
    "\<not> passes_after_incident rows" "assert_one_mode raw rows mode = Inr ()"
    using assms unfolding script_da_ok_iff by blast
  have "mode = LIFECYCLE_SUCCESS \<Longrightarrow> assert_one_mode raw rows LIFECYCLE_SUCCESS = Inr ()" using run(5) by simp
  moreover note incident_mode_ok[OF _ run(5)]
  moreover have "failed_live_event mode = Some event \<Longrightarrow> failed_live_shown rows event" for event using failed_live_ok run(5) by blast
  ultimately show ?thesis using run(1-4) load_rows_da_ok[OF run(2)] unfolding passes_after_incident_def success_ok_iff by blast
qed

text \<open>C12: the alert assertion accepts a transcript exactly when it reports both kinds of alert, both kinds of
  bad sample occur, and every alert comes after a sample that caused it.\<close>

theorem runtime_alerts_ordered:
  "assert_runtime_alert_ordering label rows = Inr () \<longleftrightarrow>
     (\<forall>(reason, cause) \<in> {(''runtime_nr_rejected_nonzero'', rejected_sample), (''runtime_workload_dead'', dead_sample)}.
        (\<exists>row \<in> set rows. dr_event row = ''incident'' \<and> dr_reason row = reason) \<and>
        (\<forall>i < length rows. dr_event (rows ! i) = ''incident'' \<and> dr_reason (rows ! i) = reason \<longrightarrow> (\<exists>j < i. cause (rows ! j))))"
proof -
  have no_cause: "\<not> rejected_sample row" "\<not> dead_sample row" if "dr_event row = ''incident''" for row
    using that by (auto simp: rejected_sample_def dead_sample_def)
  have strict: "(\<exists>j \<le> i. cause (rows ! j)) \<longleftrightarrow> (\<exists>j < i. cause (rows ! j))" if "\<not> cause (rows ! i)" for cause i
    using that by (metis le_less)
  have latches: "foldE (alert_step_da label) (False, False) rows = Inr (a, b) \<longleftrightarrow>
      a = (\<exists>row \<in> set rows. rejected_sample row) \<and> b = (\<exists>row \<in> set rows. dead_sample row) \<and>
      (\<forall>i < length rows. dr_event (rows ! i) = ''incident'' \<longrightarrow>
         (dr_reason (rows ! i) = ''runtime_nr_rejected_nonzero'' \<longrightarrow> (\<exists>j < i. rejected_sample (rows ! j))) \<and>
         (dr_reason (rows ! i) = ''runtime_workload_dead'' \<longrightarrow> (\<exists>j < i. dead_sample (rows ! j))))" for a b
    unfolding alert_loop.loop_ok_iff foldl_two_latches by (auto simp: set_take_Suc strict no_cause)
  have found: "\<exists>row \<in> set rows. cause row"
    if "\<exists>row \<in> set rows. alert row" "\<And>i. i < length rows \<Longrightarrow> alert (rows ! i) \<Longrightarrow> \<exists>j < i. cause (rows ! j)" for alert cause
    using that by (metis in_set_conv_nth less_trans nth_mem)
  have "assert_runtime_alert_ordering label rows = Inr () \<longleftrightarrow>
      (\<exists>row \<in> set rows. rejected_sample row) \<and> (\<exists>row \<in> set rows. dead_sample row) \<and>
      (\<exists>row \<in> set rows. dr_event row = ''incident'' \<and> dr_reason row = ''runtime_nr_rejected_nonzero'') \<and>
      (\<exists>row \<in> set rows. dr_event row = ''incident'' \<and> dr_reason row = ''runtime_workload_dead'') \<and>
      (\<forall>i < length rows. dr_event (rows ! i) = ''incident'' \<longrightarrow>
         (dr_reason (rows ! i) = ''runtime_nr_rejected_nonzero'' \<longrightarrow> (\<exists>j < i. rejected_sample (rows ! j))) \<and>
         (dr_reason (rows ! i) = ''runtime_workload_dead'' \<longrightarrow> (\<exists>j < i. dead_sample (rows ! j))))"
    unfolding assert_runtime_alert_ordering_def bindE_ok_iff split_paired_Ex latches case_prod_conv require_alert_def
    by (simp add: ok_iff row_lookups) blast
  also have "\<dots> \<longleftrightarrow> (\<forall>(reason, cause) \<in> {(''runtime_nr_rejected_nonzero'', rejected_sample), (''runtime_workload_dead'', dead_sample)}.
        (\<exists>row \<in> set rows. dr_event row = ''incident'' \<and> dr_reason row = reason) \<and>
        (\<forall>i < length rows. dr_event (rows ! i) = ''incident'' \<and> dr_reason (rows ! i) = reason \<longrightarrow> (\<exists>j < i. cause (rows ! j))))"
    using found[of "\<lambda>row. dr_event row = ''incident'' \<and> dr_reason row = ''runtime_nr_rejected_nonzero''" rejected_sample]
      found[of "\<lambda>row. dr_event row = ''incident'' \<and> dr_reason row = ''runtime_workload_dead''" dead_sample] by simp blast
  finally show ?thesis .
qed

section \<open>Runs\<close>

definition daemon_doc :: "(string \<times> string) list \<Rightarrow> json" where
  "daemon_doc entries = JObj ((''host_mutation'', JBool False) # map (\<lambda>(k, v). (k, JStr v)) entries)"

text \<open>A session that completes, and one whose rollback and cleanup fail.\<close>

definition daemon_env :: env where
  "daemon_env = files_env [] []
     [(''{sample}'', daemon_doc [(''event'', ''runtime_sample'')]),
      (''{rollback}'', daemon_doc [(''event'', ''rollback''), (''status'', ''PASS'')]),
      (''{cleanup}'', daemon_doc [(''event'', ''cleanup''), (''status'', ''PASS'')]),
      (''{failed rollback}'', daemon_doc [(''event'', ''rollback''), (''status'', ''FAIL''), (''state'', ''incident'')]),
      (''{failed cleanup}'', daemon_doc [(''event'', ''cleanup''), (''status'', ''FAIL''), (''state'', ''incident'')]),
      (''{unsafe}'', daemon_doc [(''event'', ''stage_finished''), (''status'', ''INCIDENT''), (''state'', ''unsafe_to_assume'')]),
      (''{refusal}'', daemon_doc [(''event'', ''refusal''), (''reason'', ''duplicate_target_id'')]),
      (''{done}'', daemon_doc [(''event'', ''stage_finished''), (''status'', ''PASS''), (''state'', ''vm_live_complete'')])]"

definition daemon_stdin :: "string list \<Rightarrow> string" where
  "daemon_stdin lines = concat (map (\<lambda>line. line @ [CHR 0x0A]) lines)"

lemma daemon_success_accepted:
  "script_da daemon_env [''lifecycle-success''] (daemon_stdin [''{sample}'', ''{rollback}'', ''{cleanup}'', ''{done}'']) = Inr ()"
  by code_simp

theorem daemon_transcript_safe_witness:
  "\<exists>rows. load_rows_da daemon_env ''lifecycle-success'' (daemon_stdin [''{sample}'', ''{rollback}'', ''{cleanup}'', ''{done}'']) = Inr rows \<and>
     rows \<noteq> [] \<and> (\<forall>row \<in> set rows. \<not> dr_host_mutation row) \<and> ''incident'' \<notin> dr_event ` set rows \<and> ''rollback'' \<in> dr_event ` set rows"
  using daemon_transcript_safe[OF daemon_success_accepted] by (force simp: mode_values_def)

text \<open>
  The success assertion looks at the names of the rollback and cleanup rows only: a session whose rollback and cleanup
  are reported as failed is accepted as a success too.
\<close>

theorem success_ignores_failed_rollback:
  "script_da daemon_env [''lifecycle-success''] (daemon_stdin [''{sample}'', ''{failed rollback}'', ''{failed cleanup}'', ''{done}'']) = Inr ()"
  by code_simp

text \<open>
  The assertion of a failed rollback looks for the rows that report it and for nothing else: a transcript that also reports the live
  stage as passed and complete is accepted.
\<close>

theorem failed_live_may_complete:
  "script_da daemon_env [''failed-live-rollback''] (daemon_stdin [''{failed rollback}'', ''{unsafe}'', ''{refusal}'', ''{done}'']) = Inr () \<and>
   (\<exists>rows. load_rows_da daemon_env ''failed-live-rollback'' (daemon_stdin [''{failed rollback}'', ''{unsafe}'', ''{refusal}'', ''{done}'']) = Inr rows \<and>
      (\<exists>row \<in> set rows. passed_terminal row \<and> dr_state row = ''vm_live_complete''))"
proof
  show "script_da daemon_env [''failed-live-rollback''] (daemon_stdin [''{failed rollback}'', ''{unsafe}'', ''{refusal}'', ''{done}'']) = Inr ()"
    by code_simp
  have "case load_rows_da daemon_env ''failed-live-rollback'' (daemon_stdin [''{failed rollback}'', ''{unsafe}'', ''{refusal}'', ''{done}'']) of
      Inl e \<Rightarrow> False | Inr rows \<Rightarrow> list_ex (\<lambda>row. passed_terminal row \<and> dr_state row = ''vm_live_complete'') rows"
    by code_simp
  then show "\<exists>rows. load_rows_da daemon_env ''failed-live-rollback'' (daemon_stdin [''{failed rollback}'', ''{unsafe}'', ''{refusal}'', ''{done}'']) = Inr rows \<and>
      (\<exists>row \<in> set rows. passed_terminal row \<and> dr_state row = ''vm_live_complete'')"
    by (auto simp: list_ex_iff split: sum.splits)
qed

text \<open>The values of the modes are distinct, so every mode is reached by its own label and by no other.\<close>

lemma mode_values_inj: "map_of mode_values raw = Some mode \<longleftrightarrow> (raw, mode) \<in> set mode_values"
  by (rule map_of_eq_Some_iff) (simp add: mode_values_def)

lemma mode_values_total: "snd ` set mode_values = UNIV"
proof -
  have "mode \<in> snd ` set mode_values" for mode by (cases mode) (simp_all add: mode_values_def)
  then show ?thesis by blast
qed

definition sample_row :: daemon_row where
  "sample_row = \<lparr> dr_event = ''runtime_sample'', dr_status = [], dr_state = [], dr_reason = [], dr_action_id = [], dr_target_action_id = [],
     dr_rollback_id = [], dr_host_mutation = False, dr_nr_rejected = ''0'', dr_workload_alive = Some True \<rparr>"

definition alert_rows :: "daemon_row list" where
  "alert_rows =
     [sample_row \<lparr> dr_nr_rejected := ''3'' \<rparr>, sample_row \<lparr> dr_event := ''incident'', dr_reason := ''runtime_nr_rejected_nonzero'' \<rparr>,
      sample_row \<lparr> dr_workload_alive := Some False \<rparr>, sample_row \<lparr> dr_event := ''incident'', dr_reason := ''runtime_workload_dead'' \<rparr>]"

lemma alert_rows_accepted: "assert_runtime_alert_ordering ''m'' alert_rows = Inr ()"
  by code_simp

theorem runtime_alerts_ordered_witness: "\<exists>j < 3. dead_sample (alert_rows ! j)"
proof -
  have "3 < length alert_rows" "dr_event (alert_rows ! 3) = ''incident''" "dr_reason (alert_rows ! 3) = ''runtime_workload_dead''"
    by (simp_all add: alert_rows_def sample_row_def)
  then show ?thesis using runtime_alerts_ordered[THEN iffD1, OF alert_rows_accepted] by simp
qed

end
