(* ===== verification/BundleCompare.thy ===== *)
theory BundleCompare
  imports EvidenceManifest "HOL-Library.Multiset"
begin

text \<open>
  \<^verbatim>\<open>qa/evidence_bundle_compare_check.py\<close> and \<^verbatim>\<open>qa/evidence_bundle_paths.py\<close>: two evidence bundles are
  indexed, each artifact hash-matched and free of claims, and the indexes are compared.
\<close>

section \<open>Model\<close>

definition REF_FIELDS_bc :: "string list" where
  "REF_FIELDS_bc = [''path'', ''sha256'', ''schema_role'']"

definition REQUIRED_ROLES_bc :: "string list" where
  "REQUIRED_ROLES_bc =
     [''matrix-manifest'', ''matrix-row'', ''rollback-proof'', ''cleanup-proof'', ''host-refusal-proof'', ''privacy-scan'',
      ''runner-substrate-proof'', ''runner-cleanliness-proof'', ''protected-environment-review'']"

definition BPF_ROLES_bc :: "string list" where
  "BPF_ROLES_bc = [''bpf-metadata'', ''bpf-skip-json'']"

record compare_options =
  expect_tuple_change :: bool
  expect_bpf_change :: bool
  expect_git_sha_change :: bool
  left_artifact_root :: "path option"
  right_artifact_root :: "path option"

text \<open>\<^verbatim>\<open>refs_by_role\<close> is a dict of lists, \<^verbatim>\<open>roles\<close> a \<^verbatim>\<open>Counter\<close>, \<^verbatim>\<open>matrix_rows\<close> a frozenset.\<close>

type_synonym role_refs = "string \<Rightarrow> (path \<times> string) list option"

record bundle_index =
  manifest_path :: path
  bundle_manifest :: json_object
  bundle_roles :: "string multiset"
  refs_by_role :: role_refs
  matrix_rows :: "string set"
  supported_tuple :: string
  runner_tuple :: string
  bundle_git_sha :: string
  bundle_bpf_identity :: string
  bundle_benchmark_state :: "string \<times> nat"

definition require_bc :: "bool \<Rightarrow> string \<Rightarrow> check" where
  "require_bc condition message = raise_if (\<not> condition) (BundleCompareError message)"

definition text_bc :: "json \<Rightarrow> string \<Rightarrow> string result" where
  "text_bc v context =
     (case text_of v of
        None \<Rightarrow> Inl (BundleCompareError (msg [context, '' must be non-empty text'']))
      | Some s \<Rightarrow> Inr s)"

definition obj_bc :: "json \<Rightarrow> string \<Rightarrow> json_object result" where
  "obj_bc v context =
     (case obj_of v of
        None \<Rightarrow> Inl (BundleCompareError (msg [context, '' must be an object'']))
      | Some d \<Rightarrow> Inr d)"

text \<open>\<^verbatim>\<open>path.is_dir()\<close> is a parameter.\<close>

definition resolve_manifest :: "(path \<Rightarrow> bool) \<Rightarrow> path \<Rightarrow> path" where
  "resolve_manifest is_dir path = (if is_dir path then path_join path ''evidence-manifest.json'' else path)"

definition safe_path_bc :: "json \<Rightarrow> string \<Rightarrow> path result" where
  "safe_path_bc v context =
     (bindE (text_bc v context) (\<lambda>raw.
     (let path = mk_path raw in
     thenE (require_bc (\<not> is_absolute path \<and> ''..'' \<notin> set (path_parts path)) (msg [context, '' must be relative and non-traversing: '', raw])) (
     Inr path))))"

definition artifact_path :: "env \<Rightarrow> path \<Rightarrow> path option \<Rightarrow> json \<Rightarrow> string \<Rightarrow> path result" where
  "artifact_path env manifest artifact_root v context =
     (bindE (safe_path_bc v context) (\<lambda>path.
     (let base = (case artifact_root of Some r \<Rightarrow> r | None \<Rightarrow> path_parent manifest) in
     (let rooted = Path (path_root base) (path_comps base @ path_comps path) in
     thenE (require_bc (fs_exists env rooted) (msg [''missing referenced artifact: '', path_str path])) (
     Inr rooted)))))"

definition file_sha_bc :: "env \<Rightarrow> path \<Rightarrow> string result" where
  "file_sha_bc env path = reraise is_FileNotFoundError (\<lambda>_. BundleCompareError (msg [''missing referenced artifact: '', path_str path])) (fs_sha256 env path)"

definition refs_from_manifest :: "json_object \<Rightarrow> json_object list result" where
  "refs_from_manifest manifest =
     (bindE (mapE (\<lambda>field. obj_bc (jget manifest field) field)
         [''matrix_manifest'', ''daemon_events'', ''bpf_metadata_or_skip'', ''runner_substrate'', ''runner_cleanliness'']) (\<lambda>slots.
     (case list_of (jget manifest ''artifacts'') of
         None \<Rightarrow> Inl (BundleCompareError ''artifacts must be a list'')
         | Some artifacts \<Rightarrow>
         (bindE (mapE (\<lambda>(index, item). obj_bc item (msg [''artifacts['', show_nat index, '']''])) (enumerate_from 0 artifacts)) (\<lambda>listed.
         bindE ((case list_of (jget manifest ''benchmark_provenance'') of
         None \<Rightarrow> Inr []
         | Some items \<Rightarrow> mapE (\<lambda>(index, item). obj_bc item (msg [''benchmark_provenance['', show_nat index, '']''])) (enumerate_from 0 items))) (\<lambda>benchmarks.
         Inr (slots @ listed @ benchmarks)))))))"

definition validate_ref_bc :: "env \<Rightarrow> path \<Rightarrow> path option \<Rightarrow> json_object \<Rightarrow> string \<Rightarrow> (string \<times> path \<times> string) result" where
  "validate_ref_bc env manifest artifact_root ref context =
     ((let extra = sorted_diff (keys ref) REF_FIELDS_bc in
     thenE (require_bc (extra = []) (msg [context, '' has unexpected fields: '', join '', '' extra])) (
     bindE (artifact_path env manifest artifact_root (jget ref ''path'') (msg [context, ''.path''])) (\<lambda>path.
     bindE (text_bc (jget ref ''sha256'') (msg [context, ''.sha256''])) (\<lambda>digest.
     bindE (file_sha_bc env path) (\<lambda>sha.
     thenE (require_bc (sha = digest) (msg [context, ''.sha256 does not match '', path_str path])) (
     bindE (text_bc (jget ref ''schema_role'') (msg [context, ''.schema_role''])) (\<lambda>role.
     Inr (role, path, digest)))))))))"

fun reject_release_claims :: "json \<Rightarrow> string \<Rightarrow> check" where
  "reject_release_claims (JObj d) context =
     forE (\<lambda>(key, child).
       thenE (if key = ''host_mutation'' then require_bc (child = JBool False) (msg [context, ''.host_mutation must be false'']) else Inr ())
         (thenE (if key \<in> {''release_eligible'', ''production_capacity_claim'', ''hard_thresholds_enforced''}
                 then require_bc (child = JBool False) (msg [context, ''.'', key, '' must be false'']) else Inr ())
           (thenE (if key = ''record_only'' then require_bc (child = JBool True) (msg [context, ''.record_only must be true'']) else Inr ())
             (reject_release_claims child (msg [context, ''.'', key]))))) d"
| "reject_release_claims (JList xs) context =
     forE (\<lambda>(index, child). reject_release_claims child (msg [context, ''['', show_nat index, '']''])) (enumerate_from 0 xs)"
| "reject_release_claims _ context = Inr ()"

declare reject_release_claims.simps [simp del]

definition release_claim_line :: "env \<Rightarrow> path \<Rightarrow> string \<Rightarrow> nat \<Rightarrow> string \<Rightarrow> check" where
  "release_claim_line env path context line_no line =
     (if strip line = [] then Inr ()
      else
        (bindE (reraise is_JSONDecodeError (\<lambda>exc. BundleCompareError (msg [''invalid referenced JSON '', path_str path, '':'', show_nat line_no, '': '', exn_str exc]))
              (json_loads env line)) (\<lambda>v.
          reject_release_claims v (msg [context, '':'', show_nat line_no]))))"

definition reject_json_artifact_claims :: "env \<Rightarrow> path \<Rightarrow> string \<Rightarrow> check" where
  "reject_json_artifact_claims env path context =
     (if path_suffix path = ''.json'' then bindE (load_json_em env path) (\<lambda>d. reject_release_claims (JObj d) context)
      else if path_suffix path \<noteq> ''.jsonl'' then Inr ()
      else
        bindE (fs_read_text env path) (\<lambda>content.
          forE (\<lambda>(line_no, line). release_claim_line env path context line_no line) (enumerate_from 1 (splitlines content))))"

definition row_step :: "string \<Rightarrow> string list \<Rightarrow> nat \<times> json \<Rightarrow> string list result" where
  "row_step label scenarios = (\<lambda>(index, row).
     (bindE (obj_bc row (msg [label, ''.rows['', show_nat index, '']''])) (\<lambda>d.
     bindE (text_bc (jget d ''scenario_id'') (msg [label, ''.rows['', show_nat index, ''].scenario_id''])) (\<lambda>scenario.
     thenE (require_bc (scenario \<notin> set scenarios) (msg [label, ''.rows contains duplicate scenario_id: '', scenario])) (
     Inr (scenario # scenarios))))))"

definition row_set :: "env \<Rightarrow> path \<Rightarrow> string \<Rightarrow> string set result" where
  "row_set env matrix_path label =
     (bindE (load_json_em env matrix_path) (\<lambda>matrix.
     thenE (reject_release_claims (JObj matrix) label) (
     (case list_of (jget matrix ''rows'') of
         None \<Rightarrow> Inl (BundleCompareError (msg [label, ''.rows must be a list'']))
         | Some rows \<Rightarrow>
         (bindE (foldE (row_step label) [] (enumerate_from 0 rows)) (\<lambda>scenarios.
         thenE ((case int_of (jget matrix ''row_count'') of
         None \<Rightarrow> Inr ()
         | Some n \<Rightarrow> require_bc (n = int (length rows)) (msg [label, ''.row_count does not match rows length'']))) (
         Inr (set scenarios))))))))"

fun nested_text :: "json \<Rightarrow> string list \<Rightarrow> string option" where
  "nested_text current [] = text_of current"
| "nested_text current (key # ks) = (case obj_of current of None \<Rightarrow> None | Some d \<Rightarrow> nested_text (jget d key) ks)"

definition first_json_text :: "env \<Rightarrow> path \<Rightarrow> string list \<Rightarrow> string \<Rightarrow> string result" where
  "first_json_text env path ks fallback =
     (if path_suffix path \<noteq> ''.json'' then Inr fallback
      else bindE (load_json_em env path) (\<lambda>d. Inr (case nested_text (JObj d) ks of Some s \<Rightarrow> s | None \<Rightarrow> fallback)))"

definition bpf_identity :: "env \<Rightarrow> path \<Rightarrow> string \<Rightarrow> string result" where
  "bpf_identity env path fallback_digest =
     (if path_suffix path \<noteq> ''.json'' then Inr fallback_digest
      else bindE (load_json_em env path) (\<lambda>d.
        Inr (case List.map_filter (nested_text (JObj d))
               [[''bpf_object_sha256''], [''object_sha256''], [''object_hash''], [''bpf'', ''object_sha256''], [''metadata'', ''object_sha256'']] of
               [] \<Rightarrow> fallback_digest | found # _ \<Rightarrow> found)))"

definition benchmark_state :: "json_object \<Rightarrow> (string \<times> nat) result" where
  "benchmark_state manifest =
     (case list_of (jget manifest ''benchmark_provenance'') of
        Some items \<Rightarrow> Inr (''refs'', length items)
      | None \<Rightarrow>
          (bindE (obj_bc (jget manifest ''benchmark_provenance'') ''benchmark_provenance'') (\<lambda>d.
            bindE (text_bc (jget d ''status'') ''benchmark_provenance.status'') (\<lambda>status.
            Inr (status, 0)))))"

definition add_ref :: "role_refs \<Rightarrow> string \<Rightarrow> path \<times> string \<Rightarrow> role_refs" where
  "add_ref refs role x = refs(role \<mapsto> (case refs role of None \<Rightarrow> [] | Some xs \<Rightarrow> xs) @ [x])"

definition index_step ::
  "env \<Rightarrow> path \<Rightarrow> path option \<Rightarrow> string \<Rightarrow> string multiset \<times> role_refs \<Rightarrow> nat \<times> json_object \<Rightarrow> (string multiset \<times> role_refs) result" where
  "index_step env manifest artifact_root label = (\<lambda>(roles, refs) (index, ref).
     bindE (validate_ref_bc env manifest artifact_root ref (msg [label, ''.ref['', show_nat index, '']''])) (\<lambda>(role, path_value, digest).
       thenE (reject_json_artifact_claims env path_value (msg [label, ''.'', role]))
         (Inr (add_mset role roles, add_ref refs role (path_value, digest)))))"

definition single_role :: "role_refs \<Rightarrow> string \<Rightarrow> string \<Rightarrow> (path \<times> string) result" where
  "single_role refs role label =
     (let found = (case refs role of None \<Rightarrow> [] | Some xs \<Rightarrow> xs) in
      thenE (require_bc (length found = 1) (msg [label, '' requires exactly one '', role, '' artifact''])) (Inr (found ! 0)))"

definition index_bundle :: "(path \<Rightarrow> bool) \<Rightarrow> env \<Rightarrow> path \<Rightarrow> string \<Rightarrow> path option \<Rightarrow> bundle_index result" where
  "index_bundle is_dir env path label artifact_root =
     ((let mpath = resolve_manifest is_dir path in
     bindE (load_json_em env mpath) (\<lambda>manifest.
     thenE (reject_release_claims (JObj manifest) label) (
     bindE (refs_from_manifest manifest) (\<lambda>all_refs.
     bindE (foldE (index_step env mpath artifact_root label) ({#}, Map.empty) (enumerate_from 0 all_refs)) (\<lambda>(roles, refs).
         (thenE (require_bc (set REQUIRED_ROLES_bc \<subseteq> set_mset roles)
         (msg [label, '' missing required role(s): '', join '', '' (sorted_diff REQUIRED_ROLES_bc (filter (\<lambda>r. r \<in># roles) REQUIRED_ROLES_bc))])) (
         thenE (require_bc (\<exists>role \<in> set BPF_ROLES_bc. role \<in># roles) (msg [label, '' requires BPF metadata or skip role''])) (
         bindE (single_role refs ''matrix-manifest'' label) (\<lambda>matrix.
         bindE (single_role refs ''runner-substrate-proof'' label) (\<lambda>runner.
         bindE (single_role refs ''protected-environment-review'' label) (\<lambda>review.
         (let bpf_role = (if refs ''bpf-metadata'' \<noteq> None then ''bpf-metadata'' else ''bpf-skip-json'') in
         bindE (single_role refs bpf_role label) (\<lambda>bpf.
         bindE (text_bc (jget manifest ''supported_tuple'') (msg [label, ''.supported_tuple''])) (\<lambda>manifest_tuple.
         bindE (first_json_text env (fst runner) [''kernel_tuple'', ''supported_tuple''] manifest_tuple) (\<lambda>runner_tuple_text.
         thenE (require_bc (manifest_tuple = runner_tuple_text) (msg [label, '' manifest and runner supported_tuple differ''])) (
         bindE (row_set env (fst matrix) (msg [label, ''.matrix''])) (\<lambda>rows.
         bindE (first_json_text env (fst review) [''head_sha''] ''unavailable'') (\<lambda>sha.
         bindE (bpf_identity env (fst bpf) (snd bpf)) (\<lambda>identity.
         bindE (benchmark_state manifest) (\<lambda>state.
         Inr \<lparr> manifest_path = mpath, bundle_manifest = manifest, bundle_roles = roles, refs_by_role = refs, matrix_rows = rows,
         supported_tuple = manifest_tuple, runner_tuple = runner_tuple_text, bundle_git_sha = sha, bundle_bpf_identity = identity,
         bundle_benchmark_state = state \<rparr>)))))))))))))))))))))"

definition compare_bundles :: "(path \<Rightarrow> bool) \<Rightarrow> env \<Rightarrow> path \<Rightarrow> path \<Rightarrow> compare_options \<Rightarrow> check" where
  "compare_bundles is_dir env left_path right_path options =
     (bindE (index_bundle is_dir env left_path ''left'' (left_artifact_root options)) (\<lambda>left.
     bindE (index_bundle is_dir env right_path ''right'' (right_artifact_root options)) (\<lambda>right.
     thenE (require_bc (bundle_roles left = bundle_roles right) ''bundle schema-role artifact counts differ'') (
     thenE (require_bc (matrix_rows left = matrix_rows right) ''matrix row sets differ'') (
     thenE (require_bc (expect_tuple_change options \<or> supported_tuple left = supported_tuple right) ''supported_tuple changed without expected-change flag'') (
     thenE (require_bc (expect_git_sha_change options \<or> bundle_git_sha left = bundle_git_sha right) ''protected review git SHA changed without expected-change flag'') (
     thenE (require_bc (expect_bpf_change options \<or> bundle_bpf_identity left = bundle_bpf_identity right) ''BPF object hash changed without expected-change flag'') (
     require_bc (bundle_benchmark_state left = bundle_benchmark_state right) ''benchmark provenance role state differs''))))))))"

definition FLAGS_bc :: "string list" where
  "FLAGS_bc = [''--expect-tuple-change'', ''--allow-tuple-change'', ''--expect-bpf-change'', ''--allow-bpf-change'',
     ''--expect-git-sha-change'', ''--allow-git-sha-change'']"

text \<open>The loop of \<^verbatim>\<open>parse_cli\<close>: the positional arguments and the two roots.\<close>

fun parse_cli_loop :: "string list \<Rightarrow> string list \<times> path option \<times> path option \<Rightarrow> (string list \<times> path option \<times> path option) result" where
  "parse_cli_loop [] st = Inr st"
| "parse_cli_loop (arg # rest) (positional, left_root, right_root) =
     (if arg \<in> set FLAGS_bc then parse_cli_loop rest (positional, left_root, right_root)
      else if arg = ''--artifact-root'' then
        (case rest of [] \<Rightarrow> Inl (BundleCompareError ''--artifact-root requires a path'')
         | v # rest' \<Rightarrow> parse_cli_loop rest' (positional, Some (mk_path v), Some (mk_path v)))
      else if arg = ''--left-artifact-root'' then
        (case rest of [] \<Rightarrow> Inl (BundleCompareError ''--left-artifact-root requires a path'')
         | v # rest' \<Rightarrow> parse_cli_loop rest' (positional, Some (mk_path v), right_root))
      else if arg = ''--right-artifact-root'' then
        (case rest of [] \<Rightarrow> Inl (BundleCompareError ''--right-artifact-root requires a path'')
         | v # rest' \<Rightarrow> parse_cli_loop rest' (positional, left_root, Some (mk_path v)))
      else parse_cli_loop rest (positional @ [arg], left_root, right_root))"

definition parse_cli :: "string list \<Rightarrow> (path \<times> path \<times> compare_options) option result" where
  "parse_cli argv =
     (if argv = [''--self-test''] then Inr None
      else
        bindE (parse_cli_loop argv ([], None, None)) (\<lambda>(args, left_root, right_root).
          if length args = 4 \<and> args ! 0 = ''--left'' \<and> args ! 2 = ''--right'' then
            Inr (Some (mk_path (args ! 1), mk_path (args ! 3),
              \<lparr> expect_tuple_change = ''--expect-tuple-change'' \<in> set argv \<or> ''--allow-tuple-change'' \<in> set argv,
                expect_bpf_change = ''--expect-bpf-change'' \<in> set argv \<or> ''--allow-bpf-change'' \<in> set argv,
                expect_git_sha_change = ''--expect-git-sha-change'' \<in> set argv \<or> ''--allow-git-sha-change'' \<in> set argv,
                left_artifact_root = left_root, right_artifact_root = right_root \<rparr>))
          else Inl (BundleCompareError ''usage: evidence_bundle_compare_check.py --self-test | --left <manifest-or-root> --right <manifest-or-root> [--artifact-root <root> | --left-artifact-root <root> --right-artifact-root <root>] [--expect-tuple-change] [--expect-bpf-change] [--expect-git-sha-change]'')))"

definition self_test_bc :: "int result \<Rightarrow> check" where
  "self_test_bc script =
     bindE script (\<lambda>returncode.
       raise_if (returncode \<noteq> 0) (BundleCompareError (msg [''evidence bundle compare self-test failed with rc='', show_int returncode])))"

definition main_bc :: "int result \<Rightarrow> (path \<Rightarrow> bool) \<Rightarrow> env \<Rightarrow> string list \<Rightarrow> int result" where
  "main_bc script is_dir env argv =
     (case bindE (parse_cli argv) (\<lambda>parsed.
             case parsed of
               None \<Rightarrow> self_test_bc script
             | Some (left, right, options) \<Rightarrow> compare_bundles is_dir env left right options) of
        Inr _ \<Rightarrow> Inr 0
      | Inl e \<Rightarrow> if is_os_error e \<or> is_ManifestError e \<or> is_BundleCompareError e then Inr 1 else Inl e)"

section \<open>Readers and the scan for claims\<close>

lemma require_bc_ok_iff [ok_iff]: "require_bc c m = Inr u \<longleftrightarrow> c"
  by (simp add: require_bc_def ok_iff)

interpretation bc_text: value_reader text_bc text_of BundleCompareError
  by unfold_locales (auto simp: text_bc_def split: option.splits)

interpretation bc_obj: value_reader obj_bc obj_of BundleCompareError
  by unfold_locales (auto simp: obj_bc_def split: option.splits)

interpretation bc_path: value_reader safe_path_bc safe_path_of BundleCompareError
proof
  show "safe_path_bc v c = Inr p \<longleftrightarrow> safe_path_of v = Some p" for v c p
    by (auto simp: safe_path_bc_def Let_def ok_iff safe_path_of_def safe_path_def split: option.splits)
  show "\<exists>m. e = BundleCompareError m" if "safe_path_bc v c = Inl e" for v c e
    using that by (auto simp: safe_path_bc_def Let_def err_iff require_bc_def dest: bc_text.read_err)
qed

definition claims_nothing_entry :: "string \<Rightarrow> json \<Rightarrow> bool" where
  "claims_nothing_entry k v \<longleftrightarrow>
     (k \<in> {''host_mutation'', ''release_eligible'', ''production_capacity_claim'', ''hard_thresholds_enforced''} \<longrightarrow> v = JBool False) \<and>
     (k = ''record_only'' \<longrightarrow> v = JBool True)"

fun node_ok_bc :: "string \<Rightarrow> json \<Rightarrow> bool" where
  "node_ok_bc c (JObj d) \<longleftrightarrow> (\<forall>(k, v) \<in> set d. claims_nothing_entry k v)"
| "node_ok_bc c _ \<longleftrightarrow> True"

interpretation bc_scan: context_free_scanner reject_release_claims node_ok_bc
proof
  fix v c
  show "reject_release_claims v c = Inr () \<longleftrightarrow>
      node_ok_bc c v \<and> (\<forall>(c', v') \<in> set (children c v). reject_release_claims v' c' = Inr ())"
  proof (cases v)
    case (JObj d)
    have entry: "thenE (if h then require_bc b m else Inr ()) (thenE (if k \<in> ks then require_bc b m' else Inr ())
          (thenE (if q then require_bc b' m'' else Inr ()) r)) = Inr () \<longleftrightarrow> ((h \<or> k \<in> ks \<longrightarrow> b) \<and> (q \<longrightarrow> b')) \<and> r = Inr ()"
      for h b m m' m'' q b' and r :: check and k :: string and ks
      unfolding thenE_ok_iff guarded_ok_iff require_bc_ok_iff by blast
    have scan: "reject_release_claims (JObj d) c = Inr () \<longleftrightarrow>
        (\<forall>(k, w) \<in> set d. claims_nothing_entry k w \<and> reject_release_claims w (msg [c, ''.'', k]) = Inr ())"
      unfolding reject_release_claims.simps forE_ok_iff case_prod_ok_iff entry claims_nothing_entry_def insert_iff[of _ "''host_mutation''"] ..
    show ?thesis unfolding JObj node_ok_bc.simps children.simps obj_children_def scan by auto
  qed (auto simp: ok_iff list_children_def reject_release_claims.simps)
  fix c' show "node_ok_bc c v = node_ok_bc c' v" by (cases v) auto
qed

definition claims_nothing :: "json \<Rightarrow> bool" where
  "claims_nothing v \<longleftrightarrow> (\<forall>(c, w) \<in> set (nodes [] v). node_ok_bc c w)"

lemma reject_release_claims_ok_iff: "reject_release_claims v c = Inr () \<longleftrightarrow> claims_nothing v"
  unfolding claims_nothing_def using bc_scan.scan_context[of v c "[]"] bc_scan.scan_ok_iff[of v "[]"] by blast

section \<open>The label of a side is only a message\<close>

text \<open>Two computations agree when they return the same values; their errors may differ in the message.\<close>

definition agree :: "'a result \<Rightarrow> 'a result \<Rightarrow> bool" where
  "agree m n \<longleftrightarrow> (\<forall>y. m = Inr y \<longleftrightarrow> n = Inr y)"

lemma agree_refl: "agree m m"
  by (simp add: agree_def)

lemma agree_check: "m = Inr () \<longleftrightarrow> n = Inr () \<Longrightarrow> agree m n"
  by (auto simp: agree_def)

lemma agree_bindE: "agree m n \<Longrightarrow> (\<And>x. agree (f x) (g x)) \<Longrightarrow> agree (bindE m f) (bindE n g)"
  by (auto simp: agree_def bindE_ok_iff)

lemma agree_thenE: "agree m n \<Longrightarrow> agree m' n' \<Longrightarrow> agree (thenE m m') (thenE n n')"
  by (auto simp: agree_def thenE_ok_iff)

lemma agree_require: "agree (require_bc c m) (require_bc c m')"
  by (simp add: agree_def ok_iff)

lemma agree_split: "(\<And>a b. agree (f a b) (g a b)) \<Longrightarrow> agree (case_prod f p) (case_prod g p)"
  by (cases p) simp

lemma agree_option: "agree m m' \<Longrightarrow> (\<And>x. agree (f x) (g x)) \<Longrightarrow> agree (case v of None \<Rightarrow> m | Some x \<Rightarrow> f x) (case v of None \<Rightarrow> m' | Some x \<Rightarrow> g x)"
  by (cases v) auto

lemma agree_Inl: "agree (Inl e) (Inl e')"
  by (simp add: agree_def)

lemma agree_foldE: "(\<And>s x. agree (f s x) (g s x)) \<Longrightarrow> agree (foldE f s xs) (foldE g s xs)"
  by (induction xs arbitrary: s) (auto intro: agree_bindE agree_refl)

lemma agree_let: "agree (f x) (g x) \<Longrightarrow> agree (let y = x in f y) (let y = x in g y)"
  by simp

lemma agree_text: "agree (text_bc v c) (text_bc v c')"
  by (simp add: agree_def bc_text.read_ok)

lemma agree_obj: "agree (obj_bc v c) (obj_bc v c')"
  by (simp add: agree_def bc_obj.read_ok)

lemma agree_path: "agree (safe_path_bc v c) (safe_path_bc v c')"
  by (simp add: agree_def bc_path.read_ok)

lemma agree_claims: "agree (reject_release_claims v c) (reject_release_claims v c')"
  by (intro agree_check) (simp add: reject_release_claims_ok_iff)

lemmas agree_intros = agree_bindE agree_thenE agree_require agree_split agree_option agree_Inl agree_foldE agree_let agree_text agree_obj
  agree_path agree_claims

lemma agree_artifact_claims: "agree (reject_json_artifact_claims env p c) (reject_json_artifact_claims env p c')"
proof (rule agree_check)
  show "reject_json_artifact_claims env p c = Inr () \<longleftrightarrow> reject_json_artifact_claims env p c' = Inr ()"
    by (simp add: reject_json_artifact_claims_def release_claim_line_def bindE_ok_iff forE_ok_iff reraise_ok_iff reject_release_claims_ok_iff case_prod_beta)
qed

lemma agree_validate_ref: "agree (validate_ref_bc env mp r ref c) (validate_ref_bc env mp r ref c')"
  unfolding validate_ref_bc_def artifact_path_def Let_def by (intro agree_intros agree_refl)

lemma agree_index_step: "agree (index_step env mp r l s x) (index_step env mp r l' s x)"
  unfolding index_step_def
  by (cases s; cases x; simp only: prod.case) (intro agree_intros agree_validate_ref agree_artifact_claims agree_refl)

lemma agree_single_role: "agree (single_role refs role l) (single_role refs role l')"
  unfolding single_role_def by (intro agree_intros agree_refl)

lemma agree_row_set: "agree (row_set env p l) (row_set env p l')"
  unfolding row_set_def row_step_def by (intro agree_intros agree_refl)

lemma agree_index_bundle: "agree (index_bundle is_dir env p l r) (index_bundle is_dir env p l' r)"
  unfolding index_bundle_def
  by (intro agree_intros agree_index_step agree_single_role agree_row_set agree_refl)

section \<open>What an index shows\<close>

definition artifact_claims_nothing :: "env \<Rightarrow> path \<Rightarrow> bool" where
  "artifact_claims_nothing env p \<longleftrightarrow>
     (path_suffix p = ''.json'' \<longrightarrow> (\<exists>d. load_json_em env p = Inr d \<and> claims_nothing (JObj d))) \<and>
     (path_suffix p = ''.jsonl'' \<longrightarrow> (\<exists>content. fs_read_text env p = Inr content \<and>
        (\<forall>line \<in> set (splitlines content). strip line = [] \<or> (\<exists>v. json_loads env line = Inr v \<and> claims_nothing v))))"

lemma reject_json_artifact_claims_ok_iff: "reject_json_artifact_claims env p c = Inr () \<longleftrightarrow> artifact_claims_nothing env p"
proof -
  have line: "release_claim_line env p c n line = Inr () \<longleftrightarrow> strip line = [] \<or> (\<exists>v. json_loads env line = Inr v \<and> claims_nothing v)" for n line
    by (simp add: release_claim_line_def bindE_ok_iff reraise_ok_iff reject_release_claims_ok_iff)
  have "forE (\<lambda>(n, line). release_claim_line env p c n line) (enumerate_from 1 ls) = Inr () \<longleftrightarrow>
      (\<forall>l \<in> set ls. strip l = [] \<or> (\<exists>v. json_loads env l = Inr v \<and> claims_nothing v))" for ls
    by (rule forE_enumerate_ok_iff) (simp add: line)
  then show ?thesis
    by (auto simp: reject_json_artifact_claims_def artifact_claims_nothing_def bindE_ok_iff reject_release_claims_ok_iff)
qed

definition refs_of :: "role_refs \<Rightarrow> string \<Rightarrow> (path \<times> string) list" where
  "refs_of refs role = (case refs role of None \<Rightarrow> [] | Some xs \<Rightarrow> xs)"

text \<open>The counter and the dict of an index describe the same references, each hash-matched and free of claims.\<close>

definition index_sound :: "env \<Rightarrow> string multiset \<times> role_refs \<Rightarrow> bool" where
  "index_sound env = (\<lambda>(roles, refs). \<forall>role. count roles role = length (refs_of refs role) \<and> (refs role = None \<longleftrightarrow> role \<notin># roles) \<and>
     (\<forall>(p, digest) \<in> set (refs_of refs role). fs_exists env p \<and> fs_sha256 env p = Inr digest \<and> artifact_claims_nothing env p))"

lemma refs_of_add_ref: "refs_of (add_ref refs role x) r = refs_of refs r @ (if r = role then [x] else [])"
  by (auto simp: refs_of_def add_ref_def)

lemma index_step_sound:
  assumes "index_sound env st" and "index_step env mp root_opt l st x = Inr st'"
  shows "index_sound env st'"
proof -
  obtain roles refs i ref where st: "st = (roles, refs)" "x = (i, ref)" by (metis surj_pair)
  from assms(2) obtain role p digest where ref: "fs_exists env p" "fs_sha256 env p = Inr digest"
      "artifact_claims_nothing env p" and st': "st' = (add_mset role roles, add_ref refs role (p, digest))"
    by (auto simp: st index_step_def validate_ref_bc_def artifact_path_def file_sha_bc_def Let_def ok_iff reject_json_artifact_claims_ok_iff)
  show ?thesis
    using assms(1) ref unfolding st st' index_sound_def by (auto simp: refs_of_add_ref) (auto simp: add_ref_def)
qed

definition bundle_sound :: "env \<Rightarrow> bundle_index \<Rightarrow> bool" where
  "bundle_sound env b \<longleftrightarrow> load_json_em env (manifest_path b) = Inr (bundle_manifest b) \<and> claims_nothing (JObj (bundle_manifest b)) \<and>
     index_sound env (bundle_roles b, refs_by_role b) \<and> set REQUIRED_ROLES_bc \<subseteq> set_mset (bundle_roles b) \<and>
     count (bundle_roles b) ''matrix-manifest'' = 1 \<and> count (bundle_roles b) ''runner-substrate-proof'' = 1 \<and>
     count (bundle_roles b) ''protected-environment-review'' = 1 \<and> runner_tuple b = supported_tuple b"

theorem indexed_bundle_sound:
  assumes "index_bundle is_dir env p l r = Inr b"
  shows "bundle_sound env b"
proof -
  from assms obtain refs_list where run: "load_json_em env (manifest_path b) = Inr (bundle_manifest b)"
      "claims_nothing (JObj (bundle_manifest b))"
      "foldE (index_step env (manifest_path b) r l) ({#}, Map.empty) (enumerate_from 0 refs_list) = Inr (bundle_roles b, refs_by_role b)"
      "set REQUIRED_ROLES_bc \<subseteq> set_mset (bundle_roles b)"
      "\<exists>x. single_role (refs_by_role b) ''matrix-manifest'' l = Inr x"
      "\<exists>x. single_role (refs_by_role b) ''runner-substrate-proof'' l = Inr x"
      "\<exists>x. single_role (refs_by_role b) ''protected-environment-review'' l = Inr x" "runner_tuple b = supported_tuple b"
    unfolding index_bundle_def Let_def bindE_ok_iff thenE_ok_iff require_bc_ok_iff reject_release_claims_ok_iff case_prod_ok_iff
    by (clarsimp simp only: prod.case bundle_index.simps sum.inject) blast
  have "index_sound env ({#}, Map.empty)" by (simp add: index_sound_def refs_of_def)
  with run(3) have sound: "index_sound env (bundle_roles b, refs_by_role b)"
    by (rule foldE_invariant) (rule index_step_sound)
  have one: "count (bundle_roles b) role = 1" if "\<exists>x. single_role (refs_by_role b) role l = Inr x" for role
    using that sound by (auto simp: single_role_def Let_def ok_iff index_sound_def refs_of_def)
  show ?thesis unfolding bundle_sound_def using run sound one by blast
qed

section \<open>Comparison by fingerprint\<close>

text \<open>What of a bundle the comparison looks at: the fields whose change is expected are masked.\<close>

definition masked :: "bool \<Rightarrow> 'a \<Rightarrow> 'a option" where
  "masked expected x = (if expected then None else Some x)"

definition fingerprint ::
  "compare_options \<Rightarrow> bundle_index \<Rightarrow> string multiset \<times> string set \<times> string option \<times> string option \<times> string option \<times> string \<times> nat" where
  "fingerprint options b = (bundle_roles b, matrix_rows b, masked (expect_tuple_change options) (supported_tuple b),
     masked (expect_git_sha_change options) (bundle_git_sha b), masked (expect_bpf_change options) (bundle_bpf_identity b),
     bundle_benchmark_state b)"

definition has_fingerprint ::
  "(path \<Rightarrow> bool) \<Rightarrow> env \<Rightarrow> compare_options \<Rightarrow> path option \<Rightarrow> path \<Rightarrow>
     string multiset \<times> string set \<times> string option \<times> string option \<times> string option \<times> string \<times> nat \<Rightarrow> bool" where
  "has_fingerprint is_dir env options artifact_root p fp \<longleftrightarrow>
     (\<exists>b. index_bundle is_dir env p [] artifact_root = Inr b \<and> bundle_sound env b \<and> fp = fingerprint options b)"

lemma masked_eq_iff: "masked e x = masked e y \<longleftrightarrow> e \<or> x = y"
  by (simp add: masked_def)

lemma compare_bundles_fingerprint:
  "compare_bundles is_dir env left right options = Inr () \<longleftrightarrow>
     (\<exists>fp. has_fingerprint is_dir env options (left_artifact_root options) left fp \<and>
        has_fingerprint is_dir env options (right_artifact_root options) right fp)"
proof -
  have label: "index_bundle is_dir env p l r = Inr b \<longleftrightarrow> index_bundle is_dir env p [] r = Inr b" for p l r b
    using agree_index_bundle[of is_dir env p l r "[]"] by (simp add: agree_def)
  have "compare_bundles is_dir env left right options = Inr () \<longleftrightarrow>
      (\<exists>a b. index_bundle is_dir env left [] (left_artifact_root options) = Inr a \<and>
         index_bundle is_dir env right [] (right_artifact_root options) = Inr b \<and> fingerprint options a = fingerprint options b)"
    unfolding compare_bundles_def bindE_ok_iff thenE_ok_iff require_bc_ok_iff label[of _ "''left''"] label[of _ "''right''"]
      fingerprint_def prod.inject masked_eq_iff by blast
  then show ?thesis unfolding has_fingerprint_def using indexed_bundle_sound by metis
qed

text \<open>
  C11: the comparison of two bundles is decided by one function of a bundle, computed for each side by itself:
  it accepts exactly when both bundles can be indexed, and so are sound, and the fingerprints are equal, where the
  fields whose change is announced are masked. So, up to the artifact roots, it is symmetric and transitive, and each side alone decides what it
  contributes.
\<close>

theorem bundle_compare_fingerprint:
  "compare_bundles is_dir env left right options = Inr () \<longleftrightarrow>
     (\<exists>fp. has_fingerprint is_dir env options (left_artifact_root options) left fp \<and>
        has_fingerprint is_dir env options (right_artifact_root options) right fp)"
  by (rule compare_bundles_fingerprint)

end
