(* ===== verification/Governance.thy ===== *)
theory Governance
  imports Readers
begin

text \<open>
  \<^verbatim>\<open>qa/governance_manifest_check.py\<close>: the manifest of the sources that the governance of a release rests on. An
  accepted manifest lists exactly the sources of a fixed table, each with its purpose, tracked and hash-matched.
\<close>

section \<open>Model\<close>

definition SCHEMA_VERSION :: int where
  "SCHEMA_VERSION = 1"

definition EXPECTED_REQUIRED_SOURCES :: "(string \<times> string) list" where
  "EXPECTED_REQUIRED_SOURCES =
     [(''AGENTS.md'', ''future-agent operator guidance and fail-closed invariants''),
      (''build.zig'', ''Zig build graph wiring for host-safe governance gates''),
      (''README.md'', ''tracked project overview and governance entrypoint''),
      (''WORKLOG.md'', ''historical checkpoints and current project posture''),
      (''.github/workflows/manual-vm-proof.yml'', ''protected manual VM proof workflow contract''),
      (''docs/adr/0001-sched-ext-production-claim-boundary.md'', ''sched_ext production claim boundary ADR''),
      (''docs/adr/0002-loader-architecture.md'', ''loader architecture ADR for lab-scoped backend readiness''),
      (''docs/adr/0003-non-vm-operation-gate.md'', ''non-VM operation governance design gate''),
      (''docs/backend-capability-matrix.md'', ''backend capability matrix and milestone boundaries''),
      (''docs/ci.md'', ''CI gate documentation for lab readiness checks''),
      (''docs/control/frontend-api-pack.md'', ''backend frontend-contract API pack documentation and no-frontend boundary''),
      (''docs/control/incident-taxonomy.md'', ''daemon incident taxonomy source for frontend contract fixtures''),
      (''docs/control/matrix-run-contract.md'', ''matrix-run v1 evidence contract documentation''),
      (''docs/control/schema-compatibility.md'', ''public schema compatibility policy for backend clients''),
      (''docs/control/stream-semantics.md'', ''daemon stream and runtime-sample replay semantics''),
      (''docs/releases/governance-gate.md'', ''release governance gate and evidence matrix''),
      (''docs/releases/supported-kernel-tuples.md'', ''supported VM lab kernel tuple matrix''),
      (''docs/runbooks/sched-ext-fallback.md'', ''sched_ext fallback and rollback runbook''),
      (''docs/runbooks/verifier-and-incident.md'', ''verifier and incident response runbook''),
      (''docs/runbooks/vm-lab.md'', ''VM lab runbook for backend readiness evidence''),
      (''docs/security/review-checklist.md'', ''security signoff and privacy review checklist''),
      (''docs/security/threat-model.md'', ''scheduler backend threat model''),
      (''packaging/README.md'', ''package operator safety and install scope documentation''),
      (''packaging/build_package.sh'', ''package build source and manifest generator''),
      (''packaging/config/default.toml'', ''default package configuration safety posture''),
      (''packaging/systemd/zig-scheduler-daemon.service'', ''daemon systemd unit safety source''),
      (''packaging/systemd/zig-scheduler-lab-mutation.service'', ''lab mutation systemd unit safety source''),
      (''packaging/systemd/zig-scheduler-preflight.service'', ''preflight systemd unit safety source''),
      (''schemas/control/benchmark-output.v1.schema.json'', ''benchmark-output v1 record-only evidence schema''),
      (''schemas/control/evidence-manifest.v1.schema.json'', ''evidence-manifest v1 proof bundle schema''),
      (''schemas/control/matrix-run.v1.schema.json'', ''matrix-run v1 standalone evidence schema''),
      (''schemas/control/protected-environment-review.v1.schema.json'', ''protected environment review approval schema''),
      (''schemas/control/runner-substrate-proof.v1.schema.json'', ''protected runner substrate proof schema''),
      (''schemas/control/runner-cleanliness-proof.v1.schema.json'', ''protected runner cleanliness proof schema''),
      (''schemas/control/runtime-sample.v1.schema.json'', ''runtime-sample v1 sched_ext observation schema''),
      (''qa/backend_capability_matrix_check.py'', ''backend capability matrix contract validator''),
      (''qa/backend_capability_matrix_expected.json'', ''backend capability matrix expected contract source''),
      (''qa/benchmark_output_check.py'', ''benchmark-output v1 validator entrypoint''),
      (''qa/benchmark_output_io.py'', ''benchmark-output JSON IO and privacy boundary''),
      (''qa/benchmark_output_model.py'', ''benchmark-output typed model and parser family source''),
      (''qa/benchmark_output_parse.py'', ''benchmark-output raw parser source''),
      (''qa/benchmark_output_privacy.py'', ''benchmark-output privacy and claim filter''),
      (''qa/benchmark_output_selftest.py'', ''benchmark-output validator adversarial self-test cases''),
      (''qa/benchmark_output_validate.py'', ''benchmark-output semantic validator''),
      (''qa/clean_archive_check.sh'', ''clean archive and fresh clone reproducibility gate''),
      (''qa/consumer_contract_check.py'', ''backend consumer contract lifecycle and incident validator''),
      (''qa/daemon_event_contract_check.py'', ''daemon event JSONL privacy and lifecycle validator''),
      (''qa/evidence_manifest_check.py'', ''evidence-manifest v1 provenance validator''),
      (''qa/evidence_manifest_selftest.py'', ''evidence-manifest v1 validator self-test fixtures''),
      (''qa/frontend_contract_matrix_ref.py'', ''frontend contract matrix artifact reference validator''),
      (''qa/frontend_contract_pack_check.py'', ''frontend contract pack validator entrypoint''),
      (''qa/frontend_contract_pack_selftest.py'', ''frontend contract pack adversarial self-test cases''),
      (''qa/frontend_contract_pack_semantics.py'', ''frontend contract event lifecycle semantic rules''),
      (''qa/frontend_contract_pack_types.py'', ''frontend contract typed fixture helpers''),
      (''qa/governance_manifest_check.py'', ''governance manifest schema and exact Task 11 source validator''),
      (''qa/manual_vm_proof_ci_check.py'', ''manual VM proof workflow and provenance static checker''),
      (''qa/manual_vm_proof_ci_selftest.py'', ''manual VM proof workflow checker self-test fixtures''),
      (''qa/manual_vm_proof_flow.py'', ''manual VM proof embedded flow static semantic checker''),
      (''qa/matrix_benchmark_provenance.py'', ''matrix workload benchmark provenance validator''),
      (''qa/matrix_benchmark_provenance_check.py'', ''matrix benchmark provenance self-test entrypoint''),
      (''qa/matrix_benchmark_provenance_selftest.py'', ''matrix benchmark provenance manifest mutation self-tests''),
      (''qa/matrix_run_contract_check.py'', ''matrix-run v1 contract validator and self-test gate''),
      (''qa/matrix_run_json.py'', ''matrix-run v1 JSON IO and path boundary helper''),
      (''qa/matrix_run_live_backend.py'', ''matrix-run v1 live backend row validator helper''),
      (''qa/matrix_run_manifest_validate.py'', ''matrix-run v1 manifest semantic validator helper''),
      (''qa/matrix_run_model.py'', ''matrix-run v1 typed model and parser source''),
      (''qa/matrix_run_selftest.py'', ''matrix-run v1 adversarial self-test entrypoint helper''),
      (''qa/matrix_run_selftest_cases_basic.py'', ''matrix-run v1 basic self-test fixture cases''),
      (''qa/matrix_run_selftest_cases_live.py'', ''matrix-run v1 live backend self-test fixture cases''),
      (''qa/matrix_run_selftest_cases_workload.py'', ''matrix-run v1 workload self-test fixture cases''),
      (''qa/matrix_run_selftest_common.py'', ''matrix-run v1 self-test fixture builder helpers''),
      (''qa/matrix_run_selftest_pack.py'', ''matrix-run v1 self-test fixture pack validator helper''),
      (''qa/matrix_run_validate.py'', ''matrix-run v1 fixture and manifest validation orchestrator''),
      (''qa/matrix_run_workload.py'', ''matrix-run v1 workload metadata validator helper''),
      (''qa/protected_core_suite_check.py'', ''protected core matrix suite validator''),
      (''qa/protected_core_suite_selftest.py'', ''protected core matrix suite self-test fixtures''),
      (''qa/protected_core_telemetry_check.py'', ''protected core runtime telemetry normalization validator''),
      (''qa/protected_core_telemetry_selftest.py'', ''protected core runtime telemetry self-test fixtures''),
      (''qa/no_frontend_root.sh'', ''root frontend and UI artifact exclusion gate''),
      (''qa/no_host_mutation.sh'', ''host mutation denial gate''),
      (''qa/package_defaults.sh'', ''package default safety inspection gate''),
      (''qa/package_lifecycle_drill.sh'', ''package install upgrade uninstall lifecycle drill''),
      (''qa/package_manifest_check.py'', ''package manifest semantic safety validator''),
      (''qa/protected_environment_review_check.py'', ''protected environment review contract validator''),
      (''qa/release_gate.sh'', ''release evidence gate consumed by lab/release checks''),
      (''qa/release_gate_selftest.py'', ''release evidence gate helper and adversarial self-test logic''),
      (''qa/runner_substrate_proof_check.py'', ''protected runner substrate proof validator''),
      (''qa/runner_substrate_proof_common.py'', ''protected runner substrate proof shared JSON loader and error source''),
      (''qa/runner_substrate_proof_selftest.py'', ''protected runner substrate proof adversarial self-test cases''),
      (''qa/runner_cleanliness_proof_check.py'', ''protected runner cleanliness proof validator''),
      (''qa/runtime_sample_check.py'', ''runtime-sample v1 validator entrypoint''),
      (''qa/runtime_sample_common.py'', ''runtime-sample shared parsing and primitive validators''),
      (''qa/runtime_sample_core.py'', ''runtime-sample core schema and alert semantics validator''),
      (''qa/runtime_sample_digest.py'', ''runtime-sample digest summary validator''),
      (''qa/runtime_sample_fields.py'', ''runtime-sample required field source of truth''),
      (''qa/runtime_sample_fixtures.py'', ''runtime-sample safe fixture generator''),
      (''qa/runtime_sample_policy_abi.py'', ''runtime-sample policy ABI contract validator''),
      (''qa/runtime_sample_sched_ext.py'', ''runtime-sample sched_ext kernel fact validator''),
      (''qa/runtime_sample_selftest.py'', ''runtime-sample adversarial self-test cases''),
      (''qa/schema_compatibility_check.py'', ''public schema compatibility validator''),
      (''qa/schema_compatibility_schema_rules.py'', ''schema compatibility structural rules shared by control schema gates''),
      (''qa/schema_compatibility_runner_cleanliness_rules.py'', ''schema compatibility runner cleanliness proof freeze rules''),
      (''qa/evidence_bundle_compare_check.py'', ''protected evidence bundle comparison validator''),
      (''qa/evidence_bundle_paths.py'', ''protected evidence bundle artifact path and digest helper''),
      (''qa/evidence_bundle_compare_selftest.py'', ''protected evidence bundle comparison self-test fixtures''),
      (''qa/security_gate.sh'', ''security profile gate consumed by governance checks''),
      (''qa/unsafe_cli_matrix.sh'', ''unsafe CLI refusal matrix gate''),
      (''qa/vm/contract_check.sh'', ''disposable VM execution contract validator''),
      (''qa/vm/execution_contract.json'', ''disposable VM execution contract source''),
      (''qa/vm/microvm_rootfs.sh'', ''microVM rootfs public build wrapper and self-test dispatcher''),
      (''qa/vm/microvm_rootfs_guest_init.sh'', ''microVM rootfs guest init script writer helper''),
      (''qa/vm/microvm_rootfs_selftest.sh'', ''microVM rootfs workload-tool self-test helper''),
      (''qa/vm/run_microvm_live_lab.sh'', ''microVM live lab public runner wrapper and self-test dispatcher''),
      (''qa/vm/run_microvm_live_lab_selftest.sh'', ''microVM live runner fallback self-test helper''),
      (''qa/vm/vm_harness_matrix.sh'', ''canonical host-safe VM harness matrix runner''),
      (''qa/vm/vm_harness_matrix_emit.py'', ''VM harness matrix JSON row and manifest emit helper''),
      (''qa/vm/workload_execution_check.py'', ''row-local VM workload execution PASS validator''),
      (''qa/vm/workload_catalog_check.sh'', ''VM workload catalog and matrix fixture validator''),
      (''qa/wording_audit.sh'', ''wording, contradiction, and prompt-injection audit gate''),
      (''fixtures/protected-environment-review/valid/github-review-run-28539973410.json'', ''protected environment review approved GitHub run fixture''),
      (''fixtures/runner-substrate-proof/valid/protected-review.json'', ''runner substrate proof embedded protected environment review fixture''),
      (''fixtures/protected-environment-review/invalid/api-url-repo-mismatch.json'', ''protected environment review invalid API URL repository mismatch fixture''),
      (''fixtures/protected-environment-review/invalid/dirty-worktree-field.json'', ''protected environment review invalid dirty worktree field fixture''),
      (''fixtures/protected-environment-review/invalid/host-mutation-true.json'', ''protected environment review invalid host mutation claim fixture''),
      (''fixtures/protected-environment-review/invalid/malformed.json'', ''protected environment review invalid malformed JSON fixture''),
      (''fixtures/protected-environment-review/invalid/misleading-success-output-field.json'', ''protected environment review invalid misleading success output fixture''),
      (''fixtures/protected-environment-review/invalid/missing-reviewer-identity.json'', ''protected environment review invalid missing reviewer identity fixture''),
      (''fixtures/protected-environment-review/invalid/missing-run-url.json'', ''protected environment review invalid missing run URL fixture''),
      (''fixtures/protected-environment-review/invalid/non-approved-state.json'', ''protected environment review invalid non-approved state fixture''),
      (''fixtures/protected-environment-review/invalid/privacy-unsafe-key.json'', ''protected environment review invalid privacy unsafe key fixture''),
      (''fixtures/protected-environment-review/invalid/production-capacity-claim-true.json'', ''protected environment review invalid production capacity claim fixture''),
      (''fixtures/protected-environment-review/invalid/release-eligible-true.json'', ''protected environment review invalid release eligibility claim fixture''),
      (''fixtures/protected-environment-review/invalid/run-url-id-mismatch.json'', ''protected environment review invalid run URL ID mismatch fixture''),
      (''fixtures/protected-environment-review/invalid/stale-state-field.json'', ''protected environment review invalid stale state field fixture''),
      (''fixtures/protected-environment-review/invalid/wrong-comment.json'', ''protected environment review invalid approval comment fixture''),
      (''fixtures/protected-environment-review/invalid/wrong-env.json'', ''protected environment review invalid environment fixture'')]"

definition EXPECTED_PURPOSE_BY_PATH :: "string \<rightharpoonup> string" where
  "EXPECTED_PURPOSE_BY_PATH = map_of (rev EXPECTED_REQUIRED_SOURCES)"

definition HEX_DIGITS :: "string" where
  "HEX_DIGITS = ''0123456789abcdef''"

record governance_args =
  gv_manifest :: path
  require_production_matrix :: bool
  gv_self_test :: bool

record governance_source =
  source_path :: path
  purpose :: string
  required :: bool
  digest :: string

text \<open>
  What lies outside: \<^verbatim>\<open>git ls-files\<close> with its return code, output and error output, the return code of
  \<^verbatim>\<open>git check-ignore\<close> for a path, and the environment variable that allows the check outside a repository.
\<close>

record governance_tools =
  tracked_files :: "(int \<times> string \<times> string) result"
  check_ignore :: "string \<Rightarrow> int result"
  archive_mode :: "string option"

definition reject_json_constant :: "string \<Rightarrow> exn" where
  "reject_json_constant v = GovernanceManifestError (msg [''invalid JSON constant: '', v])"

definition load_json_object_gv :: "env \<Rightarrow> path \<Rightarrow> string \<Rightarrow> json_object result" where
  "load_json_object_gv env path context =
     (bindE (reraise is_JSONDecodeError
         (\<lambda>exc. case exc of JSONDecodeError pos m s \<Rightarrow> GovernanceManifestError (msg [''invalid '', context, '' JSON at byte '', show_nat pos, '': '', m]))
         (reraise is_FileNotFoundError (\<lambda>_. GovernanceManifestError (msg [''missing '', context, '': '', path_str path]))
         (bindE (fs_read_text env path) (json_loads_strict env reject_json_constant)))) (\<lambda>raw.
     case obj_of raw of
         None \<Rightarrow> Inl (GovernanceManifestError (msg [context, '' must be a JSON object'']))
         | Some d \<Rightarrow> Inr d))"

definition DEFAULT_MANIFEST :: path where
  "DEFAULT_MANIFEST = mk_path ''fixtures/lab/governance-sources.json''"

fun parse_args_loop_gv :: "string list \<Rightarrow> governance_args \<Rightarrow> governance_args result" where
  "parse_args_loop_gv [] args = Inr args"
| "parse_args_loop_gv (arg # rest) args =
     (if arg = ''--manifest'' then
        (case rest of [] \<Rightarrow> Inl (GovernanceManifestError ''--manifest requires a path'')
         | v # rest' \<Rightarrow> parse_args_loop_gv rest' (args \<lparr> gv_manifest := mk_path v \<rparr>))
      else if arg = ''--require-production-matrix'' then parse_args_loop_gv rest (args \<lparr> require_production_matrix := True \<rparr>)
      else Inl (GovernanceManifestError ''usage: governance_manifest_check.py [--manifest <path>] [--require-production-matrix] | --self-test''))"

definition parse_args_gv :: "string list \<Rightarrow> governance_args result" where
  "parse_args_gv argv =
     (if argv = [''--self-test''] then Inr \<lparr> gv_manifest = DEFAULT_MANIFEST, require_production_matrix = False, gv_self_test = True \<rparr>
      else if argv = [] then Inl (GovernanceManifestError ''usage: governance_manifest_check.py --manifest <path>'')
      else parse_args_loop_gv argv \<lparr> gv_manifest = DEFAULT_MANIFEST, require_production_matrix = False, gv_self_test = False \<rparr>)"

definition validate_exact_source_contract :: "governance_source list \<Rightarrow> check" where
  "validate_exact_source_contract sources =
     ((let paths = map (\<lambda>source. path_str (source_path source)) sources in
     (let expected = map fst EXPECTED_REQUIRED_SOURCES in
     (let missing = sorted_diff expected paths in
     thenE (raise_if (missing \<noteq> []) (GovernanceManifestError (''missing exact Task 11 governance source: '' @ join '','' missing))) (
     (let unexpected = sorted_diff paths expected in
     thenE (raise_if (unexpected \<noteq> []) (GovernanceManifestError (''unexpected Task 11 governance source: '' @ join '','' unexpected))) (
     forE (\<lambda>source.
         ((let path_text = path_str (source_path source) in
         thenE (raise_if (\<not> required source) (GovernanceManifestError (msg [''Task 11 governance source must be required: '', path_text]))) (
         (case EXPECTED_PURPOSE_BY_PATH path_text of
         None \<Rightarrow> Inl (KeyError path_text)
         | Some expected_purpose \<Rightarrow>
         raise_if (purpose source \<noteq> expected_purpose) (GovernanceManifestError (msg [''Task 11 governance source purpose mismatch: '', path_text])))))))
         sources)))))))"

text \<open>The body of the loop of \<^verbatim>\<open>parse_manifest\<close>: the paths seen and the sources, the last one first.\<close>

definition source_step :: "string list \<times> governance_source list \<Rightarrow> nat \<times> json \<Rightarrow> (string list \<times> governance_source list) result" where
  "source_step = (\<lambda>(seen, parsed) (index, item).
     case obj_of item of
       None \<Rightarrow> Inl (GovernanceManifestError (msg [''source['', show_nat index, ''] must be an object'']))
     | Some d \<Rightarrow>
         (case text_of (jget d ''path'') of
            None \<Rightarrow> Inl (GovernanceManifestError (msg [''source['', show_nat index, ''] has invalid relative path'']))
          | Some path_value \<Rightarrow>
              (thenE (raise_if (prefix ''/'' path_value) (GovernanceManifestError (msg [''source['', show_nat index, ''] has invalid relative path'']))) (
                (let parts = path_parts (mk_path path_value) in
                thenE (raise_if (''..'' \<in> set parts) (GovernanceManifestError (msg [''source['', show_nat index, ''] has path traversal: '', path_value]))) (
                thenE (raise_if (parts \<noteq> [] \<and> parts ! 0 \<in> {''.omo'', ''.omx''})
                    (GovernanceManifestError (msg [''source['', show_nat index, ''] uses ignored local state: '', path_value]))) (
                thenE (raise_if (path_value \<in> set seen) (GovernanceManifestError (msg [''duplicate governance source: '', path_value]))) (
                (case text_of (jget d ''purpose'') of
                    None \<Rightarrow> Inl (GovernanceManifestError (msg [''source['', path_value, ''] has invalid purpose'']))
                    | Some purpose_text \<Rightarrow>
                    (case bool_of (jget d ''required'') of
                    None \<Rightarrow> Inl (GovernanceManifestError (msg [''source['', path_value, ''] has invalid required flag'']))
                    | Some flag \<Rightarrow>
                    (case str_of (jget d ''sha256'') of
                    None \<Rightarrow> Inl (GovernanceManifestError (msg [''source['', path_value, ''] has invalid sha256'']))
                    | Some sha \<Rightarrow>
                    thenE (raise_if (length sha \<noteq> 64 \<or> list_ex (\<lambda>c. c \<notin> set HEX_DIGITS) sha)
                    (GovernanceManifestError (msg [''source['', path_value, ''] has invalid sha256''])))
                    (Inr (path_value # seen,
                    \<lparr> source_path = mk_path path_value, purpose = purpose_text, required = flag, digest = sha \<rparr> # parsed)))))))))))))"

definition parse_manifest :: "env \<Rightarrow> path \<Rightarrow> governance_source list result" where
  "parse_manifest env path =
     (bindE (load_json_object_gv env path ''governance manifest'') (\<lambda>raw.
     thenE (raise_if (\<not> py_eq (jget raw ''schema_version'') (JInt SCHEMA_VERSION))
         (GovernanceManifestError (msg [''unsupported governance manifest schema_version: '', py_repr (jget raw ''schema_version'')]))) (
     (case jget raw ''sources'' of
         JList (item # items) \<Rightarrow>
         bindE (foldE source_step ([], []) (enumerate_from 0 (item # items))) (\<lambda>(seen, parsed).
         thenE (validate_exact_source_contract (rev parsed)) (Inr (rev parsed)))
         | _ \<Rightarrow> Inl (GovernanceManifestError ''governance manifest must contain non-empty sources'')))))"

definition git_tracked_files :: "governance_tools \<Rightarrow> string list result" where
  "git_tracked_files tools =
     bindE (tracked_files tools) (\<lambda>(returncode, stdout, stderr).
       if returncode \<noteq> 0 then Inl (GovernanceManifestError (msg [''git ls-files failed: '', strip stderr])) else Inr (splitlines stdout))"

definition git_check_ignore :: "governance_tools \<Rightarrow> path \<Rightarrow> bool result" where
  "git_check_ignore tools path = bindE (check_ignore tools (path_str path)) (\<lambda>returncode. Inr (returncode = 0))"

definition archive_mode_allowed :: "governance_tools \<Rightarrow> bool" where
  "archive_mode_allowed tools \<longleftrightarrow> archive_mode tools = Some ''1''"

definition validate_source :: "governance_tools \<Rightarrow> env \<Rightarrow> string list \<Rightarrow> governance_source \<Rightarrow> check" where
  "validate_source tools env tracked source =
     ((let path_text = path_str (source_path source) in
     thenE (raise_if (required source \<and> \<not> archive_mode_allowed tools \<and> path_text \<notin> set tracked)
         (GovernanceManifestError (msg [''missing tracked governance source: '', path_text]))) (
     bindE (if required source \<and> \<not> archive_mode_allowed tools then git_check_ignore tools (source_path source) else Inr False) (\<lambda>ignored.
     thenE (raise_if ignored (GovernanceManifestError (msg [''missing tracked governance source (ignored): '', path_text]))) (
     bindE (reraise is_FileNotFoundError (\<lambda>_. GovernanceManifestError (msg [''missing tracked governance source: '', path_text]))
         (fs_sha256 env (source_path source))) (\<lambda>actual.
     raise_if (actual \<noteq> digest source) (GovernanceManifestError (msg [''governance source hash mismatch: '', path_text]))))))))"

definition validate_sources :: "governance_tools \<Rightarrow> env \<Rightarrow> governance_source list \<Rightarrow> check" where
  "validate_sources tools env sources =
     (bindE (if archive_mode_allowed tools then Inr [] else git_tracked_files tools) (\<lambda>tracked.
     forE (validate_source tools env tracked) sources))"

definition PRODUCTION_MATRIX_TERMS :: "(string \<times> string) list" where
  "PRODUCTION_MATRIX_TERMS =
     [(''kernel tuple matrix'', ''kernel tuple matrix''),
      (''verifier logs'', ''verifier log''),
      (''VM attach evidence'', ''vm-only partial-switch attach''),
      (''rollback drills'', ''rollback drill''),
      (''stress and chaos'', ''stress/chaos''),
      (''audit ledger'', ''audit ledger''),
      (''security signoff'', ''security signoff''),
      (''package install safety'', ''package install''),
      (''package upgrade safety'', ''package upgrade''),
      (''package uninstall safety'', ''package uninstall''),
      (''incident runbook'', ''incident runbook''),
      (''privacy review'', ''privacy review''),
      (''matrix manifest'', ''matrix-run/v1''),
      (''systemd no auto-start'', ''no auto-start'')]"

definition require_text_gv :: "env \<Rightarrow> path \<Rightarrow> string \<Rightarrow> string \<Rightarrow> check" where
  "require_text_gv env path needle label =
     (bindE (reraise is_FileNotFoundError (\<lambda>_. GovernanceManifestError (msg [''missing production matrix source: '', path_str path])) (fs_read_text env path)) (\<lambda>content.
     raise_if (\<not> contains (lower needle) (lower content)) (GovernanceManifestError (msg [''production evidence matrix missing '', label, '': '', path_str path]))))"

definition validate_production_matrix :: "env \<Rightarrow> check" where
  "validate_production_matrix env =
     (let gate = mk_path ''docs/releases/governance-gate.md''; checklist = mk_path ''docs/security/review-checklist.md'' in
      (thenE (forE (\<lambda>(label, needle). require_text_gv env gate needle label) PRODUCTION_MATRIX_TERMS) (
      thenE (require_text_gv env checklist ''security signoff'' ''security signoff checklist'') (
      thenE (require_text_gv env checklist ''privacy review'' ''privacy review checklist'') (
      bindE (reraise is_GovernanceManifestError (\<lambda>exc. GovernanceManifestError (exn_str exc))
          (load_json_object_gv env (mk_path ''evidence/releases/0.2.0-lab/summary.json'') ''release summary'')) (\<lambda>summary.
      thenE (raise_if (jget summary ''production_ready'' \<noteq> JBool False) (GovernanceManifestError ''current release summary must keep production_ready=false'')) (
      thenE (raise_if (jget summary ''arbitrary_host_safe'' \<noteq> JBool False) (GovernanceManifestError ''current release summary must keep arbitrary_host_safe=false'')) (
      raise_if (jget summary ''release_status'' \<noteq> JStr ''controlled_lab_pilot_candidate'')
          (GovernanceManifestError ''current release summary must remain controlled_lab_pilot_candidate'')))))))))"

text \<open>The command; the self-test, which writes temporary manifests, is a parameter.\<close>

definition run_gv :: "check \<Rightarrow> governance_tools \<Rightarrow> env \<Rightarrow> string list \<Rightarrow> (string \<times> int) result" where
  "run_gv self_test tools env argv =
     (bindE (parse_args_gv argv) (\<lambda>args.
     (if gv_self_test args then thenE self_test (Inr ([], 0))
         else
         (bindE (parse_manifest env (gv_manifest args)) (\<lambda>sources.
         thenE (validate_sources tools env sources) (
         thenE ((if require_production_matrix args then validate_production_matrix env else Inr ())) (
         (let count = length (filter required sources) in
         Inr ((msg [''PASS governance manifest: '', path_str (gv_manifest args), '' required_sources='', show_nat count, '' total_sources='', show_nat (length sources)]), 0)))))))))"

definition main_gv :: "check \<Rightarrow> governance_tools \<Rightarrow> env \<Rightarrow> string list \<Rightarrow> (string \<times> int) result" where
  "main_gv self_test tools env argv =
     (case run_gv self_test tools env argv of
        Inl e \<Rightarrow> if is_GovernanceManifestError e then Inr ((msg [''FAIL governance manifest: '', exn_str e]), 1) else Inl e
      | Inr r \<Rightarrow> Inr r)"

section \<open>The sources as a manifest declares them\<close>

definition raw_path :: "json \<Rightarrow> string" where
  "raw_path v = (case obj_of v of None \<Rightarrow> [] | Some d \<Rightarrow> (case text_of (jget d ''path'') of None \<Rightarrow> [] | Some p \<Rightarrow> p))"

text \<open>A path that a source may have: relative, without traversal and outside the local state directories.\<close>

definition source_path_ok :: "string \<Rightarrow> bool" where
  "source_path_ok p \<longleftrightarrow> p \<noteq> [] \<and> \<not> prefix ''/'' p \<and> ''..'' \<notin> set (path_parts (mk_path p)) \<and>
     \<not> (path_parts (mk_path p) \<noteq> [] \<and> path_parts (mk_path p) ! 0 \<in> {''.omo'', ''.omx''})"

definition sha256_text :: "string \<Rightarrow> bool" where
  "sha256_text h \<longleftrightarrow> length h = 64 \<and> set h \<subseteq> set ''0123456789abcdef''"

definition declares :: "json \<Rightarrow> governance_source \<Rightarrow> bool" where
  "declares v s \<longleftrightarrow> (\<exists>d p. v = JObj d \<and> jget d ''path'' = JStr p \<and> source_path_ok p \<and> source_path s = mk_path p \<and>
     jget d ''purpose'' = JStr (purpose s) \<and> purpose s \<noteq> [] \<and> jget d ''required'' = JBool (required s) \<and>
     jget d ''sha256'' = JStr (digest s) \<and> sha256_text (digest s))"

lemma hex_digits_iff: "list_ex (\<lambda>c. c \<notin> set HEX_DIGITS) h \<longleftrightarrow> \<not> set h \<subseteq> set ''0123456789abcdef''"
  unfolding HEX_DIGITS_def list_ex_iff by blast

lemma source_step_ok:
  "source_step (seen, parsed) (i, v) = Inr st \<longleftrightarrow>
     (\<exists>s. declares v s \<and> raw_path v \<notin> set seen \<and> st = (raw_path v # seen, s # parsed))"
proof
  assume "source_step (seen, parsed) (i, v) = Inr st"
  then obtain d p u r h where ok: "obj_of v = Some d" "text_of (jget d ''path'') = Some p" "\<not> prefix ''/'' p"
      "''..'' \<notin> set (path_parts (mk_path p))" "\<not> (path_parts (mk_path p) \<noteq> [] \<and> path_parts (mk_path p) ! 0 \<in> {''.omo'', ''.omx''})"
      "p \<notin> set seen" "text_of (jget d ''purpose'') = Some u" "bool_of (jget d ''required'') = Some r" "str_of (jget d ''sha256'') = Some h"
      "\<not> (length h \<noteq> 64 \<or> list_ex (\<lambda>c. c \<notin> set HEX_DIGITS) h)"
      "st = (p # seen, \<lparr> source_path = mk_path p, purpose = u, required = r, digest = h \<rparr> # parsed)"
    unfolding source_step_def case_option_Inl Let_def prod.case thenE_ok_iff raise_if_ok_iff by blast
  have "declares v \<lparr> source_path = mk_path p, purpose = u, required = r, digest = h \<rparr>"
    using ok(1-10) unfolding declares_def source_path_ok_def sha256_text_def hex_digits_iff
    by (simp add: obj_of_iff text_of_iff bool_of_iff str_of_iff)
  then show "\<exists>s. declares v s \<and> raw_path v \<notin> set seen \<and> st = (raw_path v # seen, s # parsed)"
    using ok(1,2,6,11) by (auto simp: raw_path_def)
next
  assume "\<exists>s. declares v s \<and> raw_path v \<notin> set seen \<and> st = (raw_path v # seen, s # parsed)"
  then obtain s d p where s: "v = JObj d" "jget d ''path'' = JStr p" "source_path_ok p" "source_path s = mk_path p"
      "jget d ''purpose'' = JStr (purpose s)" "purpose s \<noteq> []" "jget d ''required'' = JBool (required s)"
      "jget d ''sha256'' = JStr (digest s)" "sha256_text (digest s)"
    and st: "raw_path v \<notin> set seen" "st = (raw_path v # seen, s # parsed)"
    by (auto simp: declares_def)
  have "raw_path v = p" using s(1-3) by (simp add: raw_path_def source_path_ok_def)
  with s st show "source_step (seen, parsed) (i, v) = Inr st"
    by (cases s) (simp add: source_step_def source_path_ok_def sha256_text_def hex_digits_iff raise_if_def Let_def)
qed

interpretation gv_sources: unique_loop source_step fst "\<lambda>x. raw_path (snd x)"
  by unfold_locales (auto simp: source_step_ok)

lemma source_loop_ok:
  "foldE source_step (seen, parsed) (enumerate_from n items) = Inr st \<longleftrightarrow>
     (\<exists>sources. list_all2 declares items sources \<and> distinct (map raw_path items) \<and> set (map raw_path items) \<inter> set seen = {} \<and>
        st = (rev (map raw_path items) @ seen, rev sources @ parsed))"
proof (induction items arbitrary: seen parsed n)
  case Nil
  then show ?case by auto
next
  case (Cons v items)
  show ?case (is "?run \<longleftrightarrow> ?spec")
  proof
    assume ?run
    then obtain s sources where "declares v s" "list_all2 declares items sources" "raw_path v \<notin> set seen"
        "distinct (map raw_path items)" "set (map raw_path items) \<inter> set (raw_path v # seen) = {}"
        "st = (rev (map raw_path items) @ raw_path v # seen, rev sources @ s # parsed)"
      by (auto simp: bindE_ok_iff source_step_ok Cons.IH)
    then show ?spec by (intro exI[of _ "s # sources"]) auto
  next
    assume ?spec
    then obtain s sources where "declares v s" "list_all2 declares items sources" "distinct (map raw_path (v # items))"
        "set (map raw_path (v # items)) \<inter> set seen = {}"
        "st = (rev (map raw_path items) @ raw_path v # seen, rev sources @ s # parsed)"
      by (auto simp: list_all2_Cons1)
    moreover from this have "foldE source_step (raw_path v # seen, s # parsed) (enumerate_from (Suc n) items) = Inr st"
      unfolding Cons.IH by auto
    ultimately show ?run by (auto simp: bindE_ok_iff source_step_ok intro: exI[of _ s])
  qed
qed

section \<open>The exact table\<close>

definition covers_table :: "governance_source list \<Rightarrow> bool" where
  "covers_table sources \<longleftrightarrow> (\<lambda>s. path_str (source_path s)) ` set sources = dom EXPECTED_PURPOSE_BY_PATH \<and>
     (\<forall>s \<in> set sources. required s \<and> EXPECTED_PURPOSE_BY_PATH (path_str (source_path s)) = Some (purpose s))"

lemma validate_exact_source_contract_iff: "validate_exact_source_contract sources = Inr () \<longleftrightarrow> covers_table sources"
  by (auto simp: validate_exact_source_contract_def covers_table_def Let_def thenE_ok_iff raise_if_ok_iff forE_ok_iff
      case_option_Inl EXPECTED_PURPOSE_BY_PATH_def dom_map_of_conv_image_fst)

text \<open>
  The rows of a manifest declare sources: no two rows spell the same path, and the sources are exactly those of the table, each
  required and with its purpose.
\<close>

definition declared_sources :: "json_object \<Rightarrow> governance_source list \<Rightarrow> bool" where
  "declared_sources d sources \<longleftrightarrow> py_eq (jget d ''schema_version'') (JInt 1) \<and>
     (\<exists>items. jget d ''sources'' = JList items \<and> list_all2 declares items sources \<and> distinct (map raw_path items) \<and> covers_table sources)"

lemma expected_nonempty: "EXPECTED_REQUIRED_SOURCES \<noteq> []"
  unfolding EXPECTED_REQUIRED_SOURCES_def by (rule list.distinct(2))

lemma covers_table_nonempty: "covers_table sources \<Longrightarrow> sources \<noteq> []"
  using expected_nonempty by (auto simp: covers_table_def EXPECTED_PURPOSE_BY_PATH_def dom_map_of_conv_image_fst)

lemma source_loop_bind:
  "bindE (foldE source_step ([], []) (enumerate_from n items)) (\<lambda>(seen, parsed). finish (rev parsed)) = Inr r \<longleftrightarrow>
     (\<exists>sources. list_all2 declares items sources \<and> distinct (map raw_path items) \<and> finish sources = Inr r)"
proof
  assume "\<exists>sources. list_all2 declares items sources \<and> distinct (map raw_path items) \<and> finish sources = Inr r"
  then obtain sources where "list_all2 declares items sources" "distinct (map raw_path items)" "finish sources = Inr r" by blast
  moreover from this have "foldE source_step ([], []) (enumerate_from n items) = Inr (rev (map raw_path items), rev sources)"
    unfolding source_loop_ok by auto
  ultimately show "bindE (foldE source_step ([], []) (enumerate_from n items)) (\<lambda>(seen, parsed). finish (rev parsed)) = Inr r"
    by simp
qed (auto simp: bindE_ok_iff source_loop_ok)

lemma parse_manifest_ok_iff:
  "parse_manifest env path = Inr sources \<longleftrightarrow>
     (\<exists>d. load_json_object_gv env path ''governance manifest'' = Inr d \<and> declared_sources d sources)"
proof -
  have rows: "(case v of JList (item # items) \<Rightarrow>
        bindE (foldE source_step ([], []) (enumerate_from 0 (item # items))) (\<lambda>(seen, parsed).
          thenE (validate_exact_source_contract (rev parsed)) (Inr (rev parsed)))
      | _ \<Rightarrow> Inl e) = Inr sources \<longleftrightarrow>
      (\<exists>items. v = JList items \<and> list_all2 declares items sources \<and> distinct (map raw_path items) \<and> covers_table sources)" for v e
  proof (cases "\<exists>item items. v = JList (item # items)")
    case True
    then show ?thesis
      using source_loop_bind[of 0 _ "\<lambda>sources. thenE (validate_exact_source_contract sources) (Inr sources)" sources]
      by (auto simp: thenE_ok_iff validate_exact_source_contract_iff simp del: enumerate_from_simps foldE.simps)
  next
    case False
    then show ?thesis
      by (auto split: json.splits list.splits dest: covers_table_nonempty)
  qed
  show ?thesis
    unfolding parse_manifest_def bindE_ok_iff thenE_ok_iff raise_if_ok_iff rows declared_sources_def SCHEMA_VERSION_def by auto
qed

section \<open>Tracked and hash-matched\<close>

definition tracked_in_git :: "governance_tools \<Rightarrow> path \<Rightarrow> bool" where
  "tracked_in_git tools p \<longleftrightarrow> (\<exists>listing err code. tracked_files tools = Inr (0, listing, err) \<and> path_str p \<in> set (splitlines listing) \<and>
     check_ignore tools (path_str p) = Inr code \<and> code \<noteq> 0)"

definition source_current :: "governance_tools \<Rightarrow> env \<Rightarrow> governance_source \<Rightarrow> bool" where
  "source_current tools env s \<longleftrightarrow> fs_sha256 env (source_path s) = Inr (digest s) \<and>
     (archive_mode tools = Some ''1'' \<or> tracked_in_git tools (source_path s))"

lemma validate_sources_iff:
  assumes "\<forall>s \<in> set sources. required s" and "sources \<noteq> []"
  shows "validate_sources tools env sources = Inr () \<longleftrightarrow> (\<forall>s \<in> set sources. source_current tools env s)"
proof (cases "archive_mode_allowed tools")
  case True
  then show ?thesis
    by (auto simp: validate_sources_def validate_source_def Let_def source_current_def archive_mode_allowed_def
        bindE_ok_iff thenE_ok_iff raise_if_ok_iff forE_ok_iff reraise_ok_iff)
next
  case False
  then have one: "validate_source tools env tracked s = Inr () \<longleftrightarrow>
      path_str (source_path s) \<in> set tracked \<and> (\<exists>code. check_ignore tools (path_str (source_path s)) = Inr code \<and> code \<noteq> 0) \<and>
      fs_sha256 env (source_path s) = Inr (digest s)" if "s \<in> set sources" for s tracked
    using assms(1) that
    by (auto simp: validate_source_def git_check_ignore_def Let_def bindE_ok_iff thenE_ok_iff raise_if_ok_iff reraise_ok_iff)
  have listing: "git_tracked_files tools = Inr tracked \<longleftrightarrow> (\<exists>out err. tracked_files tools = Inr (0, out, err) \<and> tracked = splitlines out)" for tracked
    by (auto simp: git_tracked_files_def bindE_ok_iff)
  from False have "validate_sources tools env sources = Inr () \<longleftrightarrow>
      (\<exists>out err. tracked_files tools = Inr (0, out, err) \<and> (\<forall>s \<in> set sources. validate_source tools env (splitlines out) s = Inr ()))"
    by (auto simp: validate_sources_def bindE_ok_iff forE_ok_iff listing)
  also have "\<dots> \<longleftrightarrow> (\<forall>s \<in> set sources. source_current tools env s)"
    using assms(2) False by (cases "tracked_files tools") (auto simp: one source_current_def tracked_in_git_def archive_mode_allowed_def neq_Nil_conv)
  finally show ?thesis .
qed

section \<open>The production matrix\<close>

definition states :: "env \<Rightarrow> string \<Rightarrow> string list \<Rightarrow> bool" where
  "states env p needles \<longleftrightarrow> (\<exists>content. fs_read_text env (mk_path p) = Inr content \<and> (\<forall>needle \<in> set needles. contains (lower needle) (lower content)))"

definition production_matrix_stated :: "env \<Rightarrow> bool" where
  "production_matrix_stated env \<longleftrightarrow>
     states env ''docs/releases/governance-gate.md'' (map snd PRODUCTION_MATRIX_TERMS) \<and>
     states env ''docs/security/review-checklist.md'' [''security signoff'', ''privacy review''] \<and>
     (\<exists>summary. load_json_object_gv env (mk_path ''evidence/releases/0.2.0-lab/summary.json'') ''release summary'' = Inr summary \<and>
        jget summary ''production_ready'' = JBool False \<and> jget summary ''arbitrary_host_safe'' = JBool False \<and>
        jget summary ''release_status'' = JStr ''controlled_lab_pilot_candidate'')"

lemma require_text_gv_ok_iff:
  "require_text_gv env p needle label = Inr () \<longleftrightarrow> (\<exists>content. fs_read_text env p = Inr content \<and> contains (lower needle) (lower content))"
  by (auto simp: require_text_gv_def bindE_ok_iff reraise_ok_iff raise_if_ok_iff)

lemma require_texts_ok_iff:
  assumes "terms \<noteq> []"
  shows "(\<forall>(label, needle) \<in> set terms. require_text_gv env (mk_path p) needle label = Inr ()) \<longleftrightarrow> states env p (map snd terms)"
  using assms by (cases "fs_read_text env (mk_path p)"; cases terms; fastforce simp: states_def require_text_gv_ok_iff)

lemma validate_production_matrix_iff: "validate_production_matrix env = Inr () \<longleftrightarrow> production_matrix_stated env"
proof -
  have "PRODUCTION_MATRIX_TERMS \<noteq> []" by (simp add: PRODUCTION_MATRIX_TERMS_def)
  note gate = require_texts_ok_iff[OF this]
  note checklist = require_texts_ok_iff[of "[(''security signoff checklist'', ''security signoff''), (''privacy review checklist'', ''privacy review'')]"]
  show ?thesis
    unfolding validate_production_matrix_def Let_def production_matrix_stated_def thenE_ok_iff bindE_ok_iff raise_if_ok_iff reraise_ok_iff
      forE_ok_iff case_prod_ok_iff gate using checklist by auto
qed

section \<open>The command\<close>

definition governed :: "governance_tools \<Rightarrow> env \<Rightarrow> json_object \<Rightarrow> bool" where
  "governed tools env d \<longleftrightarrow> (\<exists>sources. declared_sources d sources \<and> (\<forall>s \<in> set sources. source_current tools env s))"

lemma accepted_iff_governed:
  "(\<exists>sources. parse_manifest env p = Inr sources \<and> validate_sources tools env sources = Inr ()) \<longleftrightarrow>
     (\<exists>d. load_json_object_gv env p ''governance manifest'' = Inr d \<and> governed tools env d)"
proof -
  have "validate_sources tools env sources = Inr () \<longleftrightarrow> (\<forall>s \<in> set sources. source_current tools env s)" if "declared_sources d sources" for d sources
  proof (rule validate_sources_iff)
    from that have table: "covers_table sources" by (auto simp: declared_sources_def)
    then show "\<forall>s \<in> set sources. required s" by (simp add: covers_table_def)
    from table show "sources \<noteq> []" by (rule covers_table_nonempty)
  qed
  then show ?thesis by (auto simp: parse_manifest_ok_iff governed_def)
qed

lemma run_gv_manifest:
  assumes "parse_args_gv argv = Inr args" and "\<not> gv_self_test args"
  shows "(\<exists>line. main_gv self_test tools env argv = Inr (line, 0)) \<longleftrightarrow>
    (\<exists>sources. parse_manifest env (gv_manifest args) = Inr sources \<and> validate_sources tools env sources = Inr ()) \<and>
    (if require_production_matrix args then validate_production_matrix env = Inr () else True)"
  using assms by (auto simp: main_gv_def run_gv_def Let_def bindE_ok_iff thenE_ok_iff split: sum.splits if_splits)

text \<open>
  C10: the governance command, with or without the production matrix, exits with 0 exactly when the
  manifest lists the table of governance sources, each required, with the table's purpose and the hash of its file, no two rows
  spelling the same path, and each is tracked and not ignored unless the archive variable is set; with the production
  matrix, the release documents must also state every term of the matrix and the release summary must deny production readiness.
\<close>

theorem governance_command_verdict:
  "(\<exists>line. main_gv self_test tools env (''--manifest'' # m # (if strict then [''--require-production-matrix''] else [])) = Inr (line, 0)) \<longleftrightarrow>
     (\<exists>d. load_json_object_gv env (mk_path m) ''governance manifest'' = Inr d \<and> governed tools env d) \<and>
     (if strict then production_matrix_stated env else True)"
proof -
  have args: "parse_args_gv (''--manifest'' # m # (if strict then [''--require-production-matrix''] else [])) =
      Inr \<lparr> gv_manifest = mk_path m, require_production_matrix = strict, gv_self_test = False \<rparr>"
    by (simp add: parse_args_gv_def)
  show ?thesis
    unfolding run_gv_manifest[OF args, simplified] accepted_iff_governed validate_production_matrix_iff by (simp cong: if_cong)
qed

text \<open>
  Two rows that spell one path differently are both accepted by the loop: \<^verbatim>\<open>seen\<close> holds the texts of the manifest while the
  contract compares the normalized paths.
\<close>

definition ci_row :: "string \<Rightarrow> json" where
  "ci_row p = JObj [(''path'', JStr p), (''purpose'', JStr ''CI gate documentation for lab readiness checks''), (''required'', JBool True),
     (''sha256'', JStr (replicate 64 CHR ''0''))]"

theorem dotted_source_repeats:
  "\<exists>seen s. foldE source_step ([], []) (enumerate_from 0 [ci_row ''docs/ci.md'', ci_row ''./docs/ci.md'']) = Inr (seen, [s, s])"
proof -
  have "mk_path ''./docs/ci.md'' = mk_path ''docs/ci.md''" by code_simp
  moreover have "source_path_ok ''docs/ci.md''" "source_path_ok ''./docs/ci.md''" by code_simp+
  moreover have "sha256_text (replicate 64 CHR ''0'')" by (simp add: sha256_text_def)
  ultimately have "list_all2 declares [ci_row ''docs/ci.md'', ci_row ''./docs/ci.md'']
      (replicate 2 \<lparr> source_path = mk_path ''docs/ci.md'', purpose = ''CI gate documentation for lab readiness checks'', required = True,
        digest = replicate 64 CHR ''0'' \<rparr>)"
    by (simp add: declares_def ci_row_def jget_def numeral_2_eq_2)
  then show ?thesis
    unfolding source_loop_ok by (fastforce simp: raw_path_def ci_row_def jget_def numeral_2_eq_2)
qed

end
