(* ===== verification/Spec2Isabelle.thy ===== *)
theory Spec2Isabelle
  imports MatrixRunManifest LabObserve ProtectedCoreSuite LabSummary VerifierLog EvidenceManifest LiveEvidence BundleFreshness DaemonAssert BundleCompare Governance
begin

text \<open>
  A verification development for the Python evidence validators of the repository, the modules under
  \<^verbatim>\<open>src/qa\<close>, and for the assertions on daemon transcripts under \<^verbatim>\<open>src/tools\<close>.

  \<^bold>\<open>The program.\<close> The scheduler under test runs in a VM; the harness leaves JSON artifacts behind. The
  validators decide whether such evidence may be believed: they read the artifacts, follow the references
  between them, compare hashes, and return or raise. They keep no state between runs; their state is the
  bookkeeping of their loops (identifiers seen, the last sequence number, flags). A claim of the repository,
  that a matrix row passed, that an attach was rolled back, that a runner was clean, is worth what these checks
  enforce, so the theorems say what follows from acceptance, which inputs are accepted, and which exceptions
  escape.

  \<^bold>\<open>Foundations.\<close>
  \<^item> \<open>Prelude\<close>: Python calls as \<open>exn + 'a\<close>, statement sequencing, loops, strings; the collections
    \<open>ok_iff\<close> (a call returned iff its checks passed) and \<open>raises_intro\<close> (which exceptions a
    statement lets through).
  \<^item> \<open>CharBits\<close>, \<open>PyRegex\<close>: character evaluation and the part of \<^verbatim>\<open>re\<close> that is used, as a
    backtracking matcher with its common patterns characterised. \<open>RegexGroups\<close>: groups, with the laws that
    read them back from the languages of the pieces of a pattern.
  \<^item> \<open>PyJson\<close>: JSON values with Python's equality and \<^verbatim>\<open>isinstance\<close>, \<^verbatim>\<open>pathlib\<close>, the environment
    (files, hashes, JSON decoder, symbolic links, git) as the record \<open>env\<close>, and the locale of scanners
    that walk a document.
  \<^item> \<open>Readers\<close>: the interfaces the components share, as locales: typed readers of values and fields,
    loops that reject a repeated key, loops over increasing numbers, JSON Lines readers. Every component
    interprets them on its own functions, and its theorems rest on the facts of the interpretation.

  \<^bold>\<open>Components\<close>, each a theory with the model first, in the order of the source, then what acceptance
  means, a run of the model on a concrete input, and the exceptions.
  \<^item> \<open>BenchmarkOutput\<close> (\<^verbatim>\<open>benchmark_output_*.py\<close>): benchmark records make no claim and hold nothing
    private. \<open>BenchmarkProvenance\<close> (\<^verbatim>\<open>matrix_benchmark_provenance.py\<close>): the records behind a matrix
    row are distinct, below the run's directory and hash-matched.
  \<^item> \<open>RuntimeCommon\<close>, \<open>PolicyAbi\<close>, \<open>RuntimeSample\<close> (\<^verbatim>\<open>runtime_sample_*.py\<close>): the tokenizer of
    key names, the policy ABI contract as a refinement of a declarative one, the history of a file of samples.
  \<^item> \<open>DaemonEvent\<close> (\<^verbatim>\<open>daemon_event_contract_check.py\<close>), \<open>AuditLedger\<close> (\<^verbatim>\<open>audit_ledger_check.py\<close>),
    \<open>PartialAttach\<close> (\<^verbatim>\<open>partial_attach_check.py\<close>, \<^verbatim>\<open>evidence_safety_check.py\<close>): numbered streams,
    ledgers of distinct and hash-matched entries, rolled-back attaches.
  \<^item> \<open>LabObserve\<close> (\<^verbatim>\<open>lab_summary_observe.py\<close>), \<open>LiveBehavior\<close> (\<^verbatim>\<open>live_behavior_check.py\<close>): they
    compose the former into an observation and a live bundle, whose samples show a complete attach episode.
    \<open>LabSummary\<close> (\<^verbatim>\<open>lab_summary_backend.py\<close>, \<^verbatim>\<open>lab_summary_check.py\<close>) wraps both.
  \<^item> \<open>MatrixRunModel\<close>, \<open>MatrixRunJson\<close>, \<open>MatrixRunWorkload\<close>, \<open>MatrixRunValidate\<close>,
    \<open>MatrixRunManifest\<close> (\<^verbatim>\<open>matrix_run_*.py\<close>): the row contract as a declarative predicate,
    which acceptance implies and which, with the further demands of the schema file, implies acceptance; the workload artifacts,
    the fixture pack, and the manifest, in which every row is backed by artifacts that were read and accepted (of the policy, only the
    place of its object is checked); a passing live row leads to the live bundle beside it and to the artifacts that bundle lists.
  \<^item> \<open>ProtectedCoreTelemetry\<close>, \<open>ProtectedCoreSuite\<close> (\<^verbatim>\<open>protected_core_telemetry_check.py\<close>,
    \<^verbatim>\<open>protected_core_suite_check.py\<close>): the telemetry contract of samples captured in the VM, and the suite
    of exactly four passing rows that rests on it and on the matrix-run loader.
  \<^item> \<open>RunnerCleanliness\<close> (\<^verbatim>\<open>runner_cleanliness_proof_check.py\<close>): a passing runner is new and gone.
    \<open>ProtectedReview\<close> (\<^verbatim>\<open>protected_environment_review_check.py\<close>): the approval of one run, as an equivalence
    with a declarative contract that reads the groups of the two URL patterns back. \<open>RunnerSubstrate\<close>
    (\<^verbatim>\<open>runner_substrate_proof_check.py\<close>) rests on both: what a passing run ran on, and by whom it was approved.
  \<^item> \<open>BpfArtifacts\<close>, \<open>VerifierVm\<close>, \<open>VerifierLog\<close> (\<^verbatim>\<open>bpf_artifacts.py\<close>, \<^verbatim>\<open>verifier_vm_check.py\<close>,
    \<^verbatim>\<open>verifier_log_check.py\<close>, \<^verbatim>\<open>verifier_refusal_check.py\<close>): the BPF object, which may have to be built first, so
    that the environment is threaded as a state; the evidence that the kernel's verifier accepted it; the parser
    of verifier logs, with the logs that pass characterised and the type of every result.
  \<^item> \<open>EvidenceManifest\<close> (\<^verbatim>\<open>evidence_manifest_check.py\<close>): the list of all artifacts of a VM proof, with
    a declarative contract and the further demands of the schema file, as for the rows: hashes, roles, tracked sources, the scan of every artifact for claims and
    private text, and the review, which its own checker accepts. \<open>LiveEvidence\<close> (\<^verbatim>\<open>live_lab_evidence_check.py\<close>):
    journals and proofs of a live run, again as an equivalence. \<open>BundleFreshness\<close>
    (\<^verbatim>\<open>live_bundle_freshness_check.py\<close>): a live bundle belongs to the present revision, tree and BPF object; it
    threads the environment through the build of \<open>BpfArtifacts\<close>, and the verdicts on the bundles of its self-test
    are derived.
  \<^item> \<open>BundleCompare\<close> (\<^verbatim>\<open>evidence_bundle_compare_check.py\<close>, \<^verbatim>\<open>evidence_bundle_paths.py\<close>): two bundles of
    evidence are indexed and compared; what an index shows, that the label of a side influences messages only, and
    that the comparison is equality of a fingerprint of each side. \<open>Governance\<close> (\<^verbatim>\<open>governance_manifest_check.py\<close>):
    the manifest of the sources a release rests on, as an equivalence with the table of expected sources, their tracking and hashes.
  \<^item> \<open>DaemonAssert\<close> (\<^verbatim>\<open>tools/daemon_stdio_assert.py\<close>): what the transcript of a daemon session must show; its
    loops are instances of a locale of loops that update a state and test it, from which the statements about what
    precedes what follow.

  \<^bold>\<open>Names.\<close> Definitions carry the names of the source; where two modules share a name, a suffix tells the
  module (\<open>_mr\<close> matrix run, \<open>_bo\<close> benchmark output, \<open>_bp\<close> provenance, \<open>_rs\<close> runtime sample,
  \<open>_pa\<close> policy ABI, \<open>_de\<close> daemon event, \<open>_al\<close> audit ledger, \<open>_pt\<close> partial attach, \<open>_ob\<close>
  observation, \<open>_lb\<close> live behaviour, \<open>_ct\<close> and \<open>_cs\<close> protected-core telemetry and suite,
  \<open>_sb\<close> and \<open>_sm\<close> backend and lab summaries, \<open>_rc\<close> runner cleanliness, \<open>_pr\<close>
  protected review, \<open>_rp\<close> runner substrate proof, \<open>_ba\<close> BPF artifacts, \<open>_vm\<close>, \<open>_rf\<close> and \<open>_vl\<close> verifier
  evidence, refusals and logs, \<open>_em\<close> evidence manifest, \<open>_le\<close> live evidence, \<open>_bf\<close> bundle freshness, \<open>_da\<close>
  daemon assertions, \<open>_bc\<close> bundle comparison, \<open>_gv\<close> governance). The body of a loop that
  needs a name of its own is a separate definition.

  \<^bold>\<open>Bounds and idealisations.\<close> Strings hold the code points below 256, with Python's character classes on
  that range; the interpreter's limit of 4300 digits for \<^verbatim>\<open>int\<close> of a text is part of the model, and so are
  the conversion limits of \<^verbatim>\<open>math.isfinite\<close>. The iteration of a starred pattern is bounded by the length
  of the rest of the subject, which a match that consumes something cannot exceed. All loops are structural or
  have a measure, so no fuel is needed; the argument loop of the substrate command, which runs on an index, is a
  partial function and is proved to return. Reading the same file twice gives the same text: a file that changes
  during a check is not represented. The JSON decoder fails in three ways, with the error the callers expect, with the
  \<^verbatim>\<open>ValueError\<close> of an integer literal over the interpreter's limit and with the \<^verbatim>\<open>RecursionError\<close> of a document nested too
  deeply; a path with a null character raises \<^verbatim>\<open>ValueError\<close> where a file is read or a path resolved. What the environment may
  raise is the hypothesis \<open>io_env\<close> of the theorems on exceptions, and the witnesses instantiate it with a concrete set of
  files. The recursion of the validators themselves over a decoded document has no such limit in the model.

  \<^bold>\<open>The schema files.\<close> The validators of matrix rows, evidence manifests and substrate proofs do not enforce everything that the JSON
  schema files of these documents demand. The contracts here describe what the code enforces; the demands it
  leaves out are definitions of their own (\<open>schema_demands\<close>, \<open>schema_demands_em\<close>) or excluded by a hypothesis (the tuple of
  7.1.2-3 in \<open>RunnerSubstrate\<close>), so that no property asserts the acceptance of a document its schema file forbids.

  \<^bold>\<open>Not modelled.\<close> The self-tests, which write temporary trees and call the validators on them (they are
  parameters of the commands that run them); \<^verbatim>\<open>argparse\<close>; the parsers of raw benchmark output, which
  compute with binary64 floats; the checks of committed schemas, documents and golden transcripts; the
  emitters and drivers that start VMs, compilers, sockets and \<^verbatim>\<open>bpftool\<close>; the C++, BPF and Zig parts of
  the repository. The BPF build script and the
  writing of a result are parameters of the operations that call them, and so are \<^verbatim>\<open>git\<close>, the bytes of a
  file and UTF-8 decoding where the code calls them. Not modelled either are the checks of packaged archives, of
  calibration records and of the release gate.
\<close>

end
